(* ===== verification/Prelude.thy ===== *)
theory Prelude
  imports Complex_Main
begin

text \<open>
  Shared vocabulary of the development.  The server is TypeScript, so the theories need the
  same few notions again and again: the exceptions a call can end with (a sum type, the error
  on the left), the truth value of an optional number or string, the idiom \<open>x || 0\<close>, and a
  fold that stops at the first exception.  The locales at the end lift a fact about one
  operation to a fact about a whole run of operations; every stateful component interprets
  them on its own operation.
\<close>

section \<open>Simplification collections\<close>

named_theorems js_simps \<open>truth values and defaults of optional JavaScript values\<close>
named_theorems res_simps \<open>rules about results that may be an exception\<close>

section \<open>Exceptions as values\<close>

text \<open>
  The exceptions the modelled code can end with: the engine's own \<open>TypeError\<close> (a property
  of \<open>undefined\<close> or \<open>null\<close> is read), the error the decimal library raises on an argument
  that is not a number, the application's \<open>BackendError\<close> with its message,
  \<open>AppAuthError\<close>, an \<open>Error\<close> with its message, the error of the database when a document with the
  same identifier exists, and the REST server's \<open>AppError\<close> with its status code and message.
\<close>

datatype js_error = TypeError | DecimalError | BackendError string | AppAuthError | PlainError string | DuplicateKey
  | AppError nat string

type_synonym 'a res = "js_error + 'a"

fun bindE :: "'a res \<Rightarrow> ('a \<Rightarrow> 'b res) \<Rightarrow> 'b res" where
  "bindE (Inl e) f = Inl e"
| "bindE (Inr a) f = f a"

fun foldE :: "('s \<Rightarrow> 'x \<Rightarrow> 's res) \<Rightarrow> 's \<Rightarrow> 'x list \<Rightarrow> 's res" where
  "foldE f s [] = Inr s"
| "foldE f s (x # xs) = bindE (f s x) (\<lambda>s'. foldE f s' xs)"

lemma bindE_Inr_iff [res_simps]:
  "bindE m f = Inr b \<longleftrightarrow> (\<exists>a. m = Inr a \<and> f a = Inr b)"
  by (cases m) auto

lemma bindE_Inl_iff [res_simps]:
  "bindE m f = Inl e \<longleftrightarrow> m = Inl e \<or> (\<exists>a. m = Inr a \<and> f a = Inl e)"
  by (cases m) auto

fun succeeds :: "'a res \<Rightarrow> bool" where
  "succeeds (Inl e) = False"
| "succeeds (Inr a) = True"

lemma succeeds_iff: "succeeds r \<longleftrightarrow> (\<exists>a. r = Inr a)"
  by (cases r) simp_all

lemma foldE_append: "foldE f s (xs @ ys) = bindE (foldE f s xs) (\<lambda>s'. foldE f s' ys)"
proof (induction xs arbitrary: s)
  case Nil
  then show ?case by simp
next
  case (Cons x xs)
  then show ?case by (cases "f s x") simp_all
qed

section \<open>Optional values\<close>

text \<open>
  An optional field of an interface is an \<open>option\<close>; \<open>None\<close> is \<open>undefined\<close> or \<open>null\<close>.
  A number is false in a condition when it is absent or zero, a string when it is absent or
  empty.  \<open>num0 x\<close> is the idiom \<open>x || 0\<close>.
\<close>

fun truthy_num :: "'a::zero option \<Rightarrow> bool" where
  "truthy_num None = False"
| "truthy_num (Some x) = (x \<noteq> 0)"

fun truthy_str :: "string option \<Rightarrow> bool" where
  "truthy_str None = False"
| "truthy_str (Some s) = (s \<noteq> [])"

fun num0 :: "'a::zero option \<Rightarrow> 'a" where
  "num0 None = 0"
| "num0 (Some x) = x"

fun str_or :: "string option \<Rightarrow> string \<Rightarrow> string" where
  "str_or None d = d"
| "str_or (Some s) d = (if s = [] then d else s)"

text \<open>A comparison with \<open>undefined\<close> is false: \<open>gt x y\<close> is the code's \<open>x > y\<close>.\<close>

fun gt :: "'a::ord option \<Rightarrow> 'a \<Rightarrow> bool" where
  "gt None y = False"
| "gt (Some x) y = (y < x)"

lemma truthy_num_iff [js_simps]: "truthy_num x \<longleftrightarrow> (\<exists>v. x = Some v \<and> v \<noteq> 0)"
  by (cases x) auto

lemma truthy_str_iff [js_simps]: "truthy_str x \<longleftrightarrow> (\<exists>v. x = Some v \<and> v \<noteq> [])"
  by (cases x) auto

lemma gt_iff [js_simps]: "gt x y \<longleftrightarrow> (\<exists>v. x = Some v \<and> y < v)"
  by (cases x) auto

lemma gt_num0: "gt x (0::'a::linordered_field) \<longleftrightarrow> 0 < num0 x"
  by (cases x) auto

section \<open>Lists searched by a condition\<close>

text \<open>The first index whose element satisfies a condition, as \<open>filter(...)[0]\<close> finds it.\<close>

fun first_index :: "('a \<Rightarrow> bool) \<Rightarrow> 'a list \<Rightarrow> nat option" where
  "first_index p [] = None"
| "first_index p (x # xs) = (if p x then Some 0 else map_option Suc (first_index p xs))"

lemma first_index_None: "first_index p xs = None \<longleftrightarrow> (\<forall>x \<in> set xs. \<not> p x)"
  by (induction xs) auto

lemma first_index_Some:
  "first_index p xs = Some i \<Longrightarrow> i < length xs \<and> p (xs ! i) \<and> (\<forall>j < i. \<not> p (xs ! j))"
proof (induction xs arbitrary: i)
  case Nil
  then show ?case by simp
next
  case (Cons x xs)
  show ?case
  proof (cases "p x")
    case True
    with Cons.prems show ?thesis by simp
  next
    case False
    with Cons.prems obtain k where k: "first_index p xs = Some k" and i: "i = Suc k"
      by auto
    from Cons.IH [OF k] False show ?thesis
      unfolding i by (auto simp: less_Suc_eq_0_disj)
  qed
qed

lemma first_index_filter:
  "first_index p xs = Some i \<Longrightarrow> \<exists>ys. filter p xs = xs ! i # ys"
  by (induction xs arbitrary: i) (auto split: if_splits)

lemma sum_list_nonneg_rat:
  "\<forall>x \<in> set xs. (0::rat) \<le> x \<Longrightarrow> 0 \<le> sum_list xs"
  by (rule sum_list_nonneg) simp

section \<open>Texts with separators\<close>

text \<open>What stands before the first separator is determined.\<close>

lemma split_at_separator:
  assumes "a @ c # x = b @ c # y" "c \<notin> set a" "c \<notin> set b"
  shows "a = b \<and> x = y"
  using assms by (auto simp: append_eq_append_conv2 Cons_eq_append_conv append_eq_Cons_conv)

section \<open>From one operation to a run of operations\<close>

text \<open>
  \<open>step\<close> is an operation on the state \<open>'s\<close> with an input \<open>'x\<close> that may raise; \<open>ok\<close> is
  what the environment promises of each input.  A component provides the preservation law
  for one operation, and obtains it for every run.
\<close>

locale invariant_run =
  fixes step :: "'s \<Rightarrow> 'x \<Rightarrow> 's res"
    and ok :: "'x \<Rightarrow> bool"
    and inv :: "'s \<Rightarrow> bool"
  assumes step_inv: "inv s \<Longrightarrow> ok x \<Longrightarrow> step s x = Inr s' \<Longrightarrow> inv s'"
begin

lemma run_inv: "inv s \<Longrightarrow> list_all ok xs \<Longrightarrow> foldE step s xs = Inr s' \<Longrightarrow> inv s'"
proof (induction xs arbitrary: s)
  case Nil
  then show ?case by simp
next
  case (Cons x xs)
  then obtain t where "step s x = Inr t" and "foldE step t xs = Inr s'"
    by (auto simp: res_simps)
  with Cons show ?case by (auto intro: step_inv)
qed

end

text \<open>A component whose operation also never raises while the invariant holds.\<close>

locale total_run = invariant_run +
  assumes step_total: "inv s \<Longrightarrow> ok x \<Longrightarrow> \<exists>s'. step s x = Inr s'"
begin

lemma run_total: "inv s \<Longrightarrow> list_all ok xs \<Longrightarrow> \<exists>s'. foldE step s xs = Inr s' \<and> inv s'"
proof (induction xs arbitrary: s)
  case Nil
  then show ?case by simp
next
  case (Cons x xs)
  from Cons.prems obtain t where t: "step s x = Inr t" using step_total by fastforce
  with Cons.prems have "inv t" by (auto intro: step_inv)
  with Cons t show ?case by simp
qed

end

text \<open>
  A component whose operation changes a quantity \<open>m\<close> of the state exactly by what it
  outputs (\<open>out\<close>, read off the states before and after): over a run the changes telescope.
\<close>

locale metered_run = invariant_run +
  fixes m :: "'s \<Rightarrow> rat"
    and out :: "'s \<Rightarrow> 'x \<Rightarrow> rat"
  assumes step_meter: "inv s \<Longrightarrow> ok x \<Longrightarrow> step s x = Inr s' \<Longrightarrow> m s' = m s + out s x"
begin

fun outs :: "'s \<Rightarrow> 'x list \<Rightarrow> rat" where
  "outs s [] = 0"
| "outs s (x # xs) = out s x + (case step s x of Inl e \<Rightarrow> 0 | Inr s' \<Rightarrow> outs s' xs)"

lemma run_meter:
  "inv s \<Longrightarrow> list_all ok xs \<Longrightarrow> foldE step s xs = Inr s' \<Longrightarrow> m s' = m s + outs s xs"
proof (induction xs arbitrary: s)
  case Nil
  then show ?case by simp
next
  case (Cons x xs)
  then obtain t where t: "step s x = Inr t" and r: "foldE step t xs = Inr s'"
    by (auto simp: res_simps)
  with Cons.prems have "inv t" by (auto intro: step_inv)
  with Cons r t show ?case by (simp add: step_meter)
qed

end

end
