(* ===== verification/Decimals.thy ===== *)
theory Decimals
  imports Prelude
begin

text \<open>
  Numbers.  A JavaScript number is represented by the rational that its shortest decimal
  notation denotes, which is the value the decimal library reads from it; \<open>NaN\<close> and the
  infinities are not represented.  A \<open>Decimal\<close> object is its rational value.

  The library decimal.js and the conversion back to a number are not in the repository.  They
  are two parameters: \<open>dec R\<close> rounds the exact result of an operation to the configured
  number of significant digits, \<open>num R\<close> is \<open>Decimal.toNumber\<close>, the nearest JavaScript
  number.  \<open>fl R\<close> is the engine's own binary floating point arithmetic, where the code uses
  the operators of the language.  The time zone functions of moment, the time zone
  of a pair of coordinates (tz-lookup) and the time read from the clock, with which a missing date
  is replaced, are parameters too.
  \<open>runtime_ok\<close> collects what is documented of the rounding functions: \<open>dec\<close> and \<open>num\<close> are
  monotone, twenty significant decimal digits survive \<open>dec\<close> and fifteen survive \<open>num\<close>, and the
  floating point operators are exact on integers of at most fifteen digits.
\<close>

section \<open>The runtime the server is linked with\<close>

datatype js_operator = Plus | Minus | Times | Divide | Remainder

definition rtrunc :: "rat \<Rightarrow> rat" where
  "rtrunc x = (if 0 \<le> x then of_int \<lfloor>x\<rfloor> else of_int \<lceil>x\<rceil>)"

fun exact_op :: "js_operator \<Rightarrow> rat \<Rightarrow> rat \<Rightarrow> rat" where
  "exact_op Plus a b = a + b"
| "exact_op Minus a b = a - b"
| "exact_op Times a b = a * b"
| "exact_op Divide a b = a / b"
| "exact_op Remainder a b = a - b * rtrunc (a / b)"

record runtime =
  dec :: "rat \<Rightarrow> rat"
  num :: "rat \<Rightarrow> rat"
  fl :: "js_operator \<Rightarrow> rat \<Rightarrow> rat \<Rightarrow> rat"
  iso_weekday :: "string \<Rightarrow> int \<Rightarrow> nat"
  local_time :: "string \<Rightarrow> int \<Rightarrow> string"
  lookup_timezone :: "rat \<Rightarrow> rat \<Rightarrow> string"
  clock :: int

definition runtime_ok :: "runtime \<Rightarrow> bool" where
  "runtime_ok R \<longleftrightarrow>
     (\<forall>x y. x \<le> y \<longrightarrow> dec R x \<le> dec R y) \<and>
     (\<forall>x y. x \<le> y \<longrightarrow> num R x \<le> num R y) \<and>
     (\<forall>(n::int) (k::nat). \<bar>n\<bar> \<le> 10 ^ 20 \<longrightarrow> dec R (of_int n / 10 ^ k) = of_int n / 10 ^ k) \<and>
     (\<forall>(n::int) (k::nat). \<bar>n\<bar> \<le> 10 ^ 15 \<longrightarrow> num R (of_int n / 10 ^ k) = of_int n / 10 ^ k) \<and>
     (\<forall>p (a::int) (b::int) (c::int).
        \<bar>a\<bar> \<le> 10 ^ 15 \<and> \<bar>b\<bar> \<le> 10 ^ 15 \<and> \<bar>c\<bar> \<le> 10 ^ 15 \<and> (p \<in> {Divide, Remainder} \<longrightarrow> b \<noteq> 0)
        \<and> exact_op p (of_int a) (of_int b) = of_int c \<longrightarrow> fl R p (of_int a) (of_int b) = of_int c)"

text \<open>A runtime whose arithmetic does not round, in the time zone of the server (UTC).\<close>

definition exact_runtime :: "(string \<Rightarrow> int \<Rightarrow> nat) \<Rightarrow> (string \<Rightarrow> int \<Rightarrow> string) \<Rightarrow> runtime" where
  "exact_runtime wd lt = \<lparr>dec = (\<lambda>x. x), num = (\<lambda>x. x), fl = exact_op, iso_weekday = wd, local_time = lt,
     lookup_timezone = (\<lambda>_ _. ''UTC''), clock = 0\<rparr>"

lemma exact_runtime_sel [simp]:
  "dec (exact_runtime wd lt) = (\<lambda>x. x)" "num (exact_runtime wd lt) = (\<lambda>x. x)"
  "fl (exact_runtime wd lt) = exact_op"
  "iso_weekday (exact_runtime wd lt) = wd" "local_time (exact_runtime wd lt) = lt"
  by (simp_all add: exact_runtime_def)

text \<open>Exact arithmetic, whatever the clock and the time zones.\<close>

definition exact :: "runtime \<Rightarrow> bool" where
  "exact R \<longleftrightarrow> dec R = (\<lambda>x. x) \<and> num R = (\<lambda>x. x) \<and> fl R = exact_op"

lemma exact_runtime_exact [simp]: "exact (exact_runtime wd lt)"
  by (simp add: exact_def)

lemma exact_runtime_ok: "runtime_ok (exact_runtime wd lt)"
  by (simp add: runtime_ok_def)

lemma dec_mono: "runtime_ok R \<Longrightarrow> x \<le> y \<Longrightarrow> dec R x \<le> dec R y"
  and num_mono: "runtime_ok R \<Longrightarrow> x \<le> y \<Longrightarrow> num R x \<le> num R y"
  unfolding runtime_ok_def by blast+

lemma dec_digits: "runtime_ok R \<Longrightarrow> \<bar>n\<bar> \<le> 10 ^ 20 \<Longrightarrow> dec R (of_int n / 10 ^ k) = of_int n / 10 ^ k"
  and num_digits: "runtime_ok R \<Longrightarrow> \<bar>n\<bar> \<le> 10 ^ 15 \<Longrightarrow> num R (of_int n / 10 ^ k) = of_int n / 10 ^ k"
  unfolding runtime_ok_def by blast+

lemma fl_int:
  "runtime_ok R \<Longrightarrow> \<bar>a\<bar> \<le> 10 ^ 15 \<Longrightarrow> \<bar>b\<bar> \<le> 10 ^ 15 \<Longrightarrow> \<bar>c\<bar> \<le> 10 ^ 15 \<Longrightarrow> (p \<in> {Divide, Remainder} \<longrightarrow> b \<noteq> 0) \<Longrightarrow>
     exact_op p (of_int a) (of_int b) = of_int c \<Longrightarrow> fl R p (of_int a) (of_int b) = of_int c"
  unfolding runtime_ok_def by blast

lemma dec_int: "runtime_ok R \<Longrightarrow> \<bar>n\<bar> \<le> 10 ^ 20 \<Longrightarrow> dec R (of_int n) = of_int n"
  using dec_digits [of R n 0] by simp

lemma num_int: "runtime_ok R \<Longrightarrow> \<bar>n\<bar> \<le> 10 ^ 15 \<Longrightarrow> num R (of_int n) = of_int n"
  using num_digits [of R n 0] by simp

lemma dec_int15: "runtime_ok R \<Longrightarrow> \<bar>n\<bar> \<le> 10 ^ 15 \<Longrightarrow> dec R (of_int n) = of_int n"
  by (rule dec_int) simp_all

lemma dec_zero: "runtime_ok R \<Longrightarrow> dec R 0 = 0"
  using dec_int [of R 0] by simp

lemma num_zero: "runtime_ok R \<Longrightarrow> num R 0 = 0"
  using num_int [of R 0] by simp

lemma dec_nonneg: "runtime_ok R \<Longrightarrow> 0 \<le> x \<Longrightarrow> 0 \<le> dec R x"
  using dec_mono [of R 0 x] by (simp add: dec_zero)

lemma num_nonneg: "runtime_ok R \<Longrightarrow> 0 \<le> x \<Longrightarrow> 0 \<le> num R x"
  using num_mono [of R 0 x] by (simp add: num_zero)

section \<open>Operations of the decimal library\<close>

text \<open>
  \<open>plus\<close>, \<open>minus\<close>, \<open>times\<close>, \<open>div\<close> and \<open>divToInt\<close> round their result; the constructor,
  \<open>trunc\<close>, \<open>round\<close> and the comparisons are exact.  No caller of the model divides by zero: each
  modelled division is by a literal, by a truthy step size, by a positive duration or by a
  voltage that was tested.
\<close>

definition d_add :: "runtime \<Rightarrow> rat \<Rightarrow> rat \<Rightarrow> rat" where "d_add R a b = dec R (a + b)"
definition d_sub :: "runtime \<Rightarrow> rat \<Rightarrow> rat \<Rightarrow> rat" where "d_sub R a b = dec R (a - b)"
definition d_mul :: "runtime \<Rightarrow> rat \<Rightarrow> rat \<Rightarrow> rat" where "d_mul R a b = dec R (a * b)"
definition d_div :: "runtime \<Rightarrow> rat \<Rightarrow> rat \<Rightarrow> rat" where "d_div R a b = dec R (a / b)"

definition d_div_to_int :: "runtime \<Rightarrow> rat \<Rightarrow> rat \<Rightarrow> rat" where
  "d_div_to_int R a b = dec R (rtrunc (a / b))"

text \<open>\<open>Decimal.round\<close> with the library's default mode: half away from zero.\<close>

definition d_round :: "rat \<Rightarrow> rat" where
  "d_round x = (if 0 \<le> x then of_int \<lfloor>x + 1 / 2\<rfloor> else - of_int \<lfloor>- x + 1 / 2\<rfloor>)"

lemmas d_ops = d_add_def d_sub_def d_mul_def d_div_def d_div_to_int_def

lemma rtrunc_zero [simp]: "rtrunc 0 = 0"
  by (simp add: rtrunc_def)

lemma rtrunc_of_int [simp]: "rtrunc (of_int n) = of_int n"
  by (simp add: rtrunc_def)

lemma rtrunc_nonneg: "0 \<le> x \<Longrightarrow> 0 \<le> rtrunc x"
  by (simp add: rtrunc_def)

lemma rtrunc_le: "0 \<le> x \<Longrightarrow> rtrunc x \<le> x"
  by (simp add: rtrunc_def)

lemma rtrunc_gt: "0 \<le> x \<Longrightarrow> x - 1 < rtrunc x"
  by (simp add: rtrunc_def) linarith

lemma rtrunc_pos_iff: "0 < rtrunc x \<longleftrightarrow> 1 \<le> x"
proof (cases "0 \<le> x")
  case True
  then show ?thesis by (simp add: rtrunc_def zero_less_floor)
next
  case False
  then have "\<lceil>x\<rceil> \<le> 0" by simp
  with False show ?thesis by (simp add: rtrunc_def)
qed

section \<open>Numeric helpers of the server (utils/Utils.ts)\<close>

text \<open>\<open>createDecimal\<close> reads a missing value as zero.\<close>

definition createDecimal :: "rat option \<Rightarrow> rat" where
  "createDecimal v = (case v of None \<Rightarrow> 0 | Some x \<Rightarrow> x)"

definition truncTo :: "runtime \<Rightarrow> rat \<Rightarrow> nat \<Rightarrow> rat" where
  "truncTo R v scale =
     (let truncPower = 10 ^ scale
      in num R (d_div R (rtrunc (d_mul R v truncPower)) truncPower))"

definition roundTo :: "runtime \<Rightarrow> rat \<Rightarrow> nat \<Rightarrow> rat" where
  "roundTo R v scale =
     (let roundPower = 10 ^ scale
      in num R (d_div R (d_round (d_mul R v roundPower)) roundPower))"

text \<open>
  \<open>Decimal.min(a, b).toNumber()\<close> is one of its two arguments, which are numbers already.
\<close>

definition minValue :: "'a::linorder \<Rightarrow> 'a \<Rightarrow> 'a" where
  "minValue v1 v2 = min v1 v2"

definition computeSimplePrice :: "runtime \<Rightarrow> rat \<Rightarrow> rat option \<Rightarrow> rat" where
  "computeSimplePrice R pricePerkWh consumptionWh =
     num R (d_div R (d_mul R pricePerkWh (num0 consumptionWh)) 1000)"

lemma createDecimal_simps [simp]: "createDecimal None = 0" "createDecimal (Some x) = x"
  by (simp_all add: createDecimal_def)

lemma createDecimal_num0: "createDecimal v = num0 v"
  by (cases v) simp_all

lemma truncTo_nonneg: "runtime_ok R \<Longrightarrow> 0 \<le> v \<Longrightarrow> 0 \<le> truncTo R v scale"
  by (simp add: truncTo_def d_ops Let_def num_nonneg dec_nonneg rtrunc_nonneg)

lemma truncTo_exact: "truncTo (exact_runtime wd lt) v scale = rtrunc (v * 10 ^ scale) / 10 ^ scale"
  by (simp add: truncTo_def d_ops Let_def)

end
