(* ===== verification/PricingTimeLimits.thy ===== *)
theory PricingTimeLimits
  imports Decimals
begin

text \<open>
  \<open>integration/pricing/simple-pricing/PricingTimeLimit.ts\<close>: times of day and the test whether
  a time lies in a tariff's time range, which may span midnight.  A component of a time that is
  not a number (\<open>NaN\<close>) is \<open>None\<close>; every comparison with it is false.
\<close>

section \<open>Reading an integer (Utils.convertToInt on a string, the built-in parseInt)\<close>

definition is_ws :: "char \<Rightarrow> bool" where
  "is_ws c \<longleftrightarrow> c \<in> {CHR '' '', CHR 0x09, CHR 0x0A, CHR 0x0B, CHR 0x0C, CHR 0x0D}"

definition digit_val :: "char \<Rightarrow> nat option" where
  "digit_val c =
     (let n = of_char c :: nat in
      if 48 \<le> n \<and> n \<le> 57 then Some (n - 48)
      else if 97 \<le> n \<and> n \<le> 102 then Some (n - 87)
      else if 65 \<le> n \<and> n \<le> 70 then Some (n - 55) else None)"

fun read_digits :: "nat \<Rightarrow> string \<Rightarrow> int option \<Rightarrow> int option" where
  "read_digits base [] acc = acc"
| "read_digits base (c # cs) acc =
     (case digit_val c of
        None \<Rightarrow> acc
      | Some d \<Rightarrow> if d < base then read_digits base cs (Some (num0 acc * int base + int d)) else acc)"

fun parse_radix :: "string \<Rightarrow> int option" where
  "parse_radix (c0 # c1 # cs) =
     (if c0 = CHR ''0'' \<and> (c1 = CHR ''x'' \<or> c1 = CHR ''X'') then read_digits 16 cs None
      else read_digits 10 (c0 # c1 # cs) None)"
| "parse_radix cs = read_digits 10 cs None"

definition parseInt :: "string \<Rightarrow> int option" where
  "parseInt s =
     (case dropWhile is_ws s of
        [] \<Rightarrow> None
      | c # cs \<Rightarrow>
          if c = CHR ''-'' then map_option uminus (parse_radix cs)
          else if c = CHR ''+'' then parse_radix cs
          else parse_radix (c # cs))"

text \<open>\<open>convertToInt\<close> on a string: the empty string is falsy and gives zero.\<close>

definition convertToInt :: "string \<Rightarrow> int option" where
  "convertToInt v = (if v = [] then Some 0 else parseInt v)"

section \<open>Times of day\<close>

record time_limit =
  hour :: "int option"
  minute :: "int option"
  second :: "int option"

definition slice :: "nat \<Rightarrow> nat \<Rightarrow> 'a list \<Rightarrow> 'a list" where
  "slice i j xs = take (j - i) (drop i xs)"

definition parseTime :: "string \<Rightarrow> time_limit" where
  "parseTime s =
     \<lparr>hour = convertToInt (slice 0 2 s),
      minute = convertToInt (slice 3 5 s),
      second = convertToInt (slice 6 8 s)\<rparr>"

text \<open>The operators \<open>===\<close> and \<open><\<close> on numbers that may be \<open>NaN\<close>.\<close>

fun eq_nan :: "int option \<Rightarrow> int option \<Rightarrow> bool" where
  "eq_nan (Some x) (Some y) = (x = y)"
| "eq_nan _ _ = False"

fun lt_nan :: "int option \<Rightarrow> int option \<Rightarrow> bool" where
  "lt_nan (Some x) (Some y) = (x < y)"
| "lt_nan _ _ = False"

definition isGreaterThan :: "time_limit \<Rightarrow> time_limit \<Rightarrow> bool" where
  "isGreaterThan a b =
     (if eq_nan (hour a) (hour b) then
        (if eq_nan (minute a) (minute b) then lt_nan (second b) (second a)
         else lt_nan (minute b) (minute a))
      else lt_nan (hour b) (hour a))"

definition isSameOrLowerThan :: "time_limit \<Rightarrow> time_limit \<Rightarrow> bool" where
  "isSameOrLowerThan a b = (\<not> isGreaterThan a b)"

definition isLowerThan :: "time_limit \<Rightarrow> time_limit \<Rightarrow> bool" where
  "isLowerThan a b =
     (if eq_nan (hour a) (hour b) then
        (if eq_nan (minute a) (minute b) then lt_nan (second a) (second b)
         else lt_nan (minute a) (minute b))
      else lt_nan (hour a) (hour b))"

definition isSameOrGreaterThan :: "time_limit \<Rightarrow> time_limit \<Rightarrow> bool" where
  "isSameOrGreaterThan a b = (\<not> isLowerThan a b)"

lemma lt_nan_asym: "lt_nan x y \<Longrightarrow> \<not> lt_nan y x"
  by (cases "(x, y)" rule: lt_nan.cases) auto

lemma eq_nan_sym: "eq_nan x y = eq_nan y x"
  by (cases "(x, y)" rule: eq_nan.cases) auto

lemma isLowerThan_asym: "isLowerThan a b \<Longrightarrow> \<not> isLowerThan b a"
  by (auto simp: isLowerThan_def eq_nan_sym dest: lt_nan_asym split: if_splits)

text \<open>
  \<open>isBetween\<close> calls itself once, with the limits exchanged, when the range spans two days.
  The call terminates because the order is asymmetric: the exchanged range does not span.
\<close>

function isBetween :: "time_limit \<Rightarrow> time_limit \<Rightarrow> time_limit \<Rightarrow> bool" where
  "isBetween t timeFrom timeTo =
     (if isLowerThan timeTo timeFrom then \<not> isBetween t timeTo timeFrom
      else isSameOrGreaterThan t timeFrom \<and> isLowerThan t timeTo)"
  by pat_completeness auto
termination
  by (relation "measure (\<lambda>(t, f, u). if isLowerThan u f then 1 else 0)")
     (auto dest: isLowerThan_asym)

declare isBetween.simps [simp del]

section \<open>Abstraction to seconds since midnight\<close>

fun in_range :: "int \<Rightarrow> int option \<Rightarrow> bool" where
  "in_range n None = False"
| "in_range n (Some x) = (0 \<le> x \<and> x < n)"

definition well_formed_time :: "time_limit \<Rightarrow> bool" where
  "well_formed_time t \<longleftrightarrow> in_range 24 (hour t) \<and> in_range 60 (minute t) \<and> in_range 60 (second t)"

definition secs_of :: "time_limit \<Rightarrow> int" where
  "secs_of t = num0 (hour t) * 3600 + num0 (minute t) * 60 + num0 (second t)"

lemma well_formed_timeE:
  assumes "well_formed_time t"
  obtains h m s where "hour t = Some h" "minute t = Some m" "second t = Some s"
    "0 \<le> h" "h < 24" "0 \<le> m" "m < 60" "0 \<le> s" "s < 60"
  using assms unfolding well_formed_time_def
  by (cases "hour t"; cases "minute t"; cases "second t") auto

lemma isLowerThan_secs:
  assumes "well_formed_time a" "well_formed_time b"
  shows "isLowerThan a b \<longleftrightarrow> secs_of a < secs_of b"
proof -
  from assms(1) obtain h m s where a: "hour a = Some h" "minute a = Some m" "second a = Some s"
    "0 \<le> h" "h < 24" "0 \<le> m" "m < 60" "0 \<le> s" "s < 60" by (rule well_formed_timeE)
  from assms(2) obtain h' m' s' where b: "hour b = Some h'" "minute b = Some m'" "second b = Some s'"
    "0 \<le> h'" "h' < 24" "0 \<le> m'" "m' < 60" "0 \<le> s'" "s' < 60" by (rule well_formed_timeE)
  show ?thesis using a b by (simp add: isLowerThan_def secs_of_def) linarith
qed

lemma isGreaterThan_lower: "isGreaterThan a b = isLowerThan b a"
  by (simp add: isGreaterThan_def isLowerThan_def eq_nan_sym)

lemma isBetween_secs:
  assumes "well_formed_time t" "well_formed_time f" "well_formed_time u"
  shows "isBetween t f u \<longleftrightarrow>
     (if secs_of f \<le> secs_of u then secs_of f \<le> secs_of t \<and> secs_of t < secs_of u
      else secs_of f \<le> secs_of t \<or> secs_of t < secs_of u)"
  using assms
  by (auto simp: isBetween.simps [of t f u] isBetween.simps [of t u f] isSameOrGreaterThan_def
        isLowerThan_secs)

text \<open>
  the ranges \<open>[from, to)\<close> and \<open>[to, from)\<close> of two different limits cut the day in two:
  every time of day lies in exactly one of them, whichever of them spans midnight.
\<close>

lemma time_ranges_partition_the_day:
  assumes "well_formed_time t" "well_formed_time f" "well_formed_time u" and "secs_of f \<noteq> secs_of u"
  shows "isBetween t f u \<noteq> isBetween t u f"
  using assms by (auto simp: isBetween_secs)

end
