(* ===== verification/Stations.thy ===== *)
theory Stations
  imports Decimals
begin

text \<open>
  Charging stations (\<open>types/ChargingStation.ts\<close>) and what \<open>utils/Utils.ts\<close> computes from them:
  the connector and charge point of an identifier, the power, voltage, amperage, phases and current
  type of a station, of a charge point or of a connector, and the status counters of a site.
  Field names shared by several interfaces carry a prefix: \<open>cs_\<close> charging station, \<open>cp_\<close> charge
  point, \<open>cn_\<close> connector.  The arrays of a station hold no null element.  A sum of the code into
  which \<open>undefined\<close> goes is \<open>NaN\<close>, here \<open>None\<close>.
\<close>

section \<open>Data\<close>

datatype charge_point_status =
    AVAILABLE | PREPARING | CHARGING | OCCUPIED | SUSPENDED_EVSE | SUSPENDED_EV
  | FINISHING | RESERVED | UNAVAILABLE | FAULTED

datatype current_type = AC | DC

datatype connector_type =
  TYPE_2 | COMBO_CCS | CHADEMO | TYPE_1 | TYPE_3C | TYPE_1_CCS | DOMESTIC | UNKNOWN

datatype inactivity_status = INFO | WARNING | ERROR

datatype ocpp_phase = L1 | L2 | L3 | N | L1_N | L2_N | L3_N | L1_L2 | L2_L3 | L3_L1

record phase_assignment_to_grid =
  csPhaseL1 :: "ocpp_phase option"
  csPhaseL2 :: "ocpp_phase option"
  csPhaseL3 :: "ocpp_phase option"

record connector =
  cn_connectorId :: int
  cn_status :: charge_point_status
  cn_power :: "rat option"
  cn_type :: "connector_type option"
  cn_voltage :: "rat option"
  cn_amperage :: "rat option"
  cn_amperageLimit :: "rat option"
  cn_numberOfConnectedPhase :: "nat option"
  cn_currentType :: "current_type option"
  cn_currentTransactionID :: "int option"
  cn_currentUserID :: "string option"
  cn_currentTagID :: "string option"
  cn_currentTransactionDate :: "int option"
  cn_currentInstantWatts :: "rat option"
  cn_currentStateOfCharge :: "rat option"
  cn_currentTotalConsumptionWh :: "rat option"
  cn_currentTotalInactivitySecs :: "rat option"
  cn_currentInactivityStatus :: "inactivity_status option"
  cn_errorCode :: "string option"
  cn_info :: "string option"
  cn_vendorErrorCode :: "string option"
  cn_statusLastChangedOn :: "int option"
  cn_isPrivate :: bool
  cn_ownerIds :: "string list option"
  cn_chargePointID :: "int option"
  cn_phaseAssignmentToGrid :: "phase_assignment_to_grid option"
  cn_id :: "string option"
  cn_tariffID :: "string option"
  cn_tariffIDs :: "string list option"

record charge_point =
  cp_chargePointID :: int
  cp_currentType :: "current_type option"
  cp_voltage :: "rat option"
  cp_amperage :: "rat option"
  cp_numberOfConnectedPhase :: "nat option"
  cp_cannotChargeInParallel :: bool
  cp_sharePowerToAllConnectors :: bool
  cp_excludeFromPowerLimitation :: bool
  cp_power :: "rat option"
  cp_efficiency :: "rat option"
  cp_connectorIDs :: "int list"
  cp_ocppParamForPowerLimitation :: "string option"

datatype ocpp_version = VERSION_15 | VERSION_16 | VERSION_20

record charging_station =
  cs_id :: string
  cs_companyID :: "string option"
  cs_siteID :: "string option"
  cs_siteAreaID :: "string option"
  cs_issuer :: bool
  cs_inactive :: bool
  cs_deleted :: bool
  cs_maximumPower :: "rat option"
  cs_voltage :: "rat option"
  cs_coordinates :: "rat list option"
  cs_chargePoints :: "charge_point list option"
  cs_connectors :: "connector list option"
  cs_backupConnectors :: "connector list option"
  cs_ocppVersion :: ocpp_version
  cs_chargePointVendor :: string
  cs_excludeFromSmartCharging :: bool
  cs_supportChargingProfiles :: bool
  cs_tariffID :: "string option"
  cs_tariffIDs :: "string list option"

section \<open>Lookups by identifier\<close>

definition getChargePointFromID :: "charging_station \<Rightarrow> int \<Rightarrow> charge_point option" where
  "getChargePointFromID cs cpid =
     (case cs_chargePoints cs of None \<Rightarrow> None
      | Some ps \<Rightarrow> List.find (\<lambda>p. cp_chargePointID p = cpid) ps)"

definition getChargePointFromConnectorID :: "charging_station \<Rightarrow> int \<Rightarrow> charge_point option" where
  "getChargePointFromConnectorID cs cid =
     (case cs_chargePoints cs of None \<Rightarrow> None
      | Some ps \<Rightarrow> List.find (\<lambda>p. cid \<in> set (cp_connectorIDs p)) ps)"

definition getConnectorFromID :: "charging_station \<Rightarrow> int \<Rightarrow> connector option" where
  "getConnectorFromID cs cid =
     (case cs_connectors cs of None \<Rightarrow> None
      | Some cns \<Rightarrow> List.find (\<lambda>c. cn_connectorId c = cid) cns)"

definition getLastSeenConnectorFromID :: "charging_station \<Rightarrow> int \<Rightarrow> connector option" where
  "getLastSeenConnectorFromID cs cid =
     (case cs_backupConnectors cs of None \<Rightarrow> None
      | Some cns \<Rightarrow> List.find (\<lambda>c. cn_connectorId c = cid) cns)"

definition getConnectorsFromChargePoint :: "charging_station \<Rightarrow> charge_point option \<Rightarrow> connector list" where
  "getConnectorsFromChargePoint cs cp =
     (case cp of None \<Rightarrow> []
      | Some p \<Rightarrow> List.map_filter (getConnectorFromID cs) (cp_connectorIDs p))"

lemma getConnectorFromID_Some:
  "getConnectorFromID cs cid = Some c \<Longrightarrow> cn_connectorId c = cid \<and> c \<in> set (the (cs_connectors cs))"
  by (auto simp: getConnectorFromID_def find_Some_iff split: option.splits)

section \<open>Attributes read from the charge points first, then from the connectors\<close>

text \<open>
  The guard of every loop over charge points: no charge point was given, or it is this one.
\<close>

definition this_charge_point :: "charge_point option \<Rightarrow> charge_point \<Rightarrow> bool" where
  "this_charge_point cp p =
     (case cp of None \<Rightarrow> True | Some q \<Rightarrow> cp_chargePointID q = cp_chargePointID p)"

text \<open>
  \<open>present\<close> is the truth value of the attribute in a condition: a number that is neither absent nor
  zero, or an enumeration member that is there.
\<close>

fun charge_point_attribute ::
    "('a option \<Rightarrow> bool) \<Rightarrow> (charge_point \<Rightarrow> 'a option) \<Rightarrow> (connector \<Rightarrow> 'a option) \<Rightarrow>
     charging_station \<Rightarrow> charge_point option \<Rightarrow> int \<Rightarrow> charge_point list \<Rightarrow> 'a option" where
  "charge_point_attribute present fp fc cs cp cid [] = None"
| "charge_point_attribute present fp fc cs cp cid (p # ps) =
     (if this_charge_point cp p \<and> cid = 0 \<and> present (fp p) then fp p
      else if this_charge_point cp p \<and> cid \<in> set (cp_connectorIDs p) \<and> present (fp p) then
        (case getConnectorFromID cs cid of
           None \<Rightarrow> fp p
         | Some c \<Rightarrow> if present (fc c) then fc c else fp p)
      else charge_point_attribute present fp fc cs cp cid ps)"

fun connector_attribute ::
    "('a option \<Rightarrow> bool) \<Rightarrow> (connector \<Rightarrow> 'a option) \<Rightarrow> int \<Rightarrow> connector list \<Rightarrow> 'a option" where
  "connector_attribute present fc cid [] = None"
| "connector_attribute present fc cid (c # cns) =
     (if cid = 0 \<and> present (fc c) then fc c
      else if cn_connectorId c = cid \<and> present (fc c) then fc c
      else connector_attribute present fc cid cns)"

definition station_attribute ::
    "('a option \<Rightarrow> bool) \<Rightarrow> (charge_point \<Rightarrow> 'a option) \<Rightarrow> (connector \<Rightarrow> 'a option) \<Rightarrow>
     charging_station \<Rightarrow> charge_point option \<Rightarrow> int \<Rightarrow> 'a option" where
  "station_attribute present fp fc cs cp cid =
     (case (case cs_chargePoints cs of None \<Rightarrow> None
            | Some ps \<Rightarrow> charge_point_attribute present fp fc cs cp cid ps) of
        Some v \<Rightarrow> Some v
      | None \<Rightarrow>
          (case cs_connectors cs of None \<Rightarrow> None
           | Some cns \<Rightarrow> connector_attribute present fc cid cns))"

definition getNumberOfConnectedPhases :: "charging_station \<Rightarrow> charge_point option \<Rightarrow> int \<Rightarrow> nat" where
  "getNumberOfConnectedPhases cs cp cid =
     (case station_attribute truthy_num cp_numberOfConnectedPhase cn_numberOfConnectedPhase cs cp cid of
        Some n \<Rightarrow> n | None \<Rightarrow> 1)"

definition getChargingStationVoltage :: "charging_station \<Rightarrow> charge_point option \<Rightarrow> int \<Rightarrow> rat" where
  "getChargingStationVoltage cs cp cid =
     (if truthy_num (cs_voltage cs) then the (cs_voltage cs)
      else case station_attribute truthy_num cp_voltage cn_voltage cs cp cid of
             Some v \<Rightarrow> v | None \<Rightarrow> 230)"

definition getChargingStationCurrentType ::
    "charging_station \<Rightarrow> charge_point option \<Rightarrow> int \<Rightarrow> current_type option" where
  "getChargingStationCurrentType cs cp cid =
     station_attribute (\<lambda>v. v \<noteq> None) cp_currentType cn_currentType cs cp cid"

section \<open>Attributes that are summed or shared\<close>

text \<open>
  The loops of \<open>getChargingStationPower\<close> and \<open>getChargingStationAmperage\<close>: \<open>Inl\<close> is a value
  returned from inside the loop, \<open>Inr\<close> the total after it.
\<close>

fun charge_points_total ::
    "runtime \<Rightarrow> (charge_point \<Rightarrow> rat option) \<Rightarrow> (connector \<Rightarrow> rat option) \<Rightarrow> charging_station \<Rightarrow>
     charge_point option \<Rightarrow> int \<Rightarrow> charge_point list \<Rightarrow> rat \<Rightarrow> rat + rat" where
  "charge_points_total R fp fc cs cp cid [] tot = Inr tot"
| "charge_points_total R fp fc cs cp cid (p # ps) tot =
     (if this_charge_point cp p \<and> cid = 0 \<and> truthy_num (fp p) then
        charge_points_total R fp fc cs cp cid ps (fl R Plus tot (the (fp p)))
      else if this_charge_point cp p \<and> cid \<in> set (cp_connectorIDs p) \<and> truthy_num (fp p) then
        (if cp_cannotChargeInParallel p \<or> cp_sharePowerToAllConnectors p then
           (case getConnectorFromID cs cid of
              None \<Rightarrow> Inl (the (fp p))
            | Some c \<Rightarrow> if truthy_num (fc c) then Inl (the (fc c)) else Inl (the (fp p)))
         else Inl (fl R Divide (the (fp p)) (of_nat (length (cp_connectorIDs p)))))
      else charge_points_total R fp fc cs cp cid ps tot)"

fun connectors_total ::
    "runtime \<Rightarrow> (connector \<Rightarrow> rat option) \<Rightarrow> int \<Rightarrow> connector list \<Rightarrow> rat \<Rightarrow> rat + rat" where
  "connectors_total R fc cid [] tot = Inr tot"
| "connectors_total R fc cid (c # cns) tot =
     (let tot' = (if cid = 0 \<and> truthy_num (fc c) then fl R Plus tot (the (fc c)) else tot)
      in if cn_connectorId c = cid \<and> truthy_num (fc c) then Inl (the (fc c))
         else connectors_total R fc cid cns tot')"

definition station_total ::
    "runtime \<Rightarrow> (charge_point \<Rightarrow> rat option) \<Rightarrow> (connector \<Rightarrow> rat option) \<Rightarrow> charging_station \<Rightarrow>
     charge_point option \<Rightarrow> int \<Rightarrow> rat + rat" where
  "station_total R fp fc cs cp cid =
     (case (case cs_chargePoints cs of None \<Rightarrow> Inr 0
            | Some ps \<Rightarrow> charge_points_total R fp fc cs cp cid ps 0) of
        Inl v \<Rightarrow> Inl v
      | Inr tot \<Rightarrow>
          (case cs_connectors cs of
             None \<Rightarrow> Inr tot
           | Some cns \<Rightarrow> if tot = 0 then connectors_total R fc cid cns tot else Inr tot))"

definition getChargingStationAmperage :: "runtime \<Rightarrow> charging_station \<Rightarrow> charge_point option \<Rightarrow> int \<Rightarrow> rat" where
  "getChargingStationAmperage R cs cp cid =
     (case station_total R cp_amperage cn_amperage cs cp cid of Inl v \<Rightarrow> v | Inr tot \<Rightarrow> tot)"

definition getChargingStationPower :: "runtime \<Rightarrow> charging_station \<Rightarrow> charge_point option \<Rightarrow> int \<Rightarrow> rat" where
  "getChargingStationPower R cs cp cid =
     (case station_total R cp_power cn_power cs cp cid of
        Inl v \<Rightarrow> v
      | Inr tot \<Rightarrow>
          (if tot = 0 then
             (let amperage = getChargingStationAmperage R cs cp cid;
                  voltage = getChargingStationVoltage cs cp cid
              in if voltage \<noteq> 0 \<and> amperage \<noteq> 0 then fl R Times voltage amperage else tot)
           else tot))"

text \<open>\<open>Math.round\<close> rounds halves up.\<close>

definition math_round :: "rat \<Rightarrow> rat" where
  "math_round x = of_int \<lfloor>x + 1 / 2\<rfloor>"

definition getChargingStationAmperagePerPhase ::
    "runtime \<Rightarrow> charging_station \<Rightarrow> charge_point option \<Rightarrow> int \<Rightarrow> rat" where
  "getChargingStationAmperagePerPhase R cs cp cid =
     (let totalAmps = getChargingStationAmperage R cs cp cid;
          phases = of_nat (getNumberOfConnectedPhases cs cp cid)
      in if fl R Remainder totalAmps phases = 0 then fl R Divide totalAmps phases
         else math_round (fl R Divide totalAmps phases))"

section \<open>Limits and conversions\<close>

text \<open>\<open>+=\<close> on a number that may be \<open>NaN\<close> with an operand that may be \<open>undefined\<close>.\<close>

definition nan_add :: "runtime \<Rightarrow> rat option \<Rightarrow> rat option \<Rightarrow> rat option" where
  "nan_add R a b = (case (a, b) of (Some x, Some y) \<Rightarrow> Some (fl R Plus x y) | _ \<Rightarrow> None)"

definition connector_limit :: "charging_station \<Rightarrow> int option \<Rightarrow> rat option" where
  "connector_limit cs cid =
     (case cid of None \<Rightarrow> None
      | Some i \<Rightarrow> (case getConnectorFromID cs i of None \<Rightarrow> None | Some c \<Rightarrow> cn_amperageLimit c))"

definition charge_point_limit ::
    "runtime \<Rightarrow> charging_station \<Rightarrow> charge_point option \<Rightarrow> rat option \<Rightarrow> charge_point \<Rightarrow> rat option" where
  "charge_point_limit R cs cp limit p =
     (if \<not> this_charge_point cp p \<or> cp_excludeFromPowerLimitation p then limit
      else if cp_cannotChargeInParallel p \<or> cp_sharePowerToAllConnectors p then
        nan_add R limit (connector_limit cs (case cp_connectorIDs p of [] \<Rightarrow> None | i # _ \<Rightarrow> Some i))
      else foldl (\<lambda>l i. nan_add R l (connector_limit cs (Some i))) limit (cp_connectorIDs p))"

definition getChargingStationAmperageLimit ::
    "runtime \<Rightarrow> charging_station \<Rightarrow> charge_point option \<Rightarrow> int \<Rightarrow> rat option" where
  "getChargingStationAmperageLimit R cs cp cid =
     (if 0 < cid then
        (case getConnectorFromID cs cid of None \<Rightarrow> None | Some c \<Rightarrow> cn_amperageLimit c)
      else
        (let limit1 = (case cs_chargePoints cs of None \<Rightarrow> Some 0
                       | Some ps \<Rightarrow> foldl (charge_point_limit R cs cp) (Some 0) ps);
             limit2 = (case cs_connectors cs of None \<Rightarrow> limit1
                       | Some cns \<Rightarrow>
                           if limit1 = Some 0 then foldl (\<lambda>l c. nan_add R l (cn_amperageLimit c)) limit1 cns
                           else limit1);
             amperageMax = getChargingStationAmperage R cs cp cid
         in if limit2 = Some 0 \<or> gt limit2 amperageMax then Some amperageMax else limit2))"

definition convertAmpToWatt ::
    "runtime \<Rightarrow> charging_station \<Rightarrow> charge_point option \<Rightarrow> int \<Rightarrow> rat \<Rightarrow> rat" where
  "convertAmpToWatt R cs cp cid ampValue =
     (let voltage = getChargingStationVoltage cs cp cid
      in if voltage \<noteq> 0 then num R (d_mul R voltage ampValue) else 0)"

definition convertWattToAmp ::
    "runtime \<Rightarrow> charging_station \<Rightarrow> charge_point option \<Rightarrow> int \<Rightarrow> rat \<Rightarrow> rat" where
  "convertWattToAmp R cs cp cid wattValue =
     (let voltage = getChargingStationVoltage cs cp cid
      in if voltage \<noteq> 0 then num R (d_div R wattValue voltage) else 0)"

definition computeChargingStationTotalAmps :: "runtime \<Rightarrow> charging_station \<Rightarrow> rat option" where
  "computeChargingStationTotalAmps R cs =
     (if truthy_num (cs_maximumPower cs) then
        Some (convertWattToAmp R cs None 0 (the (cs_maximumPower cs)))
      else
        (let amps1 = (case cs_chargePoints cs of None \<Rightarrow> Some 0
                      | Some ps \<Rightarrow> foldl (\<lambda>t p. nan_add R t (cp_amperage p)) (Some 0) ps)
         in case cs_connectors cs of
              None \<Rightarrow> amps1
            | Some cns \<Rightarrow>
                if amps1 = Some 0 then foldl (\<lambda>t c. nan_add R t (cn_amperage c)) amps1 cns else amps1))"

section \<open>Status of the connectors of a site\<close>

record connector_stats =
  totalChargers :: nat
  availableChargers :: nat
  totalConnectors :: nat
  chargingConnectors :: nat
  suspendedConnectors :: nat
  availableConnectors :: nat
  unavailableConnectors :: nat
  preparingConnectors :: nat
  finishingConnectors :: nat
  faultedConnectors :: nat

definition count_connector :: "bool \<Rightarrow> connector_stats \<Rightarrow> connector \<Rightarrow> connector_stats" where
  "count_connector off s0 c =
     (let s = s0\<lparr>totalConnectors := totalConnectors s0 + 1\<rparr> in
      if off \<or> cn_status c = UNAVAILABLE then s\<lparr>unavailableConnectors := unavailableConnectors s + 1\<rparr>
      else if cn_status c = AVAILABLE then s\<lparr>availableConnectors := availableConnectors s + 1\<rparr>
      else if cn_status c = SUSPENDED_EV \<or> cn_status c = SUSPENDED_EVSE then
        s\<lparr>suspendedConnectors := suspendedConnectors s + 1\<rparr>
      else if cn_status c = CHARGING \<or> cn_status c = OCCUPIED then
        s\<lparr>chargingConnectors := chargingConnectors s + 1\<rparr>
      else if cn_status c = FAULTED then s\<lparr>faultedConnectors := faultedConnectors s + 1\<rparr>
      else if cn_status c = PREPARING then s\<lparr>preparingConnectors := preparingConnectors s + 1\<rparr>
      else if cn_status c = FINISHING then s\<lparr>finishingConnectors := finishingConnectors s + 1\<rparr>
      else s)"

definition count_station :: "connector_stats \<Rightarrow> charging_station \<Rightarrow> connector_stats" where
  "count_station s0 cs =
     (if cs_deleted cs then s0
      else
        (let cns = (case cs_connectors cs of None \<Rightarrow> [] | Some cns \<Rightarrow> cns);
             s = foldl (count_connector (cs_inactive cs))
                   (s0\<lparr>totalChargers := totalChargers s0 + 1\<rparr>) cns
         in if list_ex (\<lambda>c. \<not> cs_inactive cs \<and> cn_status c = AVAILABLE) cns
            then s\<lparr>availableChargers := availableChargers s + 1\<rparr> else s))"

definition getConnectorStatusesFromChargingStations :: "charging_station list \<Rightarrow> connector_stats" where
  "getConnectorStatusesFromChargingStations css =
     foldl count_station
       \<lparr>totalChargers = 0, availableChargers = 0, totalConnectors = 0, chargingConnectors = 0,
        suspendedConnectors = 0, availableConnectors = 0, unavailableConnectors = 0,
        preparingConnectors = 0, finishingConnectors = 0, faultedConnectors = 0\<rparr> css"

section \<open>Inactivity of a connector\<close>

definition getEndOfChargeNotificationIntervalMins :: "charging_station \<Rightarrow> int \<Rightarrow> rat" where
  "getEndOfChargeNotificationIntervalMins cs cid =
     (case cs_connectors cs of
        None \<Rightarrow> 0
      | Some _ \<Rightarrow>
          (case getConnectorFromID cs cid of
             None \<Rightarrow> 0
           | Some c \<Rightarrow>
               (case cn_power c of
                  None \<Rightarrow> 0
                | Some w \<Rightarrow> if w \<le> 3680 then 120 else if w \<le> 7360 then 60
                            else if w < 50000 then 30 else if w \<ge> 50000 then 15 else 0)))"

definition getInactivityStatusLevel :: "charging_station \<Rightarrow> int \<Rightarrow> rat option \<Rightarrow> inactivity_status" where
  "getInactivityStatusLevel cs cid inactivitySecs =
     (if \<not> truthy_num inactivitySecs then INFO
      else
        (let secs = the inactivitySecs; intervalMins = getEndOfChargeNotificationIntervalMins cs cid
         in if secs < intervalMins * 60 then INFO
            else if secs < intervalMins * 60 * 2 then WARNING
            else ERROR))"

section \<open>A station of two connectors\<close>

definition two_connectors :: charging_station where
  "two_connectors =
     (let c = \<lparr>cn_connectorId = 1, cn_status = AVAILABLE, cn_power = Some 11000, cn_type = Some TYPE_2,
           cn_voltage = Some 230, cn_amperage = Some 32, cn_amperageLimit = Some 40,
           cn_numberOfConnectedPhase = Some 3, cn_currentType = Some AC,
           cn_currentTransactionID = None, cn_currentUserID = None, cn_currentTagID = None,
           cn_currentTransactionDate = None, cn_currentInstantWatts = None, cn_currentStateOfCharge = None,
           cn_currentTotalConsumptionWh = None, cn_currentTotalInactivitySecs = None,
           cn_currentInactivityStatus = None, cn_errorCode = None, cn_info = None, cn_vendorErrorCode = None,
           cn_statusLastChangedOn = None, cn_isPrivate = False, cn_ownerIds = None,
           cn_chargePointID = Some 1, cn_phaseAssignmentToGrid = None,
           cn_id = None, cn_tariffID = None, cn_tariffIDs = None\<rparr>;
          p = \<lparr>cp_chargePointID = 1, cp_currentType = Some AC, cp_voltage = Some 230, cp_amperage = Some 64,
           cp_numberOfConnectedPhase = Some 3, cp_cannotChargeInParallel = False,
           cp_sharePowerToAllConnectors = False, cp_excludeFromPowerLimitation = False,
           cp_power = Some 44000, cp_efficiency = None, cp_connectorIDs = [1, 2],
           cp_ocppParamForPowerLimitation = None\<rparr>
      in \<lparr>cs_id = ''cs'', cs_companyID = Some ''co'', cs_siteID = Some ''si'', cs_siteAreaID = Some ''sa'',
          cs_issuer = True, cs_inactive = False, cs_deleted = False, cs_maximumPower = Some 44000,
          cs_voltage = Some 230, cs_coordinates = None, cs_chargePoints = Some [p],
          cs_connectors = Some [c, c\<lparr>cn_connectorId := 2\<rparr>], cs_backupConnectors = None,
          cs_ocppVersion = VERSION_16, cs_chargePointVendor = ''Schneider'',
          cs_excludeFromSmartCharging = False, cs_supportChargingProfiles = True,
         cs_tariffID = None, cs_tariffIDs = None\<rparr>)"

section \<open>Facts about the lookups\<close>

text \<open>
  What every attribute looked up charge points first promises: the value found counts as present
  and is the value of a charge point or of a connector of the station.
\<close>

locale attribute_lookup =
  fixes present :: "'a option \<Rightarrow> bool"
    and fp :: "charge_point \<Rightarrow> 'a option"
    and fc :: "connector \<Rightarrow> 'a option"
  assumes absent: "\<not> present None"
begin

lemma charge_point_present:
  "charge_point_attribute present fp fc cs cp cid ps = Some v \<Longrightarrow> present (Some v)"
  by (induction ps) (auto split: if_splits option.splits)

lemma charge_point_origin:
  "charge_point_attribute present fp fc cs cp cid ps = Some v \<Longrightarrow>
     (\<exists>p \<in> set ps. fp p = Some v) \<or> (\<exists>c \<in> set (the (cs_connectors cs)). fc c = Some v)"
  by (induction ps) (auto split: if_splits option.splits dest: getConnectorFromID_Some)

lemma connector_present: "connector_attribute present fc cid cns = Some v \<Longrightarrow> present (Some v)"
  by (induction cns) (auto split: if_splits)

lemma connector_origin:
  "connector_attribute present fc cid cns = Some v \<Longrightarrow> \<exists>c \<in> set cns. fc c = Some v"
  by (induction cns) (auto split: if_splits)

lemma lookup_present: "station_attribute present fp fc cs cp cid = Some v \<Longrightarrow> present (Some v)"
  by (auto simp: station_attribute_def split: option.splits
      dest: charge_point_present connector_present)

lemma lookup_origin:
  "station_attribute present fp fc cs cp cid = Some v \<Longrightarrow>
     (\<exists>p \<in> set (the (cs_chargePoints cs)). fp p = Some v) \<or>
     (\<exists>c \<in> set (the (cs_connectors cs)). fc c = Some v)"
  by (auto simp: station_attribute_def split: option.splits
      dest: charge_point_origin connector_origin)

lemma lookup_connector:
  "cid \<noteq> 0 \<Longrightarrow> cs_chargePoints cs = None \<Longrightarrow> getConnectorFromID cs cid = Some c \<Longrightarrow> present (fc c) \<Longrightarrow>
     station_attribute present fp fc cs cp cid = fc c"
proof -
  assume cid: "cid \<noteq> 0" and cps: "cs_chargePoints cs = None"
    and c: "getConnectorFromID cs cid = Some c" and pr: "present (fc c)"
  from c obtain cns where cns: "cs_connectors cs = Some cns"
    and f: "List.find (\<lambda>c. cn_connectorId c = cid) cns = Some c"
    by (auto simp: getConnectorFromID_def split: option.splits)
  from f have "connector_attribute present fc cid cns = fc c"
    by (induction cns) (auto simp: cid pr split: if_splits)
  with cps cns show ?thesis by (simp add: station_attribute_def)
qed

end

interpretation phase_lookup: attribute_lookup truthy_num cp_numberOfConnectedPhase cn_numberOfConnectedPhase
  by unfold_locales simp

interpretation voltage_lookup: attribute_lookup truthy_num cp_voltage cn_voltage
  by unfold_locales simp

interpretation type_lookup: attribute_lookup "\<lambda>v. v \<noteq> None" cp_currentType cn_currentType
  by unfold_locales simp

lemma voltage_nonzero [simp]: "getChargingStationVoltage cs cp cid \<noteq> 0"
  by (auto simp: getChargingStationVoltage_def js_simps split: option.splits
      dest: voltage_lookup.lookup_present)

text \<open>
  The voltage of a station, of a charge point or of a connector is never zero, whatever the
  station record holds, so that the conversion from watts to amperes never divides by zero and its
  fallback to zero amperes is unreachable.
\<close>

lemma voltage_never_zero:
  "getChargingStationVoltage cs cp cid \<noteq> 0 \<and>
   convertWattToAmp R cs cp cid w = num R (d_div R w (getChargingStationVoltage cs cp cid))"
  by (simp add: convertWattToAmp_def)

lemma phases_positive: "0 < getNumberOfConnectedPhases cs cp cid"
  by (auto simp: getNumberOfConnectedPhases_def split: option.splits dest: phase_lookup.lookup_present)

text \<open>
  Converting amperes to watts and back gives the amperes: for an integral voltage and an
  integral number of amperes whose power has at most fifteen digits, under any admissible rounding.
\<close>

lemma amp_watt_round_trip:
  assumes "runtime_ok R" "getChargingStationVoltage cs cp cid = of_int v"
    and "\<bar>v * a\<bar> \<le> 10 ^ 15" "\<bar>a\<bar> \<le> 10 ^ 15"
  shows "convertWattToAmp R cs cp cid (convertAmpToWatt R cs cp cid (of_int a)) = of_int a"
proof -
  have v: "(of_int v :: rat) \<noteq> 0" using voltage_nonzero [of cs cp cid] assms(2) by simp
  have "dec R (of_int (v * a)) = of_int (v * a)" "num R (of_int (v * a)) = of_int (v * a)"
    using assms by (simp_all only: dec_int15 num_int)
  then have w: "convertAmpToWatt R cs cp cid (of_int a) = of_int v * of_int a"
    using v assms(2) by (simp add: convertAmpToWatt_def d_ops)
  have "dec R (of_int a) = of_int a" "num R (of_int a) = of_int a"
    using assms by (simp_all only: dec_int15 num_int)
  with v w assms(2) show ?thesis by (simp add: convertWattToAmp_def d_ops)
qed

text \<open>
  The limit computed for a charge point or for the whole station never exceeds the amperage
  the hardware is rated for.
\<close>

lemma amperage_limit_bounded:
  assumes "cid \<le> 0" "getChargingStationAmperageLimit R cs cp cid = Some l"
  shows "l \<le> getChargingStationAmperage R cs cp cid"
  using assms by (auto simp: getChargingStationAmperageLimit_def Let_def js_simps not_less split: if_splits)

section \<open>Counters\<close>

definition reserved_count :: "charging_station \<Rightarrow> nat" where
  "reserved_count cs =
     (if cs_deleted cs \<or> cs_inactive cs then 0
      else length (filter (\<lambda>c. cn_status c = RESERVED) (case cs_connectors cs of None \<Rightarrow> [] | Some cns \<Rightarrow> cns)))"

definition counted :: "connector_stats \<Rightarrow> nat" where
  "counted s = chargingConnectors s + suspendedConnectors s + availableConnectors s
     + unavailableConnectors s + preparingConnectors s + finishingConnectors s + faultedConnectors s"


lemma count_connector_totals:
  "totalConnectors (count_connector off s c) = totalConnectors s + 1"
  "totalChargers (count_connector off s c) = totalChargers s"
  "availableChargers (count_connector off s c) = availableChargers s"
  unfolding count_connector_def Let_def
  by (cases off; cases "cn_status c"; simp)+

lemma count_connector_counted:
  "counted (count_connector off s c) = counted s + (if \<not> off \<and> cn_status c = RESERVED then 0 else 1)"
  unfolding count_connector_def counted_def Let_def
  by (cases off; cases "cn_status c"; simp)

lemma count_connector_available:
  "availableConnectors (count_connector off s c) =
     availableConnectors s + (if \<not> off \<and> cn_status c = AVAILABLE then 1 else 0)"
  unfolding count_connector_def Let_def
  by (cases off; cases "cn_status c"; simp)

lemma count_connectors_totals:
  "totalConnectors (foldl (count_connector off) s cns) = totalConnectors s + length cns"
  "totalChargers (foldl (count_connector off) s cns) = totalChargers s"
  "availableChargers (foldl (count_connector off) s cns) = availableChargers s"
  by (induction cns arbitrary: s) (simp_all add: count_connector_totals)

lemma count_connectors_counted:
  "counted (foldl (count_connector off) s cns)
     + length (filter (\<lambda>c. \<not> off \<and> cn_status c = RESERVED) cns) = counted s + length cns"
proof (induction cns arbitrary: s)
  case Nil
  then show ?case by simp
next
  case (Cons c cns)
  from Cons.IH [of "count_connector off s c"] show ?case
    by (cases off; cases "cn_status c = RESERVED") (simp_all add: count_connector_counted)
qed

lemma count_connectors_available:
  "availableConnectors (foldl (count_connector off) s cns) =
     availableConnectors s + length (filter (\<lambda>c. \<not> off \<and> cn_status c = AVAILABLE) cns)"
  by (induction cns arbitrary: s) (simp_all add: count_connector_available)

lemma count_station_counted:
  "counted (count_station s cs) + reserved_count cs + totalConnectors s = counted s + totalConnectors (count_station s cs)"
proof (cases "cs_deleted cs")
  case True
  then show ?thesis by (simp add: count_station_def reserved_count_def)
next
  case False
  define cns where "cns = (case cs_connectors cs of None \<Rightarrow> [] | Some cns \<Rightarrow> cns)"
  define s1 where "s1 = foldl (count_connector (cs_inactive cs)) (s\<lparr>totalChargers := Suc (totalChargers s)\<rparr>) cns"
  have upd: "counted (r\<lparr>availableChargers := n\<rparr>) = counted r" "counted (r\<lparr>totalChargers := n\<rparr>) = counted r" for r n
    by (simp_all add: counted_def)
  have "counted s1 + length (filter (\<lambda>c. \<not> cs_inactive cs \<and> cn_status c = RESERVED) cns) = counted s + length cns"
    unfolding s1_def by (simp only: count_connectors_counted upd)
  moreover have "totalConnectors s1 = totalConnectors s + length cns"
    unfolding s1_def by (simp add: count_connectors_totals)
  moreover have "reserved_count cs = length (filter (\<lambda>c. \<not> cs_inactive cs \<and> cn_status c = RESERVED) cns)"
    using False by (simp add: reserved_count_def cns_def)
  moreover have "counted (count_station s cs) = counted s1"
    and "totalConnectors (count_station s cs) = totalConnectors s1"
    using False by (simp_all add: count_station_def cns_def [symmetric] s1_def [symmetric] upd Let_def)
  ultimately show ?thesis by simp
qed

lemma count_station_available:
  "availableChargers (count_station s cs) + totalChargers s \<le> availableChargers s + totalChargers (count_station s cs)"
  "availableChargers (count_station s cs) + availableConnectors s
     \<le> availableChargers s + availableConnectors (count_station s cs)"
  by (auto simp: count_station_def Let_def count_connectors_totals count_connectors_available
      list_ex_iff filter_empty_conv Suc_le_eq split: option.splits)

lemma count_stations_counted:
  "counted (foldl count_station s css) + sum_list (map reserved_count css) + totalConnectors s =
     counted s + totalConnectors (foldl count_station s css)"
proof (induction css arbitrary: s)
  case Nil
  then show ?case by simp
next
  case (Cons cs css)
  from Cons [of "count_station s cs"] count_station_counted [of s cs] show ?case by simp
qed

lemma count_stations_available:
  "availableChargers (foldl count_station s css) + totalChargers s
     \<le> availableChargers s + totalChargers (foldl count_station s css) \<and>
   availableChargers (foldl count_station s css) + availableConnectors s
     \<le> availableChargers s + availableConnectors (foldl count_station s css)"
proof (induction css arbitrary: s)
  case Nil
  then show ?case by simp
next
  case (Cons cs css)
  from Cons [of "count_station s cs"] count_station_available [of s cs] show ?case by simp
qed

text \<open>
  The status counters of a site balance: every connector of a station that is not deleted is in
  exactly one of the seven categories, apart from the reserved connectors of active stations, which
  the code counts in the total only; and a charger counted as available is one of the chargers and
  has at least one connector counted as available.
\<close>

lemma connector_statuses_balance:
  "let s = getConnectorStatusesFromChargingStations css in
     totalConnectors s = chargingConnectors s + suspendedConnectors s + availableConnectors s
       + unavailableConnectors s + preparingConnectors s + finishingConnectors s + faultedConnectors s
       + sum_list (map reserved_count css)
     \<and> availableChargers s \<le> totalChargers s \<and> availableChargers s \<le> availableConnectors s"
proof -
  define z where "z = \<lparr>totalChargers = 0, availableChargers = 0, totalConnectors = 0, chargingConnectors = 0,
    suspendedConnectors = 0, availableConnectors = 0, unavailableConnectors = 0,
    preparingConnectors = 0, finishingConnectors = 0, faultedConnectors = 0\<rparr>"
  have z: "counted z = 0" "totalConnectors z = 0" "totalChargers z = 0" "availableChargers z = 0"
    "availableConnectors z = 0" by (simp_all add: z_def counted_def)
  have c: "counted s = chargingConnectors s + suspendedConnectors s + availableConnectors s
      + unavailableConnectors s + preparingConnectors s + finishingConnectors s + faultedConnectors s" for s
    by (simp add: counted_def)
  have "getConnectorStatusesFromChargingStations css = foldl count_station z css"
    by (simp add: getConnectorStatusesFromChargingStations_def z_def)
  with count_stations_counted [of z css] count_stations_available [of z css] show ?thesis
    unfolding Let_def c [symmetric] by (simp add: z)
qed

section \<open>Power of a charge point that shares it between its connectors\<close>

text \<open>
  A charge point whose connectors can charge in parallel and that does not share its full power
  splits it: the powers computed for its connectors add up to the power of the charge point.
\<close>

lemma parallel_power_is_conserved:
  assumes "cs_chargePoints cs = Some [p]" "\<not> cp_cannotChargeInParallel p" "\<not> cp_sharePowerToAllConnectors p"
    and "cp_power p = Some w" "w \<noteq> 0" "cp_connectorIDs p \<noteq> []" "0 \<notin> set (cp_connectorIDs p)"
  shows "sum_list (map (getChargingStationPower (exact_runtime wd lt) cs None) (cp_connectorIDs p)) = w"
proof -
  let ?share = "w / of_nat (length (cp_connectorIDs p))"
  have "getChargingStationPower (exact_runtime wd lt) cs None cid = ?share"
    if "cid \<in> set (cp_connectorIDs p)" for cid
    using that assms
    by (auto simp: getChargingStationPower_def station_total_def this_charge_point_def)
  then have "map (getChargingStationPower (exact_runtime wd lt) cs None) (cp_connectorIDs p) =
      map (\<lambda>_. ?share) (cp_connectorIDs p)" by simp
  then have "sum_list (map (getChargingStationPower (exact_runtime wd lt) cs None) (cp_connectorIDs p)) =
      of_nat (length (cp_connectorIDs p)) * ?share"
    by (simp only: sum_list_triv)
  with assms show ?thesis by simp
qed

section \<open>Inactivity\<close>

definition severity :: "inactivity_status \<Rightarrow> nat" where
  "severity x = (case x of INFO \<Rightarrow> 0 | WARNING \<Rightarrow> 1 | ERROR \<Rightarrow> 2)"

instantiation inactivity_status :: linorder
begin

definition less_eq_inactivity_status :: "inactivity_status \<Rightarrow> inactivity_status \<Rightarrow> bool" where
  "less_eq_inactivity_status x y \<longleftrightarrow> severity x \<le> severity y"

definition less_inactivity_status :: "inactivity_status \<Rightarrow> inactivity_status \<Rightarrow> bool" where
  "less_inactivity_status x y \<longleftrightarrow> severity x < severity y"

instance
  by standard (auto simp: less_eq_inactivity_status_def less_inactivity_status_def severity_def
      split: inactivity_status.splits)

end

lemma severity_order [simp]: "INFO \<le> x" "x \<le> ERROR" "WARNING \<le> WARNING" "\<not> ERROR \<le> WARNING"
  by (cases x; simp add: less_eq_inactivity_status_def severity_def)+

lemma interval_nonneg: "0 \<le> getEndOfChargeNotificationIntervalMins cs cid"
  by (simp add: getEndOfChargeNotificationIntervalMins_def split: option.split)

text \<open>
  The inactivity level never improves while the inactivity of a session grows.
\<close>

lemma inactivity_level_monotone:
  assumes "0 \<le> a" "a \<le> b"
  shows "getInactivityStatusLevel cs cid (Some a) \<le> getInactivityStatusLevel cs cid (Some b)"
  using assms interval_nonneg [of cs cid]
  by (auto simp: getInactivityStatusLevel_def Let_def)

lemma inactivity_level_monotone_witness:
  "getInactivityStatusLevel two_connectors 1 (Some 1800) \<le> getInactivityStatusLevel two_connectors 1 (Some 3600)"
  using inactivity_level_monotone [of 1800 3600 two_connectors 1] by simp

end
