(* ===== verification/PricingTypes.thy ===== *)
theory PricingTypes
  imports PricingTimeLimits Stations
begin

text \<open>
  The data of the pricing component (\<open>types/Pricing.ts\<close>, \<open>types/Consumption.ts\<close> and the chunk
  of \<open>integration/pricing/ConsumptionPricer.ts\<close>).  Dates are milliseconds since the epoch.
  Where two interfaces of the code share a field name the record field carries a short prefix
  (\<open>pd_\<close> priced dimension, \<open>pc_\<close> priced consumption, \<open>ck_\<close> consumption chunk, \<open>c_\<close>
  consumption), since record fields are global names here.
\<close>

datatype pricing_entity = TENANT | COMPANY | SITE | SITE_AREA | CHARGING_STATION

datatype dimension_type = FLAT_FEE | ENERGY | CHARGING_TIME | PARKING_TIME

record priced_dimension_data =
  unitPrice :: "rat option"
  amountAsDecimal :: "rat option"
  pd_amount :: rat
  pd_roundedAmount :: rat
  quantity :: rat
  pd_stepSize :: "rat option"
  sourceName :: "string option"
  itemDescription :: "string option"
  taxes :: "string list option"

record pricing_dimension =
  active :: bool
  price :: "rat option"
  stepSize :: "rat option"
  pricedData :: "priced_dimension_data option"

record pricing_dimensions =
  flatFee :: "pricing_dimension option"
  energy :: "pricing_dimension option"
  chargingTime :: "pricing_dimension option"
  parkingTime :: "pricing_dimension option"

record pricing_static_restriction =
  validFrom :: "int option"
  validTo :: "int option"
  sr_connectorType :: "connector_type option"
  connectorPowerkW :: "rat option"

record pricing_restriction =
  daysOfWeek :: "nat list option"
  timeFrom :: "string option"
  timeTo :: "string option"
  minEnergyKWh :: "rat option"
  maxEnergyKWh :: "rat option"
  minDurationSecs :: "rat option"
  maxDurationSecs :: "rat option"

record resolved_definition =
  pdef_id :: "string option"
  entityID :: "string option"
  entityType :: "pricing_entity option"
  pdef_name :: string
  description :: string
  staticRestrictions :: "pricing_static_restriction option"
  restrictions :: "pricing_restriction option"
  dimensions :: pricing_dimensions

record pricing_definition = resolved_definition +
  pdef_siteID :: "string option"
  roaming :: "bool option"

record pricer_context =
  flatFeeAlreadyPriced :: bool
  sessionStartDate :: int
  lastAbsorbedConsumption :: "rat option"
  lastAbsorbedChargingTime :: "int option"
  lastAbsorbedParkingTime :: "int option"
  timezone :: "string option"

record resolved_model =
  pricingDefinitions :: "resolved_definition list"
  pricerContext :: pricer_context

record pricing_context =
  ctx_userID :: "string option"
  ctx_companyID :: "string option"
  ctx_siteID :: "string option"
  ctx_siteAreaID :: "string option"
  ctx_chargingStationID :: "string option"
  ctx_connectorId :: "int option"
  ctx_connectorType :: "connector_type option"
  ctx_connectorPower :: "rat option"
  roamingTransaction :: "bool option"
  ctx_timezone :: "string option"
  ctx_timestamp :: "int option"

record priced_consumption_data =
  pc_flatFee :: "priced_dimension_data option"
  pc_energy :: "priced_dimension_data option"
  pc_parkingTime :: "priced_dimension_data option"
  pc_chargingTime :: "priced_dimension_data option"

record consumption_chunk =
  ck_startedAt :: int
  ck_endedAt :: int
  ck_consumptionWh :: "rat option"
  ck_cumulatedConsumptionWh :: rat
  ck_totalDurationSecs :: "rat option"
  ck_totalInactivitySecs :: "rat option"

section \<open>Reading and writing a dimension by its type\<close>

text \<open>The code indexes the dimensions by the enum: \<open>dimensions[dimensionType]\<close>.\<close>

fun dimension_of :: "dimension_type \<Rightarrow> pricing_dimensions \<Rightarrow> pricing_dimension option" where
  "dimension_of FLAT_FEE ds = flatFee ds"
| "dimension_of ENERGY ds = energy ds"
| "dimension_of CHARGING_TIME ds = chargingTime ds"
| "dimension_of PARKING_TIME ds = parkingTime ds"

fun set_dimension ::
    "dimension_type \<Rightarrow> pricing_dimension \<Rightarrow> resolved_definition \<Rightarrow> resolved_definition" where
  "set_dimension FLAT_FEE d r = r\<lparr>dimensions := (dimensions r)\<lparr>flatFee := Some d\<rparr>\<rparr>"
| "set_dimension ENERGY d r = r\<lparr>dimensions := (dimensions r)\<lparr>energy := Some d\<rparr>\<rparr>"
| "set_dimension CHARGING_TIME d r = r\<lparr>dimensions := (dimensions r)\<lparr>chargingTime := Some d\<rparr>\<rparr>"
| "set_dimension PARKING_TIME d r = r\<lparr>dimensions := (dimensions r)\<lparr>parkingTime := Some d\<rparr>\<rparr>"

fun priced_of :: "dimension_type \<Rightarrow> priced_consumption_data \<Rightarrow> priced_dimension_data option" where
  "priced_of FLAT_FEE p = pc_flatFee p"
| "priced_of ENERGY p = pc_energy p"
| "priced_of CHARGING_TIME p = pc_chargingTime p"
| "priced_of PARKING_TIME p = pc_parkingTime p"

fun set_priced ::
    "dimension_type \<Rightarrow> priced_dimension_data option \<Rightarrow> priced_consumption_data \<Rightarrow> priced_consumption_data" where
  "set_priced FLAT_FEE v p = p\<lparr>pc_flatFee := v\<rparr>"
| "set_priced ENERGY v p = p\<lparr>pc_energy := v\<rparr>"
| "set_priced CHARGING_TIME v p = p\<lparr>pc_chargingTime := v\<rparr>"
| "set_priced PARKING_TIME v p = p\<lparr>pc_parkingTime := v\<rparr>"

definition empty_priced :: priced_consumption_data where
  "empty_priced = \<lparr>pc_flatFee = None, pc_energy = None, pc_parkingTime = None, pc_chargingTime = None\<rparr>"

lemma dimension_of_set_dimension [simp]:
  "dimension_of t (dimensions (set_dimension t' d r)) =
     (if t = t' then Some d else dimension_of t (dimensions r))"
  by (cases t; cases t') simp_all

lemma set_dimension_frame [simp]:
  "pdef_id (set_dimension t d r) = pdef_id r"
  "entityID (set_dimension t d r) = entityID r"
  "entityType (set_dimension t d r) = entityType r"
  "pdef_name (set_dimension t d r) = pdef_name r"
  "description (set_dimension t d r) = description r"
  "staticRestrictions (set_dimension t d r) = staticRestrictions r"
  "restrictions (set_dimension t d r) = restrictions r"
  by (cases t; simp)+

lemma priced_of_set_priced [simp]:
  "priced_of t (set_priced t' v p) = (if t = t' then v else priced_of t p)"
  by (cases t; cases t') simp_all

lemma priced_of_empty [simp]: "priced_of t empty_priced = None"
  by (cases t) (simp_all add: empty_priced_def)

end
