(* ===== verification/ChunkPricer.thy ===== *)
theory ChunkPricer
  imports PricingTypes
begin

text \<open>
  \<open>integration/pricing/ConsumptionChunkPricer.ts\<close>: the price of one chunk of a consumption.

  The pricer mutates objects of the resolved model: the priced data of a dimension and the
  pricer context.  Here each method returns them.  One object is shared: the first priced data of a
  dimension is stored in the dimension and returned to the caller, who then sets its source name,
  so the stored data gets the name too; \<open>enrichPricedData\<close> writes both where the code has one
  object.  The only definition a chunk uses is the first of the model whose restrictions hold
  (the array of the constructor has one element); without one, reading \<open>dimensions\<close> of
  \<open>undefined\<close> raises.
\<close>

section \<open>Dates\<close>

text \<open>
  \<open>moment(a).diff(b, 'seconds')\<close> truncates towards zero; \<open>subtract(r, 'seconds').toDate()\<close> moves
  the date by \<open>1000 * r\<close> milliseconds, and a date keeps whole milliseconds.
\<close>

definition diff_seconds :: "int \<Rightarrow> int \<Rightarrow> int" where
  "diff_seconds a b = (if b \<le> a then (a - b) div 1000 else - ((b - a) div 1000))"

definition subtract_seconds :: "int \<Rightarrow> rat \<Rightarrow> int" where
  "subtract_seconds t r =
     (let x = of_int t - r * 1000 in if 0 \<le> x then \<lfloor>x\<rfloor> else \<lceil>x\<rceil>)"

lemma diff_seconds_bounds:
  "b \<le> a \<Longrightarrow> 0 \<le> diff_seconds a b \<and> diff_seconds a b * 1000 \<le> a - b \<and> a - b < diff_seconds a b * 1000 + 1000"
proof -
  assume "b \<le> a"
  moreover have "a - b = 1000 * ((a - b) div 1000) + (a - b) mod 1000" by simp
  moreover have "0 \<le> (a - b) mod 1000" and "(a - b) mod 1000 < 1000" by simp_all
  moreover have "0 \<le> (a - b) div 1000" using \<open>b \<le> a\<close> by simp
  ultimately show ?thesis by (auto simp: diff_seconds_def)
qed

lemma diff_seconds_pos: "0 < diff_seconds a b \<Longrightarrow> b < a"
  by (auto simp: diff_seconds_def split: if_splits)

lemma subtract_seconds_int [simp]: "subtract_seconds t (of_int r) = t - r * 1000"
proof -
  have "(of_int t - of_int r * 1000 :: rat) = of_int (t - r * 1000)" by simp
  then show ?thesis unfolding subtract_seconds_def Let_def by (simp only: floor_of_int ceiling_of_int if_cancel)
qed

lemma subtract_seconds_zero [simp]: "subtract_seconds t 0 = t"
  using subtract_seconds_int [of t 0] by simp

section \<open>Restrictions of a tariff\<close>

definition checkDayOfWeek :: "runtime \<Rightarrow> pricer_context \<Rightarrow> pricing_restriction \<Rightarrow> consumption_chunk \<Rightarrow> bool" where
  "checkDayOfWeek R ctx r ck =
     (case daysOfWeek r of
        None \<Rightarrow> True
      | Some days \<Rightarrow>
          (case timezone ctx of
             None \<Rightarrow> False
           | Some tz \<Rightarrow> if tz = [] then False else iso_weekday R tz (ck_startedAt ck) \<in> set days))"

definition checkTimeValidity :: "runtime \<Rightarrow> pricer_context \<Rightarrow> pricing_restriction \<Rightarrow> consumption_chunk \<Rightarrow> bool" where
  "checkTimeValidity R ctx r ck =
     (if timeFrom r = None \<and> timeTo r = None then True
      else case timezone ctx of
             None \<Rightarrow> False
           | Some tz \<Rightarrow>
               if tz = [] then False
               else isBetween (parseTime (local_time R tz (ck_startedAt ck)))
                      (parseTime (str_or (timeFrom r) ''00:00'')) (parseTime (str_or (timeTo r) ''00:00'')))"

definition checkMinEnergy :: "runtime \<Rightarrow> pricing_restriction \<Rightarrow> consumption_chunk \<Rightarrow> bool" where
  "checkMinEnergy R r ck =
     (case minEnergyKWh r of None \<Rightarrow> True
      | Some m \<Rightarrow> \<not> d_div R (ck_cumulatedConsumptionWh ck) 1000 < m)"

definition checkMaxEnergy :: "runtime \<Rightarrow> pricing_restriction \<Rightarrow> consumption_chunk \<Rightarrow> bool" where
  "checkMaxEnergy R r ck =
     (case maxEnergyKWh r of None \<Rightarrow> True
      | Some m \<Rightarrow> \<not> m \<le> d_div R (ck_cumulatedConsumptionWh ck) 1000)"

definition checkMinDuration :: "pricing_restriction \<Rightarrow> consumption_chunk \<Rightarrow> bool" where
  "checkMinDuration r ck =
     (case minDurationSecs r of None \<Rightarrow> True
      | Some m \<Rightarrow> \<not> createDecimal (ck_totalDurationSecs ck) < m)"

definition checkMaxDuration :: "pricing_restriction \<Rightarrow> consumption_chunk \<Rightarrow> bool" where
  "checkMaxDuration r ck =
     (case maxDurationSecs r of None \<Rightarrow> True
      | Some m \<Rightarrow> \<not> m \<le> createDecimal (ck_totalDurationSecs ck))"

definition checkPricingDefinitionRestrictions ::
    "runtime \<Rightarrow> pricer_context \<Rightarrow> consumption_chunk \<Rightarrow> resolved_definition \<Rightarrow> bool" where
  "checkPricingDefinitionRestrictions R ctx ck d =
     (case restrictions d of
        None \<Rightarrow> True
      | Some r \<Rightarrow>
          checkDayOfWeek R ctx r ck \<and> checkTimeValidity R ctx r ck \<and> checkMinEnergy R r ck
          \<and> checkMaxEnergy R r ck \<and> checkMinDuration r ck \<and> checkMaxDuration r ck)"

text \<open>The constructor: the index of the definition that prices the chunk, if any.\<close>

definition actual_definition :: "runtime \<Rightarrow> resolved_model \<Rightarrow> consumption_chunk \<Rightarrow> nat option" where
  "actual_definition R m ck =
     first_index (checkPricingDefinitionRestrictions R (pricerContext m) ck) (pricingDefinitions m)"

text \<open>
  \<open>getActiveDefinition4Dimension\<close> on the one actual definition: its dimension of the given type,
  when there is one and it is switched on.
\<close>

definition active_dimension :: "dimension_type \<Rightarrow> resolved_definition \<Rightarrow> pricing_dimension option" where
  "active_dimension t d =
     (case dimension_of t (dimensions d) of
        None \<Rightarrow> None
      | Some dm \<Rightarrow> if active dm then Some dm else None)"

section \<open>Priced data\<close>

definition addPricedData :: "runtime \<Rightarrow> pricing_dimension \<Rightarrow> priced_dimension_data \<Rightarrow> pricing_dimension" where
  "addPricedData R dm pd =
     (case pricedData dm of
        Some prev \<Rightarrow>
          (let a = d_add R (createDecimal (amountAsDecimal prev)) (createDecimal (amountAsDecimal pd));
               am = num R a
           in dm\<lparr>pricedData := Some (prev\<lparr>amountAsDecimal := Some a, pd_amount := am,
                 quantity := num R (d_add R (quantity prev) (quantity pd)),
                 pd_roundedAmount := truncTo R am 2\<rparr>)\<rparr>)
      | None \<Rightarrow> dm\<lparr>pricedData := Some pd\<rparr>)"

definition priced_data :: "runtime \<Rightarrow> rat \<Rightarrow> rat \<Rightarrow> rat \<Rightarrow> rat option \<Rightarrow> priced_dimension_data" where
  "priced_data R unit_price amount_decimal qty step =
     \<lparr>unitPrice = Some unit_price, amountAsDecimal = Some amount_decimal,
      pd_amount = num R amount_decimal, pd_roundedAmount = truncTo R amount_decimal 2,
      quantity = qty, pd_stepSize = step, sourceName = None, itemDescription = None, taxes = None\<rparr>"

definition priceFlatFeeDimension ::
    "runtime \<Rightarrow> pricing_dimension \<Rightarrow> priced_dimension_data \<times> pricing_dimension" where
  "priceFlatFeeDimension R dm =
     (let unit_price = num0 (price dm) in
      case pricedData dm of
        Some _ \<Rightarrow>
          (\<lparr>unitPrice = Some 0, amountAsDecimal = Some 0, pd_amount = 0, pd_roundedAmount = 0,
            quantity = 0, pd_stepSize = None, sourceName = None, itemDescription = None, taxes = None\<rparr>, dm)
      | None \<Rightarrow>
          (let pd = \<lparr>unitPrice = Some unit_price, amountAsDecimal = Some unit_price,
                 pd_amount = unit_price, pd_roundedAmount = truncTo R unit_price 2, quantity = 1,
                 pd_stepSize = None, sourceName = None, itemDescription = None, taxes = None\<rparr>
           in (pd, dm\<lparr>pricedData := Some pd\<rparr>)))"

definition priceConsumptionStep ::
    "runtime \<Rightarrow> pricing_dimension \<Rightarrow> rat \<Rightarrow> rat \<Rightarrow> priced_dimension_data \<times> pricing_dimension" where
  "priceConsumptionStep R dm step steps =
     (let unit_price = num0 (price dm);
          qty = num R (d_mul R steps step);
          amount = d_div R (d_mul R unit_price qty) 1000;
          pd = priced_data R unit_price amount qty (Some step)
      in (pd, addPricedData R dm pd))"

definition priceConsumptionWh ::
    "runtime \<Rightarrow> pricing_dimension \<Rightarrow> rat \<Rightarrow> priced_dimension_data \<times> pricing_dimension" where
  "priceConsumptionWh R dm wh =
     (let unit_price = num0 (price dm);
          amount = d_div R (d_mul R unit_price wh) 1000;
          pd = priced_data R unit_price amount wh None
      in (pd, addPricedData R dm pd))"

definition priceTimeSteps ::
    "runtime \<Rightarrow> pricing_dimension \<Rightarrow> rat \<Rightarrow> rat \<Rightarrow> priced_dimension_data \<times> pricing_dimension" where
  "priceTimeSteps R dm step steps =
     (let unit_price = num0 (price dm);
          qty = num R (d_mul R steps step);
          amount = d_div R (d_mul R unit_price qty) 3600;
          pd = priced_data R unit_price amount qty (Some step)
      in (pd, addPricedData R dm pd))"

definition priceTimeSpent ::
    "runtime \<Rightarrow> pricing_dimension \<Rightarrow> rat \<Rightarrow> priced_dimension_data \<times> pricing_dimension" where
  "priceTimeSpent R dm secs =
     (let unit_price = num0 (price dm);
          amount = d_div R (d_mul R unit_price secs) 3600;
          pd = priced_data R unit_price amount secs None
      in (pd, addPricedData R dm pd))"

text \<open>
  \<open>dm0\<close> is the dimension before pricing: when it had no priced data, the object just priced is
  the object now stored.
\<close>

definition enrichPricedData ::
    "string \<Rightarrow> pricing_dimension \<Rightarrow> priced_dimension_data \<times> pricing_dimension \<Rightarrow>
       priced_dimension_data \<times> pricing_dimension" where
  "enrichPricedData name dm0 r =
     (let (pd, dm) = r in
      (pd\<lparr>sourceName := Some name\<rparr>,
       (case pricedData dm0 of
          None \<Rightarrow> dm\<lparr>pricedData := map_option (\<lambda>p. p\<lparr>sourceName := Some name\<rparr>) (pricedData dm)\<rparr>
        | Some _ \<Rightarrow> dm)))"

definition priceTimeDimension ::
    "runtime \<Rightarrow> consumption_chunk \<Rightarrow> pricing_dimension \<Rightarrow> int \<Rightarrow>
       ((priced_dimension_data \<times> pricing_dimension) \<times> rat) option" where
  "priceTimeDimension R ck dm lastStepDate =
     (if truthy_num (stepSize dm) then
        (let step = the (stepSize dm);
             timeSpent = of_int (diff_seconds (ck_endedAt ck) lastStepDate);
             nbSteps = num R (d_div_to_int R timeSpent step);
             absorbedSeconds = d_mul R nbSteps step;
             remainder = d_sub R timeSpent absorbedSeconds
         in if 0 < nbSteps then Some (priceTimeSteps R dm step nbSteps, num R remainder) else None)
      else
        (let seconds = of_int (diff_seconds (ck_endedAt ck) (ck_startedAt ck))
         in if 0 < seconds then Some (priceTimeSpent R dm seconds, 0) else None))"

section \<open>The four dimensions of a chunk\<close>

text \<open>What a dimension's method returns: the priced data if any, and the mutated objects.\<close>

type_synonym dim_result = "priced_dimension_data option \<times> pricer_context \<times> resolved_definition"

definition priceFlatFeeConsumption ::
    "runtime \<Rightarrow> consumption_chunk \<Rightarrow> pricer_context \<Rightarrow> resolved_definition \<Rightarrow> dim_result" where
  "priceFlatFeeConsumption R ck ctx d =
     (if \<not> flatFeeAlreadyPriced ctx then
        (case active_dimension FLAT_FEE d of
           Some dm \<Rightarrow>
             (if 0 < ck_cumulatedConsumptionWh ck then
                (let (pd, dm') = enrichPricedData (pdef_name d) dm (priceFlatFeeDimension R dm)
                 in (Some pd, ctx\<lparr>flatFeeAlreadyPriced := True\<rparr>, set_dimension FLAT_FEE dm' d))
              else (None, ctx, d))
         | None \<Rightarrow> (None, ctx, d))
      else (None, ctx, d))"

definition getAbsorbedConsumption :: "pricer_context \<Rightarrow> rat" where
  "getAbsorbedConsumption ctx = num0 (lastAbsorbedConsumption ctx)"

definition absorbConsumption :: "consumption_chunk \<Rightarrow> pricer_context \<Rightarrow> pricer_context" where
  "absorbConsumption ck ctx = ctx\<lparr>lastAbsorbedConsumption := Some (ck_cumulatedConsumptionWh ck)\<rparr>"

definition absorbStepConsumption :: "runtime \<Rightarrow> consumption_chunk \<Rightarrow> rat \<Rightarrow> pricer_context \<Rightarrow> pricer_context" where
  "absorbStepConsumption R ck step ctx =
     ctx\<lparr>lastAbsorbedConsumption :=
           Some (num R (d_mul R (rtrunc (d_div R (ck_cumulatedConsumptionWh ck) step)) step))\<rparr>"

definition priceEnergyConsumption ::
    "runtime \<Rightarrow> consumption_chunk \<Rightarrow> pricer_context \<Rightarrow> resolved_definition \<Rightarrow> dim_result" where
  "priceEnergyConsumption R ck ctx d =
     (case active_dimension ENERGY d of
        Some dm \<Rightarrow>
          (let consumptionWh = num0 (ck_consumptionWh ck) in
           if truthy_num (stepSize dm) then
             (if 0 < ck_cumulatedConsumptionWh ck then
                (let step = the (stepSize dm);
                     delta = d_sub R (ck_cumulatedConsumptionWh ck) (getAbsorbedConsumption ctx);
                     nbSteps = num R (d_div_to_int R delta step)
                 in if 0 < nbSteps then
                      (let (pd, dm') = enrichPricedData (pdef_name d) dm (priceConsumptionStep R dm step nbSteps)
                       in (Some pd, absorbStepConsumption R ck step ctx, set_dimension ENERGY dm' d))
                    else (None, ctx, d))
              else (None, ctx, d))
           else if 0 < consumptionWh then
             (let (pd, dm') = enrichPricedData (pdef_name d) dm (priceConsumptionWh R dm consumptionWh)
              in (Some pd, absorbConsumption ck ctx, set_dimension ENERGY dm' d))
           else (None, ctx, d))
      | None \<Rightarrow> (None, absorbConsumption ck ctx, d))"

definition getAbsorbedChargingTime :: "pricer_context \<Rightarrow> int" where
  "getAbsorbedChargingTime ctx =
     (case lastAbsorbedChargingTime ctx of Some t \<Rightarrow> t | None \<Rightarrow> sessionStartDate ctx)"

definition absorbChargingTime :: "consumption_chunk \<Rightarrow> rat \<Rightarrow> pricer_context \<Rightarrow> pricer_context" where
  "absorbChargingTime ck remainder ctx =
     ctx\<lparr>lastAbsorbedChargingTime := Some (subtract_seconds (ck_endedAt ck) remainder)\<rparr>"

definition priceChargingTimeConsumption ::
    "runtime \<Rightarrow> consumption_chunk \<Rightarrow> pricer_context \<Rightarrow> resolved_definition \<Rightarrow> dim_result" where
  "priceChargingTimeConsumption R ck ctx d =
     (case active_dimension CHARGING_TIME d of
        Some dm \<Rightarrow>
          (if 0 < num0 (ck_consumptionWh ck) then
             (case priceTimeDimension R ck dm (getAbsorbedChargingTime ctx) of
                Some (r, remainder) \<Rightarrow>
                  (let (pd, dm') = enrichPricedData (pdef_name d) dm r
                   in (Some pd, absorbChargingTime ck remainder ctx, set_dimension CHARGING_TIME dm' d))
              | None \<Rightarrow> (None, ctx, d))
           else (None, absorbChargingTime ck 0 ctx, d))
      | None \<Rightarrow> (None, absorbChargingTime ck 0 ctx, d))"

definition getAbsorbedParkingTime :: "pricer_context \<Rightarrow> int" where
  "getAbsorbedParkingTime ctx =
     (case lastAbsorbedParkingTime ctx of Some t \<Rightarrow> t | None \<Rightarrow> sessionStartDate ctx)"

definition absorbParkingTime :: "consumption_chunk \<Rightarrow> rat \<Rightarrow> pricer_context \<Rightarrow> pricer_context" where
  "absorbParkingTime ck remainder ctx =
     ctx\<lparr>lastAbsorbedParkingTime := Some (subtract_seconds (ck_endedAt ck) remainder)\<rparr>"

definition priceParkingTimeConsumption ::
    "runtime \<Rightarrow> consumption_chunk \<Rightarrow> pricer_context \<Rightarrow> resolved_definition \<Rightarrow> dim_result" where
  "priceParkingTimeConsumption R ck ctx d =
     (case active_dimension PARKING_TIME d of
        Some dm \<Rightarrow>
          (if 0 < num0 (ck_totalInactivitySecs ck) \<and> 0 < ck_cumulatedConsumptionWh ck
              \<and> num0 (ck_consumptionWh ck) \<le> 0 then
             (case priceTimeDimension R ck dm (getAbsorbedParkingTime ctx) of
                Some (r, remainder) \<Rightarrow>
                  (let (pd, dm') = enrichPricedData (pdef_name d) dm r
                   in (Some pd, absorbParkingTime ck remainder ctx, set_dimension PARKING_TIME dm' d))
              | None \<Rightarrow> (None, ctx, d))
           else (None, absorbParkingTime ck 0 ctx, d))
      | None \<Rightarrow> (None, absorbParkingTime ck 0 ctx, d))"

text \<open>\<open>priceConsumptionChunk\<close> on the actual definition, then on the model.\<close>

definition price_with_definition ::
    "runtime \<Rightarrow> consumption_chunk \<Rightarrow> pricer_context \<Rightarrow> resolved_definition \<Rightarrow>
       priced_consumption_data \<times> pricer_context \<times> resolved_definition" where
  "price_with_definition R ck ctx d =
     (let (ff, ctx1, d1) = priceFlatFeeConsumption R ck ctx d;
          (en, ctx2, d2) = priceEnergyConsumption R ck ctx1 d1;
          (ct, ctx3, d3) = priceChargingTimeConsumption R ck ctx2 d2;
          (pt, ctx4, d4) = priceParkingTimeConsumption R ck ctx3 d3
      in (\<lparr>pc_flatFee = ff, pc_energy = en, pc_parkingTime = pt, pc_chargingTime = ct\<rparr>, ctx4, d4))"

definition priceConsumptionChunk ::
    "runtime \<Rightarrow> consumption_chunk \<Rightarrow> resolved_model \<Rightarrow> (priced_consumption_data \<times> resolved_model) res" where
  "priceConsumptionChunk R ck m =
     (case actual_definition R m ck of
        None \<Rightarrow> Inl TypeError
      | Some i \<Rightarrow>
          (let (p, ctx, d) = price_with_definition R ck (pricerContext m) (pricingDefinitions m ! i)
           in Inr (p, m\<lparr>pricingDefinitions := (pricingDefinitions m)[i := d], pricerContext := ctx\<rparr>)))"

end
