(* ===== verification/SessionTypes.thy ===== *)
theory SessionTypes
  imports PricingTypes
begin

text \<open>
  The data of a charging session: a consumption (\<open>types/Consumption.ts\<close>), a transaction
  (\<open>types/Transaction.ts\<close>) and its tag.  The interfaces the code extends are the parents of the
  records.  Prefixes: \<open>c_\<close> consumption, \<open>tx_\<close> transaction, \<open>ts_\<close> the stop data of a transaction.
  Fields that only the REST API or the roaming protocols use are left out.
\<close>

section \<open>Consumption\<close>

datatype limit_source = CHARGING_PROFILE | STATIC_LIMITATION | CONNECTOR

datatype site_area_limit_source = CHARGING_STATIONS | SITE_AREA_LIMIT

datatype pricing_source = SIMPLE | OCPI

record abstract_consumption =
  instantWatts :: "rat option"
  instantWattsL1 :: "rat option"
  instantWattsL2 :: "rat option"
  instantWattsL3 :: "rat option"
  instantWattsDC :: "rat option"
  instantAmps :: "rat option"
  instantAmpsL1 :: "rat option"
  instantAmpsL2 :: "rat option"
  instantAmpsL3 :: "rat option"
  instantAmpsDC :: "rat option"
  instantVolts :: "rat option"
  instantVoltsL1 :: "rat option"
  instantVoltsL2 :: "rat option"
  instantVoltsL3 :: "rat option"
  instantVoltsDC :: "rat option"
  c_consumptionWh :: "rat option"
  c_consumptionAmps :: "rat option"

record consumption = abstract_consumption +
  c_id :: "string option"
  c_startedAt :: "int option"
  c_endedAt :: int
  c_transactionId :: "int option"
  c_connectorId :: "int option"
  c_cumulatedConsumptionWh :: "rat option"
  c_cumulatedConsumptionAmps :: "rat option"
  c_pricingSource :: "pricing_source option"
  c_amount :: "rat option"
  c_roundedAmount :: "rat option"
  c_cumulatedAmount :: "rat option"
  c_currencyCode :: "string option"
  c_inactivitySecs :: "rat option"
  c_totalInactivitySecs :: "rat option"
  c_totalDurationSecs :: "rat option"
  c_stateOfCharge :: "rat option"
  c_toPrice :: bool
  c_limitAmps :: "rat option"
  c_limitWatts :: "rat option"
  c_limitSource :: "limit_source option"
  c_limitSiteAreaAmps :: "rat option"
  c_limitSiteAreaWatts :: "rat option"
  c_limitSiteAreaSource :: "site_area_limit_source option"
  c_smartChargingActive :: "bool option"

text \<open>\<open>moment(consumption.startedAt)\<close>: without a start date it is the current time.\<close>

definition started :: "runtime \<Rightarrow> consumption \<Rightarrow> int" where
  "started R c = (case c_startedAt c of None \<Rightarrow> clock R | Some t \<Rightarrow> t)"

section \<open>Site area\<close>

text \<open>The part of \<open>types/SiteArea.ts\<close> that limits the power of its stations.\<close>

record site_area =
  sa_id :: string
  sa_maximumPower :: "rat option"
  sa_voltage :: rat
  sa_smartCharging :: bool
  sa_accessControl :: bool

section \<open>Transaction\<close>

record last_consumption =
  lc_value :: rat
  lc_timestamp :: int

record abstract_current_consumption =
  currentConsumptionWh :: "rat option"
  currentTotalConsumptionWh :: "rat option"
  currentInstantWatts :: "rat option"
  currentInstantWattsL1 :: "rat option"
  currentInstantWattsL2 :: "rat option"
  currentInstantWattsL3 :: "rat option"
  currentInstantWattsDC :: "rat option"
  currentInstantVolts :: "rat option"
  currentInstantVoltsL1 :: "rat option"
  currentInstantVoltsL2 :: "rat option"
  currentInstantVoltsL3 :: "rat option"
  currentInstantVoltsDC :: "rat option"
  currentInstantAmps :: "rat option"
  currentInstantAmpsL1 :: "rat option"
  currentInstantAmpsL2 :: "rat option"
  currentInstantAmpsL3 :: "rat option"
  currentInstantAmpsDC :: "rat option"
  currentStateOfCharge :: "rat option"
  lastConsumption :: "last_consumption option"

record transaction_stop =
  ts_timestamp :: int
  ts_meterStop :: rat
  ts_reason :: "string option"
  ts_tagID :: "string option"
  ts_userID :: "string option"
  ts_price :: "rat option"
  ts_roundedPrice :: "rat option"
  ts_priceUnit :: "string option"
  ts_pricingSource :: "pricing_source option"
  ts_stateOfCharge :: "rat option"
  ts_totalInactivitySecs :: "rat option"
  ts_extraInactivitySecs :: "rat option"
  ts_extraInactivityComputed :: bool
  ts_totalConsumptionWh :: "rat option"
  ts_totalDurationSecs :: "rat option"
  ts_inactivityStatus :: "inactivity_status option"
  ts_signedData :: "string option"

record phases_used =
  csPhase1 :: bool
  csPhase2 :: bool
  csPhase3 :: bool

record tag =
  tag_id :: string
  tag_issuer :: bool

record remote_stop =
  rs_timestamp :: int
  rs_tagID :: string

record tx_transaction = abstract_current_consumption +
  tx_id :: int
  tx_issuer :: bool
  tx_companyID :: "string option"
  tx_siteID :: "string option"
  tx_siteAreaID :: "string option"
  tx_chargeBoxID :: string
  tx_connectorId :: int
  tx_tagID :: "string option"
  tx_tag :: "tag option"
  tx_userID :: "string option"
  tx_meterStart :: rat
  tx_timestamp :: int
  tx_timezone :: "string option"
  tx_stateOfCharge :: "rat option"
  tx_stop :: "transaction_stop option"
  tx_price :: "rat option"
  tx_roundedPrice :: "rat option"
  tx_priceUnit :: "string option"
  tx_pricingSource :: "pricing_source option"
  tx_pricingModel :: "resolved_model option"
  currentTimestamp :: "int option"
  currentTotalInactivitySecs :: "rat option"
  currentInactivityStatus :: "inactivity_status option"
  currentTotalDurationSecs :: "rat option"
  currentCumulatedPrice :: "rat option"
  currentCumulatedRoundedPrice :: "rat option"
  currentSignedData :: "string option"
  tx_phasesUsed :: "phases_used option"
  numberOfMeterValues :: int
  transactionEndReceived :: bool
  tx_remotestop :: "remote_stop option"
  tx_signedData :: "string option"

end
