(* ===== verification/PricingHelper.thy ===== *)
theory PricingHelper
  imports SessionTypes
begin

text \<open>
  \<open>integration/pricing/PricingHelper.ts\<close>: the context a price is resolved in, its consistency
  check, and the accumulation of priced data.
\<close>

section \<open>Pricing contexts\<close>

definition buildTransactionPricingContext :: "tx_transaction \<Rightarrow> charging_station \<Rightarrow> pricing_context" where
  "buildTransactionPricingContext tx cs =
     (let cn = getConnectorFromID cs (tx_connectorId tx) in
      \<lparr>ctx_userID = tx_userID tx, ctx_companyID = tx_companyID tx, ctx_siteID = tx_siteID tx,
       ctx_siteAreaID = tx_siteAreaID tx, ctx_chargingStationID = Some (tx_chargeBoxID tx),
       ctx_connectorId = Some (tx_connectorId tx), ctx_connectorType = Option.bind cn cn_type,
       ctx_connectorPower = Option.bind cn cn_power,
       roamingTransaction = Some (\<not> (case tx_tag tx of None \<Rightarrow> False | Some t \<Rightarrow> tag_issuer t)),
       ctx_timezone = tx_timezone tx, ctx_timestamp = Some (tx_timestamp tx)\<rparr>)"

text \<open>\<open>Utils.getTimezone\<close>; the lookup by latitude and longitude is a library.\<close>

definition getTimezone :: "runtime \<Rightarrow> rat list option \<Rightarrow> string option" where
  "getTimezone R coordinates =
     (case coordinates of Some [lon, lat] \<Rightarrow> Some (lookup_timezone R lat lon) | _ \<Rightarrow> None)"

definition buildUserPricingContext ::
    "runtime \<Rightarrow> string \<Rightarrow> charging_station \<Rightarrow> int \<Rightarrow> int \<Rightarrow> pricing_context" where
  "buildUserPricingContext R uid cs cid timestamp =
     (let cn = getConnectorFromID cs cid in
      \<lparr>ctx_userID = Some uid, ctx_companyID = cs_companyID cs, ctx_siteID = cs_siteID cs,
       ctx_siteAreaID = cs_siteAreaID cs, ctx_chargingStationID = Some (cs_id cs),
       ctx_connectorId = Some cid, ctx_connectorType = Option.bind cn cn_type,
       ctx_connectorPower = Option.bind cn cn_power, roamingTransaction = None,
       ctx_timezone = getTimezone R (cs_coordinates cs), ctx_timestamp = Some timestamp\<rparr>)"

definition checkContextConsistency :: "pricing_context \<Rightarrow> bool" where
  "checkContextConsistency ctx \<longleftrightarrow>
     truthy_str (ctx_companyID ctx) \<and> truthy_str (ctx_siteID ctx) \<and> truthy_str (ctx_siteAreaID ctx)
     \<and> truthy_str (ctx_chargingStationID ctx) \<and> ctx_connectorId ctx \<noteq> None
     \<and> ctx_connectorType ctx \<noteq> None \<and> ctx_connectorPower ctx \<noteq> None
     \<and> ctx_timestamp ctx \<noteq> None \<and> truthy_str (ctx_timezone ctx)"

section \<open>Amounts of the dimensions of several tariffs\<close>

definition stored_data :: "dimension_type \<Rightarrow> pricing_dimensions \<Rightarrow> priced_dimension_data option" where
  "stored_data t ds = Option.bind (dimension_of t ds) pricedData"

text \<open>The pair is \<open>cumulatedAmount\<close> and \<open>cumulatedRoundedAmount\<close>.\<close>

definition accumulatePricingDimension ::
    "runtime \<Rightarrow> pricing_dimensions list \<Rightarrow> dimension_type \<Rightarrow> rat \<times> rat" where
  "accumulatePricingDimension R dss t =
     foldl (\<lambda>(a, r) ds.
        (num R (d_add R a (case stored_data t ds of None \<Rightarrow> 0 | Some pd \<Rightarrow> pd_amount pd)),
         num R (d_add R r (case stored_data t ds of None \<Rightarrow> 0 | Some pd \<Rightarrow> pd_roundedAmount pd))))
       (0, 0) dss"

definition accumulatePricingDimensions :: "runtime \<Rightarrow> pricing_dimensions list \<Rightarrow> rat \<times> rat" where
  "accumulatePricingDimensions R dss =
     (let flat = accumulatePricingDimension R dss FLAT_FEE;
          en = accumulatePricingDimension R dss ENERGY;
          ct = accumulatePricingDimension R dss CHARGING_TIME;
          pt = accumulatePricingDimension R dss PARKING_TIME
      in (num R (d_add R (d_add R (d_add R (d_add R 0 (fst flat)) (fst en)) (fst ct)) (fst pt)),
          num R (d_add R (d_add R (d_add R (d_add R 0 (snd flat)) (snd en)) (snd ct)) (snd pt))))"

section \<open>Accumulation of priced consumptions\<close>

definition emptyDimensionData :: priced_dimension_data where
  "emptyDimensionData =
     \<lparr>unitPrice = None, amountAsDecimal = Some 0, pd_amount = 0, pd_roundedAmount = 0, quantity = 0,
      pd_stepSize = None, sourceName = None, itemDescription = None, taxes = None\<rparr>"

definition accumulatePricedConsumptionData ::
    "runtime \<Rightarrow> priced_consumption_data \<Rightarrow> dimension_type \<Rightarrow> priced_consumption_data \<Rightarrow> priced_consumption_data" where
  "accumulatePricedConsumptionData R priced t acc =
     (case priced_of t priced of
        None \<Rightarrow> acc
      | Some pd \<Rightarrow>
          (let prev = (case priced_of t acc of None \<Rightarrow> emptyDimensionData | Some a \<Rightarrow> a);
               persisted = (case amountAsDecimal pd of None \<Rightarrow> pd_amount pd | Some a \<Rightarrow> a);
               a = d_add R (createDecimal (amountAsDecimal prev)) persisted;
               amount = num R a
           in set_priced t
                (Some (prev\<lparr>quantity := num R (d_add R (quantity prev) (quantity pd)),
                            amountAsDecimal := Some a, pd_amount := amount,
                            pd_roundedAmount := truncTo R amount 2\<rparr>)) acc))"

definition accumulatePricedConsumption ::
    "runtime \<Rightarrow> priced_consumption_data list \<Rightarrow> priced_consumption_data" where
  "accumulatePricedConsumption R pds =
     foldl (\<lambda>acc pd.
        accumulatePricedConsumptionData R pd PARKING_TIME
          (accumulatePricedConsumptionData R pd CHARGING_TIME
            (accumulatePricedConsumptionData R pd ENERGY
              (accumulatePricedConsumptionData R pd FLAT_FEE acc)))) empty_priced pds"

lemma priced_of_accumulate_data:
  "priced_of t (accumulatePricedConsumptionData R pd t' acc) =
     (if t = t' then priced_of t (accumulatePricedConsumptionData R pd t acc) else priced_of t acc)"
  by (simp add: accumulatePricedConsumptionData_def Let_def split: option.split)

end
