(* ===== verification/ConsumptionPricer.thy ===== *)
theory ConsumptionPricer
  imports ChunkPricer PricingHelper
begin

text \<open>
  \<open>integration/pricing/ConsumptionPricer.ts\<close>: a consumption longer than a minute is cut into chunks
  of at most sixty seconds, every chunk is priced, and the priced data is accumulated.  The
  generator is the list of the chunks it yields.  A missing total energy behaves as zero in every
  comparison and sum of the chunk pricer, so the chunk carries \<open>num0\<close> of it; a missing start date is
  the current time.
\<close>

section \<open>Chunks\<close>

function chunks_from ::
    "runtime \<Rightarrow> int \<Rightarrow> rat \<Rightarrow> rat \<Rightarrow> int \<Rightarrow> int \<Rightarrow> rat \<Rightarrow> rat \<Rightarrow> rat \<Rightarrow> consumption_chunk list" where
  "chunks_from R startedAt wh inactivitySecs nbSeconds secondsAlreadyPriced cumulated totalSecs totalInactivity =
     (if secondsAlreadyPriced < nbSeconds then
        (let secondsToPrice = minValue (nbSeconds - secondsAlreadyPriced) 60;
             inactivityToPrice = (if wh = 0 \<and> inactivitySecs = of_int nbSeconds then of_int secondsToPrice else 0);
             chunkConsumptionWh = d_div R (d_mul R wh (of_int secondsToPrice)) (of_int nbSeconds);
             cumulated' = d_add R cumulated chunkConsumptionWh;
             totalSecs' = d_add R totalSecs (of_int secondsToPrice);
             totalInactivity' = d_add R totalInactivity inactivityToPrice
         in \<lparr>ck_startedAt = startedAt + 1000 * secondsAlreadyPriced,
             ck_endedAt = startedAt + 1000 * (secondsAlreadyPriced + secondsToPrice),
             ck_consumptionWh = Some (num R chunkConsumptionWh),
             ck_cumulatedConsumptionWh = num R cumulated',
             ck_totalDurationSecs = Some (num R totalSecs'),
             ck_totalInactivitySecs = Some (num R totalInactivity')\<rparr>
            # chunks_from R startedAt wh inactivitySecs nbSeconds (secondsAlreadyPriced + secondsToPrice)
                cumulated' totalSecs' totalInactivity')
      else [])"
  by pat_completeness auto
termination
  by (relation "measure (\<lambda>(R, s, w, i, n, d, c, t, ti). nat (n - d))") (auto simp: minValue_def)

declare chunks_from.simps [simp del]

definition generateChunk :: "runtime \<Rightarrow> consumption \<Rightarrow> consumption_chunk list res" where
  "generateChunk R c =
     (let startedAt = started R c;
          durationSecs = diff_seconds (c_endedAt c) startedAt;
          inactivitySecs = num0 (c_inactivitySecs c)
      in if durationSecs \<le> 60 then
           Inr [\<lparr>ck_startedAt = startedAt, ck_endedAt = c_endedAt c,
                 ck_consumptionWh = c_consumptionWh c,
                 ck_cumulatedConsumptionWh = num0 (c_cumulatedConsumptionWh c),
                 ck_totalDurationSecs = c_totalDurationSecs c,
                 ck_totalInactivitySecs = c_totalInactivitySecs c\<rparr>]
         else
           (case c_consumptionWh c of
              None \<Rightarrow> Inl DecimalError
            | Some wh \<Rightarrow>
                Inr (chunks_from R startedAt wh inactivitySecs durationSecs 0
                  (d_sub R (createDecimal (c_cumulatedConsumptionWh c)) wh)
                  (d_sub R (createDecimal (c_totalDurationSecs c)) (of_int durationSecs))
                  (d_sub R (createDecimal (c_totalInactivitySecs c)) inactivitySecs))))"

section \<open>Pricing of a consumption\<close>

definition price_and_accumulate ::
    "runtime \<Rightarrow> priced_consumption_data \<times> resolved_model \<Rightarrow> consumption_chunk \<Rightarrow>
       (priced_consumption_data \<times> resolved_model) res" where
  "price_and_accumulate R s ck =
     (let (acc, m) = s in
      bindE (priceConsumptionChunk R ck m)
        (\<lambda>(p, m'). Inr (accumulatePricedConsumption R [acc, p], m')))"

definition priceConsumption ::
    "runtime \<Rightarrow> consumption \<Rightarrow> resolved_model \<Rightarrow> (priced_consumption_data \<times> resolved_model) res" where
  "priceConsumption R c m =
     bindE (generateChunk R c) (foldE (price_and_accumulate R) (empty_priced, m))"

end
