(* ===== verification/PricingEngine.thy ===== *)
theory PricingEngine
  imports ConsumptionPricer
begin

text \<open>
  \<open>integration/pricing/PricingEngine.ts\<close>, \<open>simple-pricing/BuiltInPricingIntegration.ts\<close>,
  \<open>PricingFactory.ts\<close> and \<open>PricingFacade.ts\<close>: which tariffs apply to a session, the price of
  each of its consumptions, and what is written back into the consumption and the transaction.

  The database is a parameter: \<open>db entity id\<close> is what \<open>PricingStorage.getPricingDefinitions\<close>
  returns for an entity, newest definition first.  The log entries are left out.
\<close>

section \<open>Static restrictions\<close>

definition checkDateValidity :: "runtime \<Rightarrow> pricing_static_restriction \<Rightarrow> pricing_context \<Rightarrow> bool" where
  "checkDateValidity R r ctx =
     (let timestamp = (case ctx_timestamp ctx of None \<Rightarrow> clock R | Some t \<Rightarrow> t) in
      (case validFrom r of None \<Rightarrow> True | Some f \<Rightarrow> \<not> timestamp < f)
      \<and> (case validTo r of None \<Rightarrow> True | Some t \<Rightarrow> \<not> t \<le> timestamp))"

definition checkConnectorType :: "pricing_static_restriction \<Rightarrow> pricing_context \<Rightarrow> bool" where
  "checkConnectorType r ctx =
     (case sr_connectorType r of None \<Rightarrow> True | Some ty \<Rightarrow> ctx_connectorType ctx = Some ty)"

definition checkConnectorPower :: "runtime \<Rightarrow> pricing_static_restriction \<Rightarrow> pricing_context \<Rightarrow> bool" where
  "checkConnectorPower R r ctx =
     (case connectorPowerkW r of None \<Rightarrow> True
      | Some kw \<Rightarrow> d_div R (createDecimal (ctx_connectorPower ctx)) 1000 = kw)"

definition checkStaticRestrictions ::
    "runtime \<Rightarrow> 'a resolved_definition_scheme \<Rightarrow> pricing_context \<Rightarrow> bool" where
  "checkStaticRestrictions R d ctx =
     (case staticRestrictions d of None \<Rightarrow> True
      | Some r \<Rightarrow> checkDateValidity R r ctx \<and> checkConnectorType r ctx \<and> checkConnectorPower R r ctx)"

definition checkEntityType :: "pricing_definition \<Rightarrow> pricing_entity \<Rightarrow> bool" where
  "checkEntityType d e \<longleftrightarrow> entityType d = Some e"

definition shrinkPricingDefinition :: "pricing_definition \<Rightarrow> resolved_definition" where
  "shrinkPricingDefinition d =
     \<lparr>pdef_id = pdef_id d, entityID = entityID d, entityType = entityType d, pdef_name = pdef_name d,
      description = description d, staticRestrictions = staticRestrictions d,
      restrictions = restrictions d, dimensions = dimensions d\<rparr>"

section \<open>Resolution of a pricing context\<close>

type_synonym pricing_db = "pricing_entity \<Rightarrow> string \<Rightarrow> pricing_definition list"

definition getPricingDefinitions4Entity ::
    "runtime \<Rightarrow> pricing_db \<Rightarrow> pricing_context \<Rightarrow> pricing_entity \<Rightarrow> string option \<Rightarrow> resolved_definition list" where
  "getPricingDefinitions4Entity R db ctx e eid =
     (if truthy_str eid then
        map shrinkPricingDefinition
          (filter (\<lambda>d. roaming d = roamingTransaction ctx)
            (filter (\<lambda>d. checkStaticRestrictions R d ctx)
              (filter (\<lambda>d. checkEntityType d e) (db e (the eid)))))
      else [])"

definition resolve_definitions ::
    "runtime \<Rightarrow> pricing_db \<Rightarrow> string \<Rightarrow> pricing_context \<Rightarrow> resolved_definition list" where
  "resolve_definitions R db tenantID ctx =
     getPricingDefinitions4Entity R db ctx CHARGING_STATION (ctx_chargingStationID ctx)
     @ getPricingDefinitions4Entity R db ctx SITE (ctx_siteID ctx)
     @ getPricingDefinitions4Entity R db ctx TENANT (Some tenantID)"

definition engine_resolvePricingContext ::
    "runtime \<Rightarrow> pricing_db \<Rightarrow> string \<Rightarrow> pricing_context \<Rightarrow> resolved_model" where
  "engine_resolvePricingContext R db tenantID ctx =
     \<lparr>pricingDefinitions = resolve_definitions R db tenantID ctx,
      pricerContext =
        \<lparr>flatFeeAlreadyPriced = False,
         sessionStartDate = (case ctx_timestamp ctx of None \<Rightarrow> clock R | Some t \<Rightarrow> t),
         lastAbsorbedConsumption = None, lastAbsorbedChargingTime = None,
         lastAbsorbedParkingTime = None, timezone = ctx_timezone ctx\<rparr>\<rparr>"

section \<open>The data a session is billed from\<close>

definition extractFinalPricedConsumptionData :: "resolved_definition \<Rightarrow> priced_consumption_data option" where
  "extractFinalPricedConsumptionData d =
     (let p = \<lparr>pc_flatFee = stored_data FLAT_FEE (dimensions d), pc_energy = stored_data ENERGY (dimensions d),
               pc_parkingTime = stored_data PARKING_TIME (dimensions d),
               pc_chargingTime = stored_data CHARGING_TIME (dimensions d)\<rparr>
      in if pc_flatFee p \<noteq> None \<or> pc_energy p \<noteq> None \<or> pc_chargingTime p \<noteq> None \<or> pc_parkingTime p \<noteq> None
         then Some p else None)"

definition extractFinalPricingData :: "resolved_model option \<Rightarrow> priced_consumption_data list" where
  "extractFinalPricingData m =
     (case m of None \<Rightarrow> [] | Some m' \<Rightarrow> List.map_filter extractFinalPricedConsumptionData (pricingDefinitions m'))"

section \<open>The built-in pricing\<close>

definition getDefaultPricingDefinition :: resolved_definition where
  "getDefaultPricingDefinition =
     \<lparr>pdef_id = None, entityID = None, entityType = None, pdef_name = ''No Tariff'',
      description = ''Tariff used when no other pricing definition matches'',
      staticRestrictions = None, restrictions = None,
      dimensions = \<lparr>flatFee = None,
        energy = Some \<lparr>active = True, price = Some 0, stepSize = None, pricedData = None\<rparr>,
        chargingTime = None, parkingTime = None\<rparr>\<rparr>"

definition resolvePricingContext ::
    "runtime \<Rightarrow> pricing_db \<Rightarrow> string \<Rightarrow> pricing_context \<Rightarrow> resolved_model option" where
  "resolvePricingContext R db tenantID ctx =
     (if \<not> checkContextConsistency ctx then None
      else
        (let m = engine_resolvePricingContext R db tenantID ctx
         in Some (m\<lparr>pricingDefinitions := pricingDefinitions m @ [getDefaultPricingDefinition]\<rparr>)))"

definition computeCumulatedAmount :: "runtime \<Rightarrow> resolved_model \<Rightarrow> rat \<times> rat" where
  "computeCumulatedAmount R m = accumulatePricingDimensions R (map dimensions (pricingDefinitions m))"

record priced_consumption =
  pr_amount :: rat
  pr_roundedAmount :: rat
  pr_cumulatedAmount :: rat
  pr_cumulatedRoundedAmount :: rat
  pr_currencyCode :: string
  pr_pricingSource :: pricing_source
  pr_pricingModel :: resolved_model

definition amount_of :: "dimension_type \<Rightarrow> priced_consumption_data \<Rightarrow> rat" where
  "amount_of t p = (case priced_of t p of None \<Rightarrow> 0 | Some pd \<Rightarrow> pd_amount pd)"

definition rounded_amount_of :: "dimension_type \<Rightarrow> priced_consumption_data \<Rightarrow> rat" where
  "rounded_amount_of t p = (case priced_of t p of None \<Rightarrow> 0 | Some pd \<Rightarrow> pd_roundedAmount pd)"

definition sum_of_amounts :: "runtime \<Rightarrow> (dimension_type \<Rightarrow> rat) \<Rightarrow> rat" where
  "sum_of_amounts R f =
     num R (d_add R (d_add R (d_add R (f FLAT_FEE) (f ENERGY)) (f CHARGING_TIME)) (f PARKING_TIME))"

text \<open>
  The model of the transaction is priced in place when there is one; a model resolved here is only
  returned.  Pricing a consumption on no model (the context was inconsistent) reads
  \<open>pricingDefinitions\<close> of \<open>null\<close>.
\<close>

definition computePrice ::
    "runtime \<Rightarrow> pricing_db \<Rightarrow> string \<Rightarrow> string \<Rightarrow> tx_transaction \<Rightarrow> consumption \<Rightarrow> charging_station \<Rightarrow>
       (priced_consumption \<times> tx_transaction) res" where
  "computePrice R db tenantID currency tx c cs =
     (let pricingModel =
            (case tx_pricingModel tx of
               Some m \<Rightarrow> Some m
             | None \<Rightarrow> resolvePricingContext R db tenantID (buildTransactionPricingContext tx cs))
      in case pricingModel of
           None \<Rightarrow> bindE (generateChunk R c) (\<lambda>_. Inl TypeError)
         | Some m \<Rightarrow>
             bindE (priceConsumption R c m) (\<lambda>(data, m').
               let cumulated = computeCumulatedAmount R m'
               in Inr (\<lparr>pr_amount = sum_of_amounts R (\<lambda>t. amount_of t data),
                        pr_roundedAmount = sum_of_amounts R (\<lambda>t. rounded_amount_of t data),
                        pr_cumulatedAmount = fst cumulated, pr_cumulatedRoundedAmount = snd cumulated,
                        pr_currencyCode = currency, pr_pricingSource = SIMPLE, pr_pricingModel = m'\<rparr>,
                       (if tx_pricingModel tx = None then tx else tx\<lparr>tx_pricingModel := Some m'\<rparr>))))"

section \<open>The facade\<close>

text \<open>
  \<open>currency\<close> is the currency of the simple pricing settings; without the pricing component or
  without simple settings there is no implementation and the facade does nothing.
\<close>

record pricing_env =
  pe_componentActive :: bool
  pe_simpleCurrency :: "string option"
  pe_db :: pricing_db
  pe_tenantID :: string

definition getPricingImpl :: "pricing_env \<Rightarrow> string option" where
  "getPricingImpl E = (if pe_componentActive E then pe_simpleCurrency E else None)"

definition updateCumulatedAmounts ::
    "priced_consumption \<Rightarrow> tx_transaction \<times> consumption \<Rightarrow> tx_transaction \<times> consumption" where
  "updateCumulatedAmounts p s =
     (let (tx, c) = s in
      (tx\<lparr>currentCumulatedPrice := Some (pr_cumulatedAmount p),
          currentCumulatedRoundedPrice := Some (pr_cumulatedRoundedAmount p)\<rparr>,
       c\<lparr>c_amount := Some (pr_amount p), c_roundedAmount := Some (pr_roundedAmount p),
         c_currencyCode := Some (pr_currencyCode p), c_pricingSource := Some (pr_pricingSource p),
         c_cumulatedAmount := Some (pr_cumulatedAmount p)\<rparr>))"

definition processStartTransaction ::
    "runtime \<Rightarrow> pricing_env \<Rightarrow> charging_station \<Rightarrow> tx_transaction \<times> consumption \<Rightarrow>
       (tx_transaction \<times> consumption) res" where
  "processStartTransaction R E cs s =
     (case getPricingImpl E of
        None \<Rightarrow> Inr s
      | Some currency \<Rightarrow>
          bindE (computePrice R (pe_db E) (pe_tenantID E) currency (fst s) (snd s) cs) (\<lambda>(p, tx1).
            let (tx2, c2) = updateCumulatedAmounts p (tx1, snd s)
            in Inr (tx2\<lparr>tx_price := Some (pr_amount p), tx_roundedPrice := Some (pr_roundedAmount p),
                        tx_priceUnit := Some (pr_currencyCode p),
                        tx_pricingSource := Some (pr_pricingSource p),
                        tx_pricingModel := Some (pr_pricingModel p)\<rparr>, c2)))"

text \<open>
  \<open>processUpdateTransaction\<close>, \<open>processStopTransaction\<close> and \<open>processEndTransaction\<close> differ in
  what they log only.
\<close>

definition processUpdateTransaction ::
    "runtime \<Rightarrow> pricing_env \<Rightarrow> charging_station \<Rightarrow> tx_transaction \<times> consumption \<Rightarrow>
       (tx_transaction \<times> consumption) res" where
  "processUpdateTransaction R E cs s =
     (case getPricingImpl E of
        None \<Rightarrow> Inr s
      | Some currency \<Rightarrow>
          bindE (computePrice R (pe_db E) (pe_tenantID E) currency (fst s) (snd s) cs) (\<lambda>(p, tx1).
            Inr (updateCumulatedAmounts p (tx1, snd s))))"

definition processStopTransaction ::
    "runtime \<Rightarrow> pricing_env \<Rightarrow> charging_station \<Rightarrow> tx_transaction \<times> consumption \<Rightarrow>
       (tx_transaction \<times> consumption) res" where
  "processStopTransaction R E cs s = processUpdateTransaction R E cs s"

definition processEndTransaction ::
    "runtime \<Rightarrow> pricing_env \<Rightarrow> charging_station \<Rightarrow> tx_transaction \<times> consumption \<Rightarrow>
       (tx_transaction \<times> consumption) res" where
  "processEndTransaction R E cs s = processUpdateTransaction R E cs s"

end
