(* ===== verification/Samples.thy ===== *)
theory Samples
  imports PricingEngine
begin

text \<open>
  Concrete sessions on which the properties of the pricing are evaluated: arithmetic that does not
  round, a server in UTC, a transaction on the station \<open>two_connectors\<close>, and its tariffs.
\<close>

definition utc :: runtime where
  "utc = exact_runtime (\<lambda>_ _. 1) (\<lambda>_ _. ''10:00:00'')"

definition blank_consumption :: consumption where
  "blank_consumption =
     \<lparr>instantWatts = None, instantWattsL1 = None, instantWattsL2 = None, instantWattsL3 = None,
      instantWattsDC = None, instantAmps = None, instantAmpsL1 = None, instantAmpsL2 = None,
      instantAmpsL3 = None, instantAmpsDC = None, instantVolts = None, instantVoltsL1 = None,
      instantVoltsL2 = None, instantVoltsL3 = None, instantVoltsDC = None, c_consumptionWh = None,
      c_consumptionAmps = None, c_id = None, c_startedAt = None, c_endedAt = 0, c_transactionId = None,
      c_connectorId = None, c_cumulatedConsumptionWh = None, c_cumulatedConsumptionAmps = None,
      c_pricingSource = None, c_amount = None, c_roundedAmount = None, c_cumulatedAmount = None,
      c_currencyCode = None, c_inactivitySecs = None, c_totalInactivitySecs = None,
      c_totalDurationSecs = None, c_stateOfCharge = None, c_toPrice = False, c_limitAmps = None,
      c_limitWatts = None, c_limitSource = None, c_limitSiteAreaAmps = None, c_limitSiteAreaWatts = None,
      c_limitSiteAreaSource = None, c_smartChargingActive = None\<rparr>"

definition two_minutes :: consumption where
  "two_minutes = blank_consumption\<lparr>c_startedAt := Some 0, c_endedAt := 120000, c_consumptionWh := Some 500,
     c_cumulatedConsumptionWh := Some 500, c_totalDurationSecs := Some 120\<rparr>"

definition blank_transaction :: tx_transaction where
  "blank_transaction =
     \<lparr>currentConsumptionWh = None, currentTotalConsumptionWh = Some 0, currentInstantWatts = None,
      currentInstantWattsL1 = None, currentInstantWattsL2 = None, currentInstantWattsL3 = None,
      currentInstantWattsDC = None, currentInstantVolts = None, currentInstantVoltsL1 = None,
      currentInstantVoltsL2 = None, currentInstantVoltsL3 = None, currentInstantVoltsDC = None,
      currentInstantAmps = None, currentInstantAmpsL1 = None, currentInstantAmpsL2 = None,
      currentInstantAmpsL3 = None, currentInstantAmpsDC = None, currentStateOfCharge = None,
      lastConsumption = None, tx_id = 1, tx_issuer = True, tx_companyID = Some ''co'', tx_siteID = Some ''si'',
      tx_siteAreaID = Some ''sa'', tx_chargeBoxID = ''cs'', tx_connectorId = 1, tx_tagID = Some ''tag'',
      tx_tag = Some \<lparr>tag_id = ''tag'', tag_issuer = True\<rparr>, tx_userID = Some ''u'', tx_meterStart = 0,
      tx_timestamp = 0, tx_timezone = Some ''UTC'', tx_stateOfCharge = None, tx_stop = None,
      tx_price = None, tx_roundedPrice = None, tx_priceUnit = None, tx_pricingSource = None,
      tx_pricingModel = None, currentTimestamp = None, currentTotalInactivitySecs = Some 0,
      currentInactivityStatus = None, currentTotalDurationSecs = None, currentCumulatedPrice = None,
      currentCumulatedRoundedPrice = None, currentSignedData = None, tx_phasesUsed = None,
      numberOfMeterValues = 0, transactionEndReceived = False, tx_remotestop = None, tx_signedData = None\<rparr>"

definition no_dimensions :: pricing_dimensions where
  "no_dimensions = \<lparr>flatFee = None, energy = None, chargingTime = None, parkingTime = None\<rparr>"

definition priced_at :: "rat \<Rightarrow> rat option \<Rightarrow> pricing_dimension option" where
  "priced_at unit step = Some \<lparr>active = True, price = Some unit, stepSize = step, pricedData = None\<rparr>"

text \<open>A tariff with a flat fee of 1, 0.5 per kWh and 6 per hour of charging.\<close>

definition full_tariff :: resolved_definition where
  "full_tariff =
     \<lparr>pdef_id = Some ''t'', entityID = Some ''si'', entityType = Some SITE, pdef_name = ''Full'',
      description = [], staticRestrictions = None, restrictions = None,
      dimensions = no_dimensions\<lparr>flatFee := priced_at 1 None, energy := priced_at (1/2) None,
        chargingTime := priced_at 6 None\<rparr>\<rparr>"

definition fresh_context :: pricer_context where
  "fresh_context = \<lparr>flatFeeAlreadyPriced = False, sessionStartDate = 0, lastAbsorbedConsumption = None,
     lastAbsorbedChargingTime = None, lastAbsorbedParkingTime = None, timezone = Some ''UTC''\<rparr>"

definition full_model :: resolved_model where
  "full_model = \<lparr>pricingDefinitions = [full_tariff, getDefaultPricingDefinition], pricerContext = fresh_context\<rparr>"

definition running_transaction :: tx_transaction where
  "running_transaction = blank_transaction\<lparr>tx_pricingModel := Some full_model\<rparr>"

end
