(* ===== verification/Ledger.thy ===== *)
theory Ledger
  imports Samples
begin

text \<open>
  The ledger of a session.  Pricing a chunk writes the amounts it returns into the priced data of
  the tariff that applied, and changes nothing else of the tariffs.  These facts are proved of each
  of the four dimensions, then of a chunk, and lifted to a consumption by the run locales of the
  prelude.
\<close>

section \<open>What one dimension books\<close>

text \<open>
  \<open>books R dm pd dm'\<close>: the dimension \<open>dm'\<close> is \<open>dm\<close> with the priced data \<open>pd\<close> added to what it
  held before; a flat fee that is asked for a second time is free.
\<close>

definition valued :: "runtime \<Rightarrow> priced_dimension_data \<Rightarrow> bool" where
  "valued R pd \<longleftrightarrow>
     (case amountAsDecimal pd of None \<Rightarrow> False | Some a \<Rightarrow> pd_amount pd = a \<or> pd_amount pd = num R a)"

definition books :: "runtime \<Rightarrow> pricing_dimension \<Rightarrow> priced_dimension_data \<Rightarrow> pricing_dimension \<Rightarrow> bool" where
  "books R dm pd dm' \<longleftrightarrow>
     dm'\<lparr>pricedData := None\<rparr> = dm\<lparr>pricedData := None\<rparr> \<and> valued R pd \<and>
     (case pricedData dm of
        None \<Rightarrow> pricedData dm' = Some pd
      | Some prev \<Rightarrow>
          (\<exists>new. pricedData dm' = Some new
             \<and> amountAsDecimal new =
                 Some (d_add R (createDecimal (amountAsDecimal prev)) (createDecimal (amountAsDecimal pd)))
             \<and> pd_amount new = num R (createDecimal (amountAsDecimal new))
             \<and> quantity new = num R (d_add R (quantity prev) (quantity pd)))
          \<or> dm' = dm \<and> amountAsDecimal pd = Some 0 \<and> pd_amount pd = 0 \<and> quantity pd = 0)"

definition dimension_step ::
    "runtime \<Rightarrow> dimension_type \<Rightarrow> resolved_definition \<Rightarrow> priced_dimension_data option \<Rightarrow> resolved_definition \<Rightarrow> bool" where
  "dimension_step R t d pd d' \<longleftrightarrow>
     (case pd of
        None \<Rightarrow> d' = d
      | Some pd \<Rightarrow> \<exists>dm dm'. active_dimension t d = Some dm \<and> books R dm pd dm' \<and> d' = set_dimension t dm' d)"

lemma books_add:
  assumes "pd\<lparr>sourceName := Some n\<rparr> = pd'" "valued R pd"
    and "dm' = (case pricedData dm of
                  None \<Rightarrow> (addPricedData R dm pd)
                    \<lparr>pricedData := map_option (\<lambda>p. p\<lparr>sourceName := Some n\<rparr>) (pricedData (addPricedData R dm pd))\<rparr>
                | Some _ \<Rightarrow> addPricedData R dm pd)"
  shows "books R dm pd' dm'"
  using assms by (auto simp: books_def addPricedData_def valued_def Let_def split: option.splits)

lemmas price_defs =
  priceConsumptionStep_def priceConsumptionWh_def priceTimeSteps_def priceTimeSpent_def priced_data_def

lemma books_flat_fee:
  "enrichPricedData n dm (priceFlatFeeDimension R dm) = (pd, dm') \<Longrightarrow> books R dm pd dm'"
  by (auto simp: books_def valued_def enrichPricedData_def priceFlatFeeDimension_def Let_def split: option.splits)

lemma books_enrich:
  assumes "enrichPricedData n dm (pd0, addPricedData R dm pd0) = (pd, dm')"
    and "valued R pd0"
  shows "books R dm pd dm'"
  by (rule books_add [where pd = pd0 and n = n]) (use assms in \<open>auto simp: enrichPricedData_def split: option.splits\<close>)

lemma books_priced:
  "enrichPricedData n dm (priceConsumptionStep R dm step k) = (pd, dm') \<Longrightarrow> books R dm pd dm'"
  "enrichPricedData n dm (priceConsumptionWh R dm wh) = (pd, dm') \<Longrightarrow> books R dm pd dm'"
  "enrichPricedData n dm (priceTimeSteps R dm step k) = (pd, dm') \<Longrightarrow> books R dm pd dm'"
  "enrichPricedData n dm (priceTimeSpent R dm secs) = (pd, dm') \<Longrightarrow> books R dm pd dm'"
  by (auto simp: price_defs valued_def Let_def intro: books_enrich)

lemma books_time:
  assumes "priceTimeDimension R ck dm t0 = Some (r, rest)" "enrichPricedData n dm r = (pd, dm')"
  shows "books R dm pd dm'"
  using assms by (auto simp: priceTimeDimension_def Let_def split: if_splits intro: books_priced)

lemma dimension_step_flat_fee:
  "priceFlatFeeConsumption R ck ctx d = (pd, ctx', d') \<Longrightarrow> dimension_step R FLAT_FEE d pd d'"
  by (auto simp: priceFlatFeeConsumption_def dimension_step_def dest: books_flat_fee
      split: if_splits option.splits prod.splits)

lemma dimension_step_energy:
  "priceEnergyConsumption R ck ctx d = (pd, ctx', d') \<Longrightarrow> dimension_step R ENERGY d pd d'"
  by (auto simp: priceEnergyConsumption_def dimension_step_def Let_def dest: books_priced
      split: if_splits option.splits prod.splits)

lemma dimension_step_charging_time:
  "priceChargingTimeConsumption R ck ctx d = (pd, ctx', d') \<Longrightarrow> dimension_step R CHARGING_TIME d pd d'"
  by (auto simp: priceChargingTimeConsumption_def dimension_step_def dest: books_time
      split: if_splits option.splits prod.splits)

lemma dimension_step_parking_time:
  "priceParkingTimeConsumption R ck ctx d = (pd, ctx', d') \<Longrightarrow> dimension_step R PARKING_TIME d pd d'"
  by (auto simp: priceParkingTimeConsumption_def dimension_step_def dest: books_time
      split: if_splits option.splits prod.splits)

lemmas dimension_steps =
  dimension_step_flat_fee dimension_step_energy dimension_step_charging_time dimension_step_parking_time

lemma price_with_definition_steps:
  assumes "price_with_definition R ck ctx d = (p, ctx', d')"
  obtains d1 d2 d3 where
    "dimension_step R FLAT_FEE d (pc_flatFee p) d1" "dimension_step R ENERGY d1 (pc_energy p) d2"
    "dimension_step R CHARGING_TIME d2 (pc_chargingTime p) d3"
    "dimension_step R PARKING_TIME d3 (pc_parkingTime p) d'"
proof -
  obtain ff ctx1 d1 where 1: "priceFlatFeeConsumption R ck ctx d = (ff, ctx1, d1)" by (metis prod_cases3)
  obtain en ctx2 d2 where 2: "priceEnergyConsumption R ck ctx1 d1 = (en, ctx2, d2)" by (metis prod_cases3)
  obtain ct ctx3 d3 where 3: "priceChargingTimeConsumption R ck ctx2 d2 = (ct, ctx3, d3)" by (metis prod_cases3)
  obtain pt ctx4 d4 where 4: "priceParkingTimeConsumption R ck ctx3 d3 = (pt, ctx4, d4)" by (metis prod_cases3)
  from assms 1 2 3 4 have "d' = d4"
    and "p = \<lparr>pc_flatFee = ff, pc_energy = en, pc_parkingTime = pt, pc_chargingTime = ct\<rparr>"
    by (simp_all add: price_with_definition_def)
  with that [of d1 d2 d3] 1 2 3 4 show thesis by (simp add: dimension_steps)
qed

section \<open>Pricing changes nothing but priced data\<close>

definition strip_dimension :: "pricing_dimension \<Rightarrow> pricing_dimension" where
  "strip_dimension dm = dm\<lparr>pricedData := None\<rparr>"

text \<open>The tariff of a definition: the definition without its priced data.\<close>

definition tariff :: "resolved_definition \<Rightarrow> resolved_definition" where
  "tariff d =
     d\<lparr>dimensions :=
         \<lparr>flatFee = map_option strip_dimension (flatFee (dimensions d)),
          energy = map_option strip_dimension (energy (dimensions d)),
          chargingTime = map_option strip_dimension (chargingTime (dimensions d)),
          parkingTime = map_option strip_dimension (parkingTime (dimensions d))\<rparr>\<rparr>"

lemma tariff_set_dimension:
  "dimension_of t (dimensions d) = Some dm \<Longrightarrow> dm'\<lparr>pricedData := None\<rparr> = dm\<lparr>pricedData := None\<rparr> \<Longrightarrow>
     tariff (set_dimension t dm' d) = tariff d"
  by (cases t) (simp_all add: tariff_def strip_dimension_def)

lemma active_dimension_Some:
  "active_dimension t d = Some dm \<Longrightarrow> dimension_of t (dimensions d) = Some dm \<and> active dm"
  by (auto simp: active_dimension_def split: option.splits if_splits)

lemma tariff_dimension_step: "dimension_step R t d pd d' \<Longrightarrow> tariff d' = tariff d"
  by (auto simp: dimension_step_def books_def split: option.splits
      dest!: active_dimension_Some intro!: tariff_set_dimension)

lemma tariff_price_with_definition:
  "price_with_definition R ck ctx d = (p, ctx', d') \<Longrightarrow> tariff d' = tariff d"
  by (erule price_with_definition_steps) (simp add: tariff_dimension_step)

lemma priceConsumptionChunk_cases:
  assumes "priceConsumptionChunk R ck m = Inr (p, m')"
  obtains i d' ctx' where "actual_definition R m ck = Some i" "i < length (pricingDefinitions m)"
    "price_with_definition R ck (pricerContext m) (pricingDefinitions m ! i) = (p, ctx', d')"
    "pricingDefinitions m' = (pricingDefinitions m)[i := d']" "pricerContext m' = ctx'"
proof -
  from assms obtain i where i: "actual_definition R m ck = Some i"
    by (auto simp: priceConsumptionChunk_def split: option.splits)
  obtain q ctx' d' where q:
    "price_with_definition R ck (pricerContext m) (pricingDefinitions m ! i) = (q, ctx', d')"
    by (metis prod_cases3)
  from i have "i < length (pricingDefinitions m)"
    by (auto simp: actual_definition_def dest: first_index_Some)
  with assms i q that show thesis by (auto simp: priceConsumptionChunk_def)
qed

lemma tariffs_of_chunk:
  assumes "priceConsumptionChunk R ck m = Inr (p, m')"
  shows "map tariff (pricingDefinitions m') = map tariff (pricingDefinitions m)"
proof -
  from assms obtain i d' ctx' where i: "i < length (pricingDefinitions m)"
    and p: "price_with_definition R ck (pricerContext m) (pricingDefinitions m ! i) = (p, ctx', d')"
    and m': "pricingDefinitions m' = (pricingDefinitions m)[i := d']"
    by (rule priceConsumptionChunk_cases)
  from tariff_price_with_definition [OF p] i show ?thesis
    unfolding m' map_update by (metis list_update_id map_update nth_map)
qed

section \<open>Amounts\<close>

text \<open>The amount a definition holds for a dimension, and all the amounts of a model.\<close>

definition held :: "dimension_type \<Rightarrow> resolved_definition \<Rightarrow> rat" where
  "held t d = (case stored_data t (dimensions d) of None \<Rightarrow> 0 | Some pd \<Rightarrow> pd_amount pd)"

definition sum_dimensions :: "(dimension_type \<Rightarrow> rat) \<Rightarrow> rat" where
  "sum_dimensions f = f FLAT_FEE + f ENERGY + f CHARGING_TIME + f PARKING_TIME"

definition held_by_model :: "resolved_model \<Rightarrow> rat" where
  "held_by_model m = sum_list (map (\<lambda>d. sum_dimensions (\<lambda>t. held t d)) (pricingDefinitions m))"

text \<open>The decimal and the number of stored priced data agree.\<close>

definition sound_data :: "priced_dimension_data \<Rightarrow> bool" where
  "sound_data pd \<longleftrightarrow> amountAsDecimal pd = Some (pd_amount pd)"

definition sound_definition :: "resolved_definition \<Rightarrow> bool" where
  "sound_definition d \<longleftrightarrow>
     list_all (\<lambda>t. case stored_data t (dimensions d) of None \<Rightarrow> True | Some pd \<Rightarrow> sound_data pd)
       [FLAT_FEE, ENERGY, CHARGING_TIME, PARKING_TIME]"

definition sound_model :: "resolved_model \<Rightarrow> bool" where
  "sound_model m \<longleftrightarrow> list_all sound_definition (pricingDefinitions m)"

lemma sound_definition_iff:
  "sound_definition d \<longleftrightarrow> (\<forall>t pd. stored_data t (dimensions d) = Some pd \<longrightarrow> sound_data pd)"
proof
  assume s: "sound_definition d"
  show "\<forall>t pd. stored_data t (dimensions d) = Some pd \<longrightarrow> sound_data pd"
  proof (intro allI impI)
    fix t pd
    assume "stored_data t (dimensions d) = Some pd"
    with s show "sound_data pd" by (cases t) (simp_all add: sound_definition_def)
  qed
next
  assume "\<forall>t pd. stored_data t (dimensions d) = Some pd \<longrightarrow> sound_data pd"
  then show "sound_definition d" by (auto simp: sound_definition_def split: option.split)
qed

lemma stored_data_set_dimension [simp]:
  "stored_data t (dimensions (set_dimension t' dm d)) =
     (if t = t' then pricedData dm else stored_data t (dimensions d))"
  by (simp add: stored_data_def)

lemma stored_data_active: "active_dimension t d = Some dm \<Longrightarrow> stored_data t (dimensions d) = pricedData dm"
  by (auto dest!: active_dimension_Some simp: stored_data_def)

definition amount_in :: "priced_dimension_data option \<Rightarrow> rat" where
  "amount_in pd = (case pd of None \<Rightarrow> 0 | Some p \<Rightarrow> pd_amount p)"

lemma amount_in_simps [simp]: "amount_in None = 0" "amount_in (Some p) = pd_amount p"
  by (simp_all add: amount_in_def)

text \<open>In exact arithmetic a dimension's step moves the amount held by what it returns.\<close>

lemma exact_step:
  assumes "dimension_step (exact_runtime wd lt) t d pd d'" "sound_definition d"
  shows "sound_definition d' \<and> held t' d' = held t' d + (if t' = t then amount_in pd else 0)"
proof (cases pd)
  case None
  with assms show ?thesis by (simp add: dimension_step_def)
next
  case (Some p)
  with assms obtain dm dm' where dm: "active_dimension t d = Some dm"
    and b: "books (exact_runtime wd lt) dm p dm'" and d': "d' = set_dimension t dm' d"
    by (auto simp: dimension_step_def)
  from b have p: "amountAsDecimal p = Some (pd_amount p)"
    by (auto simp: books_def valued_def split: option.splits)
  have st: "stored_data t (dimensions d) = pricedData dm" by (rule stored_data_active [OF dm])
  have sound: "sound_data q" if "pricedData dm = Some q" for q
    using assms(2) that st by (auto simp: sound_definition_iff)
  have new: "\<exists>q. pricedData dm' = Some q \<and> sound_data q
      \<and> pd_amount q = (case pricedData dm of None \<Rightarrow> 0 | Some prev \<Rightarrow> pd_amount prev) + pd_amount p"
  proof (cases "pricedData dm")
    case None
    with b p show ?thesis by (auto simp: books_def sound_data_def)
  next
    case (Some prev)
    with b p sound [OF Some] show ?thesis
      by (auto simp: books_def sound_data_def d_ops)
  qed
  have "sound_definition d'"
    using assms(2) new by (auto simp: sound_definition_iff d')
  moreover have "held t' d' = held t' d + (if t' = t then amount_in pd else 0)"
    using new st Some by (auto simp: held_def d')
  ultimately show ?thesis by simp
qed

definition priced_amount :: "priced_consumption_data \<Rightarrow> rat" where
  "priced_amount p = sum_dimensions (\<lambda>t. amount_of t p)"

lemma amount_of_in:
  "amount_of FLAT_FEE p = amount_in (pc_flatFee p)" "amount_of ENERGY p = amount_in (pc_energy p)"
  "amount_of CHARGING_TIME p = amount_in (pc_chargingTime p)"
  "amount_of PARKING_TIME p = amount_in (pc_parkingTime p)"
  by (simp_all add: amount_of_def amount_in_def)

lemma exact_definition:
  assumes "price_with_definition (exact_runtime wd lt) ck ctx d = (p, ctx', d')" "sound_definition d"
  shows "sound_definition d' \<and> sum_dimensions (\<lambda>t. held t d') = sum_dimensions (\<lambda>t. held t d) + priced_amount p"
proof -
  let ?R = "exact_runtime wd lt"
  from assms(1) obtain d1 d2 d3 where
    1: "dimension_step ?R FLAT_FEE d (pc_flatFee p) d1" and
    2: "dimension_step ?R ENERGY d1 (pc_energy p) d2" and
    3: "dimension_step ?R CHARGING_TIME d2 (pc_chargingTime p) d3" and
    4: "dimension_step ?R PARKING_TIME d3 (pc_parkingTime p) d'"
    by (rule price_with_definition_steps)
  from exact_step [OF 1 assms(2)] have s1: "sound_definition d1" by simp
  from exact_step [OF 2 s1] have s2: "sound_definition d2" by simp
  from exact_step [OF 3 s2] have s3: "sound_definition d3" by simp
  show ?thesis
    using exact_step [OF 1 assms(2)] exact_step [OF 2 s1] exact_step [OF 3 s2] exact_step [OF 4 s3]
    by (simp add: sum_dimensions_def priced_amount_def amount_of_in)
qed

lemma sum_list_update_rat:
  "i < length xs \<Longrightarrow> sum_list (map f (xs[i := y])) = sum_list (map f xs) - f (xs ! i) + (f y :: rat)"
proof (induction xs arbitrary: i)
  case Nil
  then show ?case by simp
next
  case (Cons x xs)
  then show ?case by (cases i) simp_all
qed

lemma exact_chunk:
  assumes "priceConsumptionChunk (exact_runtime wd lt) ck m = Inr (p, m')" "sound_model m"
  shows "sound_model m' \<and> held_by_model m' = held_by_model m + priced_amount p"
proof -
  from assms(1) obtain i d' ctx' where i: "i < length (pricingDefinitions m)"
    and p: "price_with_definition (exact_runtime wd lt) ck (pricerContext m) (pricingDefinitions m ! i) = (p, ctx', d')"
    and m': "pricingDefinitions m' = (pricingDefinitions m)[i := d']"
    by (rule priceConsumptionChunk_cases)
  from assms(2) i have "sound_definition (pricingDefinitions m ! i)"
    by (simp add: sound_model_def list_all_length)
  note d = exact_definition [OF p this]
  have "sound_model m'"
    using assms(2) d by (auto simp: sound_model_def m' list_all_iff dest: set_update_subset_insert [THEN subsetD])
  moreover have "held_by_model m' = held_by_model m + priced_amount p"
    using d i by (simp add: held_by_model_def m' sum_list_update_rat)
  ultimately show ?thesis by simp
qed

section \<open>Accumulated priced data\<close>

text \<open>Priced data whose numbers agree with its decimals.\<close>

definition sound_priced :: "priced_consumption_data \<Rightarrow> bool" where
  "sound_priced p \<longleftrightarrow>
     list_all (\<lambda>t. case priced_of t p of None \<Rightarrow> True | Some pd \<Rightarrow> sound_data pd)
       [FLAT_FEE, ENERGY, CHARGING_TIME, PARKING_TIME]"

lemma sound_priced_iff: "sound_priced p \<longleftrightarrow> (\<forall>t pd. priced_of t p = Some pd \<longrightarrow> sound_data pd)"
proof
  assume s: "sound_priced p"
  show "\<forall>t pd. priced_of t p = Some pd \<longrightarrow> sound_data pd"
  proof (intro allI impI)
    fix t pd
    assume "priced_of t p = Some pd"
    with s show "sound_data pd" by (cases t) (simp_all add: sound_priced_def)
  qed
next
  assume "\<forall>t pd. priced_of t p = Some pd \<longrightarrow> sound_data pd"
  then show "sound_priced p"
    by (simp add: sound_priced_def del: priced_of.simps split: option.split)
qed

lemma sound_empty_priced [simp]: "sound_priced empty_priced"
  by (simp add: sound_priced_iff)

lemma accumulate_data_exact:
  assumes "sound_priced acc" "sound_priced p"
  shows "sound_priced (accumulatePricedConsumptionData (exact_runtime wd lt) p t acc) \<and>
    amount_of t' (accumulatePricedConsumptionData (exact_runtime wd lt) p t acc) =
      amount_of t' acc + (if t' = t then amount_of t p else 0)"
proof (cases "priced_of t p")
  case None
  with assms show ?thesis by (simp add: accumulatePricedConsumptionData_def amount_of_def)
next
  case (Some pd)
  let ?new = "accumulatePricedConsumptionData (exact_runtime wd lt) p t acc"
  from Some assms(2) have pd: "amountAsDecimal pd = Some (pd_amount pd)"
    by (auto simp: sound_priced_iff sound_data_def)
  define prev where "prev = (case priced_of t acc of None \<Rightarrow> emptyDimensionData | Some a \<Rightarrow> a)"
  define q where "q = prev\<lparr>quantity := quantity prev + quantity pd,
    amountAsDecimal := Some (createDecimal (amountAsDecimal prev) + pd_amount pd),
    pd_amount := createDecimal (amountAsDecimal prev) + pd_amount pd,
    pd_roundedAmount := truncTo (exact_runtime wd lt) (createDecimal (amountAsDecimal prev) + pd_amount pd) 2\<rparr>"
  have new: "?new = set_priced t (Some q) acc"
    by (simp add: accumulatePricedConsumptionData_def Some pd q_def prev_def d_ops Let_def)
  have "createDecimal (amountAsDecimal prev) = amount_of t acc"
    using assms(1) by (auto simp: prev_def emptyDimensionData_def amount_of_def sound_priced_iff
        sound_data_def split: option.split)
  then have q: "sound_data q" "pd_amount q = amount_of t acc + pd_amount pd"
    by (simp_all add: q_def sound_data_def)
  have "sound_priced ?new"
    using assms(1) q(1) by (simp add: new sound_priced_iff)
  moreover have "amount_of t' ?new = amount_of t' acc + (if t' = t then amount_of t p else 0)"
    using q(2) Some by (simp add: new amount_of_def)
  ultimately show ?thesis by simp
qed

lemma accumulate_one_exact:
  assumes "sound_priced acc" "sound_priced p"
  shows "sound_priced (accumulatePricedConsumptionData (exact_runtime wd lt) p PARKING_TIME
          (accumulatePricedConsumptionData (exact_runtime wd lt) p CHARGING_TIME
            (accumulatePricedConsumptionData (exact_runtime wd lt) p ENERGY
              (accumulatePricedConsumptionData (exact_runtime wd lt) p FLAT_FEE acc)))) \<and>
    amount_of t (accumulatePricedConsumptionData (exact_runtime wd lt) p PARKING_TIME
          (accumulatePricedConsumptionData (exact_runtime wd lt) p CHARGING_TIME
            (accumulatePricedConsumptionData (exact_runtime wd lt) p ENERGY
              (accumulatePricedConsumptionData (exact_runtime wd lt) p FLAT_FEE acc)))) =
      amount_of t acc + amount_of t p"
  using assms by (cases t) (simp_all add: accumulate_data_exact)

lemma accumulate_exact:
  assumes "sound_priced a" "sound_priced b"
  shows "sound_priced (accumulatePricedConsumption (exact_runtime wd lt) [a, b]) \<and>
    amount_of t (accumulatePricedConsumption (exact_runtime wd lt) [a, b]) = amount_of t a + amount_of t b"
proof -
  note 1 = accumulate_one_exact [OF sound_empty_priced assms(1), of wd lt]
  show ?thesis
    using 1 accumulate_one_exact [OF conjunct1 [OF 1] assms(2), of wd lt]
    by (simp add: accumulatePricedConsumption_def amount_of_def)
qed

lemma sound_priced_definition:
  assumes "price_with_definition (exact_runtime wd lt) ck ctx d = (p, ctx', d')"
  shows "sound_priced p"
proof -
  have ok: "sound_data q" if "dimension_step (exact_runtime wd lt) t e (Some q) e'" for t e e' q
    using that by (auto simp: dimension_step_def books_def valued_def sound_data_def split: option.splits)
  from assms obtain d1 d2 d3 where
    "dimension_step (exact_runtime wd lt) FLAT_FEE d (pc_flatFee p) d1"
    "dimension_step (exact_runtime wd lt) ENERGY d1 (pc_energy p) d2"
    "dimension_step (exact_runtime wd lt) CHARGING_TIME d2 (pc_chargingTime p) d3"
    "dimension_step (exact_runtime wd lt) PARKING_TIME d3 (pc_parkingTime p) d'"
    by (rule price_with_definition_steps)
  then show ?thesis by (auto simp: sound_priced_def split: option.split dest: ok)
qed

lemma sound_priced_chunk:
  "priceConsumptionChunk (exact_runtime wd lt) ck m = Inr (p, m') \<Longrightarrow> sound_priced p"
  by (erule priceConsumptionChunk_cases) (rule sound_priced_definition)

section \<open>A consumption\<close>

text \<open>
  The state of the loop of \<open>priceConsumption\<close>: the amounts held by the model exceed the amounts
  accumulated so far by what the model held before.
\<close>

definition balanced :: "rat \<Rightarrow> priced_consumption_data \<times> resolved_model \<Rightarrow> bool" where
  "balanced before s \<longleftrightarrow>
     sound_priced (fst s) \<and> sound_model (snd s) \<and> held_by_model (snd s) = before + priced_amount (fst s)"

lemma balanced_step:
  assumes "balanced before s" "price_and_accumulate (exact_runtime wd lt) s ck = Inr s'"
  shows "balanced before s'"
proof -
  obtain acc m where s: "s = (acc, m)" by (cases s)
  with assms(2) obtain p m' where p: "priceConsumptionChunk (exact_runtime wd lt) ck m = Inr (p, m')"
    and s': "s' = (accumulatePricedConsumption (exact_runtime wd lt) [acc, p], m')"
    by (auto simp: price_and_accumulate_def res_simps)
  from assms(1) s have acc: "sound_priced acc" "sound_model m" by (simp_all add: balanced_def)
  note a = accumulate_exact [OF acc(1) sound_priced_chunk [OF p], of wd lt]
  have "priced_amount (accumulatePricedConsumption (exact_runtime wd lt) [acc, p]) =
      priced_amount acc + priced_amount p"
    using a by (simp add: priced_amount_def sum_dimensions_def)
  with assms(1) s s' exact_chunk [OF p acc(2)] a show ?thesis by (simp add: balanced_def)
qed

interpretation ledger: invariant_run "price_and_accumulate (exact_runtime wd lt)" "\<lambda>_. True" "balanced before"
  for wd lt before
  by unfold_locales (rule balanced_step)

lemma ledger_of_consumption:
  assumes "priceConsumption (exact_runtime wd lt) c m = Inr (p, m')" "sound_model m"
  shows "sound_model m' \<and> held_by_model m' = held_by_model m + priced_amount p"
proof -
  from assms(1) obtain cks where
    "foldE (price_and_accumulate (exact_runtime wd lt)) (empty_priced, m) cks = Inr (p, m')"
    by (auto simp: priceConsumption_def res_simps)
  moreover have "balanced (held_by_model m) (empty_priced, m)"
    using assms(2) by (simp add: balanced_def priced_amount_def sum_dimensions_def amount_of_def)
  moreover have "list_all (\<lambda>_. True) cks" by (simp add: list_all_iff)
  ultimately have "balanced (held_by_model m) (p, m')" by (metis ledger.run_inv)
  then show ?thesis by (simp add: balanced_def)
qed

lemma cumulated_dimension_exact:
  "fst (accumulatePricingDimension (exact_runtime wd lt) dss t) =
     sum_list (map (\<lambda>ds. amount_in (stored_data t ds)) dss)"
proof -
  have "fst (foldl (\<lambda>(a, r) ds. (a + amount_in (stored_data t ds), f r ds)) (x, y) dss) =
      x + sum_list (map (\<lambda>ds. amount_in (stored_data t ds)) dss)" for x y f
    by (induction dss arbitrary: x y) (simp_all add: add.assoc)
  from this [of _ 0 0] show ?thesis
    by (simp add: accumulatePricingDimension_def d_ops amount_in_def)
qed

lemma computeCumulatedAmount_exact:
  "fst (computeCumulatedAmount (exact_runtime wd lt) m) = held_by_model m"
  by (simp add: computeCumulatedAmount_def accumulatePricingDimensions_def cumulated_dimension_exact
      held_by_model_def held_def sum_dimensions_def amount_in_def d_ops o_def Let_def sum_list_addf)

text \<open>
  C14: The ledger of a session balances: in exact arithmetic, pricing a consumption of a transaction
  that already has a pricing model raises the cumulated amount of the session by exactly the amount
  of that consumption, whatever the tariffs, the restrictions and the number of chunks.
\<close>

theorem cumulated_amount_grows_by_the_amount:
  assumes "computePrice (exact_runtime wd lt) db tenant currency tx c cs = Inr (p, tx')"
    and "tx_pricingModel tx = Some m" "sound_model m"
  shows "pr_cumulatedAmount p = fst (computeCumulatedAmount (exact_runtime wd lt) m) + pr_amount p
    \<and> tx_pricingModel tx' = Some (pr_pricingModel p) \<and> sound_model (pr_pricingModel p)"
proof -
  from assms obtain data m' where d: "priceConsumption (exact_runtime wd lt) c m = Inr (data, m')"
    and p: "pr_cumulatedAmount p = fst (computeCumulatedAmount (exact_runtime wd lt) m')"
      "pr_amount p = sum_of_amounts (exact_runtime wd lt) (\<lambda>t. amount_of t data)"
      "pr_pricingModel p = m'" "tx_pricingModel tx' = Some m'"
    by (auto simp: computePrice_def res_simps Let_def)
  have "pr_amount p = priced_amount data"
    by (simp add: p sum_of_amounts_def priced_amount_def sum_dimensions_def d_ops)
  with ledger_of_consumption [OF d assms(3)] p show ?thesis
    by (simp add: computeCumulatedAmount_exact)
qed

lemma cumulated_amount_grows_by_the_amount_witness:
  "\<exists>p tx'. computePrice utc (\<lambda>_ _. []) ''t'' ''EUR'' running_transaction two_minutes two_connectors = Inr (p, tx')
     \<and> pr_cumulatedAmount p = fst (computeCumulatedAmount utc full_model) + pr_amount p"
proof -
  have "case computePrice utc (\<lambda>_ _. []) ''t'' ''EUR'' running_transaction two_minutes two_connectors of
      Inl _ \<Rightarrow> False | Inr _ \<Rightarrow> True"
    by code_simp
  then obtain p tx' where
    "computePrice utc (\<lambda>_ _. []) ''t'' ''EUR'' running_transaction two_minutes two_connectors = Inr (p, tx')"
    by (auto split: sum.splits)
  moreover have "tx_pricingModel running_transaction = Some full_model"
    by (simp add: running_transaction_def)
  moreover have "sound_model full_model" by code_simp
  ultimately show ?thesis
    unfolding utc_def using cumulated_amount_grows_by_the_amount by blast
qed

end
