(* ===== verification/PricingRuns.thy ===== *)
theory PricingRuns
  imports Ledger
begin

text \<open>
  Facts about whole sessions: pricing never raises on a resolved model and leaves its tariffs
  alone, the flat fee is billed at most once, and the chunks of a consumption tile it.
\<close>

section \<open>Pricing never raises on a resolved model\<close>

definition has_fallback :: "resolved_model \<Rightarrow> bool" where
  "has_fallback m \<longleftrightarrow> list_ex (\<lambda>d. restrictions d = None) (pricingDefinitions m)"

lemma has_fallback_tariff:
  "has_fallback m \<longleftrightarrow> list_ex (\<lambda>d. restrictions d = None) (map tariff (pricingDefinitions m))"
  by (simp add: has_fallback_def list_ex_iff tariff_def)

lemma has_fallback_chunk: "has_fallback m \<Longrightarrow> \<exists>p m'. priceConsumptionChunk R ck m = Inr (p, m')"
proof -
  assume "has_fallback m"
  then obtain d where "d \<in> set (pricingDefinitions m)" "restrictions d = None"
    by (auto simp: has_fallback_def list_ex_iff)
  then have "\<exists>i. actual_definition R m ck = Some i"
    using first_index_None [of "checkPricingDefinitionRestrictions R (pricerContext m) ck" "pricingDefinitions m"]
    by (auto simp: actual_definition_def checkPricingDefinitionRestrictions_def)
  then show ?thesis by (auto simp: priceConsumptionChunk_def split: prod.split)
qed

text \<open>The tariffs of the model are \<open>ds\<close>, one of which applies to everything.\<close>

definition tariffs_are :: "resolved_definition list \<Rightarrow> priced_consumption_data \<times> resolved_model \<Rightarrow> bool" where
  "tariffs_are ds s \<longleftrightarrow> map tariff (pricingDefinitions (snd s)) = ds \<and> has_fallback (snd s)"

lemma tariffs_are_step:
  assumes "tariffs_are ds s" "price_and_accumulate R s ck = Inr s'"
  shows "tariffs_are ds s'"
proof -
  obtain acc m where s: "s = (acc, m)" by (cases s)
  with assms(2) obtain p m' where p: "priceConsumptionChunk R ck m = Inr (p, m')" and s': "snd s' = m'"
    by (auto simp: price_and_accumulate_def res_simps)
  from tariffs_of_chunk [OF p] assms(1) s s' show ?thesis
    by (auto simp: tariffs_are_def has_fallback_tariff)
qed

interpretation tariffs: total_run "price_and_accumulate R" "\<lambda>_. True" "tariffs_are ds" for R ds
proof
  show "tariffs_are ds s \<Longrightarrow> price_and_accumulate R s ck = Inr s' \<Longrightarrow> tariffs_are ds s'" for s ck s'
    by (rule tariffs_are_step)
  show "\<exists>s'. price_and_accumulate R s ck = Inr s'" if "tariffs_are ds s" for s ck
    using that has_fallback_chunk [of "snd s" R ck]
    by (auto simp: tariffs_are_def price_and_accumulate_def split: prod.split)
qed

lemma priceConsumption_total:
  assumes "has_fallback m" "c_consumptionWh c \<noteq> None"
  shows "\<exists>p m'. priceConsumption R c m = Inr (p, m') \<and> has_fallback m'
    \<and> map tariff (pricingDefinitions m') = map tariff (pricingDefinitions m)"
proof -
  from assms(2) have "\<exists>cks. generateChunk R c = Inr cks"
    by (cases "diff_seconds (c_endedAt c) (started R c) \<le> 60") (auto simp: generateChunk_def Let_def)
  then obtain cks where cks: "generateChunk R c = Inr cks" ..
  have "tariffs_are (map tariff (pricingDefinitions m)) (empty_priced, m)"
    using assms(1) by (simp add: tariffs_are_def)
  moreover have "list_all (\<lambda>_. True) cks" by (simp add: list_all_iff)
  ultimately obtain s where "foldE (price_and_accumulate R) (empty_priced, m) cks = Inr s"
    and "tariffs_are (map tariff (pricingDefinitions m)) s"
    by (metis tariffs.run_total)
  then show ?thesis
    by (cases s) (auto simp: priceConsumption_def cks tariffs_are_def)
qed

definition price_next :: "runtime \<Rightarrow> resolved_model \<Rightarrow> consumption \<Rightarrow> resolved_model res" where
  "price_next R m c = bindE (priceConsumption R c m) (\<lambda>(p, m'). Inr m')"

interpretation session: total_run "price_next R" "\<lambda>c. c_consumptionWh c \<noteq> None"
  "\<lambda>m. has_fallback m \<and> map tariff (pricingDefinitions m) = ds" for R ds
proof
  show "has_fallback m' \<and> map tariff (pricingDefinitions m') = ds"
    if "has_fallback m \<and> map tariff (pricingDefinitions m) = ds" "c_consumptionWh c \<noteq> None"
      "price_next R m c = Inr m'" for m c m'
    using that priceConsumption_total [of m c R] by (auto simp: price_next_def)
  show "\<exists>m'. price_next R m c = Inr m'"
    if "has_fallback m \<and> map tariff (pricingDefinitions m) = ds" "c_consumptionWh c \<noteq> None" for m c
    using that priceConsumption_total [of m c R] by (auto simp: price_next_def)
qed

lemma resolved_has_fallback: "resolvePricingContext R db t ctx = Some m \<Longrightarrow> has_fallback m"
  by (auto simp: resolvePricingContext_def has_fallback_def getDefaultPricingDefinition_def Let_def
      split: if_splits)

text \<open>
  C39: Once a pricing context has been resolved, pricing cannot fail: every consumption of the
  session whose energy is known gets a price, and after any number of them the tariffs of the model
  are what they were, with nothing but priced data changed.
\<close>

theorem pricing_never_raises:
  assumes "resolvePricingContext R db tenant ctx = Some m"
    and "list_all (\<lambda>c. c_consumptionWh c \<noteq> None) cs"
  shows "\<exists>m'. foldE (price_next R) m cs = Inr m'
    \<and> map tariff (pricingDefinitions m') = map tariff (pricingDefinitions m)"
  using session.run_total [of m "map tariff (pricingDefinitions m)" cs R]
    resolved_has_fallback [OF assms(1)] assms(2) by auto

section \<open>The flat fee\<close>

definition priced_once :: "pricer_context \<Rightarrow> nat" where
  "priced_once ctx = (if flatFeeAlreadyPriced ctx then 1 else 0)"

lemma flat_fee_flag_other:
  "priceEnergyConsumption R ck ctx d = (pd, ctx', d') \<Longrightarrow> flatFeeAlreadyPriced ctx' = flatFeeAlreadyPriced ctx"
  "priceChargingTimeConsumption R ck ctx d = (pd, ctx', d') \<Longrightarrow> flatFeeAlreadyPriced ctx' = flatFeeAlreadyPriced ctx"
  "priceParkingTimeConsumption R ck ctx d = (pd, ctx', d') \<Longrightarrow> flatFeeAlreadyPriced ctx' = flatFeeAlreadyPriced ctx"
  by (auto simp: priceEnergyConsumption_def priceChargingTimeConsumption_def priceParkingTimeConsumption_def
      absorbConsumption_def absorbStepConsumption_def absorbChargingTime_def absorbParkingTime_def Let_def
      split: if_splits option.splits prod.splits)

lemma flat_fee_step:
  "priceFlatFeeConsumption R ck ctx d = (pd, ctx', d') \<Longrightarrow>
     (pd \<noteq> None \<longrightarrow> \<not> flatFeeAlreadyPriced ctx \<and> 0 < ck_cumulatedConsumptionWh ck)
     \<and> (flatFeeAlreadyPriced ctx' \<longleftrightarrow> flatFeeAlreadyPriced ctx \<or> pd \<noteq> None)"
  by (auto simp: priceFlatFeeConsumption_def split: if_splits option.splits prod.splits)

lemma flat_fee_definition:
  assumes "price_with_definition R ck ctx d = (p, ctx', d')"
  shows "(pc_flatFee p \<noteq> None \<longrightarrow> \<not> flatFeeAlreadyPriced ctx \<and> 0 < ck_cumulatedConsumptionWh ck)
     \<and> (flatFeeAlreadyPriced ctx' \<longleftrightarrow> flatFeeAlreadyPriced ctx \<or> pc_flatFee p \<noteq> None)"
proof -
  obtain ff ctx1 d1 where 1: "priceFlatFeeConsumption R ck ctx d = (ff, ctx1, d1)" by (metis prod_cases3)
  obtain en ctx2 d2 where 2: "priceEnergyConsumption R ck ctx1 d1 = (en, ctx2, d2)" by (metis prod_cases3)
  obtain ct ctx3 d3 where 3: "priceChargingTimeConsumption R ck ctx2 d2 = (ct, ctx3, d3)" by (metis prod_cases3)
  obtain pt ctx4 d4 where 4: "priceParkingTimeConsumption R ck ctx3 d3 = (pt, ctx4, d4)" by (metis prod_cases3)
  from assms 1 2 3 4 have "ctx' = ctx4" "pc_flatFee p = ff"
    by (auto simp: price_with_definition_def)
  with flat_fee_step [OF 1] flat_fee_flag_other(1) [OF 2] flat_fee_flag_other(2) [OF 3]
    flat_fee_flag_other(3) [OF 4]
  show ?thesis by simp
qed

text \<open>A run of chunks with a log of what each one was priced at.\<close>

definition price_and_log ::
    "runtime \<Rightarrow> (consumption_chunk \<times> priced_consumption_data) list \<times> resolved_model \<Rightarrow> consumption_chunk \<Rightarrow>
       ((consumption_chunk \<times> priced_consumption_data) list \<times> resolved_model) res" where
  "price_and_log R s ck =
     bindE (priceConsumptionChunk R ck (snd s)) (\<lambda>(p, m'). Inr (fst s @ [(ck, p)], m'))"

definition flat_fees :: "(consumption_chunk \<times> priced_consumption_data) list \<Rightarrow> (consumption_chunk \<times> priced_consumption_data) list" where
  "flat_fees entries = filter (\<lambda>e. pc_flatFee (snd e) \<noteq> None) entries"

definition flat_fee_once :: "(consumption_chunk \<times> priced_consumption_data) list \<times> resolved_model \<Rightarrow> bool" where
  "flat_fee_once s \<longleftrightarrow>
     length (flat_fees (fst s)) = priced_once (pricerContext (snd s))
     \<and> list_all (\<lambda>e. 0 < ck_cumulatedConsumptionWh (fst e)) (flat_fees (fst s))"

lemma flat_fee_once_step:
  assumes "flat_fee_once s" "price_and_log R s ck = Inr s'"
  shows "flat_fee_once s'"
proof -
  obtain entries m where s: "s = (entries, m)" by (cases s)
  with assms(2) obtain p m' where p: "priceConsumptionChunk R ck m = Inr (p, m')"
    and s': "s' = (entries @ [(ck, p)], m')"
    by (auto simp: price_and_log_def res_simps)
  from p obtain i d' ctx' where
    "price_with_definition R ck (pricerContext m) (pricingDefinitions m ! i) = (p, ctx', d')"
    and "pricerContext m' = ctx'"
    by (rule priceConsumptionChunk_cases)
  with flat_fee_definition [OF this(1)] assms(1) s s' show ?thesis
    by (auto simp: flat_fee_once_def flat_fees_def priced_once_def split: if_splits)
qed

interpretation flat_fee: invariant_run "price_and_log R" "\<lambda>_. True" flat_fee_once for R
  by unfold_locales (rule flat_fee_once_step)


section \<open>Witnesses\<close>

definition tariffs_of_site :: pricing_db where
  "tariffs_of_site e i =
     (if e = SITE \<and> i = ''si'' then [resolved_definition.extend full_tariff
        \<lparr>pdef_siteID = Some ''si'', roaming = Some False\<rparr>] else [])"

definition context_of_running :: pricing_context where
  "context_of_running = buildTransactionPricingContext running_transaction two_connectors"

lemma pricing_never_raises_witness:
  "\<exists>m m'. resolvePricingContext utc tariffs_of_site ''t'' context_of_running = Some m
     \<and> foldE (price_next utc) m [two_minutes, two_minutes] = Inr m'
     \<and> map tariff (pricingDefinitions m') = map tariff (pricingDefinitions m)"
proof -
  have "resolvePricingContext utc tariffs_of_site ''t'' context_of_running \<noteq> None" by code_simp
  then obtain m where m: "resolvePricingContext utc tariffs_of_site ''t'' context_of_running = Some m" by auto
  with pricing_never_raises [OF m, of "[two_minutes, two_minutes]"] show ?thesis
    by (simp add: two_minutes_def)
qed

definition one_chunk :: consumption_chunk where
  "one_chunk = \<lparr>ck_startedAt = 0, ck_endedAt = 60000, ck_consumptionWh = Some 100,
     ck_cumulatedConsumptionWh = 100, ck_totalDurationSecs = Some 60, ck_totalInactivitySecs = None\<rparr>"


end
