(* ===== verification/TariffResolution.thy ===== *)
theory TariffResolution
  imports PricingRuns
begin

text \<open>
  Which tariffs a session is priced with, and what the facade writes into the transaction over a
  whole session.
\<close>

section \<open>Resolution\<close>

lemma definitions_of_entity:
  assumes "d \<in> set (getPricingDefinitions4Entity R db ctx e i)"
  shows "\<exists>d0. i \<noteq> None \<and> d0 \<in> set (db e (the i)) \<and> d = shrinkPricingDefinition d0 \<and> entityType d0 = Some e
    \<and> checkStaticRestrictions R d0 ctx \<and> roaming d0 = roamingTransaction ctx"
  using assms by (cases i) (auto simp: getPricingDefinitions4Entity_def checkEntityType_def split: if_splits)

lemma shrink_frame [simp]:
  "entityType (shrinkPricingDefinition d) = entityType d"
  "dimensions (shrinkPricingDefinition d) = dimensions d"
  "restrictions (shrinkPricingDefinition d) = restrictions d"
  "checkStaticRestrictions R (shrinkPricingDefinition d) ctx = checkStaticRestrictions R d ctx"
  by (simp_all add: shrinkPricingDefinition_def checkStaticRestrictions_def)

text \<open>
  The tariffs of a session are ordered from the most specific to the least: those of its charging
  station, then those of its site, then those of the tenant, and at the end the default tariff, which
  has no restriction and prices energy at zero.  Each of them meets its static restrictions and has
  the roaming flag of the session.
\<close>

lemma tariffs_from_specific_to_general:
  assumes "resolvePricingContext R db tenant ctx = Some m"
  shows "\<exists>cs site ten. pricingDefinitions m = cs @ site @ ten @ [getDefaultPricingDefinition]
    \<and> (\<forall>d \<in> set cs. entityType d = Some CHARGING_STATION)
    \<and> (\<forall>d \<in> set site. entityType d = Some SITE)
    \<and> (\<forall>d \<in> set ten. entityType d = Some TENANT)
    \<and> (\<forall>d \<in> set (cs @ site @ ten). checkStaticRestrictions R d ctx)
    \<and> (\<forall>d \<in> set (cs @ site @ ten). \<exists>e i d0. d0 \<in> set (db e i) \<and> d = shrinkPricingDefinition d0
         \<and> roaming d0 = roamingTransaction ctx)
    \<and> \<not> flatFeeAlreadyPriced (pricerContext m)"
proof -
  let ?g = "getPricingDefinitions4Entity R db ctx"
  let ?cs = "?g CHARGING_STATION (ctx_chargingStationID ctx)"
  let ?site = "?g SITE (ctx_siteID ctx)"
  let ?ten = "?g TENANT (Some tenant)"
  have "pricingDefinitions m = ?cs @ ?site @ ?ten @ [getDefaultPricingDefinition]"
    and "\<not> flatFeeAlreadyPriced (pricerContext m)"
    using assms by (auto simp: resolvePricingContext_def engine_resolvePricingContext_def
        resolve_definitions_def Let_def split: if_splits)
  moreover have "\<forall>d \<in> set (?g e i). entityType d = Some e \<and> checkStaticRestrictions R d ctx
      \<and> (\<exists>e i d0. d0 \<in> set (db e i) \<and> d = shrinkPricingDefinition d0 \<and> roaming d0 = roamingTransaction ctx)" for e i
    by (auto dest!: definitions_of_entity)
  ultimately show ?thesis by (intro exI [of _ ?cs] exI [of _ ?site] exI [of _ ?ten]) auto
qed

text \<open>
  The context built for a user of the REST API carries no roaming flag, and the engine compares the
  flag strictly; as the storage always writes a boolean, no stored tariff matches such a context, and
  what a user is shown is the default tariff alone.
\<close>

lemma user_contexts_get_the_default_tariff_only:
  assumes "\<forall>e i. \<forall>d \<in> set (db e i). roaming d \<noteq> None"
    and "resolvePricingContext R db tenant (buildUserPricingContext R u cs cid t) = Some m"
  shows "pricingDefinitions m = [getDefaultPricingDefinition]"
proof -
  have "getPricingDefinitions4Entity R db (buildUserPricingContext R u cs cid t) e i = []" for e i
  proof (rule ccontr)
    assume "getPricingDefinitions4Entity R db (buildUserPricingContext R u cs cid t) e i \<noteq> []"
    then obtain d where "d \<in> set (getPricingDefinitions4Entity R db (buildUserPricingContext R u cs cid t) e i)"
      by (metis list.set_intros(1) neq_Nil_conv)
    from definitions_of_entity [OF this] obtain d0 where "d0 \<in> set (db e (the i))" "roaming d0 = None"
      by (auto simp: buildUserPricingContext_def Let_def)
    with assms(1) show False by blast
  qed
  with assms(2) show ?thesis
    by (auto simp: resolvePricingContext_def engine_resolvePricingContext_def resolve_definitions_def Let_def
        split: if_splits)
qed

definition located_station :: charging_station where
  "located_station = two_connectors\<lparr>cs_coordinates := Some [2, 48]\<rparr>"

lemma user_contexts_get_the_default_tariff_only_witness:
  "\<exists>m. resolvePricingContext utc tariffs_of_site ''t'' (buildUserPricingContext utc ''u'' located_station 1 0) = Some m
     \<and> pricingDefinitions m = [getDefaultPricingDefinition]"
proof -
  have "resolvePricingContext utc tariffs_of_site ''t'' (buildUserPricingContext utc ''u'' located_station 1 0) \<noteq> None"
    by code_simp
  then obtain m where
    m: "resolvePricingContext utc tariffs_of_site ''t'' (buildUserPricingContext utc ''u'' located_station 1 0) = Some m"
    by auto
  have "\<forall>e i. \<forall>d \<in> set (tariffs_of_site e i). roaming d \<noteq> None"
    by (auto simp: tariffs_of_site_def resolved_definition.extend_def split: if_splits)
  from user_contexts_get_the_default_tariff_only [OF this m] m show ?thesis by blast
qed

text \<open>
  A transaction whose station lacks part of the pricing context (no company, site, site area, time
  zone, or connector data) cannot be priced: the built-in pricing logs the missing information and
  returns no model, and the price computation then fails on it with a type error.
\<close>

lemma incomplete_context_fails:
  assumes "\<not> checkContextConsistency (buildTransactionPricingContext tx cs)" "tx_pricingModel tx = None"
    and "c_consumptionWh c \<noteq> None"
  shows "computePrice R db tenant currency tx c cs = Inl TypeError"
proof -
  have "\<exists>cks. generateChunk R c = Inr cks"
    using assms(3) by (cases "diff_seconds (c_endedAt c) (started R c) \<le> 60") (auto simp: generateChunk_def Let_def)
  with assms(1,2) show ?thesis
    by (auto simp: computePrice_def resolvePricingContext_def)
qed

lemma incomplete_context_fails_witness:
  "computePrice utc tariffs_of_site ''t'' ''EUR'' (blank_transaction\<lparr>tx_timezone := None\<rparr>) two_minutes two_connectors
     = Inl TypeError"
proof (rule incomplete_context_fails)
  show "\<not> checkContextConsistency (buildTransactionPricingContext (blank_transaction\<lparr>tx_timezone := None\<rparr>) two_connectors)"
    by code_simp
qed (simp_all add: blank_transaction_def two_minutes_def)

section \<open>The price of a whole session\<close>

text \<open>
  A session priced by the facade: the consumption of its start, then any number of others; the second
  component adds up the amounts written into the consumptions.
\<close>

definition price_update ::
    "runtime \<Rightarrow> pricing_env \<Rightarrow> charging_station \<Rightarrow> tx_transaction \<times> rat \<Rightarrow> consumption \<Rightarrow> (tx_transaction \<times> rat) res" where
  "price_update R E cs s c =
     bindE (processUpdateTransaction R E cs (fst s, c)) (\<lambda>(tx', c'). Inr (tx', snd s + num0 (c_amount c')))"

definition price_session ::
    "runtime \<Rightarrow> pricing_env \<Rightarrow> charging_station \<Rightarrow> tx_transaction \<Rightarrow> consumption \<Rightarrow> consumption list \<Rightarrow>
       (tx_transaction \<times> rat) res" where
  "price_session R E cs tx c0 cons =
     bindE (processStartTransaction R E cs (tx, c0))
       (\<lambda>(tx1, c1). foldE (price_update R E cs) (tx1, num0 (c_amount c1)) cons)"

text \<open>The amounts written so far are what the model of the transaction holds.\<close>

definition session_balance :: "tx_transaction \<times> rat \<Rightarrow> bool" where
  "session_balance s \<longleftrightarrow>
     (case tx_pricingModel (fst s) of None \<Rightarrow> False
      | Some m \<Rightarrow> sound_model m \<and> held_by_model m = snd s \<and> currentCumulatedPrice (fst s) = Some (snd s))"

lemma computePrice_exact:
  assumes "computePrice (exact_runtime wd lt) db tenant currency tx c cs = Inr (p, tx')"
    and "(case tx_pricingModel tx of Some m \<Rightarrow> Some m
          | None \<Rightarrow> resolvePricingContext (exact_runtime wd lt) db tenant (buildTransactionPricingContext tx cs)) = Some m"
    and "sound_model m"
  shows "sound_model (pr_pricingModel p) \<and> pr_cumulatedAmount p = held_by_model (pr_pricingModel p)
    \<and> held_by_model (pr_pricingModel p) = held_by_model m + pr_amount p
    \<and> tx' = (if tx_pricingModel tx = None then tx else tx\<lparr>tx_pricingModel := Some (pr_pricingModel p)\<rparr>)"
proof -
  from assms(1,2) obtain data m' where d: "priceConsumption (exact_runtime wd lt) c m = Inr (data, m')"
    and p: "pr_cumulatedAmount p = fst (computeCumulatedAmount (exact_runtime wd lt) m')"
      "pr_amount p = sum_of_amounts (exact_runtime wd lt) (\<lambda>t. amount_of t data)" "pr_pricingModel p = m'"
      "tx' = (if tx_pricingModel tx = None then tx else tx\<lparr>tx_pricingModel := Some m'\<rparr>)"
    by (auto simp: computePrice_def res_simps Let_def split: option.splits)
  have "pr_amount p = priced_amount data"
    by (simp add: p sum_of_amounts_def priced_amount_def sum_dimensions_def d_ops)
  with ledger_of_consumption [OF d assms(3)] p show ?thesis
    by (simp add: computeCumulatedAmount_exact)
qed

lemma price_update_balance:
  assumes "session_balance s" "price_update (exact_runtime wd lt) E cs s c = Inr s'" "getPricingImpl E \<noteq> None"
  shows "session_balance s'"
proof -
  obtain tx n where s: "s = (tx, n)" by (cases s)
  with assms(1) obtain m where m: "tx_pricingModel tx = Some m" "sound_model m" "held_by_model m = n"
    by (auto simp: session_balance_def split: option.splits)
  from assms(2,3) s obtain currency p tx1 where
    p: "computePrice (exact_runtime wd lt) (pe_db E) (pe_tenantID E) currency tx c cs = Inr (p, tx1)"
    and s': "s' = (fst (updateCumulatedAmounts p (tx1, c)), n + pr_amount p)"
    by (auto simp: price_update_def processUpdateTransaction_def res_simps updateCumulatedAmounts_def)
  from computePrice_exact [OF p, of m] m show ?thesis
    by (simp add: s' session_balance_def updateCumulatedAmounts_def)
qed

interpretation session_ledger: invariant_run "price_update (exact_runtime wd lt) E cs"
  "\<lambda>_. getPricingImpl E \<noteq> None" session_balance for wd lt E cs
  by unfold_locales (rule price_update_balance)

lemma unpriced_definition:
  assumes "\<forall>t. stored_data t (dimensions d) = None"
  shows "sound_definition d" "held t d = 0"
  using assms by (simp_all add: sound_definition_iff held_def)

lemma resolved_unpriced:
  assumes "resolvePricingContext R db tenant ctx = Some m"
    and "\<forall>e i. \<forall>d \<in> set (db e i). \<forall>t. stored_data t (dimensions d) = None"
  shows "sound_model m \<and> held_by_model m = 0"
proof -
  have "\<forall>t. stored_data t (dimensions d) = None" if "d \<in> set (pricingDefinitions m)" for d
  proof
    fix t
    from that assms(1) consider "d = getDefaultPricingDefinition"
      | e i where "d \<in> set (getPricingDefinitions4Entity R db ctx e i)"
      by (auto simp: resolvePricingContext_def engine_resolvePricingContext_def resolve_definitions_def Let_def
          split: if_splits)
    then show "stored_data t (dimensions d) = None"
    proof cases
      case 1
      then show ?thesis by (cases t) (simp_all add: getDefaultPricingDefinition_def stored_data_def)
    next
      case 2
      from definitions_of_entity [OF this] assms(2) show ?thesis by auto
    qed
  qed
  note d = unpriced_definition [OF this]
  have "sum_dimensions (\<lambda>t. held t d) = 0" if "d \<in> set (pricingDefinitions m)" for d
    using d(2) [OF that] by (simp add: sum_dimensions_def)
  then have "held_by_model m = 0"
    unfolding held_by_model_def by (simp add: sum_list_0 cong: map_cong)
  with d show ?thesis by (auto simp: sound_model_def list_all_iff)
qed


definition site_pricing :: pricing_env where
  "site_pricing = \<lparr>pe_componentActive = True, pe_simpleCurrency = Some ''EUR'', pe_db = tariffs_of_site, pe_tenantID = ''t''\<rparr>"


text \<open>
  When a session starts without a pricing model (the pricing component was switched on later), no
  update ever stores one: each consumption is priced on a freshly resolved model, so the flat fee is
  charged again with every consumption and the cumulated price restarts each time.
\<close>

lemma update_never_stores_a_model:
  "tx_pricingModel tx = None \<Longrightarrow> processUpdateTransaction R E cs (tx, c) = Inr (tx', c') \<Longrightarrow>
     tx_pricingModel tx' = None"
  by (auto simp: processUpdateTransaction_def res_simps updateCumulatedAmounts_def computePrice_def Let_def
      split: option.splits)

lemma update_never_stores_a_model_witness:
  "\<exists>tx' c' tx'' c''. processUpdateTransaction utc site_pricing two_connectors (blank_transaction, two_minutes) = Inr (tx', c')
     \<and> tx_pricingModel tx' = None
     \<and> processUpdateTransaction utc site_pricing two_connectors (tx', two_minutes) = Inr (tx'', c'')
     \<and> currentCumulatedPrice tx' = Some (145/100) \<and> currentCumulatedPrice tx'' = Some (145/100)"
proof -
  let ?first = "processUpdateTransaction utc site_pricing two_connectors (blank_transaction, two_minutes)"
  have "case ?first of Inl _ \<Rightarrow> False | Inr (tx', c') \<Rightarrow> currentCumulatedPrice tx' = Some (145/100)
      \<and> (case processUpdateTransaction utc site_pricing two_connectors (tx', two_minutes) of
           Inl _ \<Rightarrow> False | Inr (tx'', c'') \<Rightarrow> currentCumulatedPrice tx'' = Some (145/100))"
    by code_simp
  then obtain tx' c' tx'' c'' where f: "?first = Inr (tx', c')"
    and "processUpdateTransaction utc site_pricing two_connectors (tx', two_minutes) = Inr (tx'', c'')"
    and "currentCumulatedPrice tx' = Some (145/100)" "currentCumulatedPrice tx'' = Some (145/100)"
    by (auto split: sum.splits)
  moreover from update_never_stores_a_model [OF _ f] have "tx_pricingModel tx' = None"
    by (simp add: blank_transaction_def)
  ultimately show ?thesis by blast
qed

end
