(* ===== verification/StepBilling.thy ===== *)
theory StepBilling
  imports PricingRuns
begin

text \<open>
  Tariffs with a step size bill whole steps.  In exact arithmetic the steps of a single tariff
  telescope: what is billed is what was delivered, rounded down to a whole step.  Two runs at the end
  show where the code departs from its comments.
\<close>

section \<open>Time\<close>

text \<open>
  A time dimension with a step size bills a positive whole number of steps and carries over the
  rest: the billed seconds and the seconds left for the next chunk add up to the seconds since the
  last billed step, and less than a step is carried over.
\<close>

lemma time_steps_split_the_elapsed_time:
  assumes "priceTimeDimension (exact_runtime wd lt) ck dm lastStepDate = Some ((pd, dm'), rest)"
    and "stepSize dm = Some step" "0 < step"
  shows "quantity pd + rest = of_int (diff_seconds (ck_endedAt ck) lastStepDate)
    \<and> 0 \<le> rest \<and> rest < step \<and> (\<exists>k::int. 0 < k \<and> quantity pd = of_int k * step)"
proof -
  let ?t = "of_int (diff_seconds (ck_endedAt ck) lastStepDate) :: rat"
  from assms have pos: "0 < rtrunc (?t / step)" and q: "quantity pd = rtrunc (?t / step) * step"
    and r: "rest = ?t - rtrunc (?t / step) * step"
    by (auto simp: priceTimeDimension_def priceTimeSteps_def priced_data_def Let_def d_ops split: if_splits)
  from pos have one: "1 \<le> ?t / step" by (simp add: rtrunc_pos_iff)
  then have tr: "rtrunc (?t / step) = of_int \<lfloor>?t / step\<rfloor>" by (simp add: rtrunc_def)
  have "of_int \<lfloor>?t / step\<rfloor> * step \<le> ?t" and "?t < of_int \<lfloor>?t / step\<rfloor> * step + step"
    using assms(3) floor_divide_lower [of step ?t] floor_divide_upper [of step ?t]
    by (simp_all add: algebra_simps)
  moreover have "0 < \<lfloor>?t / step\<rfloor>" using one by simp
  ultimately show ?thesis unfolding q r tr by auto
qed

section \<open>Energy\<close>

definition energy_quantity :: "priced_consumption_data \<Rightarrow> rat" where
  "energy_quantity p = (case pc_energy p of None \<Rightarrow> 0 | Some pd \<Rightarrow> quantity pd)"

definition energy_billed :: "(consumption_chunk \<times> priced_consumption_data) list \<Rightarrow> rat" where
  "energy_billed es = sum_list (map (\<lambda>e. energy_quantity (snd e)) es)"

text \<open>An amount rounded down to a whole number of steps.\<close>

definition whole_steps :: "rat \<Rightarrow> rat \<Rightarrow> rat" where
  "whole_steps step x = of_int \<lfloor>x / step\<rfloor> * step"

lemma whole_steps_le: "0 < step \<Longrightarrow> whole_steps step x \<le> x"
  using floor_divide_lower [of step x] by (simp add: whole_steps_def)

lemma whole_steps_mono: "0 < step \<Longrightarrow> x \<le> y \<Longrightarrow> whole_steps step x \<le> whole_steps step y"
  by (simp add: whole_steps_def floor_mono divide_right_mono)

lemma steps_between:
  assumes "0 < step" "x \<le> y"
  shows "rtrunc ((y - whole_steps step x) / step) * step = whole_steps step y - whole_steps step x"
proof -
  have "0 \<le> (y - whole_steps step x) / step"
    using whole_steps_le [of step x] assms by simp
  moreover have "(y - whole_steps step x) / step = y / step - of_int \<lfloor>x / step\<rfloor>"
    using assms(1) by (simp add: whole_steps_def diff_divide_distrib)
  ultimately have "rtrunc ((y - whole_steps step x) / step) = of_int (\<lfloor>y / step\<rfloor> - \<lfloor>x / step\<rfloor>)"
    by (simp add: rtrunc_def)
  then show ?thesis by (simp add: whole_steps_def left_diff_distrib)
qed

lemma energy_step_chunk:
  assumes "priceEnergyConsumption (exact_runtime wd lt) ck ctx d = (pd, ctx', d')"
    and "active_dimension ENERGY d = Some dm" "stepSize dm = Some step" "0 < step"
    and "getAbsorbedConsumption ctx = whole_steps step x" "0 \<le> x" "x \<le> ck_cumulatedConsumptionWh ck"
  shows "getAbsorbedConsumption ctx' = whole_steps step (ck_cumulatedConsumptionWh ck)
    \<and> (case pd of None \<Rightarrow> 0 | Some pd \<Rightarrow> quantity pd)
        = whole_steps step (ck_cumulatedConsumptionWh ck) - whole_steps step x"
proof -
  let ?y = "ck_cumulatedConsumptionWh ck"
  let ?k = "rtrunc ((?y - whole_steps step x) / step)"
  note k = steps_between [OF assms(4) assms(7)]
  have mono: "whole_steps step x \<le> whole_steps step ?y" using assms by (simp add: whole_steps_mono)
  have y: "0 \<le> ?y / step" using assms by simp
  consider (none) "\<not> 0 < ?y \<or> \<not> 0 < ?k" | (some) "0 < ?y" "0 < ?k" by blast
  then show ?thesis
  proof cases
    case none
    have "whole_steps step ?y = whole_steps step x"
    proof (cases "0 < ?y")
      case True
      with none have "?k * step \<le> 0" using assms(4) by (simp add: mult_nonpos_nonneg)
      with k mono show ?thesis by simp
    next
      case False
      with assms have "x = ?y" by simp
      then show ?thesis by simp
    qed
    moreover have "ctx' = ctx" "pd = None"
      using none assms by (auto simp: priceEnergyConsumption_def d_ops Let_def split: if_splits)
    ultimately show ?thesis using assms(5) by simp
  next
    case some
    with assms have ctx': "ctx' = absorbStepConsumption (exact_runtime wd lt) ck step ctx"
      and "\<exists>q. pd = Some q \<and> quantity q = ?k * step"
      by (auto simp: priceEnergyConsumption_def priceConsumptionStep_def priced_data_def enrichPricedData_def
          d_ops Let_def split: option.splits)
    then show ?thesis
      using k y by (auto simp: absorbStepConsumption_def getAbsorbedConsumption_def d_ops whole_steps_def rtrunc_def)
  qed
qed

lemma absorbed_other:
  "priceFlatFeeConsumption R ck ctx d = (pd, ctx', d') \<Longrightarrow> getAbsorbedConsumption ctx' = getAbsorbedConsumption ctx"
  "priceChargingTimeConsumption R ck ctx d = (pd, ctx', d') \<Longrightarrow> getAbsorbedConsumption ctx' = getAbsorbedConsumption ctx"
  "priceParkingTimeConsumption R ck ctx d = (pd, ctx', d') \<Longrightarrow> getAbsorbedConsumption ctx' = getAbsorbedConsumption ctx"
  by (auto simp: priceFlatFeeConsumption_def priceChargingTimeConsumption_def priceParkingTimeConsumption_def
      absorbChargingTime_def absorbParkingTime_def getAbsorbedConsumption_def
      split: if_splits option.splits prod.splits)

lemma active_set_dimension:
  "t \<noteq> t' \<Longrightarrow> active_dimension t (set_dimension t' dm d) = active_dimension t d"
  by (simp add: active_dimension_def)

lemma active_dimension_step: "dimension_step R t' d pd d' \<Longrightarrow> t \<noteq> t' \<Longrightarrow> active_dimension t d' = active_dimension t d"
  by (auto simp: dimension_step_def active_set_dimension split: option.splits)

lemma active_tariff:
  "map_option stepSize (active_dimension t (tariff d)) = map_option stepSize (active_dimension t d)"
  by (cases t) (auto simp: active_dimension_def tariff_def strip_dimension_def split: option.split)

lemma energy_definition:
  assumes "price_with_definition (exact_runtime wd lt) ck ctx d = (p, ctx', d')"
    and "map_option stepSize (active_dimension ENERGY d) = Some (Some step)" "0 < step"
    and "getAbsorbedConsumption ctx = whole_steps step x" "0 \<le> x" "x \<le> ck_cumulatedConsumptionWh ck"
  shows "getAbsorbedConsumption ctx' = whole_steps step (ck_cumulatedConsumptionWh ck)
    \<and> energy_quantity p = whole_steps step (ck_cumulatedConsumptionWh ck) - whole_steps step x"
proof -
  let ?R = "exact_runtime wd lt"
  obtain ff ctx1 d1 where 1: "priceFlatFeeConsumption ?R ck ctx d = (ff, ctx1, d1)" by (metis prod_cases3)
  obtain en ctx2 d2 where 2: "priceEnergyConsumption ?R ck ctx1 d1 = (en, ctx2, d2)" by (metis prod_cases3)
  obtain ct ctx3 d3 where 3: "priceChargingTimeConsumption ?R ck ctx2 d2 = (ct, ctx3, d3)" by (metis prod_cases3)
  obtain pt ctx4 d4 where 4: "priceParkingTimeConsumption ?R ck ctx3 d3 = (pt, ctx4, d4)" by (metis prod_cases3)
  from assms(1) 1 2 3 4 have p: "ctx' = ctx4" "pc_energy p = en"
    by (auto simp: price_with_definition_def)
  have "active_dimension ENERGY d1 = active_dimension ENERGY d"
    by (rule active_dimension_step [OF dimension_step_flat_fee [OF 1]]) simp
  with assms(2) obtain dm where "active_dimension ENERGY d1 = Some dm" "stepSize dm = Some step" by auto
  from energy_step_chunk [OF 2 this assms(3)] assms(4-6) absorbed_other(1) [OF 1]
    absorbed_other(2) [OF 3] absorbed_other(3) [OF 4]
  show ?thesis by (simp add: p energy_quantity_def)
qed

lemma energy_run:
  assumes "foldE (price_and_log (exact_runtime wd lt)) (es0, m) cks = Inr (es, m')"
    and "pricingDefinitions m = [d]" "map_option stepSize (active_dimension ENERGY d) = Some (Some step)" "0 < step"
    and "getAbsorbedConsumption (pricerContext m) = whole_steps step x" "0 \<le> x"
    and "sorted (x # map ck_cumulatedConsumptionWh cks)"
  shows "energy_billed es =
    energy_billed es0 + whole_steps step (last (x # map ck_cumulatedConsumptionWh cks)) - whole_steps step x"
  using assms
proof (induction cks arbitrary: es0 m d x)
  case Nil
  then show ?case by simp
next
  case (Cons ck cks)
  let ?y = "ck_cumulatedConsumptionWh ck"
  from Cons.prems(1) obtain s1 where s1: "price_and_log (exact_runtime wd lt) (es0, m) ck = Inr s1"
    and rest: "foldE (price_and_log (exact_runtime wd lt)) s1 cks = Inr (es, m')"
    by (auto simp: res_simps)
  from s1 obtain p m1 where p: "priceConsumptionChunk (exact_runtime wd lt) ck m = Inr (p, m1)"
    and "s1 = (es0 @ [(ck, p)], m1)"
    by (auto simp: price_and_log_def res_simps)
  with rest have rest: "foldE (price_and_log (exact_runtime wd lt)) (es0 @ [(ck, p)], m1) cks = Inr (es, m')"
    by simp
  from p obtain i d' ctx' where i: "i < length (pricingDefinitions m)"
    and q: "price_with_definition (exact_runtime wd lt) ck (pricerContext m) (pricingDefinitions m ! i) = (p, ctx', d')"
    and m1: "pricingDefinitions m1 = (pricingDefinitions m)[i := d']" "pricerContext m1 = ctx'"
    by (rule priceConsumptionChunk_cases)
  with Cons.prems(2) have q: "price_with_definition (exact_runtime wd lt) ck (pricerContext m) d = (p, ctx', d')"
    and m1: "pricingDefinitions m1 = [d']" "pricerContext m1 = ctx'" by auto
  have xy: "x \<le> ?y" and y: "0 \<le> ?y" and srt: "sorted (?y # map ck_cumulatedConsumptionWh cks)"
    using Cons.prems(6,7) by auto
  note en = energy_definition [OF q Cons.prems(3-6) xy]
  have "map_option stepSize (active_dimension ENERGY d') = Some (Some step)"
    using active_tariff [of ENERGY d'] active_tariff [of ENERGY d] tariff_price_with_definition [OF q]
      Cons.prems(3) by simp
  from Cons.IH [OF rest m1(1) this Cons.prems(4) _ y srt] en m1(2) show ?case
    by (simp add: energy_billed_def)
qed

text \<open>
  A session under a single tariff whose energy has a step size is billed the energy it delivered,
  rounded down to a whole number of steps, however its meter values were spread over chunks.
\<close>

lemma energy_steps_telescope:
  assumes "foldE (price_and_log (exact_runtime wd lt)) ([], m) cks = Inr (es, m')"
    and "pricingDefinitions m = [d]" "map_option stepSize (active_dimension ENERGY d) = Some (Some step)" "0 < step"
    and "lastAbsorbedConsumption (pricerContext m) = None"
    and "sorted (0 # map ck_cumulatedConsumptionWh cks)"
  shows "energy_billed es = whole_steps step (last (0 # map ck_cumulatedConsumptionWh cks))"
  using energy_run [OF assms(1-4) _ _ assms(6)] assms(5)
  by (simp add: energy_billed_def getAbsorbedConsumption_def whole_steps_def)

section \<open>Witnesses\<close>

definition chunk_at :: "int \<Rightarrow> rat \<Rightarrow> rat \<Rightarrow> consumption_chunk" where
  "chunk_at k wh cumulated =
     \<lparr>ck_startedAt = 60000 * k, ck_endedAt = 60000 * (k + 1), ck_consumptionWh = Some wh,
      ck_cumulatedConsumptionWh = cumulated, ck_totalDurationSecs = Some (of_int (60 * (k + 1))),
      ck_totalInactivitySecs = None\<rparr>"

definition step_tariff :: "rat \<Rightarrow> resolved_definition" where
  "step_tariff step = full_tariff\<lparr>dimensions := no_dimensions\<lparr>energy := priced_at (1/2) (Some step),
     chargingTime := priced_at 6 (Some 300)\<rparr>\<rparr>"

definition step_model :: resolved_model where
  "step_model = \<lparr>pricingDefinitions = [step_tariff 1000], pricerContext = fresh_context\<rparr>"

definition seventh_minute :: consumption_chunk where
  "seventh_minute = chunk_at 5 100 100"

lemma time_steps_split_the_elapsed_time_witness:
  "\<exists>pd dm' rest. priceTimeDimension utc seventh_minute (the (priced_at 6 (Some 300))) 0 = Some ((pd, dm'), rest)
     \<and> quantity pd + rest = 360 \<and> 0 \<le> rest \<and> rest < 300"
proof -
  have "priceTimeDimension utc seventh_minute (the (priced_at 6 (Some 300))) 0 \<noteq> None" by code_simp
  then obtain pd dm' rest where
    r: "priceTimeDimension utc seventh_minute (the (priced_at 6 (Some 300))) 0 = Some ((pd, dm'), rest)" by auto
  have d: "diff_seconds (ck_endedAt seventh_minute) 0 = 360" by code_simp
  from time_steps_split_the_elapsed_time [OF r [unfolded utc_def], of 300] r d show ?thesis
    by (auto simp: priced_at_def)
qed

section \<open>Where the code departs from its comments\<close>

text \<open>
  Steps are rounded down.  The comment on \<open>stepSize\<close> in \<open>types/Pricing.ts\<close> says that with blocks of
  five minutes six minutes are billed as two blocks; the code bills one and carries one minute over.
\<close>

lemma step_blocks_are_rounded_down:
  "map_option (\<lambda>((pd, _), rest). (quantity pd, rest))
     (priceTimeDimension utc seventh_minute (the (priced_at 6 (Some 300))) 0) = Some (300, 60)"
  by code_simp

text \<open>A tariff without steps for the first 1.5 kWh, then one with steps of 1 kWh.\<close>

definition switching_model :: resolved_model where
  "switching_model =
     \<lparr>pricingDefinitions =
        [full_tariff\<lparr>restrictions := Some \<lparr>daysOfWeek = None, timeFrom = None, timeTo = None, minEnergyKWh = None,
           maxEnergyKWh = Some (3/2), minDurationSecs = None, maxDurationSecs = None\<rparr>,
           dimensions := no_dimensions\<lparr>energy := priced_at (1/2) None\<rparr>\<rparr>,
         full_tariff\<lparr>dimensions := no_dimensions\<lparr>energy := priced_at (1/2) (Some 1000)\<rparr>\<rparr>],
      pricerContext = fresh_context\<rparr>"

text \<open>
  A session that switches from a tariff without steps to one with steps can be billed more energy
  than it delivered: after 1400 Wh priced exactly, the first step at 2500 Wh marks only 2000 Wh as
  absorbed, so 400 Wh are billed a second time by the next step, and 3400 Wh are billed for 3000 Wh
  delivered.  The comments of \<open>absorbStepConsumption\<close> state the opposite intention.
\<close>

lemma switching_to_steps_bills_energy_twice:
  "map_sum id (\<lambda>(es, _). (energy_billed es, ck_cumulatedConsumptionWh (fst (last es))))
     (foldE (price_and_log utc) ([], switching_model)
        [chunk_at 0 1400 1400, chunk_at 1 1100 2500, chunk_at 2 500 3000]) = Inr (3400, 3000)"
  by code_simp

end
