(* ===== verification/Chunks.thy ===== *)
theory Chunks
  imports Samples
begin

text \<open>
  The chunks of a consumption tile it: they follow each other without gap or overlap, none is longer
  than a minute, and in exact arithmetic their energies add up to the energy of the consumption.
\<close>

section \<open>Tilings\<close>

fun tiles :: "int \<Rightarrow> int \<Rightarrow> consumption_chunk list \<Rightarrow> bool" where
  "tiles a b [] = (a = b)"
| "tiles a b (ck # cks) =
     (ck_startedAt ck = a \<and> a < ck_endedAt ck \<and> ck_endedAt ck \<le> a + 60000 \<and> tiles (ck_endedAt ck) b cks)"

definition energy_of :: "consumption_chunk list \<Rightarrow> rat" where
  "energy_of cks = sum_list (map (\<lambda>ck. num0 (ck_consumptionWh ck)) cks)"

text \<open>Each chunk's running total is the previous one plus its own energy and duration.\<close>

fun running_totals :: "rat \<Rightarrow> rat \<Rightarrow> consumption_chunk list \<Rightarrow> bool" where
  "running_totals wh secs [] = True"
| "running_totals wh secs (ck # cks) =
     (ck_cumulatedConsumptionWh ck = wh + num0 (ck_consumptionWh ck)
      \<and> ck_totalDurationSecs ck = Some (secs + of_int ((ck_endedAt ck - ck_startedAt ck) div 1000))
      \<and> running_totals (ck_cumulatedConsumptionWh ck) (num0 (ck_totalDurationSecs ck)) cks)"

lemma chunks_tile:
  "d \<le> n \<Longrightarrow> tiles (s + 1000 * d) (s + 1000 * n) (chunks_from R s wh ina n d cum tot ti)
     \<and> length (chunks_from R s wh ina n d cum tot ti) = nat ((n - d + 59) div 60)"
proof (induction R s wh ina n d cum tot ti rule: chunks_from.induct)
  case (1 R s wh ina n d cum tot ti)
  show ?case
  proof (cases "d < n")
    case False
    with 1 have "d = n" by simp
    then show ?thesis by (simp add: chunks_from.simps)
  next
    case True
    define k where "k = min (n - d) 60"
    have k: "0 < k" "k \<le> 60" "d + k \<le> n" "k = n - d \<or> k = 60" using True by (auto simp: k_def)
    obtain c1 c2 c3 where step: "chunks_from R s wh ina n d cum tot ti =
        \<lparr>ck_startedAt = s + 1000 * d, ck_endedAt = s + 1000 * (d + k),
         ck_consumptionWh = Some (num R (d_div R (d_mul R wh (of_int k)) (of_int n))),
         ck_cumulatedConsumptionWh = num R c1, ck_totalDurationSecs = Some (num R c2),
         ck_totalInactivitySecs = Some (num R c3)\<rparr> # chunks_from R s wh ina n (d + k) c1 c2 c3"
      and c: "c1 = d_add R cum (d_div R (d_mul R wh (of_int k)) (of_int n))"
        "c2 = d_add R tot (of_int k)"
        "c3 = d_add R ti (if wh = 0 \<and> ina = of_int n then of_int k else 0)"
      using True by (simp add: chunks_from.simps [of R s wh ina n d] Let_def minValue_def k_def)
    have IH: "tiles (s + 1000 * (d + k)) (s + 1000 * n) (chunks_from R s wh ina n (d + k) c1 c2 c3)
        \<and> length (chunks_from R s wh ina n (d + k) c1 c2 c3) = nat ((n - (d + k) + 59) div 60)"
      using 1 (1) [OF True, of k _ "d_div R (d_mul R wh (of_int k)) (of_int n)" c1 c2 c3] k c
      by (simp add: minValue_def k_def)
    have "Suc (nat ((n - (d + k) + 59) div 60)) = nat ((n - d + 59) div 60)"
      using k(4)
    proof
      assume "k = n - d"
      with k show ?thesis by simp
    next
      assume "k = 60"
      with k(3) have "(n - d + 59) div 60 = (n - (d + k) + 59) div 60 + 1" and "0 \<le> (n - (d + k) + 59) div 60"
        by simp_all
      then show ?thesis by simp
    qed
    with IH k step show ?thesis by simp
  qed
qed



lemma chunks_energy:
  assumes "0 < n"
  shows "d \<le> n \<Longrightarrow>
    energy_of (chunks_from (exact_runtime wd lt) s wh ina n d cum tot ti) = wh * of_int (n - d) / of_int n
    \<and> running_totals cum tot (chunks_from (exact_runtime wd lt) s wh ina n d cum tot ti)"
proof (induction "exact_runtime wd lt" s wh ina n d cum tot ti rule: chunks_from.induct)
  case (1 s wh ina n d cum tot ti)
  show ?case
  proof (cases "d < n")
    case False
    with 1 have "d = n" by simp
    then show ?thesis by (simp add: chunks_from.simps energy_of_def)
  next
    case True
    define k where "k = min (n - d) 60"
    have k: "d + k \<le> n" using True by (auto simp: k_def)
    define w where "w = wh * of_int k / of_int n"
    define i where "i = ti + (if wh = 0 \<and> ina = of_int n then of_int k else 0)"
    let ?rest = "chunks_from (exact_runtime wd lt) s wh ina n (d + k) (cum + w) (tot + of_int k) i"
    have step: "chunks_from (exact_runtime wd lt) s wh ina n d cum tot ti =
        \<lparr>ck_startedAt = s + 1000 * d, ck_endedAt = s + 1000 * (d + k), ck_consumptionWh = Some w,
         ck_cumulatedConsumptionWh = cum + w, ck_totalDurationSecs = Some (tot + of_int k),
         ck_totalInactivitySecs = Some i\<rparr> # ?rest"
      using True by (simp add: chunks_from.simps [of _ s wh ina n d] Let_def minValue_def k_def w_def i_def d_ops)
    have "energy_of ?rest = wh * of_int (n - (d + k)) / of_int n \<and> running_totals (cum + w) (tot + of_int k) ?rest"
      using 1 (1) [OF True, of k _ w "cum + w" "tot + of_int k" i] k
      by (simp add: minValue_def k_def w_def i_def d_ops)
    moreover have "w + wh * of_int (n - (d + k)) / of_int n = wh * of_int (n - d) / of_int n"
      by (simp add: w_def add_divide_distrib [symmetric] algebra_simps)
    ultimately show ?thesis
      by (simp add: step energy_of_def)
  qed
qed

text \<open>
  C31: In exact arithmetic no energy is lost or invented by the cutting: the energies of the chunks add
  up to the energy of the consumption, and each chunk's running total of energy and time is the total
  before the consumption plus what the chunks delivered so far.
\<close>

theorem chunks_conserve_energy:
  assumes "generateChunk (exact_runtime wd lt) c = Inr cks"
    and "60 < diff_seconds (c_endedAt c) (started (exact_runtime wd lt) c)"
  shows "energy_of cks = num0 (c_consumptionWh c)
    \<and> running_totals (num0 (c_cumulatedConsumptionWh c) - num0 (c_consumptionWh c))
        (num0 (c_totalDurationSecs c) - of_int (diff_seconds (c_endedAt c) (started (exact_runtime wd lt) c))) cks"
proof -
  let ?n = "diff_seconds (c_endedAt c) (started (exact_runtime wd lt) c)"
  from assms obtain wh ti where wh: "c_consumptionWh c = Some wh" and
    cks: "cks = chunks_from (exact_runtime wd lt) (started (exact_runtime wd lt) c) wh (num0 (c_inactivitySecs c)) ?n 0
      (num0 (c_cumulatedConsumptionWh c) - wh) (num0 (c_totalDurationSecs c) - of_int ?n) ti"
    by (auto simp: generateChunk_def Let_def d_ops createDecimal_num0 split: option.splits)
  from chunks_energy [of ?n 0 wd lt] assms(2) show ?thesis by (simp add: cks wh)
qed

lemma chunks_conserve_energy_witness:
  "\<exists>cks. generateChunk utc two_minutes = Inr cks \<and> energy_of cks = 500 \<and> running_totals 0 0 cks"
proof -
  have d: "diff_seconds (c_endedAt two_minutes) (started utc two_minutes) = 120" by code_simp
  have "succeeds (generateChunk utc two_minutes)" by code_simp
  then obtain cks where cks: "generateChunk utc two_minutes = Inr cks" by (auto simp: succeeds_iff)
  have c: "num0 (c_consumptionWh two_minutes) = 500" "num0 (c_cumulatedConsumptionWh two_minutes) = 500"
    "num0 (c_totalDurationSecs two_minutes) = 120" by (simp_all add: two_minutes_def)
  from chunks_conserve_energy [OF cks [unfolded utc_def]] d show ?thesis
    unfolding utc_def [symmetric] c using cks by auto
qed

end
