(* ===== verification/MeterValues.thy ===== *)
theory MeterValues
  imports SessionTypes
begin

text \<open>
  Meter values and the consumptions made of them (\<open>server/ocpp/utils/OCPPUtils.ts\<close>).  A meter value
  is normalised: its value is the number \<open>parseFloat\<close> reads from it.  The limits a vendor
  integration reports, the stations of a site area and the tenant's components come from outside
  and are gathered in \<open>meter_env\<close>.
\<close>

section \<open>Meter values (types/ocpp/OCPPServer.ts)\<close>

datatype reading_context =
    INTERRUPTION_BEGIN | INTERRUPTION_END | OTHER | SAMPLE_CLOCK | SAMPLE_PERIODIC
  | TRANSACTION_BEGIN | TRANSACTION_END | TRIGGER

datatype value_format = RAW | SIGNED_DATA

datatype measurand =
    CURRENT_EXPORT | CURRENT_IMPORT | CURRENT_OFFERED | ENERGY_ACTIVE_EXPORT_REGISTER
  | ENERGY_ACTIVE_IMPORT_REGISTER | ENERGY_REACTIVE_EXPORT_REGISTER | ENERGY_REACTIVE_IMPORT_REGISTER
  | ENERGY_ACTIVE_EXPORT_INTERVAL | ENERGY_ACTIVE_IMPORT_INTERVAL | ENERGY_REACTIVE_EXPORT_INTERVAL
  | ENERGY_REACTIVE_IMPORT_INTERVAL | FREQUENCY | POWER_ACTIVE_EXPORT | POWER_ACTIVE_IMPORT | POWER_FACTOR
  | POWER_OFFERED | POWER_REACTIVE_EXPORT | POWER_REACTIVE_IMPORT | FAN_RPM | STATE_OF_CHARGE
  | TEMPERATURE | VOLTAGE

datatype ocpp_location = BODY | CABLE | EV | INLET | OUTLET

datatype unit_of_measure =
    WATT_HOUR | KILO_WATT_HOUR | VAR_HOUR | KILO_VAR_HOUR | WATT | KILO_WATT | VOLT_AMP | KILO_VOLT_AMP
  | VAR | KILO_VAR | AMP | VOLT | TEMP_CELSIUS | TEMP_FAHRENHEIT | TEMP_KELVIN | PERCENT

record ocpp_attribute =
  at_context :: "reading_context option"
  at_format :: "value_format option"
  at_measurand :: "measurand option"
  at_phase :: "ocpp_phase option"
  at_location :: "ocpp_location option"
  at_unit :: "unit_of_measure option"

record meter_value =
  mv_connectorId :: int
  mv_transactionId :: int
  mv_timestamp :: int
  mv_attribute :: "ocpp_attribute option"
  mv_value :: rat

section \<open>Kinds of meter values\<close>

definition isSocMeterValue :: "meter_value \<Rightarrow> bool" where
  "isSocMeterValue mv =
     (case mv_attribute mv of
        None \<Rightarrow> True
      | Some a \<Rightarrow> at_measurand a = Some STATE_OF_CHARGE
          \<and> (at_context a = Some SAMPLE_PERIODIC \<or> at_context a = Some TRANSACTION_END))"

definition isEnergyActiveImportMeterValue :: "meter_value \<Rightarrow> bool" where
  "isEnergyActiveImportMeterValue mv =
     (case mv_attribute mv of
        None \<Rightarrow> True
      | Some a \<Rightarrow> at_measurand a = Some ENERGY_ACTIVE_IMPORT_REGISTER \<and> at_location a \<noteq> Some INLET
          \<and> (at_context a = Some SAMPLE_PERIODIC \<or> at_context a = Some TRANSACTION_END
             \<or> at_context a = Some SAMPLE_CLOCK))"

definition isPowerActiveImportMeterValue :: "meter_value \<Rightarrow> bool" where
  "isPowerActiveImportMeterValue mv =
     (case mv_attribute mv of
        None \<Rightarrow> True
      | Some a \<Rightarrow> at_measurand a = Some POWER_ACTIVE_IMPORT \<and> at_context a = Some SAMPLE_PERIODIC)"

definition isCurrentImportMeterValue :: "meter_value \<Rightarrow> bool" where
  "isCurrentImportMeterValue mv =
     (case mv_attribute mv of
        None \<Rightarrow> True
      | Some a \<Rightarrow> at_measurand a = Some CURRENT_IMPORT \<and> at_context a = Some SAMPLE_PERIODIC)"

definition isVoltageMeterValue :: "meter_value \<Rightarrow> bool" where
  "isVoltageMeterValue mv =
     (case mv_attribute mv of
        None \<Rightarrow> True
      | Some a \<Rightarrow> at_measurand a = Some VOLTAGE \<and> at_context a = Some SAMPLE_PERIODIC)"

definition isValidMeterValue :: "meter_value \<Rightarrow> bool" where
  "isValidMeterValue mv \<longleftrightarrow>
     isSocMeterValue mv \<or> isEnergyActiveImportMeterValue mv \<or> isPowerActiveImportMeterValue mv
     \<or> isCurrentImportMeterValue mv \<or> isVoltageMeterValue mv"

section \<open>Limits recorded with a consumption\<close>

record meter_env =
  me_organizationActive :: bool
  me_stationsOfSiteArea :: "string \<Rightarrow> charging_station list"
  me_vendorLimit :: "charging_station \<Rightarrow> int \<Rightarrow> (rat option \<times> rat option \<times> limit_source) option"

definition addConnectorLimitationToConsumption ::
    "meter_env \<Rightarrow> charging_station \<Rightarrow> int \<Rightarrow> consumption \<Rightarrow> consumption" where
  "addConnectorLimitationToConsumption E cs cid c =
     (case me_vendorLimit E cs cid of
        Some (amps, watts, source) \<Rightarrow>
          c\<lparr>c_limitAmps := amps, c_limitWatts := watts, c_limitSource := Some source\<rparr>
      | None \<Rightarrow>
          (let cn = getConnectorFromID cs cid
           in c\<lparr>c_limitAmps := Option.bind cn cn_amperageLimit, c_limitWatts := Option.bind cn cn_power,
                c_limitSource := Some CONNECTOR\<rparr>))"

text \<open>The sum over the connectors of the site area; the decimal library rejects a missing power.\<close>

definition add_connector_power :: "runtime \<Rightarrow> rat \<Rightarrow> connector \<Rightarrow> rat res" where
  "add_connector_power R watts cn =
     (case cn_power cn of None \<Rightarrow> Inl DecimalError | Some w \<Rightarrow> Inr (num R (d_add R watts w)))"

definition addSiteLimitationToConsumption ::
    "runtime \<Rightarrow> meter_env \<Rightarrow> site_area option \<Rightarrow> consumption \<Rightarrow> (site_area option \<times> consumption) res" where
  "addSiteLimitationToConsumption R E sa c =
     (case sa of
        None \<Rightarrow> Inr (sa, c)
      | Some s \<Rightarrow>
          if \<not> me_organizationActive E then Inr (sa, c)
          else if truthy_num (sa_maximumPower s) then
            Inr (sa, c\<lparr>c_limitSiteAreaWatts := sa_maximumPower s,
                       c_limitSiteAreaAmps := Some (num R (d_div R (the (sa_maximumPower s)) (sa_voltage s))),
                       c_limitSiteAreaSource := Some SITE_AREA_LIMIT,
                       c_smartChargingActive := Some (sa_smartCharging s)\<rparr>)
          else
            bindE (foldE (add_connector_power R) 0
                     (concat (map (\<lambda>st. case cs_connectors st of None \<Rightarrow> [] | Some cns \<Rightarrow> cns)
                        (me_stationsOfSiteArea E (sa_id s)))))
              (\<lambda>watts. Inr (Some (s\<lparr>sa_maximumPower := Some watts\<rparr>),
                 c\<lparr>c_limitSiteAreaWatts := Some watts,
                   c_limitSiteAreaAmps := Some (math_round (fl R Divide watts (sa_voltage s))),
                   c_limitSiteAreaSource := Some CHARGING_STATIONS,
                   c_smartChargingActive := Some (sa_smartCharging s)\<rparr>)))"

section \<open>A consumption from a meter value\<close>

definition initial_consumption :: "tx_transaction \<Rightarrow> meter_value \<Rightarrow> consumption" where
  "initial_consumption tx mv =
     \<lparr>instantWatts = None, instantWattsL1 = None, instantWattsL2 = None, instantWattsL3 = None,
      instantWattsDC = None, instantAmps = None, instantAmpsL1 = None, instantAmpsL2 = None,
      instantAmpsL3 = None, instantAmpsDC = None, instantVolts = None, instantVoltsL1 = None,
      instantVoltsL2 = None, instantVoltsL3 = None, instantVoltsDC = None, c_consumptionWh = None,
      c_consumptionAmps = None, c_id = None, c_startedAt = None, c_endedAt = mv_timestamp mv,
      c_transactionId = Some (tx_id tx), c_connectorId = Some (tx_connectorId tx),
      c_cumulatedConsumptionWh = None, c_cumulatedConsumptionAmps = None, c_pricingSource = None,
      c_amount = None, c_roundedAmount = None, c_cumulatedAmount = None, c_currencyCode = None,
      c_inactivitySecs = None, c_totalInactivitySecs = None, c_totalDurationSecs = None,
      c_stateOfCharge = None, c_toPrice = False, c_limitAmps = None, c_limitWatts = None,
      c_limitSource = None, c_limitSiteAreaAmps = None, c_limitSiteAreaWatts = None,
      c_limitSiteAreaSource = None, c_smartChargingActive = None\<rparr>"

definition powerConsumption :: "runtime \<Rightarrow> charging_station \<Rightarrow> tx_transaction \<Rightarrow> meter_value \<Rightarrow> consumption \<Rightarrow> consumption" where
  "powerConsumption R cs tx mv c =
     (let watts = (if Option.bind (mv_attribute mv) at_unit = Some KILO_WATT
                   then num R (d_mul R (mv_value mv) 1000) else mv_value mv)
      in case getChargingStationCurrentType cs None (tx_connectorId tx) of
           None \<Rightarrow> c
         | Some DC \<Rightarrow> c\<lparr>instantWattsDC := Some watts\<rparr>
         | Some AC \<Rightarrow>
             (case Option.bind (mv_attribute mv) at_phase of
                Some L1_N \<Rightarrow> c\<lparr>instantWattsL1 := Some watts\<rparr>
              | Some L1 \<Rightarrow> c\<lparr>instantWattsL1 := Some watts\<rparr>
              | Some L2_N \<Rightarrow> c\<lparr>instantWattsL2 := Some watts\<rparr>
              | Some L2 \<Rightarrow> c\<lparr>instantWattsL2 := Some watts\<rparr>
              | Some L3_N \<Rightarrow> c\<lparr>instantWattsL3 := Some watts\<rparr>
              | Some L3 \<Rightarrow> c\<lparr>instantWattsL3 := Some watts\<rparr>
              | _ \<Rightarrow> c\<lparr>instantWatts := Some watts\<rparr>))"

definition voltageConsumption :: "charging_station \<Rightarrow> tx_transaction \<Rightarrow> meter_value \<Rightarrow> consumption \<Rightarrow> consumption" where
  "voltageConsumption cs tx mv c =
     (let volts = mv_value mv
      in case getChargingStationCurrentType cs None (tx_connectorId tx) of
           None \<Rightarrow> c
         | Some DC \<Rightarrow> c\<lparr>instantVoltsDC := Some volts\<rparr>
         | Some AC \<Rightarrow>
             (case Option.bind (mv_attribute mv) at_phase of
                Some L1_N \<Rightarrow> c\<lparr>instantVoltsL1 := Some volts\<rparr>
              | Some L1 \<Rightarrow> c\<lparr>instantVoltsL1 := Some volts\<rparr>
              | Some L2_N \<Rightarrow> c\<lparr>instantVoltsL2 := Some volts\<rparr>
              | Some L2 \<Rightarrow> c\<lparr>instantVoltsL2 := Some volts\<rparr>
              | Some L3_N \<Rightarrow> c\<lparr>instantVoltsL3 := Some volts\<rparr>
              | Some L3 \<Rightarrow> c\<lparr>instantVoltsL3 := Some volts\<rparr>
              | Some L1_L2 \<Rightarrow> c
              | Some L2_L3 \<Rightarrow> c
              | Some L3_L1 \<Rightarrow> c
              | _ \<Rightarrow> c\<lparr>instantVolts := Some volts\<rparr>))"

definition currentConsumption :: "runtime \<Rightarrow> charging_station \<Rightarrow> tx_transaction \<Rightarrow> meter_value \<Rightarrow> consumption \<Rightarrow> consumption" where
  "currentConsumption R cs tx mv c =
     (let amps = mv_value mv
      in case getChargingStationCurrentType cs None (tx_connectorId tx) of
           None \<Rightarrow> c
         | Some DC \<Rightarrow> c\<lparr>instantAmpsDC := Some amps\<rparr>
         | Some AC \<Rightarrow>
             (case Option.bind (mv_attribute mv) at_phase of
                Some L1 \<Rightarrow> c\<lparr>instantAmpsL1 := Some amps\<rparr>
              | Some L2 \<Rightarrow> c\<lparr>instantAmpsL2 := Some amps\<rparr>
              | Some L3 \<Rightarrow> c\<lparr>instantAmpsL3 := Some amps\<rparr>
              | _ \<Rightarrow> c\<lparr>instantAmps :=
                     Some (fl R Times amps (of_nat (getNumberOfConnectedPhases cs None (tx_connectorId tx))))\<rparr>))"

text \<open>
  The branch of an energy register.  The pair is the consumption and the updated transaction.
\<close>

definition energy_register :: "runtime \<Rightarrow> charging_station \<Rightarrow> last_consumption \<Rightarrow> meter_value \<Rightarrow>
    consumption \<Rightarrow> tx_transaction \<Rightarrow> consumption \<times> tx_transaction" where
  "energy_register R cs lc mv c tx =
     (let durationSecs = num R (d_div R (of_int (mv_timestamp mv - lc_timestamp lc)) 1000);
          wh = (if Option.bind (mv_attribute mv) at_unit = Some KILO_WATT_HOUR
                then num R (d_mul R (mv_value mv) 1000) else mv_value mv);
          now = \<lparr>lc_value = wh, lc_timestamp = mv_timestamp mv\<rparr>;
          (c1, tx1) =
            (if lc_value lc < wh then
               (let delta = num R (d_sub R wh (lc_value lc))
                in (c\<lparr>c_consumptionWh := Some delta,
                      c_consumptionAmps := Some (convertWattToAmp R cs None (tx_connectorId tx) delta)\<rparr>,
                    tx\<lparr>currentTotalConsumptionWh :=
                         Some (num R (d_add R (createDecimal (currentTotalConsumptionWh tx)) delta)),
                       lastConsumption := Some now\<rparr>))
             else
               (let txa = (if wh = lc_value lc then tx\<lparr>lastConsumption := Some now\<rparr> else tx);
                    ca = c\<lparr>c_consumptionWh := Some 0, c_consumptionAmps := Some 0\<rparr>;
                    phases = of_nat (getNumberOfConnectedPhases cs None (tx_connectorId tx))
                in if c_limitSource c \<noteq> Some CHARGING_PROFILE
                      \<or> (case c_limitAmps c of None \<Rightarrow> False | Some a \<Rightarrow> fl R Times 6 phases \<le> a) then
                     (let inactivity = num R (d_add R (createDecimal (currentTotalInactivitySecs txa)) durationSecs)
                      in (ca\<lparr>c_inactivitySecs := Some durationSecs, c_totalInactivitySecs := Some inactivity\<rparr>,
                          txa\<lparr>currentTotalInactivitySecs := Some inactivity\<rparr>))
                   else (ca, txa)));
          until = (case tx_stop tx1 of None \<Rightarrow> mv_timestamp mv | Some st \<Rightarrow> ts_timestamp st)
      in (c1\<lparr>c_cumulatedConsumptionWh := currentTotalConsumptionWh tx1,
             c_cumulatedConsumptionAmps :=
               Some (convertWattToAmp R cs None (tx_connectorId tx) (num0 (currentTotalConsumptionWh tx1))),
             c_totalDurationSecs := Some (fl R Divide (of_int (until - tx_timestamp tx1)) 1000),
             c_cumulatedAmount := currentCumulatedPrice tx1,
             c_pricingSource := tx_pricingSource tx1, c_toPrice := True\<rparr>, tx1))"

type_synonym meter_state = "site_area option \<times> tx_transaction"

definition createConsumptionFromMeterValue ::
    "runtime \<Rightarrow> meter_env \<Rightarrow> charging_station \<Rightarrow> meter_state \<Rightarrow> last_consumption option \<Rightarrow> meter_value \<Rightarrow>
       (consumption option \<times> meter_state) res" where
  "createConsumptionFromMeterValue R E cs s previous mv =
     (if \<not> isValidMeterValue mv then Inr (None, s)
      else
        (let (sa, tx) = s;
             lc = (case previous of Some lc \<Rightarrow> lc
                   | None \<Rightarrow> \<lparr>lc_value = tx_meterStart tx, lc_timestamp = tx_timestamp tx\<rparr>);
             c = initial_consumption tx mv
         in if isSocMeterValue mv then Inr (Some (c\<lparr>c_stateOfCharge := Some (mv_value mv)\<rparr>), s)
            else if isPowerActiveImportMeterValue mv then Inr (Some (powerConsumption R cs tx mv c), s)
            else if isVoltageMeterValue mv then Inr (Some (voltageConsumption cs tx mv c), s)
            else if isCurrentImportMeterValue mv then Inr (Some (currentConsumption R cs tx mv c), s)
            else
              (let c1 = addConnectorLimitationToConsumption E cs (tx_connectorId tx)
                          (c\<lparr>c_startedAt := Some (lc_timestamp lc)\<rparr>)
               in bindE (addSiteLimitationToConsumption R E sa c1) (\<lambda>(sa', c2).
                    let (c3, tx') = energy_register R cs lc mv c2 tx in Inr (Some c3, (sa', tx'))))))"

definition createFirstConsumption ::
    "runtime \<Rightarrow> meter_env \<Rightarrow> charging_station \<Rightarrow> meter_state \<Rightarrow> (consumption option \<times> meter_state) res" where
  "createFirstConsumption R E cs s =
     (let tx = snd s in
      createConsumptionFromMeterValue R E cs s
        (Some \<lparr>lc_value = tx_meterStart tx, lc_timestamp = tx_timestamp tx\<rparr>)
        \<lparr>mv_connectorId = tx_connectorId tx, mv_transactionId = tx_id tx, mv_timestamp = tx_timestamp tx,
         mv_attribute = Some \<lparr>at_context = Some SAMPLE_PERIODIC, at_format = Some RAW,
           at_measurand = Some ENERGY_ACTIVE_IMPORT_REGISTER, at_phase = None,
           at_location = Some OUTLET, at_unit = Some WATT_HOUR\<rparr>,
         mv_value = tx_meterStart tx\<rparr>)"

end
