(* ===== verification/Consumptions.thy ===== *)
theory Consumptions
  imports MeterValues
begin

text \<open>
  Rest of the consumption handling of \<open>server/ocpp/utils/OCPPUtils.ts\<close>: completing and checking a
  consumption, the consumptions of a batch of meter values, the transaction's current values, the
  stop of a transaction and the extra inactivity after it.
\<close>

section \<open>Consistency of a consumption\<close>

definition check_watts :: "runtime \<Rightarrow> consumption \<Rightarrow> consumption" where
  "check_watts R c =
     (if gt (instantWattsL1 c) 0 \<or> gt (instantWattsL2 c) 0 \<or> gt (instantWattsL3 c) 0 then
        (let l1 = num0 (instantWattsL1 c); l2 = num0 (instantWattsL2 c); l3 = num0 (instantWattsL3 c);
             sum = num R (d_add R (d_add R l1 l2) l3);
             c1 = c\<lparr>instantWattsL1 := Some l1, instantWattsL2 := Some l2, instantWattsL3 := Some l3\<rparr>
         in case instantWatts c of
              None \<Rightarrow> c1
            | Some w \<Rightarrow> if w < fl R Divide sum (11/10) \<or> fl R Times sum (11/10) < w
                        then c1\<lparr>instantWatts := Some sum\<rparr> else c1)
      else c)"

definition check_amps :: "runtime \<Rightarrow> consumption \<Rightarrow> consumption" where
  "check_amps R c =
     (if gt (instantAmpsL1 c) 0 \<or> gt (instantAmpsL2 c) 0 \<or> gt (instantAmpsL3 c) 0 then
        (let l1 = num0 (instantAmpsL1 c); l2 = num0 (instantAmpsL2 c); l3 = num0 (instantAmpsL3 c);
             sum = num R (d_add R (d_add R l1 l2) l3);
             c1 = c\<lparr>instantAmpsL1 := Some l1, instantAmpsL2 := Some l2, instantAmpsL3 := Some l3\<rparr>
         in case instantAmps c of
              None \<Rightarrow> c1
            | Some a \<Rightarrow> if a < fl R Divide sum (11/10) \<or> fl R Times sum (11/10) < a
                        then c1\<lparr>instantAmps := Some sum\<rparr> else c1)
      else c)"

definition fill_watts :: "runtime \<Rightarrow> charging_station \<Rightarrow> int \<Rightarrow> consumption \<Rightarrow> consumption" where
  "fill_watts R cs cid c =
     (if truthy_num (instantWatts c) then c
      else if gt (instantAmps c) 0 then
        (if gt (instantVolts c) 0 then
           c\<lparr>instantWatts := Some (num R (d_mul R (the (instantVolts c)) (the (instantAmps c))))\<rparr>
         else c\<lparr>instantWatts := Some (convertAmpToWatt R cs None cid (the (instantAmps c)))\<rparr>)
      else
        (let diffSecs = fl R Divide (of_int (c_endedAt c - started R c)) 1000;
             multiplier = (if 0 < diffSecs then num R (d_div R 3600 diffSecs) else 0)
         in c\<lparr>instantWatts := Some (num R (d_mul R (createDecimal (c_consumptionWh c)) multiplier))\<rparr>))"

definition fill_amps :: "runtime \<Rightarrow> charging_station \<Rightarrow> int \<Rightarrow> consumption \<Rightarrow> consumption" where
  "fill_amps R cs cid c =
     (if truthy_num (instantAmps c) then c
      else if gt (instantWatts c) 0 then
        (if gt (instantVolts c) 0 then
           c\<lparr>instantAmps := Some (num R (d_div R (the (instantWatts c)) (the (instantVolts c))))\<rparr>
         else c\<lparr>instantAmps := Some (convertWattToAmp R cs None cid (the (instantWatts c)))\<rparr>)
      else c)"

definition phase_watts :: "runtime \<Rightarrow> charging_station \<Rightarrow> int \<Rightarrow> rat option \<Rightarrow> rat option \<Rightarrow> rat" where
  "phase_watts R cs cid amps volts =
     (if gt volts 0 then num R (d_mul R (createDecimal amps) (the volts))
      else convertAmpToWatt R cs None cid (num0 amps))"

definition fill_phases :: "runtime \<Rightarrow> charging_station \<Rightarrow> int \<Rightarrow> consumption \<Rightarrow> consumption" where
  "fill_phases R cs cid c =
     (if \<not> truthy_num (instantWattsL1 c) \<and> \<not> truthy_num (instantWattsL2 c) \<and> \<not> truthy_num (instantWattsL3 c)
         \<and> (gt (instantAmpsL1 c) 0 \<or> gt (instantAmpsL2 c) 0 \<or> gt (instantAmpsL3 c) 0) then
        c\<lparr>instantWattsL1 := Some (phase_watts R cs cid (instantAmpsL1 c) (instantVoltsL1 c)),
          instantWattsL2 := Some (phase_watts R cs cid (instantAmpsL2 c) (instantVoltsL2 c)),
          instantWattsL3 := Some (phase_watts R cs cid (instantAmpsL3 c) (instantVoltsL3 c))\<rparr>
      else c)"

definition fill_dc :: "runtime \<Rightarrow> consumption \<Rightarrow> consumption" where
  "fill_dc R c =
     (if \<not> truthy_num (instantWattsDC c) \<and> gt (instantAmpsDC c) 0 \<and> gt (instantVoltsDC c) 0 then
        c\<lparr>instantWattsDC := Some (num R (d_mul R (the (instantAmpsDC c)) (the (instantVoltsDC c))))\<rparr>
      else c)"

definition assertConsistencyInConsumption ::
    "runtime \<Rightarrow> charging_station \<Rightarrow> int \<Rightarrow> consumption \<Rightarrow> consumption" where
  "assertConsistencyInConsumption R cs cid c =
     fill_dc R (fill_phases R cs cid (fill_amps R cs cid (fill_watts R cs cid (check_amps R (check_watts R c)))))"

section \<open>The consumptions of a batch of meter values\<close>

text \<open>Properties the new consumption sets replace those of the existing one.\<close>

definition over :: "'a option \<Rightarrow> 'a option \<Rightarrow> 'a option" where
  "over new old = (case new of None \<Rightarrow> old | Some v \<Rightarrow> Some v)"

definition merge_consumption :: "consumption \<Rightarrow> consumption \<Rightarrow> consumption" where
  "merge_consumption new old =
     \<lparr>instantWatts = over (instantWatts new) (instantWatts old),
      instantWattsL1 = over (instantWattsL1 new) (instantWattsL1 old),
      instantWattsL2 = over (instantWattsL2 new) (instantWattsL2 old),
      instantWattsL3 = over (instantWattsL3 new) (instantWattsL3 old),
      instantWattsDC = over (instantWattsDC new) (instantWattsDC old),
      instantAmps = over (instantAmps new) (instantAmps old),
      instantAmpsL1 = over (instantAmpsL1 new) (instantAmpsL1 old),
      instantAmpsL2 = over (instantAmpsL2 new) (instantAmpsL2 old),
      instantAmpsL3 = over (instantAmpsL3 new) (instantAmpsL3 old),
      instantAmpsDC = over (instantAmpsDC new) (instantAmpsDC old),
      instantVolts = over (instantVolts new) (instantVolts old),
      instantVoltsL1 = over (instantVoltsL1 new) (instantVoltsL1 old),
      instantVoltsL2 = over (instantVoltsL2 new) (instantVoltsL2 old),
      instantVoltsL3 = over (instantVoltsL3 new) (instantVoltsL3 old),
      instantVoltsDC = over (instantVoltsDC new) (instantVoltsDC old),
      c_consumptionWh = over (c_consumptionWh new) (c_consumptionWh old),
      c_consumptionAmps = over (c_consumptionAmps new) (c_consumptionAmps old),
      c_id = over (c_id new) (c_id old), c_startedAt = over (c_startedAt new) (c_startedAt old),
      c_endedAt = c_endedAt new, c_transactionId = over (c_transactionId new) (c_transactionId old),
      c_connectorId = over (c_connectorId new) (c_connectorId old),
      c_cumulatedConsumptionWh = over (c_cumulatedConsumptionWh new) (c_cumulatedConsumptionWh old),
      c_cumulatedConsumptionAmps = over (c_cumulatedConsumptionAmps new) (c_cumulatedConsumptionAmps old),
      c_pricingSource = over (c_pricingSource new) (c_pricingSource old),
      c_amount = over (c_amount new) (c_amount old),
      c_roundedAmount = over (c_roundedAmount new) (c_roundedAmount old),
      c_cumulatedAmount = over (c_cumulatedAmount new) (c_cumulatedAmount old),
      c_currencyCode = over (c_currencyCode new) (c_currencyCode old),
      c_inactivitySecs = over (c_inactivitySecs new) (c_inactivitySecs old),
      c_totalInactivitySecs = over (c_totalInactivitySecs new) (c_totalInactivitySecs old),
      c_totalDurationSecs = over (c_totalDurationSecs new) (c_totalDurationSecs old),
      c_stateOfCharge = over (c_stateOfCharge new) (c_stateOfCharge old),
      c_toPrice = (c_toPrice new \<or> c_toPrice old), c_limitAmps = over (c_limitAmps new) (c_limitAmps old),
      c_limitWatts = over (c_limitWatts new) (c_limitWatts old),
      c_limitSource = over (c_limitSource new) (c_limitSource old),
      c_limitSiteAreaAmps = over (c_limitSiteAreaAmps new) (c_limitSiteAreaAmps old),
      c_limitSiteAreaWatts = over (c_limitSiteAreaWatts new) (c_limitSiteAreaWatts old),
      c_limitSiteAreaSource = over (c_limitSiteAreaSource new) (c_limitSiteAreaSource old),
      c_smartChargingActive = over (c_smartChargingActive new) (c_smartChargingActive old)\<rparr>"

fun insert_consumption :: "consumption \<Rightarrow> consumption list \<Rightarrow> consumption list" where
  "insert_consumption c [] = [c]"
| "insert_consumption c (e # es) =
     (if c_endedAt e = c_endedAt c then merge_consumption c e # es else e # insert_consumption c es)"

definition meter_value_in_the_past :: "tx_transaction \<Rightarrow> meter_value \<Rightarrow> bool" where
  "meter_value_in_the_past tx mv =
     (case lastConsumption tx of None \<Rightarrow> False | Some lc \<Rightarrow> mv_timestamp mv < lc_timestamp lc)"

definition add_meter_value ::
    "runtime \<Rightarrow> meter_env \<Rightarrow> charging_station \<Rightarrow> consumption list \<times> meter_state \<Rightarrow> meter_value \<Rightarrow>
       (consumption list \<times> meter_state) res" where
  "add_meter_value R E cs s mv =
     (let (cons, sa, tx) = s in
      if \<not> isValidMeterValue mv \<or> meter_value_in_the_past tx mv then Inr s
      else
        bindE (createConsumptionFromMeterValue R E cs (sa, tx) (lastConsumption tx) mv) (\<lambda>(c, s').
          Inr (case c of None \<Rightarrow> cons | Some c \<Rightarrow> insert_consumption c cons, s')))"

text \<open>
  The comparison function of \<open>sort\<close> reads the start date of both its arguments; it is called on every
  element when there are at least two.
\<close>

definition sort_consumptions :: "consumption list \<Rightarrow> consumption list res" where
  "sort_consumptions cons =
     (if length cons < 2 then Inr cons
      else if list_all (\<lambda>c. c_startedAt c \<noteq> None) cons then Inr (sort_key (\<lambda>c. the (c_startedAt c)) cons)
      else Inl TypeError)"

definition createConsumptionsFromMeterValues ::
    "runtime \<Rightarrow> meter_env \<Rightarrow> charging_station \<Rightarrow> meter_state \<Rightarrow> meter_value list \<Rightarrow>
       (consumption list \<times> meter_state) res" where
  "createConsumptionsFromMeterValues R E cs s mvs =
     bindE (foldE (add_meter_value R E cs) ([], s) mvs) (\<lambda>(cons, sa, tx).
       bindE (sort_consumptions (map (assertConsistencyInConsumption R cs (tx_connectorId tx)) cons))
         (\<lambda>sorted. Inr (sorted, sa, tx)))"

section \<open>Current values of the transaction\<close>

definition updateTransactionWithConsumption ::
    "runtime \<Rightarrow> charging_station \<Rightarrow> consumption \<Rightarrow> tx_transaction \<Rightarrow> tx_transaction" where
  "updateTransactionWithConsumption R cs c tx =
     (let soc = num0 (c_stateOfCharge c);
          tx1 = tx\<lparr>currentConsumptionWh := Some (num0 (c_consumptionWh c)),
                currentTotalConsumptionWh := Some (num0 (c_cumulatedConsumptionWh c)),
                currentInstantWatts := Some (num0 (instantWatts c)),
                currentInstantWattsL1 := Some (num0 (instantWattsL1 c)),
                currentInstantWattsL2 := Some (num0 (instantWattsL2 c)),
                currentInstantWattsL3 := Some (num0 (instantWattsL3 c)),
                currentInstantWattsDC := Some (num0 (instantWattsDC c)),
                currentInstantVolts := Some (num0 (instantVolts c)),
                currentInstantVoltsL1 := Some (num0 (instantVoltsL1 c)),
                currentInstantVoltsL2 := Some (num0 (instantVoltsL2 c)),
                currentInstantVoltsL3 := Some (num0 (instantVoltsL3 c)),
                currentInstantVoltsDC := Some (num0 (instantVoltsDC c)),
                currentInstantAmps := Some (num0 (instantAmps c)),
                currentInstantAmpsL1 := Some (num0 (instantAmpsL1 c)),
                currentInstantAmpsL2 := Some (num0 (instantAmpsL2 c)),
                currentInstantAmpsL3 := Some (num0 (instantAmpsL3 c)),
                currentInstantAmpsDC := Some (num0 (instantAmpsDC c)),
                currentTimestamp := Some (c_endedAt c), currentStateOfCharge := Some soc\<rparr>;
          tx2 = (if truthy_num (tx_stateOfCharge tx1) then tx1 else tx1\<lparr>tx_stateOfCharge := Some soc\<rparr>);
          until = (case lastConsumption tx2 of None \<Rightarrow> clock R | Some lc \<Rightarrow> lc_timestamp lc)
      in tx2\<lparr>currentTotalDurationSecs := Some (fl R Divide (of_int (until - tx_timestamp tx2)) 1000),
             currentInactivityStatus :=
               Some (getInactivityStatusLevel cs (tx_connectorId tx2) (currentTotalInactivitySecs tx2))\<rparr>)"

section \<open>Stop of a transaction\<close>

record stop_request =
  so_meterStop :: rat
  so_timestamp :: int
  so_reason :: "string option"

definition updateTransactionWithStopTransaction ::
    "tx_transaction \<Rightarrow> charging_station \<Rightarrow> stop_request \<Rightarrow> string option \<Rightarrow> string option \<Rightarrow> string option \<Rightarrow> bool \<Rightarrow>
       tx_transaction" where
  "updateTransactionWithStopTransaction tx cs so userID alternateUserID tagID isSoftStop =
     tx\<lparr>tx_stop := Some
       \<lparr>ts_timestamp = so_timestamp so, ts_meterStop = so_meterStop so, ts_reason = so_reason so,
        ts_tagID = tagID, ts_userID = over alternateUserID userID,
        ts_price = currentCumulatedPrice tx, ts_roundedPrice = currentCumulatedRoundedPrice tx,
        ts_priceUnit = tx_priceUnit tx, ts_pricingSource = tx_pricingSource tx,
        ts_stateOfCharge = currentStateOfCharge tx, ts_totalInactivitySecs = currentTotalInactivitySecs tx,
        ts_extraInactivitySecs = Some 0, ts_extraInactivityComputed = isSoftStop,
        ts_totalConsumptionWh = currentTotalConsumptionWh tx,
        ts_totalDurationSecs = currentTotalDurationSecs tx,
        ts_inactivityStatus =
          Some (getInactivityStatusLevel cs (tx_connectorId tx) (currentTotalInactivitySecs tx)),
        ts_signedData = Some (str_or (currentSignedData tx) [])\<rparr>\<rparr>"

definition sample_attribute :: "measurand \<Rightarrow> unit_of_measure \<Rightarrow> ocpp_location \<Rightarrow> ocpp_phase option \<Rightarrow> ocpp_attribute" where
  "sample_attribute m u l ph =
     \<lparr>at_context = Some SAMPLE_PERIODIC, at_format = Some RAW, at_measurand = Some m, at_phase = ph,
      at_location = Some l, at_unit = Some u\<rparr>"

definition stop_value ::
    "tx_transaction \<Rightarrow> stop_request \<Rightarrow> measurand \<Rightarrow> unit_of_measure \<Rightarrow> ocpp_location \<Rightarrow> ocpp_phase option \<Rightarrow> rat \<Rightarrow> meter_value" where
  "stop_value tx so m u l ph v =
     \<lparr>mv_connectorId = tx_connectorId tx, mv_transactionId = tx_id tx, mv_timestamp = so_timestamp so,
      mv_attribute = Some (sample_attribute m u l ph), mv_value = v\<rparr>"

text \<open>
  A value that is sent when it is positive; and one whose direct-current reading stands in when the
  alternating-current reading is missing.
\<close>

definition when_positive :: "rat option \<Rightarrow> (rat \<Rightarrow> meter_value) \<Rightarrow> meter_value list" where
  "when_positive v f = (if gt v 0 then [f (the v)] else [])"

definition when_either :: "rat option \<Rightarrow> rat option \<Rightarrow> (rat \<Rightarrow> rat) \<Rightarrow> (rat \<Rightarrow> meter_value) \<Rightarrow> meter_value list" where
  "when_either v dc g f =
     (if gt v 0 \<or> gt dc 0 then [f (if truthy_num v then g (the v) else num0 dc)] else [])"

definition createTransactionStopMeterValues ::
    "runtime \<Rightarrow> charging_station \<Rightarrow> tx_transaction \<Rightarrow> stop_request \<Rightarrow> meter_value list" where
  "createTransactionStopMeterValues R cs tx so =
     (let mv = stop_value tx so;
          volt = mv VOLTAGE VOLT OUTLET; amp = mv CURRENT_IMPORT AMP OUTLET; watt = mv POWER_ACTIVE_IMPORT WATT OUTLET;
          phases = of_nat (getNumberOfConnectedPhases cs None (tx_connectorId tx))
      in [mv ENERGY_ACTIVE_IMPORT_REGISTER WATT_HOUR OUTLET None (so_meterStop so)]
         @ when_positive (currentStateOfCharge tx) (mv STATE_OF_CHARGE PERCENT EV None)
         @ when_either (currentInstantVolts tx) (currentInstantVoltsDC tx) (\<lambda>v. v) (volt None)
         @ when_positive (currentInstantVoltsL1 tx) (volt (Some L1))
         @ when_positive (currentInstantVoltsL2 tx) (volt (Some L2))
         @ when_positive (currentInstantVoltsL3 tx) (volt (Some L3))
         @ when_either (currentInstantAmps tx) (currentInstantAmpsDC tx) (\<lambda>a. fl R Divide a phases) (amp None)
         @ when_positive (currentInstantAmpsL1 tx) (amp (Some L1))
         @ when_positive (currentInstantAmpsL2 tx) (amp (Some L2))
         @ when_positive (currentInstantAmpsL3 tx) (amp (Some L3))
         @ when_either (currentInstantWatts tx) (currentInstantWattsDC tx) (\<lambda>w. w) (watt None)
         @ when_positive (currentInstantWattsL1 tx) (watt (Some L1))
         @ when_positive (currentInstantWattsL2 tx) (watt (Some L2))
         @ when_positive (currentInstantWattsL3 tx) (watt (Some L3)))"

section \<open>Extra inactivity after the stop\<close>

text \<open>
  \<open>stored\<close> is the last consumption the database holds of the transaction.  Adding seconds to a date
  keeps whole milliseconds.
\<close>

definition buildExtraConsumptionInactivity ::
    "runtime \<Rightarrow> tx_transaction \<Rightarrow> consumption option \<Rightarrow> consumption option" where
  "buildExtraConsumptionInactivity R tx stored =
     (case tx_stop tx of
        None \<Rightarrow> None
      | Some st \<Rightarrow>
          (let extra = num0 (ts_extraInactivitySecs st) in
           if 0 < extra then
             (case stored of
                None \<Rightarrow> None
              | Some c \<Rightarrow>
                  Some (c\<lparr>c_id := None, c_startedAt := Some (ts_timestamp st),
                     c_endedAt := ts_timestamp st + \<lfloor>extra * 1000\<rfloor>, c_inactivitySecs := Some extra,
                     c_totalDurationSecs := Some (num R (d_add R (createDecimal (c_totalDurationSecs c)) extra)),
                     c_totalInactivitySecs := Some (num R (d_add R (createDecimal (c_totalInactivitySecs c)) extra)),
                     c_consumptionAmps := Some 0, c_consumptionWh := Some 0,
                     instantAmps := Some 0, instantAmpsDC := Some 0, instantAmpsL1 := Some 0,
                     instantAmpsL2 := Some 0, instantAmpsL3 := Some 0, instantWatts := Some 0,
                     instantWattsDC := Some 0, instantWattsL1 := Some 0, instantWattsL2 := Some 0,
                     instantWattsL3 := Some 0, c_toPrice := True\<rparr>))
           else None))"

end
