(* ===== verification/MeterLedger.thy ===== *)
theory MeterLedger
  imports Consumptions Samples "HOL-Library.Multiset"
begin

text \<open>
  The energy register of a transaction.  The total of the transaction follows the meter of the
  station: whatever meter values arrive, it is the last accepted register value less the value at the
  start, it never decreases, and it grows by the energy of the consumptions made.
\<close>

section \<open>One meter value\<close>

definition total_wh :: "tx_transaction \<Rightarrow> rat" where
  "total_wh tx = num0 (currentTotalConsumptionWh tx)"

definition register_value :: "tx_transaction \<Rightarrow> rat" where
  "register_value tx = (case lastConsumption tx of None \<Rightarrow> tx_meterStart tx | Some lc \<Rightarrow> lc_value lc)"

definition register_balanced :: "tx_transaction \<Rightarrow> bool" where
  "register_balanced tx \<longleftrightarrow> total_wh tx = register_value tx - tx_meterStart tx"

text \<open>A register value: the meter values that reach the last branch.\<close>

definition energy_value :: "meter_value \<Rightarrow> bool" where
  "energy_value mv \<longleftrightarrow> mv_attribute mv \<noteq> None \<and> isEnergyActiveImportMeterValue mv"

lemma limits_frame [simp]:
  "c_consumptionWh (addConnectorLimitationToConsumption E cs cid c) = c_consumptionWh c"
  "c_endedAt (addConnectorLimitationToConsumption E cs cid c) = c_endedAt c"
  "c_startedAt (addConnectorLimitationToConsumption E cs cid c) = c_startedAt c"
  by (simp_all add: addConnectorLimitationToConsumption_def Let_def split: option.split prod.split)

lemma site_limits_frame:
  "addSiteLimitationToConsumption R E sa c = Inr (sa', c') \<Longrightarrow>
     c_consumptionWh c' = c_consumptionWh c \<and> c_endedAt c' = c_endedAt c \<and> c_startedAt c' = c_startedAt c"
  by (auto simp: addSiteLimitationToConsumption_def res_simps split: option.splits if_splits)

lemma energy_register_frame:
  assumes "energy_register R cs lc mv c tx = (c', tx')"
  shows "c_endedAt c' = c_endedAt c \<and> c_startedAt c' = c_startedAt c \<and> c_consumptionWh c' \<noteq> None
    \<and> tx_meterStart tx' = tx_meterStart tx \<and> tx_timestamp tx' = tx_timestamp tx \<and> tx_connectorId tx' = tx_connectorId tx"
  using assms by (auto simp: energy_register_def Let_def split: if_splits)

text \<open>The value of a register reading in watt hours.\<close>

definition reading_wh :: "runtime \<Rightarrow> meter_value \<Rightarrow> rat" where
  "reading_wh R mv = (if Option.bind (mv_attribute mv) at_unit = Some KILO_WATT_HOUR
     then num R (d_mul R (mv_value mv) 1000) else mv_value mv)"

lemma energy_register_exact:
  assumes "energy_register R cs lc mv c tx = (c', tx')" "exact R"
    and "lc_value lc = register_value tx"
  shows "total_wh tx' = total_wh tx + num0 (c_consumptionWh c')
    \<and> register_value tx' = register_value tx + num0 (c_consumptionWh c')
    \<and> 0 \<le> num0 (c_consumptionWh c')
    \<and> (register_value tx \<le> reading_wh R mv \<longrightarrow>
         register_value tx' = reading_wh R mv \<and> lastConsumption tx' =
           Some \<lparr>lc_value = reading_wh R mv, lc_timestamp = mv_timestamp mv\<rparr>)"
  using assms
  by (auto simp: exact_def energy_register_def Let_def total_wh_def register_value_def reading_wh_def d_ops
      createDecimal_num0 split: if_splits option.splits)

lemma power_frame [simp]:
  "c_consumptionWh (powerConsumption R cs tx mv c) = c_consumptionWh c"
  "c_endedAt (powerConsumption R cs tx mv c) = c_endedAt c"
  "c_startedAt (powerConsumption R cs tx mv c) = c_startedAt c"
  by (simp_all add: powerConsumption_def Let_def split: option.split current_type.split ocpp_phase.split)

lemma voltage_frame [simp]:
  "c_consumptionWh (voltageConsumption cs tx mv c) = c_consumptionWh c"
  "c_endedAt (voltageConsumption cs tx mv c) = c_endedAt c"
  "c_startedAt (voltageConsumption cs tx mv c) = c_startedAt c"
  by (simp_all add: voltageConsumption_def Let_def split: option.split current_type.split ocpp_phase.split)

lemma current_frame [simp]:
  "c_consumptionWh (currentConsumption R cs tx mv c) = c_consumptionWh c"
  "c_endedAt (currentConsumption R cs tx mv c) = c_endedAt c"
  "c_startedAt (currentConsumption R cs tx mv c) = c_startedAt c"
  by (simp_all add: currentConsumption_def Let_def split: option.split current_type.split ocpp_phase.split)

lemma initial_frame [simp]:
  "c_consumptionWh (initial_consumption tx mv) = None"
  "c_endedAt (initial_consumption tx mv) = mv_timestamp mv"
  "c_startedAt (initial_consumption tx mv) = None"
  by (simp_all add: initial_consumption_def)

lemma energy_value_kinds:
  "energy_value mv \<Longrightarrow> isValidMeterValue mv \<and> \<not> isSocMeterValue mv \<and> \<not> isPowerActiveImportMeterValue mv
     \<and> \<not> isVoltageMeterValue mv \<and> \<not> isCurrentImportMeterValue mv"
  by (auto simp: energy_value_def isValidMeterValue_def isSocMeterValue_def isEnergyActiveImportMeterValue_def
      isPowerActiveImportMeterValue_def isVoltageMeterValue_def isCurrentImportMeterValue_def split: option.splits)

lemma other_value_kinds:
  "isValidMeterValue mv \<Longrightarrow> \<not> energy_value mv \<Longrightarrow>
     isSocMeterValue mv \<or> isPowerActiveImportMeterValue mv \<or> isVoltageMeterValue mv \<or> isCurrentImportMeterValue mv"
  by (auto simp: energy_value_def isValidMeterValue_def isSocMeterValue_def split: option.splits)

text \<open>What a meter value that is not a register reading does: a consumption without energy.\<close>

lemma create_other:
  assumes "createConsumptionFromMeterValue R E cs s previous mv = Inr (Some c, s')" "\<not> energy_value mv"
  shows "s' = s \<and> c_consumptionWh c = None \<and> c_endedAt c = mv_timestamp mv \<and> c_startedAt c = None"
  using assms other_value_kinds [of mv]
  by (auto simp: createConsumptionFromMeterValue_def Let_def split: if_splits prod.splits)

lemma create_energy:
  assumes "createConsumptionFromMeterValue R E cs (sa, tx) (lastConsumption tx) mv = Inr (r, s')" "energy_value mv"
  obtains c sa' tx' lc c0 where "r = Some c" "s' = (sa', tx')" "energy_register R cs lc mv c0 tx = (c, tx')"
    "lc_value lc = register_value tx" "c_endedAt c = mv_timestamp mv" "c_startedAt c = Some (lc_timestamp lc)"
proof -
  let ?lc = "case lastConsumption tx of Some lc \<Rightarrow> lc
      | None \<Rightarrow> \<lparr>lc_value = tx_meterStart tx, lc_timestamp = tx_timestamp tx\<rparr>"
  let ?c1 = "addConnectorLimitationToConsumption E cs (tx_connectorId tx)
      (initial_consumption tx mv\<lparr>c_startedAt := Some (lc_timestamp ?lc)\<rparr>)"
  from assms energy_value_kinds [OF assms(2)] obtain sa' c2
    where c2: "addSiteLimitationToConsumption R E sa ?c1 = Inr (sa', c2)"
      and r: "(let (c3, tx') = energy_register R cs ?lc mv c2 tx in Inr (Some c3, (sa', tx'))) =
        (Inr (r, s') :: (consumption option \<times> meter_state) res)"
    by (auto simp: createConsumptionFromMeterValue_def Let_def res_simps simp del: split_paired_Ex)
  obtain c tx' where c: "energy_register R cs ?lc mv c2 tx = (c, tx')" by (metis surj_pair)
  from r c have r: "r = Some c" "s' = (sa', tx')" by simp_all
  have "lc_value ?lc = register_value tx"
    by (simp add: register_value_def split: option.split)
  with that [OF r c] energy_register_frame [OF c] site_limits_frame [OF c2] show thesis by simp
qed

section \<open>A batch of meter values\<close>

definition accepted :: "tx_transaction \<Rightarrow> meter_value \<Rightarrow> bool" where
  "accepted tx mv \<longleftrightarrow> isValidMeterValue mv \<and> \<not> meter_value_in_the_past tx mv"

text \<open>The energy a meter value adds, read off the step it makes.\<close>

definition energy_added ::
    "runtime \<Rightarrow> meter_env \<Rightarrow> charging_station \<Rightarrow> consumption list \<times> meter_state \<Rightarrow> meter_value \<Rightarrow> rat" where
  "energy_added R E cs s mv =
     (let (cons, sa, tx) = s in
      if \<not> accepted tx mv then 0
      else case createConsumptionFromMeterValue R E cs (sa, tx) (lastConsumption tx) mv of
             Inr (Some c, _) \<Rightarrow> num0 (c_consumptionWh c)
           | _ \<Rightarrow> 0)"

lemma add_meter_value_cases:
  assumes "add_meter_value R E cs (cons, sa, tx) mv = Inr s'"
  obtains (skipped) "\<not> accepted tx mv" "s' = (cons, sa, tx)"
  | (other) c where "accepted tx mv" "\<not> energy_value mv" "s' = (insert_consumption c cons, sa, tx)"
      "createConsumptionFromMeterValue R E cs (sa, tx) (lastConsumption tx) mv = Inr (Some c, (sa, tx))"
      "c_consumptionWh c = None" "c_endedAt c = mv_timestamp mv"
  | (energy) c sa' tx' lc c0 where "accepted tx mv" "energy_value mv"
      "s' = (insert_consumption c cons, sa', tx')" "energy_register R cs lc mv c0 tx = (c, tx')"
      "createConsumptionFromMeterValue R E cs (sa, tx) (lastConsumption tx) mv = Inr (Some c, (sa', tx'))"
      "lc_value lc = register_value tx" "c_endedAt c = mv_timestamp mv" "c_startedAt c = Some (lc_timestamp lc)"
proof (cases "accepted tx mv")
  case False
  with assms show thesis by (intro skipped) (auto simp: add_meter_value_def accepted_def)
next
  case True
  with assms obtain r t where
    r: "createConsumptionFromMeterValue R E cs (sa, tx) (lastConsumption tx) mv = Inr (r, t)"
    and s': "s' = (case r of None \<Rightarrow> cons | Some c \<Rightarrow> insert_consumption c cons, t)"
    by (auto simp: add_meter_value_def accepted_def res_simps)
  show thesis
  proof (cases "energy_value mv")
    case en: True
    from r en show thesis
      by (rule create_energy) (use True en r s' in \<open>auto intro: energy\<close>)
  next
    case False
    from True r obtain c where "r = Some c"
      using False by (cases r) (auto simp: createConsumptionFromMeterValue_def accepted_def Let_def res_simps
          split: if_splits prod.splits)
    with create_other [of R E cs "(sa, tx)" _ mv c t] r False True s' show thesis by (intro other) auto
  qed
qed

lemma meter_step:
  assumes "add_meter_value (exact_runtime wd lt) E cs s mv = Inr s'"
  shows "total_wh (snd (snd s')) = total_wh (snd (snd s)) + energy_added (exact_runtime wd lt) E cs s mv
    \<and> register_value (snd (snd s')) = register_value (snd (snd s)) + energy_added (exact_runtime wd lt) E cs s mv
    \<and> 0 \<le> energy_added (exact_runtime wd lt) E cs s mv
    \<and> tx_meterStart (snd (snd s')) = tx_meterStart (snd (snd s))"
proof -
  obtain cons sa tx where s: "s = (cons, sa, tx)" by (metis prod_cases3)
  from assms [unfolded s] show ?thesis
  proof (cases rule: add_meter_value_cases)
    case skipped
    then show ?thesis by (simp add: s energy_added_def)
  next
    case (other c)
    then show ?thesis by (simp add: s energy_added_def)
  next
    case (energy c sa' tx' lc c0)
    from energy_register_exact [OF energy(4) exact_runtime_exact energy(6)] energy_register_frame [OF energy(4)] energy
    show ?thesis by (simp add: s energy_added_def)
  qed
qed

interpretation meter: metered_run "add_meter_value (exact_runtime wd lt) E cs" "\<lambda>_. True"
  "\<lambda>s. register_balanced (snd (snd s)) \<and> tx_meterStart (snd (snd s)) = start"
  "\<lambda>s. total_wh (snd (snd s))" "energy_added (exact_runtime wd lt) E cs" for wd lt E cs start
proof
  show "register_balanced (snd (snd s')) \<and> tx_meterStart (snd (snd s')) = start"
    if "register_balanced (snd (snd s)) \<and> tx_meterStart (snd (snd s)) = start"
      "add_meter_value (exact_runtime wd lt) E cs s mv = Inr s'" for s mv s'
    using that meter_step [OF that(2)] by (simp add: register_balanced_def)
  show "total_wh (snd (snd s')) = total_wh (snd (snd s)) + energy_added (exact_runtime wd lt) E cs s mv"
    if "add_meter_value (exact_runtime wd lt) E cs s mv = Inr s'" for s mv s'
    using meter_step [OF that] by simp
qed

lemma total_grows:
  "foldE (add_meter_value (exact_runtime wd lt) E cs) s mvs = Inr s' \<Longrightarrow>
     total_wh (snd (snd s)) \<le> total_wh (snd (snd s'))"
proof (induction mvs arbitrary: s)
  case Nil
  then show ?case by simp
next
  case (Cons mv mvs)
  then obtain t where t: "add_meter_value (exact_runtime wd lt) E cs s mv = Inr t"
    and "foldE (add_meter_value (exact_runtime wd lt) E cs) t mvs = Inr s'"
    by (auto simp: res_simps simp del: split_paired_Ex)
  with Cons.IH [of t] meter_step [OF t] show ?case by simp
qed


section \<open>The consumptions of a batch\<close>

lemma merge_frame [simp]:
  "c_endedAt (merge_consumption c e) = c_endedAt c"
  "c_consumptionWh (merge_consumption c e) = over (c_consumptionWh c) (c_consumptionWh e)"
  by (simp_all add: merge_consumption_def)

lemma insert_ends:
  "c_endedAt ` set (insert_consumption c es) = insert (c_endedAt c) (c_endedAt ` set es)"
  by (induction es) auto

lemma insert_distinct:
  "distinct (map c_endedAt es) \<Longrightarrow> distinct (map c_endedAt (insert_consumption c es))"
proof (induction es)
  case Nil
  then show ?case by simp
next
  case (Cons e es)
  then show ?case using insert_ends [of c es] by (auto simp: image_iff)
qed

definition wh_of :: "consumption list \<Rightarrow> rat" where
  "wh_of cons = sum_list (map (\<lambda>c. num0 (c_consumptionWh c)) cons)"

lemma insert_wh:
  assumes "\<forall>e \<in> set es. c_endedAt e = c_endedAt c \<longrightarrow> c_consumptionWh c = None \<or> c_consumptionWh e = None"
  shows "wh_of (insert_consumption c es) = wh_of es + num0 (c_consumptionWh c)"
  using assms by (induction es) (auto simp: wh_of_def over_def split: option.splits)

lemma insert_energy_ends:
  "c' \<in> set (insert_consumption c es) \<Longrightarrow> c_consumptionWh c' \<noteq> None \<Longrightarrow>
     (\<exists>e \<in> set es. c_endedAt e = c_endedAt c' \<and> c_consumptionWh e \<noteq> None)
     \<or> c_endedAt c' = c_endedAt c \<and> c_consumptionWh c \<noteq> None"
proof (induction es)
  case Nil
  then show ?case by simp
next
  case (Cons e es)
  then show ?case by (auto simp: over_def split: option.splits if_splits)
qed

text \<open>The time stamps of the register readings of a batch.\<close>

definition reading_times :: "meter_value list \<Rightarrow> int list" where
  "reading_times mvs = map mv_timestamp (filter energy_value mvs)"

text \<open>No consumption that has energy ends at one of these times.\<close>

definition free_of :: "int list \<Rightarrow> consumption list \<Rightarrow> bool" where
  "free_of ts cons \<longleftrightarrow> (\<forall>c \<in> set cons. c_consumptionWh c \<noteq> None \<longrightarrow> c_endedAt c \<notin> set ts)"

lemma wh_of_run:
  assumes "foldE (add_meter_value (exact_runtime wd lt) E cs) (cons, sa, tx) mvs = Inr (cons', sa', tx')"
    and "distinct (reading_times mvs)" "free_of (reading_times mvs) cons"
  shows "wh_of cons' - total_wh tx' = wh_of cons - total_wh tx"
  using assms
proof (induction mvs arbitrary: cons sa tx)
  case Nil
  then show ?case by simp
next
  case (Cons mv mvs)
  from Cons.prems(1) obtain s1 where
    t: "add_meter_value (exact_runtime wd lt) E cs (cons, sa, tx) mv = Inr s1"
    and r: "foldE (add_meter_value (exact_runtime wd lt) E cs) s1 mvs = Inr (cons', sa', tx')"
    by (auto simp: res_simps simp del: split_paired_Ex)
  have d: "distinct (reading_times mvs)" using Cons.prems(2) by (simp add: reading_times_def split: if_splits)
  from t show ?case
  proof (cases rule: add_meter_value_cases)
    case skipped
    have "free_of (reading_times mvs) cons"
      using Cons.prems(3) by (auto simp: free_of_def reading_times_def split: if_splits)
    with Cons.IH r d skipped show ?thesis by simp
  next
    case (other c)
    have "free_of (reading_times mvs) (insert_consumption c cons)"
      using Cons.prems(3) other(2,5) by (fastforce simp: free_of_def reading_times_def dest: insert_energy_ends)
    moreover have "wh_of (insert_consumption c cons) = wh_of cons"
      using other(5) by (simp add: insert_wh)
    ultimately show ?thesis using Cons.IH r d other(3) by simp
  next
    case (energy c sa1 tx1 lc c0)
    have times: "reading_times (mv # mvs) = mv_timestamp mv # reading_times mvs"
      using energy(2) by (simp add: reading_times_def)
    have "free_of (reading_times mvs) (insert_consumption c cons)"
      using Cons.prems(2,3) energy(7) unfolding times
      by (fastforce simp: free_of_def dest: insert_energy_ends)
    moreover have "wh_of (insert_consumption c cons) = wh_of cons + num0 (c_consumptionWh c)"
      using Cons.prems(3) energy(7) unfolding times by (intro insert_wh) (auto simp: free_of_def)
    moreover have "total_wh tx1 = total_wh tx + num0 (c_consumptionWh c)"
      using energy_register_exact [OF energy(4) exact_runtime_exact energy(6)] by simp
    ultimately show ?thesis using Cons.IH r d energy(3) by fastforce
  qed
qed

lemma consistency_frame [simp]:
  "c_consumptionWh (assertConsistencyInConsumption R cs cid c) = c_consumptionWh c"
  "c_endedAt (assertConsistencyInConsumption R cs cid c) = c_endedAt c"
  "c_startedAt (assertConsistencyInConsumption R cs cid c) = c_startedAt c"
proof -
  have w: "c_consumptionWh (check_watts R c) = c_consumptionWh c \<and> c_endedAt (check_watts R c) = c_endedAt c
      \<and> c_startedAt (check_watts R c) = c_startedAt c" for c
    by (simp add: check_watts_def Let_def split: option.split)
  have a: "c_consumptionWh (check_amps R c) = c_consumptionWh c \<and> c_endedAt (check_amps R c) = c_endedAt c
      \<and> c_startedAt (check_amps R c) = c_startedAt c" for c
    by (simp add: check_amps_def Let_def split: option.split)
  have fw: "c_consumptionWh (fill_watts R cs cid c) = c_consumptionWh c \<and> c_endedAt (fill_watts R cs cid c) = c_endedAt c
      \<and> c_startedAt (fill_watts R cs cid c) = c_startedAt c" for c
    by (simp add: fill_watts_def Let_def)
  have fa: "c_consumptionWh (fill_amps R cs cid c) = c_consumptionWh c \<and> c_endedAt (fill_amps R cs cid c) = c_endedAt c
      \<and> c_startedAt (fill_amps R cs cid c) = c_startedAt c" for c
    by (simp add: fill_amps_def)
  have fp: "c_consumptionWh (fill_phases R cs cid c) = c_consumptionWh c \<and> c_endedAt (fill_phases R cs cid c) = c_endedAt c
      \<and> c_startedAt (fill_phases R cs cid c) = c_startedAt c" for c
    by (simp add: fill_phases_def)
  have fd: "c_consumptionWh (fill_dc R c) = c_consumptionWh c \<and> c_endedAt (fill_dc R c) = c_endedAt c
      \<and> c_startedAt (fill_dc R c) = c_startedAt c" for c
    by (simp add: fill_dc_def)
  show "c_consumptionWh (assertConsistencyInConsumption R cs cid c) = c_consumptionWh c"
    "c_endedAt (assertConsistencyInConsumption R cs cid c) = c_endedAt c"
    "c_startedAt (assertConsistencyInConsumption R cs cid c) = c_startedAt c"
    by (simp_all add: assertConsistencyInConsumption_def w a fw fa fp fd)
qed

lemma ends_run:
  assumes "foldE (add_meter_value R E cs) (cons, sa, tx) mvs = Inr (cons', sa', tx')"
    and "distinct (map c_endedAt cons)"
  shows "distinct (map c_endedAt cons')"
  using assms
proof (induction mvs arbitrary: cons sa tx)
  case Nil
  then show ?case by simp
next
  case (Cons mv mvs)
  from Cons.prems(1) obtain s1 where t: "add_meter_value R E cs (cons, sa, tx) mv = Inr s1"
    and r: "foldE (add_meter_value R E cs) s1 mvs = Inr (cons', sa', tx')"
    by (auto simp: res_simps simp del: split_paired_Ex)
  obtain cons1 sa1 tx1 where s1: "s1 = (cons1, sa1, tx1)" by (metis prod_cases3)
  from t [unfolded s1] have "distinct (map c_endedAt cons1)"
    by (cases rule: add_meter_value_cases) (use Cons.prems(2) in \<open>auto simp: insert_distinct\<close>)
  with Cons.IH r s1 show ?case by simp
qed

lemma sorted_consumptions:
  "sort_consumptions cons = Inr cons' \<Longrightarrow> wh_of cons' = wh_of cons \<and> mset cons' = mset cons"
proof -
  assume "sort_consumptions cons = Inr cons'"
  then have "mset cons' = mset cons"
    by (auto simp: sort_consumptions_def split: if_splits)
  moreover from this have "wh_of cons' = wh_of cons"
    unfolding wh_of_def by (metis mset_map sum_mset_sum_list)
  ultimately show ?thesis by simp
qed

text \<open>
  No energy escapes the price: when the register readings of a batch have different time stamps, the
  energies of the consumptions made of it add up to the growth of the transaction's total, and no two of
  the consumptions end at the same time.
\<close>

lemma batch_energy_is_billable:
  assumes "createConsumptionsFromMeterValues (exact_runtime wd lt) E cs (sa, tx) mvs = Inr (cons, sa', tx')"
    and "distinct (reading_times mvs)"
  shows "wh_of cons = total_wh tx' - total_wh tx \<and> distinct (map c_endedAt cons)"
proof -
  let ?check = "assertConsistencyInConsumption (exact_runtime wd lt) cs (tx_connectorId tx')"
  from assms(1) obtain cons0 where
    f: "foldE (add_meter_value (exact_runtime wd lt) E cs) ([], sa, tx) mvs = Inr (cons0, sa', tx')"
    and s: "sort_consumptions (map ?check cons0) = Inr cons"
    by (auto simp: createConsumptionsFromMeterValues_def res_simps)
  have "wh_of (map ?check cons0) = wh_of cons0" by (simp add: wh_of_def o_def)
  moreover have "wh_of cons0 - total_wh tx' = - total_wh tx"
    using wh_of_run [OF f assms(2)] by (simp add: free_of_def wh_of_def)
  moreover have "distinct (map c_endedAt (map ?check cons0))"
    using ends_run [OF f] by (simp add: o_def)
  moreover have "distinct (map c_endedAt cons) = distinct (map c_endedAt (map ?check cons0))"
    using sorted_consumptions [OF s] by (metis mset_eq_imp_distinct_iff mset_map)
  ultimately show ?thesis using sorted_consumptions [OF s] by simp
qed

section \<open>The stop of a transaction\<close>

lemma stop_values:
  "mv \<in> set (createTransactionStopMeterValues R cs tx so) \<Longrightarrow> isValidMeterValue mv \<and> mv_timestamp mv = so_timestamp so"
  by (auto simp: createTransactionStopMeterValues_def Let_def when_positive_def when_either_def stop_value_def
      sample_attribute_def isValidMeterValue_def isSocMeterValue_def isEnergyActiveImportMeterValue_def
      isPowerActiveImportMeterValue_def isCurrentImportMeterValue_def isVoltageMeterValue_def split: if_splits)

lemma stop_energy_values:
  "mv \<in> set (tl (createTransactionStopMeterValues R cs tx so)) \<Longrightarrow> \<not> energy_value mv"
  by (auto simp: createTransactionStopMeterValues_def Let_def when_positive_def when_either_def stop_value_def
      sample_attribute_def energy_value_def isEnergyActiveImportMeterValue_def split: if_splits)

lemma others_keep_register:
  assumes "foldE (add_meter_value R E cs) (cons, sa, tx) mvs = Inr (cons', sa', tx')"
    and "\<forall>mv \<in> set mvs. \<not> energy_value mv"
  shows "tx' = tx"
  using assms
proof (induction mvs arbitrary: cons)
  case Nil
  then show ?case by simp
next
  case (Cons mv mvs)
  from Cons.prems(1) obtain s1 where t: "add_meter_value R E cs (cons, sa, tx) mv = Inr s1"
    and r: "foldE (add_meter_value R E cs) s1 mvs = Inr (cons', sa', tx')"
    by (auto simp: res_simps simp del: split_paired_Ex)
  from t obtain cons1 where "s1 = (cons1, sa, tx)"
    by (cases rule: add_meter_value_cases) (use Cons.prems(2) in auto)
  with Cons.IH r Cons.prems(2) show ?case by simp
qed

lemma stop_register:
  assumes "createConsumptionsFromMeterValues R E cs (sa, tx)
      (createTransactionStopMeterValues R cs0 tx so) = Inr (cons, sa', tx')"
    and "register_balanced tx" "register_value tx \<le> so_meterStop so"
    and "case lastConsumption tx of None \<Rightarrow> True | Some lc \<Rightarrow> lc_timestamp lc \<le> so_timestamp so"
    and "exact R"
  shows "total_wh tx' = so_meterStop so - tx_meterStart tx"
proof -
  let ?mvs = "createTransactionStopMeterValues R cs0 tx so"
  let ?mv = "stop_value tx so ENERGY_ACTIVE_IMPORT_REGISTER WATT_HOUR OUTLET None (so_meterStop so)"
  have mvs: "?mvs = ?mv # tl ?mvs" by (simp add: createTransactionStopMeterValues_def Let_def)
  from assms(1) obtain cons0 where "foldE (add_meter_value R E cs) ([], sa, tx) ?mvs = Inr (cons0, sa', tx')"
    by (auto simp: createConsumptionsFromMeterValues_def res_simps)
  then have "foldE (add_meter_value R E cs) ([], sa, tx) (?mv # tl ?mvs) = Inr (cons0, sa', tx')"
    using mvs by simp
  then obtain s1 where t: "add_meter_value R E cs ([], sa, tx) ?mv = Inr s1"
    and r: "foldE (add_meter_value R E cs) s1 (tl ?mvs) = Inr (cons0, sa', tx')"
    by (auto simp: res_simps simp del: split_paired_Ex)
  have en: "energy_value ?mv"
    by (simp add: energy_value_def isEnergyActiveImportMeterValue_def stop_value_def sample_attribute_def)
  have acc: "accepted tx ?mv"
    using assms(4) energy_value_kinds [OF en]
    by (auto simp: accepted_def meter_value_in_the_past_def stop_value_def split: option.splits)
  have wh: "reading_wh R ?mv = so_meterStop so"
    by (simp add: reading_wh_def stop_value_def sample_attribute_def)
  from t show ?thesis
  proof (cases rule: add_meter_value_cases)
    case skipped
    with acc show ?thesis by simp
  next
    case (other c)
    with en show ?thesis by simp
  next
    case (energy c sa1 tx1 lc c0)
    from r energy(3) have "tx' = tx1"
      using others_keep_register [of R E cs _ sa1 tx1 "tl ?mvs"] stop_energy_values by blast
    with energy_register_exact [OF energy(4) assms(5) energy(6)] assms(2,3) wh show ?thesis
      by (simp add: register_balanced_def)
  qed
qed

text \<open>
  The stop closes the register: when the meter value of the stop request is not below the last
  reading and not older than it, the meter values built from the stop request leave the transaction with a
  total of exactly the stop reading less the start reading.
\<close>

lemma stop_closes_the_register:
  assumes "createConsumptionsFromMeterValues (exact_runtime wd lt) E cs (sa, tx)
      (createTransactionStopMeterValues (exact_runtime wd lt) cs tx so) = Inr (cons, sa', tx')"
    and "register_balanced tx" "register_value tx \<le> so_meterStop so"
    and "case lastConsumption tx of None \<Rightarrow> True | Some lc \<Rightarrow> lc_timestamp lc \<le> so_timestamp so"
  shows "total_wh tx' = so_meterStop so - tx_meterStart tx"
  by (rule stop_register [OF assms exact_runtime_exact])

section \<open>Tolerance of the power readings\<close>

text \<open>
  After the consistency check, the power of a consumption whose phases report power is within ten per
  cent of the sum of its phases, whatever the station sent for it.
\<close>

lemma power_matches_its_phases:
  assumes "instantWatts c = Some w"
    and "0 \<le> num0 (instantWattsL1 c)" "0 \<le> num0 (instantWattsL2 c)" "0 \<le> num0 (instantWattsL3 c)"
    and "0 < num0 (instantWattsL1 c) + num0 (instantWattsL2 c) + num0 (instantWattsL3 c)"
  shows "\<exists>w'. instantWatts (assertConsistencyInConsumption (exact_runtime wd lt) cs cid c) = Some w'
    \<and> (num0 (instantWattsL1 c) + num0 (instantWattsL2 c) + num0 (instantWattsL3 c)) * (10/11) \<le> w'
    \<and> w' \<le> (num0 (instantWattsL1 c) + num0 (instantWattsL2 c) + num0 (instantWattsL3 c)) * (11/10)"
proof -
  let ?R = "exact_runtime wd lt"
  let ?sum = "num0 (instantWattsL1 c) + num0 (instantWattsL2 c) + num0 (instantWattsL3 c)"
  have pos: "gt (instantWattsL1 c) 0 \<or> gt (instantWattsL2 c) 0 \<or> gt (instantWattsL3 c) 0"
    using assms(2-5) by (auto simp: gt_num0)
  define w' where "w' = (if w < ?sum / (11/10) \<or> ?sum * (11/10) < w then ?sum else w)"
  have 1: "instantWatts (check_watts ?R c) = Some w'"
    using pos assms(1) by (auto simp: check_watts_def w'_def d_ops Let_def)
  have w': "?sum * (10/11) \<le> w'" "w' \<le> ?sum * (11/10)"
    using assms(5) by (auto simp: w'_def)
  have 2: "instantWatts (check_amps ?R d) = instantWatts d" for d
    by (simp add: check_amps_def Let_def split: option.split)
  have 3: "instantWatts (fill_watts ?R cs cid d) = instantWatts d" if "instantWatts d = Some w'" for d
    using that w' assms(5) by (simp add: fill_watts_def)
  have 4: "instantWatts (fill_amps ?R cs cid d) = instantWatts d" for d
    by (simp add: fill_amps_def)
  have 5: "instantWatts (fill_phases ?R cs cid d) = instantWatts d" for d
    by (simp add: fill_phases_def)
  have 6: "instantWatts (fill_dc ?R d) = instantWatts d" for d
    by (simp add: fill_dc_def)
  have "instantWatts (assertConsistencyInConsumption ?R cs cid c) = Some w'"
    by (simp add: assertConsistencyInConsumption_def 1 2 3 4 5 6)
  with w' show ?thesis by blast
qed

section \<open>Witnesses\<close>

definition plain_env :: meter_env where
  "plain_env = \<lparr>me_organizationActive = False, me_stationsOfSiteArea = (\<lambda>_. []), me_vendorLimit = (\<lambda>_ _. None)\<rparr>"

definition reading :: "measurand \<Rightarrow> unit_of_measure \<Rightarrow> int \<Rightarrow> rat \<Rightarrow> meter_value" where
  "reading m u t v = \<lparr>mv_connectorId = 1, mv_transactionId = 1, mv_timestamp = t,
     mv_attribute = Some (sample_attribute m u OUTLET None), mv_value = v\<rparr>"

text \<open>A state of charge, a register reading in kWh, one out of order, one below the last, one above.\<close>

definition some_readings :: "meter_value list" where
  "some_readings =
     [reading ENERGY_ACTIVE_IMPORT_REGISTER KILO_WATT_HOUR 60000 (3/2),
      reading POWER_ACTIVE_IMPORT WATT 60000 11000,
      reading ENERGY_ACTIVE_IMPORT_REGISTER WATT_HOUR 30000 9000,
      reading ENERGY_ACTIVE_IMPORT_REGISTER WATT_HOUR 120000 1400,
      reading ENERGY_ACTIVE_IMPORT_REGISTER WATT_HOUR 180000 2100]"

lemma some_readings_run:
  obtains cons sa' tx' where
    "createConsumptionsFromMeterValues utc plain_env two_connectors (None, blank_transaction) some_readings = Inr (cons, sa', tx')"
proof -
  have "succeeds (createConsumptionsFromMeterValues utc plain_env two_connectors (None, blank_transaction) some_readings)"
    by code_simp
  with that show thesis unfolding succeeds_iff by (metis prod_cases3)
qed

lemma blank_balanced: "register_balanced blank_transaction"
  by code_simp


definition stop_at :: "int \<Rightarrow> rat \<Rightarrow> stop_request" where
  "stop_at t wh = \<lparr>so_meterStop = wh, so_timestamp = t, so_reason = None\<rparr>"

lemma stop_closes_the_register_witness:
  "\<exists>cons sa' tx'. createConsumptionsFromMeterValues utc plain_env two_connectors (None, blank_transaction)
       (createTransactionStopMeterValues utc two_connectors blank_transaction (stop_at 90000 700)) = Inr (cons, sa', tx')
     \<and> total_wh tx' = 700"
proof -
  have "succeeds (createConsumptionsFromMeterValues utc plain_env two_connectors (None, blank_transaction)
       (createTransactionStopMeterValues utc two_connectors blank_transaction (stop_at 90000 700)))" by code_simp
  then obtain cons sa' tx' where r: "createConsumptionsFromMeterValues utc plain_env two_connectors (None, blank_transaction)
       (createTransactionStopMeterValues utc two_connectors blank_transaction (stop_at 90000 700)) = Inr (cons, sa', tx')"
    unfolding succeeds_iff by (metis prod_cases3)
  have "register_value blank_transaction \<le> so_meterStop (stop_at 90000 700)" by code_simp
  from stop_closes_the_register [OF r [unfolded utc_def] blank_balanced this] r show ?thesis
    by (auto simp: blank_transaction_def stop_at_def)
qed

definition three_phases :: consumption where
  "three_phases = blank_consumption\<lparr>instantWatts := Some 5000, instantWattsL1 := Some 3000,
     instantWattsL2 := Some 3000, instantWattsL3 := Some 3000\<rparr>"

lemma power_matches_its_phases_witness:
  "\<exists>w'. instantWatts (assertConsistencyInConsumption utc two_connectors 1 three_phases) = Some w'
     \<and> 9000 * (10/11) \<le> w' \<and> w' \<le> 9000 * (11/10)"
  using power_matches_its_phases [of three_phases 5000 "\<lambda>_ _. 1" "\<lambda>_ _. ''10:00:00''" two_connectors 1]
  by (simp add: three_phases_def utc_def)

section \<open>Where the batch loses something\<close>

text \<open>
  Two register readings with the same time stamp (a periodic sample and a clock-aligned one) lose energy:
  the second consumption overwrites the energy of the first one, while the total keeps both; of 1500 Wh only
  500 Wh are priced.
\<close>

lemma readings_of_the_same_time_lose_energy:
  "map_sum id (\<lambda>(cons, _, tx). (wh_of cons, total_wh tx))
     (createConsumptionsFromMeterValues utc plain_env two_connectors (None, blank_transaction)
        [reading ENERGY_ACTIVE_IMPORT_REGISTER WATT_HOUR 60000 1000,
         reading ENERGY_ACTIVE_IMPORT_REGISTER WATT_HOUR 60000 1500]) = Inr (500, 1500)"
  by code_simp

text \<open>
  A batch of two time stamps one of which has no register reading fails: its consumption has no start
  date, and sorting the consumptions by start date reads a property of \<open>undefined\<close>, so that the whole
  message is dropped.
\<close>

lemma batch_without_register_fails:
  "createConsumptionsFromMeterValues utc plain_env two_connectors (None, blank_transaction)
     [reading ENERGY_ACTIVE_IMPORT_REGISTER WATT_HOUR 60000 1000, reading POWER_ACTIVE_IMPORT WATT 90000 11000]
   = Inl TypeError"
  by code_simp

end
