(* ===== verification/Locking.thy ===== *)
theory Locking
  imports Prelude
begin

text \<open>
  Exclusive locks in the database (\<open>locking/LockingManager.ts\<close>, \<open>locking/LockingHelper.ts\<close>,
  \<open>storage/mongodb/LockingStorage.ts\<close>).  The collection of locks is a map from the identifier, on which
  the database has its unique index, to the stored lock.  The SHA-256 function is a parameter.  One
  process is modelled sequentially by functions; several processes by a step relation in which each
  database operation is one step.
\<close>

section \<open>Locks\<close>

datatype lock_entity =
    DATABASE | DATABASE_INDEX | CHARGING_STATION_LOCK | SITE_AREA_LOCK | USER_LOCK | LOG | PERFORMANCE
  | TRANSACTION_LOCK | CAR_LOCK | CAR_CATALOG | INVOICE_LOCK | ASSET_LOCK | OCPI_ENDPOINT | TAG_LOCK
  | CERTIFICATE_LOCK | EMAID | OICP_ENDPOINT | ASYNC_TASK | ASYNC_TASK_MANAGER | SCHEDULER_TASK

fun entity_text :: "lock_entity \<Rightarrow> string" where
  "entity_text DATABASE = ''database''"
| "entity_text DATABASE_INDEX = ''database-index''"
| "entity_text CHARGING_STATION_LOCK = ''charging-station''"
| "entity_text SITE_AREA_LOCK = ''site-area''"
| "entity_text USER_LOCK = ''user''"
| "entity_text LOG = ''log''"
| "entity_text PERFORMANCE = ''performance''"
| "entity_text TRANSACTION_LOCK = ''transaction''"
| "entity_text CAR_LOCK = ''car''"
| "entity_text CAR_CATALOG = ''car-catalog''"
| "entity_text INVOICE_LOCK = ''invoice''"
| "entity_text ASSET_LOCK = ''asset''"
| "entity_text OCPI_ENDPOINT = ''ocpi-endpoint''"
| "entity_text TAG_LOCK = ''tag''"
| "entity_text CERTIFICATE_LOCK = ''certificate''"
| "entity_text EMAID = ''emaid''"
| "entity_text OICP_ENDPOINT = ''oicp-endpoint''"
| "entity_text ASYNC_TASK = ''async-task''"
| "entity_text ASYNC_TASK_MANAGER = ''async-task-manager''"
| "entity_text SCHEDULER_TASK = ''scheduler-task''"

record lock =
  lk_id :: string
  lk_tenantID :: string
  lk_entity :: lock_entity
  lk_key :: string
  lk_timestamp :: int
  lk_expirationDate :: "int option"
  lk_hostname :: string

type_synonym lock_db = "string \<rightharpoonup> lock"

text \<open>\<open>toLowerCase\<close> on the letters the keys of the server are made of.\<close>

definition lower_char :: "char \<Rightarrow> char" where
  "lower_char c = (let n = of_char c :: nat in if 65 \<le> n \<and> n \<le> 90 then char_of (n + 32) else c)"

definition toLowerCase :: "string \<Rightarrow> string" where
  "toLowerCase s = map lower_char s"

definition lock_text :: "string \<Rightarrow> lock_entity \<Rightarrow> string \<Rightarrow> string" where
  "lock_text tenantID entity key = tenantID @ ''~'' @ entity_text entity @ ''~'' @ toLowerCase key @ ''~E''"

text \<open>\<open>createExclusiveLock\<close>, at time \<open>now\<close> on host \<open>host\<close>; an entity is always given.\<close>

definition createExclusiveLock ::
    "(string \<Rightarrow> string) \<Rightarrow> int \<Rightarrow> string \<Rightarrow> string \<Rightarrow> lock_entity \<Rightarrow> string \<Rightarrow> int \<Rightarrow> lock res" where
  "createExclusiveLock hash now host tenantID entity key validitySecs =
     (if tenantID = [] then Inl (BackendError ''Tenant must be provided'')
      else if key = [] then Inl (BackendError ''Key must be provided'')
      else Inr \<lparr>lk_id = hash (lock_text tenantID entity key), lk_tenantID = tenantID, lk_entity = entity,
                lk_key = toLowerCase key, lk_timestamp = now,
                lk_expirationDate = (if 0 < validitySecs then Some (now + validitySecs * 1000) else None),
                lk_hostname = host\<rparr>)"

section \<open>Storage\<close>

text \<open>Inserting under an existing identifier raises the duplicate key error: \<open>None\<close>.\<close>

definition insertLock :: "lock_db \<Rightarrow> lock \<Rightarrow> lock_db option" where
  "insertLock db l = (if db (lk_id l) = None then Some (db(lk_id l \<mapsto> l)) else None)"

definition getLock :: "lock_db \<Rightarrow> string \<Rightarrow> lock option" where
  "getLock db i = db i"

definition deleteLock :: "lock_db \<Rightarrow> string \<Rightarrow> bool \<times> lock_db" where
  "deleteLock db i = (db i \<noteq> None, db(i := None))"

section \<open>One process\<close>

definition lock_expired :: "int \<Rightarrow> lock \<Rightarrow> bool" where
  "lock_expired now l = (case lk_expirationDate l of None \<Rightarrow> False | Some e \<Rightarrow> e < now)"

definition release :: "lock_db \<Rightarrow> lock \<Rightarrow> bool \<times> lock_db" where
  "release db l = deleteLock db (lk_id l)"

text \<open>\<open>checkAndReleaseExpiredLock\<close> answers whether it found an expired lock.\<close>

definition checkAndReleaseExpiredLock :: "lock_db \<Rightarrow> int \<Rightarrow> lock \<Rightarrow> bool \<times> lock_db" where
  "checkAndReleaseExpiredLock db now l =
     (case getLock db (lk_id l) of
        None \<Rightarrow> (False, db)
      | Some stored \<Rightarrow> if lock_expired now stored then (True, snd (release db stored)) else (False, db))"

text \<open>\<open>acquire\<close> without a timeout, and its one retry.\<close>

definition try_acquire :: "lock_db \<Rightarrow> lock \<Rightarrow> bool \<times> lock_db" where
  "try_acquire db l = (case insertLock db l of Some db' \<Rightarrow> (True, db') | None \<Rightarrow> (False, db))"

definition acquire :: "lock_db \<Rightarrow> int \<Rightarrow> lock \<Rightarrow> bool \<times> lock_db" where
  "acquire db now l =
     (case try_acquire db l of
        (True, db') \<Rightarrow> (True, db')
      | (False, _) \<Rightarrow>
          (case checkAndReleaseExpiredLock db now l of
             (True, db') \<Rightarrow> try_acquire db' l
           | (False, _) \<Rightarrow> (False, db)))"

text \<open>Every stored lock is stored under its own identifier.\<close>

definition keyed :: "lock_db \<Rightarrow> bool" where
  "keyed db \<longleftrightarrow> (\<forall>i x. db i = Some x \<longrightarrow> lk_id x = i)"

lemma keyed_insert: "keyed db \<Longrightarrow> insertLock db l = Some db' \<Longrightarrow> keyed db'"
  by (auto simp: keyed_def insertLock_def split: if_splits)

lemma keyed_delete: "keyed db \<Longrightarrow> keyed (snd (deleteLock db i))"
  by (simp add: keyed_def deleteLock_def)

lemmas storage_defs = acquire_def try_acquire_def insertLock_def checkAndReleaseExpiredLock_def getLock_def
  release_def deleteLock_def

text \<open>
  A process that runs alone acquires a lock exactly when nobody holds it or the stored lock has
  expired; it then holds it, a failed attempt changes nothing, and no other lock is touched.
\<close>

lemma acquire_alone:
  assumes "keyed db" "acquire db now l = (ok, db')"
  shows "(ok \<longleftrightarrow> (case db (lk_id l) of None \<Rightarrow> True | Some stored \<Rightarrow> lock_expired now stored))
    \<and> db' (lk_id l) = (if ok then Some l else db (lk_id l))
    \<and> (\<forall>i. i \<noteq> lk_id l \<longrightarrow> db' i = db i) \<and> keyed db'"
proof (cases "db (lk_id l)")
  case None
  with assms show ?thesis by (auto simp: storage_defs keyed_def split: if_splits)
next
  case (Some stored)
  moreover from Some assms(1) have "lk_id stored = lk_id l" by (simp add: keyed_def)
  ultimately show ?thesis
    using assms by (cases "lock_expired now stored") (auto simp: storage_defs keyed_def split: if_splits)
qed

definition old_lock :: lock where
  "old_lock = \<lparr>lk_id = ''L'', lk_tenantID = ''t'', lk_entity = SITE_AREA_LOCK, lk_key = ''k'',
     lk_timestamp = 0, lk_expirationDate = Some 600000, lk_hostname = ''a''\<rparr>"

lemma acquire_alone_witness:
  "fst (acquire [''L'' \<mapsto> old_lock] 600001 old_lock) \<and> \<not> fst (acquire [''L'' \<mapsto> old_lock] 600000 old_lock)"
proof -
  have k: "keyed [''L'' \<mapsto> old_lock]" by (simp add: keyed_def old_lock_def)
  have s: "[''L'' \<mapsto> old_lock] (lk_id old_lock) = Some old_lock" by (simp add: old_lock_def)
  have "fst (acquire [''L'' \<mapsto> old_lock] now old_lock) = lock_expired now old_lock" for now
  proof -
    obtain ok db' where r: "acquire [''L'' \<mapsto> old_lock] now old_lock = (ok, db')" by fastforce
    with acquire_alone [OF k this] s show ?thesis by simp
  qed
  then show ?thesis by (simp add: lock_expired_def old_lock_def)
qed

section \<open>Several processes\<close>

text \<open>
  Where a process stands.  \<open>Inserting True\<close> is the first attempt and \<open>Inserting False\<close> the one after an
  expired lock was released; a refused insertion may be repeated while the timeout runs.
\<close>

datatype pc = Idle | Inserting bool lock | Checking lock | Deleting lock | Holding lock

record lock_system =
  ls_now :: int
  ls_db :: lock_db
  ls_pc :: "nat \<Rightarrow> pc"

definition move :: "nat \<Rightarrow> pc \<Rightarrow> lock_system \<Rightarrow> lock_system" where
  "move p x s = s\<lparr>ls_pc := (ls_pc s)(p := x)\<rparr>"

inductive lock_step :: "lock_system \<Rightarrow> lock_system \<Rightarrow> bool" where
  begin_acquire: "ls_pc s p = Idle \<Longrightarrow> lk_timestamp l = ls_now s \<Longrightarrow> lock_step s (move p (Inserting True l) s)"
| inserted: "ls_pc s p = Inserting r l \<Longrightarrow> insertLock (ls_db s) l = Some db' \<Longrightarrow>
    lock_step s (move p (Holding l) (s\<lparr>ls_db := db'\<rparr>))"
| refused_wait: "ls_pc s p = Inserting r l \<Longrightarrow> insertLock (ls_db s) l = None \<Longrightarrow> lock_step s s"
| refused_check: "ls_pc s p = Inserting True l \<Longrightarrow> insertLock (ls_db s) l = None \<Longrightarrow>
    lock_step s (move p (Checking l) s)"
| refused: "ls_pc s p = Inserting False l \<Longrightarrow> insertLock (ls_db s) l = None \<Longrightarrow> lock_step s (move p Idle s)"
| found_expired: "ls_pc s p = Checking l \<Longrightarrow> getLock (ls_db s) (lk_id l) = Some stored \<Longrightarrow>
    lock_expired (ls_now s) stored \<Longrightarrow> lock_step s (move p (Deleting l) s)"
| found_valid: "ls_pc s p = Checking l \<Longrightarrow>
    (case getLock (ls_db s) (lk_id l) of None \<Rightarrow> True | Some stored \<Rightarrow> \<not> lock_expired (ls_now s) stored) \<Longrightarrow>
    lock_step s (move p Idle s)"
| deleted: "ls_pc s p = Deleting l \<Longrightarrow>
    lock_step s (move p (Inserting False l) (s\<lparr>ls_db := snd (deleteLock (ls_db s) (lk_id l))\<rparr>))"
| released: "ls_pc s p = Holding l \<Longrightarrow>
    lock_step s (move p Idle (s\<lparr>ls_db := snd (release (ls_db s) l)\<rparr>))"
| tick: "ls_now s \<le> t \<Longrightarrow> lock_step s (s\<lparr>ls_now := t\<rparr>)"

inductive_cases lock_stepE: "lock_step s s'"

text \<open>No process holds a lock past its validity.\<close>

definition timely :: "lock_system \<Rightarrow> bool" where
  "timely s \<longleftrightarrow> (\<forall>p l. ls_pc s p = Holding l \<longrightarrow> \<not> lock_expired (ls_now s) l)"

definition quiet :: "lock_system \<Rightarrow> bool" where
  "quiet s \<longleftrightarrow> ls_db s = Map.empty \<and> (\<forall>p. ls_pc s p = Idle)"

inductive timely_reachable :: "lock_system \<Rightarrow> bool" where
  initial: "quiet s \<Longrightarrow> timely_reachable s"
| step: "timely_reachable s \<Longrightarrow> lock_step s s' \<Longrightarrow> timely s' \<Longrightarrow> timely_reachable s'"

text \<open>
  The invariant: every stored lock is held by a process, every held lock is the stored one, two holders
  hold different locks, and nobody is about to delete a lock.
\<close>

definition locks_owned :: "lock_system \<Rightarrow> bool" where
  "locks_owned s \<longleftrightarrow>
     (\<forall>i l. ls_db s i = Some l \<longrightarrow> lk_id l = i \<and> (\<exists>p. ls_pc s p = Holding l))
     \<and> (\<forall>p l. ls_pc s p = Holding l \<longrightarrow> ls_db s (lk_id l) = Some l)
     \<and> (\<forall>p q l l'. ls_pc s p = Holding l \<longrightarrow> ls_pc s q = Holding l' \<longrightarrow> lk_id l = lk_id l' \<longrightarrow> p = q)
     \<and> (\<forall>p l. ls_pc s p \<noteq> Deleting l)"

lemma move_pc [simp]:
  "ls_pc (move p x s) q = (if q = p then x else ls_pc s q)" "ls_db (move p x s) = ls_db s"
  "ls_now (move p x s) = ls_now s"
  by (simp_all add: move_def)

lemma locks_owned_quiet_move:
  assumes "locks_owned s" "\<forall>l. ls_pc s p \<noteq> Holding l" "\<forall>l. x \<noteq> Holding l \<and> x \<noteq> Deleting l"
  shows "locks_owned (move p x s)"
  using assms unfolding locks_owned_def by (auto; metis)

lemma locks_ownedD:
  assumes "locks_owned s"
  shows "ls_db s i = Some l \<Longrightarrow> lk_id l = i" "ls_db s i = Some l \<Longrightarrow> \<exists>p. ls_pc s p = Holding l"
    "ls_pc s p = Holding l \<Longrightarrow> ls_db s (lk_id l) = Some l"
    "ls_pc s p = Holding l \<Longrightarrow> ls_pc s q = Holding l' \<Longrightarrow> lk_id l = lk_id l' \<Longrightarrow> p = q"
    "ls_pc s p \<noteq> Deleting l"
  using assms unfolding locks_owned_def by blast+

lemma locks_ownedI:
  assumes "\<And>i l. ls_db s i = Some l \<Longrightarrow> lk_id l = i \<and> (\<exists>p. ls_pc s p = Holding l)"
    and "\<And>p l. ls_pc s p = Holding l \<Longrightarrow> ls_db s (lk_id l) = Some l"
    and "\<And>p q l l'. ls_pc s p = Holding l \<Longrightarrow> ls_pc s q = Holding l' \<Longrightarrow> lk_id l = lk_id l' \<Longrightarrow> p = q"
    and "\<And>p l. ls_pc s p \<noteq> Deleting l"
  shows "locks_owned s"
  using assms unfolding locks_owned_def by blast

lemma locks_owned_insert:
  assumes "locks_owned s" "ls_pc s p = Inserting r l" "insertLock (ls_db s) l = Some db'"
  shows "locks_owned (move p (Holding l) (s\<lparr>ls_db := db'\<rparr>))"
proof -
  note o = locks_ownedD [OF assms(1)]
  from assms(3) have new: "ls_db s (lk_id l) = None" and db': "db' = (ls_db s)(lk_id l \<mapsto> l)"
    by (auto simp: insertLock_def split: if_splits)
  have nh: "lk_id l' \<noteq> lk_id l" if "ls_pc s q = Holding l'" for q l'
    using o(3) [OF that] new by auto
  show ?thesis
  proof (rule locks_ownedI, goal_cases)
    case (1 i x)
    show ?case
    proof (cases "i = lk_id l")
      case True
      with 1 show ?thesis by (auto simp: db')
    next
      case False
      with 1 have x: "ls_db s i = Some x" by (simp add: db')
      then obtain q where "ls_pc s q = Holding x" using o(2) by blast
      moreover from this assms(2) have "q \<noteq> p" by auto
      ultimately show ?thesis using o(1) [OF x] by auto
    qed
  next
    case (2 q x)
    then show ?case using o(3) [of q x] nh [of q x] by (auto simp: db' split: if_splits)
  next
    case (3 q q' x x')
    then show ?case using o(4) [of q x q' x'] nh [of q x] nh [of q' x'] by (auto split: if_splits)
  next
    case (4 q x)
    then show ?case using o(5) by simp
  qed
qed

lemma locks_owned_release:
  assumes "locks_owned s" "ls_pc s p = Holding l"
  shows "locks_owned (move p Idle (s\<lparr>ls_db := snd (release (ls_db s) l)\<rparr>))"
proof -
  note o = locks_ownedD [OF assms(1)]
  show ?thesis
  proof (rule locks_ownedI, goal_cases)
    case (1 i x)
    then have x: "ls_db s i = Some x" and i: "i \<noteq> lk_id l" by (auto simp: release_def deleteLock_def split: if_splits)
    then obtain q where q: "ls_pc s q = Holding x" using o(2) by blast
    with assms(2) i o(1) [OF x] have "q \<noteq> p" by auto
    with q o(1) [OF x] show ?case by auto
  next
    case (2 q x)
    then have q: "ls_pc s q = Holding x" "q \<noteq> p" by (auto split: if_splits)
    with o(4) [OF assms(2) q(1)] have "lk_id x \<noteq> lk_id l" by auto
    with o(3) [OF q(1)] show ?case by (simp add: release_def deleteLock_def)
  next
    case (3 q q' x x')
    then show ?case using o(4) [of q x q' x'] by (auto split: if_splits)
  next
    case (4 q x)
    then show ?case using o(5) by simp
  qed
qed

lemma locks_owned_step:
  assumes "locks_owned s" "timely s" "lock_step s s'"
  shows "locks_owned s'"
  using assms(3)
proof (cases rule: lock_step.cases)
  case (inserted p r l db')
  with locks_owned_insert [OF assms(1)] show ?thesis by simp
next
  case (released p l)
  with locks_owned_release [OF assms(1)] show ?thesis by simp
next
  case (found_expired p l stored)
  then have "ls_db s (lk_id l) = Some stored" by (simp add: getLock_def)
  from locks_ownedD(2) [OF assms(1) this] obtain q where "ls_pc s q = Holding stored" ..
  with assms(2) found_expired show ?thesis by (auto simp: timely_def)
next
  case (deleted p l)
  with locks_ownedD(5) [OF assms(1)] show ?thesis by blast
next
  case (tick t)
  with assms(1) show ?thesis by (simp add: locks_owned_def)
qed (use assms(1) locks_owned_quiet_move in simp_all)

lemma timely_reachable_owned: "timely_reachable s \<Longrightarrow> locks_owned s \<and> timely s"
proof (induction rule: timely_reachable.induct)
  case (initial s)
  then show ?case by (auto simp: quiet_def locks_owned_def timely_def)
next
  case (step s s')
  then show ?case using locks_owned_step by blast
qed

end
