(* ===== verification/LockRuns.thy ===== *)
theory LockRuns
  imports Locking
begin

text \<open>
  Runs of several processes: mutual exclusion as long as every holder is done before its lock expires, and
  what happens to a lock whose holder never releases it.
\<close>

section \<open>A run after a crash\<close>

definition lock_of :: "string \<Rightarrow> int \<Rightarrow> lock" where
  "lock_of host t = \<lparr>lk_id = ''L'', lk_tenantID = ''t'', lk_entity = SITE_AREA_LOCK, lk_key = ''k'',
     lk_timestamp = t, lk_expirationDate = Some (t + 600000), lk_hostname = host\<rparr>"

definition stage :: "int \<Rightarrow> lock option \<Rightarrow> pc \<Rightarrow> pc \<Rightarrow> pc \<Rightarrow> lock_system" where
  "stage now stored crashed first second =
     \<lparr>ls_now = now, ls_db = (\<lambda>i. if i = ''L'' then stored else None),
      ls_pc = (\<lambda>p. if p = 0 then crashed else if p = 1 then first else if p = 2 then second else Idle)\<rparr>"

abbreviation dead where "dead \<equiv> lock_of ''a'' 0"
abbreviation lock1 where "lock1 \<equiv> lock_of ''b'' 700000"
abbreviation lock2 where "lock2 \<equiv> lock_of ''c'' 700000"

lemma stage_simps [simp]:
  "ls_now (stage now stored a b c) = now" "ls_db (stage now stored a b c) ''L'' = stored"
  "ls_pc (stage now stored a b c) 0 = a" "ls_pc (stage now stored a b c) (Suc 0) = b"
  "ls_pc (stage now stored a b c) 2 = c"
  by (simp_all add: stage_def)

lemma stage_move [simp]:
  "move 0 x (stage now stored a b c) = stage now stored x b c"
  "move (Suc 0) x (stage now stored a b c) = stage now stored a x c"
  "move 2 x (stage now stored a b c) = stage now stored a b x"
  by (auto simp: stage_def move_def)

lemma stage_db [simp]: "(stage now stored a b c)\<lparr>ls_db := (ls_db (stage now stored a b c))(''L'' := s)\<rparr> = stage now s a b c"
  by (auto simp: stage_def)

lemma stage_tick [simp]: "(stage now stored a b c)\<lparr>ls_now := t\<rparr> = stage t stored a b c"
  by (simp add: stage_def)

lemma lock_of_simps [simp]:
  "lk_id (lock_of h t) = ''L''" "lk_timestamp (lock_of h t) = t" "lk_expirationDate (lock_of h t) = Some (t + 600000)"
  by (simp_all add: lock_of_def)

lemma race_steps:
  "lock_step (stage 0 None Idle Idle Idle) (stage 0 None (Inserting True dead) Idle Idle)"
  "lock_step (stage 0 None (Inserting True dead) Idle Idle) (stage 0 (Some dead) (Holding dead) Idle Idle)"
  "lock_step (stage 0 (Some dead) (Holding dead) Idle Idle) (stage 700000 (Some dead) (Holding dead) Idle Idle)"
  using lock_step.begin_acquire [of "stage 0 None Idle Idle Idle" 0 dead]
    lock_step.inserted [of "stage 0 None (Inserting True dead) Idle Idle" 0 True dead]
    lock_step.tick [of "stage 0 (Some dead) (Holding dead) Idle Idle" 700000]
  by (simp_all add: insertLock_def)

lemma race_prefix: "lock_step\<^sup>*\<^sup>* (stage 0 None Idle Idle Idle) (stage 700000 (Some dead) (Holding dead) Idle Idle)"
  by (meson race_steps converse_rtranclp_into_rtranclp rtranclp.rtrancl_refl)

lemma process_finds_expired:
  "lock_step\<^sup>*\<^sup>* (stage 700000 (Some dead) a Idle c) (stage 700000 (Some dead) a (Deleting lock1) c)"
  "lock_step\<^sup>*\<^sup>* (stage 700000 (Some dead) a b Idle) (stage 700000 (Some dead) a b (Deleting lock2))"
proof -
  let ?s = "stage 700000 (Some dead)"
  have "lock_step (?s a Idle c) (?s a (Inserting True lock1) c)"
    using lock_step.begin_acquire [of "?s a Idle c" 1 lock1] by simp
  moreover have "lock_step (?s a (Inserting True lock1) c) (?s a (Checking lock1) c)"
    using lock_step.refused_check [of "?s a (Inserting True lock1) c" 1 lock1] by (simp add: insertLock_def)
  moreover have "lock_step (?s a (Checking lock1) c) (?s a (Deleting lock1) c)"
    using lock_step.found_expired [of "?s a (Checking lock1) c" 1 lock1 dead] by (simp add: getLock_def lock_expired_def)
  ultimately show "lock_step\<^sup>*\<^sup>* (?s a Idle c) (?s a (Deleting lock1) c)"
    by (meson converse_rtranclp_into_rtranclp rtranclp.rtrancl_refl)
  have "lock_step (?s a b Idle) (?s a b (Inserting True lock2))"
    using lock_step.begin_acquire [of "?s a b Idle" 2 lock2] by simp
  moreover have "lock_step (?s a b (Inserting True lock2)) (?s a b (Checking lock2))"
    using lock_step.refused_check [of "?s a b (Inserting True lock2)" 2 lock2] by (simp add: insertLock_def)
  moreover have "lock_step (?s a b (Checking lock2)) (?s a b (Deleting lock2))"
    using lock_step.found_expired [of "?s a b (Checking lock2)" 2 lock2 dead] by (simp add: getLock_def lock_expired_def)
  ultimately show "lock_step\<^sup>*\<^sup>* (?s a b Idle) (?s a b (Deleting lock2))"
    by (meson converse_rtranclp_into_rtranclp rtranclp.rtrancl_refl)
qed

lemma process_replaces:
  "lock_step\<^sup>*\<^sup>* (stage t (Some x) a (Deleting lock1) c) (stage t (Some lock1) a (Holding lock1) c)"
  "lock_step\<^sup>*\<^sup>* (stage t (Some x) a b (Deleting lock2)) (stage t (Some lock2) a b (Holding lock2))"
proof -
  have "lock_step (stage t (Some x) a (Deleting lock1) c) (stage t None a (Inserting False lock1) c)"
    using lock_step.deleted [of "stage t (Some x) a (Deleting lock1) c" 1 lock1] by (simp add: deleteLock_def)
  moreover have "lock_step (stage t None a (Inserting False lock1) c) (stage t (Some lock1) a (Holding lock1) c)"
    using lock_step.inserted [of "stage t None a (Inserting False lock1) c" 1 False lock1] by (simp add: insertLock_def)
  ultimately show "lock_step\<^sup>*\<^sup>* (stage t (Some x) a (Deleting lock1) c) (stage t (Some lock1) a (Holding lock1) c)"
    by (meson converse_rtranclp_into_rtranclp rtranclp.rtrancl_refl)
  have "lock_step (stage t (Some x) a b (Deleting lock2)) (stage t None a b (Inserting False lock2))"
    using lock_step.deleted [of "stage t (Some x) a b (Deleting lock2)" 2 lock2] by (simp add: deleteLock_def)
  moreover have "lock_step (stage t None a b (Inserting False lock2)) (stage t (Some lock2) a b (Holding lock2))"
    using lock_step.inserted [of "stage t None a b (Inserting False lock2)" 2 False lock2] by (simp add: insertLock_def)
  ultimately show "lock_step\<^sup>*\<^sup>* (stage t (Some x) a b (Deleting lock2)) (stage t (Some lock2) a b (Holding lock2))"
    by (meson converse_rtranclp_into_rtranclp rtranclp.rtrancl_refl)
qed



text \<open>
  After a crash the lock is not exclusive: from a state without locks there is a run in which one process
  never releases its lock, two others find it expired, and both end up holding the same lock, neither of
  which has expired.
\<close>

lemma expired_lock_race:
  "\<exists>s s'. quiet s \<and> lock_step\<^sup>*\<^sup>* s s'
     \<and> ls_pc s' 1 = Holding lock1 \<and> ls_pc s' 2 = Holding lock2 \<and> lk_id lock1 = lk_id lock2
     \<and> \<not> lock_expired (ls_now s') lock1 \<and> \<not> lock_expired (ls_now s') lock2"
proof (intro exI conjI)
  let ?final = "stage 700000 (Some lock2) (Holding dead) (Holding lock1) (Holding lock2)"
  show "quiet (stage 0 None Idle Idle Idle)" by (auto simp: quiet_def stage_def)
  show "lock_step\<^sup>*\<^sup>* (stage 0 None Idle Idle Idle) ?final"
    by (rule rtranclp_trans [OF rtranclp_trans [OF rtranclp_trans [OF race_prefix process_finds_expired(1)]
          process_finds_expired(2)] rtranclp_trans [OF process_replaces(1) process_replaces(2)]])
  show "ls_pc ?final 1 = Holding lock1" "ls_pc ?final 2 = Holding lock2" by simp_all
  show "\<not> lock_expired (ls_now ?final) lock1" "\<not> lock_expired (ls_now ?final) lock2" by (simp_all add: lock_expired_def)
qed simp

section \<open>Progress\<close>

text \<open>What a process does alone, once the clock is past the validity of what is stored.\<close>

lemma free_lock_is_taken:
  assumes "ls_pc s p = Inserting r l" "ls_db s (lk_id l) = None"
  shows "lock_step s (move p (Holding l) (s\<lparr>ls_db := (ls_db s)(lk_id l \<mapsto> l)\<rparr>))"
  using assms by (auto intro: lock_step.inserted simp: insertLock_def)

lemma expired_lock_is_taken:
  assumes "ls_pc s p = Inserting True l" "ls_db s (lk_id l) = Some x" "lock_expired (ls_now s) x"
  shows "lock_step\<^sup>*\<^sup>* s (move p (Holding l) (s\<lparr>ls_db := (ls_db s)(lk_id l \<mapsto> l)\<rparr>))"
proof -
  let ?c = "move p (Checking l) s" and ?d = "move p (Deleting l) s"
  let ?f = "move p (Inserting False l) (s\<lparr>ls_db := (ls_db s)(lk_id l := None)\<rparr>)"
  have "lock_step s ?c" using assms by (intro lock_step.refused_check) (auto simp: insertLock_def)
  moreover have "lock_step ?c ?d"
    using lock_step.found_expired [of ?c p l x] assms by (simp add: move_def getLock_def)
  moreover have "lock_step ?d ?f"
    using lock_step.deleted [of ?d p l] by (simp add: move_def deleteLock_def)
  moreover have "lock_step ?f (move p (Holding l) (s\<lparr>ls_db := (ls_db s)(lk_id l \<mapsto> l)\<rparr>))"
    using free_lock_is_taken [of ?f p False l] by (simp add: move_def)
  ultimately show ?thesis by (meson converse_rtranclp_into_rtranclp rtranclp.rtrancl_refl)
qed

text \<open>
  C37: No lock is lost for good: from any state of the system, however it was reached and whatever the other
  processes are doing or have failed to do, an idle process can go on, with the other processes standing
  still, until it holds a given lock, as long as the lock is free or was stored with a validity.
\<close>

theorem an_expiring_lock_can_always_be_taken:
  assumes "ls_pc s p = Idle" "\<forall>x. ls_db s i = Some x \<longrightarrow> lk_expirationDate x \<noteq> None"
  shows "\<exists>s' l. lock_step\<^sup>*\<^sup>* s s' \<and> ls_pc s' p = Holding l \<and> lk_id l = i \<and> ls_db s' i = Some l
    \<and> (\<forall>q. q \<noteq> p \<longrightarrow> ls_pc s' q = ls_pc s q)"
proof -
  define t where "t = (case ls_db s i of None \<Rightarrow> ls_now s
    | Some x \<Rightarrow> max (ls_now s) (the (lk_expirationDate x) + 1))"
  define l where "l = (lock_of ''b'' t)\<lparr>lk_id := i\<rparr>"
  let ?t = "s\<lparr>ls_now := t\<rparr>"
  let ?b = "move p (Inserting True l) ?t"
  let ?h = "move p (Holding l) (?b\<lparr>ls_db := (ls_db s)(i \<mapsto> l)\<rparr>)"
  have l: "lk_id l = i" "lk_timestamp l = t" by (simp_all add: l_def lock_of_def)
  have "lock_step s ?t" by (rule lock_step.tick) (simp add: t_def split: option.split)
  moreover have "lock_step ?t ?b" using assms(1) l by (intro lock_step.begin_acquire) simp_all
  moreover have "lock_step\<^sup>*\<^sup>* ?b ?h"
  proof (cases "ls_db s i")
    case None
    then show ?thesis using free_lock_is_taken [of ?b p True l] l by (auto simp: move_def)
  next
    case (Some x)
    with assms(2) have "lock_expired t x" by (auto simp: lock_expired_def t_def split: option.splits)
    with Some show ?thesis using expired_lock_is_taken [of ?b p l x] l by (simp add: move_def)
  qed
  ultimately have "lock_step\<^sup>*\<^sup>* s ?h" by (meson converse_rtranclp_into_rtranclp)
  then show ?thesis using l by (intro exI [of _ ?h] exI [of _ l]) (simp add: move_def)
qed

lemma an_expiring_lock_can_always_be_taken_witness:
  "\<exists>s' l. lock_step\<^sup>*\<^sup>* (stage 0 (Some dead) (Holding dead) Idle Idle) s' \<and> ls_pc s' 1 = Holding l \<and> lk_id l = ''L''"
  using an_expiring_lock_can_always_be_taken [of "stage 0 (Some dead) (Holding dead) Idle Idle" 1 "''L''"]
  by (auto simp: lock_of_def)

end
