(* ===== verification/LockRequests.thy ===== *)
theory LockRequests
  imports Locking
begin

text \<open>
  The locks the server asks for (\<open>locking/LockingHelper.ts\<close>): one request per method, with the entity, the
  key, the validity in seconds and the timeout in seconds the method passes on.  Identifiers of the database
  are strings, identifiers of transactions natural numbers.
\<close>

section \<open>Requests\<close>

datatype lock_request =
    AsyncTaskLock string | ScheduledTaskLock string | AsyncTaskManagerLock | SiteAreaSmartChargingLock string
  | BillingSyncUsersLock | ImportUsersLock | ImportTagsLock | ImportEmaidsLock | SyncCarCatalogsLock
  | BillingPeriodicOperationLock | DispatchCollectedFundsLock | DispatchCollectedFundsToAccountLock string
  | AssetRetrieveConsumptionsLock string | OCPIPushCpoCdrsLock | OCPIPushTokensLock string
  | OCPIPushCdrLock nat | CloseTransactionsInProgressLock | OCPIPullTokensLock string bool
  | OCPIFullPullTokensLock string | OCPICheckCdrsLock string | OCPICheckLocationsLock string
  | OCPICheckSessionsLock string | OCPIPullCdrsLock string | OCPIPullLocationsLock string
  | OCPIPullSessionsLock string | OCPIPatchLocationsLock string | OCPIPatchEVSEStatusesLock string
  | OCPIPatchEVSESLock string | OICPPatchEVSEsLock string | OICPPatchEvseStatusesLock string
  | OICPPushCdrLock nat | BillUserLock string | ChargingStationLock string | BillPendingTransactionsLock
  | BillPendingTransactionLock nat | BillUnpaidTransactionsLock | BillUnpaidTransactionLock nat

fun decimal_text :: "nat \<Rightarrow> string" where
  "decimal_text n = (if n < 10 then [char_of (n + 48)] else decimal_text (n div 10) @ [char_of (n mod 10 + 48)])"

declare decimal_text.simps [simp del]

definition endpoint_key :: "string \<Rightarrow> string \<Rightarrow> string" where
  "endpoint_key i action = i @ ''-'' @ action"

fun request_key :: "lock_request \<Rightarrow> lock_entity \<times> string" where
  "request_key (AsyncTaskLock i) = (ASYNC_TASK, i)"
| "request_key (ScheduledTaskLock n) = (SCHEDULER_TASK, n)"
| "request_key AsyncTaskManagerLock = (ASYNC_TASK_MANAGER, ''async-task-manager'')"
| "request_key (SiteAreaSmartChargingLock i) = (SITE_AREA_LOCK, i @ ''-smart-charging'')"
| "request_key BillingSyncUsersLock = (USER_LOCK, ''synchronize-billing-users'')"
| "request_key ImportUsersLock = (USER_LOCK, ''import-users'')"
| "request_key ImportTagsLock = (TAG_LOCK, ''import-tags'')"
| "request_key ImportEmaidsLock = (EMAID, ''import-emaids'')"
| "request_key SyncCarCatalogsLock = (CAR_CATALOG, ''synchronize-car-catalogs'')"
| "request_key BillingPeriodicOperationLock = (INVOICE_LOCK, ''periodic-billing'')"
| "request_key DispatchCollectedFundsLock = (INVOICE_LOCK, ''dispatch-collected-funds'')"
| "request_key (DispatchCollectedFundsToAccountLock i) = (INVOICE_LOCK, ''dispatch-funds-to-account-'' @ i)"
| "request_key (AssetRetrieveConsumptionsLock i) = (ASSET_LOCK, i @ ''-consumptions'')"
| "request_key OCPIPushCpoCdrsLock = (TRANSACTION_LOCK, ''push-cdrs'')"
| "request_key (OCPIPushTokensLock i) = (OCPI_ENDPOINT, endpoint_key i ''push-tokens'')"
| "request_key (OCPIPushCdrLock n) = (TRANSACTION_LOCK, ''push-cdr-'' @ decimal_text n)"
| "request_key CloseTransactionsInProgressLock = (TRANSACTION_LOCK, ''close-transactions-in-progress'')"
| "request_key (OCPIPullTokensLock i partial) =
     (OCPI_ENDPOINT, endpoint_key i (''pull-tokens'' @ (if partial then ''-partial'' else [])))"
| "request_key (OCPIFullPullTokensLock i) = (OCPI_ENDPOINT, endpoint_key i ''Full-pull-tokens'')"
| "request_key (OCPICheckCdrsLock i) = (OCPI_ENDPOINT, endpoint_key i ''check-cdrs'')"
| "request_key (OCPICheckLocationsLock i) = (OCPI_ENDPOINT, endpoint_key i ''check-locations'')"
| "request_key (OCPICheckSessionsLock i) = (OCPI_ENDPOINT, endpoint_key i ''check-sessions'')"
| "request_key (OCPIPullCdrsLock i) = (OCPI_ENDPOINT, endpoint_key i ''pull-cdrs'')"
| "request_key (OCPIPullLocationsLock i) = (OCPI_ENDPOINT, endpoint_key i ''pull-locations'')"
| "request_key (OCPIPullSessionsLock i) = (OCPI_ENDPOINT, endpoint_key i ''pull-sessions'')"
| "request_key (OCPIPatchLocationsLock i) = (OCPI_ENDPOINT, endpoint_key i ''patch-locations'')"
| "request_key (OCPIPatchEVSEStatusesLock i) = (OCPI_ENDPOINT, endpoint_key i ''patch-evse-statuses'')"
| "request_key (OCPIPatchEVSESLock i) = (OCPI_ENDPOINT, endpoint_key i ''patch-evses'')"
| "request_key (OICPPatchEVSEsLock i) = (OICP_ENDPOINT, endpoint_key i ''patch-evses'')"
| "request_key (OICPPatchEvseStatusesLock i) = (OICP_ENDPOINT, endpoint_key i ''patch-evse-statuses'')"
| "request_key (OICPPushCdrLock n) = (TRANSACTION_LOCK, ''push-cdr-'' @ decimal_text n)"
| "request_key (BillUserLock i) = (USER_LOCK, ''bill-user-'' @ i)"
| "request_key (ChargingStationLock i) = (CHARGING_STATION_LOCK, i)"
| "request_key BillPendingTransactionsLock = (TRANSACTION_LOCK, ''bill-pending-transactions'')"
| "request_key (BillPendingTransactionLock n) = (TRANSACTION_LOCK, ''bill-pending-transaction-'' @ decimal_text n)"
| "request_key BillUnpaidTransactionsLock = (TRANSACTION_LOCK, ''bill-unpaid-transactions'')"
| "request_key (BillUnpaidTransactionLock n) = (TRANSACTION_LOCK, ''bill-unpaid-transaction-'' @ decimal_text n)"

text \<open>Validity of the lock, by default ten minutes, and time to wait for it, by default none.\<close>

fun request_validity :: "lock_request \<Rightarrow> int" where
  "request_validity (AsyncTaskLock i) = 15 * 60"
| "request_validity (ScheduledTaskLock n) = 15 * 60"
| "request_validity AsyncTaskManagerLock = 15 * 60"
| "request_validity (SiteAreaSmartChargingLock i) = 3 * 60"
| "request_validity (ChargingStationLock i) = 5"
| "request_validity r = 600"

fun request_timeout :: "lock_request \<Rightarrow> int" where
  "request_timeout (SiteAreaSmartChargingLock i) = 5"
| "request_timeout (BillUserLock i) = 60"
| "request_timeout (ChargingStationLock i) = 5 * 2"
| "request_timeout r = 0"

definition requested_lock :: "(string \<Rightarrow> string) \<Rightarrow> int \<Rightarrow> string \<Rightarrow> string \<Rightarrow> lock_request \<Rightarrow> lock res" where
  "requested_lock hash now host tenantID r =
     createExclusiveLock hash now host tenantID (fst (request_key r)) (snd (request_key r)) (request_validity r)"

section \<open>Different requests take different locks\<close>

lemma toLowerCase_simps [simp]:
  "toLowerCase [] = []" "toLowerCase (c # s) = lower_char c # toLowerCase s"
  "toLowerCase (s @ t) = toLowerCase s @ toLowerCase t"
  by (simp_all add: toLowerCase_def)

lemma entity_text_inj [simp]: "entity_text e = entity_text e' \<longleftrightarrow> e = e'"
  by (cases e; cases e') simp_all

lemma entity_text_plain: "CHR ''~'' \<notin> set (entity_text e)"
  by (cases e) simp_all

lemma lock_text_inj:
  assumes "lock_text t e k = lock_text t' e' k'" "CHR ''~'' \<notin> set t" "CHR ''~'' \<notin> set t'"
  shows "t = t' \<and> e = e' \<and> toLowerCase k = toLowerCase k'"
proof -
  have "t @ CHR ''~'' # (entity_text e @ CHR ''~'' # toLowerCase k @ ''~E'') =
      t' @ CHR ''~'' # (entity_text e' @ CHR ''~'' # toLowerCase k' @ ''~E'')"
    using assms(1) by (simp add: lock_text_def)
  from split_at_separator [OF this assms(2,3)]
  have t: "t = t'" and "entity_text e @ CHR ''~'' # toLowerCase k @ ''~E'' = entity_text e' @ CHR ''~'' # toLowerCase k' @ ''~E''"
    by simp_all
  from split_at_separator [OF this(2) entity_text_plain entity_text_plain] t show ?thesis by simp
qed

lemma digit_inj:
  assumes "(char_of (m + 48) :: char) = char_of (n + 48)" "m < 10" "n < (10 :: nat)"
  shows "m = n"
proof -
  have "(of_char (char_of (m + 48) :: char) :: nat) = of_char (char_of (n + 48) :: char)" using assms(1) by simp
  with assms(2,3) show ?thesis by (simp add: of_char_of)
qed

lemma decimal_text_nonempty [simp]: "decimal_text n \<noteq> []"
  by (subst decimal_text.simps) simp

lemma decimal_text_inj: "decimal_text m = decimal_text n \<Longrightarrow> m = n"
proof (induction m arbitrary: n rule: decimal_text.induct)
  case (1 m)
  have m: "decimal_text m = (if m < 10 then [] else decimal_text (m div 10)) @ [char_of (m mod 10 + 48)]" for m
    by (subst decimal_text.simps) simp
  from "1.prems" m [of m] m [of n]
  have last: "(char_of (m mod 10 + 48) :: char) = char_of (n mod 10 + 48)"
    and front: "(if m < 10 then [] else decimal_text (m div 10)) = (if n < 10 then [] else decimal_text (n div 10))"
    by simp_all
  from digit_inj [OF last] have "m mod 10 = n mod 10" by simp
  moreover have "m div 10 = n div 10"
  proof (cases "m < 10")
    case True
    with front decimal_text_nonempty [of "n div 10"] show ?thesis by (auto split: if_splits simp del: decimal_text_nonempty)
  next
    case False
    with front have "decimal_text (m div 10) = decimal_text (n div 10)" by (auto split: if_splits)
    with "1.IH" False show ?thesis by simp
  qed
  ultimately show ?case by (metis div_mult_mod_eq)
qed

lemma lower_digit: "m < 10 \<Longrightarrow> lower_char (char_of (m + 48)) = char_of (m + 48)" for m :: nat
  by (simp add: lower_char_def of_char_of Let_def)

lemma toLowerCase_decimal [simp]: "toLowerCase (decimal_text n) = decimal_text n"
proof (induction n rule: decimal_text.induct)
  case (1 n)
  then show ?case
    by (subst decimal_text.simps, subst (2) decimal_text.simps) (simp add: lower_digit)
qed

lemma lower_chars [simp]:
  "lower_char CHR ''a'' = CHR ''a''"
  "lower_char CHR ''b'' = CHR ''b''"
  "lower_char CHR ''c'' = CHR ''c''"
  "lower_char CHR ''d'' = CHR ''d''"
  "lower_char CHR ''e'' = CHR ''e''"
  "lower_char CHR ''f'' = CHR ''f''"
  "lower_char CHR ''g'' = CHR ''g''"
  "lower_char CHR ''h'' = CHR ''h''"
  "lower_char CHR ''i'' = CHR ''i''"
  "lower_char CHR ''j'' = CHR ''j''"
  "lower_char CHR ''k'' = CHR ''k''"
  "lower_char CHR ''l'' = CHR ''l''"
  "lower_char CHR ''m'' = CHR ''m''"
  "lower_char CHR ''n'' = CHR ''n''"
  "lower_char CHR ''o'' = CHR ''o''"
  "lower_char CHR ''p'' = CHR ''p''"
  "lower_char CHR ''q'' = CHR ''q''"
  "lower_char CHR ''r'' = CHR ''r''"
  "lower_char CHR ''s'' = CHR ''s''"
  "lower_char CHR ''t'' = CHR ''t''"
  "lower_char CHR ''u'' = CHR ''u''"
  "lower_char CHR ''v'' = CHR ''v''"
  "lower_char CHR ''w'' = CHR ''w''"
  "lower_char CHR ''x'' = CHR ''x''"
  "lower_char CHR ''y'' = CHR ''y''"
  "lower_char CHR ''z'' = CHR ''z''"
  "lower_char CHR ''-'' = CHR ''-''"
  "lower_char CHR ''F'' = CHR ''f''" "lower_char CHR ''C'' = CHR ''c''"
  by code_simp+

text \<open>
  The identifiers the database generates, which hold no capital letter and no dash; the names of stations
  and of tasks are free.
\<close>

definition plain :: "string \<Rightarrow> bool" where
  "plain i \<longleftrightarrow> CHR ''-'' \<notin> set i \<and> toLowerCase i = i"

fun plain_request :: "lock_request \<Rightarrow> bool" where
  "plain_request (SiteAreaSmartChargingLock i) = plain i"
| "plain_request (DispatchCollectedFundsToAccountLock i) = plain i"
| "plain_request (AssetRetrieveConsumptionsLock i) = plain i"
| "plain_request (OCPIPushTokensLock i) = plain i"
| "plain_request (OCPIPullTokensLock i partial) = plain i"
| "plain_request (OCPIFullPullTokensLock i) = plain i"
| "plain_request (OCPICheckCdrsLock i) = plain i"
| "plain_request (OCPICheckLocationsLock i) = plain i"
| "plain_request (OCPICheckSessionsLock i) = plain i"
| "plain_request (OCPIPullCdrsLock i) = plain i"
| "plain_request (OCPIPullLocationsLock i) = plain i"
| "plain_request (OCPIPullSessionsLock i) = plain i"
| "plain_request (OCPIPatchLocationsLock i) = plain i"
| "plain_request (OCPIPatchEVSEStatusesLock i) = plain i"
| "plain_request (OCPIPatchEVSESLock i) = plain i"
| "plain_request (OICPPatchEVSEsLock i) = plain i"
| "plain_request (OICPPatchEvseStatusesLock i) = plain i"
| "plain_request (BillUserLock i) = plain i"
| "plain_request r = True"

text \<open>
  What a request is for: names without regard to case, and the roaming pushes of one session, through either
  protocol, being the same thing.
\<close>

fun target :: "lock_request \<Rightarrow> lock_request" where
  "target (AsyncTaskLock i) = AsyncTaskLock (toLowerCase i)"
| "target (ScheduledTaskLock i) = ScheduledTaskLock (toLowerCase i)"
| "target (ChargingStationLock i) = ChargingStationLock (toLowerCase i)"
| "target (OICPPushCdrLock n) = OCPIPushCdrLock n"
| "target r = r"

lemma toLowerCase_endpoint:
  "plain i \<Longrightarrow> toLowerCase (endpoint_key i a) = i @ CHR ''-'' # toLowerCase a"
  by (simp add: endpoint_key_def plain_def)

lemma endpoint_inj [simp]:
  "plain i \<Longrightarrow> plain j \<Longrightarrow> toLowerCase (endpoint_key i a) = toLowerCase (endpoint_key j b) \<longleftrightarrow>
     i = j \<and> toLowerCase a = toLowerCase b"
  using split_at_separator [of i "CHR ''-''" "toLowerCase a" j "toLowerCase b"]
  by (auto simp: toLowerCase_endpoint plain_def)

text \<open>Requests with one key, from group to group of the entities.\<close>

definition same_key :: "lock_request \<Rightarrow> lock_request \<Rightarrow> bool" where
  "same_key r r' \<longleftrightarrow> fst (request_key r) = fst (request_key r')
     \<and> toLowerCase (snd (request_key r)) = toLowerCase (snd (request_key r')) \<and> plain_request r \<and> plain_request r'"

lemma endpoint_key_inj:
  "same_key r r' \<Longrightarrow> fst (request_key r) \<in> {OCPI_ENDPOINT, OICP_ENDPOINT} \<Longrightarrow> target r = target r'"
  unfolding same_key_def
  by (elim conjE, cases r; simp; (cases r', simp_all split: if_splits)[1])

lemma transaction_key_inj:
  "same_key r r' \<Longrightarrow> fst (request_key r) = TRANSACTION_LOCK \<Longrightarrow> target r = target r'"
  unfolding same_key_def
  by (cases r; simp; (cases r', simp_all, (auto dest: decimal_text_inj)?)[1])

lemma other_key_inj:
  "same_key r r' \<Longrightarrow> fst (request_key r) \<notin> {OCPI_ENDPOINT, OICP_ENDPOINT, TRANSACTION_LOCK} \<Longrightarrow> target r = target r'"
  unfolding same_key_def
  by (cases r; simp; (cases r', simp_all add: plain_def, (elim conjE, simp)?)[1])

lemma request_key_inj:
  assumes "fst (request_key r) = fst (request_key r')"
    and "toLowerCase (snd (request_key r)) = toLowerCase (snd (request_key r'))"
    and "plain_request r" "plain_request r'"
  shows "target r = target r'"
  using assms endpoint_key_inj transaction_key_inj other_key_inj unfolding same_key_def by blast

text \<open>
  Two requests get the same lock only if they are for the same thing: within and across tenants, whatever
  the entity, identifiers of the database being plain and the hash function having no collision; the station
  and task names are compared without regard to case.
\<close>

lemma locks_do_not_collide:
  assumes "requested_lock hash now host t r = Inr l" "requested_lock hash now' host' t' r' = Inr l'"
    and "lk_id l = lk_id l'" "inj hash" "CHR ''~'' \<notin> set t" "CHR ''~'' \<notin> set t'"
    and "plain_request r" "plain_request r'"
  shows "t = t' \<and> target r = target r'"
proof -
  have "hash (lock_text t (fst (request_key r)) (snd (request_key r))) = lk_id l"
    using assms(1) by (auto simp: requested_lock_def createExclusiveLock_def split: if_splits)
  moreover have "hash (lock_text t' (fst (request_key r')) (snd (request_key r'))) = lk_id l'"
    using assms(2) by (auto simp: requested_lock_def createExclusiveLock_def split: if_splits)
  ultimately have "lock_text t (fst (request_key r)) (snd (request_key r)) =
      lock_text t' (fst (request_key r')) (snd (request_key r'))"
    using assms(3) injD [OF assms(4)] by metis
  from lock_text_inj [OF this assms(5,6)] request_key_inj [OF _ _ assms(7,8)] show ?thesis by blast
qed

end
