(* ===== verification/AuthorizationTypes.thy ===== *)
theory AuthorizationTypes
  imports Prelude
begin

text \<open>
  The entities, the actions and the grants of the authorization framework (\<open>types/Authorization.ts\<close>).  The
  constructors are the members of the two enumerations behind a prefix.  A condition is always a call of
  \<open>dynamicAuthorizations\<close> with its arguments; a filter or assertion that the source writes outside of a
  group is a group of one.
\<close>

section \<open>Entities and actions\<close>

datatype (plugins only:) entity =
    E_SITE | E_SITE_AREA | E_COMPANY | E_CHARGING_STATION | E_CHARGING_STATION_TEMPLATE
  | E_CONNECTOR | E_TENANT | E_TRANSACTION | E_REPORT | E_USER | E_USER_SITE | E_SITE_USER
  | E_USERS_SITES | E_LOGGING | E_PRICING | E_PRICING_DEFINITION | E_BILLING | E_BILLING_PLATFORM
  | E_BILLING_ACCOUNT | E_BILLING_TRANSFER | E_SETTING | E_ASYNC_TASK | E_OCPI_ENDPOINT
  | E_OICP_ENDPOINT | E_CONNECTION | E_ASSET | E_CAR_CATALOG | E_CAR | E_INVOICE | E_TAX
  | E_REGISTRATION_TOKEN | E_CHARGING_PROFILE | E_NOTIFICATION | E_TAG | E_EMAID | E_PAYMENT_METHOD
  | E_SOURCE | E_CONSUMPTION | E_SMART_CHARGING | E_STATISTIC | E_CERTIFICATE

datatype (plugins only:) action =
    A_READ | A_CREATE | A_UPDATE | A_UPDATE_BY_VISUAL_ID | A_REPLACE | A_REVOKE | A_DELETE
  | A_LOGOUT | A_LOGIN | A_LIST | A_IN_ERROR | A_RESET | A_ASSIGN | A_UNASSIGN | A_CLEAR_CACHE
  | A_TRIGGER_DATA_TRANSFER | A_SYNCHRONIZE | A_GET_CONFIGURATION | A_CHANGE_CONFIGURATION
  | A_SYNCHRONIZE_CAR_CATALOGS | A_REMOTE_START_TRANSACTION | A_REMOTE_STOP_TRANSACTION
  | A_START_TRANSACTION | A_STOP_TRANSACTION | A_UNLOCK_CONNECTOR | A_AUTHORIZE
  | A_SET_CHARGING_PROFILE | A_GET_COMPOSITE_SCHEDULE | A_CLEAR_CHARGING_PROFILE | A_GET_DIAGNOSTICS
  | A_UPDATE_FIRMWARE | A_EXPORT | A_CHANGE_AVAILABILITY | A_REFUND_TRANSACTION
  | A_LIST_BAGDES_EMSPS | A_SYNCHRONIZE_BILLING_USER | A_BILLING_SETUP_PAYMENT_METHOD
  | A_BILLING_PAYMENT_METHODS | A_BILLING_DELETE_PAYMENT_METHOD | A_BILLING_CHARGE_INVOICE
  | A_BILLING_ACTIVATE_ACCOUNT | A_BILLING_ONBOARD_ACCOUNT | A_BILLING_FINALIZE_TRANSFER
  | A_BILLING_SEND_TRANSFER | A_CHECK_CONNECTION | A_CLEAR_BILLING_TEST_DATA
  | A_RETRIEVE_CONSUMPTION | A_READ_CONSUMPTION | A_CREATE_CONSUMPTION | A_PING
  | A_GENERATE_LOCAL_TOKEN | A_REGISTER | A_TRIGGER_JOB | A_DOWNLOAD | A_IMPORT
  | A_ASSIGN_USERS_TO_SITE | A_UNASSIGN_USERS_FROM_SITE | A_ASSIGN_SITES_TO_USER
  | A_UNASSIGN_SITES_FROM_USER | A_ASSIGN_UNASSIGN_USERS | A_ASSIGN_UNASSIGN_USERS_TO_CONNECTOR
  | A_ASSIGN_UNASSIGN_SITES | A_ASSIGN_ASSETS_TO_SITE_AREA | A_UNASSIGN_ASSETS_FROM_SITE_AREA
  | A_READ_ASSETS_FROM_SITE_AREA | A_ASSIGN_CHARGING_STATIONS_TO_SITE_AREA
  | A_UNASSIGN_CHARGING_STATIONS_FROM_SITE_AREA | A_READ_CHARGING_STATIONS_FROM_SITE_AREA
  | A_EXPORT_OCPP_PARAMS | A_GENERATE_QR | A_MAINTAIN_PRICING_DEFINITIONS | A_RESOLVE
  | A_GET_STATUS_NOTIFICATION | A_GET_BOOT_NOTIFICATION | A_RESERVE_NOW | A_UPDATE_OCPP_PARAMS
  | A_LIMIT_POWER | A_DELETE_CHARGING_PROFILE | A_GET_OCPP_PARAMS | A_UPDATE_CHARGING_PROFILE
  | A_GET_CONNECTOR_QR_CODE | A_VIEW_USER_DATA | A_SYNCHRONIZE_REFUNDED_TRANSACTION
  | A_PUSH_TRANSACTION_CDR | A_GET_ADVENIR_CONSUMPTION | A_GET_CHARGING_STATION_TRANSACTIONS
  | A_GET_ACTIVE_TRANSACTION | A_GET_COMPLETED_TRANSACTION | A_GET_REFUNDABLE_TRANSACTION
  | A_GET_REFUND_REPORT | A_EXPORT_COMPLETED_TRANSACTION | A_EXPORT_OCPI_CDR
  | A_ASSIGN_UNASSIGN_USER_TO_CHARGING_STATION_CONNECTOR

section \<open>Grants\<close>

record field_metadata =
  fm_visible :: "bool option"
  fm_enabled :: "bool option"
  fm_mandatory :: "bool option"

record condition_args =
  ca_asserts :: "string list list"
  ca_filters :: "string list list"
  ca_metadata :: "(string \<times> field_metadata) list option"

record grant =
  g_resource :: entity
  g_action :: "action list"
  g_attributes :: "string list option"
  g_condition :: "condition_args option"

text \<open>A role of the definition: its grants and the roles it extends.\<close>

record role_definition =
  rd_extend :: "string list"
  rd_grants :: "grant list"

datatype user_role = SUPER_ADMIN | ADMIN | BASIC | DEMO | QRCODE

end
