(* ===== verification/UserGrants.thy ===== *)
theory UserGrants
  imports AuthorizationTypes
begin

text \<open>
  The grants of the users of a tenant: basic, demo, site administrator and site owner
  (\<open>authorization/AuthorizationsDefinition.ts\<close>), in the order of the source.
\<close>

section \<open>basic\<close>

definition basic_grants_1 :: "grant list" where
  "basic_grants_1 = [
    \<lparr>g_resource = E_USER, g_action = [A_READ],
      g_attributes = Some [''id'', ''name'', ''firstName'', ''email'', ''role'', ''issuer'', ''locale'',
        ''notificationsActive'', ''notifications'', ''phone'', ''mobile'', ''iNumber'', ''costCenter'',
        ''address.address1'', ''address.address2'', ''address.postalCode'', ''address.city'',
        ''address.department'', ''address.region'', ''address.country'', ''address.coordinates''],
      g_condition = Some \<lparr>ca_asserts = [], ca_filters = [[''OwnUser'']], ca_metadata =
        None\<rparr>\<rparr>,
    \<lparr>g_resource = E_USER, g_action = [A_UPDATE],
      g_attributes = Some [''id'', ''name'', ''firstName'', ''email'', ''role'', ''issuer'', ''locale'',
        ''notificationsActive'', ''notifications'', ''phone'', ''mobile'', ''iNumber'', ''costCenter'',
        ''address.address1'', ''address.address2'', ''address.postalCode'', ''address.city'',
        ''address.department'', ''address.region'', ''address.country'', ''address.coordinates''],
      g_condition = Some \<lparr>ca_asserts = [[''BasicUser'']], ca_filters = [[''OwnUser'']], ca_metadata =
        None\<rparr>\<rparr>,
    \<lparr>g_resource = E_SETTING, g_action = [A_READ],
      g_attributes = None,
      g_condition = None\<rparr>,
    \<lparr>g_resource = E_CAR_CATALOG, g_action = [A_LIST],
      g_attributes = Some [''id'', ''vehicleModel'', ''vehicleMake'', ''vehicleModelVersion'',
        ''batteryCapacityFull'', ''fastchargeChargeSpeed'', ''performanceTopspeed'',
        ''performanceAcceleration'', ''rangeWLTP'', ''rangeReal'', ''efficiencyReal'', ''image'',
        ''chargeStandardPower'', ''chargeStandardPhase'', ''chargeStandardPhaseAmp'', ''chargePlug'',
        ''fastChargePlug'', ''fastChargePowerMax'', ''drivetrainPowerHP''],
      g_condition = None\<rparr>,
    \<lparr>g_resource = E_CAR_CATALOG, g_action = [A_READ],
      g_attributes = Some [''id'', ''vehicleModel'', ''vehicleMake'', ''vehicleModelVersion'',
        ''batteryCapacityFull'', ''fastchargeChargeSpeed'', ''performanceTopspeed'',
        ''performanceAcceleration'', ''rangeWLTP'', ''rangeReal'', ''efficiencyReal'',
        ''drivetrainPropulsion'', ''drivetrainTorque'', ''batteryCapacityUseable'', ''chargePlug'',
        ''fastChargePlug'', ''fastChargePowerMax'', ''chargePlugLocation'', ''drivetrainPowerHP'',
        ''chargeStandardChargeSpeed'', ''chargeStandardChargeTime'', ''miscSeats'', ''miscBody'',
        ''miscIsofix'', ''miscTurningCircle'', ''miscSegment'', ''miscIsofixSeats'',
        ''chargeStandardPower'', ''chargeStandardPhase'', ''hash'', ''image'', ''chargeStandardPhase''],
      g_condition = None\<rparr>,
    \<lparr>g_resource = E_CAR, g_action = [A_LIST],
      g_attributes = Some [''id'', ''type'', ''vin'', ''licensePlate'', ''converter'', ''default'',
        ''carCatalog.id'', ''carCatalog.vehicleMake'', ''carCatalog.vehicleModel'',
        ''carCatalog.vehicleModelVersion'', ''carCatalog.image'', ''carCatalog.fastChargePowerMax'',
        ''carCatalog.batteryCapacityFull'', ''carConnectorData.carConnectorID'',
        ''carConnectorData.carConnectorMeterID''],
      g_condition = Some \<lparr>ca_asserts = [], ca_filters = [[''OwnUser'']], ca_metadata =
        None\<rparr>\<rparr>,
    \<lparr>g_resource = E_CAR, g_action = [A_CREATE, A_UPDATE],
      g_attributes = None,
      g_condition = Some \<lparr>ca_asserts = [[''-PoolCar''], [''OwnUser'']], ca_filters = [[''OwnUser'']],
        ca_metadata = None\<rparr>\<rparr>,
    \<lparr>g_resource = E_CAR, g_action = [A_READ],
      g_attributes = Some [''id'', ''type'', ''vin'', ''licensePlate'', ''converter'', ''default'',
        ''createdOn'', ''lastChangedOn'', ''carCatalogID'', ''carCatalog.vehicleMake'',
        ''carCatalog.vehicleModel'', ''carCatalog.vehicleModelVersion'', ''carCatalog.image'',
        ''carCatalog.chargeStandardPower'', ''carCatalog.chargeStandardPhaseAmp'',
        ''carCatalog.chargeStandardPhase'', ''user.id'', ''user.name'', ''user.firstName'', ''userID'',
        ''carConnectorData.carConnectorID'', ''carConnectorData.carConnectorMeterID'',
        ''chargeStandardPhase'', ''carCatalog.fastChargePowerMax'', ''carCatalog.batteryCapacityFull''],
      g_condition = Some \<lparr>ca_asserts = [], ca_filters = [[''OwnUser'']], ca_metadata =
        None\<rparr>\<rparr>,
    \<lparr>g_resource = E_CAR, g_action = [A_DELETE],
      g_attributes = None,
      g_condition = Some \<lparr>ca_asserts = [], ca_filters = [[''OwnUser'']], ca_metadata =
        None\<rparr>\<rparr>,
    \<lparr>g_resource = E_COMPANY, g_action = [A_LIST],
      g_attributes = Some [''id'', ''name'', ''address.address1'', ''address.address2'',
        ''address.postalCode'', ''address.city'', ''address.department'', ''address.region'',
        ''address.country'', ''address.coordinates'', ''logo'', ''issuer'', ''distanceMeters'',
        ''createdOn'', ''lastChangedOn''],
      g_condition = Some \<lparr>ca_asserts = [], ca_filters = [[''AssignedSitesCompanies'']], ca_metadata =
        None\<rparr>\<rparr>,
    \<lparr>g_resource = E_COMPANY, g_action = [A_READ],
      g_attributes = Some [''id'', ''name'', ''issuer'', ''logo'', ''address.address1'',
        ''address.address2'', ''address.postalCode'', ''address.city'', ''address.department'',
        ''address.region'', ''address.country'', ''address.coordinates''],
      g_condition = Some \<lparr>ca_asserts = [], ca_filters = [[''AssignedSitesCompanies'']], ca_metadata =
        None\<rparr>\<rparr>,
    \<lparr>g_resource = E_INVOICE, g_action = [A_LIST],
      g_attributes = Some [''id'', ''number'', ''status'', ''amount'', ''createdOn'', ''currency'',
        ''downloadable'', ''sessions''],
      g_condition = Some \<lparr>ca_asserts = [], ca_filters = [[''OwnUser'']], ca_metadata =
        None\<rparr>\<rparr>]"

definition basic_grants_2 :: "grant list" where
  "basic_grants_2 = [
    \<lparr>g_resource = E_INVOICE, g_action = [A_READ],
      g_attributes = Some [''id'', ''number'', ''status'', ''amount'', ''createdOn'', ''currency'',
        ''downloadable'', ''sessions''],
      g_condition = Some \<lparr>ca_asserts = [], ca_filters = [[''OwnUser'']], ca_metadata =
        None\<rparr>\<rparr>,
    \<lparr>g_resource = E_INVOICE, g_action = [A_DOWNLOAD],
      g_attributes = None,
      g_condition = Some \<lparr>ca_asserts = [], ca_filters = [[''OwnUser'']], ca_metadata =
        None\<rparr>\<rparr>,
    \<lparr>g_resource = E_BILLING_TRANSFER, g_action = [A_DOWNLOAD],
      g_attributes = None,
      g_condition = Some \<lparr>ca_asserts = [], ca_filters = [[''OwnUser'']], ca_metadata =
        None\<rparr>\<rparr>,
    \<lparr>g_resource = E_PAYMENT_METHOD, g_action = [A_LIST],
      g_attributes = None,
      g_condition = Some \<lparr>ca_asserts = [], ca_filters = [[''OwnUser'']], ca_metadata =
        None\<rparr>\<rparr>,
    \<lparr>g_resource = E_PAYMENT_METHOD, g_action = [A_READ, A_CREATE, A_DELETE],
      g_attributes = None,
      g_condition = Some \<lparr>ca_asserts = [], ca_filters = [[''OwnUser'']], ca_metadata =
        None\<rparr>\<rparr>,
    \<lparr>g_resource = E_SITE, g_action = [A_LIST],
      g_attributes = Some [''id'', ''name'', ''address.address1'', ''address.address2'',
        ''address.postalCode'', ''address.city'', ''address.department'', ''address.region'',
        ''address.country'', ''address.coordinates'', ''companyID'', ''company.name'',
        ''autoUserSiteAssignment'', ''issuer'', ''autoUserSiteAssignment'', ''distanceMeters'', ''public'',
        ''createdOn'', ''lastChangedOn'', ''connectorStats''],
      g_condition = Some \<lparr>ca_asserts = [], ca_filters = [[''AssignedSites'']], ca_metadata =
        None\<rparr>\<rparr>,
    \<lparr>g_resource = E_SITE, g_action = [A_READ],
      g_attributes = Some [''id'', ''name'', ''companyID'', ''company.name'', ''autoUserSiteAssignment'',
        ''issuer'', ''autoUserSiteAssignment'', ''distanceMeters'', ''public'', ''createdOn'',
        ''lastChangedOn'', ''address.address1'', ''address.address2'', ''address.postalCode'',
        ''address.city'', ''address.department'', ''address.region'', ''address.country'',
        ''address.coordinates''],
      g_condition = Some \<lparr>ca_asserts = [], ca_filters = [[''AssignedSites'']], ca_metadata =
        None\<rparr>\<rparr>,
    \<lparr>g_resource = E_SITE_AREA, g_action = [A_LIST],
      g_attributes = Some [''id'', ''name'', ''siteID'', ''maximumPower'', ''voltage'', ''numberOfPhases'',
        ''accessControl'', ''smartCharging'', ''chargingStations.id'', ''address.address1'',
        ''address.address2'', ''address.postalCode'', ''address.city'', ''address.department'',
        ''address.region'', ''address.country'', ''address.coordinates'', ''site.id'', ''site.name'',
        ''parentSiteAreaID'', ''parentSiteArea.name'', ''issuer'', ''distanceMeters'', ''createdOn'',
        ''lastChangedOn'', ''connectorStats''],
      g_condition = Some \<lparr>ca_asserts = [], ca_filters = [[''AssignedSites'']], ca_metadata =
        None\<rparr>\<rparr>,
    \<lparr>g_resource = E_SITE_AREA, g_action = [A_READ],
      g_attributes = Some [''id'', ''name'', ''issuer'', ''image'', ''maximumPower'', ''numberOfPhases'',
        ''voltage'', ''smartCharging'', ''accessControl'', ''connectorStats'', ''siteID'',
        ''smartChargingSessionParameters.departureTime'',
        ''smartChargingSessionParameters.carStateOfCharge'',
        ''smartChargingSessionParameters.targetStateOfCharge'', ''parentSiteAreaID'', ''site.name'',
        ''parentSiteArea.name'', ''address.address1'', ''address.address2'', ''address.postalCode'',
        ''address.city'', ''address.department'', ''address.region'', ''address.country'',
        ''address.coordinates''],
      g_condition = Some \<lparr>ca_asserts = [], ca_filters = [[''AssignedSites'']], ca_metadata =
        None\<rparr>\<rparr>,
    \<lparr>g_resource = E_SITE_AREA, g_action = [A_READ_CHARGING_STATIONS_FROM_SITE_AREA],
      g_attributes = Some [''id'', ''name'', ''issuer'', ''image'', ''maximumPower'', ''numberOfPhases'',
        ''voltage'', ''smartCharging'', ''accessControl'', ''connectorStats'', ''siteID'',
        ''parentSiteAreaID'', ''site.name'', ''parentSiteArea.name'', ''address.address1'',
        ''address.address2'', ''address.postalCode'', ''address.city'', ''address.department'',
        ''address.region'', ''address.country'', ''address.coordinates''],
      g_condition = Some \<lparr>ca_asserts = [], ca_filters = [[''AssignedSites'']], ca_metadata =
        None\<rparr>\<rparr>]"

definition basic_grants_3 :: "grant list" where
  "basic_grants_3 = [
    \<lparr>g_resource = E_CHARGING_STATION, g_action = [A_LIST],
      g_attributes = Some [''id'', ''inactive'', ''connectorsStatus'', ''connectorsConsumption'',
        ''public'', ''lastSeen'', ''coordinates'', ''issuer'', ''voltage'', ''distanceMeters'',
        ''siteAreaID'', ''siteArea.id'', ''siteArea.name'', ''siteArea.siteID'', ''site.name'',
        ''siteArea.address'', ''siteID'', ''maximumPower'', ''powerLimitUnit'', ''connectors.connectorId'',
        ''connectors.status'', ''connectors.type'', ''connectors.power'', ''connectors.errorCode'',
        ''connectors.currentTotalConsumptionWh'', ''connectors.currentInstantWatts'',
        ''connectors.currentStateOfCharge'', ''connectors.info'', ''connectors.vendorErrorCode'',
        ''connectors.currentTransactionID'', ''connectors.currentTotalInactivitySecs'', ''lastReboot'',
        ''createdOn'', ''companyID'', ''connectors.user.id'', ''connectors.user.name'',
        ''connectors.user.firstName'', ''connectors.user.email'', ''connectors.currentTagID'',
        ''connectors.isPrivate'', ''connectors.ownerIds'', ''ocpiData.evses.capabilities'',
        ''chargePoints.chargePointID'', ''chargePoints.currentType'', ''chargePoints.voltage'',
        ''chargePoints.amperage'', ''chargePoints.numberOfConnectedPhase'',
        ''chargePoints.cannotChargeInParallel'', ''chargePoints.sharePowerToAllConnectors'',
        ''chargePoints.excludeFromPowerLimitation'', ''chargePoints.ocppParamForPowerLimitation'',
        ''chargePoints.power'', ''chargePoints.efficiency'', ''chargePoints.connectorIDs''],
      g_condition = Some \<lparr>ca_asserts = [], ca_filters = [[''AssignedSites'']], ca_metadata =
        None\<rparr>\<rparr>,
    \<lparr>g_resource = E_CHARGING_STATION, g_action = [A_READ],
      g_attributes = Some [''id'', ''issuer'', ''public'', ''siteAreaID'', ''lastSeen'', ''inactive'',
        ''forceInactive'', ''manualConfiguration'', ''voltage'', ''coordinates'', ''chargingStationURL'',
        ''forceInactive'', ''maximumPower'', ''masterSlave'', ''chargePoints.chargePointID'',
        ''chargePoints.currentType'', ''chargePoints.voltage'', ''chargePoints.amperage'',
        ''chargePoints.numberOfConnectedPhase'', ''chargePoints.cannotChargeInParallel'',
        ''chargePoints.sharePowerToAllConnectors'', ''chargePoints.excludeFromPowerLimitation'',
        ''chargePoints.ocppParamForPowerLimitation'', ''chargePoints.power'', ''chargePoints.efficiency'',
        ''chargePoints.connectorIDs'', ''connectors.status'', ''connectors.type'', ''connectors.power'',
        ''connectors.errorCode'', ''connectors.connectorId'', ''connectors.currentTotalConsumptionWh'',
        ''connectors.isPrivate'', ''connectors.ownerIds'', ''connectors.currentInstantWatts'',
        ''connectors.currentStateOfCharge'', ''connectors.info'', ''connectors.vendorErrorCode'',
        ''connectors.currentTransactionID'', ''connectors.currentTotalInactivitySecs'',
        ''connectors.phaseAssignmentToGrid'', ''connectors.chargePointID'', ''connectors.tariffID'',
        ''connectors.currentTransactionDate'', ''connectors.currentTagID'', ''ocpiData.evses.capabilities'',
        ''siteArea'', ''site'', ''siteID''],
      g_condition = Some \<lparr>ca_asserts = [], ca_filters = [[''AssignedSites'']], ca_metadata =
        None\<rparr>\<rparr>,
    \<lparr>g_resource = E_CHARGING_STATION, g_action = [A_RESERVE_NOW, A_REMOTE_START_TRANSACTION,
      A_REMOTE_STOP_TRANSACTION, A_ASSIGN_UNASSIGN_USERS_TO_CONNECTOR],
      g_attributes = None,
      g_condition = Some \<lparr>ca_asserts = [], ca_filters = [[''AssignedSites'']], ca_metadata =
        None\<rparr>\<rparr>,
    \<lparr>g_resource = E_CHARGING_STATION, g_action = [A_START_TRANSACTION, A_STOP_TRANSACTION,
      A_AUTHORIZE, A_GET_CONNECTOR_QR_CODE],
      g_attributes = None,
      g_condition = Some \<lparr>ca_asserts = [], ca_filters = [[''AssignedSites''], [''LocalIssuer'']],
        ca_metadata = None\<rparr>\<rparr>,
    \<lparr>g_resource = E_CHARGING_STATION, g_action = [A_PUSH_TRANSACTION_CDR],
      g_attributes = None,
      g_condition = Some \<lparr>ca_asserts = [], ca_filters = [[''LocalIssuer'']], ca_metadata =
        None\<rparr>\<rparr>,
    \<lparr>g_resource = E_CHARGING_STATION, g_action = [A_VIEW_USER_DATA],
      g_attributes = None,
      g_condition = Some \<lparr>ca_asserts = [], ca_filters = [[''OwnUser'']], ca_metadata =
        None\<rparr>\<rparr>,
    \<lparr>g_resource = E_CONNECTOR, g_action = [A_START_TRANSACTION],
      g_attributes = None,
      g_condition = Some \<lparr>ca_asserts = [], ca_filters = [[''AssignedSites''], [''LocalIssuer'']],
        ca_metadata = None\<rparr>\<rparr>,
    \<lparr>g_resource = E_CONNECTOR, g_action = [A_REMOTE_STOP_TRANSACTION, A_STOP_TRANSACTION],
      g_attributes = None,
      g_condition = Some \<lparr>ca_asserts = [[''OwnUser'']], ca_filters = [[''OwnUser'']], ca_metadata =
        None\<rparr>\<rparr>,
    \<lparr>g_resource = E_CONNECTOR, g_action = [A_VIEW_USER_DATA],
      g_attributes = None,
      g_condition = Some \<lparr>ca_asserts = [], ca_filters = [[''OwnUser'']], ca_metadata =
        None\<rparr>\<rparr>,
    \<lparr>g_resource = E_CONNECTOR, g_action = [A_REMOTE_START_TRANSACTION,
      A_ASSIGN_UNASSIGN_USERS_TO_CONNECTOR],
      g_attributes = None,
      g_condition = Some \<lparr>ca_asserts = [], ca_filters = [[''AssignedSites'']], ca_metadata =
        None\<rparr>\<rparr>,
    \<lparr>g_resource = E_TAG, g_action = [A_LIST],
      g_attributes = Some [''userID'', ''active'', ''description'', ''visualID'', ''issuer'', ''default'',
        ''createdOn'', ''lastChangedOn''],
      g_condition = Some \<lparr>ca_asserts = [], ca_filters = [[''OwnUser'']], ca_metadata = Some [(''id'',
        \<lparr>fm_visible = Some False, fm_enabled = None, fm_mandatory = None\<rparr>)]\<rparr>\<rparr>]"

definition basic_grants_4 :: "grant list" where
  "basic_grants_4 = [
    \<lparr>g_resource = E_TAG, g_action = [A_READ],
      g_attributes = Some [''userID'', ''issuer'', ''active'', ''description'', ''visualID'', ''default'',
        ''user.id'', ''user.name'', ''user.firstName'', ''user.email'', ''user.issuer''],
      g_condition = Some \<lparr>ca_asserts = [], ca_filters = [[''OwnUser'']], ca_metadata =
        None\<rparr>\<rparr>,
    \<lparr>g_resource = E_EMAID, g_action = [A_READ],
      g_attributes = Some [''userID'', ''issuer'', ''active'', ''description'', ''visualID'', ''user.id'',
        ''user.name'', ''user.firstName'', ''user.email'', ''user.issuer''],
      g_condition = Some \<lparr>ca_asserts = [], ca_filters = [[''OwnUser'']], ca_metadata =
        None\<rparr>\<rparr>,
    \<lparr>g_resource = E_TAG, g_action = [A_UNASSIGN, A_UPDATE_BY_VISUAL_ID],
      g_attributes = None,
      g_condition = Some \<lparr>ca_asserts = [[''OwnUser'']], ca_filters = [[''OwnUser'']], ca_metadata =
        None\<rparr>\<rparr>,
    \<lparr>g_resource = E_TAG, g_action = [A_ASSIGN],
      g_attributes = Some [''userID'', ''description'', ''visualID'', ''default'', ''user.name'',
        ''user.firstName'', ''user.email'', ''createdOn'', ''lastChangedOn''],
      g_condition = Some \<lparr>ca_asserts = [], ca_filters = [[''LocalIssuer'']], ca_metadata =
        None\<rparr>\<rparr>,
    \<lparr>g_resource = E_EMAID, g_action = [A_UNASSIGN, A_UPDATE_BY_VISUAL_ID],
      g_attributes = None,
      g_condition = Some \<lparr>ca_asserts = [[''OwnUser'']], ca_filters = [[''OwnUser'']], ca_metadata =
        None\<rparr>\<rparr>,
    \<lparr>g_resource = E_EMAID, g_action = [A_ASSIGN],
      g_attributes = Some [''userID'', ''description'', ''visualID'', ''user.name'', ''user.firstName'',
        ''user.email'', ''createdOn'', ''lastChangedOn''],
      g_condition = Some \<lparr>ca_asserts = [], ca_filters = [[''LocalIssuer'']], ca_metadata =
        None\<rparr>\<rparr>,
    \<lparr>g_resource = E_STATISTIC, g_action = [A_READ],
      g_attributes = Some [''*''],
      g_condition = Some \<lparr>ca_asserts = [], ca_filters = [[''OwnUser'']], ca_metadata =
        None\<rparr>\<rparr>,
    \<lparr>g_resource = E_STATISTIC, g_action = [A_EXPORT],
      g_attributes = Some [''*''],
      g_condition = Some \<lparr>ca_asserts = [], ca_filters = [[''OwnUser'']], ca_metadata =
        None\<rparr>\<rparr>,
    \<lparr>g_resource = E_TRANSACTION, g_action = [A_LIST],
      g_attributes = Some [''id'', ''chargeBoxID'', ''timestamp'', ''issuer'', ''stateOfCharge'',
        ''timezone'', ''connectorId'', ''meterStart'', ''siteAreaID'', ''siteID'', ''companyID'',
        ''currentTotalDurationSecs'', ''currentTotalInactivitySecs'', ''currentInstantWatts'',
        ''currentTotalConsumptionWh'', ''currentStateOfCharge'', ''currentCumulatedPrice'',
        ''currentInactivityStatus'', ''roundedPrice'', ''price'', ''priceUnit'', ''ocpi'', ''ocpiWithCdr'',
        ''stop.roundedPrice'', ''stop.price'', ''stop.priceUnit'', ''stop.inactivityStatus'',
        ''stop.stateOfCharge'', ''stop.timestamp'', ''stop.totalConsumptionWh'', ''stop.totalDurationSecs'',
        ''stop.totalInactivitySecs'', ''stop.extraInactivitySecs'', ''stop.meterStop'', ''stop.tagID'',
        ''stop.tag.visualID'', ''stop.reason'', ''carCatalog.vehicleMake'', ''carCatalog.vehicleModel'',
        ''carCatalog.vehicleModelVersion'', ''car.licensePlate'', ''billingData.stop.invoiceNumber'',
        ''site.name'', ''siteArea.name'', ''company.name''],
      g_condition = Some \<lparr>ca_asserts = [], ca_filters = [[''OwnUser'']], ca_metadata =
        None\<rparr>\<rparr>,
    \<lparr>g_resource = E_TRANSACTION, g_action = [A_READ],
      g_attributes = Some [''id'', ''chargeBoxID'', ''timestamp'', ''issuer'', ''stateOfCharge'', ''tagID'',
        ''tag.visualID'', ''tag.description'', ''timezone'', ''connectorId'', ''meterStart'',
        ''siteAreaID'', ''siteID'', ''companyID'', ''userID'', ''user.id'', ''user.name'',
        ''user.firstName'', ''user.email'', ''roundedPrice'', ''price'', ''priceUnit'', ''stop.userID'',
        ''stop.user.id'', ''stop.user.name'', ''stop.user.firstName'', ''stop.user.email'',
        ''currentTotalDurationSecs'', ''currentTotalInactivitySecs'', ''currentInstantWatts'',
        ''currentTotalConsumptionWh'', ''currentStateOfCharge'', ''currentCumulatedPrice'',
        ''currentInactivityStatus'', ''signedData'', ''stop.reason'', ''stop.roundedPrice'', ''stop.price'',
        ''stop.priceUnit'', ''stop.inactivityStatus'', ''stop.stateOfCharge'', ''stop.timestamp'',
        ''stop.totalConsumptionWh'', ''stop.meterStop'', ''stop.totalDurationSecs'',
        ''stop.totalInactivitySecs'', ''stop.extraInactivitySecs'', ''stop.pricingSource'',
        ''stop.signedData'', ''stop.tagID'', ''stop.tag.visualID'', ''stop.tag.description'',
        ''billingData.stop.status'', ''billingData.stop.invoiceID'', ''billingData.stop.invoiceItem'',
        ''billingData.stop.invoiceStatus'', ''billingData.stop.invoiceNumber'', ''carID'', ''carCatalogID'',
        ''carCatalog.vehicleMake'', ''carCatalog.vehicleModel'', ''carCatalog.vehicleModelVersion'',
        ''car.licensePlate'', ''pricingModel''],
      g_condition = Some \<lparr>ca_asserts = [], ca_filters = [[''OwnUser'']], ca_metadata =
        None\<rparr>\<rparr>]"

definition basic_grants_5 :: "grant list" where
  "basic_grants_5 = [
    \<lparr>g_resource = E_TRANSACTION, g_action = [A_GET_CHARGING_STATION_TRANSACTIONS],
      g_attributes = Some [''id'', ''chargeBoxID'', ''timestamp'', ''issuer'', ''stateOfCharge'',
        ''timezone'', ''connectorId'', ''meterStart'', ''siteAreaID'', ''siteID'', ''companyID'',
        ''currentTotalDurationSecs'', ''currentTotalInactivitySecs'', ''currentInstantWatts'',
        ''currentTotalConsumptionWh'', ''currentStateOfCharge'', ''currentInactivityStatus'',
        ''stop.roundedPrice'', ''stop.price'', ''stop.priceUnit'', ''stop.inactivityStatus'',
        ''stop.stateOfCharge'', ''stop.timestamp'', ''stop.totalConsumptionWh'', ''stop.totalDurationSecs'',
        ''stop.totalInactivitySecs'', ''stop.extraInactivitySecs'', ''site.name'', ''siteArea.name'',
        ''company.name'', ''billingData.stop.invoiceNumber'', ''stop.reason'', ''ocpi'', ''ocpiWithCdr'',
        ''tagID'', ''stop.tagID''],
      g_condition = Some \<lparr>ca_asserts = [], ca_filters = [[''OwnUser'']], ca_metadata =
        None\<rparr>\<rparr>,
    \<lparr>g_resource = E_TRANSACTION, g_action = [A_GET_ACTIVE_TRANSACTION],
      g_attributes = Some [''id'', ''chargeBoxID'', ''timestamp'', ''issuer'', ''stateOfCharge'',
        ''timezone'', ''connectorId'', ''status'', ''meterStart'', ''siteAreaID'', ''siteID'',
        ''companyID'', ''currentTotalDurationSecs'', ''currentTotalInactivitySecs'',
        ''currentInstantWatts'', ''currentTotalConsumptionWh'', ''currentStateOfCharge'',
        ''currentCumulatedPrice'', ''currentInactivityStatus'', ''roundedPrice'', ''price'', ''priceUnit'',
        ''carCatalog.vehicleMake'', ''carCatalog.vehicleModel'', ''carCatalog.vehicleModelVersion'',
        ''site.name'', ''siteArea.name'', ''company.name'', ''car.licensePlate''],
      g_condition = Some \<lparr>ca_asserts = [], ca_filters = [[''OwnUser'']], ca_metadata =
        None\<rparr>\<rparr>,
    \<lparr>g_resource = E_TRANSACTION, g_action = [A_GET_COMPLETED_TRANSACTION],
      g_attributes = Some [''id'', ''chargeBoxID'', ''timestamp'', ''issuer'', ''stateOfCharge'',
        ''timezone'', ''connectorId'', ''meterStart'', ''siteAreaID'', ''siteID'', ''companyID'',
        ''stop.roundedPrice'', ''stop.price'', ''stop.priceUnit'', ''stop.inactivityStatus'',
        ''stop.stateOfCharge'', ''stop.timestamp'', ''stop.totalConsumptionWh'', ''stop.totalDurationSecs'',
        ''stop.totalInactivitySecs'', ''stop.extraInactivitySecs'', ''stop.meterStop'', ''stop.tagID'',
        ''stop.tag.visualID'', ''stop.reason'', ''site.name'', ''siteArea.name'', ''company.name'',
        ''carCatalog.vehicleMake'', ''carCatalog.vehicleModel'', ''carCatalog.vehicleModelVersion'',
        ''car.licensePlate'', ''billingData.stop.invoiceNumber'', ''ocpi'', ''ocpiWithCdr'',
        ''tag.ocpiToken.issuer''],
      g_condition = Some \<lparr>ca_asserts = [], ca_filters = [[''OwnUser'']], ca_metadata =
        None\<rparr>\<rparr>,
    \<lparr>g_resource = E_TRANSACTION, g_action = [A_GET_REFUND_REPORT],
      g_attributes = Some [''id'', ''userID'', ''user.id'', ''user.name'', ''user.firstName'',
        ''user.email'', ''tagID''],
      g_condition = Some \<lparr>ca_asserts = [], ca_filters = [[''OwnUser'']], ca_metadata =
        None\<rparr>\<rparr>,
    \<lparr>g_resource = E_TRANSACTION, g_action = [A_EXPORT_COMPLETED_TRANSACTION],
      g_attributes = Some [''id'', ''chargeBoxID'', ''timestamp'', ''issuer'', ''stateOfCharge'',
        ''timezone'', ''connectorId'', ''meterStart'', ''siteAreaID'', ''siteID'', ''companyID'',
        ''stop.roundedPrice'', ''stop.price'', ''stop.priceUnit'', ''stop.inactivityStatus'',
        ''stop.stateOfCharge'', ''stop.timestamp'', ''stop.totalConsumptionWh'', ''stop.totalDurationSecs'',
        ''stop.totalInactivitySecs'', ''stop.extraInactivitySecs'', ''site.name'', ''siteArea.name'',
        ''company.name'', ''billingData.stop.invoiceNumber'', ''stop.reason'', ''ocpi'', ''ocpiWithCdr'',
        ''tagID'', ''stop.tagID'', ''tag.description'', ''stop.tag.description'', ''tag.visualID'',
        ''stop.tag.visualID'', ''userID'', ''user.id'', ''user.name'', ''user.firstName'', ''user.email''],
      g_condition = Some \<lparr>ca_asserts = [], ca_filters = [[''OwnUser'']], ca_metadata =
        None\<rparr>\<rparr>,
    \<lparr>g_resource = E_TRANSACTION, g_action = [A_GET_ADVENIR_CONSUMPTION],
      g_attributes = Some [''id'', ''chargeBox.issuer'', ''chargeBox.id'', ''chargeBox.issuer'',
        ''chargeBox.public'', ''chargeBox.connectors'', ''connectorId''],
      g_condition = Some \<lparr>ca_asserts = [], ca_filters = [[''OwnUser'']], ca_metadata =
        None\<rparr>\<rparr>,
    \<lparr>g_resource = E_TRANSACTION, g_action = [A_EXPORT, A_UPDATE, A_REMOTE_STOP_TRANSACTION],
      g_attributes = None,
      g_condition = Some \<lparr>ca_asserts = [], ca_filters = [[''OwnUser'']], ca_metadata =
        None\<rparr>\<rparr>,
    \<lparr>g_resource = E_TRANSACTION, g_action = [A_VIEW_USER_DATA],
      g_attributes = None,
      g_condition = Some \<lparr>ca_asserts = [], ca_filters = [[''OwnUser'']], ca_metadata =
        None\<rparr>\<rparr>,
    \<lparr>g_resource = E_CONSUMPTION, g_action = [A_LIST],
      g_attributes = Some [''startedAt'', ''endedAt'', ''cumulatedConsumptionWh'',
        ''cumulatedConsumptionAmps'', ''cumulatedAmount'', ''stateOfCharge'', ''limitWatts'', ''limitAmps'',
        ''instantVoltsDC'', ''instantVolts'', ''instantVoltsL1'', ''instantVoltsL2'', ''instantVoltsL3'',
        ''instantWattsDC'', ''instantWatts'', ''instantWattsL1'', ''instantWattsL2'', ''instantWattsL3'',
        ''instantAmpsDC'', ''instantAmps'', ''instantAmpsL1'', ''instantAmpsL2'', ''instantAmpsL3''],
      g_condition = Some \<lparr>ca_asserts = [], ca_filters = [], ca_metadata = None\<rparr>\<rparr>]"

definition basic_grants_6 :: "grant list" where
  "basic_grants_6 = [
    \<lparr>g_resource = E_CONSUMPTION, g_action = [A_READ],
      g_attributes = Some [''startedAt'', ''endedAt'', ''cumulatedConsumptionWh'',
        ''cumulatedConsumptionAmps'', ''cumulatedAmount'', ''stateOfCharge'', ''limitWatts'', ''limitAmps'',
        ''instantVoltsDC'', ''instantVolts'', ''instantVoltsL1'', ''instantVoltsL2'', ''instantVoltsL3'',
        ''instantWattsDC'', ''instantWatts'', ''instantWattsL1'', ''instantWattsL2'', ''instantWattsL3'',
        ''instantAmpsDC'', ''instantAmps'', ''instantAmpsL1'', ''instantAmpsL2'', ''instantAmpsL3''],
      g_condition = Some \<lparr>ca_asserts = [], ca_filters = [], ca_metadata = None\<rparr>\<rparr>,
    \<lparr>g_resource = E_CONSUMPTION, g_action = [A_GET_ADVENIR_CONSUMPTION],
      g_attributes = Some [''startedAt'', ''endedAt'', ''cumulatedConsumptionWh''],
      g_condition = Some \<lparr>ca_asserts = [], ca_filters = [], ca_metadata = None\<rparr>\<rparr>,
    \<lparr>g_resource = E_CONNECTION, g_action = [A_LIST],
      g_attributes = None,
      g_condition = None\<rparr>,
    \<lparr>g_resource = E_CONNECTION, g_action = [A_CREATE],
      g_attributes = None,
      g_condition = None\<rparr>,
    \<lparr>g_resource = E_CONNECTION, g_action = [A_READ, A_DELETE],
      g_attributes = None,
      g_condition = Some \<lparr>ca_asserts = [], ca_filters = [[''OwnUser'']], ca_metadata =
        None\<rparr>\<rparr>,
    \<lparr>g_resource = E_NOTIFICATION, g_action = [A_CREATE],
      g_attributes = None,
      g_condition = None\<rparr>]"

definition basic_role :: role_definition where
  "basic_role = \<lparr>rd_extend = [],
     rd_grants = basic_grants_1 @ basic_grants_2 @ basic_grants_3 @ basic_grants_4 @ basic_grants_5 @ basic_grants_6\<rparr>"

section \<open>demo\<close>

definition demo_grants_1 :: "grant list" where
  "demo_grants_1 = [
    \<lparr>g_resource = E_USER, g_action = [A_READ],
      g_attributes = Some [''id'', ''name'', ''firstName'', ''email'', ''issuer'', ''locale'',
        ''notificationsActive'', ''notifications'', ''phone'', ''mobile'', ''iNumber'', ''costCenter'',
        ''address.address1'', ''address.address2'', ''address.postalCode'', ''address.city'',
        ''address.department'', ''address.region'', ''address.country'', ''address.coordinates''],
      g_condition = Some \<lparr>ca_asserts = [], ca_filters = [[''OwnUser'']], ca_metadata =
        None\<rparr>\<rparr>,
    \<lparr>g_resource = E_ASSET, g_action = [A_LIST],
      g_attributes = Some [''id'', ''name'', ''siteAreaID'', ''siteArea.id'', ''siteArea.name'',
        ''siteArea.siteID'', ''siteID'', ''assetType'', ''coordinates'', ''dynamicAsset'', ''connectionID'',
        ''meterID'', ''currentInstantWatts'', ''currentStateOfCharge'', ''site.id'', ''site.name''],
      g_condition = None\<rparr>,
    \<lparr>g_resource = E_ASSET, g_action = [A_READ],
      g_attributes = None,
      g_condition = None\<rparr>,
    \<lparr>g_resource = E_ASSET, g_action = [A_READ_CONSUMPTION],
      g_attributes = Some [''id'', ''name'', ''siteAreaID'', ''siteArea.id'', ''siteArea.name'',
        ''siteArea.siteID'', ''siteID'', ''assetType'', ''coordinates'', ''dynamicAsset'', ''connectionID'',
        ''meterID'', ''currentInstantWatts'', ''currentStateOfCharge'', ''startedAt'', ''instantWatts'',
        ''instantAmps'', ''limitWatts'', ''limitAmps'', ''endedAt'', ''stateOfCharge''],
      g_condition = Some \<lparr>ca_asserts = [], ca_filters = [], ca_metadata = None\<rparr>\<rparr>,
    \<lparr>g_resource = E_SETTING, g_action = [A_READ],
      g_attributes = None,
      g_condition = None\<rparr>,
    \<lparr>g_resource = E_CAR_CATALOG, g_action = [A_LIST],
      g_attributes = Some [''id'', ''vehicleModel'', ''vehicleMake'', ''vehicleModelVersion'',
        ''batteryCapacityFull'', ''fastchargeChargeSpeed'', ''performanceTopspeed'',
        ''performanceAcceleration'', ''rangeWLTP'', ''rangeReal'', ''efficiencyReal'', ''image'',
        ''chargeStandardPower'', ''chargeStandardPhase'', ''chargeStandardPhaseAmp'', ''chargePlug'',
        ''fastChargePlug'', ''chargeStandardPhase'', ''fastChargePowerMax'', ''drivetrainPowerHP''],
      g_condition = None\<rparr>,
    \<lparr>g_resource = E_CAR_CATALOG, g_action = [A_READ],
      g_attributes = Some [''id'', ''vehicleModel'', ''vehicleMake'', ''vehicleModelVersion'',
        ''batteryCapacityFull'', ''fastchargeChargeSpeed'', ''performanceTopspeed'',
        ''performanceAcceleration'', ''rangeWLTP'', ''rangeReal'', ''efficiencyReal'',
        ''drivetrainPropulsion'', ''drivetrainTorque'', ''batteryCapacityUseable'', ''chargePlug'',
        ''fastChargePlug'', ''fastChargePowerMax'', ''chargePlugLocation'', ''drivetrainPowerHP'',
        ''chargeStandardChargeSpeed'', ''chargeStandardChargeTime'', ''miscSeats'', ''miscBody'',
        ''miscIsofix'', ''miscTurningCircle'', ''miscSegment'', ''miscIsofixSeats'',
        ''chargeStandardPower'', ''chargeStandardPhase'', ''hash'', ''image'', ''chargeStandardPhase''],
      g_condition = None\<rparr>,
    \<lparr>g_resource = E_CAR, g_action = [A_READ],
      g_attributes = Some [''id'', ''type'', ''vin'', ''licensePlate'', ''converter'', ''default'',
        ''carCatalogID'', ''carCatalog.vehicleMake'', ''carCatalog.vehicleModel'',
        ''carCatalog.vehicleModelVersion'', ''carCatalog.image'', ''carCatalog.chargeStandardPower'',
        ''carCatalog.chargeStandardPhaseAmp'', ''carCatalog.chargeStandardPhase'',
        ''carCatalog.fastChargePowerMax'', ''carCatalog.batteryCapacityFull''],
      g_condition = None\<rparr>,
    \<lparr>g_resource = E_CAR, g_action = [A_LIST],
      g_attributes = Some [''id'', ''type'', ''vin'', ''licensePlate'', ''converter'', ''default'',
        ''carCatalog.id'', ''carCatalog.vehicleMake'', ''carCatalog.vehicleModel'',
        ''carCatalog.vehicleModelVersion'', ''carCatalog.image'', ''carCatalog.fastChargePowerMax'',
        ''carCatalog.batteryCapacityFull'', ''carConnectorData.carConnectorID'',
        ''carConnectorData.carConnectorMeterID''],
      g_condition = None\<rparr>,
    \<lparr>g_resource = E_COMPANY, g_action = [A_LIST],
      g_attributes = Some [''id'', ''name'', ''address.address1'', ''address.address2'',
        ''address.postalCode'', ''address.city'', ''address.department'', ''address.region'',
        ''address.country'', ''address.coordinates'', ''logo'', ''issuer'', ''distanceMeters''],
      g_condition = None\<rparr>,
    \<lparr>g_resource = E_COMPANY, g_action = [A_READ],
      g_attributes = Some [''id'', ''name'', ''issuer'', ''logo'', ''address.address1'',
        ''address.address2'', ''address.postalCode'', ''address.city'', ''address.department'',
        ''address.region'', ''address.country'', ''address.coordinates''],
      g_condition = None\<rparr>,
    \<lparr>g_resource = E_SITE, g_action = [A_LIST],
      g_attributes = Some [''id'', ''name'', ''address.address1'', ''address.address2'',
        ''address.postalCode'', ''address.city'', ''address.department'', ''address.region'',
        ''address.country'', ''address.coordinates'', ''companyID'', ''company.name'',
        ''autoUserSiteAssignment'', ''issuer'', ''autoUserSiteAssignment'', ''distanceMeters'', ''public'',
        ''connectorStats''],
      g_condition = None\<rparr>,
    \<lparr>g_resource = E_SITE, g_action = [A_READ],
      g_attributes = Some [''id'', ''name'', ''companyID'', ''company.name'', ''autoUserSiteAssignment'',
        ''issuer'', ''autoUserSiteAssignment'', ''distanceMeters'', ''public'', ''address.address1'',
        ''address.address2'', ''address.postalCode'', ''address.city'', ''address.department'',
        ''address.region'', ''address.country'', ''address.coordinates''],
      g_condition = None\<rparr>,
    \<lparr>g_resource = E_SITE_AREA, g_action = [A_LIST],
      g_attributes = Some [''id'', ''name'', ''siteID'', ''maximumPower'', ''voltage'', ''numberOfPhases'',
        ''accessControl'', ''smartCharging'', ''chargingStations.id'', ''address.address1'',
        ''address.address2'', ''address.postalCode'', ''address.city'', ''address.department'',
        ''address.region'', ''address.country'', ''address.coordinates'', ''site.id'', ''site.name'',
        ''parentSiteAreaID'', ''parentSiteArea.name'', ''issuer'', ''distanceMeters'', ''connectorStats''],
      g_condition = None\<rparr>,
    \<lparr>g_resource = E_SITE_AREA, g_action = [A_READ],
      g_attributes = Some [''id'', ''name'', ''issuer'', ''image'', ''maximumPower'', ''numberOfPhases'',
        ''voltage'', ''smartCharging'', ''accessControl'', ''connectorStats'',
        ''smartChargingSessionParameters.departureTime'',
        ''smartChargingSessionParameters.carStateOfCharge'',
        ''smartChargingSessionParameters.targetStateOfCharge'', ''siteID'', ''parentSiteAreaID'',
        ''site.name'', ''parentSiteArea.name'', ''address.address1'', ''address.address2'',
        ''address.postalCode'', ''address.city'', ''address.department'', ''address.region'',
        ''address.country'', ''address.coordinates''],
      g_condition = None\<rparr>]"

definition demo_grants_2 :: "grant list" where
  "demo_grants_2 = [
    \<lparr>g_resource = E_CHARGING_STATION, g_action = [A_LIST],
      g_attributes = Some [''id'', ''inactive'', ''connectorsStatus'', ''connectorsConsumption'',
        ''public'', ''lastSeen'', ''coordinates'', ''issuer'', ''voltage'', ''distanceMeters'',
        ''siteAreaID'', ''siteArea.id'', ''siteArea.name'', ''siteArea.siteID'', ''site.name'',
        ''siteArea.address'', ''siteID'', ''maximumPower'', ''powerLimitUnit'', ''connectors.connectorId'',
        ''connectors.status'', ''connectors.type'', ''connectors.power'', ''connectors.errorCode'',
        ''connectors.currentTotalConsumptionWh'', ''connectors.currentInstantWatts'',
        ''connectors.currentStateOfCharge'', ''connectors.info'', ''connectors.vendorErrorCode'',
        ''connectors.isPrivate'', ''connectors.ownerIds'', ''connectors.currentTransactionID'',
        ''connectors.currentTotalInactivitySecs'', ''lastReboot'', ''createdOn'', ''companyID'',
        ''ocpiData.evses.capabilities'', ''chargePoints.chargePointID'', ''chargePoints.currentType'',
        ''chargePoints.voltage'', ''chargePoints.amperage'', ''chargePoints.numberOfConnectedPhase'',
        ''chargePoints.cannotChargeInParallel'', ''chargePoints.sharePowerToAllConnectors'',
        ''chargePoints.excludeFromPowerLimitation'', ''chargePoints.ocppParamForPowerLimitation'',
        ''chargePoints.power'', ''chargePoints.efficiency'', ''chargePoints.connectorIDs''],
      g_condition = Some \<lparr>ca_asserts = [], ca_filters = [[''AssignedSites'']], ca_metadata =
        None\<rparr>\<rparr>,
    \<lparr>g_resource = E_CHARGING_STATION, g_action = [A_READ],
      g_attributes = Some [''id'', ''issuer'', ''public'', ''siteAreaID'', ''lastSeen'', ''inactive'',
        ''forceInactive'', ''manualConfiguration'', ''voltage'', ''coordinates'', ''chargingStationURL'',
        ''forceInactive'', ''maximumPower'', ''masterSlave'', ''chargePoints.chargePointID'',
        ''chargePoints.currentType'', ''chargePoints.voltage'', ''chargePoints.amperage'',
        ''chargePoints.numberOfConnectedPhase'', ''chargePoints.cannotChargeInParallel'',
        ''chargePoints.sharePowerToAllConnectors'', ''chargePoints.excludeFromPowerLimitation'',
        ''chargePoints.ocppParamForPowerLimitation'', ''chargePoints.power'', ''chargePoints.efficiency'',
        ''chargePoints.connectorIDs'', ''connectors.status'', ''connectors.type'', ''connectors.power'',
        ''connectors.errorCode'', ''connectors.connectorId'', ''connectors.currentTotalConsumptionWh'',
        ''connectors.isPrivate'', ''connectors.ownerIds'', ''connectors.currentInstantWatts'',
        ''connectors.currentStateOfCharge'', ''connectors.info'', ''connectors.vendorErrorCode'',
        ''connectors.currentTransactionID'', ''connectors.currentTotalInactivitySecs'',
        ''connectors.phaseAssignmentToGrid'', ''connectors.chargePointID'', ''connectors.tariffID'',
        ''connectors.currentTransactionDate'', ''connectors.currentTagID'', ''ocpiData.evses.capabilities'',
        ''siteArea'', ''site'', ''siteID''],
      g_condition = Some \<lparr>ca_asserts = [], ca_filters = [[''AssignedSites'']], ca_metadata =
        None\<rparr>\<rparr>,
    \<lparr>g_resource = E_CHARGING_STATION, g_action = [A_GET_CONNECTOR_QR_CODE],
      g_attributes = None,
      g_condition = None\<rparr>,
    \<lparr>g_resource = E_CHARGING_STATION, g_action = [A_PUSH_TRANSACTION_CDR],
      g_attributes = None,
      g_condition = Some \<lparr>ca_asserts = [], ca_filters = [[''LocalIssuer'']], ca_metadata =
        None\<rparr>\<rparr>,
    \<lparr>g_resource = E_STATISTIC, g_action = [A_READ],
      g_attributes = Some [''*''],
      g_condition = Some \<lparr>ca_asserts = [], ca_filters = [[''AssignedSites'']], ca_metadata =
        None\<rparr>\<rparr>,
    \<lparr>g_resource = E_STATISTIC, g_action = [A_EXPORT],
      g_attributes = Some [''*''],
      g_condition = Some \<lparr>ca_asserts = [], ca_filters = [[''AssignedSites'']], ca_metadata =
        None\<rparr>\<rparr>,
    \<lparr>g_resource = E_TRANSACTION, g_action = [A_LIST],
      g_attributes = Some [''id'', ''chargeBoxID'', ''timestamp'', ''issuer'', ''stateOfCharge'',
        ''timezone'', ''connectorId'', ''meterStart'', ''siteAreaID'', ''siteID'', ''companyID'',
        ''currentTotalDurationSecs'', ''currentTotalInactivitySecs'', ''currentInstantWatts'',
        ''currentTotalConsumptionWh'', ''currentStateOfCharge'', ''currentCumulatedPrice'',
        ''currentInactivityStatus'', ''roundedPrice'', ''price'', ''priceUnit'', ''ocpi'', ''ocpiWithCdr'',
        ''stop.roundedPrice'', ''stop.price'', ''stop.priceUnit'', ''stop.inactivityStatus'',
        ''stop.stateOfCharge'', ''stop.timestamp'', ''stop.totalConsumptionWh'', ''stop.totalDurationSecs'',
        ''stop.totalInactivitySecs'', ''stop.extraInactivitySecs'', ''stop.meterStop'', ''stop.tagID'',
        ''stop.tag.visualID'', ''stop.reason'', ''billingData.stop.invoiceNumber'', ''tagID'',
        ''tag.visualID'', ''tag.description'', ''site.name'', ''siteArea.name'', ''company.name'',
        ''carID'', ''carCatalogID'', ''carCatalog.vehicleMake'', ''carCatalog.vehicleModel'',
        ''carCatalog.vehicleModelVersion''],
      g_condition = Some \<lparr>ca_asserts = [], ca_filters = [[''AssignedSites'']], ca_metadata =
        None\<rparr>\<rparr>,
    \<lparr>g_resource = E_TRANSACTION, g_action = [A_READ],
      g_attributes = Some [''id'', ''chargeBoxID'', ''timestamp'', ''issuer'', ''stateOfCharge'', ''tagID'',
        ''tag.visualID'', ''tag.description'', ''timezone'', ''connectorId'', ''meterStart'',
        ''siteAreaID'', ''siteID'', ''companyID'', ''userID'', ''user.id'', ''user.name'',
        ''user.firstName'', ''user.email'', ''roundedPrice'', ''price'', ''priceUnit'', ''stop.userID'',
        ''stop.user.id'', ''stop.user.name'', ''stop.user.firstName'', ''stop.user.email'',
        ''currentTotalDurationSecs'', ''currentTotalInactivitySecs'', ''currentInstantWatts'',
        ''currentTotalConsumptionWh'', ''currentStateOfCharge'', ''currentCumulatedPrice'',
        ''currentInactivityStatus'', ''signedData'', ''stop.reason'', ''stop.roundedPrice'', ''stop.price'',
        ''stop.priceUnit'', ''stop.inactivityStatus'', ''stop.stateOfCharge'', ''stop.timestamp'',
        ''stop.totalConsumptionWh'', ''stop.meterStop'', ''stop.totalDurationSecs'',
        ''stop.totalInactivitySecs'', ''stop.extraInactivitySecs'', ''stop.pricingSource'',
        ''stop.signedData'', ''stop.tagID'', ''stop.tag.visualID'', ''stop.tag.description'',
        ''billingData.stop.status'', ''billingData.stop.invoiceID'', ''billingData.stop.invoiceItem'',
        ''billingData.stop.invoiceStatus'', ''billingData.stop.invoiceNumber'', ''carID'', ''carCatalogID'',
        ''carCatalog.vehicleMake'', ''carCatalog.vehicleModel'', ''carCatalog.vehicleModelVersion'',
        ''car.licensePlate'', ''pricingModel''],
      g_condition = Some \<lparr>ca_asserts = [], ca_filters = [[''AssignedSites'']], ca_metadata =
        None\<rparr>\<rparr>,
    \<lparr>g_resource = E_TRANSACTION, g_action = [A_GET_CHARGING_STATION_TRANSACTIONS],
      g_attributes = Some [''id'', ''chargeBoxID'', ''timestamp'', ''issuer'', ''stateOfCharge'',
        ''timezone'', ''connectorId'', ''meterStart'', ''siteAreaID'', ''siteID'', ''companyID'',
        ''currentTotalDurationSecs'', ''currentTotalInactivitySecs'', ''currentInstantWatts'',
        ''currentTotalConsumptionWh'', ''currentStateOfCharge'', ''currentInactivityStatus'',
        ''stop.roundedPrice'', ''stop.price'', ''stop.priceUnit'', ''stop.inactivityStatus'',
        ''stop.stateOfCharge'', ''stop.timestamp'', ''stop.totalConsumptionWh'', ''stop.totalDurationSecs'',
        ''stop.totalInactivitySecs'', ''stop.extraInactivitySecs'', ''site.name'', ''siteArea.name'',
        ''company.name'', ''billingData.stop.invoiceNumber'', ''stop.reason'', ''ocpi'', ''ocpiWithCdr'',
        ''tagID'', ''stop.tagID''],
      g_condition = Some \<lparr>ca_asserts = [], ca_filters = [[''AssignedSites'']], ca_metadata =
        None\<rparr>\<rparr>]"

definition demo_grants_3 :: "grant list" where
  "demo_grants_3 = [
    \<lparr>g_resource = E_TRANSACTION, g_action = [A_GET_ACTIVE_TRANSACTION],
      g_attributes = Some [''id'', ''chargeBoxID'', ''timestamp'', ''issuer'', ''stateOfCharge'',
        ''timezone'', ''connectorId'', ''status'', ''meterStart'', ''siteAreaID'', ''siteID'',
        ''companyID'', ''currentTotalDurationSecs'', ''currentTotalInactivitySecs'',
        ''currentInstantWatts'', ''currentTotalConsumptionWh'', ''currentStateOfCharge'',
        ''currentCumulatedPrice'', ''currentInactivityStatus'', ''roundedPrice'', ''price'', ''priceUnit'',
        ''tagID'', ''tag.visualID'', ''tag.description'', ''site.name'', ''siteArea.name'',
        ''company.name''],
      g_condition = Some \<lparr>ca_asserts = [], ca_filters = [[''AssignedSites'']], ca_metadata =
        None\<rparr>\<rparr>,
    \<lparr>g_resource = E_TRANSACTION, g_action = [A_GET_COMPLETED_TRANSACTION],
      g_attributes = Some [''id'', ''chargeBoxID'', ''timestamp'', ''issuer'', ''stateOfCharge'',
        ''timezone'', ''connectorId'', ''meterStart'', ''siteAreaID'', ''siteID'', ''companyID'',
        ''stop.roundedPrice'', ''stop.price'', ''stop.priceUnit'', ''stop.inactivityStatus'',
        ''stop.stateOfCharge'', ''stop.timestamp'', ''stop.totalConsumptionWh'', ''stop.totalDurationSecs'',
        ''stop.totalInactivitySecs'', ''stop.extraInactivitySecs'', ''stop.meterStop'', ''site.name'',
        ''siteArea.name'', ''company.name'', ''billingData.stop.invoiceNumber'', ''stop.reason'', ''ocpi'',
        ''ocpiWithCdr'', ''tagID'', ''tag.visualID'', ''tag.description'', ''stop.tagID'',
        ''stop.tag.visualID'', ''tag.ocpiToken.issuer''],
      g_condition = Some \<lparr>ca_asserts = [], ca_filters = [[''AssignedSites'']], ca_metadata =
        None\<rparr>\<rparr>,
    \<lparr>g_resource = E_TRANSACTION, g_action = [A_GET_REFUND_REPORT],
      g_attributes = Some [''id'', ''userID'', ''user.id'', ''user.name'', ''user.firstName'',
        ''user.email'', ''tagID''],
      g_condition = Some \<lparr>ca_asserts = [], ca_filters = [[''AssignedSites'']], ca_metadata =
        None\<rparr>\<rparr>,
    \<lparr>g_resource = E_TRANSACTION, g_action = [A_EXPORT_COMPLETED_TRANSACTION],
      g_attributes = Some [''id'', ''chargeBoxID'', ''timestamp'', ''issuer'', ''stateOfCharge'',
        ''timezone'', ''connectorId'', ''meterStart'', ''siteAreaID'', ''siteID'', ''companyID'',
        ''stop.roundedPrice'', ''stop.price'', ''stop.priceUnit'', ''stop.inactivityStatus'',
        ''stop.stateOfCharge'', ''stop.timestamp'', ''stop.totalConsumptionWh'', ''stop.totalDurationSecs'',
        ''stop.totalInactivitySecs'', ''stop.extraInactivitySecs'', ''site.name'', ''siteArea.name'',
        ''company.name'', ''billingData.stop.invoiceNumber'', ''stop.reason'', ''ocpi'', ''ocpiWithCdr'',
        ''tag.description'', ''stop.tag.description'', ''tag.visualID'', ''stop.tag.visualID''],
      g_condition = Some \<lparr>ca_asserts = [], ca_filters = [[''AssignedSites'']], ca_metadata =
        None\<rparr>\<rparr>,
    \<lparr>g_resource = E_TRANSACTION, g_action = [A_EXPORT, A_UPDATE],
      g_attributes = None,
      g_condition = Some \<lparr>ca_asserts = [], ca_filters = [[''AssignedSites'']], ca_metadata =
        None\<rparr>\<rparr>,
    \<lparr>g_resource = E_TRANSACTION, g_action = [A_VIEW_USER_DATA],
      g_attributes = None,
      g_condition = Some \<lparr>ca_asserts = [], ca_filters = [[''OwnUser'']], ca_metadata =
        None\<rparr>\<rparr>,
    \<lparr>g_resource = E_CONSUMPTION, g_action = [A_LIST],
      g_attributes = Some [''startedAt'', ''endedAt'', ''cumulatedConsumptionWh'',
        ''cumulatedConsumptionAmps'', ''cumulatedAmount'', ''stateOfCharge'', ''limitWatts'', ''limitAmps'',
        ''instantVoltsDC'', ''instantVolts'', ''instantVoltsL1'', ''instantVoltsL2'', ''instantVoltsL3'',
        ''instantWattsDC'', ''instantWatts'', ''instantWattsL1'', ''instantWattsL2'', ''instantWattsL3'',
        ''instantAmpsDC'', ''instantAmps'', ''instantAmpsL1'', ''instantAmpsL2'', ''instantAmpsL3''],
      g_condition = Some \<lparr>ca_asserts = [], ca_filters = [[''OwnUser'']], ca_metadata =
        None\<rparr>\<rparr>,
    \<lparr>g_resource = E_CONSUMPTION, g_action = [A_READ],
      g_attributes = Some [''startedAt'', ''endedAt'', ''cumulatedConsumptionWh'',
        ''cumulatedConsumptionAmps'', ''cumulatedAmount'', ''stateOfCharge'', ''limitWatts'', ''limitAmps'',
        ''instantVoltsDC'', ''instantVolts'', ''instantVoltsL1'', ''instantVoltsL2'', ''instantVoltsL3'',
        ''instantWattsDC'', ''instantWatts'', ''instantWattsL1'', ''instantWattsL2'', ''instantWattsL3'',
        ''instantAmpsDC'', ''instantAmps'', ''instantAmpsL1'', ''instantAmpsL2'', ''instantAmpsL3''],
      g_condition = Some \<lparr>ca_asserts = [], ca_filters = [[''OwnUser'']], ca_metadata =
        None\<rparr>\<rparr>]"

definition demo_role :: role_definition where
  "demo_role = \<lparr>rd_extend = [],
     rd_grants = demo_grants_1 @ demo_grants_2 @ demo_grants_3\<rparr>"

section \<open>siteAdmin\<close>

definition siteAdmin_grants_1 :: "grant list" where
  "siteAdmin_grants_1 = [
    \<lparr>g_resource = E_TAG, g_action = [A_ASSIGN, A_UNASSIGN, A_UPDATE_BY_VISUAL_ID],
      g_attributes = None,
      g_condition = Some \<lparr>ca_asserts = [], ca_filters = [[''ExcludeAction'']], ca_metadata =
        None\<rparr>\<rparr>,
    \<lparr>g_resource = E_EMAID, g_action = [A_ASSIGN, A_UNASSIGN, A_UPDATE_BY_VISUAL_ID],
      g_attributes = None,
      g_condition = Some \<lparr>ca_asserts = [], ca_filters = [[''ExcludeAction'']], ca_metadata =
        None\<rparr>\<rparr>,
    \<lparr>g_resource = E_USER, g_action = [A_LIST],
      g_attributes = Some [''id'', ''name'', ''firstName'', ''email'', ''role'', ''status'', ''issuer'',
        ''createdOn'', ''lastChangedOn'', ''eulaAcceptedOn'', ''eulaAcceptedVersion'', ''locale'',
        ''billingData.customerID'', ''billingData.lastChangedOn'', ''technical''],
      g_condition = Some \<lparr>ca_asserts = [], ca_filters = [[''SitesAdmin''], [''LocalIssuer'']],
        ca_metadata = Some [(''status'', \<lparr>fm_visible = Some True, fm_enabled = None, fm_mandatory =
        Some True\<rparr>)]\<rparr>\<rparr>,
    \<lparr>g_resource = E_USER, g_action = [A_READ],
      g_attributes = Some [''id'', ''name'', ''firstName'', ''email'', ''role'', ''status'', ''issuer'',
        ''locale'', ''plateID'', ''notificationsActive'', ''notifications'', ''phone'', ''mobile'',
        ''iNumber'', ''costCenter'', ''technical'', ''address.address1'', ''address.address2'',
        ''address.postalCode'', ''address.city'', ''address.department'', ''address.region'',
        ''address.country'', ''address.coordinates''],
      g_condition = Some \<lparr>ca_asserts = [], ca_filters = [[''SitesAdmin''], [''LocalIssuer'']],
        ca_metadata = None\<rparr>\<rparr>,
    \<lparr>g_resource = E_USER, g_action = [A_CREATE],
      g_attributes = Some [''id'', ''name'', ''firstName'', ''email'', ''role'', ''status'', ''issuer'',
        ''locale'', ''plateID'', ''notificationsActive'', ''notifications'', ''phone'', ''mobile'',
        ''iNumber'', ''costCenter'', ''technical'', ''address.address1'', ''address.address2'',
        ''address.postalCode'', ''address.city'', ''address.department'', ''address.region'',
        ''address.country'', ''address.coordinates''],
      g_condition = Some \<lparr>ca_asserts = [[''BasicUser'']], ca_filters = [[''SitesAdmin'']],
        ca_metadata = None\<rparr>\<rparr>,
    \<lparr>g_resource = E_USER, g_action = [A_UPDATE],
      g_attributes = Some [''id'', ''name'', ''firstName'', ''email'', ''role'', ''status'', ''issuer'',
        ''locale'', ''plateID'', ''notificationsActive'', ''notifications'', ''phone'', ''mobile'',
        ''iNumber'', ''costCenter'', ''technical'', ''address.address1'', ''address.address2'',
        ''address.postalCode'', ''address.city'', ''address.department'', ''address.region'',
        ''address.country'', ''address.coordinates''],
      g_condition = Some \<lparr>ca_asserts = [[''BasicUser'']], ca_filters = [[''SitesAdmin''],
        [''LocalIssuer'']], ca_metadata = None\<rparr>\<rparr>,
    \<lparr>g_resource = E_USER, g_action = [A_SYNCHRONIZE_BILLING_USER],
      g_attributes = None,
      g_condition = None\<rparr>,
    \<lparr>g_resource = E_USER, g_action = [A_DELETE],
      g_attributes = None,
      g_condition = Some \<lparr>ca_asserts = [[''BasicUser'']], ca_filters = [[''-OwnUser''],
        [''SitesAdmin''], [''LocalIssuer'']], ca_metadata = None\<rparr>\<rparr>,
    \<lparr>g_resource = E_USER_SITE, g_action = [A_ASSIGN_SITES_TO_USER, A_UNASSIGN_SITES_FROM_USER,
      A_READ, A_UPDATE, A_LIST],
      g_attributes = Some [''site.id'', ''site.name'', ''site.address.city'', ''site.address.country'',
        ''siteAdmin'', ''siteOwner'', ''userID''],
      g_condition = Some \<lparr>ca_asserts = [], ca_filters = [[''SitesAdminOrOwner''], [''LocalIssuer'']],
        ca_metadata = None\<rparr>\<rparr>,
    \<lparr>g_resource = E_USER, g_action = [A_ASSIGN_UNASSIGN_SITES],
      g_attributes = Some [''id''],
      g_condition = Some \<lparr>ca_asserts = [], ca_filters = [[''SitesAdminOrOwner''], [''LocalIssuer'']],
        ca_metadata = None\<rparr>\<rparr>,
    \<lparr>g_resource = E_SITE_USER, g_action = [A_ASSIGN_USERS_TO_SITE, A_UNASSIGN_USERS_FROM_SITE,
      A_READ, A_UPDATE, A_LIST],
      g_attributes = Some [''user.id'', ''user.name'', ''user.firstName'', ''user.email'', ''user.role'',
        ''siteID'', ''siteAdmin'', ''siteOwner''],
      g_condition = Some \<lparr>ca_asserts = [], ca_filters = [[''SitesAdminOrOwner''], [''LocalIssuer'']],
        ca_metadata = None\<rparr>\<rparr>]"

definition siteAdmin_grants_2 :: "grant list" where
  "siteAdmin_grants_2 = [
    \<lparr>g_resource = E_SITE, g_action = [A_ASSIGN_UNASSIGN_USERS],
      g_attributes = Some [''id''],
      g_condition = Some \<lparr>ca_asserts = [], ca_filters = [[''SitesAdminOrOwner''], [''LocalIssuer'']],
        ca_metadata = None\<rparr>\<rparr>,
    \<lparr>g_resource = E_SITE, g_action = [A_UPDATE, A_MAINTAIN_PRICING_DEFINITIONS,
      A_EXPORT_OCPP_PARAMS],
      g_attributes = None,
      g_condition = Some \<lparr>ca_asserts = [], ca_filters = [[''SitesAdmin''], [''LocalIssuer'']],
        ca_metadata = None\<rparr>\<rparr>,
    \<lparr>g_resource = E_SITE, g_action = [A_LIST],
      g_attributes = Some [''id'', ''name'', ''address.address1'', ''address.address2'',
        ''address.postalCode'', ''address.city'', ''address.department'', ''address.region'',
        ''address.country'', ''tariffID'', ''address.coordinates'', ''companyID'', ''company.name'',
        ''autoUserSiteAssignment'', ''issuer'', ''autoUserSiteAssignment'', ''distanceMeters'', ''public'',
        ''createdOn'', ''lastChangedOn'', ''connectorStats''],
      g_condition = Some \<lparr>ca_asserts = [], ca_filters = [[''AssignedSites'']], ca_metadata =
        None\<rparr>\<rparr>,
    \<lparr>g_resource = E_SITE, g_action = [A_READ],
      g_attributes = Some [''id'', ''name'', ''companyID'', ''company.name'', ''autoUserSiteAssignment'',
        ''issuer'', ''autoUserSiteAssignment'', ''distanceMeters'', ''public'', ''createdOn'',
        ''lastChangedOn'', ''tariffID'', ''ownerName'', ''address.address1'', ''address.address2'',
        ''address.postalCode'', ''address.city'', ''address.department'', ''address.region'',
        ''address.country'', ''address.coordinates''],
      g_condition = Some \<lparr>ca_asserts = [], ca_filters = [], ca_metadata = Some
        [(''autoUserSiteAssignment'', \<lparr>fm_visible = None, fm_enabled = Some False, fm_mandatory =
        None\<rparr>)]\<rparr>\<rparr>,
    \<lparr>g_resource = E_SITE_AREA, g_action = [A_CREATE],
      g_attributes = None,
      g_condition = None\<rparr>,
    \<lparr>g_resource = E_SITE_AREA, g_action = [A_UPDATE, A_DELETE, A_UNASSIGN_ASSETS_FROM_SITE_AREA,
      A_UNASSIGN_CHARGING_STATIONS_FROM_SITE_AREA, A_EXPORT_OCPP_PARAMS],
      g_attributes = None,
      g_condition = Some \<lparr>ca_asserts = [], ca_filters = [[''SitesAdmin''], [''LocalIssuer'']],
        ca_metadata = None\<rparr>\<rparr>,
    \<lparr>g_resource = E_SITE_AREA, g_action = [A_LIST],
      g_attributes = Some [''id'', ''name'', ''siteID'', ''maximumPower'', ''voltage'', ''numberOfPhases'',
        ''accessControl'', ''smartCharging'', ''chargingStations.id'', ''address.address1'',
        ''address.address2'', ''address.postalCode'', ''address.city'', ''address.department'',
        ''address.region'', ''address.country'', ''tariffID'', ''address.coordinates'', ''site.id'',
        ''site.name'', ''parentSiteAreaID'', ''parentSiteArea.name'', ''issuer'', ''distanceMeters'',
        ''createdOn'', ''lastChangedOn'', ''connectorStats''],
      g_condition = Some \<lparr>ca_asserts = [], ca_filters = [[''AssignedSites'']], ca_metadata =
        None\<rparr>\<rparr>,
    \<lparr>g_resource = E_SITE_AREA, g_action = [A_READ],
      g_attributes = Some [''id'', ''name'', ''issuer'', ''image'', ''maximumPower'', ''numberOfPhases'',
        ''voltage'', ''smartCharging'', ''accessControl'', ''connectorStats'',
        ''smartChargingSessionParameters.departureTime'',
        ''smartChargingSessionParameters.carStateOfCharge'',
        ''smartChargingSessionParameters.targetStateOfCharge'', ''siteID'', ''site.name'', ''site.public'',
        ''tariffID'', ''address.address1'', ''address.address2'', ''address.postalCode'', ''address.city'',
        ''address.department'', ''address.region'', ''address.country'', ''address.coordinates''],
      g_condition = None\<rparr>,
    \<lparr>g_resource = E_SITE_AREA, g_action = [A_READ_ASSETS_FROM_SITE_AREA],
      g_attributes = Some [''id'', ''name'', ''issuer'', ''image'', ''maximumPower'', ''numberOfPhases'',
        ''voltage'', ''smartCharging'', ''accessControl'', ''connectorStats'', ''siteID'', ''site.name'',
        ''address.address1'', ''address.address2'', ''address.postalCode'', ''address.city'',
        ''address.department'', ''address.region'', ''address.country'', ''address.coordinates''],
      g_condition = Some \<lparr>ca_asserts = [], ca_filters = [[''SitesAdmin'']], ca_metadata =
        None\<rparr>\<rparr>,
    \<lparr>g_resource = E_ASSET, g_action = [A_LIST],
      g_attributes = Some [''id'', ''name'', ''siteAreaID'', ''siteArea.id'', ''siteArea.name'',
        ''siteArea.siteID'', ''siteID'', ''assetType'', ''coordinates'', ''dynamicAsset'', ''connectionID'',
        ''meterID'', ''currentInstantWatts'', ''currentStateOfCharge'', ''excludeFromSmartCharging'',
        ''staticValueWatt'', ''variationThresholdPercent'', ''fluctuationPercent'', ''site.id'',
        ''site.name''],
      g_condition = Some \<lparr>ca_asserts = [], ca_filters = [[''AssignedSites''], [''LocalIssuer'']],
        ca_metadata = None\<rparr>\<rparr>]"

definition siteAdmin_grants_3 :: "grant list" where
  "siteAdmin_grants_3 = [
    \<lparr>g_resource = E_ASSET, g_action = [A_READ],
      g_attributes = Some [''id'', ''name'', ''siteAreaID'', ''siteArea.id'', ''siteArea.name'',
        ''siteArea.siteID'', ''siteID'', ''assetType'', ''coordinates'', ''dynamicAsset'', ''connectionID'',
        ''meterID'', ''currentInstantWatts'', ''currentStateOfCharge'', ''excludeFromSmartCharging'',
        ''staticValueWatt'', ''variationThresholdPercent'', ''fluctuationPercent''],
      g_condition = Some \<lparr>ca_asserts = [], ca_filters = [[''AssignedSites''], [''LocalIssuer'']],
        ca_metadata = None\<rparr>\<rparr>,
    \<lparr>g_resource = E_ASSET, g_action = [A_READ_CONSUMPTION],
      g_attributes = Some [''id'', ''name'', ''siteAreaID'', ''siteArea.id'', ''siteArea.name'',
        ''siteArea.siteID'', ''siteID'', ''assetType'', ''coordinates'', ''dynamicAsset'', ''connectionID'',
        ''meterID'', ''currentInstantWatts'', ''currentStateOfCharge'', ''startedAt'', ''instantWatts'',
        ''instantAmps'', ''limitWatts'', ''limitAmps'', ''endedAt'', ''stateOfCharge''],
      g_condition = Some \<lparr>ca_asserts = [], ca_filters = [[''AssignedSites''], [''LocalIssuer'']],
        ca_metadata = None\<rparr>\<rparr>,
    \<lparr>g_resource = E_CAR, g_action = [A_LIST],
      g_attributes = Some [''id'', ''type'', ''vin'', ''licensePlate'', ''converter'', ''default'',
        ''createdOn'', ''lastChangedOn'', ''carCatalog.id'', ''carCatalog.vehicleMake'',
        ''carCatalog.vehicleModel'', ''carCatalog.vehicleModelVersion'', ''carCatalog.image'',
        ''carCatalog.fastChargePowerMax'', ''carCatalog.batteryCapacityFull'', ''createdBy.name'',
        ''createdBy.firstName'', ''lastChangedBy.name'', ''lastChangedBy.firstName'', ''user.id'',
        ''user.name'', ''user.firstName'', ''userID'', ''carConnectorData.carConnectorID'',
        ''carConnectorData.carConnectorMeterID''],
      g_condition = Some \<lparr>ca_asserts = [], ca_filters = [[''SitesAdmin'']], ca_metadata = Some
        [(''createPoolCar'', \<lparr>fm_visible = Some True, fm_enabled = None, fm_mandatory =
        None\<rparr>), (''userID'', \<lparr>fm_visible = None, fm_enabled = None, fm_mandatory = Some
        True\<rparr>)]\<rparr>\<rparr>,
    \<lparr>g_resource = E_CAR, g_action = [A_CREATE],
      g_attributes = None,
      g_condition = Some \<lparr>ca_asserts = [], ca_filters = [], ca_metadata = None\<rparr>\<rparr>,
    \<lparr>g_resource = E_CAR, g_action = [A_READ],
      g_attributes = Some [''id'', ''type'', ''vin'', ''licensePlate'', ''converter'', ''default'',
        ''createdOn'', ''lastChangedOn'', ''user.id'', ''user.name'', ''user.firstName'', ''carCatalogID'',
        ''carCatalog.vehicleMake'', ''carCatalog.vehicleModel'', ''carCatalog.vehicleModelVersion'',
        ''carCatalog.image'', ''carCatalog.chargeStandardPower'', ''carCatalog.chargeStandardPhaseAmp'',
        ''carCatalog.chargeStandardPhase'', ''carConnectorData.carConnectorID'',
        ''carConnectorData.carConnectorMeterID'', ''chargeStandardPhase'',
        ''carCatalog.fastChargePowerMax'', ''carCatalog.batteryCapacityFull''],
      g_condition = Some \<lparr>ca_asserts = [], ca_filters = [[''SitesAdmin'']], ca_metadata =
        None\<rparr>\<rparr>,
    \<lparr>g_resource = E_CAR, g_action = [A_UPDATE, A_DELETE],
      g_attributes = None,
      g_condition = Some \<lparr>ca_asserts = [], ca_filters = [[''SitesAdmin'']], ca_metadata =
        None\<rparr>\<rparr>,
    \<lparr>g_resource = E_CHARGING_STATION, g_action = [A_LIST],
      g_attributes = Some [''id'', ''inactive'', ''connectorsStatus'', ''connectorsConsumption'',
        ''public'', ''lastSeen'', ''coordinates'', ''issuer'', ''voltage'', ''distanceMeters'',
        ''siteAreaID'', ''siteArea.id'', ''siteArea.name'', ''siteArea.siteID'', ''site.name'',
        ''siteArea.address'', ''siteID'', ''maximumPower'', ''powerLimitUnit'', ''connectors.connectorId'',
        ''connectors.status'', ''connectors.type'', ''connectors.power'', ''connectors.errorCode'',
        ''connectors.currentTotalConsumptionWh'', ''connectors.currentInstantWatts'',
        ''connectors.currentStateOfCharge'', ''connectors.info'', ''connectors.vendorErrorCode'',
        ''connectors.currentTransactionID'', ''connectors.currentTotalInactivitySecs'', ''lastReboot'',
        ''createdOn'', ''companyID'', ''ocpiData.evses.capabilities'', ''chargePoints.chargePointID'',
        ''chargePoints.currentType'', ''chargePoints.voltage'', ''chargePoints.amperage'',
        ''chargePoints.numberOfConnectedPhase'', ''chargePoints.cannotChargeInParallel'',
        ''chargePoints.sharePowerToAllConnectors'', ''chargePoints.excludeFromPowerLimitation'',
        ''chargePoints.ocppParamForPowerLimitation'', ''chargePoints.power'', ''chargePoints.efficiency'',
        ''chargePoints.connectorIDs''],
      g_condition = Some \<lparr>ca_asserts = [], ca_filters = [[''AssignedSites'']], ca_metadata =
        None\<rparr>\<rparr>,
    \<lparr>g_resource = E_CHARGING_STATION, g_action = [A_READ],
      g_attributes = Some [''id'', ''issuer'', ''public'', ''siteAreaID'', ''lastSeen'', ''inactive'',
        ''forceInactive'', ''manualConfiguration'', ''voltage'', ''coordinates'', ''chargingStationURL'',
        ''forceInactive'', ''tariffID'', ''maximumPower'', ''masterSlave'', ''chargePoints.chargePointID'',
        ''chargePoints.currentType'', ''chargePoints.voltage'', ''chargePoints.amperage'',
        ''chargePoints.numberOfConnectedPhase'', ''chargePoints.cannotChargeInParallel'',
        ''chargePoints.sharePowerToAllConnectors'', ''chargePoints.excludeFromPowerLimitation'',
        ''chargePoints.ocppParamForPowerLimitation'', ''chargePoints.power'', ''chargePoints.efficiency'',
        ''chargePoints.connectorIDs'', ''connectors.status'', ''connectors.type'', ''connectors.power'',
        ''connectors.errorCode'', ''connectors.connectorId'', ''connectors.currentTotalConsumptionWh'',
        ''connectors.currentInstantWatts'', ''connectors.currentStateOfCharge'', ''connectors.info'',
        ''connectors.vendorErrorCode'', ''connectors.currentTransactionID'',
        ''connectors.currentTotalInactivitySecs'', ''connectors.phaseAssignmentToGrid'',
        ''connectors.chargePointID'', ''connectors.tariffID'', ''connectors.currentTransactionDate'',
        ''connectors.currentTagID'', ''ocpiData.evses.capabilities'', ''siteArea'', ''site'', ''siteID''],
      g_condition = Some \<lparr>ca_asserts = [], ca_filters = [[''AssignedSites'']], ca_metadata =
        None\<rparr>\<rparr>,
    \<lparr>g_resource = E_CHARGING_STATION, g_action = [A_UPDATE, A_EXPORT, A_EXPORT_OCPP_PARAMS,
      A_GENERATE_QR, A_UPDATE_OCPP_PARAMS, A_LIMIT_POWER, A_DELETE_CHARGING_PROFILE, A_GET_OCPP_PARAMS,
      A_UPDATE_CHARGING_PROFILE, A_MAINTAIN_PRICING_DEFINITIONS],
      g_attributes = None,
      g_condition = Some \<lparr>ca_asserts = [], ca_filters = [[''SitesAdmin''], [''LocalIssuer'']],
        ca_metadata = None\<rparr>\<rparr>]"

definition siteAdmin_grants_4 :: "grant list" where
  "siteAdmin_grants_4 = [
    \<lparr>g_resource = E_CHARGING_STATION, g_action = [A_RESET, A_CLEAR_CACHE, A_DELETE,
      A_GET_CONFIGURATION, A_CHANGE_CONFIGURATION, A_SET_CHARGING_PROFILE, A_GET_COMPOSITE_SCHEDULE,
      A_CLEAR_CHARGING_PROFILE, A_GET_DIAGNOSTICS, A_UPDATE_FIRMWARE, A_REMOTE_STOP_TRANSACTION,
      A_STOP_TRANSACTION, A_CHANGE_AVAILABILITY],
      g_attributes = None,
      g_condition = Some \<lparr>ca_asserts = [], ca_filters = [[''SitesAdmin'']], ca_metadata =
        None\<rparr>\<rparr>,
    \<lparr>g_resource = E_CHARGING_STATION, g_action = [A_PUSH_TRANSACTION_CDR],
      g_attributes = None,
      g_condition = Some \<lparr>ca_asserts = [], ca_filters = [[''LocalIssuer'']], ca_metadata =
        None\<rparr>\<rparr>,
    \<lparr>g_resource = E_CHARGING_STATION, g_action = [A_VIEW_USER_DATA],
      g_attributes = None,
      g_condition = Some \<lparr>ca_asserts = [], ca_filters = [[''SitesAdminUsers'']], ca_metadata =
        None\<rparr>\<rparr>,
    \<lparr>g_resource = E_CONNECTOR, g_action = [A_REMOTE_STOP_TRANSACTION],
      g_attributes = None,
      g_condition = Some \<lparr>ca_asserts = [], ca_filters = [[''SitesAdminUsers'']], ca_metadata =
        None\<rparr>\<rparr>,
    \<lparr>g_resource = E_CONNECTOR, g_action = [A_REMOTE_START_TRANSACTION,
      A_ASSIGN_UNASSIGN_USERS_TO_CONNECTOR],
      g_attributes = None,
      g_condition = Some \<lparr>ca_asserts = [], ca_filters = [[''AssignedSites'']], ca_metadata =
        None\<rparr>\<rparr>,
    \<lparr>g_resource = E_CONNECTOR, g_action = [A_STOP_TRANSACTION, A_START_TRANSACTION],
      g_attributes = None,
      g_condition = Some \<lparr>ca_asserts = [], ca_filters = [[''AssignedSites''], [''LocalIssuer'']],
        ca_metadata = None\<rparr>\<rparr>,
    \<lparr>g_resource = E_CONNECTOR, g_action = [A_VIEW_USER_DATA],
      g_attributes = None,
      g_condition = Some \<lparr>ca_asserts = [], ca_filters = [[''SitesAdminUsers'']], ca_metadata =
        None\<rparr>\<rparr>,
    \<lparr>g_resource = E_CHARGING_PROFILE, g_action = [A_LIST],
      g_attributes = Some [''id'', ''chargingStationID'', ''chargePointID'', ''connectorID'',
        ''chargingStation.id'', ''chargingStation.siteID'', ''chargingStation.siteAreaID'',
        ''chargingStation.siteArea.id'', ''chargingStation.siteArea.name'',
        ''chargingStation.siteArea.maximumPower'', ''chargingStation.siteArea.siteID'',
        ''profile.chargingProfileKind'', ''profile.chargingProfilePurpose'', ''profile.stackLevel'',
        ''profile.chargingSchedule''],
      g_condition = Some \<lparr>ca_asserts = [], ca_filters = [[''SitesAdmin'']], ca_metadata =
        None\<rparr>\<rparr>,
    \<lparr>g_resource = E_CHARGING_PROFILE, g_action = [A_CREATE, A_UPDATE, A_DELETE],
      g_attributes = None,
      g_condition = Some \<lparr>ca_asserts = [], ca_filters = [[''SitesAdmin'']], ca_metadata =
        None\<rparr>\<rparr>,
    \<lparr>g_resource = E_CHARGING_PROFILE, g_action = [A_READ],
      g_attributes = None,
      g_condition = Some \<lparr>ca_asserts = [], ca_filters = [[''SitesAdmin'']], ca_metadata =
        None\<rparr>\<rparr>,
    \<lparr>g_resource = E_STATISTIC, g_action = [A_READ],
      g_attributes = Some [''*''],
      g_condition = Some \<lparr>ca_asserts = [], ca_filters = [[''SitesAdmin'']], ca_metadata =
        None\<rparr>\<rparr>,
    \<lparr>g_resource = E_STATISTIC, g_action = [A_EXPORT],
      g_attributes = Some [''*''],
      g_condition = Some \<lparr>ca_asserts = [], ca_filters = [[''SitesAdmin'']], ca_metadata =
        None\<rparr>\<rparr>]"

definition siteAdmin_grants_5 :: "grant list" where
  "siteAdmin_grants_5 = [
    \<lparr>g_resource = E_TRANSACTION, g_action = [A_LIST],
      g_attributes = Some [''billingData.stop.invoiceNumber'', ''car.licensePlate'',
        ''carCatalog.vehicleMake'', ''carCatalog.vehicleModel'', ''carCatalog.vehicleModelVersion'',
        ''carCatalogID'', ''carID'', ''chargeBoxID'', ''company.name'', ''companyID'', ''connectorId'',
        ''currentCumulatedPrice'', ''currentInactivityStatus'', ''currentInstantWatts'',
        ''currentStateOfCharge'', ''currentTotalConsumptionWh'', ''currentTotalDurationSecs'',
        ''currentTotalInactivitySecs'', ''id'', ''issuer'', ''meterStart'', ''ocpi'', ''ocpiWithCdr'',
        ''price'', ''priceUnit'', ''roundedPrice'', ''site.name'', ''siteArea.name'', ''siteAreaID'',
        ''siteID'', ''stateOfCharge'', ''stop.extraInactivitySecs'', ''stop.inactivityStatus'',
        ''stop.meterStop'', ''stop.price'', ''stop.priceUnit'', ''stop.reason'', ''stop.roundedPrice'',
        ''stop.stateOfCharge'', ''stop.tag.visualID'', ''stop.tagID'', ''stop.timestamp'',
        ''stop.totalConsumptionWh'', ''stop.totalDurationSecs'', ''stop.totalInactivitySecs'',
        ''stop.user.email'', ''stop.user.firstName'', ''stop.user.id'', ''stop.user.name'', ''stop.userID'',
        ''tag.description'', ''tag.visualID'', ''tagID'', ''timestamp'', ''timezone'', ''userID'',
        ''user.id'', ''user.email'', ''user.firstName'', ''user.name''],
      g_condition = Some \<lparr>ca_asserts = [], ca_filters = [[''SitesAdminUsers'']], ca_metadata =
        None\<rparr>\<rparr>,
    \<lparr>g_resource = E_TRANSACTION, g_action = [A_READ],
      g_attributes = Some [''billingData.stop.invoiceID'', ''billingData.stop.invoiceItem'',
        ''billingData.stop.invoiceNumber'', ''billingData.stop.invoiceStatus'', ''billingData.stop.status'',
        ''car.licensePlate'', ''carCatalog.vehicleMake'', ''carCatalog.vehicleModel'',
        ''carCatalog.vehicleModelVersion'', ''carCatalogID'', ''carID'', ''chargeBoxID'', ''companyID'',
        ''connectorId'', ''currentCumulatedPrice'', ''currentInactivityStatus'', ''currentInstantWatts'',
        ''currentStateOfCharge'', ''currentTotalConsumptionWh'', ''currentTotalDurationSecs'',
        ''currentTotalInactivitySecs'', ''id'', ''issuer'', ''meterStart'', ''price'', ''priceUnit'',
        ''pricingModel'', ''roundedPrice'', ''signedData'', ''siteAreaID'', ''siteID'', ''stateOfCharge'',
        ''stop.extraInactivitySecs'', ''stop.inactivityStatus'', ''stop.meterStop'', ''stop.price'',
        ''stop.priceUnit'', ''stop.pricingSource'', ''stop.reason'', ''stop.roundedPrice'',
        ''stop.signedData'', ''stop.stateOfCharge'', ''stop.tag.description'', ''stop.tag.visualID'',
        ''stop.tagID'', ''stop.timestamp'', ''stop.totalConsumptionWh'', ''stop.totalDurationSecs'',
        ''stop.totalInactivitySecs'', ''stop.user.email'', ''stop.user.firstName'', ''stop.user.id'',
        ''stop.user.name'', ''stop.userID'', ''tag.description'', ''tag.visualID'', ''tagID'',
        ''timestamp'', ''timezone'', ''user.email'', ''user.firstName'', ''user.id'', ''user.name'',
        ''userID''],
      g_condition = Some \<lparr>ca_asserts = [], ca_filters = [[''SitesAdminUsers'']], ca_metadata =
        None\<rparr>\<rparr>,
    \<lparr>g_resource = E_TRANSACTION, g_action = [A_GET_CHARGING_STATION_TRANSACTIONS],
      g_attributes = Some [''id'', ''name'', ''address'', ''companyID'', ''company.name'',
        ''autoUserSiteAssignment'', ''issuer'', ''autoUserSiteAssignment'', ''distanceMeters'', ''public'',
        ''createdOn'', ''lastChangedOn'', ''tariffID'', ''tariffIDs''],
      g_condition = Some \<lparr>ca_asserts = [], ca_filters = [[''SitesAdminUsers'']], ca_metadata =
        None\<rparr>\<rparr>,
    \<lparr>g_resource = E_SITE_AREA, g_action = [A_CREATE],
      g_attributes = None,
      g_condition = None\<rparr>,
    \<lparr>g_resource = E_TRANSACTION, g_action = [A_GET_ACTIVE_TRANSACTION],
      g_attributes = Some [''id'', ''chargeBoxID'', ''timestamp'', ''issuer'', ''stateOfCharge'',
        ''timezone'', ''connectorId'', ''status'', ''meterStart'', ''siteAreaID'', ''siteID'',
        ''companyID'', ''currentTotalDurationSecs'', ''currentTotalInactivitySecs'',
        ''currentInstantWatts'', ''currentTotalConsumptionWh'', ''currentStateOfCharge'',
        ''currentCumulatedPrice'', ''currentInactivityStatus'', ''roundedPrice'', ''price'', ''priceUnit'',
        ''tagID'', ''tag.visualID'', ''tag.description'', ''site.name'', ''siteArea.name'',
        ''company.name'', ''car.licensePlate'', ''userID'', ''user.id'', ''user.name'', ''user.firstName'',
        ''user.email'', ''tariffIDs'', ''tariffIDs''],
      g_condition = Some \<lparr>ca_asserts = [], ca_filters = [[''SitesAdminUsers'']], ca_metadata =
        None\<rparr>\<rparr>,
    \<lparr>g_resource = E_TRANSACTION, g_action = [A_GET_COMPLETED_TRANSACTION],
      g_attributes = Some [''id'', ''chargeBoxID'', ''timestamp'', ''issuer'', ''stateOfCharge'',
        ''timezone'', ''connectorId'', ''meterStart'', ''siteAreaID'', ''siteID'', ''companyID'',
        ''stop.roundedPrice'', ''stop.price'', ''stop.priceUnit'', ''stop.inactivityStatus'',
        ''stop.stateOfCharge'', ''stop.timestamp'', ''stop.totalConsumptionWh'', ''stop.totalDurationSecs'',
        ''stop.totalInactivitySecs'', ''stop.extraInactivitySecs'', ''stop.meterStop'', ''stop.userID'',
        ''site.name'', ''siteArea.name'', ''company.name'', ''userID'', ''user.id'', ''user.name'',
        ''user.firstName'', ''user.email'', ''carCatalog.vehicleMake'', ''carCatalog.vehicleModel'',
        ''carCatalog.vehicleModelVersion'', ''car.licensePlate'', ''billingData.stop.invoiceNumber'',
        ''stop.reason'', ''ocpi'', ''ocpiWithCdr'', ''tagID'', ''tag.visualID'', ''tag.description'',
        ''stop.tagID'', ''stop.tag.visualID'', ''tag.ocpiToken.issuer''],
      g_condition = Some \<lparr>ca_asserts = [], ca_filters = [[''SitesAdminUsers'']], ca_metadata =
        None\<rparr>\<rparr>,
    \<lparr>g_resource = E_TRANSACTION, g_action = [A_GET_REFUND_REPORT],
      g_attributes = Some [''id'', ''userID'', ''user.id'', ''user.name'', ''user.firstName'',
        ''user.email'', ''tagID''],
      g_condition = Some \<lparr>ca_asserts = [], ca_filters = [[''SitesAdminUsers'']], ca_metadata =
        None\<rparr>\<rparr>,
    \<lparr>g_resource = E_TRANSACTION, g_action = [A_EXPORT_COMPLETED_TRANSACTION],
      g_attributes = Some [''id'', ''chargeBoxID'', ''timestamp'', ''issuer'', ''stateOfCharge'',
        ''timezone'', ''connectorId'', ''meterStart'', ''siteAreaID'', ''siteID'', ''companyID'',
        ''stop.roundedPrice'', ''stop.price'', ''stop.priceUnit'', ''stop.inactivityStatus'',
        ''stop.stateOfCharge'', ''stop.timestamp'', ''stop.totalConsumptionWh'', ''stop.totalDurationSecs'',
        ''stop.totalInactivitySecs'', ''stop.extraInactivitySecs'', ''site.name'', ''siteArea.name'',
        ''company.name'', ''billingData.stop.invoiceNumber'', ''stop.reason'', ''ocpi'', ''ocpiWithCdr'',
        ''tagID'', ''stop.tagID'', ''tag.description'', ''stop.tag.description'', ''tag.visualID'',
        ''stop.tag.visualID'', ''userID'', ''user.id'', ''user.name'', ''user.firstName'', ''user.email''],
      g_condition = Some \<lparr>ca_asserts = [], ca_filters = [[''SitesAdminUsers'']], ca_metadata =
        None\<rparr>\<rparr>,
    \<lparr>g_resource = E_TRANSACTION, g_action = [A_EXPORT_OCPI_CDR],
      g_attributes = Some [''id'', ''ocpiData'', ''ocpi'', ''ocpiWithCdr''],
      g_condition = Some \<lparr>ca_asserts = [], ca_filters = [], ca_metadata = None\<rparr>\<rparr>]"

definition siteAdmin_grants_6 :: "grant list" where
  "siteAdmin_grants_6 = [
    \<lparr>g_resource = E_TRANSACTION, g_action = [A_GET_ADVENIR_CONSUMPTION],
      g_attributes = Some [''id'', ''chargeBox.issuer'', ''chargeBox.id'', ''chargeBox.issuer'',
        ''chargeBox.public'', ''chargeBox.connectors'', ''connectorId''],
      g_condition = Some \<lparr>ca_asserts = [], ca_filters = [[''SitesAdminUsers'']], ca_metadata =
        None\<rparr>\<rparr>,
    \<lparr>g_resource = E_TRANSACTION, g_action = [A_UPDATE, A_EXPORT, A_REMOTE_STOP_TRANSACTION],
      g_attributes = None,
      g_condition = Some \<lparr>ca_asserts = [], ca_filters = [[''SitesAdminUsers'']], ca_metadata =
        None\<rparr>\<rparr>,
    \<lparr>g_resource = E_TRANSACTION, g_action = [A_PUSH_TRANSACTION_CDR],
      g_attributes = None,
      g_condition = Some \<lparr>ca_asserts = [], ca_filters = [[''SitesAdminUsers''], [''LocalIssuer'']],
        ca_metadata = None\<rparr>\<rparr>,
    \<lparr>g_resource = E_TRANSACTION, g_action = [A_VIEW_USER_DATA],
      g_attributes = None,
      g_condition = Some \<lparr>ca_asserts = [], ca_filters = [[''SitesAdminUsers'']], ca_metadata =
        None\<rparr>\<rparr>,
    \<lparr>g_resource = E_CONSUMPTION, g_action = [A_LIST],
      g_attributes = Some [''startedAt'', ''endedAt'', ''cumulatedConsumptionWh'',
        ''cumulatedConsumptionAmps'', ''cumulatedAmount'', ''stateOfCharge'', ''limitWatts'', ''limitAmps'',
        ''instantVoltsDC'', ''instantVolts'', ''instantVoltsL1'', ''instantVoltsL2'', ''instantVoltsL3'',
        ''instantWattsDC'', ''instantWatts'', ''instantWattsL1'', ''instantWattsL2'', ''instantWattsL3'',
        ''instantAmpsDC'', ''instantAmps'', ''instantAmpsL1'', ''instantAmpsL2'', ''instantAmpsL3''],
      g_condition = Some \<lparr>ca_asserts = [], ca_filters = [], ca_metadata = None\<rparr>\<rparr>,
    \<lparr>g_resource = E_CONSUMPTION, g_action = [A_READ],
      g_attributes = Some [''startedAt'', ''endedAt'', ''cumulatedConsumptionWh'',
        ''cumulatedConsumptionAmps'', ''cumulatedAmount'', ''stateOfCharge'', ''limitWatts'', ''limitAmps'',
        ''instantVoltsDC'', ''instantVolts'', ''instantVoltsL1'', ''instantVoltsL2'', ''instantVoltsL3'',
        ''instantWattsDC'', ''instantWatts'', ''instantWattsL1'', ''instantWattsL2'', ''instantWattsL3'',
        ''instantAmpsDC'', ''instantAmps'', ''instantAmpsL1'', ''instantAmpsL2'', ''instantAmpsL3''],
      g_condition = Some \<lparr>ca_asserts = [], ca_filters = [], ca_metadata = None\<rparr>\<rparr>,
    \<lparr>g_resource = E_CONSUMPTION, g_action = [A_GET_ADVENIR_CONSUMPTION],
      g_attributes = Some [''startedAt'', ''endedAt'', ''cumulatedConsumptionWh''],
      g_condition = Some \<lparr>ca_asserts = [], ca_filters = [], ca_metadata = None\<rparr>\<rparr>,
    \<lparr>g_resource = E_REPORT, g_action = [A_READ],
      g_attributes = None,
      g_condition = None\<rparr>,
    \<lparr>g_resource = E_LOGGING, g_action = [A_LIST, A_EXPORT],
      g_attributes = Some [''id'', ''level'', ''timestamp'', ''type'', ''source'', ''host'', ''action'',
        ''message'', ''chargingStationID'', ''siteID'', ''user.name'', ''user.firstName'',
        ''actionOnUser.name'', ''actionOnUser.firstName'', ''hasDetailedMessages'', ''method'', ''module''],
      g_condition = Some \<lparr>ca_asserts = [], ca_filters = [[''SitesAdmin'']], ca_metadata =
        None\<rparr>\<rparr>,
    \<lparr>g_resource = E_LOGGING, g_action = [A_READ],
      g_attributes = Some [''id'', ''level'', ''timestamp'', ''type'', ''source'', ''host'', ''action'',
        ''message'', ''chargingStationID'', ''siteID'', ''user.name'', ''user.firstName'',
        ''actionOnUser.name'', ''actionOnUser.firstName'', ''hasDetailedMessages'', ''detailedMessages''],
      g_condition = Some \<lparr>ca_asserts = [], ca_filters = [[''SitesAdmin'']], ca_metadata =
        None\<rparr>\<rparr>,
    \<lparr>g_resource = E_REGISTRATION_TOKEN, g_action = [A_LIST],
      g_attributes = Some [''id'', ''status'', ''description'', ''createdOn'', ''lastChangedOn'',
        ''expirationDate'', ''revocationDate'', ''siteAreaID'', ''siteArea.name'', ''createdBy.name'',
        ''createdBy.firstName'', ''lastChangedBy.name'', ''lastChangedBy.firstName''],
      g_condition = Some \<lparr>ca_asserts = [], ca_filters = [[''SitesAdmin'']], ca_metadata = Some
        [(''siteAreaID'', \<lparr>fm_visible = None, fm_enabled = None, fm_mandatory = Some
        True\<rparr>)]\<rparr>\<rparr>]"

definition siteAdmin_grants_7 :: "grant list" where
  "siteAdmin_grants_7 = [
    \<lparr>g_resource = E_REGISTRATION_TOKEN, g_action = [A_READ],
      g_attributes = Some [''id'', ''status'', ''description'', ''createdOn'', ''lastChangedOn'',
        ''expirationDate'', ''revocationDate'', ''siteAreaID'', ''siteArea.name'', ''createdBy.name'',
        ''createdBy.firstName'', ''lastChangedBy.name'', ''lastChangedBy.firstName''],
      g_condition = Some \<lparr>ca_asserts = [], ca_filters = [[''SitesAdmin'']], ca_metadata =
        None\<rparr>\<rparr>,
    \<lparr>g_resource = E_REGISTRATION_TOKEN, g_action = [A_CREATE, A_UPDATE],
      g_attributes = Some [''id'', ''status'', ''description'', ''createdOn'', ''lastChangedOn'',
        ''expirationDate'', ''revocationDate'', ''siteAreaID'', ''siteArea.name'', ''createdBy.name'',
        ''createdBy.firstName'', ''lastChangedBy.name'', ''lastChangedBy.firstName''],
      g_condition = Some \<lparr>ca_asserts = [[''SiteAreaMandatory'']], ca_filters = [[''SitesAdmin'']],
        ca_metadata = None\<rparr>\<rparr>,
    \<lparr>g_resource = E_REGISTRATION_TOKEN, g_action = [A_DELETE, A_REVOKE],
      g_attributes = None,
      g_condition = Some \<lparr>ca_asserts = [], ca_filters = [[''SitesAdmin'']], ca_metadata =
        None\<rparr>\<rparr>,
    \<lparr>g_resource = E_TAG, g_action = [A_LIST, A_EXPORT],
      g_attributes = Some [''id'', ''userID'', ''active'', ''ocpiToken'', ''description'', ''visualID'',
        ''issuer'', ''default'', ''user.name'', ''user.firstName'', ''user.email'', ''createdOn'',
        ''lastChangedOn''],
      g_condition = Some \<lparr>ca_asserts = [], ca_filters = [[''SitesAdmin''], [''LocalIssuer'']],
        ca_metadata = Some [(''userID'', \<lparr>fm_visible = None, fm_enabled = None, fm_mandatory = Some
        True\<rparr>)]\<rparr>\<rparr>,
    \<lparr>g_resource = E_TAG, g_action = [A_CREATE],
      g_attributes = None,
      g_condition = Some \<lparr>ca_asserts = [[''UserMandatory'']], ca_filters = [], ca_metadata =
        None\<rparr>\<rparr>,
    \<lparr>g_resource = E_TAG, g_action = [A_READ],
      g_attributes = Some [''id'', ''userID'', ''issuer'', ''active'', ''description'', ''visualID'',
        ''default'', ''user.id'', ''user.name'', ''user.firstName'', ''user.email''],
      g_condition = Some \<lparr>ca_asserts = [], ca_filters = [[''SitesAdmin''], [''LocalIssuer'']],
        ca_metadata = Some [(''userID'', \<lparr>fm_visible = None, fm_enabled = None, fm_mandatory = Some
        True\<rparr>)]\<rparr>\<rparr>,
    \<lparr>g_resource = E_EMAID, g_action = [A_READ],
      g_attributes = Some [''id'', ''userID'', ''issuer'', ''active'', ''description'', ''visualID'',
        ''user.id'', ''user.name'', ''user.firstName'', ''user.email''],
      g_condition = Some \<lparr>ca_asserts = [], ca_filters = [[''SitesAdmin''], [''LocalIssuer'']],
        ca_metadata = Some [(''userID'', \<lparr>fm_visible = None, fm_enabled = None, fm_mandatory = Some
        True\<rparr>)]\<rparr>\<rparr>,
    \<lparr>g_resource = E_TAG, g_action = [A_DELETE],
      g_attributes = None,
      g_condition = Some \<lparr>ca_asserts = [], ca_filters = [[''SitesAdmin''], [''LocalIssuer'']],
        ca_metadata = None\<rparr>\<rparr>,
    \<lparr>g_resource = E_TAG, g_action = [A_UPDATE],
      g_attributes = None,
      g_condition = Some \<lparr>ca_asserts = [[''UserMandatory'']], ca_filters = [[''SitesAdmin''],
        [''LocalIssuer'']], ca_metadata = None\<rparr>\<rparr>,
    \<lparr>g_resource = E_EMAID, g_action = [A_UPDATE],
      g_attributes = None,
      g_condition = Some \<lparr>ca_asserts = [[''UserMandatory'']], ca_filters = [[''SitesAdmin''],
        [''LocalIssuer'']], ca_metadata = None\<rparr>\<rparr>]"

definition siteAdmin_grants_8 :: "grant list" where
  "siteAdmin_grants_8 = [
    \<lparr>g_resource = E_PRICING_DEFINITION, g_action = [A_LIST],
      g_attributes = Some [''id'', ''entityID'', ''entityType'', ''name'', ''description'', ''entityName'',
        ''staticRestrictions.validFrom'', ''staticRestrictions.validTo'',
        ''staticRestrictions.connectorType'', ''staticRestrictions.connectorPowerkW'',
        ''restrictions.daysOfWeek'', ''restrictions.timeFrom'', ''restrictions.timeTo'',
        ''restrictions.minEnergyKWh'', ''restrictions.maxEnergyKWh'', ''restrictions.minDurationSecs'',
        ''restrictions.maxDurationSecs'', ''dimensions.flatFee.active'', ''dimensions.flatFee.price'',
        ''dimensions.flatFee.stepSize'', ''dimensions.flatFee.pricedData'', ''dimensions.energy.active'',
        ''dimensions.energy.price'', ''dimensions.energy.stepSize'', ''dimensions.energy.pricedData'',
        ''dimensions.chargingTime.active'', ''dimensions.chargingTime.price'',
        ''dimensions.chargingTime.stepSize'', ''dimensions.chargingTime.pricedData'',
        ''dimensions.parkingTime.active'', ''dimensions.parkingTime.price'',
        ''dimensions.parkingTime.stepSize'', ''dimensions.parkingTime.pricedData''],
      g_condition = Some \<lparr>ca_asserts = [], ca_filters = [[''SitesAdmin'']], ca_metadata =
        None\<rparr>\<rparr>,
    \<lparr>g_resource = E_PRICING_DEFINITION, g_action = [A_CREATE, A_READ, A_UPDATE, A_DELETE],
      g_attributes = Some [''id'', ''entityID'', ''entityType'', ''name'', ''description'', ''entityName'',
        ''staticRestrictions.validFrom'', ''staticRestrictions.validTo'',
        ''staticRestrictions.connectorType'', ''staticRestrictions.connectorPowerkW'',
        ''restrictions.daysOfWeek'', ''restrictions.timeFrom'', ''restrictions.timeTo'',
        ''restrictions.minEnergyKWh'', ''restrictions.maxEnergyKWh'', ''restrictions.minDurationSecs'',
        ''restrictions.maxDurationSecs'', ''dimensions.flatFee.active'', ''dimensions.flatFee.price'',
        ''dimensions.flatFee.stepSize'', ''dimensions.flatFee.pricedData'', ''dimensions.energy.active'',
        ''dimensions.energy.price'', ''dimensions.energy.stepSize'', ''dimensions.energy.pricedData'',
        ''dimensions.chargingTime.active'', ''dimensions.chargingTime.price'',
        ''dimensions.chargingTime.stepSize'', ''dimensions.chargingTime.pricedData'',
        ''dimensions.parkingTime.active'', ''dimensions.parkingTime.price'',
        ''dimensions.parkingTime.stepSize'', ''dimensions.parkingTime.pricedData''],
      g_condition = Some \<lparr>ca_asserts = [], ca_filters = [[''SitesAdmin'']], ca_metadata =
        None\<rparr>\<rparr>,
    \<lparr>g_resource = E_SOURCE, g_action = [A_LIST],
      g_attributes = None,
      g_condition = None\<rparr>]"

definition siteAdmin_role :: role_definition where
  "siteAdmin_role = \<lparr>rd_extend = [''basic''],
     rd_grants = siteAdmin_grants_1 @ siteAdmin_grants_2 @ siteAdmin_grants_3 @ siteAdmin_grants_4 @ siteAdmin_grants_5 @ siteAdmin_grants_6 @ siteAdmin_grants_7 @ siteAdmin_grants_8\<rparr>"

section \<open>siteOwner\<close>

definition siteOwner_grants_1 :: "grant list" where
  "siteOwner_grants_1 = [
    \<lparr>g_resource = E_USER, g_action = [A_LIST],
      g_attributes = Some [''id'', ''name'', ''firstName'', ''email'', ''role'', ''status'', ''issuer'',
        ''createdOn'', ''lastChangedOn'', ''eulaAcceptedOn'', ''eulaAcceptedVersion'', ''locale'',
        ''billingData.customerID'', ''billingData.lastChangedOn''],
      g_condition = Some \<lparr>ca_asserts = [], ca_filters = [[''SitesOwner''], [''LocalIssuer'']],
        ca_metadata = None\<rparr>\<rparr>,
    \<lparr>g_resource = E_USER, g_action = [A_READ],
      g_attributes = Some [''id'', ''name'', ''firstName'', ''email'', ''issuer'', ''locale'',
        ''notificationsActive'', ''notifications'', ''phone'', ''mobile'', ''iNumber'', ''costCenter'',
        ''address.address1'', ''address.address2'', ''address.postalCode'', ''address.city'',
        ''address.department'', ''address.region'', ''address.country'', ''address.coordinates''],
      g_condition = Some \<lparr>ca_asserts = [], ca_filters = [[''SitesOwner''], [''LocalIssuer'']],
        ca_metadata = None\<rparr>\<rparr>,
    \<lparr>g_resource = E_USER_SITE, g_action = [A_READ, A_LIST],
      g_attributes = Some [''site.id'', ''site.name'', ''site.address.city'', ''site.address.country'',
        ''siteAdmin'', ''siteOwner'', ''userID''],
      g_condition = Some \<lparr>ca_asserts = [], ca_filters = [[''SitesAdminOrOwner''], [''LocalIssuer'']],
        ca_metadata = None\<rparr>\<rparr>,
    \<lparr>g_resource = E_SITE_USER, g_action = [A_READ, A_LIST],
      g_attributes = Some [''user.id'', ''user.name'', ''user.firstName'', ''user.email'', ''user.role'',
        ''siteID'', ''siteAdmin'', ''siteOwner''],
      g_condition = Some \<lparr>ca_asserts = [], ca_filters = [[''SitesAdminOrOwner''], [''LocalIssuer'']],
        ca_metadata = None\<rparr>\<rparr>,
    \<lparr>g_resource = E_STATISTIC, g_action = [A_READ],
      g_attributes = Some [''*''],
      g_condition = Some \<lparr>ca_asserts = [], ca_filters = [[''SitesOwner'']], ca_metadata =
        None\<rparr>\<rparr>,
    \<lparr>g_resource = E_STATISTIC, g_action = [A_EXPORT],
      g_attributes = Some [''*''],
      g_condition = Some \<lparr>ca_asserts = [], ca_filters = [[''SitesOwner'']], ca_metadata =
        None\<rparr>\<rparr>,
    \<lparr>g_resource = E_TRANSACTION, g_action = [A_READ],
      g_attributes = Some [''billingData.stop.invoiceID'', ''billingData.stop.invoiceItem'',
        ''billingData.stop.invoiceNumber'', ''billingData.stop.invoiceStatus'', ''billingData.stop.status'',
        ''car.licensePlate'', ''carCatalog.vehicleMake'', ''carCatalog.vehicleModel'',
        ''carCatalog.vehicleModelVersion'', ''carCatalogID'', ''carID'', ''chargeBoxID'', ''companyID'',
        ''connectorId'', ''currentCumulatedPrice'', ''currentInactivityStatus'', ''currentInstantWatts'',
        ''currentStateOfCharge'', ''currentTotalConsumptionWh'', ''currentTotalDurationSecs'',
        ''currentTotalInactivitySecs'', ''id'', ''issuer'', ''meterStart'', ''price'', ''priceUnit'',
        ''pricingModel'', ''roundedPrice'', ''signedData'', ''siteAreaID'', ''siteID'', ''stateOfCharge'',
        ''stop.extraInactivitySecs'', ''stop.inactivityStatus'', ''stop.meterStop'', ''stop.price'',
        ''stop.priceUnit'', ''stop.pricingSource'', ''stop.reason'', ''stop.roundedPrice'',
        ''stop.signedData'', ''stop.stateOfCharge'', ''stop.tag.description'', ''stop.tag.visualID'',
        ''stop.tagID'', ''stop.timestamp'', ''stop.totalConsumptionWh'', ''stop.totalDurationSecs'',
        ''stop.totalInactivitySecs'', ''stop.user.email'', ''stop.user.firstName'', ''stop.user.id'',
        ''stop.user.name'', ''stop.userID'', ''tag.description'', ''tag.visualID'', ''tagID'',
        ''timestamp'', ''timezone'', ''userID'', ''user.id'', ''user.email'', ''user.firstName'',
        ''user.name'', ''company.name'', ''ocpi'', ''ocpiWithCdr'', ''site.name'', ''siteArea.name''],
      g_condition = Some \<lparr>ca_asserts = [], ca_filters = [[''SitesOwnerUsers'']], ca_metadata =
        None\<rparr>\<rparr>,
    \<lparr>g_resource = E_TRANSACTION, g_action = [A_GET_CHARGING_STATION_TRANSACTIONS],
      g_attributes = Some [''id'', ''chargeBoxID'', ''timestamp'', ''issuer'', ''stateOfCharge'',
        ''timezone'', ''connectorId'', ''meterStart'', ''siteAreaID'', ''siteID'', ''companyID'',
        ''currentTotalDurationSecs'', ''currentTotalInactivitySecs'', ''currentInstantWatts'',
        ''currentTotalConsumptionWh'', ''currentStateOfCharge'', ''currentInactivityStatus'',
        ''stop.roundedPrice'', ''stop.price'', ''stop.priceUnit'', ''stop.inactivityStatus'',
        ''stop.stateOfCharge'', ''stop.timestamp'', ''stop.totalConsumptionWh'', ''stop.totalDurationSecs'',
        ''stop.totalInactivitySecs'', ''stop.extraInactivitySecs'', ''site.name'', ''siteArea.name'',
        ''company.name'', ''billingData.stop.invoiceNumber'', ''stop.reason'', ''ocpi'', ''ocpiWithCdr'',
        ''tagID'', ''stop.tagID''],
      g_condition = Some \<lparr>ca_asserts = [], ca_filters = [[''SitesOwnerUsers'']], ca_metadata =
        None\<rparr>\<rparr>,
    \<lparr>g_resource = E_TRANSACTION, g_action = [A_GET_ACTIVE_TRANSACTION],
      g_attributes = Some [''id'', ''chargeBoxID'', ''timestamp'', ''issuer'', ''stateOfCharge'',
        ''timezone'', ''connectorId'', ''status'', ''meterStart'', ''siteAreaID'', ''siteID'',
        ''companyID'', ''currentTotalDurationSecs'', ''currentTotalInactivitySecs'',
        ''currentInstantWatts'', ''currentTotalConsumptionWh'', ''currentStateOfCharge'',
        ''currentCumulatedPrice'', ''currentInactivityStatus'', ''roundedPrice'', ''price'', ''priceUnit'',
        ''tagID'', ''tag.visualID'', ''tag.description'', ''site.name'', ''siteArea.name'',
        ''company.name'', ''userID'', ''user.id'', ''user.name'', ''user.firstName'', ''user.email'',
        ''carCatalog.vehicleMake'', ''carCatalog.vehicleModel'', ''carCatalog.vehicleModelVersion'',
        ''car.licensePlate''],
      g_condition = Some \<lparr>ca_asserts = [], ca_filters = [[''SitesOwnerUsers'']], ca_metadata =
        None\<rparr>\<rparr>]"

definition siteOwner_grants_2 :: "grant list" where
  "siteOwner_grants_2 = [
    \<lparr>g_resource = E_TRANSACTION, g_action = [A_GET_REFUNDABLE_TRANSACTION],
      g_attributes = Some [''id'', ''chargeBoxID'', ''timestamp'', ''issuer'', ''stateOfCharge'',
        ''timezone'', ''connectorId'', ''meterStart'', ''siteAreaID'', ''siteID'', ''companyID'',
        ''refundData.reportId'', ''refundData.refundedAt'', ''refundData.status'', ''site.name'',
        ''siteArea.name'', ''company.name'', ''stop.roundedPrice'', ''stop.price'', ''stop.priceUnit'',
        ''stop.inactivityStatus'', ''stop.stateOfCharge'', ''stop.timestamp'', ''stop.totalConsumptionWh'',
        ''stop.totalDurationSecs'', ''stop.totalInactivitySecs'', ''stop.extraInactivitySecs'',
        ''billingData.stop.invoiceNumber'', ''tagID'', ''stop.tagID'', ''stop.reason'', ''stop.userID'',
        ''userID'', ''user.id'', ''user.name'', ''user.firstName'', ''user.email'',
        ''carCatalog.vehicleMake'', ''carCatalog.vehicleModel'', ''carCatalog.vehicleModelVersion'',
        ''car.licensePlate'', ''tariffData'', ''pricingModel''],
      g_condition = Some \<lparr>ca_asserts = [], ca_filters = [[''SitesOwner'']], ca_metadata =
        None\<rparr>\<rparr>,
    \<lparr>g_resource = E_TRANSACTION, g_action = [A_GET_COMPLETED_TRANSACTION],
      g_attributes = Some [''id'', ''chargeBoxID'', ''timestamp'', ''issuer'', ''stateOfCharge'',
        ''timezone'', ''connectorId'', ''meterStart'', ''siteAreaID'', ''siteID'', ''companyID'',
        ''stop.roundedPrice'', ''stop.price'', ''stop.priceUnit'', ''stop.inactivityStatus'',
        ''stop.stateOfCharge'', ''stop.timestamp'', ''stop.totalConsumptionWh'', ''stop.totalDurationSecs'',
        ''stop.totalInactivitySecs'', ''stop.extraInactivitySecs'', ''stop.meterStop'', ''stop.userID'',
        ''site.name'', ''siteArea.name'', ''company.name'', ''userID'', ''user.id'', ''user.name'',
        ''user.firstName'', ''user.email'', ''carCatalog.vehicleMake'', ''carCatalog.vehicleModel'',
        ''carCatalog.vehicleModelVersion'', ''car.licensePlate'', ''billingData.stop.invoiceNumber'',
        ''stop.reason'', ''ocpi'', ''ocpiWithCdr'', ''tagID'', ''tag.visualID'', ''tag.description'',
        ''stop.tagID'', ''stop.tag.visualID'', ''tag.ocpiToken.issuer''],
      g_condition = Some \<lparr>ca_asserts = [], ca_filters = [[''SitesOwnerUsers'']], ca_metadata =
        None\<rparr>\<rparr>,
    \<lparr>g_resource = E_TRANSACTION, g_action = [A_GET_REFUND_REPORT],
      g_attributes = Some [''id'', ''userID'', ''user.id'', ''user.name'', ''user.firstName'',
        ''user.email'', ''tagID''],
      g_condition = Some \<lparr>ca_asserts = [], ca_filters = [[''SitesOwnerUsers'']], ca_metadata =
        None\<rparr>\<rparr>,
    \<lparr>g_resource = E_TRANSACTION, g_action = [A_EXPORT_COMPLETED_TRANSACTION],
      g_attributes = Some [''id'', ''chargeBoxID'', ''timestamp'', ''issuer'', ''stateOfCharge'',
        ''timezone'', ''connectorId'', ''meterStart'', ''siteAreaID'', ''siteID'', ''companyID'',
        ''stop.roundedPrice'', ''stop.price'', ''stop.priceUnit'', ''stop.inactivityStatus'',
        ''stop.stateOfCharge'', ''stop.timestamp'', ''stop.totalConsumptionWh'', ''stop.totalDurationSecs'',
        ''stop.totalInactivitySecs'', ''stop.extraInactivitySecs'', ''site.name'', ''siteArea.name'',
        ''company.name'', ''billingData.stop.invoiceNumber'', ''stop.reason'', ''ocpi'', ''ocpiWithCdr'',
        ''tagID'', ''stop.tagID'', ''tag.description'', ''stop.tag.description'', ''tag.visualID'',
        ''stop.tag.visualID'', ''userID'', ''user.id'', ''user.name'', ''user.firstName'', ''user.email''],
      g_condition = Some \<lparr>ca_asserts = [], ca_filters = [[''SitesOwnerUsers'']], ca_metadata =
        None\<rparr>\<rparr>,
    \<lparr>g_resource = E_TRANSACTION, g_action = [A_GET_ADVENIR_CONSUMPTION],
      g_attributes = Some [''id'', ''chargeBox.issuer'', ''chargeBox.id'', ''chargeBox.issuer'',
        ''chargeBox.public'', ''chargeBox.connectors'', ''connectorId''],
      g_condition = Some \<lparr>ca_asserts = [], ca_filters = [[''AssignedSites'']], ca_metadata =
        None\<rparr>\<rparr>,
    \<lparr>g_resource = E_TRANSACTION, g_action = [A_UPDATE, A_EXPORT, A_REFUND_TRANSACTION,
      A_REMOTE_STOP_TRANSACTION],
      g_attributes = None,
      g_condition = Some \<lparr>ca_asserts = [], ca_filters = [[''SitesOwnerUsers'']], ca_metadata =
        None\<rparr>\<rparr>,
    \<lparr>g_resource = E_TRANSACTION, g_action = [A_VIEW_USER_DATA],
      g_attributes = None,
      g_condition = Some \<lparr>ca_asserts = [], ca_filters = [[''SitesOwnerUsers'']], ca_metadata =
        None\<rparr>\<rparr>,
    \<lparr>g_resource = E_CHARGING_STATION, g_action = [A_UPDATE_CHARGING_PROFILE, A_SET_CHARGING_PROFILE,
      A_CLEAR_CHARGING_PROFILE, A_DELETE_CHARGING_PROFILE, A_LIMIT_POWER, A_GET_COMPOSITE_SCHEDULE],
      g_attributes = None,
      g_condition = Some \<lparr>ca_asserts = [], ca_filters = [[''SitesOwner'']], ca_metadata =
        None\<rparr>\<rparr>,
    \<lparr>g_resource = E_CHARGING_PROFILE, g_action = [A_LIST],
      g_attributes = Some [''id'', ''chargingStationID'', ''chargePointID'', ''connectorID'',
        ''chargingStation.id'', ''chargingStation.siteID'', ''chargingStation.siteAreaID'',
        ''chargingStation.siteArea.id'', ''chargingStation.siteArea.name'',
        ''chargingStation.siteArea.maximumPower'', ''chargingStation.siteArea.siteID'',
        ''profile.chargingProfileKind'', ''profile.chargingProfilePurpose'', ''profile.stackLevel'',
        ''profile.chargingSchedule''],
      g_condition = Some \<lparr>ca_asserts = [], ca_filters = [[''SitesOwner'']], ca_metadata =
        None\<rparr>\<rparr>,
    \<lparr>g_resource = E_CHARGING_PROFILE, g_action = [A_CREATE, A_UPDATE, A_DELETE],
      g_attributes = None,
      g_condition = Some \<lparr>ca_asserts = [], ca_filters = [[''SitesOwner'']], ca_metadata =
        None\<rparr>\<rparr>]"

definition siteOwner_grants_3 :: "grant list" where
  "siteOwner_grants_3 = [
    \<lparr>g_resource = E_CHARGING_PROFILE, g_action = [A_READ],
      g_attributes = None,
      g_condition = Some \<lparr>ca_asserts = [], ca_filters = [[''SitesOwner'']], ca_metadata =
        None\<rparr>\<rparr>,
    \<lparr>g_resource = E_SITE_AREA, g_action = [A_UPDATE],
      g_attributes = None,
      g_condition = Some \<lparr>ca_asserts = [], ca_filters = [[''SitesOwner'']], ca_metadata =
        None\<rparr>\<rparr>,
    \<lparr>g_resource = E_LOGGING, g_action = [A_LIST, A_EXPORT],
      g_attributes = Some [''id'', ''level'', ''timestamp'', ''type'', ''source'', ''host'', ''action'',
        ''message'', ''chargingStationID'', ''siteID'', ''user.name'', ''user.firstName'',
        ''actionOnUser.name'', ''actionOnUser.firstName'', ''hasDetailedMessages'', ''method'', ''module''],
      g_condition = Some \<lparr>ca_asserts = [], ca_filters = [[''SitesOwner'']], ca_metadata =
        None\<rparr>\<rparr>,
    \<lparr>g_resource = E_LOGGING, g_action = [A_READ],
      g_attributes = Some [''id'', ''level'', ''timestamp'', ''type'', ''source'', ''host'', ''action'',
        ''message'', ''chargingStationID'', ''siteID'', ''user.name'', ''user.firstName'',
        ''actionOnUser.name'', ''actionOnUser.firstName'', ''hasDetailedMessages'', ''detailedMessages''],
      g_condition = Some \<lparr>ca_asserts = [], ca_filters = [[''SitesOwner'']], ca_metadata =
        None\<rparr>\<rparr>,
    \<lparr>g_resource = E_CONSUMPTION, g_action = [A_LIST],
      g_attributes = Some [''startedAt'', ''endedAt'', ''cumulatedConsumptionWh'',
        ''cumulatedConsumptionAmps'', ''cumulatedAmount'', ''stateOfCharge'', ''limitWatts'', ''limitAmps'',
        ''instantVoltsDC'', ''instantVolts'', ''instantVoltsL1'', ''instantVoltsL2'', ''instantVoltsL3'',
        ''instantWattsDC'', ''instantWatts'', ''instantWattsL1'', ''instantWattsL2'', ''instantWattsL3'',
        ''instantAmpsDC'', ''instantAmps'', ''instantAmpsL1'', ''instantAmpsL2'', ''instantAmpsL3''],
      g_condition = Some \<lparr>ca_asserts = [], ca_filters = [], ca_metadata = None\<rparr>\<rparr>,
    \<lparr>g_resource = E_CONSUMPTION, g_action = [A_READ],
      g_attributes = Some [''startedAt'', ''endedAt'', ''cumulatedConsumptionWh'',
        ''cumulatedConsumptionAmps'', ''cumulatedAmount'', ''stateOfCharge'', ''limitWatts'', ''limitAmps'',
        ''instantVoltsDC'', ''instantVolts'', ''instantVoltsL1'', ''instantVoltsL2'', ''instantVoltsL3'',
        ''instantWattsDC'', ''instantWatts'', ''instantWattsL1'', ''instantWattsL2'', ''instantWattsL3'',
        ''instantAmpsDC'', ''instantAmps'', ''instantAmpsL1'', ''instantAmpsL2'', ''instantAmpsL3''],
      g_condition = Some \<lparr>ca_asserts = [], ca_filters = [], ca_metadata = None\<rparr>\<rparr>,
    \<lparr>g_resource = E_CONSUMPTION, g_action = [A_GET_ADVENIR_CONSUMPTION],
      g_attributes = Some [''startedAt'', ''endedAt'', ''cumulatedConsumptionWh''],
      g_condition = Some \<lparr>ca_asserts = [], ca_filters = [], ca_metadata = None\<rparr>\<rparr>,
    \<lparr>g_resource = E_REPORT, g_action = [A_READ],
      g_attributes = None,
      g_condition = None\<rparr>,
    \<lparr>g_resource = E_PRICING_DEFINITION, g_action = [A_LIST],
      g_attributes = Some [''id'', ''entityID'', ''entityType'', ''name'', ''description'', ''entityName'',
        ''staticRestrictions.validFrom'', ''staticRestrictions.validTo'',
        ''staticRestrictions.connectorType'', ''staticRestrictions.connectorPowerkW'',
        ''restrictions.daysOfWeek'', ''restrictions.timeFrom'', ''restrictions.timeTo'',
        ''restrictions.minEnergyKWh'', ''restrictions.maxEnergyKWh'', ''restrictions.minDurationSecs'',
        ''restrictions.maxDurationSecs'', ''dimensions.flatFee.active'', ''dimensions.flatFee.price'',
        ''dimensions.flatFee.stepSize'', ''dimensions.flatFee.pricedData'', ''dimensions.energy.active'',
        ''dimensions.energy.price'', ''dimensions.energy.stepSize'', ''dimensions.energy.pricedData'',
        ''dimensions.chargingTime.active'', ''dimensions.chargingTime.price'',
        ''dimensions.chargingTime.stepSize'', ''dimensions.chargingTime.pricedData'',
        ''dimensions.parkingTime.active'', ''dimensions.parkingTime.price'',
        ''dimensions.parkingTime.stepSize'', ''dimensions.parkingTime.pricedData''],
      g_condition = Some \<lparr>ca_asserts = [], ca_filters = [[''SitesOwner''], [''LocalIssuer'']],
        ca_metadata = None\<rparr>\<rparr>]"

definition siteOwner_role :: role_definition where
  "siteOwner_role = \<lparr>rd_extend = [''basic''],
     rd_grants = siteOwner_grants_1 @ siteOwner_grants_2 @ siteOwner_grants_3\<rparr>"

end
