(* ===== verification/QrCodeGrants.thy ===== *)
theory QrCodeGrants
  imports AuthorizationTypes
begin

text \<open>
  The grants of the role of the users who charge through a QR code
  (\<open>authorization/AuthorizationsDefinition.ts\<close>), in the order of the source.
\<close>

section \<open>qrcode\<close>

definition qrcode_grants_1 :: "grant list" where
  "qrcode_grants_1 = [
    \<lparr>g_resource = E_USER, g_action = [A_READ, A_CREATE],
      g_attributes = Some [''id'', ''name'', ''firstName'', ''email'', ''role'', ''status'', ''issuer'',
        ''locale'', ''plateID'', ''notificationsActive'', ''notifications'', ''phone'', ''mobile'',
        ''iNumber'', ''costCenter'', ''address.address1'', ''address.address2'', ''address.postalCode'',
        ''address.city'', ''address.department'', ''address.region'', ''address.country'',
        ''address.coordinates''],
      g_condition = None\<rparr>,
    \<lparr>g_resource = E_TENANT, g_action = [A_READ],
      g_attributes = Some [''id'', ''name'', ''email'', ''logo'', ''address''],
      g_condition = None\<rparr>,
    \<lparr>g_resource = E_USER, g_action = [A_LIST],
      g_attributes = Some [''id'', ''name'', ''firstName'', ''email'', ''role'', ''status'', ''issuer'',
        ''createdOn'', ''createdBy.name'', ''createdBy.firstName'', ''lastChangedOn'',
        ''lastChangedBy.name'', ''lastChangedBy.firstName'', ''eulaAcceptedOn'', ''eulaAcceptedVersion'',
        ''locale'', ''billingData.customerID'', ''billingData.lastChangedOn'', ''technical'',
        ''freeAccess''],
      g_condition = Some \<lparr>ca_asserts = [], ca_filters = [], ca_metadata = Some [(''status'',
        \<lparr>fm_visible = Some True, fm_enabled = None, fm_mandatory = Some
        True\<rparr>)]\<rparr>\<rparr>,
    \<lparr>g_resource = E_COMPANY, g_action = [A_LIST],
      g_attributes = Some [''id'', ''name'', ''address.address1'', ''address.address2'',
        ''address.postalCode'', ''address.city'', ''address.department'', ''address.region'',
        ''address.country'', ''address.coordinates'', ''logo'', ''issuer'', ''distanceMeters'',
        ''createdOn'', ''lastChangedOn'', ''createdBy.name'', ''createdBy.firstName'',
        ''lastChangedBy.name'', ''lastChangedBy.firstName''],
      g_condition = None\<rparr>,
    \<lparr>g_resource = E_TAG, g_action = [A_LIST],
      g_attributes = Some [''id'', ''userID'', ''active'', ''ocpiToken'', ''description'', ''visualID'',
        ''issuer'', ''default'', ''fromEMSP'', ''user.name'', ''user.firstName'', ''user.email'',
        ''createdOn'', ''lastChangedOn''],
      g_condition = None\<rparr>,
    \<lparr>g_resource = E_EMAID, g_action = [A_LIST],
      g_attributes = Some [''id'', ''userID'', ''active'', ''description'', ''visualID'', ''issuer'',
        ''user.name'', ''user.firstName'', ''user.email'', ''createdOn'', ''lastChangedOn''],
      g_condition = None\<rparr>,
    \<lparr>g_resource = E_TAG, g_action = [A_IMPORT, A_EXPORT],
      g_attributes = None,
      g_condition = None\<rparr>,
    \<lparr>g_resource = E_TAG, g_action = [A_READ],
      g_attributes = Some [''id'', ''userID'', ''issuer'', ''active'', ''description'', ''visualID'',
        ''user.id'', ''fromEMSP'', ''user.name'', ''user.firstName'', ''user.email''],
      g_condition = Some \<lparr>ca_asserts = [], ca_filters = [], ca_metadata = None\<rparr>\<rparr>,
    \<lparr>g_resource = E_TAG, g_action = [A_CREATE],
      g_attributes = None,
      g_condition = None\<rparr>,
    \<lparr>g_resource = E_CHARGING_PROFILE, g_action = [A_LIST],
      g_attributes = Some [''id'', ''chargingStationID'', ''chargePointID'', ''connectorID'',
        ''chargingStation.id'', ''chargingStation.siteID'', ''chargingStation.siteAreaID'',
        ''chargingStation.siteArea.id'', ''chargingStation.siteArea.name'',
        ''chargingStation.siteArea.maximumPower'', ''chargingStation.siteArea.siteID'',
        ''profile.chargingProfileKind'', ''profile.chargingProfilePurpose'', ''profile.stackLevel'',
        ''profile.chargingSchedule''],
      g_condition = Some \<lparr>ca_asserts = [], ca_filters = [], ca_metadata = None\<rparr>\<rparr>,
    \<lparr>g_resource = E_CHARGING_PROFILE, g_action = [A_READ, A_CREATE, A_UPDATE],
      g_attributes = None,
      g_condition = None\<rparr>,
    \<lparr>g_resource = E_COMPANY, g_action = [A_READ],
      g_attributes = Some [''id'', ''name'', ''issuer'', ''logo'', ''address.address1'',
        ''address.address2'', ''address.postalCode'', ''address.city'', ''address.department'',
        ''address.region'', ''address.country'', ''address.coordinates'', ''accountData.accountID'',
        ''accountData.platformFeeStrategy.flatFeePerSession'',
        ''accountData.platformFeeStrategy.percentage'', ''accountData.account.companyName'',
        ''accountData.account.businessOwner.id'', ''accountData.account.businessOwner.email'',
        ''accountData.account.businessOwner.firstName'', ''accountData.account.businessOwner.name''],
      g_condition = None\<rparr>,
    \<lparr>g_resource = E_COMPANY, g_action = [A_LIST],
      g_attributes = None,
      g_condition = Some \<lparr>ca_asserts = [], ca_filters = [[''LocalIssuer'']], ca_metadata =
        None\<rparr>\<rparr>,
    \<lparr>g_resource = E_SITE, g_action = [A_LIST],
      g_attributes = Some [''id'', ''name'', ''address.address1'', ''address.address2'',
        ''address.postalCode'', ''address.city'', ''address.department'', ''address.region'',
        ''address.country'', ''tariffID'', ''address.coordinates'', ''companyID'', ''company.name'',
        ''autoUserSiteAssignment'', ''issuer'', ''autoUserSiteAssignment'', ''distanceMeters'', ''public'',
        ''createdOn'', ''lastChangedOn'', ''createdBy.name'', ''createdBy.firstName'',
        ''lastChangedBy.name'', ''lastChangedBy.firstName'', ''connectorStats''],
      g_condition = None\<rparr>,
    \<lparr>g_resource = E_SITE, g_action = [A_READ],
      g_attributes = Some [''id'', ''name'', ''address'', ''companyID'', ''company.name'',
        ''autoUserSiteAssignment'', ''issuer'', ''autoUserSiteAssignment'', ''distanceMeters'', ''public'',
        ''createdOn'', ''lastChangedOn'', ''tariffID'', ''tariffIDs''],
      g_condition = None\<rparr>]"

definition qrcode_grants_2 :: "grant list" where
  "qrcode_grants_2 = [
    \<lparr>g_resource = E_SITE, g_action = [A_CREATE, A_UPDATE, A_EXPORT_OCPP_PARAMS, A_GENERATE_QR,
      A_MAINTAIN_PRICING_DEFINITIONS],
      g_attributes = None,
      g_condition = Some \<lparr>ca_asserts = [], ca_filters = [[''LocalIssuer'']], ca_metadata =
        None\<rparr>\<rparr>,
    \<lparr>g_resource = E_SMART_CHARGING, g_action = [A_CHECK_CONNECTION],
      g_attributes = None,
      g_condition = None\<rparr>,
    \<lparr>g_resource = E_USER_SITE, g_action = [A_ASSIGN_SITES_TO_USER, A_UNASSIGN_SITES_FROM_USER,
      A_READ, A_UPDATE, A_LIST],
      g_attributes = Some [''site.id'', ''site.name'', ''site.address.city'', ''site.address.country'',
        ''siteAdmin'', ''siteOwner'', ''userID''],
      g_condition = Some \<lparr>ca_asserts = [], ca_filters = [], ca_metadata = None\<rparr>\<rparr>,
    \<lparr>g_resource = E_SITE_USER, g_action = [A_ASSIGN_USERS_TO_SITE, A_UNASSIGN_USERS_FROM_SITE,
      A_READ, A_UPDATE, A_LIST],
      g_attributes = Some [''user.id'', ''user.name'', ''user.firstName'', ''user.email'', ''user.role'',
        ''siteID'', ''siteAdmin'', ''siteOwner''],
      g_condition = Some \<lparr>ca_asserts = [], ca_filters = [[''LocalIssuer'']], ca_metadata =
        None\<rparr>\<rparr>,
    \<lparr>g_resource = E_SITE_AREA, g_action = [A_LIST],
      g_attributes = Some [''id'', ''name'', ''siteID'', ''maximumPower'', ''voltage'', ''numberOfPhases'',
        ''accessControl'', ''smartCharging'', ''chargingStations.id'', ''address.address1'',
        ''address.address2'', ''address.postalCode'', ''address.city'', ''address.department'',
        ''address.region'', ''address.country'', ''tariffID'', ''address.coordinates'', ''site.id'',
        ''site.name'', ''site.public'', ''parentSiteAreaID'', ''parentSiteArea.name'', ''issuer'',
        ''distanceMeters'', ''createdOn'', ''createdBy.name'', ''createdBy.firstName'', ''lastChangedOn'',
        ''lastChangedBy.name'', ''lastChangedBy.firstName'', ''connectorStats''],
      g_condition = None\<rparr>,
    \<lparr>g_resource = E_SITE_AREA, g_action = [A_READ, A_READ_CHARGING_STATIONS_FROM_SITE_AREA],
      g_attributes = Some [''id'', ''name'', ''issuer'', ''image'', ''maximumPower'', ''numberOfPhases'',
        ''voltage'', ''smartCharging'', ''smartChargingSessionParameters'',
        ''smartChargingSessionParameters.departureTime'',
        ''smartChargingSessionParameters.carStateOfCharge'',
        ''smartChargingSessionParameters.targetStateOfCharge'', ''accessControl'', ''connectorStats'',
        ''siteID'', ''site.name'', ''site.public'', ''parentSiteAreaID'', ''parentSiteArea.name'',
        ''tariffID'', ''address.address1'', ''address.address2'', ''address.postalCode'', ''address.city'',
        ''address.department'', ''address.region'', ''address.country'', ''address.coordinates'',
        ''tariffIDs''],
      g_condition = None\<rparr>,
    \<lparr>g_resource = E_SITE_AREA, g_action = [A_CREATE, A_UPDATE, A_ASSIGN_ASSETS_TO_SITE_AREA,
      A_UNASSIGN_ASSETS_FROM_SITE_AREA, A_ASSIGN_CHARGING_STATIONS_TO_SITE_AREA,
      A_UNASSIGN_CHARGING_STATIONS_FROM_SITE_AREA, A_EXPORT_OCPP_PARAMS, A_GENERATE_QR,
      A_READ_ASSETS_FROM_SITE_AREA],
      g_attributes = None,
      g_condition = Some \<lparr>ca_asserts = [], ca_filters = [[''LocalIssuer'']], ca_metadata =
        None\<rparr>\<rparr>,
    \<lparr>g_resource = E_CHARGING_STATION, g_action = [A_LIST],
      g_attributes = Some [''id'', ''inactive'', ''connectorsStatus'', ''connectorsConsumption'',
        ''public'', ''firmwareVersion'', ''chargePointVendor'', ''chargePointModel'', ''ocppVersion'',
        ''ocppProtocol'', ''lastSeen'', ''firmwareUpdateStatus'', ''coordinates'', ''issuer'', ''voltage'',
        ''distanceMeters'', ''siteAreaID'', ''siteArea.id'', ''siteArea.name'', ''siteArea.siteID'',
        ''site.name'', ''siteArea.address'', ''siteID'', ''maximumPower'', ''powerLimitUnit'',
        ''chargePointModel'', ''chargePointSerialNumber'', ''chargeBoxSerialNumber'',
        ''connectors.connectorId'', ''connectors.status'', ''connectors.type'', ''connectors.power'',
        ''connectors.errorCode'', ''connectors.currentTotalConsumptionWh'',
        ''connectors.currentInstantWatts'', ''connectors.currentStateOfCharge'', ''connectors.info'',
        ''connectors.vendorErrorCode'', ''connectors.currentTransactionID'',
        ''connectors.currentTotalInactivitySecs'', ''connectors.currentTagID'', ''lastReboot'',
        ''createdOn'', ''connectors.user.id'', ''connectors.user.name'', ''connectors.user.firstName'',
        ''connectors.user.email'', ''connectors.isPrivate'', ''connectors.ownerIds'',
        ''ocpiData.evses.capabilities'', ''chargePoints.chargePointID'', ''chargePoints.currentType'',
        ''chargePoints.voltage'', ''chargePoints.amperage'', ''chargePoints.numberOfConnectedPhase'',
        ''chargePoints.cannotChargeInParallel'', ''chargePoints.sharePowerToAllConnectors'',
        ''chargePoints.excludeFromPowerLimitation'', ''chargePoints.ocppParamForPowerLimitation'',
        ''chargePoints.power'', ''chargePoints.efficiency'', ''chargePoints.connectorIDs''],
      g_condition = None\<rparr>,
    \<lparr>g_resource = E_CHARGING_STATION, g_action = [A_GET_STATUS_NOTIFICATION],
      g_attributes = Some [''id'', ''timestamp'', ''chargeBoxID'', ''connectorId'', ''timezone'',
        ''status'', ''errorCode'', ''info'', ''vendorId'', ''vendorErrorCode''],
      g_condition = Some \<lparr>ca_asserts = [], ca_filters = [], ca_metadata = None\<rparr>\<rparr>,
    \<lparr>g_resource = E_CHARGING_STATION, g_action = [A_GET_BOOT_NOTIFICATION],
      g_attributes = Some [''id'', ''chargePointVendor'', ''chargePointModel'', ''chargePointSerialNumber'',
        ''chargeBoxSerialNumber'', ''firmwareVersion'', ''ocppVersion'', ''ocppProtocol'', ''endpoint'',
        ''timestamp'', ''chargeBoxID'', ''createdBy.name'', ''createdBy.firstName'', ''lastChangedBy.name'',
        ''lastChangedBy.firstName''],
      g_condition = Some \<lparr>ca_asserts = [], ca_filters = [], ca_metadata = None\<rparr>\<rparr>,
    \<lparr>g_resource = E_CHARGING_STATION, g_action = [A_IN_ERROR],
      g_attributes = Some [''id'', ''inactive'', ''connectorsStatus'', ''connectorsConsumption'',
        ''public'', ''errorCodeDetails'', ''errorCode'', ''lastSeen'', ''connectors.connectorId'',
        ''connectors.status'', ''connectors.type'', ''connectors.power'', ''connectors.errorCode''],
      g_condition = None\<rparr>,
    \<lparr>g_resource = E_CHARGING_STATION, g_action = [A_RESET, A_CLEAR_CACHE, A_CHANGE_AVAILABILITY,
      A_UPDATE, A_GENERATE_QR, A_GET_CONFIGURATION, A_CHANGE_CONFIGURATION, A_STOP_TRANSACTION,
      A_START_TRANSACTION, A_AUTHORIZE, A_SET_CHARGING_PROFILE, A_GET_COMPOSITE_SCHEDULE,
      A_CLEAR_CHARGING_PROFILE, A_GET_DIAGNOSTICS, A_UPDATE_FIRMWARE, A_EXPORT_OCPP_PARAMS,
      A_TRIGGER_DATA_TRANSFER, A_UPDATE_OCPP_PARAMS, A_LIMIT_POWER, A_DELETE_CHARGING_PROFILE,
      A_GET_OCPP_PARAMS, A_UPDATE_CHARGING_PROFILE, A_GET_CONNECTOR_QR_CODE, A_MAINTAIN_PRICING_DEFINITIONS,
      A_ASSIGN_UNASSIGN_USER_TO_CHARGING_STATION_CONNECTOR],
      g_attributes = None,
      g_condition = Some \<lparr>ca_asserts = [], ca_filters = [[''LocalIssuer'']], ca_metadata =
        None\<rparr>\<rparr>]"

definition qrcode_grants_3 :: "grant list" where
  "qrcode_grants_3 = [
    \<lparr>g_resource = E_CHARGING_STATION, g_action = [A_CREATE, A_READ, A_REMOTE_START_TRANSACTION,
      A_REMOTE_STOP_TRANSACTION, A_UNLOCK_CONNECTOR, A_EXPORT, A_RESERVE_NOW,
      A_ASSIGN_UNASSIGN_USERS_TO_CONNECTOR],
      g_attributes = None,
      g_condition = None\<rparr>,
    \<lparr>g_resource = E_CHARGING_STATION, g_action = [A_VIEW_USER_DATA],
      g_attributes = None,
      g_condition = Some \<lparr>ca_asserts = [], ca_filters = [], ca_metadata = None\<rparr>\<rparr>,
    \<lparr>g_resource = E_CONNECTOR, g_action = [A_STOP_TRANSACTION, A_START_TRANSACTION],
      g_attributes = None,
      g_condition = Some \<lparr>ca_asserts = [], ca_filters = [[''LocalIssuer'']], ca_metadata =
        None\<rparr>\<rparr>,
    \<lparr>g_resource = E_CONNECTOR, g_action = [A_REMOTE_STOP_TRANSACTION, A_REMOTE_START_TRANSACTION,
      A_ASSIGN_UNASSIGN_USERS_TO_CONNECTOR],
      g_attributes = None,
      g_condition = Some \<lparr>ca_asserts = [], ca_filters = [], ca_metadata = None\<rparr>\<rparr>,
    \<lparr>g_resource = E_CONNECTOR, g_action = [A_VIEW_USER_DATA],
      g_attributes = None,
      g_condition = Some \<lparr>ca_asserts = [], ca_filters = [], ca_metadata = None\<rparr>\<rparr>,
    \<lparr>g_resource = E_STATISTIC, g_action = [A_READ],
      g_attributes = None,
      g_condition = None\<rparr>,
    \<lparr>g_resource = E_STATISTIC, g_action = [A_EXPORT],
      g_attributes = None,
      g_condition = None\<rparr>,
    \<lparr>g_resource = E_TRANSACTION, g_action = [A_LIST],
      g_attributes = Some [''billingData.stop.invoiceNumber'', ''car.licensePlate'',
        ''carCatalog.vehicleMake'', ''carCatalog.vehicleModel'', ''carCatalog.vehicleModelVersion'',
        ''carCatalogID'', ''carID'', ''chargeBoxID'', ''company.name'', ''companyID'', ''connectorId'',
        ''currentCumulatedPrice'', ''currentInactivityStatus'', ''currentInstantWatts'',
        ''currentStateOfCharge'', ''currentTotalConsumptionWh'', ''currentTotalDurationSecs'',
        ''currentTotalInactivitySecs'', ''id'', ''issuer'', ''meterStart'', ''ocpi'', ''ocpiWithCdr'',
        ''price'', ''priceUnit'', ''roundedPrice'', ''site.name'', ''siteArea.name'', ''siteAreaID'',
        ''siteID'', ''stateOfCharge'', ''stop.extraInactivitySecs'', ''stop.inactivityStatus'',
        ''stop.meterStop'', ''stop.price'', ''stop.priceUnit'', ''stop.reason'', ''stop.roundedPrice'',
        ''stop.stateOfCharge'', ''stop.tag.visualID'', ''stop.tagID'', ''stop.timestamp'',
        ''stop.totalConsumptionWh'', ''stop.totalDurationSecs'', ''stop.totalInactivitySecs'',
        ''stop.user.email'', ''stop.user.firstName'', ''stop.user.id'', ''stop.user.name'', ''stop.userID'',
        ''tag.description'', ''tag.visualID'', ''tagID'', ''timestamp'', ''timezone'', ''user.id'',
        ''user.email'', ''user.firstName'', ''user.name'', ''userID''],
      g_condition = Some \<lparr>ca_asserts = [], ca_filters = [], ca_metadata = None\<rparr>\<rparr>,
    \<lparr>g_resource = E_TRANSACTION, g_action = [A_READ],
      g_attributes = None,
      g_condition = Some \<lparr>ca_asserts = [], ca_filters = [], ca_metadata = None\<rparr>\<rparr>,
    \<lparr>g_resource = E_TRANSACTION, g_action = [A_GET_CHARGING_STATION_TRANSACTIONS],
      g_attributes = Some [''id'', ''chargeBoxID'', ''timestamp'', ''issuer'', ''stateOfCharge'',
        ''timezone'', ''connectorId'', ''meterStart'', ''siteAreaID'', ''siteID'', ''companyID'',
        ''currentTotalDurationSecs'', ''currentTotalInactivitySecs'', ''currentInstantWatts'',
        ''currentTotalConsumptionWh'', ''currentStateOfCharge'', ''currentInactivityStatus'',
        ''stop.roundedPrice'', ''stop.price'', ''stop.priceUnit'', ''stop.inactivityStatus'',
        ''stop.stateOfCharge'', ''stop.timestamp'', ''stop.totalConsumptionWh'', ''stop.totalDurationSecs'',
        ''stop.totalInactivitySecs'', ''stop.extraInactivitySecs'', ''site.name'', ''siteArea.name'',
        ''company.name'', ''billingData.stop.invoiceNumber'', ''stop.reason'', ''ocpi'', ''ocpiWithCdr'',
        ''tagID'', ''stop.tagID''],
      g_condition = Some \<lparr>ca_asserts = [], ca_filters = [], ca_metadata = None\<rparr>\<rparr>,
    \<lparr>g_resource = E_TRANSACTION, g_action = [A_GET_ACTIVE_TRANSACTION],
      g_attributes = Some [''car.licensePlate'', ''carCatalog.vehicleMake'', ''carCatalog.vehicleModel'',
        ''carCatalog.vehicleModelVersion'', ''chargeBoxID'', ''company.name'', ''companyID'',
        ''connectorId'', ''currentCumulatedPrice'', ''currentInactivityStatus'', ''currentInstantWatts'',
        ''currentStateOfCharge'', ''currentTotalConsumptionWh'', ''currentTotalDurationSecs'',
        ''currentTotalInactivitySecs'', ''id'', ''issuer'', ''meterStart'', ''price'', ''priceUnit'',
        ''roundedPrice'', ''site.name'', ''siteArea.name'', ''siteAreaID'', ''siteID'', ''stateOfCharge'',
        ''status'', ''tag.description'', ''tag.visualID'', ''tagID'', ''timestamp'', ''timezone'',
        ''userID'', ''user.id'', ''user.email'', ''user.firstName'', ''user.name''],
      g_condition = Some \<lparr>ca_asserts = [], ca_filters = [], ca_metadata = None\<rparr>\<rparr>,
    \<lparr>g_resource = E_TRANSACTION, g_action = [A_GET_REFUNDABLE_TRANSACTION],
      g_attributes = Some [''billingData.stop.invoiceNumber'', ''car.licensePlate'',
        ''carCatalog.vehicleMake'', ''carCatalog.vehicleModel'', ''carCatalog.vehicleModelVersion'',
        ''chargeBoxID'', ''company.name'', ''companyID'', ''connectorId'', ''id'', ''issuer'',
        ''meterStart'', ''refundData.refundedAt'', ''refundData.reportId'', ''refundData.status'',
        ''site.name'', ''siteArea.name'', ''siteAreaID'', ''siteID'', ''stateOfCharge'',
        ''stop.extraInactivitySecs'', ''stop.inactivityStatus'', ''stop.price'', ''stop.priceUnit'',
        ''stop.reason'', ''stop.roundedPrice'', ''stop.stateOfCharge'', ''stop.tagID'', ''stop.timestamp'',
        ''stop.totalConsumptionWh'', ''stop.totalDurationSecs'', ''stop.totalInactivitySecs'',
        ''stop.userID'', ''tagID'', ''timestamp'', ''timezone'', ''userID'', ''user.id'', ''user.email'',
        ''user.firstName'', ''user.name'', ''pricingModel'', ''tariffData''],
      g_condition = Some \<lparr>ca_asserts = [], ca_filters = [], ca_metadata = None\<rparr>\<rparr>]"

definition qrcode_grants_4 :: "grant list" where
  "qrcode_grants_4 = [
    \<lparr>g_resource = E_TRANSACTION, g_action = [A_GET_COMPLETED_TRANSACTION],
      g_attributes = Some [''billingData.stop.invoiceNumber'', ''car.licensePlate'',
        ''carCatalog.vehicleMake'', ''carCatalog.vehicleModel'', ''carCatalog.vehicleModelVersion'',
        ''chargeBoxID'', ''company.name'', ''companyID'', ''connectorId'', ''id'', ''issuer'',
        ''meterStart'', ''ocpi'', ''ocpiWithCdr'', ''site.name'', ''siteArea.name'', ''siteAreaID'',
        ''siteID'', ''stateOfCharge'', ''stop.extraInactivitySecs'', ''stop.inactivityStatus'',
        ''stop.meterStop'', ''stop.price'', ''stop.priceUnit'', ''stop.reason'', ''stop.roundedPrice'',
        ''stop.stateOfCharge'', ''stop.tag.visualID'', ''stop.tagID'', ''stop.timestamp'',
        ''stop.totalConsumptionWh'', ''stop.totalDurationSecs'', ''stop.totalInactivitySecs'',
        ''stop.userID'', ''tag.description'', ''tag.visualID'', ''tagID'', ''timestamp'', ''timezone'',
        ''userID'', ''user.id'', ''user.email'', ''user.firstName'', ''user.name'',
        ''tag.ocpiToken.issuer''],
      g_condition = Some \<lparr>ca_asserts = [], ca_filters = [], ca_metadata = None\<rparr>\<rparr>,
    \<lparr>g_resource = E_TRANSACTION, g_action = [A_GET_REFUND_REPORT],
      g_attributes = Some [''id'', ''userID'', ''user.id'', ''user.name'', ''user.firstName'',
        ''user.email'', ''tagID''],
      g_condition = Some \<lparr>ca_asserts = [], ca_filters = [], ca_metadata = None\<rparr>\<rparr>,
    \<lparr>g_resource = E_TRANSACTION, g_action = [A_REFUND_TRANSACTION],
      g_attributes = None,
      g_condition = Some \<lparr>ca_asserts = [], ca_filters = [[''SitesOwner'']], ca_metadata =
        None\<rparr>\<rparr>,
    \<lparr>g_resource = E_TRANSACTION, g_action = [A_EXPORT_COMPLETED_TRANSACTION],
      g_attributes = Some [''billingData.stop.invoiceNumber'', ''chargeBoxID'', ''company.name'',
        ''companyID'', ''connectorId'', ''id'', ''issuer'', ''meterStart'', ''ocpi'', ''ocpiWithCdr'',
        ''site.name'', ''siteArea.name'', ''siteAreaID'', ''siteID'', ''stateOfCharge'',
        ''stop.extraInactivitySecs'', ''stop.inactivityStatus'', ''stop.price'', ''stop.priceUnit'',
        ''stop.reason'', ''stop.roundedPrice'', ''stop.stateOfCharge'', ''stop.tag.description'',
        ''stop.tag.visualID'', ''stop.tagID'', ''stop.timestamp'', ''stop.totalConsumptionWh'',
        ''stop.totalDurationSecs'', ''stop.totalInactivitySecs'', ''tag.description'', ''tag.visualID'',
        ''tagID'', ''timestamp'', ''timezone'', ''userID'', ''user.id'', ''user.name'', ''user.firstName'',
        ''user.email''],
      g_condition = Some \<lparr>ca_asserts = [], ca_filters = [], ca_metadata = None\<rparr>\<rparr>,
    \<lparr>g_resource = E_TRANSACTION, g_action = [A_EXPORT_OCPI_CDR],
      g_attributes = Some [''id'', ''ocpiData'', ''ocpi'', ''ocpiWithCdr''],
      g_condition = Some \<lparr>ca_asserts = [], ca_filters = [], ca_metadata = None\<rparr>\<rparr>,
    \<lparr>g_resource = E_TRANSACTION, g_action = [A_IN_ERROR],
      g_attributes = Some [''car.licensePlate'', ''carCatalog.vehicleMake'', ''carCatalog.vehicleModel'',
        ''carCatalog.vehicleModelVersion'', ''carID'', ''chargeBoxID'', ''companyID'', ''connectorId'',
        ''errorCode'', ''id'', ''issuer'', ''meterStart'', ''siteAreaID'', ''siteID'', ''stateOfCharge'',
        ''stop.stateOfCharge'', ''stop.tagID'', ''stop.totalConsumptionWh'', ''stop.totalDurationSecs'',
        ''stop.user.email'', ''stop.user.firstName'', ''stop.user.id'', ''stop.user.name'', ''stop.userID'',
        ''tagID'', ''timestamp'', ''timezone'', ''uniqueId'', ''userID'', ''user.id'', ''user.email'',
        ''user.firstName'', ''user.name''],
      g_condition = Some \<lparr>ca_asserts = [], ca_filters = [], ca_metadata = None\<rparr>\<rparr>,
    \<lparr>g_resource = E_TRANSACTION, g_action = [A_EXPORT, A_SYNCHRONIZE_REFUNDED_TRANSACTION, A_UPDATE,
      A_REMOTE_STOP_TRANSACTION],
      g_attributes = None,
      g_condition = None\<rparr>,
    \<lparr>g_resource = E_TRANSACTION, g_action = [A_PUSH_TRANSACTION_CDR],
      g_attributes = None,
      g_condition = Some \<lparr>ca_asserts = [], ca_filters = [[''LocalIssuer'']], ca_metadata =
        None\<rparr>\<rparr>,
    \<lparr>g_resource = E_CHARGING_STATION, g_action = [A_PUSH_TRANSACTION_CDR],
      g_attributes = None,
      g_condition = Some \<lparr>ca_asserts = [], ca_filters = [[''LocalIssuer'']], ca_metadata =
        None\<rparr>\<rparr>,
    \<lparr>g_resource = E_CHARGING_STATION, g_action = [A_EXPORT_OCPI_CDR],
      g_attributes = None,
      g_condition = Some \<lparr>ca_asserts = [], ca_filters = [[''LocalIssuer'']], ca_metadata =
        None\<rparr>\<rparr>,
    \<lparr>g_resource = E_TRANSACTION, g_action = [A_VIEW_USER_DATA],
      g_attributes = None,
      g_condition = Some \<lparr>ca_asserts = [], ca_filters = [], ca_metadata = None\<rparr>\<rparr>]"

definition qrcode_grants_5 :: "grant list" where
  "qrcode_grants_5 = [
    \<lparr>g_resource = E_CONSUMPTION, g_action = [A_LIST],
      g_attributes = Some [''startedAt'', ''endedAt'', ''cumulatedConsumptionWh'',
        ''cumulatedConsumptionAmps'', ''cumulatedAmount'', ''stateOfCharge'', ''limitWatts'', ''limitAmps'',
        ''instantVoltsDC'', ''instantVolts'', ''instantVoltsL1'', ''instantVoltsL2'', ''instantVoltsL3'',
        ''instantWattsDC'', ''instantWatts'', ''instantWattsL1'', ''instantWattsL2'', ''instantWattsL3'',
        ''instantAmpsDC'', ''instantAmps'', ''instantAmpsL1'', ''instantAmpsL2'', ''instantAmpsL3''],
      g_condition = Some \<lparr>ca_asserts = [], ca_filters = [], ca_metadata = None\<rparr>\<rparr>,
    \<lparr>g_resource = E_CONSUMPTION, g_action = [A_READ],
      g_attributes = Some [''startedAt'', ''endedAt'', ''cumulatedConsumptionWh'',
        ''cumulatedConsumptionAmps'', ''cumulatedAmount'', ''stateOfCharge'', ''limitWatts'', ''limitAmps'',
        ''instantVoltsDC'', ''instantVolts'', ''instantVoltsL1'', ''instantVoltsL2'', ''instantVoltsL3'',
        ''instantWattsDC'', ''instantWatts'', ''instantWattsL1'', ''instantWattsL2'', ''instantWattsL3'',
        ''instantAmpsDC'', ''instantAmps'', ''instantAmpsL1'', ''instantAmpsL2'', ''instantAmpsL3''],
      g_condition = Some \<lparr>ca_asserts = [], ca_filters = [], ca_metadata = None\<rparr>\<rparr>,
    \<lparr>g_resource = E_CONSUMPTION, g_action = [A_GET_ADVENIR_CONSUMPTION],
      g_attributes = Some [''startedAt'', ''endedAt'', ''cumulatedConsumptionWh''],
      g_condition = Some \<lparr>ca_asserts = [], ca_filters = [], ca_metadata = None\<rparr>\<rparr>,
    \<lparr>g_resource = E_REPORT, g_action = [A_READ],
      g_attributes = None,
      g_condition = None\<rparr>,
    \<lparr>g_resource = E_LOGGING, g_action = [A_LIST, A_EXPORT],
      g_attributes = Some [''id'', ''level'', ''timestamp'', ''type'', ''source'', ''host'', ''action'',
        ''message'', ''chargingStationID'', ''siteID'', ''user.name'', ''user.firstName'',
        ''actionOnUser.name'', ''actionOnUser.firstName'', ''hasDetailedMessages'', ''method'', ''module''],
      g_condition = None\<rparr>,
    \<lparr>g_resource = E_LOGGING, g_action = [A_READ],
      g_attributes = Some [''id'', ''level'', ''timestamp'', ''type'', ''source'', ''host'', ''action'',
        ''message'', ''chargingStationID'', ''siteID'', ''user.name'', ''user.firstName'',
        ''actionOnUser.name'', ''actionOnUser.firstName'', ''hasDetailedMessages'', ''detailedMessages''],
      g_condition = None\<rparr>,
    \<lparr>g_resource = E_PRICING, g_action = [A_READ, A_UPDATE],
      g_attributes = None,
      g_condition = None\<rparr>,
    \<lparr>g_resource = E_PRICING_DEFINITION, g_action = [A_LIST],
      g_attributes = Some [''id'', ''entityID'', ''entityType'', ''name'', ''description'', ''entityName'',
        ''staticRestrictions.validFrom'', ''staticRestrictions.validTo'',
        ''staticRestrictions.connectorType'', ''staticRestrictions.connectorPowerkW'',
        ''restrictions.daysOfWeek'', ''restrictions.timeFrom'', ''restrictions.timeTo'',
        ''restrictions.minEnergyKWh'', ''restrictions.maxEnergyKWh'', ''restrictions.minDurationSecs'',
        ''restrictions.maxDurationSecs'', ''dimensions.flatFee.active'', ''dimensions.flatFee.price'',
        ''dimensions.flatFee.stepSize'', ''dimensions.flatFee.pricedData'', ''dimensions.energy.active'',
        ''dimensions.energy.price'', ''dimensions.energy.stepSize'', ''dimensions.energy.pricedData'',
        ''dimensions.chargingTime.active'', ''dimensions.chargingTime.price'',
        ''dimensions.chargingTime.stepSize'', ''dimensions.chargingTime.pricedData'',
        ''dimensions.parkingTime.active'', ''dimensions.parkingTime.price'',
        ''dimensions.parkingTime.stepSize'', ''dimensions.parkingTime.pricedData'', ''roaming''],
      g_condition = None\<rparr>,
    \<lparr>g_resource = E_PRICING_DEFINITION, g_action = [A_CREATE, A_READ, A_UPDATE, A_DELETE],
      g_attributes = Some [''id'', ''entityID'', ''entityType'', ''name'', ''description'', ''entityName'',
        ''staticRestrictions.validFrom'', ''staticRestrictions.validTo'',
        ''staticRestrictions.connectorType'', ''staticRestrictions.connectorPowerkW'',
        ''restrictions.daysOfWeek'', ''restrictions.timeFrom'', ''restrictions.timeTo'',
        ''restrictions.minEnergyKWh'', ''restrictions.maxEnergyKWh'', ''restrictions.minDurationSecs'',
        ''restrictions.maxDurationSecs'', ''dimensions.flatFee.active'', ''dimensions.flatFee.price'',
        ''dimensions.flatFee.stepSize'', ''dimensions.flatFee.pricedData'', ''dimensions.energy.active'',
        ''dimensions.energy.price'', ''dimensions.energy.stepSize'', ''dimensions.energy.pricedData'',
        ''dimensions.chargingTime.active'', ''dimensions.chargingTime.price'',
        ''dimensions.chargingTime.stepSize'', ''dimensions.chargingTime.pricedData'',
        ''dimensions.parkingTime.active'', ''dimensions.parkingTime.price'',
        ''dimensions.parkingTime.stepSize'', ''dimensions.parkingTime.pricedData'', ''roaming''],
      g_condition = None\<rparr>,
    \<lparr>g_resource = E_BILLING, g_action = [A_CHECK_CONNECTION, A_CLEAR_BILLING_TEST_DATA],
      g_attributes = None,
      g_condition = None\<rparr>,
    \<lparr>g_resource = E_BILLING_ACCOUNT, g_action = [A_LIST, A_CREATE, A_READ, A_UPDATE, A_DELETE,
      A_BILLING_ONBOARD_ACCOUNT],
      g_attributes = Some [''id'', ''accountExternalID'', ''taxID'', ''businessOwnerID'',
        ''businessOwner.id'', ''businessOwner.firstName'', ''businessOwner.name'', ''businessOwner.email'',
        ''status'', ''companyName''],
      g_condition = None\<rparr>,
    \<lparr>g_resource = E_BILLING_TRANSFER, g_action = [A_LIST, A_READ, A_BILLING_FINALIZE_TRANSFER,
      A_BILLING_SEND_TRANSFER, A_DOWNLOAD],
      g_attributes = Some [''id'', ''status'', ''createdOn'', ''sessionCounter'', ''collectedFunds'',
        ''collectedFlatFees'', ''collectedFees'', ''totalConsumptionWh'', ''totalDurationSecs'',
        ''transferAmount'', ''accountID'', ''transferExternalID'', ''account.companyName'',
        ''account.businessOwnerID'', ''account.accountExternalID'', ''businessOwner.name'',
        ''businessOwner.firstName'', ''platformFeeData.feeAmount'', ''platformFeeData.feeTaxAmount'',
        ''currency'', ''invoice.documentNumber'', ''invoice.invoiceID'', ''invoice.userID'',
        ''invoice.totalAmount''],
      g_condition = None\<rparr>,
    \<lparr>g_resource = E_TAX, g_action = [A_LIST],
      g_attributes = None,
      g_condition = None\<rparr>,
    \<lparr>g_resource = E_INVOICE, g_action = [A_LIST],
      g_attributes = Some [''id'', ''number'', ''status'', ''amount'', ''createdOn'', ''currency'',
        ''downloadable'', ''sessions'', ''userID'', ''user.id'', ''user.name'', ''user.firstName'',
        ''user.email''],
      g_condition = None\<rparr>,
    \<lparr>g_resource = E_INVOICE, g_action = [A_DOWNLOAD, A_READ],
      g_attributes = None,
      g_condition = None\<rparr>,
    \<lparr>g_resource = E_ASSET, g_action = [A_CREATE, A_READ, A_CHECK_CONNECTION, A_CREATE_CONSUMPTION],
      g_attributes = None,
      g_condition = None\<rparr>,
    \<lparr>g_resource = E_ASSET, g_action = [A_READ_CONSUMPTION],
      g_attributes = Some [''id'', ''name'', ''siteAreaID'', ''siteArea.id'', ''siteArea.name'',
        ''siteArea.siteID'', ''siteID'', ''assetType'', ''coordinates'', ''dynamicAsset'', ''usesPushAPI'',
        ''connectionID'', ''meterID'', ''currentInstantWatts'', ''currentStateOfCharge'', ''issuer'',
        ''startedAt'', ''instantWatts'', ''instantAmps'', ''limitWatts'', ''limitAmps'', ''endedAt'',
        ''stateOfCharge''],
      g_condition = Some \<lparr>ca_asserts = [], ca_filters = [], ca_metadata = None\<rparr>\<rparr>,
    \<lparr>g_resource = E_ASSET, g_action = [A_RETRIEVE_CONSUMPTION],
      g_attributes = None,
      g_condition = Some \<lparr>ca_asserts = [], ca_filters = [], ca_metadata = None\<rparr>\<rparr>]"

definition qrcode_grants_6 :: "grant list" where
  "qrcode_grants_6 = [
    \<lparr>g_resource = E_ASSET, g_action = [A_UPDATE, A_DELETE],
      g_attributes = None,
      g_condition = Some \<lparr>ca_asserts = [], ca_filters = [[''LocalIssuer'']], ca_metadata =
        None\<rparr>\<rparr>,
    \<lparr>g_resource = E_ASSET, g_action = [A_LIST],
      g_attributes = Some [''id'', ''name'', ''siteAreaID'', ''siteArea.id'', ''siteArea.name'',
        ''siteArea.siteID'', ''siteID'', ''assetType'', ''coordinates'', ''dynamicAsset'', ''usesPushAPI'',
        ''connectionID'', ''meterID'', ''currentInstantWatts'', ''currentStateOfCharge'', ''issuer'',
        ''site.id'', ''site.name''],
      g_condition = None\<rparr>,
    \<lparr>g_resource = E_ASSET, g_action = [A_IN_ERROR],
      g_attributes = Some [''id'', ''name'', ''errorCodeDetails'', ''errorCode''],
      g_condition = None\<rparr>,
    \<lparr>g_resource = E_SETTING, g_action = [A_LIST],
      g_attributes = None,
      g_condition = None\<rparr>,
    \<lparr>g_resource = E_SETTING, g_action = [A_CREATE, A_READ, A_UPDATE, A_DELETE],
      g_attributes = None,
      g_condition = None\<rparr>,
    \<lparr>g_resource = E_REGISTRATION_TOKEN, g_action = [A_LIST],
      g_attributes = Some [''id'', ''status'', ''description'', ''createdOn'', ''lastChangedOn'',
        ''expirationDate'', ''revocationDate'', ''siteAreaID'', ''siteArea.name'', ''createdBy.name'',
        ''createdBy.firstName'', ''lastChangedBy.name'', ''lastChangedBy.firstName''],
      g_condition = None\<rparr>,
    \<lparr>g_resource = E_REGISTRATION_TOKEN, g_action = [A_READ, A_CREATE, A_UPDATE],
      g_attributes = Some [''id'', ''status'', ''description'', ''createdOn'', ''lastChangedOn'',
        ''expirationDate'', ''revocationDate'', ''siteAreaID'', ''siteArea.name'', ''createdBy.name'',
        ''createdBy.firstName'', ''lastChangedBy.name'', ''lastChangedBy.firstName''],
      g_condition = None\<rparr>,
    \<lparr>g_resource = E_REGISTRATION_TOKEN, g_action = [A_DELETE, A_REVOKE],
      g_attributes = None,
      g_condition = None\<rparr>,
    \<lparr>g_resource = E_OCPI_ENDPOINT, g_action = [A_LIST],
      g_attributes = Some [''id'', ''name'', ''role'', ''baseUrl'', ''countryCode'', ''partyId'',
        ''version'', ''status'', ''lastChangedOn'', ''lastPatchJobOn'', ''backgroundPatchJob'',
        ''localToken'', ''token'', ''lastCpoPushStatuses.lastUpdatedOn'', ''lastCpoPushStatuses.partial'',
        ''lastCpoPushStatuses.failureNbr'', ''lastCpoPushStatuses.successNbr'',
        ''lastCpoPushStatuses.totalNbr'', ''lastCpoPullTokens.lastUpdatedOn'',
        ''lastCpoPullTokens.partial'', ''lastCpoPullTokens.failureNbr'', ''lastCpoPullTokens.successNbr'',
        ''lastCpoPullTokens.totalNbr'', ''lastEmspPushTokens.lastUpdatedOn'',
        ''lastEmspPushTokens.partial'', ''lastEmspPushTokens.failureNbr'',
        ''lastEmspPushTokens.successNbr'', ''lastEmspPushTokens.totalNbr'',
        ''lastEmspPullLocations.lastUpdatedOn'', ''lastEmspPullLocations.partial'',
        ''lastEmspPullLocations.failureNbr'', ''lastEmspPullLocations.successNbr'',
        ''lastEmspPullLocations.totalNbr'', ''createdBy.name'', ''createdBy.firstName'',
        ''lastChangedBy.name'', ''lastChangedBy.firstName''],
      g_condition = None\<rparr>,
    \<lparr>g_resource = E_OCPI_ENDPOINT, g_action = [A_READ],
      g_attributes = Some [''id'', ''name'', ''role'', ''baseUrl'', ''countryCode'', ''partyId'',
        ''version'', ''status'', ''patchJobStatus'', ''localToken'', ''token'',
        ''patchJobResult.successNbr'', ''patchJobResult.failureNbr'', ''patchJobResult.totalNbr''],
      g_condition = None\<rparr>,
    \<lparr>g_resource = E_OCPI_ENDPOINT, g_action = [A_CREATE, A_UPDATE, A_DELETE, A_PING,
      A_GENERATE_LOCAL_TOKEN, A_REGISTER, A_TRIGGER_JOB],
      g_attributes = None,
      g_condition = None\<rparr>,
    \<lparr>g_resource = E_OICP_ENDPOINT, g_action = [A_LIST],
      g_attributes = None,
      g_condition = None\<rparr>,
    \<lparr>g_resource = E_OICP_ENDPOINT, g_action = [A_CREATE, A_READ, A_UPDATE, A_DELETE, A_PING,
      A_REGISTER, A_TRIGGER_JOB],
      g_attributes = None,
      g_condition = None\<rparr>,
    \<lparr>g_resource = E_CONNECTION, g_action = [A_LIST],
      g_attributes = None,
      g_condition = None\<rparr>,
    \<lparr>g_resource = E_CONNECTION, g_action = [A_CREATE, A_READ, A_DELETE],
      g_attributes = None,
      g_condition = None\<rparr>,
    \<lparr>g_resource = E_CAR_CATALOG, g_action = [A_LIST],
      g_attributes = Some [''id'', ''vehicleModel'', ''vehicleMake'', ''vehicleModelVersion'',
        ''batteryCapacityFull'', ''fastchargeChargeSpeed'', ''performanceTopspeed'',
        ''performanceAcceleration'', ''rangeWLTP'', ''rangeReal'', ''efficiencyReal'', ''image'',
        ''chargeStandardPower'', ''chargeStandardPhase'', ''chargeStandardPhaseAmp'', ''chargePlug'',
        ''fastChargePlug'', ''fastChargePowerMax'', ''drivetrainPowerHP'', ''chargeStandardPhase''],
      g_condition = None\<rparr>,
    \<lparr>g_resource = E_CAR_CATALOG, g_action = [A_READ],
      g_attributes = Some [''id'', ''vehicleModel'', ''vehicleMake'', ''vehicleModelVersion'',
        ''batteryCapacityFull'', ''fastchargeChargeSpeed'', ''performanceTopspeed'',
        ''performanceAcceleration'', ''rangeWLTP'', ''rangeReal'', ''efficiencyReal'',
        ''drivetrainPropulsion'', ''drivetrainTorque'', ''batteryCapacityUseable'', ''chargePlug'',
        ''fastChargePlug'', ''fastChargePowerMax'', ''chargePlugLocation'', ''drivetrainPowerHP'',
        ''chargeStandardChargeSpeed'', ''chargeStandardChargeTime'', ''miscSeats'', ''miscBody'',
        ''miscIsofix'', ''miscTurningCircle'', ''miscSegment'', ''miscIsofixSeats'',
        ''chargeStandardPower'', ''chargeStandardPhase'', ''hash'', ''image''],
      g_condition = None\<rparr>,
    \<lparr>g_resource = E_CAR, g_action = [A_CREATE, A_UPDATE, A_DELETE],
      g_attributes = None,
      g_condition = None\<rparr>,
    \<lparr>g_resource = E_CAR, g_action = [A_READ],
      g_attributes = Some [''id'', ''type'', ''vin'', ''licensePlate'', ''converter'', ''default'',
        ''createdOn'', ''lastChangedOn'', ''carCatalogID'', ''carCatalog.vehicleMake'',
        ''carCatalog.vehicleModel'', ''carCatalog.vehicleModelVersion'', ''carCatalog.image'',
        ''carCatalog.chargeStandardPower'', ''carCatalog.chargeStandardPhaseAmp'',
        ''carCatalog.chargeStandardPhase'', ''user.id'', ''user.name'', ''user.firstName'', ''userID'',
        ''carConnectorData.carConnectorID'', ''carConnectorData.carConnectorMeterID'',
        ''carCatalog.fastChargePowerMax'', ''carCatalog.batteryCapacityFull''],
      g_condition = None\<rparr>,
    \<lparr>g_resource = E_CAR, g_action = [A_LIST],
      g_attributes = Some [''id'', ''type'', ''vin'', ''licensePlate'', ''converter'', ''default'',
        ''createdOn'', ''lastChangedOn'', ''carCatalog.id'', ''carCatalog.vehicleMake'',
        ''carCatalog.vehicleModel'', ''carCatalog.vehicleModelVersion'', ''carCatalog.image'',
        ''carCatalog.fastChargePowerMax'', ''carCatalog.batteryCapacityFull'', ''createdBy.name'',
        ''createdBy.firstName'', ''lastChangedBy.name'', ''lastChangedBy.firstName'', ''user.id'',
        ''user.name'', ''user.firstName'', ''userID'', ''carConnectorData.carConnectorID'',
        ''carConnectorData.carConnectorMeterID''],
      g_condition = Some \<lparr>ca_asserts = [], ca_filters = [], ca_metadata = Some [(''createPoolCar'',
        \<lparr>fm_visible = Some True, fm_enabled = None, fm_mandatory = None\<rparr>)]\<rparr>\<rparr>,
    \<lparr>g_resource = E_NOTIFICATION, g_action = [A_CREATE],
      g_attributes = None,
      g_condition = None\<rparr>,
    \<lparr>g_resource = E_PAYMENT_METHOD, g_action = [A_LIST],
      g_attributes = None,
      g_condition = None\<rparr>,
    \<lparr>g_resource = E_PAYMENT_METHOD, g_action = [A_READ, A_CREATE, A_DELETE],
      g_attributes = None,
      g_condition = None\<rparr>,
    \<lparr>g_resource = E_SOURCE, g_action = [A_LIST],
      g_attributes = None,
      g_condition = None\<rparr>]"

definition qrcode_role :: role_definition where
  "qrcode_role = \<lparr>rd_extend = [],
     rd_grants = qrcode_grants_1 @ qrcode_grants_2 @ qrcode_grants_3 @ qrcode_grants_4 @ qrcode_grants_5 @ qrcode_grants_6\<rparr>"

end
