(* ===== verification/DynamicFilters.thy ===== *)
theory DynamicFilters
  imports Prelude
begin

text \<open>
  The dynamic filters and assertions of the authorization framework (\<open>authorization/dynamic-filters\<close>,
  \<open>authorization/dynamic-data-source\<close>, \<open>authorization/dynamic-assert\<close>,
  \<open>authorization/DynamicAuthorizationFactory.ts\<close>).  What the data sources read from the database is a
  parameter: the sites of a user with their flags, and the user's tags.  The request's filter and the entity
  at hand are JavaScript objects, maps from property names to values; a property that is \<open>undefined\<close> is
  \<open>JNull\<close>.
\<close>

section \<open>Values\<close>

datatype json = JNull | JBool bool | JNum rat | JStr string | JArr "json list" | JObj "(string \<times> json) list"

type_synonym fields = "string \<rightharpoonup> json"

fun truthy_json :: "json \<Rightarrow> bool" where
  "truthy_json JNull = False"
| "truthy_json (JBool b) = b"
| "truthy_json (JNum x) = (x \<noteq> 0)"
| "truthy_json (JStr s) = (s \<noteq> [])"
| "truthy_json (JArr _) = True"
| "truthy_json (JObj _) = True"

fun split_bar :: "string \<Rightarrow> string list" where
  "split_bar [] = [[]]"
| "split_bar (c # s) = (if c = CHR ''|'' then [] # split_bar s
     else case split_bar s of [] \<Rightarrow> [[c]] | w # ws \<Rightarrow> (c # w) # ws)"

fun uniq :: "'a list \<Rightarrow> 'a list" where
  "uniq [] = []"
| "uniq (x # xs) = x # List.filter (\<lambda>y. y \<noteq> x) (uniq xs)"

lemma set_uniq [simp]: "set (uniq xs) = set xs"
  by (induction xs) auto

section \<open>Data sources\<close>

record user_site =
  us_siteID :: string
  us_siteAdmin :: bool
  us_siteOwner :: bool

record site_row =
  sr_id :: string
  sr_companyID :: string

record auth_storage =
  as_organizationActive :: bool
  as_userSites :: "string \<Rightarrow> user_site list"
  as_sites :: "string \<Rightarrow> site_row list"
  as_tags :: "string \<Rightarrow> string list"

definition getSitesAdminSiteIDs :: "auth_storage \<Rightarrow> string \<Rightarrow> string list" where
  "getSitesAdminSiteIDs S u = map us_siteID (List.filter us_siteAdmin (as_userSites S u))"

definition getSitesOwnerSiteIDs :: "auth_storage \<Rightarrow> string \<Rightarrow> string list" where
  "getSitesOwnerSiteIDs S u = map us_siteID (List.filter us_siteOwner (as_userSites S u))"

definition getSitesAdminOrOwnerSiteIDs :: "auth_storage \<Rightarrow> string \<Rightarrow> string list" where
  "getSitesAdminOrOwnerSiteIDs S u =
     map us_siteID (List.filter us_siteAdmin (as_userSites S u) @ List.filter us_siteOwner (as_userSites S u))"

definition getAssignedSiteIDs :: "auth_storage \<Rightarrow> string \<Rightarrow> string list" where
  "getAssignedSiteIDs S u = uniq (map sr_id (as_sites S u))"

definition getAssignedSitesCompanyIDs :: "auth_storage \<Rightarrow> string \<Rightarrow> string list" where
  "getAssignedSitesCompanyIDs S u = uniq (map sr_companyID (as_sites S u))"

definition getUserTagIDs :: "auth_storage \<Rightarrow> string \<Rightarrow> string list \<times> string" where
  "getUserTagIDs S u = (as_tags S u, u)"

definition getSitesAdminUserSiteIDs :: "auth_storage \<Rightarrow> string \<Rightarrow> string list \<times> string list \<times> string" where
  "getSitesAdminUserSiteIDs S u =
     (map us_siteID (List.filter us_siteAdmin (as_userSites S u)), as_tags S u, u)"

definition getSitesOwnerUserSiteIDs :: "auth_storage \<Rightarrow> string \<Rightarrow> string list \<times> string list \<times> string" where
  "getSitesOwnerUserSiteIDs S u =
     (map us_siteID (List.filter us_siteOwner (as_userSites S u)), as_tags S u, u)"

section \<open>Removing sensible data\<close>

definition present_field :: "fields \<Rightarrow> string \<Rightarrow> bool" where
  "present_field o' k = (case o' k of None \<Rightarrow> False | Some JNull \<Rightarrow> False | Some _ \<Rightarrow> True)"

definition deletePropertiesFromEntity :: "fields option \<Rightarrow> string list \<Rightarrow> fields option" where
  "deletePropertiesFromEntity ed ks =
     (case ed of None \<Rightarrow> None
      | Some e \<Rightarrow> Some (foldl (\<lambda>e k. if present_field e k then e(k := None) else e) e ks))"

definition flag_set :: "fields \<Rightarrow> string \<Rightarrow> bool" where
  "flag_set xf k = (case xf k of None \<Rightarrow> False | Some v \<Rightarrow> truthy_json v)"

definition remove_when :: "bool \<Rightarrow> string list \<Rightarrow> fields option \<Rightarrow> fields option" where
  "remove_when b ks ed = (if b then deletePropertiesFromEntity ed ks else ed)"

definition removeSensibeDataFromEntity :: "fields \<Rightarrow> fields option \<Rightarrow> fields option" where
  "removeSensibeDataFromEntity xf ed =
     remove_when (flag_set xf ''BillingData'') [''billingData'']
       (remove_when (flag_set xf ''CarData'') [''car'', ''carID'']
         (remove_when (flag_set xf ''CarCatalogData'') [''carCatalog'', ''carCatalogID'']
           (remove_when (flag_set xf ''TagData'') [''tag'', ''currentTagID'', ''tagID'']
             (remove_when (flag_set xf ''UserData'') [''user'', ''userID''] ed))))"

section \<open>Filters\<close>

text \<open>What a filter leaves for the database query, and its verdict.\<close>

record query_filters =
  qf_companyIDs :: "string list option"
  qf_siteIDs :: "string list option"
  qf_siteAdminIDs :: "string list option"
  qf_siteOwnerIDs :: "string list option"
  qf_userIDs :: "string list option"
  qf_ownerID :: "string list option"
  qf_ownUserTags :: "string list option"
  qf_issuer :: "bool option"

record auth_state =
  au_filters :: query_filters
  au_authorized :: bool

type_synonym filter_state = "auth_state \<times> fields option"

definition split_value :: "json \<Rightarrow> string list res" where
  "split_value v = (case v of JStr s \<Rightarrow> Inr (split_bar s) | _ \<Rightarrow> Inl TypeError)"

text \<open>
  A filter of the request overrides the identifiers the user has: what remains are the requested ones among
  them.  The flag tells whether the request had such a filter.
\<close>

definition override_ids :: "fields \<Rightarrow> string \<Rightarrow> string list \<Rightarrow> (bool \<times> string list) res" where
  "override_ids xf k ids =
     (if present_field xf k then
        bindE (split_value (the (xf k))) (\<lambda>vs. Inr (True, List.filter (\<lambda>i. i \<in> set ids) vs))
      else Inr (False, ids))"

definition authorize_if :: "bool \<Rightarrow> auth_state \<Rightarrow> auth_state" where
  "authorize_if b s = (if b then s\<lparr>au_authorized := True\<rparr> else s)"

definition removed_unless_authorized :: "fields \<Rightarrow> filter_state \<Rightarrow> filter_state" where
  "removed_unless_authorized xf p =
     (fst p, if au_authorized (fst p) then snd p else removeSensibeDataFromEntity xf (snd p))"

text \<open>The body shared by the filters on companies and sites: no identifier, no authorization.\<close>

definition forced_ids :: "fields \<Rightarrow> string \<Rightarrow> string list \<Rightarrow> string list res" where
  "forced_ids xf k ids = (if ids = [] then Inr [] else map_sum id snd (override_ids xf k ids))"

definition assignedSitesCompanies_filter :: "auth_storage \<Rightarrow> string \<Rightarrow> fields \<Rightarrow> filter_state \<Rightarrow> filter_state res" where
  "assignedSitesCompanies_filter S u xf p =
     bindE (forced_ids xf ''CompanyID'' (getAssignedSitesCompanyIDs S u)) (\<lambda>ids.
       let s = (fst p)\<lparr>au_filters := (au_filters (fst p))\<lparr>qf_companyIDs := Some ids\<rparr>\<rparr>
       in Inr (authorize_if (ids \<noteq> []) s, snd p))"

definition site_ids_filter :: "string list \<Rightarrow> fields \<Rightarrow> filter_state \<Rightarrow> filter_state res" where
  "site_ids_filter sites xf p =
     bindE (forced_ids xf ''SiteID'' sites) (\<lambda>ids.
       let s = (fst p)\<lparr>au_filters := (au_filters (fst p))\<lparr>qf_siteIDs := Some ids\<rparr>\<rparr>
       in Inr (authorize_if (ids \<noteq> []) s, snd p))"

definition assignedSites_filter :: "auth_storage \<Rightarrow> string \<Rightarrow> fields \<Rightarrow> filter_state \<Rightarrow> filter_state res" where
  "assignedSites_filter S u xf p =
     (if \<not> as_organizationActive S then Inr (authorize_if True (fst p), snd p)
      else site_ids_filter (getAssignedSiteIDs S u) xf p)"

definition sitesAdmin_filter :: "auth_storage \<Rightarrow> string \<Rightarrow> fields \<Rightarrow> filter_state \<Rightarrow> filter_state res" where
  "sitesAdmin_filter S u xf p =
     map_sum id (removed_unless_authorized xf)
       (if \<not> as_organizationActive S then Inr (authorize_if True (fst p), snd p)
        else site_ids_filter (getSitesAdminSiteIDs S u) xf p)"

definition sitesOwner_filter :: "auth_storage \<Rightarrow> string \<Rightarrow> fields \<Rightarrow> filter_state \<Rightarrow> filter_state res" where
  "sitesOwner_filter S u xf p =
     (if \<not> as_organizationActive S then Inr (authorize_if True (fst p), snd p)
      else site_ids_filter (getSitesOwnerSiteIDs S u) xf p)"

definition sitesAdminOrOwner_filter :: "auth_storage \<Rightarrow> string \<Rightarrow> fields \<Rightarrow> filter_state \<Rightarrow> filter_state res" where
  "sitesAdminOrOwner_filter S u xf p = site_ids_filter (getSitesAdminOrOwnerSiteIDs S u) xf p"

definition excludeAction_filter :: "filter_state \<Rightarrow> filter_state" where
  "excludeAction_filter p = ((fst p)\<lparr>au_authorized := False\<rparr>, snd p)"

definition localIssuer_filter :: "filter_state \<Rightarrow> filter_state" where
  "localIssuer_filter p =
     (let s = (fst p)\<lparr>au_filters := (au_filters (fst p))\<lparr>qf_issuer := Some True\<rparr>, au_authorized := True\<rparr>
      in case snd p of
           None \<Rightarrow> (s, None)
         | Some e \<Rightarrow>
             (case e ''issuer'' of
                None \<Rightarrow> (s, Some e)
              | Some v \<Rightarrow> (s\<lparr>au_authorized := truthy_json v\<rparr>, Some e)))"

text \<open>
  The step of the filters on a user: identifiers that are there are forced, and a filter of the request that
  leaves some of them authorizes.  The accumulator tells whether the request had a filter at all.
\<close>

definition own_step ::
    "fields \<Rightarrow> string \<Rightarrow> string list \<Rightarrow> (string list \<Rightarrow> query_filters \<Rightarrow> query_filters) \<Rightarrow>
     auth_state \<times> bool \<Rightarrow> (auth_state \<times> bool) res" where
  "own_step xf k ids set_ids p =
     (if ids = [] then Inr p
      else bindE (override_ids xf k ids) (\<lambda>(used, ids').
        let s = (fst p)\<lparr>au_filters := set_ids ids' (au_filters (fst p))\<rparr>
        in Inr (authorize_if (used \<and> ids' \<noteq> []) s, snd p \<or> used)))"

definition own_result :: "fields \<Rightarrow> fields option \<Rightarrow> auth_state \<times> bool \<Rightarrow> filter_state" where
  "own_result xf ed p = removed_unless_authorized xf (authorize_if (\<not> snd p) (fst p), ed)"

definition user_ids :: "string \<Rightarrow> string list" where
  "user_ids u = (if u = [] then [] else [u])"

definition ownUser_filter :: "auth_storage \<Rightarrow> string \<Rightarrow> fields \<Rightarrow> filter_state \<Rightarrow> filter_state res" where
  "ownUser_filter S u xf p =
     (let (tags, user) = getUserTagIDs S u;
          s = (fst p)\<lparr>au_filters := (au_filters (fst p))\<lparr>qf_userIDs := Some [], qf_ownUserTags := Some []\<rparr>\<rparr>
      in map_sum id (own_result xf (snd p))
           (bindE (own_step xf ''UserID'' (user_ids user) (\<lambda>i. qf_userIDs_update (\<lambda>_. Some i)) (s, False))
              (own_step xf ''TagIDs'' tags (\<lambda>i. qf_ownUserTags_update (\<lambda>_. Some i)))))"

definition clear_when :: "bool \<Rightarrow> (query_filters \<Rightarrow> query_filters) \<Rightarrow> auth_state \<Rightarrow> auth_state" where
  "clear_when b f s = (if b then s\<lparr>au_filters := f (au_filters s)\<rparr> else s)"

definition sitesAdminUsers_filter :: "auth_storage \<Rightarrow> string \<Rightarrow> fields \<Rightarrow> filter_state \<Rightarrow> filter_state res" where
  "sitesAdminUsers_filter S u xf p =
     (let (sites, tags, user) = getSitesAdminUserSiteIDs S u;
          org = as_organizationActive S;
          s = clear_when org (qf_siteAdminIDs_update (\<lambda>_. Some [])) (fst p)
      in map_sum id (own_result xf (snd p))
           (bindE (own_step xf ''SiteID'' (if org then sites else []) (\<lambda>i. qf_siteAdminIDs_update (\<lambda>_. Some i)) (s, False))
              (\<lambda>q. bindE (own_step xf ''UserID'' (user_ids user) (\<lambda>i. qf_ownerID_update (\<lambda>_. Some i))
                     (clear_when True (qf_ownerID_update (\<lambda>_. Some [])) (fst q), snd q))
                (own_step xf ''TagIDs'' tags (\<lambda>i. qf_ownUserTags_update (\<lambda>_. Some i))))))"

definition sitesOwnerUsers_filter :: "auth_storage \<Rightarrow> string \<Rightarrow> fields \<Rightarrow> filter_state \<Rightarrow> filter_state res" where
  "sitesOwnerUsers_filter S u xf p =
     (let (sites, tags, user) = getSitesOwnerUserSiteIDs S u;
          org = as_organizationActive S;
          s = clear_when org (qf_siteOwnerIDs_update (\<lambda>_. Some [])) (fst p)
      in map_sum id (own_result xf (snd p))
           (bindE (own_step xf ''SiteID'' (if org then sites else []) (\<lambda>i. qf_siteOwnerIDs_update (\<lambda>_. Some i)) (s, False))
              (\<lambda>q. bindE (own_step xf ''UserID'' (user_ids user) (\<lambda>i. qf_ownerID_update (\<lambda>_. Some i))
                     (clear_when True (qf_ownerID_update (\<lambda>_. Some [])) (fst q), snd q))
                (own_step xf ''TagIDs'' tags (\<lambda>i. qf_ownUserTags_update (\<lambda>_. Some i))))))"

section \<open>The factory\<close>

datatype filter_name =
    ASSIGNED_SITES_COMPANIES | SITES_ADMIN | SITES_ADMIN_USERS | SITES_OWNER_USERS | SITES_OWNER
  | ASSIGNED_SITES | OWN_USER | LOCAL_ISSUER | EXCLUDE_ACTION | SITES_ADMIN_OR_OWNER

fun filter_of_text :: "string \<Rightarrow> filter_name option" where
  "filter_of_text n =
     (if n = ''AssignedSitesCompanies'' then Some ASSIGNED_SITES_COMPANIES
      else if n = ''SitesAdmin'' then Some SITES_ADMIN
      else if n = ''SitesAdminUsers'' then Some SITES_ADMIN_USERS
      else if n = ''SitesOwner'' then Some SITES_OWNER
      else if n = ''AssignedSites'' then Some ASSIGNED_SITES
      else if n = ''OwnUser'' then Some OWN_USER
      else if n = ''ExcludeAction'' then Some EXCLUDE_ACTION
      else if n = ''LocalIssuer'' then Some LOCAL_ISSUER
      else if n = ''SitesAdminOrOwner'' then Some SITES_ADMIN_OR_OWNER
      else if n = ''SitesOwnerUsers'' then Some SITES_OWNER_USERS
      else None)"

text \<open>A leading dash negates.\<close>

fun getDynamicFilter :: "string \<Rightarrow> (bool \<times> filter_name) option" where
  "getDynamicFilter [] = None"
| "getDynamicFilter (c # n) =
     (if c = CHR ''-'' then map_option (Pair True) (filter_of_text n)
      else map_option (Pair False) (filter_of_text (c # n)))"

fun processFilter :: "auth_storage \<Rightarrow> string \<Rightarrow> fields \<Rightarrow> filter_name \<Rightarrow> filter_state \<Rightarrow> filter_state res" where
  "processFilter S u xf ASSIGNED_SITES_COMPANIES p = assignedSitesCompanies_filter S u xf p"
| "processFilter S u xf SITES_ADMIN p = sitesAdmin_filter S u xf p"
| "processFilter S u xf SITES_ADMIN_USERS p = sitesAdminUsers_filter S u xf p"
| "processFilter S u xf SITES_OWNER p = sitesOwner_filter S u xf p"
| "processFilter S u xf ASSIGNED_SITES p = assignedSites_filter S u xf p"
| "processFilter S u xf OWN_USER p = ownUser_filter S u xf p"
| "processFilter S u xf EXCLUDE_ACTION p = Inr (excludeAction_filter p)"
| "processFilter S u xf LOCAL_ISSUER p = Inr (localIssuer_filter p)"
| "processFilter S u xf SITES_ADMIN_OR_OWNER p = sitesAdminOrOwner_filter S u xf p"
| "processFilter S u xf SITES_OWNER_USERS p = sitesOwnerUsers_filter S u xf p"

section \<open>Assertions\<close>

datatype assert_name = POOL_CAR | OWN_USER_ASSERT | BASIC_USER | USER_MANDATORY | SITE_AREA_MANDATORY

fun assert_of_text :: "string \<Rightarrow> assert_name option" where
  "assert_of_text n =
     (if n = ''PoolCar'' then Some POOL_CAR
      else if n = ''OwnUser'' then Some OWN_USER_ASSERT
      else if n = ''BasicUser'' then Some BASIC_USER
      else if n = ''UserMandatory'' then Some USER_MANDATORY
      else if n = ''SiteAreaMandatory'' then Some SITE_AREA_MANDATORY
      else None)"

fun getDynamicAssert :: "string \<Rightarrow> (bool \<times> assert_name) option" where
  "getDynamicAssert [] = None"
| "getDynamicAssert (c # n) =
     (if c = CHR ''-'' then map_option (Pair True) (assert_of_text n)
      else map_option (Pair False) (assert_of_text (c # n)))"

definition truthy_field :: "fields \<Rightarrow> string \<Rightarrow> bool" where
  "truthy_field e k = (case e k of None \<Rightarrow> False | Some v \<Rightarrow> truthy_json v)"

definition user_object_id :: "fields \<Rightarrow> json option" where
  "user_object_id e = (case e ''user'' of Some (JObj kvs) \<Rightarrow> map_of kvs ''id'' | _ \<Rightarrow> None)"

definition basicUser_assert :: "fields \<Rightarrow> bool" where
  "basicUser_assert e = (e ''role'' = Some (JStr ''B''))"

definition ownUser_assert :: "string \<Rightarrow> fields \<Rightarrow> bool" where
  "ownUser_assert u e =
     ((truthy_field e ''userID'' \<and> e ''userID'' = Some (JStr u))
      \<or> (case user_object_id e of None \<Rightarrow> False | Some v \<Rightarrow> truthy_json v \<and> v = JStr u))"

definition poolCar_assert :: "fields \<Rightarrow> bool" where
  "poolCar_assert e = (e ''type'' = Some (JStr ''PC''))"

definition siteAreaMandatory_assert :: "fields \<Rightarrow> bool" where
  "siteAreaMandatory_assert e = truthy_field e ''siteAreaID''"

definition userMandatory_assert :: "fields \<Rightarrow> bool" where
  "userMandatory_assert e = truthy_field e ''userID''"

fun processAssert :: "string \<Rightarrow> assert_name \<Rightarrow> fields \<Rightarrow> bool" where
  "processAssert u POOL_CAR e = poolCar_assert e"
| "processAssert u OWN_USER_ASSERT e = ownUser_assert u e"
| "processAssert u BASIC_USER e = basicUser_assert e"
| "processAssert u USER_MANDATORY e = userMandatory_assert e"
| "processAssert u SITE_AREA_MANDATORY e = siteAreaMandatory_assert e"

end
