(* ===== verification/AuthorizationRules.thy ===== *)
theory AuthorizationRules
  imports DynamicFilters
begin

text \<open>
  How the filters and assertions of a grant are combined
  (\<open>server/rest/v1/service/AuthorizationService.ts\<close>): a list of groups, all of which must hold, each of
  which holds when one of its members does.  The filters share one state, the members of a group without a
  reset between them; the lemmas show that this does no harm to the verdict.
\<close>

section \<open>Processing\<close>

definition apply_filter ::
    "auth_storage \<Rightarrow> string \<Rightarrow> fields \<Rightarrow> filter_state \<times> bool \<Rightarrow> string \<Rightarrow> (filter_state \<times> bool) res" where
  "apply_filter S u xf p n =
     (case getDynamicFilter n of
        None \<Rightarrow> Inl AppAuthError
      | Some (negate, f) \<Rightarrow>
          bindE (processFilter S u xf f (fst p)) (\<lambda>(s, ed).
            let a = (if negate then \<not> au_authorized s else au_authorized s)
            in Inr ((s\<lparr>au_authorized := a\<rparr>, ed), snd p \<or> a)))"

fun processDynamicFilters ::
    "auth_storage \<Rightarrow> string \<Rightarrow> fields \<Rightarrow> string list list \<Rightarrow> filter_state \<Rightarrow> filter_state res" where
  "processDynamicFilters S u xf [] p = Inr p"
| "processDynamicFilters S u xf (g # gs) p =
     bindE (foldE (apply_filter S u xf) (((fst p)\<lparr>au_authorized := False\<rparr>, snd p), False) g) (\<lambda>((s, ed), a).
       if a then processDynamicFilters S u xf gs (s\<lparr>au_authorized := True\<rparr>, ed)
       else Inr (s\<lparr>au_authorized := False\<rparr>, ed))"

definition apply_assert :: "string \<Rightarrow> fields \<Rightarrow> bool \<Rightarrow> string \<Rightarrow> bool res" where
  "apply_assert u e authorized n =
     (case getDynamicAssert n of
        None \<Rightarrow> Inl AppAuthError
      | Some (negate, a) \<Rightarrow>
          Inr (authorized \<or> (if negate then \<not> processAssert u a e else processAssert u a e)))"

fun assert_groups :: "string \<Rightarrow> fields \<Rightarrow> string list list \<Rightarrow> bool \<Rightarrow> bool res" where
  "assert_groups u e [] authorized = Inr authorized"
| "assert_groups u e (g # gs) authorized =
     bindE (foldE (apply_assert u e) False g) (\<lambda>a. if a then assert_groups u e gs True else Inr False)"

text \<open>Without an entity there is nothing to assert.\<close>

definition processDynamicAsserts :: "string \<Rightarrow> string list list \<Rightarrow> filter_state \<Rightarrow> filter_state res" where
  "processDynamicAsserts u asserts p =
     (case snd p of
        None \<Rightarrow> Inr p
      | Some e \<Rightarrow> map_sum id (\<lambda>a. ((fst p)\<lparr>au_authorized := a\<rparr>, snd p))
          (assert_groups u e asserts (au_authorized (fst p))))"

section \<open>The verdict of one filter\<close>

text \<open>
  The specification of the filters: which identifiers of the user survive the filter of the request, and
  whether the request asked for any.
\<close>

definition requested :: "fields \<Rightarrow> string \<Rightarrow> string list" where
  "requested xf k = (case xf k of Some (JStr t) \<Rightarrow> split_bar t | _ \<Rightarrow> [])"

definition asked :: "fields \<Rightarrow> string \<Rightarrow> string list \<Rightarrow> bool" where
  "asked xf k ids \<longleftrightarrow> ids \<noteq> [] \<and> present_field xf k"

definition survives :: "fields \<Rightarrow> string \<Rightarrow> string list \<Rightarrow> bool" where
  "survives xf k ids \<longleftrightarrow> ids \<noteq> [] \<and> (present_field xf k \<longrightarrow> (\<exists>v \<in> set (requested xf k). v \<in> set ids))"

text \<open>The filters on users: one identifier asked for must be the user's own, unless none was asked for.\<close>

definition own_allows :: "fields \<Rightarrow> (string \<times> string list) list \<Rightarrow> bool" where
  "own_allows xf kis \<longleftrightarrow>
     list_ex (\<lambda>(k, ids). asked xf k ids \<and> survives xf k ids) kis \<or> \<not> list_ex (\<lambda>(k, ids). asked xf k ids) kis"

fun filter_allows :: "auth_storage \<Rightarrow> string \<Rightarrow> fields \<Rightarrow> json option \<Rightarrow> filter_name \<Rightarrow> bool" where
  "filter_allows S u xf issuer ASSIGNED_SITES_COMPANIES = survives xf ''CompanyID'' (getAssignedSitesCompanyIDs S u)"
| "filter_allows S u xf issuer SITES_ADMIN =
     (as_organizationActive S \<longrightarrow> survives xf ''SiteID'' (getSitesAdminSiteIDs S u))"
| "filter_allows S u xf issuer SITES_OWNER =
     (as_organizationActive S \<longrightarrow> survives xf ''SiteID'' (getSitesOwnerSiteIDs S u))"
| "filter_allows S u xf issuer ASSIGNED_SITES =
     (as_organizationActive S \<longrightarrow> survives xf ''SiteID'' (getAssignedSiteIDs S u))"
| "filter_allows S u xf issuer SITES_ADMIN_OR_OWNER = survives xf ''SiteID'' (getSitesAdminOrOwnerSiteIDs S u)"
| "filter_allows S u xf issuer OWN_USER = own_allows xf [(''UserID'', user_ids u), (''TagIDs'', as_tags S u)]"
| "filter_allows S u xf issuer SITES_ADMIN_USERS =
     own_allows xf [(''SiteID'', if as_organizationActive S then getSitesAdminSiteIDs S u else []),
       (''UserID'', user_ids u), (''TagIDs'', as_tags S u)]"
| "filter_allows S u xf issuer SITES_OWNER_USERS =
     own_allows xf [(''SiteID'', if as_organizationActive S then getSitesOwnerSiteIDs S u else []),
       (''UserID'', user_ids u), (''TagIDs'', as_tags S u)]"
| "filter_allows S u xf issuer EXCLUDE_ACTION = False"
| "filter_allows S u xf issuer LOCAL_ISSUER = (case issuer of None \<Rightarrow> True | Some v \<Rightarrow> truthy_json v)"

definition issuer_of :: "fields option \<Rightarrow> json option" where
  "issuer_of ed = (case ed of None \<Rightarrow> None | Some e \<Rightarrow> e ''issuer'')"

lemma foldl_delete_issuer:
  "''issuer'' \<notin> set ks \<Longrightarrow>
     foldl (\<lambda>e k. if present_field e k then e(k := None) else e) e ks ''issuer'' = (e ''issuer'' :: json option)"
proof (induction ks arbitrary: e)
  case (Cons k ks)
  then show ?case by (simp add: fun_upd_def)
qed simp

lemma issuer_delete [simp]: "''issuer'' \<notin> set ks \<Longrightarrow> issuer_of (deletePropertiesFromEntity ed ks) = issuer_of ed"
  by (cases ed) (simp_all add: issuer_of_def deletePropertiesFromEntity_def foldl_delete_issuer)

lemma issuer_remove [simp]: "issuer_of (removeSensibeDataFromEntity xf ed) = issuer_of ed"
  by (simp add: removeSensibeDataFromEntity_def remove_when_def)

lemma authorize_if_simps [simp]:
  "au_authorized (authorize_if b s) = (au_authorized s \<or> b)" "au_filters (authorize_if b s) = au_filters s"
  by (simp_all add: authorize_if_def)

lemma clear_when_authorized [simp]: "au_authorized (clear_when b f s) = au_authorized s"
  by (simp add: clear_when_def)

lemma removed_simps [simp]:
  "fst (removed_unless_authorized xf p) = fst p" "issuer_of (snd (removed_unless_authorized xf p)) = issuer_of (snd p)"
  by (simp_all add: removed_unless_authorized_def)

lemma map_sum_Inr_iff [res_simps]: "map_sum f g x = Inr y \<longleftrightarrow> (\<exists>a. x = Inr a \<and> y = g a)"
  by (cases x) auto

lemma split_value_Inr: "present_field xf k \<Longrightarrow> split_value (the (xf k)) = Inr vs \<longleftrightarrow>
    vs = requested xf k \<and> (\<exists>t. xf k = Some (JStr t))"
  by (auto simp: present_field_def split_value_def requested_def split: option.splits json.splits)

lemma override_ids_cases:
  assumes "override_ids xf k ids = Inr (used, ids')" "ids \<noteq> []"
  shows "used = asked xf k ids" "ids' \<noteq> [] \<longleftrightarrow> survives xf k ids" "set ids' \<subseteq> set ids"
    "used \<Longrightarrow> set ids' = set (requested xf k) \<inter> set ids"
  using assms
  by (auto simp: override_ids_def res_simps split_value_Inr asked_def survives_def filter_empty_conv split: if_splits)

lemma forced_ids_spec:
  assumes "forced_ids xf k ids = Inr r"
  shows "r \<noteq> [] \<longleftrightarrow> survives xf k ids" "set r \<subseteq> set ids"
proof -
  have "(r \<noteq> [] \<longleftrightarrow> survives xf k ids) \<and> set r \<subseteq> set ids"
  proof (cases "ids = []")
    case True
    with assms show ?thesis by (simp add: forced_ids_def survives_def)
  next
    case False
    with assms obtain b where "override_ids xf k ids = Inr (b, r)" by (auto simp: forced_ids_def res_simps)
    from override_ids_cases [OF this False] show ?thesis by blast
  qed
  then show "r \<noteq> [] \<longleftrightarrow> survives xf k ids" "set r \<subseteq> set ids" by blast+
qed

lemma own_step_spec:
  assumes "own_step xf k ids f p = Inr q"
  shows "au_authorized (fst q) = (au_authorized (fst p) \<or> asked xf k ids \<and> survives xf k ids)
    \<and> snd q = (snd p \<or> asked xf k ids)"
proof (cases "ids = []")
  case True
  with assms show ?thesis by (simp add: own_step_def asked_def)
next
  case False
  with assms obtain used ids' where o: "override_ids xf k ids = Inr (used, ids')"
    and q: "q = (authorize_if (used \<and> ids' \<noteq> []) ((fst p)\<lparr>au_filters := f ids' (au_filters (fst p))\<rparr>), snd p \<or> used)"
    by (auto simp: own_step_def res_simps)
  from override_ids_cases(1,2) [OF o False] q show ?thesis by auto
qed

text \<open>Each filter implements its specification, on top of what was authorized before.\<close>

definition sticky :: "filter_name \<Rightarrow> bool" where
  "sticky f \<longleftrightarrow> f \<noteq> LOCAL_ISSUER \<and> f \<noteq> EXCLUDE_ACTION"

lemma site_ids_filter_spec:
  assumes "site_ids_filter ids xf p = Inr p'"
  shows "au_authorized (fst p') = (au_authorized (fst p) \<or> survives xf ''SiteID'' ids) \<and> snd p' = snd p"
  using assms forced_ids_spec(1) [of xf "''SiteID''" ids] by (auto simp: site_ids_filter_def res_simps Let_def)

lemma own_result_spec [simp]:
  "au_authorized (fst (own_result xf ed q)) = (au_authorized (fst q) \<or> \<not> snd q)"
  "issuer_of (snd (own_result xf ed q)) = issuer_of ed"
  by (simp_all add: own_result_def)

lemma admin_users_data: "getSitesAdminUserSiteIDs S u = (getSitesAdminSiteIDs S u, as_tags S u, u)"
  by (simp add: getSitesAdminUserSiteIDs_def getSitesAdminSiteIDs_def)

lemma owner_users_data: "getSitesOwnerUserSiteIDs S u = (getSitesOwnerSiteIDs S u, as_tags S u, u)"
  by (simp add: getSitesOwnerUserSiteIDs_def getSitesOwnerSiteIDs_def)

lemma processFilter_spec:
  assumes "processFilter S u xf f p = Inr p'"
  shows "au_authorized (fst p') \<longleftrightarrow>
      sticky f \<and> au_authorized (fst p) \<or> filter_allows S u xf (issuer_of (snd p)) f"
    and "issuer_of (snd p') = issuer_of (snd p)"
proof -
  have "(au_authorized (fst p') \<longleftrightarrow>
      sticky f \<and> au_authorized (fst p) \<or> filter_allows S u xf (issuer_of (snd p)) f)
    \<and> issuer_of (snd p') = issuer_of (snd p)"
  proof (cases f)
    case ASSIGNED_SITES_COMPANIES
    with assms forced_ids_spec(1) [of xf "''CompanyID''" "getAssignedSitesCompanyIDs S u"] show ?thesis
      by (auto simp: assignedSitesCompanies_filter_def res_simps sticky_def Let_def)
  next
    case SITES_ADMIN
    with assms show ?thesis
      by (auto simp: sitesAdmin_filter_def res_simps sticky_def dest!: site_ids_filter_spec split: if_splits)
  next
    case SITES_OWNER
    with assms show ?thesis
      by (auto simp: sitesOwner_filter_def res_simps sticky_def dest!: site_ids_filter_spec split: if_splits)
  next
    case ASSIGNED_SITES
    with assms show ?thesis
      by (auto simp: assignedSites_filter_def res_simps sticky_def dest!: site_ids_filter_spec split: if_splits)
  next
    case SITES_ADMIN_OR_OWNER
    with assms show ?thesis
      by (auto simp: sitesAdminOrOwner_filter_def sticky_def dest!: site_ids_filter_spec)
  next
    case OWN_USER
    with assms obtain a q1 q2 where
      1: "own_step xf ''UserID'' (user_ids u) (\<lambda>i. qf_userIDs_update (\<lambda>_. Some i)) (a, False) = Inr q1"
      and a: "au_authorized a = au_authorized (fst p)"
      and 2: "own_step xf ''TagIDs'' (as_tags S u) (\<lambda>i. qf_ownUserTags_update (\<lambda>_. Some i)) q1 = Inr q2"
      and p': "p' = own_result xf (snd p) q2"
      by (auto simp: ownUser_filter_def getUserTagIDs_def map_sum_Inr_iff bindE_Inr_iff simp del: split_paired_Ex)
    from own_step_spec [OF 1] own_step_spec [OF 2] a p' OWN_USER show ?thesis
      by (simp add: sticky_def own_allows_def; blast?)
  next
    case SITES_ADMIN_USERS
    with assms obtain a q1 q2 q3 where
      1: "own_step xf ''SiteID'' (if as_organizationActive S then getSitesAdminSiteIDs S u else [])
            (\<lambda>i. qf_siteAdminIDs_update (\<lambda>_. Some i)) (a, False) = Inr q1"
      and a: "au_authorized a = au_authorized (fst p)"
      and 2: "own_step xf ''UserID'' (user_ids u) (\<lambda>i. qf_ownerID_update (\<lambda>_. Some i))
            (clear_when True (qf_ownerID_update (\<lambda>_. Some [])) (fst q1), snd q1) = Inr q2"
      and 3: "own_step xf ''TagIDs'' (as_tags S u) (\<lambda>i. qf_ownUserTags_update (\<lambda>_. Some i)) q2 = Inr q3"
      and p': "p' = own_result xf (snd p) q3"
      by (auto simp: sitesAdminUsers_filter_def admin_users_data Let_def
          map_sum_Inr_iff bindE_Inr_iff simp del: split_paired_Ex)
    from own_step_spec [OF 1] own_step_spec [OF 2] own_step_spec [OF 3] a p' SITES_ADMIN_USERS show ?thesis
      by (simp add: sticky_def own_allows_def; blast?)
  next
    case SITES_OWNER_USERS
    with assms obtain a q1 q2 q3 where
      1: "own_step xf ''SiteID'' (if as_organizationActive S then getSitesOwnerSiteIDs S u else [])
            (\<lambda>i. qf_siteOwnerIDs_update (\<lambda>_. Some i)) (a, False) = Inr q1"
      and a: "au_authorized a = au_authorized (fst p)"
      and 2: "own_step xf ''UserID'' (user_ids u) (\<lambda>i. qf_ownerID_update (\<lambda>_. Some i))
            (clear_when True (qf_ownerID_update (\<lambda>_. Some [])) (fst q1), snd q1) = Inr q2"
      and 3: "own_step xf ''TagIDs'' (as_tags S u) (\<lambda>i. qf_ownUserTags_update (\<lambda>_. Some i)) q2 = Inr q3"
      and p': "p' = own_result xf (snd p) q3"
      by (auto simp: sitesOwnerUsers_filter_def owner_users_data Let_def
          map_sum_Inr_iff bindE_Inr_iff simp del: split_paired_Ex)
    from own_step_spec [OF 1] own_step_spec [OF 2] own_step_spec [OF 3] a p' SITES_OWNER_USERS show ?thesis
      by (simp add: sticky_def own_allows_def; blast?)
  next
    case EXCLUDE_ACTION
    with assms show ?thesis by (auto simp: excludeAction_filter_def sticky_def)
  next
    case LOCAL_ISSUER
    with assms show ?thesis
      by (cases "snd p") (auto simp: localIssuer_filter_def sticky_def issuer_of_def Let_def split: option.splits)
  qed
  then show "au_authorized (fst p') \<longleftrightarrow>
      sticky f \<and> au_authorized (fst p) \<or> filter_allows S u xf (issuer_of (snd p)) f"
    and "issuer_of (snd p') = issuer_of (snd p)" by blast+
qed

section \<open>The verdict of the whole list\<close>

definition name_allows :: "auth_storage \<Rightarrow> string \<Rightarrow> fields \<Rightarrow> json option \<Rightarrow> string \<Rightarrow> bool" where
  "name_allows S u xf issuer n =
     (case getDynamicFilter n of None \<Rightarrow> False | Some (negate, f) \<Rightarrow> filter_allows S u xf issuer f \<noteq> negate)"

text \<open>What a member leaves behind can only be true when the group already holds.\<close>

lemma apply_filter_spec:
  assumes "apply_filter S u xf p n = Inr p'" "au_authorized (fst (fst p)) \<Longrightarrow> snd p"
  shows "snd p' \<longleftrightarrow> snd p \<or> name_allows S u xf (issuer_of (snd (fst p))) n"
    and "issuer_of (snd (fst p')) = issuer_of (snd (fst p))" and "au_authorized (fst (fst p')) \<Longrightarrow> snd p'"
proof -
  from assms(1) obtain negate f s ed where n: "getDynamicFilter n = Some (negate, f)"
    and f: "processFilter S u xf f (fst p) = Inr (s, ed)"
    and p': "p' = ((s\<lparr>au_authorized := (if negate then \<not> au_authorized s else au_authorized s)\<rparr>, ed),
      snd p \<or> (if negate then \<not> au_authorized s else au_authorized s))"
    by (auto simp: apply_filter_def Let_def bindE_Inr_iff split: option.splits)
  note spec = processFilter_spec [OF f]
  show "snd p' \<longleftrightarrow> snd p \<or> name_allows S u xf (issuer_of (snd (fst p))) n"
    using spec(1) assms(2) n p' by (cases negate) (auto simp: name_allows_def)
  show "issuer_of (snd (fst p')) = issuer_of (snd (fst p))" using spec(2) p' by simp
  show "au_authorized (fst (fst p')) \<Longrightarrow> snd p'" using p' by auto
qed

lemma group_spec:
  assumes "foldE (apply_filter S u xf) p g = Inr p'" "au_authorized (fst (fst p)) \<Longrightarrow> snd p"
  shows "(snd p' \<longleftrightarrow> snd p \<or> (\<exists>n \<in> set g. name_allows S u xf (issuer_of (snd (fst p))) n))
    \<and> issuer_of (snd (fst p')) = issuer_of (snd (fst p))"
  using assms
proof (induction g arbitrary: p)
  case (Cons n g)
  then obtain q where q: "apply_filter S u xf p n = Inr q" and r: "foldE (apply_filter S u xf) q g = Inr p'"
    by (auto simp: bindE_Inr_iff)
  note spec = apply_filter_spec [OF q Cons.prems(2)]
  from Cons.IH [OF r spec(3)] spec(1,2) show ?case by auto
qed simp

lemma groups_spec:
  assumes "processDynamicFilters S u xf gs p = Inr p'" "gs \<noteq> []"
  shows "au_authorized (fst p') \<longleftrightarrow> (\<forall>g \<in> set gs. \<exists>n \<in> set g. name_allows S u xf (issuer_of (snd p)) n)"
  using assms
proof (induction gs arbitrary: p)
  case (Cons g gs)
  then obtain s ed a where g: "foldE (apply_filter S u xf) (((fst p)\<lparr>au_authorized := False\<rparr>, snd p), False) g = Inr ((s, ed), a)"
    and r: "(if a then processDynamicFilters S u xf gs (s\<lparr>au_authorized := True\<rparr>, ed)
       else Inr (s\<lparr>au_authorized := False\<rparr>, ed)) = Inr p'"
    by (auto simp: bindE_Inr_iff)
  from group_spec [OF g] have a: "a \<longleftrightarrow> (\<exists>n \<in> set g. name_allows S u xf (issuer_of (snd p)) n)"
    and i: "issuer_of ed = issuer_of (snd p)" by simp_all
  show ?case
  proof (cases a)
    case True
    show ?thesis
    proof (cases "gs = []")
      case True
      with r a \<open>a\<close> show ?thesis by auto
    next
      case False
      from r \<open>a\<close> have "processDynamicFilters S u xf gs (s\<lparr>au_authorized := True\<rparr>, ed) = Inr p'" by simp
      from Cons.IH [OF this False] a \<open>a\<close> i show ?thesis by simp
    qed
  next
    case False
    with r a show ?thesis by auto
  qed
qed simp

text \<open>
  C17: The filters of a grant authorize exactly when every group has a member that does, each member judged on
  its own: the state the members of a group share, which is not reset between them and which negated filters
  flip, does not change the verdict.
\<close>

theorem filters_are_a_conjunction_of_disjunctions:
  assumes "processDynamicFilters S u xf gs p = Inr p'" "gs \<noteq> []"
  shows "au_authorized (fst p') \<longleftrightarrow> (\<forall>g \<in> set gs. \<exists>n \<in> set g. name_allows S u xf (issuer_of (snd p)) n)"
  by (rule groups_spec [OF assms])

definition site_admin_storage :: auth_storage where
  "site_admin_storage = \<lparr>as_organizationActive = True,
     as_userSites = (\<lambda>u. if u = ''u1'' then [\<lparr>us_siteID = ''s1'', us_siteAdmin = True, us_siteOwner = False\<rparr>] else []),
     as_sites = (\<lambda>u. if u = ''u1'' then [\<lparr>sr_id = ''s1'', sr_companyID = ''c1''\<rparr>] else []),
     as_tags = (\<lambda>u. if u = ''u1'' then [''T1''] else [])\<rparr>"

definition no_query_filters :: query_filters where
  "no_query_filters = \<lparr>qf_companyIDs = None, qf_siteIDs = None, qf_siteAdminIDs = None, qf_siteOwnerIDs = None,
     qf_userIDs = None, qf_ownerID = None, qf_ownUserTags = None, qf_issuer = None\<rparr>"

definition no_verdict :: filter_state where
  "no_verdict = (\<lparr>au_filters = no_query_filters, au_authorized = False\<rparr>, None)"

definition delete_other_user :: fields where
  "delete_other_user = [''UserID'' \<mapsto> JStr ''u2'', ''SiteID'' \<mapsto> JStr ''s1|s9'']"

lemma delete_run:
  "map_sum id (\<lambda>p. (au_authorized (fst p), qf_siteIDs (au_filters (fst p))))
     (processDynamicFilters site_admin_storage ''u1'' delete_other_user
       [[''-OwnUser''], [''SitesAdmin''], [''LocalIssuer'']] no_verdict) = Inr (True, Some [''s1''])"
  by code_simp

lemma filters_are_a_conjunction_of_disjunctions_witness:
  "list_all (list_ex (name_allows site_admin_storage ''u1'' delete_other_user None))
     [[''-OwnUser''], [''SitesAdmin''], [''LocalIssuer'']]"
proof -
  obtain p' where "processDynamicFilters site_admin_storage ''u1'' delete_other_user
       [[''-OwnUser''], [''SitesAdmin''], [''LocalIssuer'']] no_verdict = Inr p'" and "au_authorized (fst p')"
    using delete_run by (auto simp: map_sum_Inr_iff simp del: split_paired_Ex)
  from filters_are_a_conjunction_of_disjunctions [OF this(1)] this(2)
  show ?thesis by (simp add: no_verdict_def issuer_of_def)
qed

end
