(* ===== verification/AuthorizationService.thy ===== *)
theory AuthorizationService
  imports AuthorizationRules AuthorizationTypes
begin

text \<open>
  Checking an action (\<open>authorization/AuthorizationsManager.ts\<close>, \<open>authorization/Authorizations.ts\<close>,
  \<open>server/rest/v1/service/AuthorizationService.ts\<close>).  The access control library is a parameter: the grants it
  finds for the roles (with the roles they extend), the entity and the action, in the order in which it
  evaluates their conditions, and the attributes it computes from them.
\<close>

section \<open>The static check\<close>

record auth_context =
  cx_filters :: "string list list option"
  cx_filtersSet :: bool
  cx_asserts :: "string list list option"
  cx_assertsSet :: bool
  cx_metadata :: "(string \<times> field_metadata) list option"
  cx_metadataSet :: bool

definition empty_context :: auth_context where
  "empty_context = \<lparr>cx_filters = None, cx_filtersSet = False, cx_asserts = None, cx_assertsSet = False,
     cx_metadata = None, cx_metadataSet = False\<rparr>"

definition default_to :: "'a \<Rightarrow> 'a option \<Rightarrow> 'a option" where
  "default_to d v = (case v of None \<Rightarrow> Some d | Some _ \<Rightarrow> v)"

text \<open>The condition function: it always holds, and hands its arguments to the context once.\<close>

definition dynamicAuthorizations :: "auth_context \<Rightarrow> condition_args \<Rightarrow> auth_context" where
  "dynamicAuthorizations cx args =
     (let cx1 = cx\<lparr>cx_filters := default_to [] (cx_filters cx)\<rparr>;
          cx2 = (if \<not> cx_filtersSet cx1 then cx1\<lparr>cx_filters := Some (ca_filters args), cx_filtersSet := True\<rparr> else cx1);
          cx3 = cx2\<lparr>cx_asserts := default_to [] (cx_asserts cx2)\<rparr>;
          cx4 = (if \<not> cx_assertsSet cx3 then cx3\<lparr>cx_asserts := Some (ca_asserts args), cx_assertsSet := True\<rparr> else cx3);
          cx5 = cx4\<lparr>cx_metadata := default_to [] (cx_metadata cx4)\<rparr>
      in if \<not> cx_metadataSet cx5 \<and> ca_metadata args \<noteq> None
         then cx5\<lparr>cx_metadata := ca_metadata args, cx_metadataSet := True\<rparr> else cx5)"

record access_control =
  ac_matching :: "string list \<Rightarrow> entity \<Rightarrow> action \<Rightarrow> grant list"
  ac_attributes :: "grant list \<Rightarrow> string list"

record auth_result =
  ar_authorized :: bool
  ar_fields :: "string list"
  ar_context :: auth_context

definition evaluate_condition :: "auth_context \<Rightarrow> grant \<Rightarrow> auth_context" where
  "evaluate_condition cx g =
     (case g_condition g of None \<Rightarrow> cx | Some args \<Rightarrow> dynamicAuthorizations cx args)"

definition permission :: "access_control \<Rightarrow> string list \<Rightarrow> entity \<Rightarrow> action \<Rightarrow> auth_context \<Rightarrow> auth_result" where
  "permission M roles e a cx =
     (let gs = ac_matching M roles e a
      in \<lparr>ar_authorized = (gs \<noteq> []), ar_fields = ac_attributes M gs, ar_context = foldl evaluate_condition cx gs\<rparr>)"

section \<open>Projected fields\<close>

definition requested_fields :: "fields \<Rightarrow> string list" where
  "requested_fields xf = (case xf ''ProjectFields'' of Some (JStr t) \<Rightarrow> if t = [] then [] else split_bar t | _ \<Rightarrow> [])"

definition filterProjectFields :: "string list \<Rightarrow> string list \<Rightarrow> string list" where
  "filterProjectFields authFields http =
     (let applicable = List.filter (\<lambda>f. f \<noteq> ''*'') authFields;
          http' = (if applicable \<noteq> [] \<and> http \<noteq> [] then List.filter (\<lambda>f. f \<in> set applicable) http else http)
      in if http' \<noteq> [] then http' else applicable)"

section \<open>The whole check\<close>

record authorization_filter =
  af_state :: auth_state
  af_projectFields :: "string list"
  af_metadata :: "(string \<times> field_metadata) list option"

definition canPerformAuthorizationAction ::
    "access_control \<Rightarrow> auth_storage \<Rightarrow> string \<Rightarrow> string list \<Rightarrow> entity \<Rightarrow> action \<Rightarrow> fields \<Rightarrow> bool \<Rightarrow>
     authorization_filter \<times> fields option \<Rightarrow> (bool \<times> authorization_filter \<times> fields option) res" where
  "canPerformAuthorizationAction M S u roles e a xf failsWithException p =
     (let (af, ed) = p; r = permission M roles e a empty_context; cx = ar_context r in
      if \<not> ar_authorized r then
        (if failsWithException then Inl AppAuthError
         else Inr (False, af\<lparr>af_state := (af_state af)\<lparr>au_authorized := False\<rparr>\<rparr>, ed))
      else
        bindE (processDynamicFilters S u xf (case cx_filters cx of None \<Rightarrow> [] | Some fs \<Rightarrow> fs)
                 ((af_state af)\<lparr>au_authorized := True\<rparr>, ed)) (\<lambda>(s, ed1).
        bindE (if au_authorized s
               then processDynamicAsserts u (case cx_asserts cx of None \<Rightarrow> [] | Some xs \<Rightarrow> xs) (s, ed1)
               else Inr (s, ed1)) (\<lambda>(s', ed2).
          Inr (au_authorized s',
               af\<lparr>af_state := s',
                  af_metadata := (if au_authorized s then cx_metadata cx else af_metadata af),
                  af_projectFields := filterProjectFields (ar_fields r) (requested_fields xf)\<rparr>, ed2))))"

text \<open>\<open>checkAndGetEntityAuthorizations\<close>: \<open>entityID\<close> is what the filters see, \<open>request\<close> holds the projection.\<close>

definition checkAndGetEntityAuthorizations ::
    "access_control \<Rightarrow> auth_storage \<Rightarrow> string \<Rightarrow> string list \<Rightarrow> entity \<Rightarrow> action \<Rightarrow> fields \<Rightarrow> fields \<Rightarrow> fields option \<Rightarrow>
     (authorization_filter \<times> fields option) res" where
  "checkAndGetEntityAuthorizations M S u roles e a request entityID ed =
     (let r = permission M roles e a empty_context; cx = ar_context r in
      if \<not> ar_authorized r then Inl AppAuthError
      else
        bindE (processDynamicFilters S u entityID (case cx_filters cx of None \<Rightarrow> [] | Some fs \<Rightarrow> fs)
                 (\<lparr>au_filters = no_query_filters, au_authorized = True\<rparr>, ed)) (\<lambda>(s, ed1).
        if \<not> au_authorized s then Inl AppAuthError
        else bindE (processDynamicAsserts u (case cx_asserts cx of None \<Rightarrow> [] | Some xs \<Rightarrow> xs) (s, ed1)) (\<lambda>(s', ed2).
        if \<not> au_authorized s' then Inl AppAuthError
        else Inr (\<lparr>af_state = s', af_projectFields = filterProjectFields (ar_fields r) (requested_fields request),
                   af_metadata = cx_metadata cx\<rparr>, ed2))))"

definition getAuthGroupsFromUser :: "user_role \<Rightarrow> nat \<Rightarrow> nat \<Rightarrow> string list" where
  "getAuthGroupsFromUser role sitesAdminCount sitesOwnerCount =
     (case role of
        ADMIN \<Rightarrow> [''admin'']
      | QRCODE \<Rightarrow> [''qrcode'']
      | SUPER_ADMIN \<Rightarrow> [''superAdmin'']
      | BASIC \<Rightarrow>
          (let roles = (if 0 < sitesAdminCount then [''siteAdmin''] else [])
                       @ (if 0 < sitesOwnerCount then [''siteOwner''] else [])
           in if roles = [] then [''basic''] else roles)
      | DEMO \<Rightarrow> [''demo''])"

section \<open>Which condition applies\<close>

text \<open>The context keeps the arguments of the first condition that is evaluated.\<close>

fun applied_condition :: "grant list \<Rightarrow> condition_args option" where
  "applied_condition [] = None"
| "applied_condition (g # gs) = (case g_condition g of None \<Rightarrow> applied_condition gs | Some c \<Rightarrow> Some c)"

lemma evaluate_condition_fixed:
  assumes "cx_filtersSet cx" "cx_assertsSet cx" "cx_filters cx = Some fs" "cx_asserts cx = Some xs"
  shows "cx_filtersSet (foldl evaluate_condition cx gs) \<and> cx_assertsSet (foldl evaluate_condition cx gs)
    \<and> cx_filters (foldl evaluate_condition cx gs) = Some fs \<and> cx_asserts (foldl evaluate_condition cx gs) = Some xs"
  using assms
proof (induction gs arbitrary: cx)
  case (Cons g gs)
  have "cx_filtersSet (evaluate_condition cx g)" "cx_assertsSet (evaluate_condition cx g)"
    "cx_filters (evaluate_condition cx g) = Some fs" "cx_asserts (evaluate_condition cx g) = Some xs"
    using Cons.prems
    by (simp_all add: evaluate_condition_def dynamicAuthorizations_def default_to_def Let_def split: option.splits)
  from Cons.IH [OF this] show ?case by simp
qed simp

lemma context_conditions:
  "cx_filters (foldl evaluate_condition empty_context gs) = map_option ca_filters (applied_condition gs)
   \<and> cx_asserts (foldl evaluate_condition empty_context gs) = map_option ca_asserts (applied_condition gs)"
proof (induction gs)
  case (Cons g gs)
  show ?case
  proof (cases "g_condition g")
    case None
    then show ?thesis using Cons.IH by (simp add: evaluate_condition_def)
  next
    case (Some c)
    have "cx_filtersSet (evaluate_condition empty_context g)" "cx_assertsSet (evaluate_condition empty_context g)"
      "cx_filters (evaluate_condition empty_context g) = Some (ca_filters c)"
      "cx_asserts (evaluate_condition empty_context g) = Some (ca_asserts c)"
      using Some by (simp_all add: evaluate_condition_def dynamicAuthorizations_def default_to_def empty_context_def Let_def)
    from evaluate_condition_fixed [OF this] Some show ?thesis by simp
  qed
qed (simp add: empty_context_def)

section \<open>The verdict of the assertions\<close>

definition assert_allows :: "string \<Rightarrow> fields \<Rightarrow> string \<Rightarrow> bool" where
  "assert_allows u e n =
     (case getDynamicAssert n of None \<Rightarrow> False | Some (negate, a) \<Rightarrow> processAssert u a e \<noteq> negate)"

lemma apply_assert_spec: "apply_assert u e b n = Inr c \<Longrightarrow> c \<longleftrightarrow> b \<or> assert_allows u e n"
  by (cases "getDynamicAssert n") (auto simp: apply_assert_def assert_allows_def)

lemma assert_group_spec:
  "foldE (apply_assert u e) b g = Inr r \<Longrightarrow> r \<longleftrightarrow> b \<or> (\<exists>n \<in> set g. assert_allows u e n)"
proof (induction g arbitrary: b)
  case (Cons n g)
  then obtain c where c: "apply_assert u e b n = Inr c" and "foldE (apply_assert u e) c g = Inr r"
    by (auto simp: bindE_Inr_iff)
  with Cons.IH [of c] show ?case using apply_assert_spec [OF c] by simp
qed simp

lemma assert_groups_spec:
  "assert_groups u e gs b = Inr r \<Longrightarrow>
     r \<longleftrightarrow> (if gs = [] then b else (\<forall>g \<in> set gs. \<exists>n \<in> set g. assert_allows u e n))"
proof (induction gs arbitrary: b)
  case (Cons g gs)
  then obtain c where g: "foldE (apply_assert u e) False g = Inr c"
    and r: "(if c then assert_groups u e gs True else Inr False) = Inr r"
    by (auto simp: bindE_Inr_iff)
  from assert_group_spec [OF g] have c: "c \<longleftrightarrow> (\<exists>n \<in> set g. assert_allows u e n)" by simp
  show ?case
  proof (cases c)
    case True
    with r have "assert_groups u e gs True = Inr r" by simp
    from Cons.IH [OF this] c True show ?thesis by (auto split: if_splits)
  next
    case False
    with r c show ?thesis by auto
  qed
qed simp

definition asserts_allow :: "string \<Rightarrow> string list list \<Rightarrow> fields option \<Rightarrow> bool" where
  "asserts_allow u gs ed = (case ed of None \<Rightarrow> True | Some e \<Rightarrow> \<forall>g \<in> set gs. \<exists>n \<in> set g. assert_allows u e n)"

definition filters_allow :: "auth_storage \<Rightarrow> string \<Rightarrow> fields \<Rightarrow> string list list \<Rightarrow> json option \<Rightarrow> bool" where
  "filters_allow S u xf gs issuer \<longleftrightarrow> (\<forall>g \<in> set gs. \<exists>n \<in> set g. name_allows S u xf issuer n)"

lemma processDynamicAsserts_spec:
  assumes "processDynamicAsserts u gs p = Inr p'" "au_authorized (fst p)"
  shows "snd p' = snd p \<and> au_filters (fst p') = au_filters (fst p) \<and> (au_authorized (fst p') \<longleftrightarrow> asserts_allow u gs (snd p'))"
proof (cases "snd p")
  case None
  with assms show ?thesis by (simp add: processDynamicAsserts_def asserts_allow_def)
next
  case (Some e)
  with assms obtain a where a: "assert_groups u e gs True = Inr a"
    and p': "p' = ((fst p)\<lparr>au_authorized := a\<rparr>, Some e)"
    by (auto simp: processDynamicAsserts_def map_sum_Inr_iff)
  from assert_groups_spec [OF a] p' Some show ?thesis by (auto simp: asserts_allow_def)
qed

lemma processDynamicFilters_spec:
  assumes "processDynamicFilters S u xf gs p = Inr p'" "au_authorized (fst p)"
  shows "au_authorized (fst p') \<longleftrightarrow> filters_allow S u xf gs (issuer_of (snd p))"
  using assms groups_spec [OF assms(1)] by (cases "gs = []") (auto simp: filters_allow_def)

section \<open>The whole check decides\<close>

definition granted_filters :: "grant list \<Rightarrow> string list list" where
  "granted_filters gs = (case applied_condition gs of None \<Rightarrow> [] | Some c \<Rightarrow> ca_filters c)"

definition granted_asserts :: "grant list \<Rightarrow> string list list" where
  "granted_asserts gs = (case applied_condition gs of None \<Rightarrow> [] | Some c \<Rightarrow> ca_asserts c)"

lemma permission_simps [simp]:
  "ar_authorized (permission M roles e a cx) = (ac_matching M roles e a \<noteq> [])"
  "(case cx_filters (ar_context (permission M roles e a empty_context)) of None \<Rightarrow> [] | Some fs \<Rightarrow> fs) =
     granted_filters (ac_matching M roles e a)"
  "(case cx_asserts (ar_context (permission M roles e a empty_context)) of None \<Rightarrow> [] | Some xs \<Rightarrow> xs) =
     granted_asserts (ac_matching M roles e a)"
  "ar_fields (permission M roles e a cx) = ac_attributes M (ac_matching M roles e a)"
  by (auto simp: permission_def context_conditions granted_filters_def granted_asserts_def Let_def split: option.splits)

lemma canPerform_run:
  assumes "canPerformAuthorizationAction M S u roles e a xf fails (af, ed) = Inr (b, af', ed')"
    "ac_matching M roles e a \<noteq> []"
  obtains s ed1 where
    "processDynamicFilters S u xf (granted_filters (ac_matching M roles e a)) ((af_state af)\<lparr>au_authorized := True\<rparr>, ed)
       = Inr (s, ed1)"
    "(if au_authorized s then processDynamicAsserts u (granted_asserts (ac_matching M roles e a)) (s, ed1) else Inr (s, ed1))
       = Inr (af_state af', ed')"
    "b = au_authorized (af_state af')"
  using assms by (clarsimp simp: canPerformAuthorizationAction_def Let_def bindE_Inr_iff cong: if_cong)

lemma check_decides:
  assumes "canPerformAuthorizationAction M S u roles e a xf fails (af, ed) = Inr (b, af', ed')"
  shows "(b \<longleftrightarrow> ac_matching M roles e a \<noteq> []
      \<and> filters_allow S u xf (granted_filters (ac_matching M roles e a)) (issuer_of ed)
      \<and> asserts_allow u (granted_asserts (ac_matching M roles e a)) ed')
    \<and> b = au_authorized (af_state af')"
proof -
  let ?gs = "ac_matching M roles e a"
  show "(b \<longleftrightarrow> ?gs \<noteq> [] \<and> filters_allow S u xf (granted_filters ?gs) (issuer_of ed)
      \<and> asserts_allow u (granted_asserts ?gs) ed') \<and> b = au_authorized (af_state af')"
  proof (cases "?gs = []")
    case True
    with assms show ?thesis by (auto simp: canPerformAuthorizationAction_def split: if_splits)
  next
    case False
    from canPerform_run [OF assms False] obtain s ed1 where
      f: "processDynamicFilters S u xf (granted_filters ?gs) ((af_state af)\<lparr>au_authorized := True\<rparr>, ed) = Inr (s, ed1)"
      and a: "(if au_authorized s then processDynamicAsserts u (granted_asserts ?gs) (s, ed1) else Inr (s, ed1))
        = Inr (af_state af', ed')"
      and b: "b = au_authorized (af_state af')" by blast
    from processDynamicFilters_spec [OF f] have s: "au_authorized s \<longleftrightarrow> filters_allow S u xf (granted_filters ?gs) (issuer_of ed)"
      by simp
    show ?thesis
    proof (cases "au_authorized s")
      case True
      with a have "processDynamicAsserts u (granted_asserts ?gs) (s, ed1) = Inr (af_state af', ed')" by simp
      from processDynamicAsserts_spec [OF this] True s b False show ?thesis by simp
    next
      case False
      with a b s show ?thesis by auto
    qed
  qed
qed

text \<open>A grant with every kind of filter, and the filter a request starts with; samples for later witnesses.\<close>

definition one_grant_control :: access_control where
  "one_grant_control =
     \<lparr>ac_matching = (\<lambda>_ _ _. [\<lparr>g_resource = E_USER, g_action = [A_READ], g_attributes = None,
        g_condition = Some \<lparr>ca_asserts = [[''BasicUser'']], ca_filters = [[''-OwnUser''], [''SitesAdmin''], [''LocalIssuer'']],
          ca_metadata = None\<rparr>\<rparr>]),
      ac_attributes = (\<lambda>_. [''*''])\<rparr>"

definition no_authorization :: authorization_filter where
  "no_authorization =
     \<lparr>af_state = \<lparr>au_filters = no_query_filters, au_authorized = False\<rparr>, af_projectFields = [], af_metadata = None\<rparr>"


section \<open>What is projected\<close>

lemma filterProjectFields_spec:
  assumes "List.filter (\<lambda>f. f \<noteq> ''*'') authFields \<noteq> []"
  shows "filterProjectFields authFields http \<noteq> []" "set (filterProjectFields authFields http) \<subseteq> set authFields - {''*''}"
    "f \<in> set http \<Longrightarrow> f \<in> set authFields - {''*''} \<Longrightarrow> set (filterProjectFields authFields http) \<subseteq> set http"
  using assms by (auto simp: filterProjectFields_def Let_def filter_empty_conv)

lemma authorized_projection:
  assumes "canPerformAuthorizationAction M S u roles e a xf fails p = Inr (True, af', ed')"
  shows "af_projectFields af' = filterProjectFields (ac_attributes M (ac_matching M roles e a)) (requested_fields xf)"
  using assms
  by (auto simp: canPerformAuthorizationAction_def Let_def bindE_Inr_iff split: if_splits prod.splits cong: if_cong)

end
