(* ===== verification/GrantRules.thy ===== *)
theory GrantRules
  imports AuthorizationService
begin

text \<open>
  What every grant of the definition must satisfy for the authorization service to work as it is meant to, and
  what follows from it: checks that always decide, site filters that restrict the query.
\<close>

section \<open>Well-formed grants\<close>

definition condition_filters :: "grant \<Rightarrow> string list list" where
  "condition_filters g = (case g_condition g of None \<Rightarrow> [] | Some c \<Rightarrow> ca_filters c)"

definition condition_asserts :: "grant \<Rightarrow> string list list" where
  "condition_asserts g = (case g_condition g of None \<Rightarrow> [] | Some c \<Rightarrow> ca_asserts c)"

definition writes_sites :: "string \<Rightarrow> bool" where
  "writes_sites n \<longleftrightarrow> n = ''SitesAdmin'' \<or> n = ''SitesOwner'' \<or> n = ''AssignedSites'' \<or> n = ''SitesAdminOrOwner''"

definition plain_name :: "string \<Rightarrow> string" where
  "plain_name n = (case n of [] \<Rightarrow> [] | c # m \<Rightarrow> if c = CHR ''-'' then m else n)"

fun one_site_writer :: "string list list \<Rightarrow> bool" where
  "one_site_writer [] = True"
| "one_site_writer (g # gs) =
     (if list_ex (\<lambda>n. writes_sites (plain_name n)) g then list_all (list_all (\<lambda>n. \<not> writes_sites (plain_name n))) gs
      else one_site_writer gs)"

definition known_filter :: "string \<Rightarrow> bool" where
  "known_filter n = (case getDynamicFilter n of None \<Rightarrow> False | Some _ \<Rightarrow> True)"

definition known_assert :: "string \<Rightarrow> bool" where
  "known_assert n = (case getDynamicAssert n of None \<Rightarrow> False | Some _ \<Rightarrow> True)"

definition wf_grant :: "grant \<Rightarrow> bool" where
  "wf_grant g \<longleftrightarrow>
     list_all (\<lambda>ns. ns \<noteq> [] \<and> list_all known_filter ns) (condition_filters g)
     \<and> list_all (\<lambda>ns. ns \<noteq> [] \<and> list_all known_assert ns) (condition_asserts g)
     \<and> one_site_writer (condition_filters g)"

definition super_admin_only :: "entity \<Rightarrow> action \<Rightarrow> bool" where
  "super_admin_only e a \<longleftrightarrow>
     e = E_TENANT \<and> a \<in> {A_CREATE, A_DELETE, A_LIST} \<or> e = E_CHARGING_STATION_TEMPLATE
     \<or> e = E_CAR_CATALOG \<and> a = A_SYNCHRONIZE"

definition tenant_grant :: "grant \<Rightarrow> bool" where
  "tenant_grant g \<longleftrightarrow> list_all (\<lambda>a. \<not> super_admin_only (g_resource g) a) (g_action g)"

lemma wf_grant_code:
  "wf_grant \<lparr>g_resource = e, g_action = as, g_attributes = ats, g_condition = None\<rparr>"
  "wf_grant \<lparr>g_resource = e, g_action = as, g_attributes = ats,
      g_condition = Some \<lparr>ca_asserts = xs, ca_filters = fs, ca_metadata = m\<rparr>\<rparr> \<longleftrightarrow>
     list_all (\<lambda>ns. ns \<noteq> [] \<and> list_all known_filter ns) fs
     \<and> list_all (\<lambda>ns. ns \<noteq> [] \<and> list_all known_assert ns) xs \<and> one_site_writer fs"
  by (simp_all add: wf_grant_def condition_filters_def condition_asserts_def)

lemma tenant_grant_code:
  "tenant_grant \<lparr>g_resource = e, g_action = as, g_attributes = ats, g_condition = c\<rparr> \<longleftrightarrow>
     list_all (\<lambda>a. \<not> super_admin_only e a) as"
  by (simp add: tenant_grant_def)

lemmas grant_code = wf_grant_code tenant_grant_code super_admin_only_def writes_sites_def plain_name_def
  known_filter_def known_assert_def


section \<open>Checks decide\<close>

text \<open>The filters of a request are texts: parts of a query string.\<close>

definition textual :: "fields \<Rightarrow> bool" where
  "textual xf \<longleftrightarrow>
     (\<forall>k \<in> {''CompanyID'', ''SiteID'', ''UserID'', ''TagIDs''}. \<forall>v. xf k = Some v \<longrightarrow> v = JNull \<or> (\<exists>t. v = JStr t))"

lemma override_total:
  assumes "textual xf" "k \<in> {''CompanyID'', ''SiteID'', ''UserID'', ''TagIDs''}"
  shows "\<exists>q. override_ids xf k ids = Inr q"
proof (cases "xf k")
  case (Some v)
  with assms have "v = JNull \<or> (\<exists>t. v = JStr t)" unfolding textual_def by blast
  with Some show ?thesis by (auto simp: override_ids_def present_field_def split_value_def simp del: split_paired_Ex)
qed (simp add: override_ids_def present_field_def del: split_paired_Ex)

lemma forced_total:
  assumes "textual xf" "k \<in> {''CompanyID'', ''SiteID'', ''UserID'', ''TagIDs''}"
  shows "\<exists>r. forced_ids xf k ids = Inr r"
  using override_total [OF assms, of ids] by (auto simp: forced_ids_def simp del: split_paired_Ex)

lemma site_ids_total: "textual xf \<Longrightarrow> \<exists>q. site_ids_filter ids xf p = Inr q"
  using forced_total [of xf "''SiteID''" ids] by (auto simp: site_ids_filter_def Let_def)

lemma own_step_total:
  assumes "textual xf" "k \<in> {''CompanyID'', ''SiteID'', ''UserID'', ''TagIDs''}"
  shows "\<exists>q. own_step xf k ids f p = Inr q"
  using override_total [OF assms, of ids] by (auto simp: own_step_def Let_def split: prod.splits simp del: split_paired_Ex)

lemma map_sum_total: "\<exists>q. r = Inr q \<Longrightarrow> \<exists>q'. map_sum id g r = Inr q'"
  by auto

lemma bind_total: "\<exists>q. r = Inr q \<Longrightarrow> (\<And>q. \<exists>q'. h q = Inr q') \<Longrightarrow> \<exists>q'. bindE r h = Inr q'"
  by auto

lemma processFilter_total: "textual xf \<Longrightarrow> \<exists>q. processFilter S u xf f p = Inr q"
  by (cases f) (auto simp: assignedSitesCompanies_filter_def assignedSites_filter_def sitesAdmin_filter_def
    sitesOwner_filter_def sitesAdminOrOwner_filter_def ownUser_filter_def sitesAdminUsers_filter_def
    sitesOwnerUsers_filter_def getUserTagIDs_def admin_users_data owner_users_data Let_def
    simp del: split_paired_Ex
    intro!: map_sum_total bind_total forced_total site_ids_total own_step_total)

lemma known_filter_iff: "known_filter n \<longleftrightarrow> (\<exists>b f. getDynamicFilter n = Some (b, f))"
  by (auto simp: known_filter_def split: option.splits)

lemma group_total:
  "textual xf \<Longrightarrow> list_all known_filter g \<Longrightarrow> \<exists>q. foldE (apply_filter S u xf) p g = Inr q"
proof (induction g arbitrary: p)
  case (Cons n g)
  from Cons.prems(2) obtain b f where n: "getDynamicFilter n = Some (b, f)" by (auto simp: known_filter_iff)
  from processFilter_total [OF Cons.prems(1)] obtain q where "processFilter S u xf f (fst p) = Inr q" by blast
  with n have "\<exists>q. apply_filter S u xf p n = Inr q" by (cases q) (simp add: apply_filter_def Let_def)
  with Cons show ?case by (auto simp del: split_paired_Ex)
qed simp

lemma groups_total:
  "textual xf \<Longrightarrow> list_all (list_all known_filter) gs \<Longrightarrow> \<exists>q. processDynamicFilters S u xf gs p = Inr q"
proof (induction gs arbitrary: p)
  case (Cons g gs)
  let ?p = "(((fst p)\<lparr>au_authorized := False\<rparr>, snd p), False)"
  from Cons.prems(2) have "list_all known_filter g" by simp
  from group_total [OF Cons.prems(1) this, of S u ?p]
  obtain s ed a where "foldE (apply_filter S u xf) ?p g = Inr ((s, ed), a)" by auto
  with Cons show ?case by (cases a) (simp_all del: split_paired_Ex)
qed simp

lemma processDynamicAsserts_total:
  "list_all (list_all known_assert) gs \<Longrightarrow> \<exists>q. processDynamicAsserts u gs p = Inr q"
proof (cases "snd p")
  case (Some e)
  have group: "list_all known_assert g \<Longrightarrow> \<exists>c. foldE (apply_assert u e) b g = Inr c" for g b
  proof (induction g arbitrary: b)
    case (Cons n g)
    then show ?case by (auto simp: apply_assert_def known_assert_def split: option.splits)
  qed simp
  have "list_all (list_all known_assert) gs \<Longrightarrow> \<exists>c. assert_groups u e gs b = Inr c" for b
  proof (induction gs arbitrary: b)
    case (Cons g gs)
    with group [of g False] obtain c where "foldE (apply_assert u e) False g = Inr c" by auto
    with Cons show ?case by (cases c) auto
  qed simp
  moreover assume "list_all (list_all known_assert) gs"
  ultimately show ?thesis using Some by (auto simp: processDynamicAsserts_def simp del: split_paired_Ex intro!: map_sum_total)
qed (simp add: processDynamicAsserts_def del: split_paired_Ex)

section \<open>Site filters restrict the query\<close>

text \<open>The sites that a site filter admits.\<close>

definition filter_sites :: "auth_storage \<Rightarrow> string \<Rightarrow> string \<Rightarrow> string list" where
  "filter_sites S u n =
     (if n = ''SitesAdmin'' then getSitesAdminSiteIDs S u
      else if n = ''SitesOwner'' then getSitesOwnerSiteIDs S u
      else if n = ''AssignedSites'' then getAssignedSiteIDs S u
      else if n = ''SitesAdminOrOwner'' then getSitesAdminOrOwnerSiteIDs S u
      else [])"

definition sites_of :: "filter_state \<Rightarrow> string list option" where
  "sites_of p = qf_siteIDs (au_filters (fst p))"

definition restricted :: "string list \<Rightarrow> filter_state \<Rightarrow> bool" where
  "restricted ids p \<longleftrightarrow> (\<exists>l. sites_of p = Some l \<and> l \<noteq> [] \<and> set l \<subseteq> set ids)"

lemma own_step_sites:
  assumes "own_step xf k ids f p = Inr q" "\<And>i s. qf_siteIDs (f i s) = qf_siteIDs s"
  shows "qf_siteIDs (au_filters (fst q)) = qf_siteIDs (au_filters (fst p))"
  using assms by (auto simp: own_step_def res_simps Let_def split: if_splits)

lemma clear_when_sites [simp]:
  "(\<And>s. qf_siteIDs (f s) = qf_siteIDs s) \<Longrightarrow> qf_siteIDs (au_filters (clear_when b f s)) = qf_siteIDs (au_filters s)"
  by (simp add: clear_when_def)

lemma own_result_filters [simp]: "au_filters (fst (own_result xf ed q)) = au_filters (fst q)"
  by (simp add: own_result_def)

lemma own_filters_keep_sites:
  "ownUser_filter S u xf p = Inr q \<Longrightarrow> sites_of q = sites_of p"
  "sitesAdminUsers_filter S u xf p = Inr q \<Longrightarrow> sites_of q = sites_of p"
  "sitesOwnerUsers_filter S u xf p = Inr q \<Longrightarrow> sites_of q = sites_of p"
  by (auto simp: ownUser_filter_def sitesAdminUsers_filter_def sitesOwnerUsers_filter_def getUserTagIDs_def
      admin_users_data owner_users_data Let_def res_simps sites_of_def dest!: own_step_sites)

lemma other_filters_keep_sites:
  assumes "processFilter S u xf f p = Inr q" "f \<notin> {SITES_ADMIN, SITES_OWNER, ASSIGNED_SITES, SITES_ADMIN_OR_OWNER}"
  shows "sites_of q = sites_of p"
  using assms
  by (cases f) (auto simp: own_filters_keep_sites [unfolded sites_of_def] assignedSitesCompanies_filter_def res_simps Let_def sites_of_def
      excludeAction_filter_def localIssuer_filter_def split: option.splits)

lemma site_ids_filter_restricts:
  assumes "site_ids_filter ids xf p = Inr q" "\<not> au_authorized (fst p)" "au_authorized (fst q)"
  shows "restricted ids q"
  using assms forced_ids_spec(2) [of xf "''SiteID''" ids]
  by (auto simp: site_ids_filter_def res_simps Let_def restricted_def sites_of_def)

lemma active_site_filters:
  assumes "as_organizationActive S"
  shows "assignedSites_filter S u xf p = site_ids_filter (getAssignedSiteIDs S u) xf p"
    "sitesAdmin_filter S u xf p = map_sum id (removed_unless_authorized xf) (site_ids_filter (getSitesAdminSiteIDs S u) xf p)"
    "sitesOwner_filter S u xf p = site_ids_filter (getSitesOwnerSiteIDs S u) xf p"
    "sitesAdminOrOwner_filter S u xf p = site_ids_filter (getSitesAdminOrOwnerSiteIDs S u) xf p"
  using assms
  by (simp_all add: assignedSites_filter_def sitesAdmin_filter_def sitesOwner_filter_def sitesAdminOrOwner_filter_def)

lemma restricted_fst: "fst q = fst r \<Longrightarrow> restricted ids q = restricted ids r"
  by (simp add: restricted_def sites_of_def)

lemma site_filters_restrict:
  assumes "processFilter S u xf f p = Inr q" "as_organizationActive S" "\<not> au_authorized (fst p)" "au_authorized (fst q)"
    "filter_of_text n = Some f" "writes_sites n"
  shows "restricted (filter_sites S u n) q"
proof -
  have "\<exists>r. site_ids_filter (filter_sites S u n) xf p = Inr r \<and> fst q = fst r"
    using assms(1,5,6) unfolding writes_sites_def
    by (elim disjE) (auto simp: active_site_filters [OF assms(2)] filter_sites_def map_sum_Inr_iff simp del: split_paired_Ex)
  then obtain r where r: "site_ids_filter (filter_sites S u n) xf p = Inr r" "fst q = fst r" by blast
  from site_ids_filter_restricts [OF r(1) assms(3)] assms(4) r(2) restricted_fst [OF r(2)] show ?thesis by simp
qed

lemma filter_of_text_writes:
  "filter_of_text n = Some f \<Longrightarrow> \<not> writes_sites n \<Longrightarrow> f \<notin> {SITES_ADMIN, SITES_OWNER, ASSIGNED_SITES, SITES_ADMIN_OR_OWNER}"
  by (auto simp: writes_sites_def split: if_splits)

lemma getDynamicFilter_plain: "getDynamicFilter n = Some (b, f) \<Longrightarrow> filter_of_text (plain_name n) = Some f"
  by (cases n) (auto simp: plain_name_def split: if_splits)

lemma apply_filter_keeps_sites:
  assumes "apply_filter S u xf p n = Inr q" "\<not> writes_sites (plain_name n)"
  shows "sites_of (fst q) = sites_of (fst p)"
proof -
  from assms(1) obtain b f s where n: "getDynamicFilter n = Some (b, f)" and "processFilter S u xf f (fst p) = Inr s"
    and q: "sites_of (fst q) = sites_of s"
    by (auto simp: apply_filter_def sites_of_def Let_def bindE_Inr_iff split: option.splits)
  from other_filters_keep_sites [OF this(2) filter_of_text_writes [OF getDynamicFilter_plain [OF n] assms(2)]] q
  show ?thesis by simp
qed

lemma group_keeps_sites:
  "foldE (apply_filter S u xf) p g = Inr q \<Longrightarrow> list_all (\<lambda>n. \<not> writes_sites (plain_name n)) g \<Longrightarrow>
     sites_of (fst q) = sites_of (fst p)"
proof (induction g arbitrary: p)
  case (Cons n g)
  then obtain r where r: "apply_filter S u xf p n = Inr r" and "foldE (apply_filter S u xf) r g = Inr q"
    by (auto simp: bindE_Inr_iff)
  with Cons apply_filter_keeps_sites [OF r] show ?case by simp
qed simp

lemma groups_keep_sites:
  "processDynamicFilters S u xf gs p = Inr q \<Longrightarrow> list_all (list_all (\<lambda>n. \<not> writes_sites (plain_name n))) gs \<Longrightarrow>
     sites_of q = sites_of p"
proof (induction gs arbitrary: p)
  case (Cons g gs)
  from Cons.prems(1) obtain s ed a where
    g: "foldE (apply_filter S u xf) (((fst p)\<lparr>au_authorized := False\<rparr>, snd p), False) g = Inr ((s, ed), a)"
    and r: "(if a then processDynamicFilters S u xf gs (s\<lparr>au_authorized := True\<rparr>, ed)
       else Inr (s\<lparr>au_authorized := False\<rparr>, ed)) = Inr q"
    by (auto simp: bindE_Inr_iff)
  from group_keeps_sites [OF g] Cons.prems(2) have s: "sites_of (s, ed) = sites_of p" by (simp add: sites_of_def)
  with r Cons.IH [of "(s\<lparr>au_authorized := True\<rparr>, ed)"] Cons.prems(2) show ?case
    by (cases a) (auto simp: sites_of_def)
qed simp

lemma getDynamicFilter_writes: "writes_sites n \<Longrightarrow> \<exists>f. getDynamicFilter n = Some (False, f) \<and> filter_of_text n = Some f"
  by (auto simp: writes_sites_def)

lemma single_site_filter:
  assumes "foldE (apply_filter S u xf) ((s0, ed0), False) [n] = Inr ((s, ed), True)" "\<not> au_authorized s0"
    "as_organizationActive S" "writes_sites n"
  shows "restricted (filter_sites S u n) (s, ed)"
proof -
  from getDynamicFilter_writes [OF assms(4)] obtain f where n: "getDynamicFilter n = Some (False, f)"
    and f: "filter_of_text n = Some f" by blast
  from assms(1) n have r: "processFilter S u xf f (s0, ed0) = Inr (s, ed)" and "au_authorized s"
    by (auto simp: apply_filter_def Let_def bindE_Inr_iff)
  with site_filters_restrict [OF r assms(3) _ _ f assms(4)] assms(2) show ?thesis by simp
qed

lemma groups_restrict:
  assumes "processDynamicFilters S u xf gs p = Inr q" "au_authorized (fst q)" "one_site_writer gs" "[n] \<in> set gs"
    "writes_sites n" "as_organizationActive S"
  shows "restricted (filter_sites S u n) q"
  using assms(1-4)
proof (induction gs arbitrary: p)
  case (Cons g gs)
  from Cons.prems(1) obtain s ed a where
    g: "foldE (apply_filter S u xf) (((fst p)\<lparr>au_authorized := False\<rparr>, snd p), False) g = Inr ((s, ed), a)"
    and r: "(if a then processDynamicFilters S u xf gs (s\<lparr>au_authorized := True\<rparr>, ed)
       else Inr (s\<lparr>au_authorized := False\<rparr>, ed)) = Inr q"
    by (auto simp: bindE_Inr_iff)
  from r Cons.prems(2) have a: a and r: "processDynamicFilters S u xf gs (s\<lparr>au_authorized := True\<rparr>, ed) = Inr q"
    by (auto split: if_splits)
  have plain: "plain_name n = n" using assms(5) by (auto simp: writes_sites_def plain_name_def)
  show ?case
  proof (cases "g = [n]")
    case True
    with Cons.prems(3) plain assms(5) have rest: "list_all (list_all (\<lambda>n. \<not> writes_sites (plain_name n))) gs" by simp
    from g True a have "restricted (filter_sites S u n) (s, ed)"
      by (intro single_site_filter [OF _ _ assms(6,5)]) auto
    with groups_keep_sites [OF r rest] show ?thesis by (simp add: restricted_def sites_of_def)
  next
    case False
    with Cons.prems(4) have n: "[n] \<in> set gs" by simp
    with plain assms(5) have "\<not> list_all (list_all (\<lambda>n. \<not> writes_sites (plain_name n))) gs" by (force simp: list_all_iff)
    with Cons.prems(3) have "one_site_writer gs" by (auto split: if_splits)
    from Cons.IH [OF r Cons.prems(2) this n] show ?thesis .
  qed
qed simp

end
