(* ===== verification/Grants.thy ===== *)
theory Grants
  imports AdminGrants UserGrants QrCodeGrants GrantRules
begin

text \<open>
  The authorization definition as a whole (\<open>authorization/AuthorizationsDefinition.ts\<close>), what holds of its
  grants, and what follows for the checks of the authorization service.
\<close>

section \<open>The definition\<close>

definition AUTHORIZATION_DEFINITION :: "(string \<times> role_definition) list" where
  "AUTHORIZATION_DEFINITION =
     [(''superAdmin'', superAdmin_role), (''admin'', admin_role), (''basic'', basic_role), (''demo'', demo_role),
      (''siteAdmin'', siteAdmin_role), (''siteOwner'', siteOwner_role), (''qrcode'', qrcode_role)]"

text \<open>The grants a role holds: its own, and those of the roles it extends.\<close>

definition own_grants :: "string \<Rightarrow> grant list" where
  "own_grants r = (case map_of AUTHORIZATION_DEFINITION r of None \<Rightarrow> [] | Some d \<Rightarrow> rd_grants d)"

definition role_grants :: "string \<Rightarrow> grant list" where
  "role_grants r = own_grants r @
     (case map_of AUTHORIZATION_DEFINITION r of None \<Rightarrow> [] | Some d \<Rightarrow> concat (map own_grants (rd_extend d)))"

definition grants_action :: "entity \<Rightarrow> action \<Rightarrow> grant \<Rightarrow> bool" where
  "grants_action e a g \<longleftrightarrow> g_resource g = e \<and> a \<in> set (g_action g)"

definition granted_attributes :: "grant \<Rightarrow> string list" where
  "granted_attributes g = (case g_attributes g of None \<Rightarrow> [''*''] | Some fs \<Rightarrow> fs)"

text \<open>
  What the access control library is documented to do with the definition: the grants it finds are those of the
  roles for the entity and the action, and the attributes it computes come from them.
\<close>

definition honours_definition :: "access_control \<Rightarrow> bool" where
  "honours_definition M \<longleftrightarrow>
     (\<forall>roles e a. set (ac_matching M roles e a) = {g. grants_action e a g \<and> (\<exists>r \<in> set roles. g \<in> set (role_grants r))})
     \<and> (\<forall>gs. set (ac_attributes M gs) = (\<Union>g \<in> set gs. set (granted_attributes g)))"

definition table_control :: access_control where
  "table_control =
     \<lparr>ac_matching = (\<lambda>roles e a. List.filter (grants_action e a) (concat (map role_grants roles))),
      ac_attributes = (\<lambda>gs. concat (map granted_attributes gs))\<rparr>"

lemma table_honours: "honours_definition table_control"
  by (auto simp: honours_definition_def table_control_def)

section \<open>Every grant is well-formed\<close>

lemma superAdmin_wf: "list_all wf_grant superAdmin_grants_1"
  "list_all wf_grant superAdmin_grants_2"
  by (simp_all add: superAdmin_grants_1_def superAdmin_grants_2_def grant_code)

lemma admin_wf: "list_all wf_grant admin_grants_1"
  "list_all wf_grant admin_grants_2"
  "list_all wf_grant admin_grants_3"
  "list_all wf_grant admin_grants_4"
  "list_all wf_grant admin_grants_5"
  "list_all wf_grant admin_grants_6"
  "list_all wf_grant admin_grants_7"
  "list_all wf_grant admin_grants_8"
  by (simp_all add: admin_grants_1_def admin_grants_2_def admin_grants_3_def admin_grants_4_def admin_grants_5_def admin_grants_6_def admin_grants_7_def admin_grants_8_def grant_code)

lemma admin_tenant: "list_all tenant_grant admin_grants_1"
  "list_all tenant_grant admin_grants_2"
  "list_all tenant_grant admin_grants_3"
  "list_all tenant_grant admin_grants_4"
  "list_all tenant_grant admin_grants_5"
  "list_all tenant_grant admin_grants_6"
  "list_all tenant_grant admin_grants_7"
  "list_all tenant_grant admin_grants_8"
  by (simp_all add: admin_grants_1_def admin_grants_2_def admin_grants_3_def admin_grants_4_def admin_grants_5_def admin_grants_6_def admin_grants_7_def admin_grants_8_def grant_code)

lemma basic_wf: "list_all wf_grant basic_grants_1"
  "list_all wf_grant basic_grants_2"
  "list_all wf_grant basic_grants_3"
  "list_all wf_grant basic_grants_4"
  "list_all wf_grant basic_grants_5"
  "list_all wf_grant basic_grants_6"
  by (simp_all add: basic_grants_1_def basic_grants_2_def basic_grants_3_def basic_grants_4_def basic_grants_5_def basic_grants_6_def grant_code)

lemma basic_tenant: "list_all tenant_grant basic_grants_1"
  "list_all tenant_grant basic_grants_2"
  "list_all tenant_grant basic_grants_3"
  "list_all tenant_grant basic_grants_4"
  "list_all tenant_grant basic_grants_5"
  "list_all tenant_grant basic_grants_6"
  by (simp_all add: basic_grants_1_def basic_grants_2_def basic_grants_3_def basic_grants_4_def basic_grants_5_def basic_grants_6_def grant_code)

lemma demo_wf: "list_all wf_grant demo_grants_1"
  "list_all wf_grant demo_grants_2"
  "list_all wf_grant demo_grants_3"
  by (simp_all add: demo_grants_1_def demo_grants_2_def demo_grants_3_def grant_code)

lemma demo_tenant: "list_all tenant_grant demo_grants_1"
  "list_all tenant_grant demo_grants_2"
  "list_all tenant_grant demo_grants_3"
  by (simp_all add: demo_grants_1_def demo_grants_2_def demo_grants_3_def grant_code)

lemma siteAdmin_wf: "list_all wf_grant siteAdmin_grants_1"
  "list_all wf_grant siteAdmin_grants_2"
  "list_all wf_grant siteAdmin_grants_3"
  "list_all wf_grant siteAdmin_grants_4"
  "list_all wf_grant siteAdmin_grants_5"
  "list_all wf_grant siteAdmin_grants_6"
  "list_all wf_grant siteAdmin_grants_7"
  "list_all wf_grant siteAdmin_grants_8"
  by (simp_all add: siteAdmin_grants_1_def siteAdmin_grants_2_def siteAdmin_grants_3_def siteAdmin_grants_4_def siteAdmin_grants_5_def siteAdmin_grants_6_def siteAdmin_grants_7_def siteAdmin_grants_8_def grant_code)

lemma siteAdmin_tenant: "list_all tenant_grant siteAdmin_grants_1"
  "list_all tenant_grant siteAdmin_grants_2"
  "list_all tenant_grant siteAdmin_grants_3"
  "list_all tenant_grant siteAdmin_grants_4"
  "list_all tenant_grant siteAdmin_grants_5"
  "list_all tenant_grant siteAdmin_grants_6"
  "list_all tenant_grant siteAdmin_grants_7"
  "list_all tenant_grant siteAdmin_grants_8"
  by (simp_all add: siteAdmin_grants_1_def siteAdmin_grants_2_def siteAdmin_grants_3_def siteAdmin_grants_4_def siteAdmin_grants_5_def siteAdmin_grants_6_def siteAdmin_grants_7_def siteAdmin_grants_8_def grant_code)

lemma siteOwner_wf: "list_all wf_grant siteOwner_grants_1"
  "list_all wf_grant siteOwner_grants_2"
  "list_all wf_grant siteOwner_grants_3"
  by (simp_all add: siteOwner_grants_1_def siteOwner_grants_2_def siteOwner_grants_3_def grant_code)

lemma siteOwner_tenant: "list_all tenant_grant siteOwner_grants_1"
  "list_all tenant_grant siteOwner_grants_2"
  "list_all tenant_grant siteOwner_grants_3"
  by (simp_all add: siteOwner_grants_1_def siteOwner_grants_2_def siteOwner_grants_3_def grant_code)

lemma qrcode_wf: "list_all wf_grant qrcode_grants_1"
  "list_all wf_grant qrcode_grants_2"
  "list_all wf_grant qrcode_grants_3"
  "list_all wf_grant qrcode_grants_4"
  "list_all wf_grant qrcode_grants_5"
  "list_all wf_grant qrcode_grants_6"
  by (simp_all add: qrcode_grants_1_def qrcode_grants_2_def qrcode_grants_3_def qrcode_grants_4_def qrcode_grants_5_def qrcode_grants_6_def grant_code)

lemma qrcode_tenant: "list_all tenant_grant qrcode_grants_1"
  "list_all tenant_grant qrcode_grants_2"
  "list_all tenant_grant qrcode_grants_3"
  "list_all tenant_grant qrcode_grants_4"
  "list_all tenant_grant qrcode_grants_5"
  "list_all tenant_grant qrcode_grants_6"
  by (simp_all add: qrcode_grants_1_def qrcode_grants_2_def qrcode_grants_3_def qrcode_grants_4_def qrcode_grants_5_def qrcode_grants_6_def grant_code)

lemmas role_defs = superAdmin_role_def admin_role_def basic_role_def demo_role_def siteAdmin_role_def siteOwner_role_def qrcode_role_def

lemmas wf_facts = superAdmin_wf admin_wf basic_wf demo_wf siteAdmin_wf siteOwner_wf qrcode_wf

lemmas tenant_facts = admin_tenant basic_tenant demo_tenant siteAdmin_tenant siteOwner_tenant qrcode_tenant

lemma own_grants_cases:
  "own_grants r = (if r = ''superAdmin'' then rd_grants superAdmin_role else if r = ''admin'' then rd_grants admin_role
     else if r = ''basic'' then rd_grants basic_role else if r = ''demo'' then rd_grants demo_role
     else if r = ''siteAdmin'' then rd_grants siteAdmin_role else if r = ''siteOwner'' then rd_grants siteOwner_role
     else if r = ''qrcode'' then rd_grants qrcode_role else [])"
  by (simp add: own_grants_def AUTHORIZATION_DEFINITION_def)

lemma role_grants_cases:
  "role_grants r = own_grants r @ (if r = ''siteAdmin'' \<or> r = ''siteOwner'' then own_grants ''basic'' else [])"
  by (simp add: role_grants_def AUTHORIZATION_DEFINITION_def role_defs)

lemma own_grants_wf: "list_all wf_grant (own_grants r)"
  by (simp add: own_grants_cases role_defs wf_facts)

lemma role_grants_wf: "g \<in> set (role_grants r) \<Longrightarrow> wf_grant g"
  using own_grants_wf by (auto simp: role_grants_cases list_all_iff split: if_splits)

lemma own_grants_tenant: "r \<noteq> ''superAdmin'' \<Longrightarrow> list_all tenant_grant (own_grants r)"
  by (simp add: own_grants_cases role_defs tenant_facts)

lemma role_grants_tenant: "g \<in> set (role_grants r) \<Longrightarrow> r \<noteq> ''superAdmin'' \<Longrightarrow> tenant_grant g"
  using own_grants_tenant [of r] own_grants_tenant [of "''basic''"]
  by (auto simp: role_grants_cases list_all_iff split: if_splits)

lemma matching_wf: "honours_definition M \<Longrightarrow> list_all wf_grant (ac_matching M roles e a)"
  using role_grants_wf by (auto simp: honours_definition_def list_all_iff)

lemma granted_wf:
  assumes "list_all wf_grant gs"
  shows "list_all (list_all known_filter) (granted_filters gs)" "list_all (list_all known_assert) (granted_asserts gs)"
    "one_site_writer (granted_filters gs)"
proof -
  have "list_all (list_all known_filter) (granted_filters gs) \<and> list_all (list_all known_assert) (granted_asserts gs)
    \<and> one_site_writer (granted_filters gs)"
    using assms
  proof (induction gs)
    case (Cons g gs)
    then show ?case
      by (cases "g_condition g")
        (auto simp: granted_filters_def granted_asserts_def wf_grant_def condition_filters_def condition_asserts_def
          list_all_iff)
  qed (simp add: granted_filters_def granted_asserts_def)
  then show "list_all (list_all known_filter) (granted_filters gs)"
    "list_all (list_all known_assert) (granted_asserts gs)" "one_site_writer (granted_filters gs)" by blast+
qed

section \<open>A sample check\<close>

text \<open>A user who administers one site reads another user, and asks for more sites and fields than granted.\<close>

definition read_other_user :: fields where
  "read_other_user = [''UserID'' \<mapsto> JStr ''u2'', ''SiteID'' \<mapsto> JStr ''s1|s9'', ''ProjectFields'' \<mapsto> JStr ''id|email|password'']"

lemma grants_action_code:
  "grants_action e a \<lparr>g_resource = e', g_action = as, g_attributes = ats, g_condition = c\<rparr> \<longleftrightarrow> e' = e \<and> a \<in> set as"
  by (auto simp: grants_action_def)

lemma user_read_in_site_admin:
  "List.filter (grants_action E_USER A_READ) siteAdmin_grants_1 = [siteAdmin_grants_1 ! 3]"
  "List.filter (grants_action E_USER A_READ) siteAdmin_grants_2 = []"
  "List.filter (grants_action E_USER A_READ) siteAdmin_grants_3 = []"
  "List.filter (grants_action E_USER A_READ) siteAdmin_grants_4 = []"
  "List.filter (grants_action E_USER A_READ) siteAdmin_grants_5 = []"
  "List.filter (grants_action E_USER A_READ) siteAdmin_grants_6 = []"
  "List.filter (grants_action E_USER A_READ) siteAdmin_grants_7 = []"
  "List.filter (grants_action E_USER A_READ) siteAdmin_grants_8 = []"
  by (simp_all add: siteAdmin_grants_1_def siteAdmin_grants_2_def siteAdmin_grants_3_def siteAdmin_grants_4_def
      siteAdmin_grants_5_def siteAdmin_grants_6_def siteAdmin_grants_7_def siteAdmin_grants_8_def grants_action_code)

lemma user_read_in_basic:
  "List.filter (grants_action E_USER A_READ) basic_grants_1 = [hd basic_grants_1]"
  "List.filter (grants_action E_USER A_READ) basic_grants_2 = []"
  "List.filter (grants_action E_USER A_READ) basic_grants_3 = []"
  "List.filter (grants_action E_USER A_READ) basic_grants_4 = []"
  "List.filter (grants_action E_USER A_READ) basic_grants_5 = []"
  "List.filter (grants_action E_USER A_READ) basic_grants_6 = []"
  by (simp_all add: basic_grants_1_def basic_grants_2_def basic_grants_3_def basic_grants_4_def
      basic_grants_5_def basic_grants_6_def grants_action_code)

lemma user_read_grants:
  "ac_matching table_control [''siteAdmin''] E_USER A_READ = [siteAdmin_grants_1 ! 3, hd basic_grants_1]"
  by (simp add: table_control_def role_grants_cases own_grants_cases role_defs user_read_in_site_admin user_read_in_basic)

lemma user_read_checks:
  "granted_filters [siteAdmin_grants_1 ! 3, hd basic_grants_1] = [[''SitesAdmin''], [''LocalIssuer'']]"
  "granted_asserts [siteAdmin_grants_1 ! 3, hd basic_grants_1] = []"
  by (simp_all add: granted_filters_def granted_asserts_def siteAdmin_grants_1_def)

lemma user_read_fields: "''email'' \<in> set (granted_attributes (siteAdmin_grants_1 ! 3))"
  by (simp add: granted_attributes_def siteAdmin_grants_1_def)

lemma user_read_run:
  "map_sum id (\<lambda>q. au_authorized (fst q))
     (processDynamicFilters site_admin_storage ''u1'' read_other_user [[''SitesAdmin''], [''LocalIssuer'']]
       ((af_state no_authorization)\<lparr>au_authorized := True\<rparr>, None)) = Inr True"
  by code_simp

lemma user_read_textual: "textual read_other_user"
  by (simp add: textual_def read_other_user_def)

lemma user_read_authorized:
  "\<exists>af' ed'. canPerformAuthorizationAction table_control site_admin_storage ''u1'' [''siteAdmin''] E_USER A_READ
     read_other_user True (no_authorization, None) = Inr (True, af', ed')"
proof -
  from user_read_run obtain s ed1 where
    s: "processDynamicFilters site_admin_storage ''u1'' read_other_user [[''SitesAdmin''], [''LocalIssuer'']]
       ((af_state no_authorization)\<lparr>au_authorized := True\<rparr>, None) = Inr (s, ed1)" and au: "au_authorized s"
    by (auto simp: map_sum_Inr_iff)
  from au have "\<exists>s'. processDynamicAsserts ''u1'' [] (s, ed1) = Inr (s', ed1) \<and> au_authorized s'"
    by (cases ed1) (simp_all add: processDynamicAsserts_def)
  with s au show ?thesis
    by (auto simp: canPerformAuthorizationAction_def user_read_grants user_read_checks Let_def cong: if_cong)
qed

section \<open>What the checks guarantee\<close>

text \<open>
  With the definition as it is, a check only fails to answer by refusing: every name of the grants is known
  to the factories and no group is empty, so that a request whose filters are texts gets a verdict, or the
  authorization error where the roles have no grant and the caller asked for it.
\<close>

lemma configured_checks_always_decide:
  assumes "honours_definition M" "textual xf"
  shows "canPerformAuthorizationAction M S u roles e a xf fails p =
      (if ac_matching M roles e a = [] \<and> fails then Inl AppAuthError
       else Inr (projr (canPerformAuthorizationAction M S u roles e a xf fails p)))"
proof (cases "ac_matching M roles e a = []")
  case True
  then show ?thesis by (simp add: canPerformAuthorizationAction_def split: prod.splits)
next
  case False
  note wf = granted_wf [OF matching_wf [OF assms(1), of roles e a]]
  from groups_total [OF assms(2) wf(1), of S u "((af_state (fst p))\<lparr>au_authorized := True\<rparr>, snd p)"]
  obtain q where q: "processDynamicFilters S u xf (granted_filters (ac_matching M roles e a))
    ((af_state (fst p))\<lparr>au_authorized := True\<rparr>, snd p) = Inr q" by blast
  from processDynamicAsserts_total [OF wf(2), of u q]
  obtain q' where "processDynamicAsserts u (granted_asserts (ac_matching M roles e a)) q = Inr q'" by blast
  with q False show ?thesis
    by (cases p; cases q; cases q'; cases "au_authorized (fst q)")
      (simp_all add: canPerformAuthorizationAction_def Let_def cong: if_cong)
qed



text \<open>
  Whatever the sites a user administers or owns, only a super administrator passes the check that guards
  creating, deleting or listing tenants, the charging station templates and the synchronization of the car
  catalogs; everybody else gets the authorization error.
\<close>

lemma tenants_belong_to_the_super_administrators:
  assumes "honours_definition M" "role \<noteq> SUPER_ADMIN" "super_admin_only e a"
  shows "checkAndGetEntityAuthorizations M S u (getAuthGroupsFromUser role admins owners) e a request xf ed =
     Inl AppAuthError"
proof -
  have groups: "''superAdmin'' \<notin> set (getAuthGroupsFromUser role admins owners)"
    using assms(2) by (cases role) (auto simp: getAuthGroupsFromUser_def Let_def)
  have "ac_matching M (getAuthGroupsFromUser role admins owners) e a = []"
  proof (rule ccontr)
    assume "\<not> ?thesis"
    then obtain g where "g \<in> set (ac_matching M (getAuthGroupsFromUser role admins owners) e a)"
      by (cases "ac_matching M (getAuthGroupsFromUser role admins owners) e a") auto
    with assms(1) obtain r where "grants_action e a g" and r: "r \<in> set (getAuthGroupsFromUser role admins owners)"
      and g: "g \<in> set (role_grants r)" by (auto simp: honours_definition_def)
    with role_grants_tenant [OF g] groups assms(3) show False
      by (auto simp: tenant_grant_def grants_action_def list_all_iff)
  qed
  then show ?thesis by (simp add: checkAndGetEntityAuthorizations_def)
qed

text \<open>
  An authorized request only reads fields that the definition grants: when the grants of the roles list
  fields, the projection is a non-empty list of them, and stays within the requested ones as soon as one of
  those is granted.
\<close>

lemma projected_fields_are_granted:
  assumes "honours_definition M"
    "canPerformAuthorizationAction M S u roles e a xf fails p = Inr (True, af', ed')"
    "g0 \<in> set (ac_matching M roles e a)" "f0 \<in> set (granted_attributes g0)" "f0 \<noteq> ''*''"
  shows "af_projectFields af' \<noteq> []
    \<and> (\<forall>f \<in> set (af_projectFields af'). \<exists>r \<in> set roles. \<exists>g \<in> set (role_grants r). grants_action e a g \<and> f \<in> set (granted_attributes g))
    \<and> (f0 \<in> set (requested_fields xf) \<longrightarrow> set (af_projectFields af') \<subseteq> set (requested_fields xf))"
proof -
  let ?fields = "ac_attributes M (ac_matching M roles e a)"
  have fields: "set ?fields = (\<Union>g \<in> set (ac_matching M roles e a). set (granted_attributes g))"
    using assms(1) by (simp add: honours_definition_def)
  with assms(3-5) have f0: "f0 \<in> set ?fields - {''*''}" by auto
  then have "List.filter (\<lambda>f. f \<noteq> ''*'') ?fields \<noteq> []" by (auto simp: filter_empty_conv)
  note spec = filterProjectFields_spec [OF this]
  have "\<exists>r \<in> set roles. \<exists>g \<in> set (role_grants r). grants_action e a g \<and> f \<in> set (granted_attributes g)"
    if "f \<in> set ?fields" for f
    using that fields assms(1) by (auto simp: honours_definition_def)
  moreover have "set (af_projectFields af') \<subseteq> set ?fields"
    unfolding authorized_projection [OF assms(2)] using spec(2) by blast
  moreover have "f0 \<in> set (requested_fields xf) \<longrightarrow> set (af_projectFields af') \<subseteq> set (requested_fields xf)"
    unfolding authorized_projection [OF assms(2)] using spec(3) f0 by blast
  moreover have "af_projectFields af' \<noteq> []" unfolding authorized_projection [OF assms(2)] by (rule spec(1))
  ultimately show ?thesis by blast
qed

end
