(* ===== verification/AuthorizationCache.thy ===== *)
theory AuthorizationCache
  imports AuthorizationService
begin

text \<open>
  The cache of the authorization manager (\<open>authorization/AuthorizationsManager.ts\<close>, \<open>canPerformAction\<close>): its keys
  are texts, and a cached result is copied into the caller's context.  The cache is refined away: a sequence of
  checks through it answers as the access control library does.
\<close>

section \<open>Keys\<close>

primrec resource_text :: "entity \<Rightarrow> string" where
  "resource_text E_SITE = ''Site''"
| "resource_text E_SITE_AREA = ''SiteArea''"
| "resource_text E_COMPANY = ''Company''"
| "resource_text E_CHARGING_STATION = ''ChargingStation''"
| "resource_text E_CHARGING_STATION_TEMPLATE = ''ChargingStationTemplate''"
| "resource_text E_CONNECTOR = ''Connector''"
| "resource_text E_TENANT = ''Tenant''"
| "resource_text E_TRANSACTION = ''Transaction''"
| "resource_text E_REPORT = ''Report''"
| "resource_text E_USER = ''User''"
| "resource_text E_USER_SITE = ''UserSite''"
| "resource_text E_SITE_USER = ''SiteUser''"
| "resource_text E_USERS_SITES = ''UsersSites''"
| "resource_text E_LOGGING = ''Logging''"
| "resource_text E_PRICING = ''Pricing''"
| "resource_text E_PRICING_DEFINITION = ''PricingDefinition''"
| "resource_text E_BILLING = ''Billing''"
| "resource_text E_BILLING_PLATFORM = ''BillingPlatform''"
| "resource_text E_BILLING_ACCOUNT = ''BillingAccount''"
| "resource_text E_BILLING_TRANSFER = ''BillingTransfer''"
| "resource_text E_SETTING = ''Setting''"
| "resource_text E_ASYNC_TASK = ''AsyncTask''"
| "resource_text E_OCPI_ENDPOINT = ''OcpiEndpoint''"
| "resource_text E_OICP_ENDPOINT = ''OicpEndpoint''"
| "resource_text E_CONNECTION = ''Connection''"
| "resource_text E_ASSET = ''Asset''"
| "resource_text E_CAR_CATALOG = ''CarCatalog''"
| "resource_text E_CAR = ''Car''"
| "resource_text E_INVOICE = ''Invoice''"
| "resource_text E_TAX = ''Tax''"
| "resource_text E_REGISTRATION_TOKEN = ''RegistrationToken''"
| "resource_text E_CHARGING_PROFILE = ''ChargingProfile''"
| "resource_text E_NOTIFICATION = ''Notification''"
| "resource_text E_TAG = ''Tag''"
| "resource_text E_EMAID = ''Emaid''"
| "resource_text E_PAYMENT_METHOD = ''PaymentMethod''"
| "resource_text E_SOURCE = ''Source''"
| "resource_text E_CONSUMPTION = ''Consumption''"
| "resource_text E_SMART_CHARGING = ''SmartCharging''"
| "resource_text E_STATISTIC = ''Statistic''"
| "resource_text E_CERTIFICATE = ''Certificate''"

primrec action_text :: "action \<Rightarrow> string" where
  "action_text A_READ = ''Read''"
| "action_text A_CREATE = ''Create''"
| "action_text A_UPDATE = ''Update''"
| "action_text A_UPDATE_BY_VISUAL_ID = ''UpdateByVisualID''"
| "action_text A_REPLACE = ''Replace''"
| "action_text A_REVOKE = ''Revoke''"
| "action_text A_DELETE = ''Delete''"
| "action_text A_LOGOUT = ''Logout''"
| "action_text A_LOGIN = ''Login''"
| "action_text A_LIST = ''List''"
| "action_text A_IN_ERROR = ''InError''"
| "action_text A_RESET = ''Reset''"
| "action_text A_ASSIGN = ''Assign''"
| "action_text A_UNASSIGN = ''Unassign''"
| "action_text A_CLEAR_CACHE = ''ClearCache''"
| "action_text A_TRIGGER_DATA_TRANSFER = ''DataTransfer''"
| "action_text A_SYNCHRONIZE = ''Synchronize''"
| "action_text A_GET_CONFIGURATION = ''GetConfiguration''"
| "action_text A_CHANGE_CONFIGURATION = ''ChangeConfiguration''"
| "action_text A_SYNCHRONIZE_CAR_CATALOGS = ''SynchronizeCarCatalogs''"
| "action_text A_REMOTE_START_TRANSACTION = ''RemoteStartTransaction''"
| "action_text A_REMOTE_STOP_TRANSACTION = ''RemoteStopTransaction''"
| "action_text A_START_TRANSACTION = ''StartTransaction''"
| "action_text A_STOP_TRANSACTION = ''StopTransaction''"
| "action_text A_UNLOCK_CONNECTOR = ''UnlockConnector''"
| "action_text A_AUTHORIZE = ''Authorize''"
| "action_text A_SET_CHARGING_PROFILE = ''SetChargingProfile''"
| "action_text A_GET_COMPOSITE_SCHEDULE = ''GetCompositeSchedule''"
| "action_text A_CLEAR_CHARGING_PROFILE = ''ClearChargingProfile''"
| "action_text A_GET_DIAGNOSTICS = ''GetDiagnostics''"
| "action_text A_UPDATE_FIRMWARE = ''UpdateFirmware''"
| "action_text A_EXPORT = ''Export''"
| "action_text A_CHANGE_AVAILABILITY = ''ChangeAvailability''"
| "action_text A_REFUND_TRANSACTION = ''RefundTransaction''"
| "action_text A_LIST_BAGDES_EMSPS = ''TagsGetEmsp''"
| "action_text A_SYNCHRONIZE_BILLING_USER = ''SynchronizeBillingUser''"
| "action_text A_BILLING_SETUP_PAYMENT_METHOD = ''BillingSetupPaymentMethod''"
| "action_text A_BILLING_PAYMENT_METHODS = ''BillingPaymentMethods''"
| "action_text A_BILLING_DELETE_PAYMENT_METHOD = ''BillingDeletePaymentMethod''"
| "action_text A_BILLING_CHARGE_INVOICE = ''BillingChargeInvoice''"
| "action_text A_BILLING_ACTIVATE_ACCOUNT = ''BillingAccountActivate''"
| "action_text A_BILLING_ONBOARD_ACCOUNT = ''BillingAccountOnboard''"
| "action_text A_BILLING_FINALIZE_TRANSFER = ''BillingFinalizeTransfer''"
| "action_text A_BILLING_SEND_TRANSFER = ''BillingSendTransfer''"
| "action_text A_CHECK_CONNECTION = ''CheckConnection''"
| "action_text A_CLEAR_BILLING_TEST_DATA = ''ClearBillingTestData''"
| "action_text A_RETRIEVE_CONSUMPTION = ''RetrieveConsumption''"
| "action_text A_READ_CONSUMPTION = ''ReadConsumption''"
| "action_text A_CREATE_CONSUMPTION = ''CreateConsumption''"
| "action_text A_PING = ''Ping''"
| "action_text A_GENERATE_LOCAL_TOKEN = ''GenerateLocalToken''"
| "action_text A_REGISTER = ''Register''"
| "action_text A_TRIGGER_JOB = ''TriggerJob''"
| "action_text A_DOWNLOAD = ''Download''"
| "action_text A_IMPORT = ''Import''"
| "action_text A_ASSIGN_USERS_TO_SITE = ''AssignUsersToSite''"
| "action_text A_UNASSIGN_USERS_FROM_SITE = ''UnassignUsersFromSite''"
| "action_text A_ASSIGN_SITES_TO_USER = ''AssignSitesToUser''"
| "action_text A_UNASSIGN_SITES_FROM_USER = ''UnassignSitesFromUser''"
| "action_text A_ASSIGN_UNASSIGN_USERS = ''AssignUnassignUsers''"
| "action_text A_ASSIGN_UNASSIGN_USERS_TO_CONNECTOR = ''AssignUnassignUsersToConnector''"
| "action_text A_ASSIGN_UNASSIGN_SITES = ''AssignUnassignSites''"
| "action_text A_ASSIGN_ASSETS_TO_SITE_AREA = ''AssignAssets''"
| "action_text A_UNASSIGN_ASSETS_FROM_SITE_AREA = ''UnassignAssets''"
| "action_text A_READ_ASSETS_FROM_SITE_AREA = ''ReadAssets''"
| "action_text A_ASSIGN_CHARGING_STATIONS_TO_SITE_AREA = ''AssignChargingStations''"
| "action_text A_UNASSIGN_CHARGING_STATIONS_FROM_SITE_AREA = ''UnassignChargingStations''"
| "action_text A_READ_CHARGING_STATIONS_FROM_SITE_AREA = ''ReadChargingStationsFromSiteArea''"
| "action_text A_EXPORT_OCPP_PARAMS = ''ExportOCPPParams''"
| "action_text A_GENERATE_QR = ''GenerateQrCode''"
| "action_text A_MAINTAIN_PRICING_DEFINITIONS = ''MaintainPricingDefinitions''"
| "action_text A_RESOLVE = ''Resolve''"
| "action_text A_GET_STATUS_NOTIFICATION = ''GetStatusNotification''"
| "action_text A_GET_BOOT_NOTIFICATION = ''GetBootNotification''"
| "action_text A_RESERVE_NOW = ''ReserveNow''"
| "action_text A_UPDATE_OCPP_PARAMS = ''UpdateOCPPParams''"
| "action_text A_LIMIT_POWER = ''LimitPower''"
| "action_text A_DELETE_CHARGING_PROFILE = ''DeleteChargingProfile''"
| "action_text A_GET_OCPP_PARAMS = ''GetOCPPParams''"
| "action_text A_UPDATE_CHARGING_PROFILE = ''UpdateChargingProfile''"
| "action_text A_GET_CONNECTOR_QR_CODE = ''GetConnectorQRCode''"
| "action_text A_VIEW_USER_DATA = ''ViewUserData''"
| "action_text A_SYNCHRONIZE_REFUNDED_TRANSACTION = ''SynchronizeRefundedTransaction''"
| "action_text A_PUSH_TRANSACTION_CDR = ''PushTransactionCDR''"
| "action_text A_GET_ADVENIR_CONSUMPTION = ''GetAdvenirConsumption''"
| "action_text A_GET_CHARGING_STATION_TRANSACTIONS = ''GetChargingStationTransactions''"
| "action_text A_GET_ACTIVE_TRANSACTION = ''GetActiveTransaction''"
| "action_text A_GET_COMPLETED_TRANSACTION = ''GetCompletedTransaction''"
| "action_text A_GET_REFUNDABLE_TRANSACTION = ''GetRefundableTransaction''"
| "action_text A_GET_REFUND_REPORT = ''GetRefundReport''"
| "action_text A_EXPORT_COMPLETED_TRANSACTION = ''ExportCompletedTransaction''"
| "action_text A_EXPORT_OCPI_CDR = ''ExportOcpiCdr''"
| "action_text A_ASSIGN_UNASSIGN_USER_TO_CHARGING_STATION_CONNECTOR = ''AssignUnassignUserToChargingStationConnector''"

fun comma_join :: "string list \<Rightarrow> string" where
  "comma_join [] = []"
| "comma_join [r] = r"
| "comma_join (r # rs) = r @ CHR '','' # comma_join rs"

text \<open>The text of a context is what \<open>JSON.stringify\<close> makes of it; the extra brace is the source's.\<close>

definition auth_key :: "(auth_context \<Rightarrow> string) \<Rightarrow> string list \<Rightarrow> entity \<Rightarrow> action \<Rightarrow> auth_context \<Rightarrow> string" where
  "auth_key text_of roles e a cx =
     comma_join roles @ CHR ''~'' # resource_text e @ CHR ''~'' # action_text a @ CHR ''~'' # text_of cx @ ''}''"

section \<open>The cached check\<close>

text \<open>The answer is the new cache, the result and the caller's context.\<close>

type_synonym auth_cache = "string \<rightharpoonup> auth_result"

definition enrich :: "auth_context \<Rightarrow> auth_context \<Rightarrow> auth_context" where
  "enrich cx stored =
     \<lparr>cx_filters = (case cx_filters stored of None \<Rightarrow> cx_filters cx | Some f \<Rightarrow> Some f),
      cx_filtersSet = (cx_filtersSet cx \<or> cx_filtersSet stored),
      cx_asserts = (case cx_asserts stored of None \<Rightarrow> cx_asserts cx | Some f \<Rightarrow> Some f),
      cx_assertsSet = (cx_assertsSet cx \<or> cx_assertsSet stored),
      cx_metadata = (case cx_metadata stored of None \<Rightarrow> cx_metadata cx | Some f \<Rightarrow> Some f),
      cx_metadataSet = (cx_metadataSet cx \<or> cx_metadataSet stored)\<rparr>"

definition canPerformAction ::
    "(auth_context \<Rightarrow> string) \<Rightarrow> access_control \<Rightarrow> auth_cache \<Rightarrow> string list \<Rightarrow> entity \<Rightarrow> action \<Rightarrow> auth_context \<Rightarrow>
     auth_cache \<times> auth_result \<times> auth_context" where
  "canPerformAction text_of M cache roles e a cx =
     (let key = auth_key text_of roles e a cx
      in case cache key of
           None \<Rightarrow> (let r = permission M roles e a cx in (cache(key \<mapsto> r), r, ar_context r))
         | Some r \<Rightarrow> (cache, r, enrich cx (ar_context r)))"

section \<open>Keys are unique\<close>

definition all_entities :: "entity list" where
  "all_entities = [
    E_SITE, E_SITE_AREA, E_COMPANY, E_CHARGING_STATION, E_CHARGING_STATION_TEMPLATE, E_CONNECTOR,
    E_TENANT, E_TRANSACTION, E_REPORT, E_USER, E_USER_SITE, E_SITE_USER, E_USERS_SITES, E_LOGGING,
    E_PRICING, E_PRICING_DEFINITION, E_BILLING, E_BILLING_PLATFORM, E_BILLING_ACCOUNT,
    E_BILLING_TRANSFER, E_SETTING, E_ASYNC_TASK, E_OCPI_ENDPOINT, E_OICP_ENDPOINT, E_CONNECTION,
    E_ASSET, E_CAR_CATALOG, E_CAR, E_INVOICE, E_TAX, E_REGISTRATION_TOKEN, E_CHARGING_PROFILE,
    E_NOTIFICATION, E_TAG, E_EMAID, E_PAYMENT_METHOD, E_SOURCE, E_CONSUMPTION, E_SMART_CHARGING,
    E_STATISTIC, E_CERTIFICATE]"

definition all_actions :: "action list" where
  "all_actions = [
    A_READ, A_CREATE, A_UPDATE, A_UPDATE_BY_VISUAL_ID, A_REPLACE, A_REVOKE, A_DELETE, A_LOGOUT, A_LOGIN,
    A_LIST, A_IN_ERROR, A_RESET, A_ASSIGN, A_UNASSIGN, A_CLEAR_CACHE, A_TRIGGER_DATA_TRANSFER,
    A_SYNCHRONIZE, A_GET_CONFIGURATION, A_CHANGE_CONFIGURATION, A_SYNCHRONIZE_CAR_CATALOGS,
    A_REMOTE_START_TRANSACTION, A_REMOTE_STOP_TRANSACTION, A_START_TRANSACTION, A_STOP_TRANSACTION,
    A_UNLOCK_CONNECTOR, A_AUTHORIZE, A_SET_CHARGING_PROFILE, A_GET_COMPOSITE_SCHEDULE,
    A_CLEAR_CHARGING_PROFILE, A_GET_DIAGNOSTICS, A_UPDATE_FIRMWARE, A_EXPORT, A_CHANGE_AVAILABILITY,
    A_REFUND_TRANSACTION, A_LIST_BAGDES_EMSPS, A_SYNCHRONIZE_BILLING_USER,
    A_BILLING_SETUP_PAYMENT_METHOD, A_BILLING_PAYMENT_METHODS, A_BILLING_DELETE_PAYMENT_METHOD,
    A_BILLING_CHARGE_INVOICE, A_BILLING_ACTIVATE_ACCOUNT, A_BILLING_ONBOARD_ACCOUNT,
    A_BILLING_FINALIZE_TRANSFER, A_BILLING_SEND_TRANSFER, A_CHECK_CONNECTION, A_CLEAR_BILLING_TEST_DATA,
    A_RETRIEVE_CONSUMPTION, A_READ_CONSUMPTION, A_CREATE_CONSUMPTION, A_PING, A_GENERATE_LOCAL_TOKEN,
    A_REGISTER, A_TRIGGER_JOB, A_DOWNLOAD, A_IMPORT, A_ASSIGN_USERS_TO_SITE, A_UNASSIGN_USERS_FROM_SITE,
    A_ASSIGN_SITES_TO_USER, A_UNASSIGN_SITES_FROM_USER, A_ASSIGN_UNASSIGN_USERS,
    A_ASSIGN_UNASSIGN_USERS_TO_CONNECTOR, A_ASSIGN_UNASSIGN_SITES, A_ASSIGN_ASSETS_TO_SITE_AREA,
    A_UNASSIGN_ASSETS_FROM_SITE_AREA, A_READ_ASSETS_FROM_SITE_AREA,
    A_ASSIGN_CHARGING_STATIONS_TO_SITE_AREA, A_UNASSIGN_CHARGING_STATIONS_FROM_SITE_AREA,
    A_READ_CHARGING_STATIONS_FROM_SITE_AREA, A_EXPORT_OCPP_PARAMS, A_GENERATE_QR,
    A_MAINTAIN_PRICING_DEFINITIONS, A_RESOLVE, A_GET_STATUS_NOTIFICATION, A_GET_BOOT_NOTIFICATION,
    A_RESERVE_NOW, A_UPDATE_OCPP_PARAMS, A_LIMIT_POWER, A_DELETE_CHARGING_PROFILE, A_GET_OCPP_PARAMS,
    A_UPDATE_CHARGING_PROFILE, A_GET_CONNECTOR_QR_CODE, A_VIEW_USER_DATA,
    A_SYNCHRONIZE_REFUNDED_TRANSACTION, A_PUSH_TRANSACTION_CDR, A_GET_ADVENIR_CONSUMPTION,
    A_GET_CHARGING_STATION_TRANSACTIONS, A_GET_ACTIVE_TRANSACTION, A_GET_COMPLETED_TRANSACTION,
    A_GET_REFUNDABLE_TRANSACTION, A_GET_REFUND_REPORT, A_EXPORT_COMPLETED_TRANSACTION,
    A_EXPORT_OCPI_CDR, A_ASSIGN_UNASSIGN_USER_TO_CHARGING_STATION_CONNECTOR]"

lemma in_all_entities: "e \<in> set all_entities"
  by (cases e) (simp_all add: all_entities_def)

lemma in_all_actions: "a \<in> set all_actions"
  by (cases a) (simp_all add: all_actions_def)

lemma distinct_entity_texts: "distinct (map resource_text all_entities)"
  by (simp add: all_entities_def)

lemma distinct_action_texts: "distinct (map action_text all_actions)"
  by (simp only: all_actions_def list.map action_text.simps) code_simp

lemma resource_text_inj: "resource_text e = resource_text e' \<Longrightarrow> e = e'"
  using distinct_entity_texts in_all_entities by (auto simp: distinct_map inj_on_def)

lemma action_text_inj: "action_text a = action_text a' \<Longrightarrow> a = a'"
  using distinct_action_texts in_all_actions by (auto simp: distinct_map inj_on_def)

lemma resource_text_plain [simp]: "CHR ''~'' \<notin> set (resource_text e)"
  by (cases e) simp_all

lemma action_text_plain [simp]: "CHR ''~'' \<notin> set (action_text a)"
  by (cases a) simp_all

text \<open>Role names have neither of the two separators.\<close>

definition plain_roles :: "string list \<Rightarrow> bool" where
  "plain_roles rs \<longleftrightarrow> rs \<noteq> [] \<and> (\<forall>r \<in> set rs. CHR '','' \<notin> set r \<and> CHR ''~'' \<notin> set r)"

lemma comma_join_plain: "plain_roles rs \<Longrightarrow> CHR ''~'' \<notin> set (comma_join rs)"
  by (induction rs rule: comma_join.induct) (auto simp: plain_roles_def)

lemma comma_join_inj: "comma_join rs = comma_join ss \<Longrightarrow> plain_roles rs \<Longrightarrow> plain_roles ss \<Longrightarrow> rs = ss"
proof (induction rs arbitrary: ss rule: comma_join.induct)
  case (2 r)
  then show ?case by (cases ss rule: comma_join.cases) (auto simp: plain_roles_def)
next
  case (3 r r' rs)
  from "3.prems" obtain s s' ss' where ss: "ss = s # s' # ss'"
    by (cases ss rule: comma_join.cases) (auto simp: plain_roles_def)
  with "3.prems"(1) have "r @ CHR '','' # comma_join (r' # rs) = s @ CHR '','' # comma_join (s' # ss')" by simp
  from split_at_separator [OF this] "3.prems"(2,3) ss
  have "r = s" and "comma_join (r' # rs) = comma_join (s' # ss')" by (simp_all add: plain_roles_def)
  with "3.IH" [OF this(2)] "3.prems"(2,3) ss show ?case by (simp add: plain_roles_def)
qed (simp add: plain_roles_def)

lemma auth_key_inj:
  assumes "auth_key t rs e a cx = auth_key t rs' e' a' cx'" "plain_roles rs" "plain_roles rs'" "inj t"
  shows "rs = rs' \<and> e = e' \<and> a = a' \<and> cx = cx'"
proof -
  note key = assms(1) [unfolded auth_key_def]
  from split_at_separator [OF key] assms(2,3)
  have roles: "comma_join rs = comma_join rs'"
    and rest: "resource_text e @ CHR ''~'' # action_text a @ CHR ''~'' # t cx @ ''}''
      = resource_text e' @ CHR ''~'' # action_text a' @ CHR ''~'' # t cx' @ ''}''"
    by (simp_all add: comma_join_plain)
  from split_at_separator [OF rest]
  have e: "resource_text e = resource_text e'"
    and rest: "action_text a @ CHR ''~'' # t cx @ ''}'' = action_text a' @ CHR ''~'' # t cx' @ ''}''" by simp_all
  from split_at_separator [OF rest] have "action_text a = action_text a'" "t cx = t cx'" by simp_all
  with roles e assms(2-4) show ?thesis
    by (auto dest: comma_join_inj resource_text_inj action_text_inj injD)
qed

section \<open>The cache is transparent\<close>

definition cache_ok :: "(auth_context \<Rightarrow> string) \<Rightarrow> access_control \<Rightarrow> auth_cache \<Rightarrow> bool" where
  "cache_ok t M cache \<longleftrightarrow>
     (\<forall>key r. cache key = Some r \<longrightarrow>
        (\<exists>roles e a cx. plain_roles roles \<and> key = auth_key t roles e a cx \<and> r = permission M roles e a cx))"

text \<open>A context only gains entries, so that copying the cached one over it gives the cached one.\<close>

definition gains :: "auth_context \<Rightarrow> auth_context \<Rightarrow> bool" where
  "gains cx cx' \<longleftrightarrow> enrich cx cx' = cx'"

lemma gains_iff:
  "gains cx cx' \<longleftrightarrow>
     (cx_filters cx' = None \<longrightarrow> cx_filters cx = None) \<and> (cx_filtersSet cx \<longrightarrow> cx_filtersSet cx')
     \<and> (cx_asserts cx' = None \<longrightarrow> cx_asserts cx = None) \<and> (cx_assertsSet cx \<longrightarrow> cx_assertsSet cx')
     \<and> (cx_metadata cx' = None \<longrightarrow> cx_metadata cx = None) \<and> (cx_metadataSet cx \<longrightarrow> cx_metadataSet cx')"
  by (cases cx') (auto simp: gains_def enrich_def split: option.splits)

lemma gains_refl: "gains cx cx"
  by (simp add: gains_iff)

lemma gains_trans: "gains cx cx' \<Longrightarrow> gains cx' cx'' \<Longrightarrow> gains cx cx''"
  by (simp add: gains_iff)

lemma gains_condition: "gains cx (dynamicAuthorizations cx args)"
  by (simp add: gains_iff dynamicAuthorizations_def default_to_def Let_def split: option.splits)

lemma gains_permission: "gains cx (ar_context (permission M roles e a cx))"
proof -
  have "gains cx (foldl evaluate_condition cx gs)" for gs
  proof (induction gs arbitrary: cx)
    case (Cons g gs)
    have "gains cx (evaluate_condition cx g)"
      by (simp add: evaluate_condition_def gains_refl gains_condition split: option.splits)
    with Cons.IH [of "evaluate_condition cx g"] show ?case by (auto intro: gains_trans)
  qed (simp add: gains_refl)
  then show ?thesis by (simp add: permission_def Let_def)
qed

lemma canPerformAction_transparent:
  assumes "cache_ok t M cache" "plain_roles roles" "inj t"
  shows "snd (canPerformAction t M cache roles e a cx) =
      (permission M roles e a cx, ar_context (permission M roles e a cx))
    \<and> cache_ok t M (fst (canPerformAction t M cache roles e a cx))"
proof (cases "cache (auth_key t roles e a cx)")
  case None
  then show ?thesis using assms by (auto simp: canPerformAction_def cache_ok_def Let_def)
next
  case (Some r)
  with assms(1) obtain roles' e' a' cx' where "plain_roles roles'"
    and "auth_key t roles e a cx = auth_key t roles' e' a' cx'" and r: "r = permission M roles' e' a' cx'"
    unfolding cache_ok_def by blast
  from auth_key_inj [OF this(2) assms(2) this(1) assms(3)] r have "r = permission M roles e a cx" by simp
  with Some assms(1) gains_permission [of cx M roles e a] show ?thesis
    by (simp add: canPerformAction_def gains_def Let_def)
qed

text \<open>A sequence of checks, the cache of one being that of the next.\<close>

fun checks_in_order ::
    "(auth_context \<Rightarrow> string) \<Rightarrow> access_control \<Rightarrow> auth_cache \<Rightarrow> (string list \<times> entity \<times> action \<times> auth_context) list \<Rightarrow>
     (auth_result \<times> auth_context) list" where
  "checks_in_order t M cache [] = []"
| "checks_in_order t M cache ((roles, e, a, cx) # qs) =
     snd (canPerformAction t M cache roles e a cx)
     # checks_in_order t M (fst (canPerformAction t M cache roles e a cx)) qs"

lemma checks_transparent:
  assumes "cache_ok t M cache" "\<forall>q \<in> set qs. plain_roles (fst q)" "inj t"
  shows "checks_in_order t M cache qs =
     map (\<lambda>(roles, e, a, cx). (permission M roles e a cx, ar_context (permission M roles e a cx))) qs"
  using assms canPerformAction_transparent
  by (induction t M cache qs rule: checks_in_order.induct) auto

section \<open>A text for contexts\<close>

text \<open>
  A serialization that can be read back stands for \<open>JSON.stringify\<close> in the example: every part tells where it
  ends.
\<close>

definition readable :: "('a \<Rightarrow> string) \<Rightarrow> bool" where
  "readable f \<longleftrightarrow> (\<forall>a b x y. f a @ x = f b @ y \<longrightarrow> a = b \<and> x = y)"

definition text_bool :: "bool \<Rightarrow> string" where
  "text_bool b = (if b then ''t'' else ''f'')"

definition text_option :: "('a \<Rightarrow> string) \<Rightarrow> 'a option \<Rightarrow> string" where
  "text_option f v = (case v of None \<Rightarrow> ''n'' | Some a \<Rightarrow> CHR ''s'' # f a)"

fun text_list :: "('a \<Rightarrow> string) \<Rightarrow> 'a list \<Rightarrow> string" where
  "text_list f [] = ''e''"
| "text_list f (a # as) = CHR ''c'' # f a @ text_list f as"

definition text_pair :: "('a \<Rightarrow> string) \<Rightarrow> ('b \<Rightarrow> string) \<Rightarrow> 'a \<times> 'b \<Rightarrow> string" where
  "text_pair f g p = f (fst p) @ g (snd p)"

definition text_metadata :: "field_metadata \<Rightarrow> string" where
  "text_metadata m = text_pair (text_option text_bool) (text_pair (text_option text_bool) (text_option text_bool))
     (fm_visible m, fm_enabled m, fm_mandatory m)"

definition text_context :: "auth_context \<Rightarrow> string" where
  "text_context cx =
     (let groups = text_option (text_list (text_list (text_list (\<lambda>c. [c])))) in
      text_pair (text_pair groups text_bool) (text_pair (text_pair groups text_bool)
        (text_pair (text_option (text_list (text_pair (text_list (\<lambda>c. [c])) text_metadata))) text_bool))
        ((cx_filters cx, cx_filtersSet cx), (cx_asserts cx, cx_assertsSet cx), cx_metadata cx, cx_metadataSet cx))"

lemma readableI: "(\<And>a b x y. f a @ x = f b @ y \<Longrightarrow> a = b \<and> x = y) \<Longrightarrow> readable f"
  by (simp add: readable_def)

lemma readableD: "readable f \<Longrightarrow> f a @ x = f b @ y \<Longrightarrow> a = b \<and> x = y"
  unfolding readable_def by blast

lemma readable_bool: "readable text_bool"
  by (rule readableI) (auto simp: text_bool_def split: if_splits)

lemma readable_char: "readable (\<lambda>c. [c])"
  by (rule readableI) simp

lemma readable_option: "readable f \<Longrightarrow> readable (text_option f)"
  by (rule readableI) (auto simp: text_option_def dest: readableD split: option.splits)

lemma readable_list:
  assumes "readable f"
  shows "readable (text_list f)"
proof (rule readableI)
  show "text_list f as @ x = text_list f bs @ y \<Longrightarrow> as = bs \<and> x = y" for as bs x y
  proof (induction as arbitrary: bs)
    case Nil
    then show ?case by (cases bs) auto
  next
    case (Cons a as)
    then obtain b bs' where bs: "bs = b # bs'" by (cases bs) auto
    with Cons.prems have "f a @ (text_list f as @ x) = f b @ (text_list f bs' @ y)" by simp
    from readableD [OF assms this] Cons.IH [of bs'] bs show ?case by simp
  qed
qed

lemma readable_pair:
  assumes "readable f" "readable g"
  shows "readable (text_pair f g)"
proof (rule readableI)
  fix p q x y
  assume "text_pair f g p @ x = text_pair f g q @ y"
  then have "f (fst p) @ (g (snd p) @ x) = f (fst q) @ (g (snd q) @ y)" by (simp add: text_pair_def)
  from readableD [OF assms(1) this] readableD [OF assms(2)] show "p = q \<and> x = y" by (metis prod_eq_iff)
qed

lemma readable_map: "readable f \<Longrightarrow> inj h \<Longrightarrow> readable (\<lambda>a. f (h a))"
  by (rule readableI) (auto dest: readableD injD)

lemma readable_metadata: "readable text_metadata"
  unfolding text_metadata_def
  by (rule readable_map) (intro readable_pair readable_option readable_bool, auto intro: injI)

lemma readable_context: "readable text_context"
  unfolding text_context_def Let_def
  by (rule readable_map) (intro readable_pair readable_option readable_bool readable_list readable_char readable_metadata,
    auto intro: injI)

lemma text_context_inj: "inj text_context"
  by (rule injI) (use readableD [OF readable_context, where x = "[]" and y = "[]"] in simp)

text \<open>
  C36: The cache of the authorization manager is transparent: a sequence of checks that starts with the empty
  cache gives every caller the result and the context that the access control library gives without it, as
  long as role names have neither separator of the keys.
\<close>

theorem authorization_cache_is_transparent:
  assumes "\<forall>q \<in> set qs. plain_roles (fst q)" "inj t"
  shows "checks_in_order t M Map.empty qs =
     map (\<lambda>(roles, e, a, cx). (permission M roles e a cx, ar_context (permission M roles e a cx))) qs"
  using assms by (intro checks_transparent) (simp_all add: cache_ok_def)

lemma authorization_cache_is_transparent_witness:
  "checks_in_order text_context one_grant_control Map.empty
      [([''admin''], E_USER, A_READ, empty_context), ([''admin''], E_USER, A_READ, empty_context)] =
    replicate 2 (permission one_grant_control [''admin''] E_USER A_READ empty_context,
      ar_context (permission one_grant_control [''admin''] E_USER A_READ empty_context))"
  using authorization_cache_is_transparent [OF _ text_context_inj, of
      "[([''admin''], E_USER, A_READ, empty_context), ([''admin''], E_USER, A_READ, empty_context)]" one_grant_control]
  by (simp add: plain_roles_def numeral_2_eq_2)

end
