(* ===== verification/MeterRequests.thy ===== *)
theory MeterRequests
  imports Consumptions
begin

text \<open>
  The meter values a station sends (\<open>server/ocpp/services/OCPPService.ts\<close>): their normalisation, what the
  readings of the end of a session leave in the transaction, and the phases a session uses
  (\<open>utils/Utils.ts\<close>).  A request has passed the JSON schema; the texts of its values have been read as numbers,
  signed binary values are left out.  A value that is not in an array stands for an array of one.
\<close>

section \<open>Requests\<close>

record sampled_value =
  sv_value :: rat
  sv_context :: "reading_context option"
  sv_format :: "value_format option"
  sv_measurand :: "measurand option"
  sv_phase :: "ocpp_phase option"
  sv_location :: "ocpp_location option"
  sv_unit :: "unit_of_measure option"

text \<open>\<open>sampledValue\<close> is sent by OCPP 1.6, \<open>value\<close> with its attributes by OCPP 1.5.\<close>

record meter_sample =
  ms_timestamp :: int
  ms_sampledValue :: "sampled_value list"
  ms_value :: "(rat \<times> ocpp_attribute option) list option"

record meter_request =
  mr_connectorId :: int
  mr_transactionId :: int
  mr_meterValue :: "meter_sample list"

section \<open>Normalisation\<close>

definition or_default :: "'a option \<Rightarrow> 'a \<Rightarrow> 'a option" where
  "or_default v d = (case v of None \<Rightarrow> Some d | Some _ \<Rightarrow> v)"

definition buildMeterValueAttributes :: "sampled_value \<Rightarrow> ocpp_attribute" where
  "buildMeterValueAttributes sv =
     \<lparr>at_context = or_default (sv_context sv) SAMPLE_PERIODIC, at_format = or_default (sv_format sv) RAW,
      at_measurand = or_default (sv_measurand sv) ENERGY_ACTIVE_IMPORT_REGISTER, at_phase = sv_phase sv,
      at_location = or_default (sv_location sv) OUTLET, at_unit = or_default (sv_unit sv) WATT_HOUR\<rparr>"

definition normalized :: "meter_request \<Rightarrow> meter_sample \<Rightarrow> ocpp_attribute option \<Rightarrow> rat \<Rightarrow> meter_value" where
  "normalized r s a v =
     \<lparr>mv_connectorId = mr_connectorId r, mv_transactionId = mr_transactionId r, mv_timestamp = ms_timestamp s,
      mv_attribute = a, mv_value = v\<rparr>"

definition normalize_sample :: "charging_station \<Rightarrow> meter_request \<Rightarrow> meter_sample \<Rightarrow> meter_value list" where
  "normalize_sample cs r s =
     (if cs_ocppVersion cs = VERSION_16 then
        map (\<lambda>sv. normalized r s (Some (buildMeterValueAttributes sv)) (sv_value sv)) (ms_sampledValue s)
      else
        (case ms_value s of
           None \<Rightarrow> []
         | Some vs \<Rightarrow> map (\<lambda>(v, a). normalized r s a v) vs))"

definition normalizeMeterValues :: "charging_station \<Rightarrow> meter_request \<Rightarrow> meter_value list" where
  "normalizeMeterValues cs r = concat (map (normalize_sample cs r) (mr_meterValue r))"

text \<open>
  The callback of the filter is asynchronous: it returns a promise, which is true whatever the promise will
  hold, so the filter keeps every value.
\<close>

definition async_callback :: "(meter_value \<Rightarrow> bool) \<Rightarrow> meter_value \<Rightarrow> bool" where
  "async_callback f mv = True"

definition filterMeterValuesOnSpecificChargingStations :: "charging_station \<Rightarrow> meter_value list \<Rightarrow> meter_value list" where
  "filterMeterValuesOnSpecificChargingStations cs mvs =
     (if cs_chargePointVendor cs \<noteq> ''ABB'' \<or> cs_ocppVersion cs \<noteq> VERSION_15
      then List.filter (async_callback (\<lambda>mv. case mv_attribute mv of
             None \<Rightarrow> True | Some a \<Rightarrow> at_context a \<noteq> Some SAMPLE_CLOCK)) mvs
      else mvs)"

text \<open>What the validation corrects: a missing connector number, and a transaction number the connector knows.\<close>

definition validateMeterValues :: "charging_station \<Rightarrow> meter_request \<Rightarrow> meter_request" where
  "validateMeterValues cs r0 =
     (let r = (if mr_connectorId r0 = 0 then r0\<lparr>mr_connectorId := 1\<rparr> else r0) in
      case getConnectorFromID cs (mr_connectorId r) of
        None \<Rightarrow> r
      | Some cn \<Rightarrow>
          if gt (cn_currentTransactionID cn) 0 \<and> mr_transactionId r = 0
          then r\<lparr>mr_transactionId := the (cn_currentTransactionID cn)\<rparr> else r)"

section \<open>Readings of the end of a session\<close>

definition clear_instant_values :: "tx_transaction \<Rightarrow> tx_transaction" where
  "clear_instant_values tx =
     tx\<lparr>currentInstantWatts := Some 0, currentInstantWattsL1 := Some 0, currentInstantWattsL2 := Some 0,
        currentInstantWattsL3 := Some 0, currentInstantWattsDC := Some 0,
        currentInstantVolts := Some 0, currentInstantVoltsL1 := Some 0, currentInstantVoltsL2 := Some 0,
        currentInstantVoltsL3 := Some 0, currentInstantVoltsDC := Some 0,
        currentInstantAmps := Some 0, currentInstantAmpsL1 := Some 0, currentInstantAmpsL2 := Some 0,
        currentInstantAmpsL3 := Some 0, currentInstantAmpsDC := Some 0, transactionEndReceived := True\<rparr>"

definition end_voltage :: "charging_station \<Rightarrow> ocpp_phase option \<Rightarrow> rat \<Rightarrow> tx_transaction \<Rightarrow> tx_transaction" where
  "end_voltage cs ph v tx =
     (case getChargingStationCurrentType cs None (tx_connectorId tx) of
        None \<Rightarrow> tx
      | Some DC \<Rightarrow> tx\<lparr>currentInstantVoltsDC := Some v\<rparr>
      | Some AC \<Rightarrow>
          (if ph = Some L1_N \<or> ph = Some L1 then tx\<lparr>currentInstantVoltsL1 := Some v\<rparr>
           else if ph = Some L2_N \<or> ph = Some L2 then tx\<lparr>currentInstantVoltsL2 := Some v\<rparr>
           else if ph = Some L3_N \<or> ph = Some L3 then tx\<lparr>currentInstantVoltsL3 := Some v\<rparr>
           else if ph = Some L1_L2 \<or> ph = Some L2_L3 \<or> ph = Some L3_L1 then tx
           else tx\<lparr>currentInstantVolts := Some v\<rparr>))"

definition end_power :: "charging_station \<Rightarrow> ocpp_phase option \<Rightarrow> rat \<Rightarrow> tx_transaction \<Rightarrow> tx_transaction" where
  "end_power cs ph w tx =
     (case getChargingStationCurrentType cs None (tx_connectorId tx) of
        None \<Rightarrow> tx
      | Some DC \<Rightarrow> tx\<lparr>currentInstantWattsDC := Some w\<rparr>
      | Some AC \<Rightarrow>
          (if ph = Some L1_N \<or> ph = Some L1 then tx\<lparr>currentInstantWattsL1 := Some w\<rparr>
           else if ph = Some L2_N \<or> ph = Some L2 then tx\<lparr>currentInstantWattsL2 := Some w\<rparr>
           else if ph = Some L3_N \<or> ph = Some L3 then tx\<lparr>currentInstantWattsL3 := Some w\<rparr>
           else tx\<lparr>currentInstantWatts := Some w\<rparr>))"

definition end_current ::
    "runtime \<Rightarrow> charging_station \<Rightarrow> ocpp_phase option \<Rightarrow> rat \<Rightarrow> tx_transaction \<Rightarrow> tx_transaction" where
  "end_current R cs ph a tx =
     (case getChargingStationCurrentType cs None (tx_connectorId tx) of
        None \<Rightarrow> tx
      | Some DC \<Rightarrow> tx\<lparr>currentInstantAmpsDC := Some a\<rparr>
      | Some AC \<Rightarrow>
          (if ph = Some L1 then tx\<lparr>currentInstantAmpsL1 := Some a\<rparr>
           else if ph = Some L2 then tx\<lparr>currentInstantAmpsL2 := Some a\<rparr>
           else if ph = Some L3 then tx\<lparr>currentInstantAmpsL3 := Some a\<rparr>
           else tx\<lparr>currentInstantAmps :=
                  Some (fl R Times a (of_nat (getNumberOfConnectedPhases cs None (tx_connectorId tx))))\<rparr>))"

definition update_with_meter_value ::
    "runtime \<Rightarrow> charging_station \<Rightarrow> tx_transaction \<Rightarrow> meter_value \<Rightarrow> tx_transaction res" where
  "update_with_meter_value R cs tx mv =
     (case mv_attribute mv of
        None \<Rightarrow> Inl TypeError
      | Some a \<Rightarrow>
          (let at_end = (at_context a = Some TRANSACTION_END);
               tx1 = (if at_end \<and> \<not> transactionEndReceived tx then clear_instant_values tx else tx)
           in Inr
             (if at_measurand a = Some STATE_OF_CHARGE \<and> at_context a = Some TRANSACTION_BEGIN
              then tx1\<lparr>tx_stateOfCharge := Some (mv_value mv)\<rparr>
              else if at_measurand a = Some STATE_OF_CHARGE \<and> at_end
              then tx1\<lparr>currentStateOfCharge := Some (mv_value mv)\<rparr>
              else if at_measurand a = Some VOLTAGE \<and> at_end then end_voltage cs (at_phase a) (mv_value mv) tx1
              else if at_measurand a = Some POWER_ACTIVE_IMPORT \<and> at_end then
                end_power cs (at_phase a)
                  (if at_unit a = Some KILO_WATT then fl R Times (mv_value mv) 1000 else mv_value mv) tx1
              else if at_measurand a = Some CURRENT_IMPORT \<and> at_end then end_current R cs (at_phase a) (mv_value mv) tx1
              else if isEnergyActiveImportMeterValue mv
              then tx1\<lparr>numberOfMeterValues := numberOfMeterValues tx1 + 1\<rparr>
              else tx1)))"

definition updateTransactionWithMeterValues ::
    "runtime \<Rightarrow> charging_station \<Rightarrow> tx_transaction \<Rightarrow> meter_value list \<Rightarrow> tx_transaction res" where
  "updateTransactionWithMeterValues R cs tx mvs = foldE (update_with_meter_value R cs) tx mvs"

section \<open>Phases of a session\<close>

definition AMPERAGE_DETECTION_THRESHOLD :: rat where
  "AMPERAGE_DETECTION_THRESHOLD = 1 / 2"

definition checkIfPhasesProvidedInTransactionInProgress :: "tx_transaction \<Rightarrow> bool" where
  "checkIfPhasesProvidedInTransactionInProgress tx \<longleftrightarrow>
     gt (currentInstantAmps tx) AMPERAGE_DETECTION_THRESHOLD
     \<and> (gt (currentInstantAmpsL1 tx) AMPERAGE_DETECTION_THRESHOLD
        \<or> gt (currentInstantAmpsL2 tx) AMPERAGE_DETECTION_THRESHOLD
        \<or> gt (currentInstantAmpsL3 tx) AMPERAGE_DETECTION_THRESHOLD)"

definition getUsedPhasesInTransactionInProgress :: "charging_station \<Rightarrow> tx_transaction \<Rightarrow> phases_used" where
  "getUsedPhasesInTransactionInProgress cs tx =
     (if getChargingStationCurrentType cs None (tx_connectorId tx) = Some AC
         \<and> checkIfPhasesProvidedInTransactionInProgress tx
      then \<lparr>csPhase1 = gt (currentInstantAmpsL1 tx) AMPERAGE_DETECTION_THRESHOLD,
            csPhase2 = gt (currentInstantAmpsL2 tx) AMPERAGE_DETECTION_THRESHOLD,
            csPhase3 = gt (currentInstantAmpsL3 tx) AMPERAGE_DETECTION_THRESHOLD\<rparr>
      else \<lparr>csPhase1 = True, csPhase2 = True, csPhase3 = True\<rparr>)"

definition getNumberOfUsedPhasesInTransactionInProgress :: "charging_station \<Rightarrow> tx_transaction \<Rightarrow> int" where
  "getNumberOfUsedPhasesInTransactionInProgress cs tx =
     (case tx_phasesUsed tx of
        None \<Rightarrow> -1
      | Some p \<Rightarrow>
          if getChargingStationCurrentType cs None (tx_connectorId tx) = Some AC
          then (if csPhase1 p then 1 else 0) + (if csPhase2 p then 1 else 0) + (if csPhase3 p then 1 else 0)
          else -1)"

text \<open>The precedence of the operators ties the current type to the first phase only.\<close>

definition isTransactionInProgressOnThreePhases :: "charging_station \<Rightarrow> tx_transaction \<Rightarrow> bool" where
  "isTransactionInProgressOnThreePhases cs tx =
     (let a1 = currentInstantAmpsL1 tx; a2 = currentInstantAmpsL2 tx; a3 = currentInstantAmpsL3 tx
      in \<not> ((getChargingStationCurrentType cs None (tx_connectorId tx) = Some AC
              \<and> (gt a1 0 \<and> (a2 = Some 0 \<or> a3 = Some 0)))
            \<or> (gt a2 0 \<and> (a1 = Some 0 \<or> a3 = Some 0))
            \<or> (gt a3 0 \<and> (a1 = Some 0 \<or> a2 = Some 0))))"

end
