(* ===== verification/TagAuthorization.thy ===== *)
theory TagAuthorization
  imports SessionTypes AuthorizationTypes
begin

text \<open>
  Who may start and stop a session with a badge (\<open>server/CommonUtilsService.ts\<close>, with the tag checks of
  \<open>authorization/Authorizations.ts\<close>), for a tenant without roaming: the OCPI and OICP components are
  inactive.  What the storage holds is a parameter: the badges and the contract identifiers (EMAID) by their text,
  read with their user, and the users.  The access rules of the station for a user (\<open>UtilsService\<close>) are the
  parameter \<open>te_access\<close>.
\<close>

section \<open>Users and badges\<close>

datatype user_status = USER_PENDING | USER_ACTIVE | USER_INACTIVE | USER_BLOCKED | USER_LOCKED

record user =
  us_id :: string
  us_issuer :: bool
  us_status :: user_status
  us_role :: user_role

record badge = tag +
  bd_active :: bool
  bd_user :: "user option"

record tag_env =
  te_organizationActive :: bool
  te_tags :: "string \<Rightarrow> badge option"
  te_emaids :: "string \<Rightarrow> badge option"
  te_users :: "string \<Rightarrow> user option"
  te_access :: "user \<Rightarrow> badge \<Rightarrow> string \<Rightarrow> action \<Rightarrow> unit res"

section \<open>The badge\<close>

text \<open>The messages name what is refused between quotes; the name of the site area is left out of its message.\<close>

definition quoted :: "string \<Rightarrow> string" where
  "quoted s = CHR 0x27 # s @ [CHR 0x27]"

text \<open>Reading a badge without its user leaves the field of the user out.\<close>

definition without_user :: "badge option \<Rightarrow> badge option" where
  "without_user b = map_option (\<lambda>b. b\<lparr>bd_user := None\<rparr>) b"

definition getUserByTagID :: "tag_env \<Rightarrow> string \<Rightarrow> user option" where
  "getUserByTagID E tagID =
     (let found = (case te_tags E tagID of None \<Rightarrow> without_user (te_emaids E tagID) | Some b \<Rightarrow> Some b)
      in Option.bind found bd_user)"

definition checkAndGetAuthorizedTag :: "tag_env \<Rightarrow> string \<Rightarrow> badge option res" where
  "checkAndGetAuthorizedTag E tagID =
     (case te_tags E tagID of
        None \<Rightarrow> Inr None
      | Some b \<Rightarrow>
          if \<not> bd_active b then Inl (BackendError (''Tag ID '' @ quoted tagID @ '' is not active''))
          else if bd_user b = None then Inl (BackendError (''Tag ID '' @ quoted tagID @ '' is not assigned to a User''))
          else Inr (Some b))"

definition checkAndGetAuthorizedEmaid :: "tag_env \<Rightarrow> string \<Rightarrow> badge option res" where
  "checkAndGetAuthorizedEmaid E emaidID =
     (case te_emaids E emaidID of
        None \<Rightarrow> Inr None
      | Some b \<Rightarrow>
          if \<not> bd_active b then Inl (BackendError (''Emaid ID '' @ quoted emaidID @ '' is not active''))
          else if bd_user b = None then Inl (BackendError (''Emaid ID '' @ quoted emaidID @ '' is not assigned to a User''))
          else Inr (Some b))"

definition notifyUnknownBadgeHasBeenUsedAndAbort :: "string \<Rightarrow> 'a res" where
  "notifyUnknownBadgeHasBeenUsedAndAbort tagID = Inl (BackendError (''Tag ID '' @ quoted tagID @ '' is unknown''))"

section \<open>The station\<close>

definition isChargingStationValidInOrganization ::
    "tag_env \<Rightarrow> charging_station \<Rightarrow> site_area option \<Rightarrow> bool res" where
  "isChargingStationValidInOrganization E cs sa =
     (if te_organizationActive E then
        (if \<not> truthy_str (cs_siteAreaID cs) \<or> sa = None
         then Inl (BackendError (''Charging Station '' @ quoted (cs_id cs) @ '' is not assigned to a Site Area!''))
         else if \<not> truthy_str (cs_siteID cs) then Inl (BackendError ''Site Area is not assigned to a Site!'')
         else Inr True)
      else Inr False)"

section \<open>The user\<close>

text \<open>Without OCPI a user of another operator is refused whatever the badge.\<close>

definition checkOCPIAuthorizedUser :: "badge \<Rightarrow> unit res" where
  "checkOCPIAuthorizedUser b =
     Inl (BackendError (''Unable to authorize Tag ID '' @ quoted (tag_id b) @ '', Roaming is not active''))"

text \<open>The badge may be null: then reading its user raises.\<close>

definition checkAndGetAuthorizedUserFromTag ::
    "tag_env \<Rightarrow> charging_station \<Rightarrow> badge option \<Rightarrow> action \<Rightarrow> user res" where
  "checkAndGetAuthorizedUserFromTag E cs b authAction =
     (case Option.bind b bd_user of
        None \<Rightarrow> Inl TypeError
      | Some owner \<Rightarrow>
          (case te_users E (us_id owner) of
             None \<Rightarrow> Inl TypeError
           | Some u \<Rightarrow>
               if us_status u \<noteq> USER_ACTIVE
               then Inl (BackendError (''User with Tag ID '' @ quoted (tag_id (the b)) @ '' is not Active''))
               else if us_issuer u then bindE (te_access E u (the b) (cs_id cs) authAction) (\<lambda>_. Inr u)
               else Inr u))"

section \<open>Authorization with a badge\<close>

text \<open>The badge, or else the contract identifier, of a text.\<close>

definition authorized_badge :: "tag_env \<Rightarrow> string \<Rightarrow> badge option res" where
  "authorized_badge E tagID =
     bindE (checkAndGetAuthorizedTag E tagID) (\<lambda>tag.
       case tag of
         Some b \<Rightarrow> Inr (Some b)
       | None \<Rightarrow>
           bindE (checkAndGetAuthorizedEmaid E tagID) (\<lambda>emaid.
             if emaid = None then notifyUnknownBadgeHasBeenUsedAndAbort tagID else Inr emaid))"

definition isTagIDAuthorizedOnChargingStation ::
    "tag_env \<Rightarrow> charging_station \<Rightarrow> site_area option \<Rightarrow> string \<Rightarrow> action \<Rightarrow> (user option \<times> badge option) res" where
  "isTagIDAuthorizedOnChargingStation E cs sa tagID authAction =
     bindE (isChargingStationValidInOrganization E cs sa) (\<lambda>valid.
       if valid \<and> \<not> sa_accessControl (the sa)
       then Inr (getUserByTagID E tagID, without_user (te_tags E tagID))
       else
         bindE (authorized_badge E tagID) (\<lambda>b.
         bindE (checkAndGetAuthorizedUserFromTag E cs b authAction) (\<lambda>u.
         bindE (if us_issuer u then Inr () else checkOCPIAuthorizedUser (the b)) (\<lambda>_.
           Inr (Some u, b)))))"

definition isAuthorizedToStartTransaction ::
    "tag_env \<Rightarrow> charging_station \<Rightarrow> site_area option \<Rightarrow> string \<Rightarrow> (user option \<times> badge option) res" where
  "isAuthorizedToStartTransaction E cs sa tagID =
     isTagIDAuthorizedOnChargingStation E cs sa tagID A_START_TRANSACTION"

text \<open>The user that started the session and, when another badge stops it, the user of that badge.\<close>

definition isAuthorizedToStopTransaction ::
    "tag_env \<Rightarrow> charging_station \<Rightarrow> site_area option \<Rightarrow> string \<Rightarrow> string \<Rightarrow> (user option \<times> user option) res" where
  "isAuthorizedToStopTransaction E cs sa started_by tagID =
     bindE (isTagIDAuthorizedOnChargingStation E cs sa tagID A_STOP_TRANSACTION) (\<lambda>(u, _).
       if started_by \<noteq> tagID then Inr (getUserByTagID E started_by, u) else Inr (u, None))"

section \<open>What an authorization rests on\<close>

lemma from_tag_active:
  assumes "checkAndGetAuthorizedUserFromTag E cs b a = Inr u"
  shows "us_status u = USER_ACTIVE \<and> (us_issuer u \<longrightarrow> te_access E u (the b) (cs_id cs) a = Inr ())"
  using assms by (auto simp: checkAndGetAuthorizedUserFromTag_def res_simps split: option.splits if_splits)

lemma authorized_badge_active:
  assumes "authorized_badge E t = Inr b"
  shows "\<exists>w. b = Some w \<and> bd_active w \<and> (te_tags E t = Some w \<or> te_emaids E t = Some w)"
  using assms
  by (auto simp: authorized_badge_def checkAndGetAuthorizedTag_def checkAndGetAuthorizedEmaid_def res_simps
      notifyUnknownBadgeHasBeenUsedAndAbort_def split: option.splits if_splits)

lemma controlled_authorization:
  assumes "isTagIDAuthorizedOnChargingStation E cs sa tagID a = Inr (u, b)"
    and "\<not> te_organizationActive E \<or> sa_accessControl (the sa)"
  shows "\<exists>v w. u = Some v \<and> b = Some w \<and> bd_active w \<and> (te_tags E tagID = Some w \<or> te_emaids E tagID = Some w)
    \<and> us_status v = USER_ACTIVE \<and> us_issuer v \<and> te_access E v w (cs_id cs) a = Inr ()"
proof -
  from assms(1,2) obtain v where
    b: "authorized_badge E tagID = Inr b"
    and v: "checkAndGetAuthorizedUserFromTag E cs b a = Inr v" and u: "u = Some v" "us_issuer v"
    by (auto simp: isTagIDAuthorizedOnChargingStation_def isChargingStationValidInOrganization_def res_simps
        checkOCPIAuthorizedUser_def simp del: split_paired_Ex split: if_splits)
  with authorized_badge_active [OF b] from_tag_active [OF v] show ?thesis by auto
qed

end
