(* ===== verification/Effects.thy ===== *)
theory Effects
  imports Prelude
begin

text \<open>
  Operations that change a state and may end with an exception.  What was changed before an exception
  stays changed: the result comes with the state either way.  The triples describe an operation by what
  holds before it, after it returns, and after it raises; the collection \<open>effect_rules\<close> has one
  rule for each way the code composes operations.
\<close>

named_theorems effect_rules \<open>rules about the operations that change the state\<close>
named_theorems effect_simps \<open>the operations applied to a state\<close>

section \<open>Operations\<close>

type_synonym ('s, 'a) effect = "'s \<Rightarrow> 'a res \<times> 's"

definition returnS :: "'a \<Rightarrow> ('s, 'a) effect" where
  "returnS a s = (Inr a, s)"

definition throwS :: "js_error \<Rightarrow> ('s, 'a) effect" where
  "throwS e s = (Inl e, s)"

definition liftS :: "'a res \<Rightarrow> ('s, 'a) effect" where
  "liftS r s = (r, s)"

definition getS :: "('s \<Rightarrow> 'a) \<Rightarrow> ('s, 'a) effect" where
  "getS f s = (Inr (f s), s)"

definition updateS :: "('s \<Rightarrow> 's) \<Rightarrow> ('s, unit) effect" where
  "updateS f s = (Inr (), f s)"

definition bindS :: "('s, 'a) effect \<Rightarrow> ('a \<Rightarrow> ('s, 'b) effect) \<Rightarrow> ('s, 'b) effect" where
  "bindS m f s = (case m s of (Inl e, s') \<Rightarrow> (Inl e, s') | (Inr a, s') \<Rightarrow> f a s')"

definition thenS :: "('s, 'a) effect \<Rightarrow> ('s, 'b) effect \<Rightarrow> ('s, 'b) effect" where
  "thenS m n = bindS m (\<lambda>_. n)"

text \<open>\<open>tryS m h\<close> is \<open>try\<close> with a \<open>catch\<close> that ends with the value \<open>h\<close> and changes nothing.\<close>

definition tryS :: "('s, 'a) effect \<Rightarrow> (js_error \<Rightarrow> 'a) \<Rightarrow> 's \<Rightarrow> 'a \<times> 's" where
  "tryS m h s = (case m s of (Inl e, s') \<Rightarrow> (h e, s') | (Inr a, s') \<Rightarrow> (a, s'))"

definition attemptS :: "('s, 'a) effect \<Rightarrow> (js_error \<Rightarrow> 'a) \<Rightarrow> ('s, 'a) effect" where
  "attemptS m h s = (case tryS m h s of (a, s') \<Rightarrow> (Inr a, s'))"

definition whenS :: "bool \<Rightarrow> ('s, unit) effect \<Rightarrow> ('s, unit) effect" where
  "whenS b m = (if b then m else returnS ())"

text \<open>A loop over a list that carries a value.\<close>

fun foldS :: "('a \<Rightarrow> 'x \<Rightarrow> ('s, 'a) effect) \<Rightarrow> 'a \<Rightarrow> 'x list \<Rightarrow> ('s, 'a) effect" where
  "foldS f a [] = returnS a"
| "foldS f a (x # xs) = bindS (f a x) (\<lambda>a'. foldS f a' xs)"

lemma effect_apply [effect_simps]:
  "returnS a s = (Inr a, s)" "throwS e s = (Inl e, s)" "liftS r s = (r, s)" "getS f s = (Inr (f s), s)"
  "updateS g s = (Inr (), g s)"
  by (simp_all add: returnS_def throwS_def liftS_def getS_def updateS_def)

lemma bindS_apply [effect_simps]:
  "bindS (returnS a) f = f a" "bindS (throwS e) f = throwS e" "bindS (liftS (Inr a)) f = f a"
  "bindS (liftS (Inl e)) f = throwS e" "bindS (getS g) f s = f (g s) s" "bindS (updateS h) k s = k () (h s)"
  by (auto simp: bindS_def effect_simps fun_eq_iff)

lemma bindS_bindS: "bindS (bindS m f) g = bindS m (\<lambda>a. bindS (f a) g)"
  by (auto simp: bindS_def fun_eq_iff split: prod.split sum.split)

lemma bindS_returns:
  "bindS m f s = (Inr b, s') \<longleftrightarrow> (\<exists>a t. m s = (Inr a, t) \<and> f a t = (Inr b, s'))"
  by (auto simp: bindS_def split: prod.splits sum.splits)

lemma bindS_raises:
  "bindS m f s = (Inl e, s') \<longleftrightarrow> m s = (Inl e, s') \<or> (\<exists>a t. m s = (Inr a, t) \<and> f a t = (Inl e, s'))"
  by (auto simp: bindS_def split: prod.splits sum.splits)

lemma thenS_returns:
  "thenS m n s = (Inr b, s') \<longleftrightarrow> (\<exists>a t. m s = (Inr a, t) \<and> n t = (Inr b, s'))"
  by (simp add: thenS_def bindS_returns)

section \<open>Triples\<close>

definition holdsS :: "('s \<Rightarrow> bool) \<Rightarrow> ('s, 'a) effect \<Rightarrow> ('a \<Rightarrow> 's \<Rightarrow> bool) \<Rightarrow> ('s \<Rightarrow> bool) \<Rightarrow> bool" where
  "holdsS P m Q E \<longleftrightarrow> (\<forall>s. P s \<longrightarrow> (case m s of (Inl e, s') \<Rightarrow> E s' | (Inr a, s') \<Rightarrow> Q a s'))"

abbreviation preservesS :: "('s \<Rightarrow> bool) \<Rightarrow> ('s, 'a) effect \<Rightarrow> bool" where
  "preservesS I m \<equiv> holdsS I m (\<lambda>_. I) I"

lemma holdsS_I:
  "(\<And>s a s'. P s \<Longrightarrow> m s = (Inr a, s') \<Longrightarrow> Q a s') \<Longrightarrow> (\<And>s e s'. P s \<Longrightarrow> m s = (Inl e, s') \<Longrightarrow> E s')
     \<Longrightarrow> holdsS P m Q E"
  by (auto simp: holdsS_def split: prod.split sum.split)

lemma holdsS_returns: "holdsS P m Q E \<Longrightarrow> P s \<Longrightarrow> m s = (Inr a, s') \<Longrightarrow> Q a s'"
  by (force simp: holdsS_def split: prod.splits)

lemma holdsS_raises: "holdsS P m Q E \<Longrightarrow> P s \<Longrightarrow> m s = (Inl e, s') \<Longrightarrow> E s'"
  by (force simp: holdsS_def split: prod.splits)

lemma holdsS_mono:
  "holdsS P' m Q' E' \<Longrightarrow> (\<And>s. P s \<Longrightarrow> P' s) \<Longrightarrow> (\<And>a s. Q' a s \<Longrightarrow> Q a s) \<Longrightarrow> (\<And>s. E' s \<Longrightarrow> E s)
     \<Longrightarrow> holdsS P m Q E"
  by (rule holdsS_I) (blast dest: holdsS_returns holdsS_raises)+

lemma returnS_rule [effect_rules]: "(\<And>s. P s \<Longrightarrow> Q a s) \<Longrightarrow> holdsS P (returnS a) Q E"
  by (simp add: holdsS_def returnS_def)

lemma throwS_rule [effect_rules]: "(\<And>s. P s \<Longrightarrow> E s) \<Longrightarrow> holdsS P (throwS e) Q E"
  by (simp add: holdsS_def throwS_def)

lemma liftS_rule [effect_rules]:
  "(\<And>s a. P s \<Longrightarrow> r = Inr a \<Longrightarrow> Q a s) \<Longrightarrow> (\<And>s. P s \<Longrightarrow> E s) \<Longrightarrow> holdsS P (liftS r) Q E"
  by (auto simp: holdsS_def liftS_def split: sum.split)

lemma getS_rule [effect_rules]: "(\<And>s. P s \<Longrightarrow> Q (f s) s) \<Longrightarrow> holdsS P (getS f) Q E"
  by (simp add: holdsS_def getS_def)

lemma updateS_rule [effect_rules]: "(\<And>s. P s \<Longrightarrow> Q () (f s)) \<Longrightarrow> holdsS P (updateS f) Q E"
  by (simp add: holdsS_def updateS_def)

lemma bindS_rule:
  assumes "holdsS P m R E" "\<And>a. holdsS (R a) (f a) Q E"
  shows "holdsS P (bindS m f) Q E"
proof (rule holdsS_I)
  fix s b s'
  assume "P s" "bindS m f s = (Inr b, s')"
  with assms show "Q b s'" by (auto simp: bindS_returns dest: holdsS_returns)
next
  fix s e s'
  assume "P s" "bindS m f s = (Inl e, s')"
  with assms show "E s'" by (auto simp: bindS_raises dest: holdsS_returns holdsS_raises)
qed

text \<open>An invariant of the parts is an invariant of the whole.\<close>

lemma bindS_preserves [effect_rules]:
  "preservesS I m \<Longrightarrow> (\<And>a. preservesS I (f a)) \<Longrightarrow> preservesS I (bindS m f)"
  by (rule bindS_rule)

lemma thenS_preserves [effect_rules]: "preservesS I m \<Longrightarrow> preservesS I n \<Longrightarrow> preservesS I (thenS m n)"
  unfolding thenS_def by (rule bindS_rule)

lemma whenS_preserves [effect_rules]: "(b \<Longrightarrow> preservesS I m) \<Longrightarrow> preservesS I (whenS b m)"
  by (simp add: whenS_def returnS_rule)

lemma foldS_preserves [effect_rules]:
  "(\<And>a x. x \<in> set xs \<Longrightarrow> preservesS I (f a x)) \<Longrightarrow> preservesS I (foldS f a xs)"
proof (induction xs arbitrary: a)
  case Nil
  then show ?case by (simp add: returnS_rule)
next
  case (Cons x xs)
  then show ?case by (auto intro!: bindS_preserves)
qed

lemma tryS_preserves: "preservesS I m \<Longrightarrow> I s \<Longrightarrow> I (snd (tryS m h s))"
  by (auto simp: tryS_def split: prod.split sum.split dest: holdsS_returns holdsS_raises)

lemma attemptS_preserves [effect_rules]: "preservesS I m \<Longrightarrow> preservesS I (attemptS m h)"
proof (rule holdsS_I)
  fix s a s'
  assume "preservesS I m" "I s" "attemptS m h s = (Inr a, s')"
  with tryS_preserves [of I m s h] show "I s'" by (simp add: attemptS_def split: prod.splits)
qed (simp add: attemptS_def split: prod.splits)

text \<open>
  An operation that keeps an invariant and returns values of which \<open>K\<close> holds: what follows may use \<open>K\<close> of the
  value it gets.
\<close>

abbreviation yieldsS :: "('s \<Rightarrow> bool) \<Rightarrow> ('s, 'a) effect \<Rightarrow> ('a \<Rightarrow> bool) \<Rightarrow> bool" where
  "yieldsS I m K \<equiv> holdsS I m (\<lambda>a s. I s \<and> K a) I"

lemma bindS_yields:
  assumes "yieldsS I m K" "\<And>a. K a \<Longrightarrow> holdsS I (f a) Q I"
  shows "holdsS I (bindS m f) Q I"
  by (rule bindS_rule [OF assms(1)]) (use assms(2) in \<open>force simp: holdsS_def\<close>)

lemma thenS_yields: "preservesS I m \<Longrightarrow> holdsS I n Q I \<Longrightarrow> holdsS I (thenS m n) Q I"
  unfolding thenS_def by (rule bindS_rule)

lemma returnS_yields: "K a \<Longrightarrow> yieldsS I (returnS a) K"
  by (simp add: returnS_rule)

lemma liftS_yields: "(\<And>a. r = Inr a \<Longrightarrow> K a) \<Longrightarrow> yieldsS I (liftS r) K"
  by (rule liftS_rule) simp_all

lemma getS_yields: "(\<And>s. I s \<Longrightarrow> K (g s)) \<Longrightarrow> yieldsS I (getS g) K"
  by (rule getS_rule) simp

lemma foldS_yields:
  "K a \<Longrightarrow> (\<And>b x. K b \<Longrightarrow> x \<in> set xs \<Longrightarrow> yieldsS I (f b x) K) \<Longrightarrow> yieldsS I (foldS f a xs) K"
proof (induction xs arbitrary: a)
  case Nil
  then show ?case by (simp add: returnS_yields)
next
  case (Cons x xs)
  then show ?case by (auto intro!: bindS_yields [where K = K])
qed

section \<open>Operations that begin with a case distinction\<close>

named_theorems effect_cases \<open>rules about operations that begin with a case distinction\<close>

lemma if_holds [effect_cases]:
  "(b \<Longrightarrow> holdsS P m Q R) \<Longrightarrow> (\<not> b \<Longrightarrow> holdsS P n Q R) \<Longrightarrow> holdsS P (if b then m else n) Q R"
  by simp

lemma case_option_holds [effect_cases]:
  "(o' = None \<Longrightarrow> holdsS P m Q R) \<Longrightarrow> (\<And>x. o' = Some x \<Longrightarrow> holdsS P (n x) Q R)
     \<Longrightarrow> holdsS P (case o' of None \<Rightarrow> m | Some x \<Rightarrow> n x) Q R"
  by (cases o') simp_all

lemma case_list_holds [effect_cases]:
  "(l = [] \<Longrightarrow> holdsS P m Q R) \<Longrightarrow> (\<And>x xs. l = x # xs \<Longrightarrow> holdsS P (n x xs) Q R)
     \<Longrightarrow> holdsS P (case l of [] \<Rightarrow> m | x # xs \<Rightarrow> n x xs) Q R"
  by (cases l) simp_all

lemma case_prod_holds [effect_cases]:
  "(\<And>x y. p = (x, y) \<Longrightarrow> holdsS P (n x y) Q R) \<Longrightarrow> holdsS P (case p of (x, y) \<Rightarrow> n x y) Q R"
  by (cases p) simp

lemma after_run: "preservesS I m \<Longrightarrow> I s \<Longrightarrow> m s = (r, s') \<Longrightarrow> I s'"
  by (cases r) (auto dest: holdsS_returns holdsS_raises)

end
