(* ===== verification/SessionStore.thy ===== *)
theory SessionStore
  imports MeterRequests PricingEngine TagAuthorization Effects
begin

text \<open>
  What the database holds of a charging station and its sessions (\<open>storage/mongodb/TransactionStorage.ts\<close>,
  \<open>ConsumptionStorage.ts\<close>, \<open>OCPPStorage.ts\<close>, \<open>ChargingStationStorage.ts\<close>), and the state while
  a message is handled.  A collection is a list in the order of insertion; the hashes that identify consumptions,
  meter values and status notifications stand for what is hashed.  An interface describes a collection with
  one document for each identifier.
\<close>

section \<open>Messages\<close>

record start_request =
  sr_connectorId :: int
  sr_idTag :: string
  sr_meterStart :: rat
  sr_timestamp :: int

text \<open>\<open>sm_transactionData\<close> holds format, context and text of the sampled values, in order.\<close>

record stop_message = stop_request +
  sm_transactionId :: int
  sm_idTag :: "string option"
  sm_transactionData :: "(value_format option \<times> reading_context option \<times> string) list"

record status_notification =
  sn_connectorId :: int
  sn_status :: charge_point_status
  sn_errorCode :: string
  sn_info :: "string option"
  sn_vendorErrorCode :: "string option"
  sn_vendorId :: "string option"
  sn_timestamp :: int

section \<open>Collections\<close>

fun upsert :: "('d \<Rightarrow> 'k) \<Rightarrow> 'd \<Rightarrow> 'd list \<Rightarrow> 'd list" where
  "upsert key d [] = [d]"
| "upsert key d (e # es) = (if key e = key d then d # es else e # upsert key d es)"

definition lookup_by :: "('d \<Rightarrow> 'k) \<Rightarrow> 'k \<Rightarrow> 'd list \<Rightarrow> 'd option" where
  "lookup_by key k ds = List.find (\<lambda>d. key d = k) ds"

definition delete_by :: "('d \<Rightarrow> 'k) \<Rightarrow> 'k \<Rightarrow> 'd list \<Rightarrow> 'd list" where
  "delete_by key k ds = List.filter (\<lambda>d. key d \<noteq> k) ds"

locale collection =
  fixes key :: "'d \<Rightarrow> 'k"
    and look :: "'k \<Rightarrow> 'c \<Rightarrow> 'd option"
    and put :: "'d \<Rightarrow> 'c \<Rightarrow> 'c"
    and drop :: "'k \<Rightarrow> 'c \<Rightarrow> 'c"
    and wf :: "'c \<Rightarrow> bool"
  assumes look_put: "look k (put d c) = (if k = key d then Some d else look k c)"
    and look_drop: "look k (drop j c) = (if k = j then None else look k c)"
    and look_key: "look k c = Some d \<Longrightarrow> key d = k"
    and wf_put: "wf c \<Longrightarrow> wf (put d c)"
    and wf_drop: "wf c \<Longrightarrow> wf (drop k c)"
begin

lemma put_twice: "key d = key e \<Longrightarrow> look k (put d (put e c)) = look k (put d c)"
  by (simp add: look_put)

lemma put_other: "key d \<noteq> k \<Longrightarrow> look k (put d c) = look k c"
  by (simp add: look_put)

text \<open>A property of every document, kept by what is put.\<close>

lemma all_put:
  "(\<And>k d. look k c = Some d \<Longrightarrow> P d) \<Longrightarrow> P e \<Longrightarrow> look k (put e c) = Some d \<Longrightarrow> P d"
  by (auto simp: look_put split: if_splits)

lemma all_drop: "(\<And>k d. look k c = Some d \<Longrightarrow> P d) \<Longrightarrow> look k (drop j c) = Some d \<Longrightarrow> P d"
  by (auto simp: look_drop split: if_splits)

end

lemma upsert_keys: "key ` set (upsert key d es) = insert (key d) (key ` set es)"
  by (induction es) auto

lemma upsert_distinct: "distinct (map key es) \<Longrightarrow> distinct (map key (upsert key d es))"
proof (induction es)
  case Nil
  then show ?case by simp
next
  case (Cons e es)
  then show ?case using upsert_keys [of key d es] by (auto simp: image_iff)
qed

lemma upsert_set: "set (upsert key d es) \<subseteq> insert d (set es)"
  by (induction es) auto

lemma lookup_upsert: "lookup_by key k (upsert key d es) = (if k = key d then Some d else lookup_by key k es)"
  by (induction es) (auto simp: lookup_by_def)

lemma lookup_delete: "lookup_by key k (delete_by key j es) = (if k = j then None else lookup_by key k es)"
  by (induction es) (auto simp: lookup_by_def delete_by_def)

lemma lookup_key: "lookup_by key k es = Some d \<Longrightarrow> key d = k \<and> d \<in> set es"
  by (auto simp: lookup_by_def find_Some_iff)

lemma lookup_distinct: "distinct (map key es) \<Longrightarrow> d \<in> set es \<Longrightarrow> lookup_by key (key d) es = Some d"
  by (induction es) (auto simp: lookup_by_def)

lemma delete_distinct: "distinct (map key es) \<Longrightarrow> distinct (map key (delete_by key k es))"
  by (simp add: delete_by_def distinct_map_filter)

interpretation documents: collection key "lookup_by key" "upsert key" "delete_by key" "\<lambda>ds. distinct (map key ds)"
  for key :: "'d \<Rightarrow> 'k"
  by unfold_locales (auto simp: lookup_upsert lookup_delete upsert_distinct delete_distinct dest: lookup_key)

section \<open>What is stored\<close>

text \<open>
  \<open>convertToInt\<close> and \<open>convertToFloat\<close> turn a missing number into zero and leave the others.  The badge,
  the price of the last update and the consumption of the last meter value are not stored; a transaction that is
  stopped loses its runtime values, and its stop takes the currency of the transaction.
\<close>

definition stored_stop :: "tx_transaction \<Rightarrow> transaction_stop \<Rightarrow> transaction_stop" where
  "stored_stop tx st =
     st\<lparr>ts_stateOfCharge := Some (num0 (ts_stateOfCharge st)),
        ts_totalConsumptionWh := Some (num0 (ts_totalConsumptionWh st)),
        ts_totalInactivitySecs := Some (num0 (ts_totalInactivitySecs st)),
        ts_extraInactivitySecs := Some (num0 (ts_extraInactivitySecs st)),
        ts_totalDurationSecs := Some (num0 (ts_totalDurationSecs st)),
        ts_price := Some (num0 (ts_price st)), ts_roundedPrice := Some (num0 (ts_roundedPrice st)),
        ts_priceUnit := tx_priceUnit tx\<rparr>"

definition without_runtime :: "tx_transaction \<Rightarrow> tx_transaction" where
  "without_runtime tx =
     tx\<lparr>currentInstantWatts := None, currentInstantWattsL1 := None, currentInstantWattsL2 := None,
        currentInstantWattsL3 := None, currentInstantWattsDC := None, currentCumulatedPrice := None,
        currentCumulatedRoundedPrice := None, currentSignedData := None, currentStateOfCharge := None,
        currentTotalConsumptionWh := None, currentTotalInactivitySecs := None, currentInactivityStatus := None,
        lastConsumption := None, numberOfMeterValues := 0, currentTotalDurationSecs := None,
        currentInstantVolts := None, currentInstantVoltsL1 := None, currentInstantVoltsL2 := None,
        currentInstantVoltsL3 := None, currentInstantVoltsDC := None, currentInstantAmps := None,
        transactionEndReceived := False, currentInstantAmpsL1 := None, currentInstantAmpsL2 := None,
        currentInstantAmpsL3 := None, currentInstantAmpsDC := None\<rparr>"

definition stored_fields :: "tx_transaction \<Rightarrow> tx_transaction" where
  "stored_fields tx =
     tx\<lparr>tx_tag := None, currentConsumptionWh := None, currentTimestamp := None,
        tx_price := Some (num0 (tx_price tx)), tx_roundedPrice := Some (num0 (tx_roundedPrice tx)),
        tx_stateOfCharge := Some (num0 (tx_stateOfCharge tx)),
        currentStateOfCharge := Some (num0 (currentStateOfCharge tx)),
        currentTotalInactivitySecs := Some (num0 (currentTotalInactivitySecs tx)),
        currentCumulatedPrice := Some (num0 (currentCumulatedPrice tx)),
        currentCumulatedRoundedPrice := Some (num0 (currentCumulatedRoundedPrice tx)),
        currentInstantWatts := Some (num0 (currentInstantWatts tx)),
        currentInstantWattsL1 := Some (num0 (currentInstantWattsL1 tx)),
        currentInstantWattsL2 := Some (num0 (currentInstantWattsL2 tx)),
        currentInstantWattsL3 := Some (num0 (currentInstantWattsL3 tx)),
        currentInstantWattsDC := Some (num0 (currentInstantWattsDC tx)),
        currentTotalConsumptionWh := Some (num0 (currentTotalConsumptionWh tx)),
        currentTotalDurationSecs := Some (num0 (currentTotalDurationSecs tx)),
        currentInstantVolts := Some (num0 (currentInstantVolts tx)),
        currentInstantVoltsL1 := Some (num0 (currentInstantVoltsL1 tx)),
        currentInstantVoltsL2 := Some (num0 (currentInstantVoltsL2 tx)),
        currentInstantVoltsL3 := Some (num0 (currentInstantVoltsL3 tx)),
        currentInstantVoltsDC := Some (num0 (currentInstantVoltsDC tx)),
        currentInstantAmps := Some (num0 (currentInstantAmps tx)),
        currentInstantAmpsL1 := Some (num0 (currentInstantAmpsL1 tx)),
        currentInstantAmpsL2 := Some (num0 (currentInstantAmpsL2 tx)),
        currentInstantAmpsL3 := Some (num0 (currentInstantAmpsL3 tx)),
        currentInstantAmpsDC := Some (num0 (currentInstantAmpsDC tx))\<rparr>"

definition stored_transaction :: "tx_transaction \<Rightarrow> tx_transaction" where
  "stored_transaction tx =
     (case tx_stop tx of
        None \<Rightarrow> stored_fields tx
      | Some st \<Rightarrow> without_runtime (stored_fields tx)\<lparr>tx_stop := Some (stored_stop tx st)\<rparr>)"

definition stored_consumption :: "consumption \<Rightarrow> consumption" where
  "stored_consumption c =
     c\<lparr>c_id := None, c_connectorId := Some (num0 (c_connectorId c)),
       c_consumptionWh := Some (num0 (c_consumptionWh c)), c_consumptionAmps := Some (num0 (c_consumptionAmps c)),
       c_cumulatedAmount := Some (num0 (c_cumulatedAmount c)),
       c_cumulatedConsumptionWh := Some (num0 (c_cumulatedConsumptionWh c)),
       c_cumulatedConsumptionAmps := Some (num0 (c_cumulatedConsumptionAmps c)),
       c_amount := Some (num0 (c_amount c)), c_roundedAmount := Some (num0 (c_roundedAmount c)),
       instantWatts := Some (num0 (instantWatts c)), instantWattsL1 := Some (num0 (instantWattsL1 c)),
       instantWattsL2 := Some (num0 (instantWattsL2 c)), instantWattsL3 := Some (num0 (instantWattsL3 c)),
       instantWattsDC := Some (num0 (instantWattsDC c)), instantAmps := Some (num0 (instantAmps c)),
       instantAmpsL1 := Some (num0 (instantAmpsL1 c)), instantAmpsL2 := Some (num0 (instantAmpsL2 c)),
       instantAmpsL3 := Some (num0 (instantAmpsL3 c)), instantAmpsDC := Some (num0 (instantAmpsDC c)),
       instantVolts := Some (num0 (instantVolts c)), instantVoltsL1 := Some (num0 (instantVoltsL1 c)),
       instantVoltsL2 := Some (num0 (instantVoltsL2 c)), instantVoltsL3 := Some (num0 (instantVoltsL3 c)),
       instantVoltsDC := Some (num0 (instantVoltsDC c)), c_inactivitySecs := Some (num0 (c_inactivitySecs c)),
       c_totalInactivitySecs := Some (num0 (c_totalInactivitySecs c)),
       c_totalDurationSecs := Some (num0 (c_totalDurationSecs c)), c_toPrice := False,
       c_limitAmps := Some (num0 (c_limitAmps c)), c_limitWatts := Some (num0 (c_limitWatts c)),
       c_smartChargingActive := Some (c_smartChargingActive c = Some True),
       c_limitSiteAreaWatts := (if truthy_num (c_limitSiteAreaWatts c) then c_limitSiteAreaWatts c else None),
       c_limitSiteAreaAmps := (if truthy_num (c_limitSiteAreaAmps c) then c_limitSiteAreaAmps c else None)\<rparr>"

definition filterConnectorMDB :: "connector \<Rightarrow> connector" where
  "filterConnectorMDB cn =
     cn\<lparr>cn_currentInstantWatts := Some (num0 (cn_currentInstantWatts cn)),
        cn_currentTotalInactivitySecs := Some (num0 (cn_currentTotalInactivitySecs cn)),
        cn_currentTotalConsumptionWh := Some (num0 (cn_currentTotalConsumptionWh cn)),
        cn_currentTransactionID := Some (num0 (cn_currentTransactionID cn)),
        cn_power := Some (num0 (cn_power cn)), cn_voltage := Some (num0 (cn_voltage cn)),
        cn_amperage := Some (num0 (cn_amperage cn)), cn_amperageLimit := Some (num0 (cn_amperageLimit cn))\<rparr>"

definition filterChargePointMDB :: "charge_point \<Rightarrow> charge_point" where
  "filterChargePointMDB cp =
     (let keep = (\<lambda>v. if truthy_num v then v else None) in
      cp\<lparr>cp_voltage := keep (cp_voltage cp), cp_amperage := keep (cp_amperage cp),
         cp_numberOfConnectedPhase :=
           (if truthy_num (cp_numberOfConnectedPhase cp) then cp_numberOfConnectedPhase cp else None),
         cp_power := keep (cp_power cp)\<rparr>)"

text \<open>Whether a longitude and a latitude are valid is decided by a library, here \<open>lat_long\<close>.\<close>

definition hasValidGpsCoordinates :: "(rat \<Rightarrow> rat \<Rightarrow> bool) \<Rightarrow> rat list option \<Rightarrow> bool" where
  "hasValidGpsCoordinates lat_long coordinates =
     (case coordinates of Some [lon, lat] \<Rightarrow> lon \<noteq> 0 \<and> lat \<noteq> 0 \<and> lat_long lat lon | _ \<Rightarrow> False)"

definition stored_station :: "(rat \<Rightarrow> rat \<Rightarrow> bool) \<Rightarrow> charging_station \<Rightarrow> charging_station" where
  "stored_station lat_long cs =
     cs\<lparr>cs_maximumPower := Some (num0 (cs_maximumPower cs)), cs_voltage := Some (num0 (cs_voltage cs)),
         cs_connectors := Some (case cs_connectors cs of None \<Rightarrow> [] | Some xs \<Rightarrow> map filterConnectorMDB xs),
         cs_backupConnectors := Some (case cs_backupConnectors cs of None \<Rightarrow> [] | Some xs \<Rightarrow> map filterConnectorMDB xs),
         cs_chargePoints := Some (case cs_chargePoints cs of None \<Rightarrow> [] | Some xs \<Rightarrow> map filterChargePointMDB xs),
         cs_coordinates :=
           (if hasValidGpsCoordinates lat_long (cs_coordinates cs) then cs_coordinates cs else Some [])\<rparr>"

end
