(* ===== verification/SessionState.thy ===== *)
theory SessionState
  imports SessionStore
begin

text \<open>
  The state while a message is handled: the database, and the charging station and site area the handler works
  on, which are read when the message comes and are written back where the code saves them.  The queries and the
  writes of the storage, and the runtime values of a connector (\<open>server/ocpp/utils/OCPPUtils.ts\<close>).
\<close>

section \<open>State and environment\<close>

record ocpp_store =
  db_transactions :: "tx_transaction list"
  db_consumptions :: "consumption list"
  db_meterValues :: "meter_value list"
  db_statusNotifications :: "status_notification list"
  db_station :: charging_station

record session_state = ocpp_store +
  ss_station :: charging_station
  ss_siteArea :: "site_area option"

type_synonym 'a session = "(session_state, 'a) effect"

text \<open>
  \<open>se_year\<close> is the year of a date in the time zone of the server, \<open>se_lat_long\<close> a library's check of
  coordinates.  \<open>se_template\<close> applies the vendor's template to the connector of that number, which may raise; the
  flag says that the connector was read from the store, where a missing field is null and so present.
\<close>

record session_env =
  se_meter :: meter_env
  se_pricing :: pricing_env
  se_tags :: tag_env
  se_borneVip :: bool
  se_siteArea :: "site_area option"
  se_year :: "int \<Rightarrow> int"
  se_lat_long :: "rat \<Rightarrow> rat \<Rightarrow> bool"
  se_template :: "bool \<Rightarrow> charging_station \<Rightarrow> int \<Rightarrow> charging_station res"

definition load :: "session_env \<Rightarrow> ocpp_store \<Rightarrow> session_state" where
  "load E db = ocpp_store.extend db (session_state.fields (db_station db) (se_siteArea E))"

section \<open>Queries\<close>

definition getTransaction :: "int \<Rightarrow> 'a ocpp_store_scheme \<Rightarrow> tx_transaction option" where
  "getTransaction i db = lookup_by tx_id i (db_transactions db)"

text \<open>The join that reads the badge of a transaction.\<close>

definition with_tag :: "tag_env \<Rightarrow> tx_transaction \<Rightarrow> tx_transaction" where
  "with_tag E tx = tx\<lparr>tx_tag := map_option tag.truncate (Option.bind (tx_tagID tx) (te_tags E))\<rparr>"

definition on_connector :: "string \<Rightarrow> int \<Rightarrow> tx_transaction \<Rightarrow> bool" where
  "on_connector cid i tx \<longleftrightarrow> tx_chargeBoxID tx = cid \<and> tx_connectorId tx = i"

text \<open>Only when there is exactly one.\<close>

definition getActiveTransaction :: "string \<Rightarrow> int \<Rightarrow> 'a ocpp_store_scheme \<Rightarrow> tx_transaction option" where
  "getActiveTransaction cid i db =
     (case List.filter (\<lambda>tx. on_connector cid i tx \<and> tx_stop tx = None) (db_transactions db) of
        [tx] \<Rightarrow> Some tx
      | _ \<Rightarrow> None)"

definition getLastTransactionFromChargingStation ::
    "string \<Rightarrow> int \<Rightarrow> 'a ocpp_store_scheme \<Rightarrow> tx_transaction option" where
  "getLastTransactionFromChargingStation cid i db =
     (case sort_key (\<lambda>tx. - tx_timestamp tx) (List.filter (on_connector cid i) (db_transactions db)) of
        [] \<Rightarrow> None
      | tx # _ \<Rightarrow> Some tx)"

text \<open>A missing start date is sorted after the others.\<close>

definition getLastTransactionConsumption :: "int \<Rightarrow> 'a ocpp_store_scheme \<Rightarrow> consumption option" where
  "getLastTransactionConsumption i db =
     (let cs = List.filter (\<lambda>c. c_transactionId c = Some i) (db_consumptions db);
          dated = List.filter (\<lambda>c. c_startedAt c \<noteq> None) cs
      in case sort_key (\<lambda>c. - the (c_startedAt c)) dated @ cs of [] \<Rightarrow> None | c # _ \<Rightarrow> Some c)"

text \<open>The first of the numbers drawn at random that no transaction has.\<close>

definition findAvailableID :: "int list \<Rightarrow> 'a ocpp_store_scheme \<Rightarrow> int option" where
  "findAvailableID draws db = List.find (\<lambda>i. getTransaction i db = None) draws"

section \<open>Writes\<close>

definition saveTransaction :: "tx_transaction \<Rightarrow> unit session" where
  "saveTransaction tx = updateS (\<lambda>s. s\<lparr>db_transactions := upsert tx_id (stored_transaction tx) (db_transactions s)\<rparr>)"

definition deleteTransaction :: "int \<Rightarrow> session_state \<Rightarrow> session_state" where
  "deleteTransaction i s =
     s\<lparr>db_transactions := delete_by tx_id i (db_transactions s),
       db_meterValues := delete_by mv_transactionId i (db_meterValues s),
       db_consumptions := delete_by c_transactionId (Some i) (db_consumptions s)\<rparr>"

definition consumption_key :: "consumption \<Rightarrow> int option \<times> int" where
  "consumption_key c = (c_transactionId c, c_endedAt c)"

definition saveConsumption :: "consumption \<Rightarrow> unit session" where
  "saveConsumption c =
     (if truthy_num (c_transactionId c)
      then updateS (\<lambda>s. s\<lparr>db_consumptions := upsert consumption_key (stored_consumption c) (db_consumptions s)\<rparr>)
      else throwS (PlainError ''Consumption cannot be saved: no Transaction ID or Asset ID provided''))"

text \<open>A meter value is identified by its connector, date, value and attribute, not by its transaction.\<close>

definition meter_key :: "meter_value \<Rightarrow> int \<times> int \<times> rat \<times> ocpp_attribute option" where
  "meter_key mv = (mv_connectorId mv, mv_timestamp mv, mv_value mv, mv_attribute mv)"

definition insertMeterValue :: "meter_value \<Rightarrow> unit session" where
  "insertMeterValue mv =
     (if mv_attribute mv = None then throwS TypeError
      else
        bindS (getS db_meterValues) (\<lambda>mvs.
          if lookup_by meter_key (meter_key mv) mvs \<noteq> None then throwS DuplicateKey
          else updateS (\<lambda>s. s\<lparr>db_meterValues := mvs @ [mv]\<rparr>)))"

definition saveMeterValues :: "meter_value list \<Rightarrow> unit session" where
  "saveMeterValues mvs = foldS (\<lambda>_ mv. insertMeterValue mv) () mvs"

definition status_key :: "status_notification \<Rightarrow> int \<times> charge_point_status \<times> int" where
  "status_key sn = (sn_connectorId sn, sn_status sn, sn_timestamp sn)"

definition saveStatusNotification :: "status_notification \<Rightarrow> unit session" where
  "saveStatusNotification sn =
     bindS (getS db_statusNotifications) (\<lambda>sns.
       if lookup_by status_key (status_key sn) sns \<noteq> None then throwS DuplicateKey
       else updateS (\<lambda>s. s\<lparr>db_statusNotifications := sns @ [sn]\<rparr>))"

definition saveChargingStation :: "session_env \<Rightarrow> unit session" where
  "saveChargingStation E = updateS (\<lambda>s. s\<lparr>db_station := stored_station (se_lat_long E) (ss_station s)\<rparr>)"

section \<open>Runtime values of a connector\<close>

fun update_first :: "('a \<Rightarrow> bool) \<Rightarrow> ('a \<Rightarrow> 'a) \<Rightarrow> 'a list \<Rightarrow> 'a list" where
  "update_first p f [] = []"
| "update_first p f (x # xs) = (if p x then f x # xs else x # update_first p f xs)"

definition change_connector :: "int \<Rightarrow> (connector \<Rightarrow> connector) \<Rightarrow> charging_station \<Rightarrow> charging_station" where
  "change_connector i f cs =
     cs\<lparr>cs_connectors := map_option (update_first (\<lambda>cn. cn_connectorId cn = i) f) (cs_connectors cs)\<rparr>"

definition clearChargingStationConnectorRuntimeData :: "int \<Rightarrow> charging_station \<Rightarrow> charging_station" where
  "clearChargingStationConnectorRuntimeData i cs =
     change_connector i (\<lambda>cn. cn\<lparr>cn_currentInstantWatts := Some 0, cn_currentTotalConsumptionWh := Some 0,
        cn_currentTotalInactivitySecs := Some 0, cn_currentInactivityStatus := Some INFO,
        cn_currentStateOfCharge := Some 0, cn_currentTransactionID := Some 0, cn_currentTransactionDate := None,
        cn_currentTagID := None, cn_currentUserID := None\<rparr>) cs"

text \<open>
  The level is computed for \<open>transaction.chargeBox\<close>, which the transactions of the handlers do not carry:
  without a station the interval is zero.
\<close>

definition levelWithoutStation :: "rat option \<Rightarrow> inactivity_status" where
  "levelWithoutStation secs = (if \<not> truthy_num secs then INFO else if the secs < 0 then INFO else ERROR)"

definition updateChargingStationConnectorRuntimeDataWithTransaction ::
    "tx_transaction \<Rightarrow> charging_station \<Rightarrow> charging_station" where
  "updateChargingStationConnectorRuntimeDataWithTransaction tx cs =
     (if tx_stop tx = None then
        change_connector (tx_connectorId tx) (\<lambda>cn. cn\<lparr>cn_currentInstantWatts := currentInstantWatts tx,
          cn_currentTotalConsumptionWh := currentTotalConsumptionWh tx,
          cn_currentTotalInactivitySecs := currentTotalInactivitySecs tx,
          cn_currentInactivityStatus := Some (levelWithoutStation (currentTotalInactivitySecs tx)),
          cn_currentStateOfCharge := currentStateOfCharge tx, cn_currentTransactionDate := Some (tx_timestamp tx),
          cn_currentTagID := tx_tagID tx, cn_currentTransactionID := Some (tx_id tx),
          cn_currentUserID := tx_userID tx\<rparr>) cs
      else clearChargingStationConnectorRuntimeData (tx_connectorId tx) cs)"

definition change_station :: "(charging_station \<Rightarrow> charging_station) \<Rightarrow> unit session" where
  "change_station f = updateS (\<lambda>s. s\<lparr>ss_station := f (ss_station s)\<rparr>)"

end
