(* ===== verification/SessionHandlers.thy ===== *)
theory SessionHandlers
  imports SessionState
begin

text \<open>
  The messages that start and stop a charging session (\<open>server/ocpp/services/OCPPService.ts\<close>), for a tenant
  whose car, billing, roaming and smart-charging components are inactive: their facades then do nothing.
  Notifications and log entries are left out.  The messages have passed the JSON schema.
\<close>

datatype authorization_status = AUTH_ACCEPTED | AUTH_BLOCKED | AUTH_EXPIRED | AUTH_INVALID | AUTH_CONCURRENT_TX

section \<open>Validation\<close>

text \<open>\<open>OCPPValidator\<close>: of a badge text with semicolons the second part counts.\<close>

definition cleanUpTagID :: "string \<Rightarrow> string" where
  "cleanUpTagID t =
     (if CHR 0x3B \<in> set t then takeWhile (\<lambda>c. c \<noteq> CHR 0x3B) (tl (dropWhile (\<lambda>c. c \<noteq> CHR 0x3B) t)) else t)"

text \<open>The JSON schemas of both messages have \<open>"transform": ["toUpperCase"]\<close> on the badge (badges are ASCII).\<close>

definition toUpperCase :: "string \<Rightarrow> string" where
  "toUpperCase t = map (\<lambda>c. if 97 \<le> (of_char c :: nat) \<and> (of_char c :: nat) \<le> 122 then char_of (of_char c - 32 :: nat) else c) t"

definition badge_text :: "string \<Rightarrow> string" where
  "badge_text t = toUpperCase (cleanUpTagID t)"

definition validateStartTransaction :: "charging_station \<Rightarrow> start_request \<Rightarrow> start_request res" where
  "validateStartTransaction cs so =
     (if getConnectorFromID cs (sr_connectorId so) = None then Inl (BackendError ''The Connector ID is invalid'')
      else Inr (so\<lparr>sr_idTag := badge_text (sr_idTag so)\<rparr>))"

definition validateStopTransaction :: "charging_station option \<Rightarrow> stop_message \<Rightarrow> stop_message res" where
  "validateStopTransaction cs msg =
     (case cs of
        None \<Rightarrow> Inl TypeError
      | Some _ \<Rightarrow> Inr (msg\<lparr>sm_idTag := map_option badge_text (sm_idTag msg)\<rparr>))"

section \<open>Consumptions of a session\<close>

type_synonym pricing_step =
  "runtime \<Rightarrow> pricing_env \<Rightarrow> charging_station \<Rightarrow> tx_transaction \<times> consumption \<Rightarrow> (tx_transaction \<times> consumption) res"

definition apply_consumption ::
    "runtime \<Rightarrow> session_env \<Rightarrow> pricing_step \<Rightarrow> tx_transaction \<Rightarrow> consumption \<Rightarrow> tx_transaction session" where
  "apply_consumption R E priced tx c =
     bindS (getS ss_station) (\<lambda>cs.
       let tx1 = updateTransactionWithConsumption R cs c tx in
       bindS (if c_toPrice c then liftS (priced R (se_pricing E) cs (tx1, c)) else returnS (tx1, c)) (\<lambda>(tx2, c2).
       thenS (saveConsumption c2) (returnS tx2)))"

definition create_consumptions ::
    "runtime \<Rightarrow> session_env \<Rightarrow> tx_transaction \<Rightarrow> meter_value list \<Rightarrow> (consumption list \<times> tx_transaction) session" where
  "create_consumptions R E tx mvs =
     bindS (getS (\<lambda>s. (ss_station s, ss_siteArea s))) (\<lambda>(cs, sa).
     bindS (liftS (createConsumptionsFromMeterValues R (se_meter E) cs (sa, tx) mvs)) (\<lambda>(cons, sa', tx').
     thenS (updateS (\<lambda>s. s\<lparr>ss_siteArea := sa'\<rparr>)) (returnS (cons, tx'))))"

section \<open>Stop of a session\<close>

definition bypassStopTransaction :: "stop_message \<Rightarrow> bool" where
  "bypassStopTransaction msg \<longleftrightarrow> sm_transactionId msg = 0"

definition getTransactionFromStopTransaction :: "session_env \<Rightarrow> stop_message \<Rightarrow> tx_transaction session" where
  "getTransactionFromStopTransaction E msg =
     bindS (getS (getTransaction (sm_transactionId msg))) (\<lambda>tx.
       case tx of
         None \<Rightarrow> throwS (BackendError ''Transaction does not exist'')
       | Some tx \<Rightarrow> returnS (with_tag (se_tags E) tx))"

definition getStopTransactionTagId :: "runtime \<Rightarrow> stop_message \<Rightarrow> tx_transaction \<Rightarrow> string option" where
  "getStopTransactionTagId R msg tx =
     (let provided = (if truthy_str (sm_idTag msg) then sm_idTag msg else tx_tagID tx) in
      case tx_remotestop tx of
        None \<Rightarrow> provided
      | Some rs \<Rightarrow>
          if fl R Divide (of_int (clock R - rs_timestamp rs)) 1000 < 60 then Some (rs_tagID rs) else provided)"

text \<open>A missing badge text is read as the identifier nothing has.\<close>

definition UNKNOWN_STRING_ID :: string where
  "UNKNOWN_STRING_ID = replicate 24 CHR 0x30"

definition tag_text :: "string option \<Rightarrow> string" where
  "tag_text t = (case t of None \<Rightarrow> UNKNOWN_STRING_ID | Some t \<Rightarrow> t)"

definition checkAuthorizeStopTransactionAndGetUsers ::
    "tag_env \<Rightarrow> charging_station \<Rightarrow> site_area option \<Rightarrow> tx_transaction \<Rightarrow> string option \<Rightarrow> bool \<Rightarrow>
       (user option \<times> user option) res" where
  "checkAuthorizeStopTransactionAndGetUsers T cs sa tx tagID isStoppedByCentralSystem =
     bindE (if isStoppedByCentralSystem then Inr (getUserByTagID T (tag_text tagID), None)
            else isAuthorizedToStopTransaction T cs sa (tag_text (tx_tagID tx)) (tag_text tagID)) (\<lambda>users.
       if tx_stop tx \<noteq> None then Inl (BackendError ''Transaction has already been stopped'') else Inr users)"

definition checkSoftStopTransaction :: "tx_transaction \<Rightarrow> stop_message \<Rightarrow> bool \<Rightarrow> stop_message" where
  "checkSoftStopTransaction tx msg isSoftStop =
     (if isSoftStop
      then msg\<lparr>so_meterStop := (case lastConsumption tx of None \<Rightarrow> 0 | Some lc \<Rightarrow> lc_value lc)\<rparr> else msg)"

text \<open>Adding to an undefined number gives no number, which stays undefined here.\<close>

definition add_end_inactivity :: "runtime \<Rightarrow> stop_message \<Rightarrow> tx_transaction \<Rightarrow> tx_transaction" where
  "add_end_inactivity R msg tx =
     (case lastConsumption tx of
        None \<Rightarrow> tx
      | Some lc \<Rightarrow>
          (let inactivitySecs = num R (d_div R (of_int (so_timestamp msg - lc_timestamp lc)) 1000) in
           if 0 < inactivitySecs
           then tx\<lparr>currentTotalInactivitySecs :=
                     map_option (\<lambda>v. fl R Plus v inactivitySecs) (currentTotalInactivitySecs tx),
                   currentTotalDurationSecs :=
                     map_option (\<lambda>v. fl R Plus v inactivitySecs) (currentTotalDurationSecs tx)\<rparr>
           else tx))"

definition checkAndApplyLastConsumptionInStopTransaction ::
    "runtime \<Rightarrow> session_env \<Rightarrow> tx_transaction \<Rightarrow> stop_message \<Rightarrow> tx_transaction session" where
  "checkAndApplyLastConsumptionInStopTransaction R E tx msg =
     (if transactionEndReceived tx then returnS (add_end_inactivity R msg tx)
      else
        bindS (getS ss_station) (\<lambda>cs.
        bindS (create_consumptions R E tx (createTransactionStopMeterValues R cs tx (stop_request.truncate msg)))
          (\<lambda>(cons, tx1). foldS (apply_consumption R E processStopTransaction) tx1 cons)))"

definition signed_data :: "tx_transaction \<Rightarrow> value_format option \<times> reading_context option \<times> string \<Rightarrow> tx_transaction" where
  "signed_data tx v =
     (let (format, context, text) = v in
      if format \<noteq> Some SIGNED_DATA then tx
      else if context = Some TRANSACTION_BEGIN then tx\<lparr>tx_signedData := Some text\<rparr>
      else if context = Some TRANSACTION_END then tx\<lparr>currentSignedData := Some text\<rparr>
      else tx)"

definition checkAndUpdateTransactionWithSignedDataInStopTransaction :: "tx_transaction \<Rightarrow> stop_message \<Rightarrow> tx_transaction" where
  "checkAndUpdateTransactionWithSignedDataInStopTransaction tx msg = foldl signed_data tx (sm_transactionData msg)"

definition stop_transaction ::
    "runtime \<Rightarrow> session_env \<Rightarrow> stop_message \<Rightarrow> bool \<Rightarrow> bool \<Rightarrow> tx_transaction \<Rightarrow> authorization_status session" where
  "stop_transaction R E msg isSoftStop isStoppedByCentralSystem tx =
     (let tagID = getStopTransactionTagId R msg tx in
      bindS (getS (\<lambda>s. (ss_station s, ss_siteArea s))) (\<lambda>(cs, sa).
      bindS (liftS (checkAuthorizeStopTransactionAndGetUsers (se_tags E) cs sa tx tagID isStoppedByCentralSystem))
        (\<lambda>(user, alternateUser).
      thenS (change_station (clearChargingStationConnectorRuntimeData (tx_connectorId tx)))
      (thenS (saveChargingStation E)
      (let msg1 = checkSoftStopTransaction tx msg isSoftStop in
      bindS (checkAndApplyLastConsumptionInStopTransaction R E tx msg1) (\<lambda>tx1.
      let tx2 = checkAndUpdateTransactionWithSignedDataInStopTransaction tx1 msg1 in
      bindS (getS ss_station) (\<lambda>cs1.
      let tx3 = updateTransactionWithStopTransaction tx2 cs1 (stop_request.truncate msg1)
            (map_option us_id user) (map_option us_id alternateUser) tagID isSoftStop in
      thenS (saveTransaction tx3) (returnS AUTH_ACCEPTED))))))))"

definition stop_body ::
    "runtime \<Rightarrow> session_env \<Rightarrow> stop_message \<Rightarrow> bool \<Rightarrow> bool \<Rightarrow> authorization_status session" where
  "stop_body R E msg isSoftStop isStoppedByCentralSystem =
     (if bypassStopTransaction msg then returnS AUTH_ACCEPTED
      else
        bindS (getTransactionFromStopTransaction E msg)
          (stop_transaction R E msg isSoftStop isStoppedByCentralSystem))"

text \<open>
  The station comes in the header of the message: \<open>None\<close> when the caller leaves it out.
\<close>

definition handleStopTransaction ::
    "runtime \<Rightarrow> session_env \<Rightarrow> bool \<Rightarrow> stop_message \<Rightarrow> bool \<Rightarrow> bool \<Rightarrow> session_state \<Rightarrow>
       authorization_status \<times> session_state" where
  "handleStopTransaction R E with_station msg isSoftStop isStoppedByCentralSystem =
     tryS (bindS (getS ss_station) (\<lambda>cs.
           bindS (liftS (validateStopTransaction (if with_station then Some cs else None) msg)) (\<lambda>msg1.
             stop_body R E msg1 isSoftStop isStoppedByCentralSystem)))
       (\<lambda>_. AUTH_INVALID)"

section \<open>Sessions that were not stopped\<close>

definition pending_stop :: "tx_transaction \<Rightarrow> stop_message" where
  "pending_stop tx =
     \<lparr>so_meterStop = (case lastConsumption tx of None \<Rightarrow> tx_meterStart tx | Some lc \<Rightarrow> lc_value lc),
      so_timestamp = (case lastConsumption tx of None \<Rightarrow> tx_timestamp tx | Some lc \<Rightarrow> lc_timestamp lc),
      so_reason = None, sm_transactionId = tx_id tx, sm_idTag = None, sm_transactionData = []\<rparr>"

text \<open>The header of the simulated stop holds no station.\<close>

definition no_consumption :: "tx_transaction \<Rightarrow> bool" where
  "no_consumption tx \<longleftrightarrow> (case currentTotalConsumptionWh tx of None \<Rightarrow> False | Some wh \<Rightarrow> wh \<le> 0)"

definition end_pending :: "runtime \<Rightarrow> session_env \<Rightarrow> tx_transaction \<Rightarrow> session_state \<Rightarrow> session_state" where
  "end_pending R E tx s =
     (if no_consumption tx
      then (let s1 = deleteTransaction (tx_id tx) s in
            s1\<lparr>ss_station := clearChargingStationConnectorRuntimeData (tx_connectorId tx) (ss_station s1)\<rparr>)
      else snd (handleStopTransaction R E False (pending_stop tx) False True s))"

lemma stop_without_station: "handleStopTransaction R E False msg soft central s = (AUTH_INVALID, s)"
  by (simp add: handleStopTransaction_def validateStopTransaction_def tryS_def effect_simps)

text \<open>How much the loop can still do: two rounds for each transaction, and one unless this one was seen.\<close>

definition rounds_left :: "int \<Rightarrow> int option \<Rightarrow> session_state \<Rightarrow> nat" where
  "rounds_left i seen s =
     2 * length (db_transactions s)
     + (case getActiveTransaction (cs_id (ss_station s)) i s of
          None \<Rightarrow> 0 | Some tx \<Rightarrow> if seen = Some (tx_id tx) then 0 else 1)"

lemma rounds_left_le: "rounds_left i seen s \<le> 2 * length (db_transactions s) + 1"
  by (simp add: rounds_left_def split: option.split)

lemma active_is_stored:
  "getActiveTransaction cid i s = Some tx \<Longrightarrow> tx \<in> set (db_transactions s) \<and> tx_stop tx = None \<and> on_connector cid i tx"
  by (auto simp: getActiveTransaction_def filter_eq_Cons_iff split: list.splits)

lemma delete_shortens: "d \<in> set ds \<Longrightarrow> length (delete_by key (key d) ds) < length ds"
  by (simp add: delete_by_def length_filter_less)

lemma rounds_left_decreases:
  assumes "getActiveTransaction (cs_id (ss_station s)) i s = Some tx" "seen \<noteq> Some (tx_id tx)"
  shows "rounds_left i (Some (tx_id tx)) (end_pending R E tx s) < rounds_left i seen s"
proof (cases "no_consumption tx")
  case True
  let ?s = "end_pending R E tx s"
  from active_is_stored [OF assms(1)] delete_shortens [of tx "db_transactions s" tx_id]
  have "length (db_transactions ?s) < length (db_transactions s)"
    by (simp add: end_pending_def True deleteTransaction_def)
  moreover have "rounds_left i seen s = 2 * length (db_transactions s) + 1"
    using assms by (simp add: rounds_left_def)
  ultimately show ?thesis using rounds_left_le [of i "Some (tx_id tx)" ?s] by simp
next
  case False
  then show ?thesis using assms by (simp add: end_pending_def stop_without_station rounds_left_def)
qed

function processExistingTransaction ::
    "runtime \<Rightarrow> session_env \<Rightarrow> int \<Rightarrow> int option \<Rightarrow> session_state \<Rightarrow> session_state" where
  "processExistingTransaction R E i seen s =
     (case getActiveTransaction (cs_id (ss_station s)) i s of
        None \<Rightarrow> s
      | Some tx \<Rightarrow>
          if seen = Some (tx_id tx) then s
          else processExistingTransaction R E i (Some (tx_id tx)) (end_pending R E tx s))"
  by pat_completeness auto

termination
  by (relation "measure (\<lambda>(R, E, i, seen, s). rounds_left i seen s)") (auto intro: rounds_left_decreases)

declare processExistingTransaction.simps [simp del]

end
