(* ===== verification/SessionMessages.thy ===== *)
theory SessionMessages
  imports SessionHandlers
begin

text \<open>
  The other messages of a station (\<open>server/ocpp/services/OCPPService.ts\<close>): the start of a session, the meter
  values and the status of a connector, and the soft stop the REST server asks for.  The last section serves a
  message: the station is read, the message is handled, what is in memory is forgotten.
\<close>

section \<open>Start of a session\<close>

definition createTransaction :: "runtime \<Rightarrow> session_env \<Rightarrow> charging_station \<Rightarrow> int \<Rightarrow> start_request \<Rightarrow> tx_transaction" where
  "createTransaction R E cs i so =
     (let org = (\<lambda>v. if me_organizationActive (se_meter E) then v else None) in
      \<lparr>currentConsumptionWh = Some 0, currentTotalConsumptionWh = Some 0, currentInstantWatts = Some 0,
       currentInstantWattsL1 = None, currentInstantWattsL2 = None, currentInstantWattsL3 = None,
       currentInstantWattsDC = None, currentInstantVolts = None, currentInstantVoltsL1 = None,
       currentInstantVoltsL2 = None, currentInstantVoltsL3 = None, currentInstantVoltsDC = None,
       currentInstantAmps = None, currentInstantAmpsL1 = None, currentInstantAmpsL2 = None,
       currentInstantAmpsL3 = None, currentInstantAmpsDC = None, currentStateOfCharge = Some 0,
       lastConsumption = Some \<lparr>lc_value = sr_meterStart so, lc_timestamp = sr_timestamp so\<rparr>,
       tx_id = i, tx_issuer = True, tx_companyID = org (cs_companyID cs), tx_siteID = org (cs_siteID cs),
       tx_siteAreaID = org (cs_siteAreaID cs), tx_chargeBoxID = cs_id cs, tx_connectorId = sr_connectorId so,
       tx_tagID = Some (sr_idTag so), tx_tag = None, tx_userID = None, tx_meterStart = sr_meterStart so,
       tx_timestamp = sr_timestamp so, tx_timezone = getTimezone R (cs_coordinates cs), tx_stateOfCharge = Some 0,
       tx_stop = None, tx_price = None, tx_roundedPrice = None, tx_priceUnit = None, tx_pricingSource = None,
       tx_pricingModel = None, currentTimestamp = None, currentTotalInactivitySecs = Some 0,
       currentInactivityStatus = Some INFO, currentTotalDurationSecs = None, currentCumulatedPrice = None,
       currentCumulatedRoundedPrice = None, currentSignedData = None, tx_phasesUsed = None,
       numberOfMeterValues = 0, transactionEndReceived = False, tx_remotestop = None, tx_signedData = Some []\<rparr>)"

text \<open>
  The private connectors of the component \<open>BORNE_VIP\<close>: a user that is no administrator must own the connector.
  When the connector has no list of owners, reading it raises, and the handler goes on.
\<close>

definition refused_by_owners :: "charging_station \<Rightarrow> int \<Rightarrow> user \<Rightarrow> bool" where
  "refused_by_owners cs i u =
     (case getConnectorFromID cs i of
        None \<Rightarrow> False
      | Some cn \<Rightarrow>
          cn_isPrivate cn \<and> (case cn_ownerIds cn of None \<Rightarrow> False | Some owners \<Rightarrow> us_id u \<notin> set owners))"

definition checkPrivateConnector :: "session_env \<Rightarrow> charging_station \<Rightarrow> int \<Rightarrow> user option \<Rightarrow> bool res" where
  "checkPrivateConnector E cs i u =
     (if se_borneVip E then
        (case u of
           None \<Rightarrow> Inl TypeError
         | Some v \<Rightarrow> Inr (us_role v \<noteq> ADMIN \<and> refused_by_owners cs i v))
      else Inr False)"

text \<open>The number of the session, or zero when it is refused.\<close>

definition first_priced :: "runtime \<Rightarrow> session_env \<Rightarrow> tx_transaction \<Rightarrow> tx_transaction session" where
  "first_priced R E tx =
     bindS (getS (\<lambda>s. (ss_station s, ss_siteArea s))) (\<lambda>(cs, sa).
     bindS (liftS (createFirstConsumption R (se_meter E) cs (sa, tx))) (\<lambda>(c, sa1, tx1).
     thenS (updateS (\<lambda>s. s\<lparr>ss_siteArea := sa1\<rparr>))
     (bindS (case c of None \<Rightarrow> throwS TypeError
             | Some c \<Rightarrow> liftS (processStartTransaction R (se_pricing E) cs (tx1, c))) (\<lambda>(tx2, _).
        returnS tx2))))"

definition start_transaction ::
    "runtime \<Rightarrow> session_env \<Rightarrow> start_request \<Rightarrow> tx_transaction \<Rightarrow> (int \<times> authorization_status) session" where
  "start_transaction R E so tx =
     thenS (updateS (processExistingTransaction R E (sr_connectorId so) None))
     (bindS (first_priced R E tx) (\<lambda>tx2.
      thenS (saveTransaction tx2)
      (thenS (change_station (updateChargingStationConnectorRuntimeDataWithTransaction tx2))
      (thenS (saveChargingStation E)
      (returnS (tx_id tx2, AUTH_ACCEPTED))))))"

definition start_body :: "runtime \<Rightarrow> session_env \<Rightarrow> int \<Rightarrow> start_request \<Rightarrow> (int \<times> authorization_status) session" where
  "start_body R E i so0 =
     bindS (getS (\<lambda>s. (ss_station s, ss_siteArea s))) (\<lambda>(cs, sa).
     bindS (liftS (validateStartTransaction cs so0)) (\<lambda>so.
     let tx0 = createTransaction R E cs i so in
     bindS (liftS (isAuthorizedToStartTransaction (se_tags E) cs sa (sr_idTag so))) (\<lambda>(u, b).
     let tx = tx0\<lparr>tx_userID := (case u of None \<Rightarrow> tx_userID tx0 | Some v \<Rightarrow> Some (us_id v)),
                  tx_tag := map_option tag.truncate b\<rparr> in
     bindS (getS db_station) (\<lambda>csGot.
     bindS (liftS (checkPrivateConnector E csGot (sr_connectorId so) u)) (\<lambda>refused.
     if refused then returnS (0, AUTH_INVALID) else start_transaction R E so tx)))))"

definition handleStartTransaction ::
    "runtime \<Rightarrow> session_env \<Rightarrow> int \<Rightarrow> start_request \<Rightarrow> session_state \<Rightarrow> (int \<times> authorization_status) \<times> session_state" where
  "handleStartTransaction R E i so = tryS (start_body R E i so) (\<lambda>_. (0, AUTH_INVALID))"

section \<open>Meter values\<close>

text \<open>A session that is unknown or over makes the server stop the station's session before it raises.\<close>

definition getTransactionFromMeterValues :: "session_env \<Rightarrow> meter_request \<Rightarrow> tx_transaction session" where
  "getTransactionFromMeterValues E r =
     (if mr_transactionId r = 0 then throwS (BackendError ''Meter Values are not linked to a transaction and will be ignored'')
      else
        bindS (getS (getTransaction (mr_transactionId r))) (\<lambda>tx.
          case tx of
            None \<Rightarrow> throwS (BackendError ''Transaction does not exist'')
          | Some tx \<Rightarrow>
              if tx_stop tx \<noteq> None then throwS (BackendError ''Transaction has already been stopped'')
              else returnS (with_tag (se_tags E) tx)))"

definition with_phases_used :: "charging_station \<Rightarrow> tx_transaction \<Rightarrow> tx_transaction" where
  "with_phases_used cs tx =
     (if tx_phasesUsed tx = None \<and> checkIfPhasesProvidedInTransactionInProgress tx \<and> 1 \<le> numberOfMeterValues tx
      then tx\<lparr>tx_phasesUsed := Some (getUsedPhasesInTransactionInProgress cs tx)\<rparr> else tx)"

definition meter_transaction ::
    "runtime \<Rightarrow> session_env \<Rightarrow> charging_station \<Rightarrow> meter_value list \<Rightarrow> tx_transaction \<Rightarrow> tx_transaction session" where
  "meter_transaction R E cs mvs tx =
     thenS (saveMeterValues mvs)
     (bindS (liftS (updateTransactionWithMeterValues R cs tx mvs)) (\<lambda>tx1.
      bindS (create_consumptions R E tx1 mvs) (\<lambda>(cons, tx2).
      bindS (foldS (apply_consumption R E processUpdateTransaction) tx2 cons) (\<lambda>tx3.
        returnS (with_phases_used cs tx3)))))"

definition values_of :: "charging_station \<Rightarrow> meter_request \<Rightarrow> meter_value list" where
  "values_of cs r = filterMeterValuesOnSpecificChargingStations cs (normalizeMeterValues cs (validateMeterValues cs r))"

definition meter_values_of :: "runtime \<Rightarrow> session_env \<Rightarrow> meter_request \<Rightarrow> charging_station \<Rightarrow> unit session" where
  "meter_values_of R E r0 cs =
     (if values_of cs r0 = [] then returnS ()
      else
        bindS (getTransactionFromMeterValues E (validateMeterValues cs r0)) (\<lambda>tx.
        bindS (meter_transaction R E cs (values_of cs r0) tx) (\<lambda>tx4.
        thenS (saveTransaction tx4)
        (thenS (change_station (updateChargingStationConnectorRuntimeDataWithTransaction tx4))
        (saveChargingStation E)))))"

definition meter_values_body :: "runtime \<Rightarrow> session_env \<Rightarrow> meter_request \<Rightarrow> unit session" where
  "meter_values_body R E r = bindS (getS ss_station) (meter_values_of R E r)"

definition handleMeterValues :: "runtime \<Rightarrow> session_env \<Rightarrow> meter_request \<Rightarrow> session_state \<Rightarrow> session_state" where
  "handleMeterValues R E r s = snd (tryS (meter_values_body R E r) (\<lambda>_. ()) s)"

section \<open>Status of a connector\<close>

text \<open>A date in the year of the epoch counts as missing; \<open>given\<close> is the date of the message.\<close>

definition validateStatusNotification ::
    "runtime \<Rightarrow> session_env \<Rightarrow> int option \<Rightarrow> status_notification \<Rightarrow> status_notification" where
  "validateStatusNotification R E given sn =
     sn\<lparr>sn_timestamp := (case given of None \<Rightarrow> clock R
          | Some t \<Rightarrow> if se_year E t = se_year E 0 then clock R else t)\<rparr>"

definition unchanged_status :: "status_notification \<Rightarrow> connector \<Rightarrow> bool" where
  "unchanged_status sn cn \<longleftrightarrow>
     sn_status sn = cn_status cn \<and> sn_info sn = cn_info cn \<and> Some (sn_errorCode sn) = cn_errorCode cn
     \<and> sn_vendorErrorCode sn = cn_vendorErrorCode cn"

definition new_connector :: "int \<Rightarrow> connector" where
  "new_connector i =
     \<lparr>cn_connectorId = i, cn_status = UNAVAILABLE, cn_power = Some 0, cn_type = Some UNKNOWN, cn_voltage = None,
      cn_amperage = None, cn_amperageLimit = None, cn_numberOfConnectedPhase = None, cn_currentType = None,
      cn_currentTransactionID = Some 0, cn_currentUserID = None, cn_currentTagID = None,
      cn_currentTransactionDate = None, cn_currentInstantWatts = Some 0, cn_currentStateOfCharge = None,
      cn_currentTotalConsumptionWh = None, cn_currentTotalInactivitySecs = None, cn_currentInactivityStatus = None,
      cn_errorCode = None, cn_info = None, cn_vendorErrorCode = None, cn_statusLastChangedOn = None,
      cn_isPrivate = False, cn_ownerIds = None, cn_chargePointID = None, cn_phaseAssignmentToGrid = None,
      cn_id = None, cn_tariffID = None, cn_tariffIDs = None\<rparr>"

text \<open>The connector is one the station has, one it had, or a new one; the last two get the template.\<close>

definition add_connector :: "session_env \<Rightarrow> int \<Rightarrow> charging_station \<Rightarrow> charging_station res" where
  "add_connector E i cs =
     (case cs_connectors cs of
        None \<Rightarrow> Inl TypeError
      | Some cns \<Rightarrow>
          (case getLastSeenConnectorFromID cs i of
             None \<Rightarrow> se_template E False (cs\<lparr>cs_connectors := Some (cns @ [new_connector i])\<rparr>) i
           | Some cn \<Rightarrow>
               se_template E True
                 (cs\<lparr>cs_connectors := Some (cns @ [cn]),
                     cs_backupConnectors :=
                       map_option (List.filter (\<lambda>b. cn_connectorId b \<noteq> i)) (cs_backupConnectors cs)\<rparr>) i))"

definition checkAndGetConnectorFromStatusNotification ::
    "session_env \<Rightarrow> charging_station \<Rightarrow> status_notification \<Rightarrow> (charging_station \<times> bool) res" where
  "checkAndGetConnectorFromStatusNotification E cs sn =
     (case getConnectorFromID cs (sn_connectorId sn) of
        None \<Rightarrow> bindE (add_connector E (sn_connectorId sn) cs) (\<lambda>cs'. Inr (cs', False))
      | Some cn \<Rightarrow> Inr (cs, unchanged_status sn cn))"

definition buildAndPriceExtraConsumptionInactivity ::
    "runtime \<Rightarrow> session_env \<Rightarrow> tx_transaction \<Rightarrow> tx_transaction session" where
  "buildAndPriceExtraConsumptionInactivity R E tx =
     bindS (getS (\<lambda>s. (ss_station s, getLastTransactionConsumption (tx_id tx) s))) (\<lambda>(cs, stored).
       case buildExtraConsumptionInactivity R tx stored of
         None \<Rightarrow> returnS tx
       | Some c \<Rightarrow>
           bindS (if c_toPrice c then liftS (processEndTransaction R (se_pricing E) cs (tx, c)) else returnS (tx, c))
             (\<lambda>(tx1, c1).
           thenS (saveConsumption c1)
           (returnS (tx1\<lparr>tx_stop := map_option (\<lambda>st. st\<lparr>ts_timestamp := c_endedAt c1,
              ts_totalDurationSecs := Some (fl R Divide (of_int (c_endedAt c1 - tx_timestamp tx1)) 1000),
              ts_price := currentCumulatedPrice tx1, ts_roundedPrice := currentCumulatedRoundedPrice tx1\<rparr>)
              (tx_stop tx1)\<rparr>))))"

definition occupied_status :: "charge_point_status \<Rightarrow> bool" where
  "occupied_status st \<longleftrightarrow> st \<in> {FINISHING, CHARGING, SUSPENDED_EV, SUSPENDED_EVSE, OCCUPIED, UNAVAILABLE}"

definition set_extra_inactivity :: "rat \<Rightarrow> tx_transaction \<Rightarrow> tx_transaction" where
  "set_extra_inactivity secs tx = tx\<lparr>tx_stop := map_option (\<lambda>st. st\<lparr>ts_extraInactivitySecs := Some secs\<rparr>) (tx_stop tx)\<rparr>"

definition extra_inactivity_secs :: "runtime \<Rightarrow> transaction_stop \<Rightarrow> status_notification \<Rightarrow> rat" where
  "extra_inactivity_secs R st sn =
     (let secs = of_int \<lfloor>d_div R (of_int (sn_timestamp sn - ts_timestamp st)) 1000\<rfloor> in if secs < 0 then 0 else secs)"

definition checkAndComputeTransactionExtraInactivityFromStatusNotification ::
    "runtime \<Rightarrow> session_env \<Rightarrow> tx_transaction \<Rightarrow> transaction_stop \<Rightarrow> charge_point_status \<Rightarrow> status_notification \<Rightarrow>
       tx_transaction session" where
  "checkAndComputeTransactionExtraInactivityFromStatusNotification R E tx st previous sn =
     (if ts_extraInactivityComputed st then returnS tx
      else
        bindS (getS ss_station) (\<lambda>cs.
        let secs = (if occupied_status previous \<and> sn_status sn = AVAILABLE then extra_inactivity_secs R st sn else 0);
            tx1 = set_extra_inactivity secs tx in
        bindS
          (if 0 < secs then
             buildAndPriceExtraConsumptionInactivity R E
               (tx1\<lparr>tx_stop := map_option (\<lambda>st. st\<lparr>ts_inactivityStatus := Some (getInactivityStatusLevel cs
                  (tx_connectorId tx) (map_option (\<lambda>v. fl R Plus v secs) (ts_totalInactivitySecs st)))\<rparr>) (tx_stop tx1)\<rparr>)
           else returnS tx1)
          (\<lambda>tx2. returnS (tx2\<lparr>tx_stop := map_option (\<lambda>st. st\<lparr>ts_extraInactivityComputed := True\<rparr>) (tx_stop tx2)\<rparr>))))"

text \<open>Without billing, a session whose extra inactivity is known counts as updated.\<close>

definition checkAndBillTransaction :: "tx_transaction \<Rightarrow> bool" where
  "checkAndBillTransaction tx \<longleftrightarrow> (case tx_stop tx of None \<Rightarrow> False | Some st \<Rightarrow> ts_extraInactivityComputed st)"

definition update_completed ::
    "runtime \<Rightarrow> session_env \<Rightarrow> tx_transaction \<Rightarrow> charge_point_status \<Rightarrow> status_notification \<Rightarrow> unit session" where
  "update_completed R E tx previous sn =
     thenS
       (case tx_stop tx of
          None \<Rightarrow> returnS ()
        | Some st \<Rightarrow>
            bindS (checkAndComputeTransactionExtraInactivityFromStatusNotification R E tx st previous sn) (\<lambda>tx1.
              whenS (\<not> ts_extraInactivityComputed st \<or> checkAndBillTransaction tx1) (saveTransaction tx1)))
       (change_station (clearChargingStationConnectorRuntimeData (tx_connectorId tx)))"

definition checkAndUpdateLastCompletedTransactionFromStatusNotification ::
    "runtime \<Rightarrow> session_env \<Rightarrow> status_notification \<Rightarrow> charge_point_status \<Rightarrow> unit session" where
  "checkAndUpdateLastCompletedTransactionFromStatusNotification R E sn previous =
     (if sn_status sn = AVAILABLE \<or> sn_status sn = PREPARING then
        bindS (getS (\<lambda>s. getLastTransactionFromChargingStation (cs_id (ss_station s)) (sn_connectorId sn) s)) (\<lambda>tx.
          case tx of
            None \<Rightarrow> returnS ()
          | Some tx \<Rightarrow> attemptS (update_completed R E tx previous sn) (\<lambda>_. ()))
      else returnS ())"

definition set_status :: "status_notification \<Rightarrow> connector \<Rightarrow> connector" where
  "set_status sn cn =
     cn\<lparr>cn_connectorId := sn_connectorId sn, cn_status := sn_status sn, cn_errorCode := Some (sn_errorCode sn),
        cn_info := sn_info sn, cn_vendorErrorCode := sn_vendorErrorCode sn,
        cn_statusLastChangedOn := Some (sn_timestamp sn)\<rparr>"

definition sort_connectors :: "charging_station \<Rightarrow> charging_station" where
  "sort_connectors cs = cs\<lparr>cs_connectors := map_option (sort_key cn_connectorId) (cs_connectors cs)\<rparr>"

definition processConnectorFromStatusNotification :: "runtime \<Rightarrow> session_env \<Rightarrow> status_notification \<Rightarrow> unit session" where
  "processConnectorFromStatusNotification R E sn =
     bindS (getS ss_station) (\<lambda>cs.
     bindS (liftS (checkAndGetConnectorFromStatusNotification E cs sn)) (\<lambda>(cs1, ignored).
     thenS (change_station (\<lambda>_. cs1))
     (whenS (\<not> ignored)
       (thenS (checkAndUpdateLastCompletedTransactionFromStatusNotification R E sn
                 (case getConnectorFromID cs1 (sn_connectorId sn) of None \<Rightarrow> UNAVAILABLE | Some cn \<Rightarrow> cn_status cn))
       (thenS (change_station (change_connector (sn_connectorId sn) (set_status sn)))
       (thenS (saveStatusNotification sn)
       (thenS (change_station sort_connectors)
       (saveChargingStation E))))))))"

definition handleStatusNotification ::
    "runtime \<Rightarrow> session_env \<Rightarrow> int option \<Rightarrow> status_notification \<Rightarrow> session_state \<Rightarrow> session_state" where
  "handleStatusNotification R E given sn0 s =
     (let sn = validateStatusNotification R E given sn0 in
      if sn_connectorId sn \<le> 0 then s
      else snd (tryS (processConnectorFromStatusNotification R E sn) (\<lambda>_. ()) s))"

section \<open>Soft stop\<close>

text \<open>
  The stop the REST server asks for (\<open>server/rest/v1/service/TransactionService.ts\<close>), of a transaction read
  without its station.  When the stop of the session is refused, the transaction is closed with the values it had;
  the station the code hands on is then undefined, which is a station without connectors for the level of the
  inactivity.
\<close>

definition soft_stop :: "tx_transaction \<Rightarrow> stop_message" where
  "soft_stop tx = (pending_stop tx)\<lparr>sm_idTag := tx_tagID tx\<rparr>"

definition force_stop :: "charging_station \<Rightarrow> tx_transaction \<Rightarrow> tx_transaction" where
  "force_stop cs tx =
     updateTransactionWithStopTransaction tx (cs\<lparr>cs_connectors := None\<rparr>) (stop_request.truncate (soft_stop tx))
       None None (tx_tagID tx) True"

definition softStopTransaction :: "runtime \<Rightarrow> session_env \<Rightarrow> tx_transaction \<Rightarrow> unit session" where
  "softStopTransaction R E tx s =
     (if me_organizationActive (se_meter E) \<and> ss_siteArea s = None
      then (Inl (BackendError ''The Site Area is mandatory''), s)
      else
        (let (status, s1) = handleStopTransaction R E True (soft_stop tx) True False s in
         if status = AUTH_ACCEPTED then (Inr (), s1)
         else saveTransaction (force_stop (ss_station s1) tx) s1))"

definition saveChargingStationConnectors :: "unit session" where
  "saveChargingStationConnectors =
     updateS (\<lambda>s. s\<lparr>db_station := (db_station s)\<lparr>cs_connectors :=
       map_option (map filterConnectorMDB) (cs_connectors (ss_station s))\<rparr>\<rparr>)"

definition transactionSoftStop :: "runtime \<Rightarrow> session_env \<Rightarrow> tx_transaction \<Rightarrow> connector \<Rightarrow> unit session" where
  "transactionSoftStop R E tx cn =
     (if tx_stop tx \<noteq> None then
        whenS (cn_currentTransactionID cn = Some (tx_id tx))
          (thenS (change_station (clearChargingStationConnectorRuntimeData (tx_connectorId tx)))
          saveChargingStationConnectors)
      else
        bindS (getS ss_station) (\<lambda>cs.
          if \<not> cs_inactive cs \<and> cn_currentTransactionID cn = Some (tx_id tx)
          then throwS (BackendError ''Cannot soft stop an ongoing Transaction'')
          else softStopTransaction R E tx))"

text \<open>The transaction and its connector are read first, and both must exist.\<close>

definition handleSoftStop :: "runtime \<Rightarrow> session_env \<Rightarrow> int \<Rightarrow> session_state \<Rightarrow> session_state" where
  "handleSoftStop R E i s =
     (case getTransaction i s of
        None \<Rightarrow> s
      | Some tx \<Rightarrow>
          (case getConnectorFromID (ss_station s) (tx_connectorId tx) of
             None \<Rightarrow> s
           | Some cn \<Rightarrow> snd (transactionSoftStop R E tx cn s)))"

section \<open>Serving messages\<close>

text \<open>\<open>StartTransaction\<close> holds the number the server has found available for the session.\<close>

datatype ocpp_message =
    StartTransaction int start_request
  | MeterValues meter_request
  | StopTransaction stop_message
  | StatusNotification "int option" status_notification
  | SoftStop int

fun handle_message :: "runtime \<Rightarrow> session_env \<Rightarrow> ocpp_message \<Rightarrow> session_state \<Rightarrow> session_state" where
  "handle_message R E (StartTransaction i so) s = snd (handleStartTransaction R E i so s)"
| "handle_message R E (MeterValues r) s = handleMeterValues R E r s"
| "handle_message R E (StopTransaction msg) s = snd (handleStopTransaction R E True msg False False s)"
| "handle_message R E (StatusNotification given sn) s = handleStatusNotification R E given sn s"
| "handle_message R E (SoftStop i) s = handleSoftStop R E i s"

definition serve :: "runtime \<Rightarrow> session_env \<Rightarrow> ocpp_message \<Rightarrow> ocpp_store \<Rightarrow> ocpp_store" where
  "serve R E m db = ocpp_store.truncate (handle_message R E m (load E db))"

end
