(* ===== verification/SessionSteps.thy ===== *)
theory SessionSteps
  imports SessionMessages MeterLedger
begin

text \<open>
  What each message does to the stored transactions: it leaves them alone, or it writes one transaction of which
  the core is known.  First, what the parts of the handlers leave alone: the core of a transaction is what
  identifies it and what its bill rests on; until its stop only the runtime values change.
\<close>

section \<open>The core of a transaction\<close>

definition session_core ::
    "tx_transaction \<Rightarrow> int \<times> transaction_stop option \<times> rat \<times> string \<times> int \<times> int \<times> string option \<times> string option" where
  "session_core tx = (tx_id tx, tx_stop tx, tx_meterStart tx, tx_chargeBoxID tx, tx_connectorId tx, tx_timestamp tx,
     tx_tagID tx, tx_userID tx)"

lemma energy_register_core:
  "energy_register R cs lc mv c tx = (c', tx') \<Longrightarrow> session_core tx' = session_core tx"
  by (auto simp: energy_register_def session_core_def Let_def split: if_splits)

lemma create_core:
  assumes "createConsumptionFromMeterValue R E cs (sa, tx) previous mv = Inr (c, sa', tx')"
  shows "session_core tx' = session_core tx"
proof -
  have "session_core (snd (energy_register R cs lc mv c0 tx)) = session_core tx" for lc c0
    by (metis energy_register_core surjective_pairing)
  with assms show ?thesis
    by (auto simp: createConsumptionFromMeterValue_def Let_def res_simps case_prod_beta split: if_splits)
qed

lemma add_meter_value_core:
  assumes "add_meter_value R E cs (cons, sa, tx) mv = Inr (cons', sa', tx')"
  shows "session_core tx' = session_core tx"
  using assms by (cases rule: add_meter_value_cases) (auto dest: energy_register_core)

interpretation core_run: invariant_run "add_meter_value R E cs" "\<lambda>_. True" "\<lambda>s. session_core (snd (snd s)) = k"
  for R E cs k
proof
  fix s mv s'
  assume "session_core (snd (snd s)) = k" "add_meter_value R E cs s mv = Inr s'"
  then show "session_core (snd (snd s')) = k"
    by (cases s; cases s') (auto dest: add_meter_value_core)
qed

lemma consumptions_core:
  assumes "createConsumptionsFromMeterValues R E cs (sa, tx) mvs = Inr (cons, sa', tx')"
  shows "session_core tx' = session_core tx"
proof -
  from assms obtain cons0 where "foldE (add_meter_value R E cs) ([], sa, tx) mvs = Inr (cons0, sa', tx')"
    by (auto simp: createConsumptionsFromMeterValues_def res_simps)
  moreover have "list_all (\<lambda>_. True) mvs" by (simp add: list_all_iff)
  ultimately show ?thesis
    using core_run.run_inv [of "([], sa, tx)" "session_core tx" mvs R E cs "(cons0, sa', tx')"] by simp
qed

lemma with_consumption_core [simp]: "session_core (updateTransactionWithConsumption R cs c tx) = session_core tx"
  by (simp add: updateTransactionWithConsumption_def session_core_def Let_def)

lemma computePrice_core:
  "computePrice R db t currency tx c cs = Inr (p, tx') \<Longrightarrow> session_core tx' = session_core tx"
  by (auto simp: computePrice_def session_core_def Let_def res_simps split: option.splits if_splits)

lemma price_update_core:
  assumes "processUpdateTransaction R E cs (tx, c) = Inr (tx', c')"
  shows "session_core tx' = session_core tx"
  using assms computePrice_core
  by (auto simp: processUpdateTransaction_def updateCumulatedAmounts_def res_simps split: option.splits)
    (auto simp: session_core_def dest!: computePrice_core)

lemma price_start_core:
  assumes "processStartTransaction R E cs (tx, c) = Inr (tx', c')"
  shows "session_core tx' = session_core tx"
  using assms computePrice_core
  by (auto simp: processStartTransaction_def updateCumulatedAmounts_def res_simps split: option.splits)
    (auto simp: session_core_def dest!: computePrice_core)

lemma reading_parts_core:
  "session_core (clear_instant_values tx) = session_core tx"
  "session_core (end_voltage cs ph v tx) = session_core tx" "session_core (end_power cs ph v tx) = session_core tx"
  "session_core (end_current R cs ph v tx) = session_core tx"
  "session_core (tx\<lparr>tx_stateOfCharge := x\<rparr>) = session_core tx"
  "session_core (tx\<lparr>currentStateOfCharge := x\<rparr>) = session_core tx"
  "session_core (tx\<lparr>numberOfMeterValues := n\<rparr>) = session_core tx"
  by (simp_all add: clear_instant_values_def end_voltage_def end_power_def end_current_def session_core_def
      split: option.split current_type.split)

lemma stored_readings_core:
  "update_with_meter_value R cs tx mv = Inr tx' \<Longrightarrow> session_core tx' = session_core tx"
  by (auto simp: update_with_meter_value_def Let_def reading_parts_core split: option.splits if_splits)

lemma stop_core:
  "tx_id (updateTransactionWithStopTransaction tx cs so u a t soft) = tx_id tx"
  "tx_meterStart (updateTransactionWithStopTransaction tx cs so u a t soft) = tx_meterStart tx"
  by (simp_all add: updateTransactionWithStopTransaction_def)

interpretation readings_run: invariant_run "update_with_meter_value R cs" "\<lambda>_. True" "\<lambda>tx. session_core tx = k"
  for R cs k
  by unfold_locales (simp add: stored_readings_core)

lemma readings_core:
  assumes "updateTransactionWithMeterValues R cs tx mvs = Inr tx'"
  shows "session_core tx' = session_core tx"
proof -
  have "list_all (\<lambda>_. True) mvs" by (simp add: list_all_iff)
  with readings_run.run_inv [OF refl this] assms show ?thesis
    by (simp add: updateTransactionWithMeterValues_def)
qed

lemma small_steps_core [simp]:
  "session_core (with_tag T tx) = session_core tx"
  "session_core (add_end_inactivity R msg tx) = session_core tx"
  "session_core (signed_data tx v) = session_core tx"
  "session_core (with_phases_used cs tx) = session_core tx"
  by (simp_all add: with_tag_def add_end_inactivity_def signed_data_def with_phases_used_def session_core_def Let_def
      split: option.split prod.split)

lemma signed_core [simp]:
  "session_core (checkAndUpdateTransactionWithSignedDataInStopTransaction tx msg) = session_core tx"
proof -
  have "session_core (foldl signed_data tx vs) = session_core tx" for vs
    by (induction vs arbitrary: tx) simp_all
  then show ?thesis by (simp add: checkAndUpdateTransactionWithSignedDataInStopTransaction_def)
qed

lemma stored_core:
  "tx_id (stored_transaction tx) = tx_id tx" "tx_meterStart (stored_transaction tx) = tx_meterStart tx"
  "tx_chargeBoxID (stored_transaction tx) = tx_chargeBoxID tx"
  "tx_connectorId (stored_transaction tx) = tx_connectorId tx"
  "tx_stop (stored_transaction tx) = map_option (stored_stop tx) (tx_stop tx)"
  by (simp_all add: stored_transaction_def stored_fields_def without_runtime_def split: option.split)

section \<open>Operations that leave the transactions alone\<close>

abbreviation on_transactions :: "(tx_transaction list \<Rightarrow> bool) \<Rightarrow> session_state \<Rightarrow> bool" where
  "on_transactions P \<equiv> \<lambda>s. P (db_transactions s)"

lemma other_writes [effect_rules]:
  "preservesS (on_transactions P) (saveConsumption c)"
  "preservesS (on_transactions P) (insertMeterValue mv)"
  "preservesS (on_transactions P) (saveStatusNotification sn)"
  "preservesS (on_transactions P) (saveChargingStation E)"
  "preservesS (on_transactions P) (change_station f)"
  "preservesS (on_transactions P) saveChargingStationConnectors"
  by (auto simp: saveConsumption_def insertMeterValue_def saveStatusNotification_def saveChargingStation_def
      change_station_def saveChargingStationConnectors_def intro!: effect_rules)

lemma saveMeterValues_keeps [effect_rules]: "preservesS (on_transactions P) (saveMeterValues mvs)"
  unfolding saveMeterValues_def by (intro effect_rules)

text \<open>The steps of pricing a handler may run.\<close>

definition keeps_core :: "pricing_step \<Rightarrow> bool" where
  "keeps_core priced \<longleftrightarrow>
     (\<forall>R E cs tx c tx' c'. priced R E cs (tx, c) = Inr (tx', c') \<longrightarrow> session_core tx' = session_core tx)"

lemma pricing_steps [simp]:
  "keeps_core processUpdateTransaction" "keeps_core processStopTransaction" "keeps_core processEndTransaction"
  using price_update_core
  by (auto simp: keeps_core_def processStopTransaction_def processEndTransaction_def)

lemma apply_consumption_yields:
  assumes "keeps_core priced"
  shows "yieldsS (on_transactions P) (apply_consumption R E priced tx c) (\<lambda>tx'. session_core tx' = session_core tx)"
  unfolding apply_consumption_def Let_def
proof (rule bindS_yields [OF getS_yields [where K = "\<lambda>_. True"]])
  fix cs
  show "yieldsS (on_transactions P)
      (bindS (if c_toPrice c then liftS (priced R (se_pricing E) cs (updateTransactionWithConsumption R cs c tx, c))
              else returnS (updateTransactionWithConsumption R cs c tx, c))
         (\<lambda>(tx2, c2). thenS (saveConsumption c2) (returnS tx2)))
      (\<lambda>tx'. session_core tx' = session_core tx)"
  proof (rule bindS_yields [where K = "\<lambda>(tx2, c2). session_core tx2 = session_core tx"])
    show "yieldsS (on_transactions P)
      (if c_toPrice c then liftS (priced R (se_pricing E) cs (updateTransactionWithConsumption R cs c tx, c))
       else returnS (updateTransactionWithConsumption R cs c tx, c)) (\<lambda>(tx2, c2). session_core tx2 = session_core tx)"
      using assms unfolding keeps_core_def
      by (auto intro!: liftS_yields returnS_yields) (metis with_consumption_core)
    show "yieldsS (on_transactions P) (case a of (tx2, c2) \<Rightarrow> thenS (saveConsumption c2) (returnS tx2))
        (\<lambda>tx'. session_core tx' = session_core tx)"
      if "case a of (tx2, c2) \<Rightarrow> session_core tx2 = session_core tx" for a
      using that by (cases a) (auto intro!: thenS_yields returnS_yields effect_rules)
  qed
qed simp

lemma apply_all_yields:
  assumes "keeps_core priced"
  shows "yieldsS (on_transactions P) (foldS (apply_consumption R E priced) tx cons)
    (\<lambda>tx'. session_core tx' = session_core tx)"
proof (rule foldS_yields)
  fix b c
  assume "session_core b = session_core tx"
  with apply_consumption_yields [OF assms, of P R E b c]
  show "yieldsS (on_transactions P) (apply_consumption R E priced b c) (\<lambda>tx'. session_core tx' = session_core tx)"
    by simp
qed simp

lemma create_consumptions_yields:
  "yieldsS (on_transactions P) (create_consumptions R E tx mvs) (\<lambda>(cons, tx'). session_core tx' = session_core tx)"
  unfolding create_consumptions_def
  by (auto intro!: bindS_yields [OF getS_yields [where K = "\<lambda>_. True"]]
      bindS_yields [OF liftS_yields [where K = "\<lambda>(cons, sa, tx'). session_core tx' = session_core tx"]]
      thenS_yields returnS_yields updateS_rule dest: consumptions_core)

lemma last_consumption_yields:
  "yieldsS (on_transactions P) (checkAndApplyLastConsumptionInStopTransaction R E tx msg)
     (\<lambda>tx'. session_core tx' = session_core tx)"
proof (cases "transactionEndReceived tx")
  case True
  then show ?thesis
    by (simp add: checkAndApplyLastConsumptionInStopTransaction_def returnS_yields)
next
  case False
  show ?thesis
    unfolding checkAndApplyLastConsumptionInStopTransaction_def using False
    by (auto intro!: bindS_yields [OF getS_yields [where K = "\<lambda>_. True"]]
        bindS_yields [OF create_consumptions_yields] intro: holdsS_mono [OF apply_all_yields])
qed

section \<open>Stop\<close>

text \<open>
  The stored transactions after a stop that is accepted: the transaction of the message, that was not stopped,
  has been replaced; \<open>K\<close> is what is known of it after its last consumption.
\<close>

definition stopped_by ::
    "runtime \<Rightarrow> session_env \<Rightarrow> stop_message \<Rightarrow> bool \<Rightarrow> (tx_transaction \<Rightarrow> tx_transaction \<Rightarrow> bool) \<Rightarrow>
       tx_transaction list \<Rightarrow> tx_transaction list \<Rightarrow> bool" where
  "stopped_by R E msg soft K ts ts' \<longleftrightarrow>
     (\<exists>tx tx1 cs u alt tagID.
        lookup_by tx_id (sm_transactionId msg) ts = Some tx \<and> tx_stop tx = None \<and> K (with_tag (se_tags E) tx) tx1
        \<and> tagID = getStopTransactionTagId R msg tx
        \<and> ts' = upsert tx_id (stored_transaction (updateTransactionWithStopTransaction
              (checkAndUpdateTransactionWithSignedDataInStopTransaction tx1 msg) cs
              (stop_request.truncate (checkSoftStopTransaction tx msg soft)) u alt tagID soft)) ts)"

lemma stop_of_tagged [simp]: "tx_stop (with_tag T tx) = tx_stop tx" "lastConsumption (with_tag T tx) = lastConsumption tx"
  by (simp_all add: with_tag_def)

lemma tag_of_stop [simp]: "getStopTransactionTagId R msg (with_tag T tx) = getStopTransactionTagId R msg tx"
  by (simp add: getStopTransactionTagId_def with_tag_def)

lemma soft_stop_of_tagged [simp]: "checkSoftStopTransaction (with_tag T tx) msg soft = checkSoftStopTransaction tx msg soft"
  by (simp add: checkSoftStopTransaction_def with_tag_def)

lemma signed_of_soft [simp]:
  "checkAndUpdateTransactionWithSignedDataInStopTransaction tx (checkSoftStopTransaction tx0 msg soft) =
     checkAndUpdateTransactionWithSignedDataInStopTransaction tx msg"
  by (simp add: checkAndUpdateTransactionWithSignedDataInStopTransaction_def checkSoftStopTransaction_def)

lemma stop_users_running:
  "checkAuthorizeStopTransactionAndGetUsers T cs sa tx tagID central = Inr users \<Longrightarrow> tx_stop tx = None"
  by (auto simp: checkAuthorizeStopTransactionAndGetUsers_def res_simps split: if_splits)

lemma save_last:
  "holdsS (on_transactions (\<lambda>x. x = ts)) (thenS (saveTransaction tx) (returnS a))
     (\<lambda>b s. b = a \<and> db_transactions s = upsert tx_id (stored_transaction tx) ts) E"
  by (simp add: holdsS_def thenS_def saveTransaction_def effect_simps)

lemma stop_transaction_writes:
  assumes K: "yieldsS (on_transactions (\<lambda>x. x = ts))
      (checkAndApplyLastConsumptionInStopTransaction R E tx (checkSoftStopTransaction tx msg soft)) (K tx)"
    and "lookup_by tx_id (sm_transactionId msg) ts = Some tx0" "tx = with_tag (se_tags E) tx0"
  shows "holdsS (on_transactions (\<lambda>x. x = ts)) (stop_transaction R E msg soft central tx)
    (\<lambda>a s. a = AUTH_ACCEPTED \<and> stopped_by R E msg soft K ts (db_transactions s)) (on_transactions (\<lambda>x. x = ts))"
  unfolding stop_transaction_def Let_def
  apply (rule bindS_yields [OF getS_yields [where K = "\<lambda>_. True"]], simp)
  apply (simp split: prod.split, intro allI impI)
  apply (rule bindS_yields [OF liftS_yields [where K = "\<lambda>users. tx_stop tx = None"]])
   apply (erule stop_users_running)
  apply (simp split: prod.split, intro allI impI)
  apply (rule thenS_yields, intro effect_rules)+
  apply (rule bindS_yields [OF K])
  apply (rule bindS_yields [OF getS_yields [where K = "\<lambda>_. True"]], simp)
  apply (rule holdsS_mono [OF save_last])
  apply (use assms(2,3) in \<open>simp_all add: stopped_by_def\<close>)
  apply blast
  done

lemma stop_body_writes:
  assumes K: "\<And>tx. yieldsS (on_transactions (\<lambda>x. x = ts))
      (checkAndApplyLastConsumptionInStopTransaction R E tx (checkSoftStopTransaction tx msg soft)) (K tx)"
  shows "holdsS (on_transactions (\<lambda>x. x = ts)) (stop_body R E msg soft central)
    (\<lambda>a s. a = AUTH_ACCEPTED \<and> (sm_transactionId msg = 0 \<and> db_transactions s = ts
        \<or> stopped_by R E msg soft K ts (db_transactions s))) (on_transactions (\<lambda>x. x = ts))"
proof (cases "sm_transactionId msg = 0")
  case True
  then show ?thesis by (simp add: stop_body_def bypassStopTransaction_def returnS_rule)
next
  case False
  have "yieldsS (on_transactions (\<lambda>x. x = ts)) (getTransactionFromStopTransaction E msg)
      (\<lambda>tx. \<exists>tx0. lookup_by tx_id (sm_transactionId msg) ts = Some tx0 \<and> tx = with_tag (se_tags E) tx0)"
    unfolding getTransactionFromStopTransaction_def
    by (rule bindS_yields [OF getS_yields [where K = "\<lambda>r. r = lookup_by tx_id (sm_transactionId msg) ts"]])
      (auto simp: getTransaction_def intro!: throwS_rule returnS_yields split: option.split)
  then show ?thesis
    using False unfolding stop_body_def bypassStopTransaction_def
    by (auto intro!: bindS_yields intro: holdsS_mono [OF stop_transaction_writes [OF K]])
qed

text \<open>A stop that is refused has changed no transaction.\<close>

lemma handle_stop_writes:
  assumes K: "\<And>tx msg1. yieldsS (on_transactions (\<lambda>x. x = db_transactions s))
      (checkAndApplyLastConsumptionInStopTransaction R E tx (checkSoftStopTransaction tx msg1 soft)) (K msg1 tx)"
    and "handleStopTransaction R E True msg soft central s = (a, s')"
  obtains (refused) "a = AUTH_INVALID" "db_transactions s' = db_transactions s"
  | (ignored) "a = AUTH_ACCEPTED" "sm_transactionId msg = 0" "db_transactions s' = db_transactions s"
  | (stopped) msg1 where "a = AUTH_ACCEPTED" "sm_transactionId msg1 = sm_transactionId msg"
      "stop_request.truncate msg1 = stop_request.truncate msg" "sm_transactionData msg1 = sm_transactionData msg"
      "stopped_by R E msg1 soft (K msg1) (db_transactions s) (db_transactions s')"
proof -
  define msg1 where "msg1 = msg\<lparr>sm_idTag := map_option badge_text (sm_idTag msg)\<rparr>"
  have msg1: "sm_transactionId msg1 = sm_transactionId msg" "stop_request.truncate msg1 = stop_request.truncate msg"
      "sm_transactionData msg1 = sm_transactionData msg"
    by (simp_all add: msg1_def stop_request.truncate_def)
  have "handleStopTransaction R E True msg soft central s = tryS (stop_body R E msg1 soft central) (\<lambda>_. AUTH_INVALID) s"
    by (simp add: handleStopTransaction_def validateStopTransaction_def effect_simps msg1_def tryS_def)
  with assms(2) have h: "tryS (stop_body R E msg1 soft central) (\<lambda>_. AUTH_INVALID) s = (a, s')" by simp
  note w = stop_body_writes [where ts = "db_transactions s" and R = R and E = E and msg = msg1 and soft = soft
      and central = central and K = "K msg1", OF K]
  show thesis
  proof (cases "stop_body R E msg1 soft central s")
    case (Pair r t)
    show thesis
    proof (cases r)
      case (Inl e)
      with Pair h have t: "t = s'" "AUTH_INVALID = a" by (simp_all add: tryS_def)
      from holdsS_raises [OF w, of s e t] Pair Inl t have "db_transactions s' = db_transactions s" by simp
      with t show thesis by (intro refused) simp_all
    next
      case (Inr b)
      from Pair Inr h have t: "t = s'" "b = a" by (simp_all add: tryS_def)
      from holdsS_returns [OF w, of s b t] Pair Inr t
      have "a = AUTH_ACCEPTED \<and> (sm_transactionId msg1 = 0 \<and> db_transactions s' = db_transactions s
          \<or> stopped_by R E msg1 soft (K msg1) (db_transactions s) (db_transactions s'))" by simp
      then show thesis using ignored stopped [of msg1] msg1 by metis
    qed
  qed
qed

end
