(* ===== verification/SessionLife.thy ===== *)
theory SessionLife
  imports SessionSteps
begin

text \<open>
  The life of the sessions of a station.  Seen from outside a session is running, with the register value at its
  start, or over, with the values at its stop as well.  Every message refines steps of this small machine: a
  session begins once, is cancelled or ends while it is running, and does not change when it is over.
\<close>

section \<open>The sessions of a database\<close>

datatype session_phase = Running rat | Ended rat rat rat

definition phase_of :: "tx_transaction \<Rightarrow> session_phase" where
  "phase_of tx =
     (case tx_stop tx of
        None \<Rightarrow> Running (tx_meterStart tx)
      | Some st \<Rightarrow> Ended (tx_meterStart tx) (ts_meterStop st) (num0 (ts_totalConsumptionWh st)))"

definition phases :: "tx_transaction list \<Rightarrow> int \<rightharpoonup> session_phase" where
  "phases ts i = map_option phase_of (lookup_by tx_id i ts)"

inductive life_step :: "(int \<rightharpoonup> session_phase) \<Rightarrow> (int \<rightharpoonup> session_phase) \<Rightarrow> bool" where
  begins: "m i = None \<Longrightarrow> life_step m (m(i \<mapsto> Running a))"
| cancelled: "m i = Some (Running a) \<Longrightarrow> life_step m (m(i := None))"
| ends: "m i = Some (Running a) \<Longrightarrow> life_step m (m(i \<mapsto> Ended a b w))"

lemma phases_upsert: "phases (upsert tx_id tx ts) = (phases ts)(tx_id tx \<mapsto> phase_of tx)"
  by (rule ext) (simp add: phases_def lookup_upsert)

lemma phases_delete: "phases (delete_by tx_id i ts) = (phases ts)(i := None)"
  by (rule ext) (simp add: phases_def lookup_delete)

lemma phase_stored_running:
  "session_core tx' = session_core tx \<Longrightarrow> tx_stop tx = None \<Longrightarrow> phase_of (stored_transaction tx') = phase_of tx"
  by (simp add: phase_of_def stored_core session_core_def)

lemma ended_stays:
  "life_step m m' \<Longrightarrow> m i = Some (Ended a b w) \<Longrightarrow> m' i = Some (Ended a b w)"
  by (cases rule: life_step.cases) auto

lemma ended_stays_run:
  assumes "life_step\<^sup>*\<^sup>* m m'" "m i = Some (Ended a b w)"
  shows "m' i = Some (Ended a b w)"
  using assms by (induction rule: rtranclp_induct) (auto dest: ended_stays)

text \<open>What a message may do to the stored transactions.\<close>

definition refines :: "tx_transaction list \<Rightarrow> tx_transaction list \<Rightarrow> bool" where
  "refines ts ts' \<longleftrightarrow>
     (distinct (map tx_id ts) \<longrightarrow> distinct (map tx_id ts') \<and> life_step\<^sup>*\<^sup>* (phases ts) (phases ts'))"

lemma refines_refl [simp]: "refines ts ts"
  by (simp add: refines_def)

lemma refines_trans: "refines ts ts' \<Longrightarrow> refines ts' ts'' \<Longrightarrow> refines ts ts''"
  by (auto simp: refines_def)

lemma refines_upsert:
  assumes "distinct (map tx_id ts) \<Longrightarrow> life_step\<^sup>*\<^sup>* (phases ts) ((phases ts)(tx_id tx \<mapsto> phase_of tx))"
  shows "refines ts (upsert tx_id tx ts)"
  using assms by (simp add: refines_def upsert_distinct phases_upsert)

lemma refines_same:
  assumes "lookup_by tx_id i ts = Some tx0" "tx_id tx = i" "phase_of tx = phase_of tx0"
  shows "refines ts (upsert tx_id tx ts)"
proof (rule refines_upsert)
  from assms have "(phases ts)(tx_id tx \<mapsto> phase_of tx) = phases ts" by (auto simp: phases_def)
  then show "life_step\<^sup>*\<^sup>* (phases ts) ((phases ts)(tx_id tx \<mapsto> phase_of tx))" by simp
qed

section \<open>Meter values\<close>

lemma meter_transaction_yields:
  "yieldsS (on_transactions P) (meter_transaction R E cs mvs tx) (\<lambda>tx'. session_core tx' = session_core tx)"
  unfolding meter_transaction_def
  by (auto intro!: thenS_yields effect_rules returnS_yields
      bindS_yields [OF liftS_yields [where K = "\<lambda>tx'. session_core tx' = session_core tx"]]
      bindS_yields [OF create_consumptions_yields] bindS_yields [OF apply_all_yields] dest: readings_core)

lemma meter_loads:
  "yieldsS (on_transactions (\<lambda>x. x = ts)) (getTransactionFromMeterValues E r)
     (\<lambda>tx. \<exists>tx0. lookup_by tx_id (mr_transactionId r) ts = Some tx0 \<and> tx = with_tag (se_tags E) tx0 \<and> tx_stop tx0 = None)"
  unfolding getTransactionFromMeterValues_def
  by (auto simp: getTransaction_def intro!: throwS_rule returnS_yields
      bindS_yields [OF getS_yields [where K = "\<lambda>q. q = lookup_by tx_id (mr_transactionId r) ts"]] split: option.split)

text \<open>\<open>K\<close> is what is known of the transaction after the consumptions of the message.\<close>

definition metered_by ::
    "session_env \<Rightarrow> (tx_transaction \<Rightarrow> tx_transaction \<Rightarrow> bool) \<Rightarrow> tx_transaction list \<Rightarrow> tx_transaction list \<Rightarrow> bool" where
  "metered_by E K ts ts' \<longleftrightarrow>
     (\<exists>tx tx'. lookup_by tx_id (tx_id tx) ts = Some tx \<and> tx_stop tx = None \<and> K (with_tag (se_tags E) tx) tx'
        \<and> ts' = upsert tx_id (stored_transaction tx') ts)"

lemma save_and_station:
  "holdsS (on_transactions (\<lambda>x. x = ts)) (thenS (saveTransaction tx) (thenS (change_station f) (saveChargingStation E)))
     (\<lambda>_ s. db_transactions s = upsert tx_id (stored_transaction tx) ts) F"
  "holdsS (on_transactions (\<lambda>x. x = ts))
     (thenS (saveTransaction tx) (thenS (change_station f) (thenS (saveChargingStation E) (returnS a))))
     (\<lambda>b s. b = a \<and> db_transactions s = upsert tx_id (stored_transaction tx) ts) F"
  by (simp_all add: holdsS_def thenS_def saveTransaction_def change_station_def saveChargingStation_def effect_simps)

lemma meter_values_writes:
  assumes K: "\<And>tx. yieldsS (on_transactions (\<lambda>x. x = ts)) (meter_transaction R E cs (values_of cs r) tx) (K tx)"
  shows "holdsS (on_transactions (\<lambda>x. x = ts)) (meter_values_of R E r cs)
    (\<lambda>_ s. db_transactions s = ts \<or> metered_by E K ts (db_transactions s)) (on_transactions (\<lambda>x. x = ts))"
proof (cases "values_of cs r = []")
  case True
  then show ?thesis by (simp add: meter_values_of_def returnS_rule)
next
  case False
  have "holdsS (on_transactions (\<lambda>x. x = ts))
      (bindS (meter_transaction R E cs (values_of cs r) (with_tag (se_tags E) tx0)) (\<lambda>tx4.
         thenS (saveTransaction tx4)
           (thenS (change_station (updateChargingStationConnectorRuntimeDataWithTransaction tx4))
             (saveChargingStation E))))
      (\<lambda>_ s. db_transactions s = ts \<or> metered_by E K ts (db_transactions s)) (on_transactions (\<lambda>x. x = ts))"
    if "lookup_by tx_id i ts = Some tx0" "tx_stop tx0 = None" for tx0 i
    by (rule bindS_yields [OF K], rule holdsS_mono [OF save_and_station(1)])
      (use that lookup_key [OF that(1)] in \<open>auto simp: metered_by_def\<close>)
  with False show ?thesis unfolding meter_values_of_def by (auto intro!: bindS_yields [OF meter_loads])
qed

text \<open>The meter values never change what a session is.\<close>

lemma metered_refines:
  assumes "metered_by E K ts ts'" "\<And>tx tx'. K tx tx' \<Longrightarrow> session_core tx' = session_core tx"
  shows "refines ts ts'"
proof -
  from assms(1) obtain tx tx' where tx: "lookup_by tx_id (tx_id tx) ts = Some tx" "tx_stop tx = None"
    and k: "K (with_tag (se_tags E) tx) tx'" and ts': "ts' = upsert tx_id (stored_transaction tx') ts"
    by (auto simp: metered_by_def)
  from assms(2) [OF k] have c: "session_core tx' = session_core tx" by simp
  then have "tx_id (stored_transaction tx') = tx_id tx" by (simp add: session_core_def stored_core)
  with phase_stored_running [OF c tx(2)] tx(1) show ?thesis
    unfolding ts' by (intro refines_same)
qed

lemma handle_meter_values_writes:
  assumes "\<And>tx. yieldsS (on_transactions (\<lambda>x. x = db_transactions s))
      (meter_transaction R E (ss_station s) (values_of (ss_station s) r) tx) (K tx)"
  shows "db_transactions (handleMeterValues R E r s) = db_transactions s
    \<or> metered_by E K (db_transactions s) (db_transactions (handleMeterValues R E r s))"
proof (cases "meter_values_of R E r (ss_station s) s")
  case (Pair q t)
  then have h: "handleMeterValues R E r s = t"
    by (cases q) (simp_all add: handleMeterValues_def meter_values_body_def tryS_def effect_simps)
  note w = meter_values_writes [where ts = "db_transactions s" and R = R and E = E and r = r and K = K, OF assms]
  show ?thesis
    using holdsS_raises [OF w, of s _ t] holdsS_returns [OF w, of s _ t] Pair by (cases q) (simp_all add: h)
qed

lemma meter_values_refine: "refines (db_transactions s) (db_transactions (handleMeterValues R E r s))"
  using handle_meter_values_writes [where K = "\<lambda>tx tx'. session_core tx' = session_core tx"
      and s = s and R = R and E = E and r = r, OF meter_transaction_yields]
  by (auto dest: metered_refines)

section \<open>Stop\<close>

lemma stopped_refines:
  assumes "stopped_by R E msg soft K ts ts'" "\<And>tx tx'. K tx tx' \<Longrightarrow> session_core tx' = session_core tx"
  shows "refines ts ts'"
proof -
  from assms(1) obtain tx tx1 cs u alt tagID where
    tx: "lookup_by tx_id (sm_transactionId msg) ts = Some tx" "tx_stop tx = None" "K (with_tag (se_tags E) tx) tx1"
    and ts': "ts' = upsert tx_id (stored_transaction (updateTransactionWithStopTransaction
              (checkAndUpdateTransactionWithSignedDataInStopTransaction tx1 msg) cs
              (stop_request.truncate (checkSoftStopTransaction tx msg soft)) u alt tagID soft)) ts"
    by (auto simp: stopped_by_def)
  let ?tx2 = "checkAndUpdateTransactionWithSignedDataInStopTransaction tx1 msg"
  let ?tx3 = "updateTransactionWithStopTransaction ?tx2 cs
     (stop_request.truncate (checkSoftStopTransaction tx msg soft)) u alt tagID soft"
  have "session_core ?tx2 = session_core tx" using assms(2) [OF tx(3)] by simp
  then have id: "tx_id ?tx3 = tx_id tx" "tx_meterStart ?tx2 = tx_meterStart tx"
    by (simp_all add: stop_core session_core_def)
  have ended: "phase_of (stored_transaction ?tx3) = Ended (tx_meterStart ?tx2)
      (so_meterStop (checkSoftStopTransaction tx msg soft)) (total_wh ?tx2)"
    by (simp add: phase_of_def stored_core stop_core)
      (simp add: updateTransactionWithStopTransaction_def stored_stop_def stored_core total_wh_def stop_request.truncate_def)
  have "phases ts (tx_id tx) = Some (Running (tx_meterStart tx))"
    using tx lookup_key [OF tx(1)] by (simp add: phases_def phase_of_def)
  then show ?thesis
    unfolding ts' by (intro refines_upsert) (auto simp: ended id stored_core intro: life_step.ends)
qed

lemma stop_refines:
  assumes "handleStopTransaction R E True msg soft central s = (a, s')"
  shows "refines (db_transactions s) (db_transactions s')"
proof (rule handle_stop_writes [where K = "\<lambda>_ tx tx'. session_core tx' = session_core tx",
      OF last_consumption_yields assms])
  fix msg1
  assume "stopped_by R E msg1 soft (\<lambda>tx tx'. session_core tx' = session_core tx) (db_transactions s) (db_transactions s')"
  then show ?thesis by (auto dest: stopped_refines)
qed simp_all

lemma stop_refused_keeps:
  assumes "handleStopTransaction R E True msg soft central s = (a, s')" "a \<noteq> AUTH_ACCEPTED"
  shows "db_transactions s' = db_transactions s"
proof (rule handle_stop_writes [where K = "\<lambda>_ tx tx'. session_core tx' = session_core tx",
      OF last_consumption_yields assms(1)])
qed (use assms(2) in simp_all)

lemma soft_stop_refines:
  assumes "getTransaction (tx_id tx) s = Some tx" "tx_stop tx = None"
  shows "refines (db_transactions s) (db_transactions (snd (softStopTransaction R E tx s)))"
proof (cases "handleStopTransaction R E True (soft_stop tx) True False s")
  case (Pair a t)
  note r = stop_refines [OF Pair]
  show ?thesis
  proof (cases "a = AUTH_ACCEPTED \<or> me_organizationActive (se_meter E) \<and> ss_siteArea s = None")
    case True
    with r Pair show ?thesis by (auto simp: softStopTransaction_def)
  next
    case False
    then have same: "db_transactions t = db_transactions s" by (intro stop_refused_keeps [OF Pair]) simp
    let ?f = "stored_transaction (force_stop (ss_station t) tx)"
    have f: "tx_id ?f = tx_id tx" "\<exists>b w. phase_of ?f = Ended (tx_meterStart tx) b w"
      by (simp_all add: force_stop_def updateTransactionWithStopTransaction_def stored_core phase_of_def)
    have "phases (db_transactions s) (tx_id tx) = Some (Running (tx_meterStart tx))"
      using assms by (simp add: getTransaction_def phases_def phase_of_def)
    then have "refines (db_transactions s) (upsert tx_id ?f (db_transactions s))"
      using f by (intro refines_upsert) (auto intro!: r_into_rtranclp life_step.ends)
    with False Pair same show ?thesis
      by (simp add: softStopTransaction_def saveTransaction_def effect_simps)
  qed
qed

lemma handle_soft_stop_refines: "refines (db_transactions s) (db_transactions (handleSoftStop R E i s))"
proof (cases "getTransaction i s")
  case None
  then show ?thesis by (simp add: handleSoftStop_def)
next
  case (Some tx)
  then have i: "tx_id tx = i" by (auto simp: getTransaction_def dest: lookup_key)
  have ended: "preservesS (on_transactions (\<lambda>x. x = db_transactions s)) (transactionSoftStop R E tx cn)"
    if "tx_stop tx \<noteq> None" for cn
    using that unfolding transactionSoftStop_def by (auto intro!: effect_rules)
  have "refines (db_transactions s) (db_transactions (snd (transactionSoftStop R E tx cn s)))" for cn
  proof (cases "tx_stop tx = None")
    case True
    with Some i soft_stop_refines [of tx s R E] show ?thesis
      by (auto simp: transactionSoftStop_def effect_simps)
  next
    case False
    obtain q t where qt: "transactionSoftStop R E tx cn s = (q, t)" by (cases "transactionSoftStop R E tx cn s")
    have "db_transactions t = db_transactions s"
      using holdsS_returns [OF ended [OF False]] holdsS_raises [OF ended [OF False]] qt by (cases q) blast+
    with qt show ?thesis by simp
  qed
  with Some show ?thesis by (simp add: handleSoftStop_def split: option.split)
qed

end
