(* ===== verification/SessionRuns.thy ===== *)
theory SessionRuns
  imports SessionLife
begin

text \<open>
  The messages of a station one after the other.  A step serves one message, whatever the clock, the tariffs and
  the badges are then; a start gets a number no transaction has.
\<close>

section \<open>Start\<close>

lemma active_lookup:
  assumes "getActiveTransaction cid i s = Some tx" "distinct (map tx_id (db_transactions s))"
  shows "lookup_by tx_id (tx_id tx) (db_transactions s) = Some tx"
  using active_is_stored [OF assms(1)] assms(2) by (simp add: lookup_distinct)

lemma end_pending_transactions:
  "db_transactions (end_pending R E tx s) =
     (if no_consumption tx then delete_by tx_id (tx_id tx) (db_transactions s) else db_transactions s)"
  by (simp add: end_pending_def deleteTransaction_def stop_without_station)

lemma end_pending_refines:
  assumes "getActiveTransaction cid i s = Some tx"
  shows "refines (db_transactions s) (db_transactions (end_pending R E tx s))"
  unfolding refines_def
proof (intro impI conjI)
  assume d: "distinct (map tx_id (db_transactions s))"
  then show "distinct (map tx_id (db_transactions (end_pending R E tx s)))"
    by (simp add: end_pending_transactions delete_distinct)
  have "phases (db_transactions s) (tx_id tx) = Some (Running (tx_meterStart tx))"
    using active_lookup [OF assms d] active_is_stored [OF assms] by (simp add: phases_def phase_of_def)
  then show "life_step\<^sup>*\<^sup>* (phases (db_transactions s)) (phases (db_transactions (end_pending R E tx s)))"
    by (auto simp: end_pending_transactions phases_delete intro: life_step.cancelled)
qed

lemma process_refines: "refines (db_transactions s) (db_transactions (processExistingTransaction R E i seen s))"
proof (induction R E i seen s rule: processExistingTransaction.induct)
  case (1 R E i seen s)
  show ?case
  proof (cases "getActiveTransaction (cs_id (ss_station s)) i s")
    case None
    then show ?thesis by (simp add: processExistingTransaction.simps)
  next
    case (Some tx)
    with 1 [OF Some] end_pending_refines [OF Some] show ?thesis
      by (auto simp: processExistingTransaction.simps [of R E i seen s] intro: refines_trans)
  qed
qed

lemma process_keeps_absent:
  "lookup_by tx_id k (db_transactions s) = None \<Longrightarrow>
     lookup_by tx_id k (db_transactions (processExistingTransaction R E i seen s)) = None"
proof (induction R E i seen s rule: processExistingTransaction.induct)
  case (1 R E i seen s)
  then show ?case
    by (auto simp: processExistingTransaction.simps [of R E i seen s] end_pending_transactions lookup_delete
        split: option.split)
qed

lemma first_core:
  assumes "createFirstConsumption R E cs (sa, tx) = Inr (c, sa', tx')"
  shows "session_core tx' = session_core tx"
  using assms create_core by (fastforce simp: createFirstConsumption_def Let_def)

lemma first_priced_yields:
  "yieldsS (on_transactions P) (first_priced R E tx) (\<lambda>tx'. session_core tx' = session_core tx)"
  unfolding first_priced_def
  by (auto intro!: bindS_yields [OF getS_yields [where K = "\<lambda>_. True"]] thenS_yields returnS_yields updateS_rule
      throwS_rule bindS_yields [OF liftS_yields [where K = "\<lambda>(c, sa, tx'). session_core tx' = session_core tx"]]
      bindS_yields [where K = "\<lambda>(tx2, c). session_core tx2 = session_core tx"] liftS_yields
      dest!: first_core price_start_core split: option.split)


text \<open>
  What a start leaves: the transactions that remain after the pending ones were seen to, and the new one when it
  succeeds.  \<open>K\<close> is what is known of it.
\<close>

lemma start_transaction_writes:
  assumes K: "\<And>P. yieldsS (on_transactions P) (first_priced R E tx) K"
    and "start_transaction R E so tx s = (q, s')"
  obtains ts where "ts = db_transactions (processExistingTransaction R E (sr_connectorId so) None s)"
    "db_transactions s' = ts \<or> (\<exists>tx'. K tx' \<and> db_transactions s' = upsert tx_id (stored_transaction tx') ts)"
proof -
  let ?s = "processExistingTransaction R E (sr_connectorId so) None s"
  let ?I = "on_transactions (\<lambda>x. x = db_transactions ?s)"
  let ?rest = "bindS (first_priced R E tx) (\<lambda>tx2.
      thenS (saveTransaction tx2)
      (thenS (change_station (updateChargingStationConnectorRuntimeDataWithTransaction tx2))
      (thenS (saveChargingStation E)
      (returnS (tx_id tx2, AUTH_ACCEPTED)))))"
  have w: "holdsS ?I ?rest (\<lambda>_ s. \<exists>tx2. K tx2
      \<and> db_transactions s = upsert tx_id (stored_transaction tx2) (db_transactions ?s)) ?I"
    by (rule bindS_yields [OF K], rule holdsS_mono [OF save_and_station(2)]) auto
  have "?rest ?s = (q, s')"
    using assms(2) by (simp add: start_transaction_def thenS_def effect_simps)
  with holdsS_raises [OF w, of ?s _ s'] holdsS_returns [OF w, of ?s _ s'] that show thesis
    by (cases q) auto
qed

lemma start_transaction_refines:
  assumes "lookup_by tx_id (tx_id tx) (db_transactions s) = None" "tx_stop tx = None"
    and "start_transaction R E so tx s = (q, s')"
  shows "refines (db_transactions s) (db_transactions s')"
proof (rule start_transaction_writes [OF first_priced_yields assms(3)])
  fix ts
  assume ts: "ts = db_transactions (processExistingTransaction R E (sr_connectorId so) None s)"
    and w: "db_transactions s' = ts
      \<or> (\<exists>tx'. session_core tx' = session_core tx \<and> db_transactions s' = upsert tx_id (stored_transaction tx') ts)"
  have absent: "phases ts (tx_id tx) = None"
    using process_keeps_absent [OF assms(1)] by (simp add: phases_def ts)
  have "refines ts (upsert tx_id (stored_transaction tx') ts)" if c: "session_core tx' = session_core tx" for tx'
  proof -
    have "tx_id (stored_transaction tx') = tx_id tx" "phase_of (stored_transaction tx') = Running (tx_meterStart tx)"
      using c phase_stored_running [OF c assms(2)] assms(2) by (simp_all add: session_core_def stored_core phase_of_def)
    with absent show ?thesis by (intro refines_upsert) (auto intro: life_step.begins)
  qed
  with w have "refines ts (db_transactions s')" by auto
  with process_refines show ?thesis unfolding ts by (rule refines_trans)
qed

lemma start_body_cases:
  assumes "start_body R E i so0 s = (q, s')"
  obtains (early) "s' = s"
  | (started) so tx where "start_transaction R E so tx s = (q, s')" "tx_id tx = i" "tx_stop tx = None"
      "currentTotalConsumptionWh tx = Some 0" "sr_connectorId so = sr_connectorId so0" "tx_meterStart tx = sr_meterStart so0"
      "tx_chargeBoxID tx = cs_id (ss_station s)" "tx_connectorId tx = sr_connectorId so0"
  using assms
  apply (auto simp: start_body_def bindS_def effect_simps createTransaction_def validateStartTransaction_def Let_def
      split: prod.splits sum.splits if_splits)
  done


lemma start_refines:
  assumes "getTransaction i s = None"
  shows "refines (db_transactions s) (db_transactions (snd (handleStartTransaction R E i so s)))"
proof (cases "start_body R E i so s")
  case (Pair q t)
  have "snd (handleStartTransaction R E i so s) = t"
    using Pair by (cases q) (simp_all add: handleStartTransaction_def tryS_def)
  moreover from Pair have "refines (db_transactions s) (db_transactions t)"
  proof (cases rule: start_body_cases)
    case early
    then show ?thesis by simp
  next
    case (started so tx)
    with assms show ?thesis by (intro start_transaction_refines) (simp_all add: getTransaction_def)
  qed
  ultimately show ?thesis by simp
qed

section \<open>Status of a connector\<close>

text \<open>What the extra inactivity leaves of the end of a session.\<close>

definition same_end :: "tx_transaction \<Rightarrow> tx_transaction \<Rightarrow> bool" where
  "same_end tx tx' \<longleftrightarrow> tx_id tx' = tx_id tx \<and> phase_of tx' = phase_of tx"

lemma same_end_stored: "same_end tx tx' \<Longrightarrow> tx_stop tx \<noteq> None \<Longrightarrow> same_end tx (stored_transaction tx')"
  by (auto simp: same_end_def phase_of_def stored_core stored_stop_def split: option.splits)

lemma same_end_refl: "same_end tx tx" "same_end tx (set_extra_inactivity secs tx)"
  by (auto simp: same_end_def phase_of_def set_extra_inactivity_def split: option.splits)

lemma same_end_map:
  assumes "same_end tx tx'" "\<And>st. ts_meterStop (f st) = ts_meterStop st \<and> ts_totalConsumptionWh (f st) = ts_totalConsumptionWh st"
  shows "same_end tx (tx'\<lparr>tx_stop := map_option f (tx_stop tx')\<rparr>)"
  using assms by (auto simp: same_end_def phase_of_def split: option.splits)

lemma core_phase: "session_core tx' = session_core tx \<Longrightarrow> phase_of tx' = phase_of tx"
  by (simp add: phase_of_def session_core_def split: option.split)

lemma same_end_core: "same_end tx tx1 \<Longrightarrow> session_core tx' = session_core tx1 \<Longrightarrow> same_end tx tx'"
  using core_phase [of tx' tx1] by (simp add: same_end_def session_core_def)

lemma extra_consumption_yields:
  assumes "same_end tx0 tx"
  shows "yieldsS (on_transactions P) (buildAndPriceExtraConsumptionInactivity R E tx) (same_end tx0)"
proof -
  have priced: "yieldsS (on_transactions P)
      (if c_toPrice c then liftS (processEndTransaction R (se_pricing E) cs (tx, c)) else returnS (tx, c))
      (\<lambda>(tx1, c1). same_end tx0 tx1)" for c cs
    using pricing_steps(3) assms unfolding keeps_core_def
    by (auto intro!: liftS_yields returnS_yields) (metis same_end_core)
  show ?thesis
    unfolding buildAndPriceExtraConsumptionInactivity_def
    by (auto intro!: bindS_yields [OF getS_yields [where K = "\<lambda>_. True"]] returnS_yields assms
        bindS_yields [OF priced] thenS_yields effect_rules same_end_map split: option.split split del: if_split)
qed

lemma extra_inactivity_yields:
  "yieldsS (on_transactions P)
     (checkAndComputeTransactionExtraInactivityFromStatusNotification R E tx st previous sn) (same_end tx)"
  unfolding checkAndComputeTransactionExtraInactivityFromStatusNotification_def Let_def
  by (auto intro!: bindS_yields [OF getS_yields [where K = "\<lambda>_. True"]] returnS_yields same_end_refl same_end_map
      bindS_yields [where K = "same_end tx"] extra_consumption_yields)

text \<open>A status leaves the stored sessions as they are, or replaces the last one by one with the same end.\<close>

definition rewrites_end :: "tx_transaction list \<Rightarrow> tx_transaction list \<Rightarrow> bool" where
  "rewrites_end ts ts' \<longleftrightarrow> ts' = ts
     \<or> (\<exists>tx tx'. lookup_by tx_id (tx_id tx) ts = Some tx \<and> tx_stop tx \<noteq> None \<and> same_end tx tx' \<and> ts' = upsert tx_id tx' ts)"

lemma rewrites_refines: "rewrites_end ts ts' \<Longrightarrow> refines ts ts'"
  by (auto simp: rewrites_end_def same_end_def intro: refines_same)

lemma rewrites_refl [simp]: "rewrites_end ts ts"
  by (simp add: rewrites_end_def)

lemma update_completed_writes:
  assumes "lookup_by tx_id (tx_id tx) ts = Some tx"
  shows "holdsS (on_transactions (\<lambda>x. x = ts)) (update_completed R E tx previous sn)
    (\<lambda>_. on_transactions (rewrites_end ts)) (on_transactions (\<lambda>x. x = ts))"
proof -
  have save: "holdsS (on_transactions (\<lambda>x. x = ts)) (whenS b (saveTransaction tx1))
      (\<lambda>_. on_transactions (rewrites_end ts)) (on_transactions (\<lambda>x. x = ts))"
    if "same_end tx tx1" "tx_stop tx \<noteq> None" for b tx1
  proof -
    have "rewrites_end ts (upsert tx_id (stored_transaction tx1) ts)"
      using same_end_stored [OF that] assms that(2) unfolding rewrites_end_def by blast
    then show ?thesis by (simp add: holdsS_def whenS_def saveTransaction_def effect_simps)
  qed
  show ?thesis
    unfolding update_completed_def thenS_def
  proof (rule bindS_rule)
    show "holdsS (on_transactions (\<lambda>x. x = ts))
        (case tx_stop tx of None \<Rightarrow> returnS ()
         | Some st \<Rightarrow> bindS (checkAndComputeTransactionExtraInactivityFromStatusNotification R E tx st previous sn)
             (\<lambda>tx1. whenS (\<not> ts_extraInactivityComputed st \<or> checkAndBillTransaction tx1) (saveTransaction tx1)))
        (\<lambda>_. on_transactions (rewrites_end ts)) (on_transactions (\<lambda>x. x = ts))"
      by (auto intro!: returnS_rule bindS_yields [OF extra_inactivity_yields] save split: option.split)
    show "holdsS (on_transactions (rewrites_end ts)) (change_station f) (\<lambda>_. on_transactions (rewrites_end ts))
        (on_transactions (\<lambda>x. x = ts))" for f
      by (simp add: change_station_def updateS_rule)
  qed
qed


lemma last_is_stored:
  "getLastTransactionFromChargingStation cid i s = Some tx \<Longrightarrow>
     tx \<in> set (db_transactions s) \<and> on_connector cid i tx"
proof -
  assume "getLastTransactionFromChargingStation cid i s = Some tx"
  then obtain rest where
    "sort_key (\<lambda>tx. - tx_timestamp tx) (filter (on_connector cid i) (db_transactions s)) = tx # rest"
    by (auto simp: getLastTransactionFromChargingStation_def split: list.splits)
  then have "tx \<in> set (filter (on_connector cid i) (db_transactions s))"
    by (metis list.set_intros(1) set_sort)
  then show ?thesis by simp
qed

lemma completed_writes:
  assumes "distinct (map tx_id ts)"
  shows "holdsS (on_transactions (\<lambda>x. x = ts))
    (checkAndUpdateLastCompletedTransactionFromStatusNotification R E sn previous)
    (\<lambda>_. on_transactions (rewrites_end ts)) (on_transactions (rewrites_end ts))"
proof -
  have tries: "holdsS (on_transactions (\<lambda>x. x = ts)) (attemptS (update_completed R E tx previous sn) (\<lambda>_. ()))
      (\<lambda>_. on_transactions (rewrites_end ts)) (on_transactions (rewrites_end ts))" if "tx \<in> set ts" for tx
  proof -
    note w = update_completed_writes [OF lookup_distinct [OF assms that], of R E previous sn]
    show ?thesis
    proof (rule holdsS_I)
      fix s u s'
      assume ts: "db_transactions s = ts" and a: "attemptS (update_completed R E tx previous sn) (\<lambda>_. ()) s = (Inr u, s')"
      from a obtain q where "update_completed R E tx previous sn s = (q, s')"
        by (auto simp: attemptS_def tryS_def split: prod.splits sum.splits)
      with holdsS_returns [OF w, of s _ s'] holdsS_raises [OF w, of s _ s'] ts
      show "rewrites_end ts (db_transactions s')" by (cases q) auto
    qed (simp add: attemptS_def split: prod.splits)
  qed
  show ?thesis
  proof (cases "sn_status sn = AVAILABLE \<or> sn_status sn = PREPARING")
    case False
    then show ?thesis
      by (simp add: checkAndUpdateLastCompletedTransactionFromStatusNotification_def holdsS_def effect_simps)
  next
    case True
    show ?thesis
      unfolding checkAndUpdateLastCompletedTransactionFromStatusNotification_def
    proof (simp add: True, rule bindS_rule)
      show "holdsS (on_transactions (\<lambda>x. x = ts))
          (getS (\<lambda>s. getLastTransactionFromChargingStation (cs_id (ss_station s)) (sn_connectorId sn) s))
          (\<lambda>tx s. db_transactions s = ts \<and> (\<forall>t. tx = Some t \<longrightarrow> t \<in> set ts)) (on_transactions (rewrites_end ts))"
        by (rule getS_rule) (auto dest: last_is_stored)
      show "holdsS (\<lambda>s. db_transactions s = ts \<and> (\<forall>t. tx = Some t \<longrightarrow> t \<in> set ts))
          (case tx of None \<Rightarrow> returnS () | Some tx \<Rightarrow> attemptS (update_completed R E tx previous sn) (\<lambda>_. ()))
          (\<lambda>_. on_transactions (rewrites_end ts)) (on_transactions (rewrites_end ts))" for tx
      proof (cases tx)
        case None
        then show ?thesis by (simp add: holdsS_def effect_simps)
      next
        case (Some t)
        show ?thesis
        proof (cases "t \<in> set ts")
          case True
          show ?thesis unfolding Some option.case by (rule holdsS_mono [OF tries [OF True]]) simp_all
        next
          case False
          then show ?thesis by (simp add: Some holdsS_def)
        qed
      qed
    qed
  qed
qed

lemma process_connector_writes:
  assumes "distinct (map tx_id ts)"
  shows "holdsS (on_transactions (\<lambda>x. x = ts)) (processConnectorFromStatusNotification R E sn)
    (\<lambda>_. on_transactions (rewrites_end ts)) (on_transactions (rewrites_end ts))"
proof -
  have rest: "holdsS (on_transactions (\<lambda>x. x = ts))
      (thenS (checkAndUpdateLastCompletedTransactionFromStatusNotification R E sn previous)
        (thenS (change_station f) (thenS (saveStatusNotification sn) (thenS (change_station g) (saveChargingStation E)))))
      (\<lambda>_. on_transactions (rewrites_end ts)) (on_transactions (rewrites_end ts))" for previous f g
    unfolding thenS_def
    by (rule bindS_rule [OF completed_writes [OF assms]], unfold thenS_def [symmetric]) (intro effect_rules)
  have "holdsS (on_transactions (\<lambda>x. x = ts)) (thenS (change_station h) (whenS b m))
      (\<lambda>_. on_transactions (rewrites_end ts)) (on_transactions (rewrites_end ts))"
    if "holdsS (on_transactions (\<lambda>x. x = ts)) m (\<lambda>_. on_transactions (rewrites_end ts)) (on_transactions (rewrites_end ts))"
    for h b m
    using that unfolding thenS_def whenS_def
    by (auto intro!: bindS_rule [where R = "\<lambda>_. on_transactions (\<lambda>x. x = ts)"] returnS_rule
        simp: change_station_def updateS_rule)
  with rest show ?thesis
    unfolding processConnectorFromStatusNotification_def
    by (auto intro!: bindS_rule [where R = "\<lambda>_. on_transactions (\<lambda>x. x = ts)"] getS_rule liftS_rule split: prod.split)
qed

lemma status_writes:
  assumes d: "distinct (map tx_id (db_transactions s))"
  shows "rewrites_end (db_transactions s) (db_transactions (handleStatusNotification R E given sn s))"
proof (cases "0 < sn_connectorId sn")
  case False
  then show ?thesis
    by (auto simp: handleStatusNotification_def validateStatusNotification_def Let_def)
next
  case True
  let ?sn = "validateStatusNotification R E given sn"
  note w = process_connector_writes [where ts = "db_transactions s" and R = R and E = E and sn = ?sn, OF d]
  obtain q t where p: "processConnectorFromStatusNotification R E ?sn s = (q, t)"
    by (cases "processConnectorFromStatusNotification R E ?sn s")
  have "rewrites_end (db_transactions s) (db_transactions t)"
    using holdsS_returns [OF w, of s _ t] holdsS_raises [OF w, of s _ t] p by (cases q) simp_all
  moreover have "handleStatusNotification R E given sn s = t"
    using True p by (cases q) (simp_all add: handleStatusNotification_def validateStatusNotification_def Let_def tryS_def)
  ultimately show ?thesis by simp
qed

lemma status_refines: "refines (db_transactions s) (db_transactions (handleStatusNotification R E given sn s))"
  using rewrites_refines [OF status_writes, of s R E given sn] by (auto simp: refines_def)

section \<open>A message\<close>

text \<open>What the server has made sure of before it handles a message.\<close>

definition ready :: "ocpp_message \<Rightarrow> ocpp_store \<Rightarrow> bool" where
  "ready m db = (case m of StartTransaction i so \<Rightarrow> getTransaction i db = None | _ \<Rightarrow> True)"

lemma available_is_ready: "findAvailableID draws db = Some i \<Longrightarrow> ready (StartTransaction i so) db"
  by (auto simp: findAvailableID_def ready_def find_Some_iff)

lemma load_transactions [simp]: "db_transactions (load E db) = db_transactions db"
  by (simp add: load_def ocpp_store.defs session_state.defs)

lemma serve_transactions: "db_transactions (serve R E m db) = db_transactions (handle_message R E m (load E db))"
  by (simp add: serve_def ocpp_store.defs)

lemma serve_refines:
  assumes "ready m db"
  shows "refines (db_transactions db) (db_transactions (serve R E m db))"
proof (cases m)
  case (StartTransaction i so)
  with assms start_refines [of i "load E db" R E so] show ?thesis
    by (simp add: serve_transactions ready_def getTransaction_def)
next
  case (StopTransaction msg)
  with stop_refines [of R E msg False False "load E db"] show ?thesis
    by (simp add: serve_transactions) (metis load_transactions prod.collapse)
next
  case (MeterValues r)
  with meter_values_refine [of "load E db" R E r] show ?thesis by (simp add: serve_transactions)
next
  case (StatusNotification given sn)
  with status_refines [of "load E db" R E given sn] show ?thesis by (simp add: serve_transactions)
next
  case (SoftStop i)
  with handle_soft_stop_refines [of "load E db" R E i] show ?thesis by (simp add: serve_transactions)
qed


inductive session_step :: "ocpp_store \<Rightarrow> ocpp_store \<Rightarrow> bool" where
  served: "ready m db \<Longrightarrow> session_step db (serve R E m db)"

inductive_cases session_stepE: "session_step db db'"

lemma step_refines: "session_step db db' \<Longrightarrow> refines (db_transactions db) (db_transactions db')"
  by (erule session_stepE) (simp add: serve_refines)

lemma steps_refine: "session_step\<^sup>*\<^sup>* db db' \<Longrightarrow> refines (db_transactions db) (db_transactions db')"
  by (induction rule: rtranclp_induct) (auto dest: step_refines intro: refines_trans)

text \<open>
  C1: The messages of a station refine the life of its sessions: whatever messages come, with whatever clock,
  tariffs and badges, the number of a transaction stays unique, and each change of the stored transactions is a
  session that begins under a free number, or is cancelled or ends while it is running.
\<close>

theorem sessions_follow_their_life:
  assumes "session_step\<^sup>*\<^sup>* db db'" "distinct (map tx_id (db_transactions db))"
  shows "distinct (map tx_id (db_transactions db'))
    \<and> life_step\<^sup>*\<^sup>* (phases (db_transactions db)) (phases (db_transactions db'))"
  using steps_refine [OF assms(1)] assms(2) by (simp add: refines_def)

text \<open>
  C3: A session ends once: when a transaction has been stopped, no later message deletes it or changes the
  register values at its start and stop or the energy it is billed for.
\<close>

theorem a_session_ends_once:
  assumes "session_step\<^sup>*\<^sup>* db db'" "distinct (map tx_id (db_transactions db))"
    and "getTransaction i db = Some tx" "tx_stop tx = Some st"
  shows "\<exists>tx' st'. getTransaction i db' = Some tx' \<and> tx_stop tx' = Some st' \<and> tx_meterStart tx' = tx_meterStart tx
    \<and> ts_meterStop st' = ts_meterStop st \<and> num0 (ts_totalConsumptionWh st') = num0 (ts_totalConsumptionWh st)"
proof -
  from assms(3,4) have "phases (db_transactions db) i =
      Some (Ended (tx_meterStart tx) (ts_meterStop st) (num0 (ts_totalConsumptionWh st)))"
    by (simp add: phases_def phase_of_def getTransaction_def)
  with steps_refine [OF assms(1)] assms(2) have "phases (db_transactions db') i =
      Some (Ended (tx_meterStart tx) (ts_meterStop st) (num0 (ts_totalConsumptionWh st)))"
    by (auto simp: refines_def dest: ended_stays_run)
  then show ?thesis
    by (auto simp: phases_def phase_of_def getTransaction_def split: option.splits)
qed

end
