(* ===== verification/SessionEnergy.thy ===== *)
theory SessionEnergy
  imports SessionRuns
begin

text \<open>
  The energy a session is billed for, across the messages.  A meter-value message takes the total of the session
  from the last consumption it makes, so what is billed is right as long as that consumption has a register reading:
  for messages whose values have one date and among which there is a register reading.
\<close>

section \<open>What the total rests on\<close>

definition energy_core :: "tx_transaction \<Rightarrow> transaction_stop option \<times> rat \<times> last_consumption option \<times> rat option" where
  "energy_core tx = (tx_stop tx, tx_meterStart tx, lastConsumption tx, currentTotalConsumptionWh tx)"

definition metered :: "tx_transaction \<Rightarrow> bool" where
  "metered tx \<longleftrightarrow> lastConsumption tx \<noteq> None \<and> currentTotalConsumptionWh tx \<noteq> None \<and> register_balanced tx"

lemma metered_core: "energy_core tx' = energy_core tx \<Longrightarrow> metered tx' = metered tx"
  by (simp add: metered_def energy_core_def register_balanced_def total_wh_def register_value_def cong: option.case_cong)

lemma computePrice_energy:
  "computePrice R db t currency tx c cs = Inr (p, tx') \<Longrightarrow> energy_core tx' = energy_core tx"
  by (auto simp: computePrice_def energy_core_def Let_def res_simps split: option.splits if_splits)

lemma price_update_energy:
  assumes "processUpdateTransaction R E cs (tx, c) = Inr (tx', c')"
  shows "energy_core tx' = energy_core tx"
  using assms computePrice_energy
  by (auto simp: processUpdateTransaction_def updateCumulatedAmounts_def res_simps split: option.splits)
    (auto simp: energy_core_def dest!: computePrice_energy)

lemma price_start_energy:
  assumes "processStartTransaction R E cs (tx, c) = Inr (tx', c')"
  shows "energy_core tx' = energy_core tx"
  using assms computePrice_energy
  by (auto simp: processStartTransaction_def updateCumulatedAmounts_def res_simps split: option.splits)
    (auto simp: energy_core_def dest!: computePrice_energy)

lemma reading_parts_energy:
  "energy_core (clear_instant_values tx) = energy_core tx"
  "energy_core (end_voltage cs ph v tx) = energy_core tx" "energy_core (end_power cs ph v tx) = energy_core tx"
  "energy_core (end_current R cs ph v tx) = energy_core tx"
  "energy_core (tx\<lparr>tx_stateOfCharge := x\<rparr>) = energy_core tx"
  "energy_core (tx\<lparr>currentStateOfCharge := x\<rparr>) = energy_core tx"
  "energy_core (tx\<lparr>numberOfMeterValues := n\<rparr>) = energy_core tx"
  by (simp_all add: clear_instant_values_def end_voltage_def end_power_def end_current_def energy_core_def
      split: option.split current_type.split)

lemma stored_readings_energy:
  "update_with_meter_value R cs tx mv = Inr tx' \<Longrightarrow> energy_core tx' = energy_core tx"
  by (auto simp: update_with_meter_value_def Let_def reading_parts_energy split: option.splits if_splits)

interpretation readings_energy: invariant_run "update_with_meter_value R cs" "\<lambda>_. True" "\<lambda>tx. energy_core tx = k"
  for R cs k
  by unfold_locales (simp add: stored_readings_energy)

lemma readings_energy:
  assumes "updateTransactionWithMeterValues R cs tx mvs = Inr tx'"
  shows "energy_core tx' = energy_core tx"
proof -
  have "list_all (\<lambda>_. True) mvs" by (simp add: list_all_iff)
  with readings_energy.run_inv [OF refl this] assms show ?thesis
    by (simp add: updateTransactionWithMeterValues_def)
qed

lemma small_steps_energy [simp]:
  "energy_core (with_tag T tx) = energy_core tx"
  "energy_core (add_end_inactivity R msg tx) = energy_core tx"
  "energy_core (signed_data tx v) = energy_core tx"
  "energy_core (with_phases_used cs tx) = energy_core tx"
  by (simp_all add: with_tag_def add_end_inactivity_def signed_data_def with_phases_used_def energy_core_def Let_def
      split: option.split prod.split)

lemma signed_energy [simp]:
  "energy_core (checkAndUpdateTransactionWithSignedDataInStopTransaction tx msg) = energy_core tx"
proof -
  have "energy_core (foldl signed_data tx vs) = energy_core tx" for vs
    by (induction vs arbitrary: tx) simp_all
  then show ?thesis by (simp add: checkAndUpdateTransactionWithSignedDataInStopTransaction_def)
qed

lemma metered_small [simp]:
  "metered (with_tag T tx) = metered tx" "metered (with_phases_used cs tx) = metered tx"
  by (rule metered_core, simp)+

section \<open>The total a consumption carries\<close>

lemma initial_total [simp]:
  "c_cumulatedConsumptionWh (initial_consumption tx mv) = None"
  by (simp add: initial_consumption_def)

lemma kinds_total [simp]:
  "c_cumulatedConsumptionWh (powerConsumption R cs tx mv c) = c_cumulatedConsumptionWh c"
  "c_cumulatedConsumptionWh (voltageConsumption cs tx mv c) = c_cumulatedConsumptionWh c"
  "c_cumulatedConsumptionWh (currentConsumption R cs tx mv c) = c_cumulatedConsumptionWh c"
  by (auto simp: powerConsumption_def voltageConsumption_def currentConsumption_def Let_def split: option.split current_type.split ocpp_phase.split)

lemma other_total:
  assumes "createConsumptionFromMeterValue R E cs s previous mv = Inr (Some c, s')" "\<not> energy_value mv"
  shows "c_cumulatedConsumptionWh c = None"
  using assms other_value_kinds [of mv]
  by (auto simp: createConsumptionFromMeterValue_def Let_def split: if_splits prod.splits)

lemma register_total:
  assumes "energy_register R cs lc mv c tx = (c', tx')"
  shows "c_cumulatedConsumptionWh c' = currentTotalConsumptionWh tx'
    \<and> (currentTotalConsumptionWh tx \<noteq> None \<longrightarrow> currentTotalConsumptionWh tx' \<noteq> None)
    \<and> (lastConsumption tx' = lastConsumption tx
        \<or> lastConsumption tx' \<noteq> None \<and> lc_timestamp (the (lastConsumption tx')) = mv_timestamp mv)
    \<and> tx_stop tx' = tx_stop tx \<and> transactionEndReceived tx' = transactionEndReceived tx"
  using assms by (auto simp: energy_register_def Let_def split: if_splits)

lemma consistent_total [simp]:
  "c_cumulatedConsumptionWh (assertConsistencyInConsumption R cs cid c) = c_cumulatedConsumptionWh c"
proof -
  have "c_cumulatedConsumptionWh (check_watts R c) = c_cumulatedConsumptionWh c" for c
    by (simp add: check_watts_def Let_def split: option.split)
  moreover have "c_cumulatedConsumptionWh (check_amps R c) = c_cumulatedConsumptionWh c" for c
    by (simp add: check_amps_def Let_def split: option.split)
  ultimately show ?thesis
    by (simp add: assertConsistencyInConsumption_def fill_watts_def fill_amps_def fill_phases_def fill_dc_def Let_def)
qed

lemma merged_total [simp]:
  "c_cumulatedConsumptionWh (merge_consumption c e) = over (c_cumulatedConsumptionWh c) (c_cumulatedConsumptionWh e)"
  by (simp add: merge_consumption_def)

section \<open>A batch of one date\<close>

definition complete :: "meter_value list \<Rightarrow> bool" where
  "complete mvs \<longleftrightarrow>
     (case mvs of [] \<Rightarrow> True
      | mv # _ \<Rightarrow> list_all (\<lambda>v. mv_timestamp v = mv_timestamp mv) mvs \<and> list_ex energy_value mvs)"

definition in_time :: "int \<Rightarrow> tx_transaction \<Rightarrow> bool" where
  "in_time t tx \<longleftrightarrow> (case lastConsumption tx of None \<Rightarrow> True | Some lc \<Rightarrow> lc_timestamp lc \<le> t)"

text \<open>The consumptions made so far: none, or one that carries the total once it has a register reading.\<close>

definition carries :: "int \<Rightarrow> bool \<Rightarrow> consumption list \<times> meter_state \<Rightarrow> bool" where
  "carries t read s \<longleftrightarrow>
     (case s of (cons, sa, tx) \<Rightarrow> in_time t tx \<and> metered tx
        \<and> (case cons of [] \<Rightarrow> \<not> read
           | [c] \<Rightarrow> c_endedAt c = t \<and> (c_cumulatedConsumptionWh c = currentTotalConsumptionWh tx
                \<or> \<not> read \<and> c_cumulatedConsumptionWh c = None)
           | _ \<Rightarrow> False))"

lemma carries_step:
  assumes "carries t read s" "add_meter_value R E cs s mv = Inr s'" "mv_timestamp mv = t" "exact R"
  shows "carries t (read \<or> energy_value mv) s'"
proof -
  obtain cons sa tx where s: "s = (cons, sa, tx)" by (metis prod_cases3)
  have past: "\<not> meter_value_in_the_past tx mv"
    using assms(1,3) by (auto simp: s carries_def in_time_def meter_value_in_the_past_def split: option.splits)
  from assms(2) [unfolded s] show ?thesis
  proof (cases rule: add_meter_value_cases)
    case skipped
    with past have "\<not> energy_value mv" using energy_value_kinds by (auto simp: accepted_def)
    with skipped assms(1) s show ?thesis by simp
  next
    case (other c)
    with assms(1,3) other_total [OF other(4) other(2)] show ?thesis
      by (auto simp: s carries_def over_def split: list.splits)
  next
    case (energy c sa1 tx1 lc c0)
    note total = register_total [OF energy(4)]
    have m: "metered tx" and i: "in_time t tx" using assms(1) by (simp_all add: s carries_def)
    have "register_balanced tx1"
      using energy_register_exact [OF energy(4) assms(4) energy(6)] energy_register_frame [OF energy(4)] m
      by (simp add: metered_def register_balanced_def)
    moreover have "in_time t tx1" using total i assms(3) by (auto simp: in_time_def)
    moreover have "lastConsumption tx1 \<noteq> None" using total m by (auto simp: metered_def)
    ultimately show ?thesis
      using assms(1,3) energy(2,3,7) total m
      by (auto simp: s carries_def metered_def over_def split: list.splits)
  qed
qed

lemma carries_run:
  "foldE (add_meter_value R E cs) s mvs = Inr s' \<Longrightarrow> carries t read s \<Longrightarrow> list_all (\<lambda>v. mv_timestamp v = t) mvs
     \<Longrightarrow> exact R \<Longrightarrow> carries t (read \<or> list_ex energy_value mvs) s'"
proof (induction mvs arbitrary: s read)
  case Nil
  then show ?case by simp
next
  case (Cons mv mvs)
  then obtain s1 where t: "add_meter_value R E cs s mv = Inr s1"
    and r: "foldE (add_meter_value R E cs) s1 mvs = Inr s'"
    by (auto simp: res_simps simp del: split_paired_Ex)
  from Cons.prems have m: "mv_timestamp mv = t" "exact R" "list_all (\<lambda>v. mv_timestamp v = t) mvs" by simp_all
  from Cons.IH [OF r carries_step [OF Cons.prems(2) t m(1,2)] m(3,2)] show ?case by (simp add: disj_assoc)
qed

lemma past_run:
  "foldE (add_meter_value R E cs) (cons, sa, tx) mvs = Inr s' \<Longrightarrow> \<not> in_time t tx
     \<Longrightarrow> list_all (\<lambda>v. mv_timestamp v = t) mvs \<Longrightarrow> s' = (cons, sa, tx)"
  by (induction mvs) (auto simp: res_simps add_meter_value_def in_time_def meter_value_in_the_past_def split: option.splits)

lemma complete_consumptions:
  assumes "createConsumptionsFromMeterValues R E cs (sa, tx) mvs = Inr (cons, sa', tx')"
    and "complete mvs" "metered tx" "exact R"
  shows "metered tx' \<and> list_all (\<lambda>c. c_cumulatedConsumptionWh c = currentTotalConsumptionWh tx') cons"
proof -
  from assms(1) obtain cons0 where f: "foldE (add_meter_value R E cs) ([], sa, tx) mvs = Inr (cons0, sa', tx')"
    and s: "sort_consumptions (map (assertConsistencyInConsumption R cs (tx_connectorId tx')) cons0) = Inr cons"
    by (auto simp: createConsumptionsFromMeterValues_def res_simps)
  show ?thesis
  proof (cases mvs)
    case Nil
    with f s assms(3) show ?thesis by (simp add: sort_consumptions_def)
  next
    case (Cons mv rest)
    let ?t = "mv_timestamp mv"
    have same: "list_all (\<lambda>v. mv_timestamp v = ?t) mvs" and read: "list_ex energy_value mvs"
      using assms(2) by (simp_all add: complete_def Cons)
    show ?thesis
    proof (cases "in_time ?t tx")
      case False
      from past_run [OF f False same] s assms(3) show ?thesis by (simp add: sort_consumptions_def)
    next
      case True
      with assms(3) have "carries ?t False ([], sa, tx)" by (simp add: carries_def)
      from carries_run [OF f this same assms(4)] read s show ?thesis
        by (auto simp: carries_def sort_consumptions_def split: list.splits)
    qed
  qed
qed

section \<open>The handlers\<close>

lemma yieldsS_conj: "yieldsS I m K1 \<Longrightarrow> yieldsS I m K2 \<Longrightarrow> yieldsS I m (\<lambda>a. K1 a \<and> K2 a)"
  by (rule holdsS_I) (blast dest: holdsS_returns holdsS_raises)+

definition keeps_energy :: "pricing_step \<Rightarrow> bool" where
  "keeps_energy priced \<longleftrightarrow>
     (\<forall>R E cs tx c tx' c'. priced R E cs (tx, c) = Inr (tx', c') \<longrightarrow> energy_core tx' = energy_core tx)"

lemma pricing_keeps_energy [simp]: "keeps_energy processUpdateTransaction" "keeps_energy processStopTransaction"
  using price_update_energy by (auto simp: keeps_energy_def processStopTransaction_def)

lemma with_consumption_energy:
  "c_cumulatedConsumptionWh c = currentTotalConsumptionWh tx \<Longrightarrow> currentTotalConsumptionWh tx \<noteq> None
     \<Longrightarrow> energy_core (updateTransactionWithConsumption R cs c tx) = energy_core tx"
  by (auto simp: updateTransactionWithConsumption_def energy_core_def Let_def)

lemma apply_consumption_energy:
  assumes "keeps_energy priced" "c_cumulatedConsumptionWh c = currentTotalConsumptionWh tx" "metered tx"
  shows "yieldsS (on_transactions P) (apply_consumption R E priced tx c) (\<lambda>tx'. energy_core tx' = energy_core tx)"
  unfolding apply_consumption_def Let_def
proof (rule bindS_yields [OF getS_yields [where K = "\<lambda>_. True"]])
  fix cs
  let ?tx = "updateTransactionWithConsumption R cs c tx"
  have c: "energy_core ?tx = energy_core tx"
    using assms(2,3) by (intro with_consumption_energy) (simp_all add: metered_def)
  have "yieldsS (on_transactions P)
      (if c_toPrice c then liftS (priced R (se_pricing E) cs (?tx, c)) else returnS (?tx, c))
      (\<lambda>(tx2, c2). energy_core tx2 = energy_core tx)"
    using assms(1) c unfolding keeps_energy_def by (auto intro!: liftS_yields returnS_yields) metis
  then show "yieldsS (on_transactions P)
      (bindS (if c_toPrice c then liftS (priced R (se_pricing E) cs (?tx, c)) else returnS (?tx, c))
         (\<lambda>(tx2, c2). thenS (saveConsumption c2) (returnS tx2))) (\<lambda>tx'. energy_core tx' = energy_core tx)"
    by (rule bindS_yields) (auto intro!: thenS_yields returnS_yields effect_rules)
qed simp

lemma apply_all_energy:
  assumes "keeps_energy priced" "list_all (\<lambda>c. c_cumulatedConsumptionWh c = currentTotalConsumptionWh tx) cons" "metered tx"
  shows "yieldsS (on_transactions P) (foldS (apply_consumption R E priced) tx cons)
    (\<lambda>tx'. energy_core tx' = energy_core tx)"
proof (rule foldS_yields)
  fix b c
  assume b: "energy_core b = energy_core tx" and "c \<in> set cons"
  with assms(2) have "c_cumulatedConsumptionWh c = currentTotalConsumptionWh b"
    by (auto simp: list_all_iff energy_core_def)
  with apply_consumption_energy [OF assms(1) this] b assms(3) metered_core [OF b]
  show "yieldsS (on_transactions P) (apply_consumption R E priced b c) (\<lambda>tx'. energy_core tx' = energy_core tx)"
    by simp
qed simp

lemma create_consumptions_energy:
  assumes "\<And>cs sa cons sa' tx'. createConsumptionsFromMeterValues R (se_meter E) cs (sa, tx) mvs = Inr (cons, sa', tx')
      \<Longrightarrow> K (cons, tx')"
  shows "yieldsS (on_transactions P) (create_consumptions R E tx mvs) K"
  unfolding create_consumptions_def
  by (auto intro!: bindS_yields [OF getS_yields [where K = "\<lambda>_. True"]]
      bindS_yields [OF liftS_yields [where K = "\<lambda>(cons, sa, tx'). K (cons, tx')"]]
      thenS_yields returnS_yields updateS_rule dest: assms)

lemma meter_transaction_energy:
  assumes "complete mvs" "exact R" "metered tx"
  shows "yieldsS (on_transactions P) (meter_transaction R E cs mvs tx) metered"
proof -
  have "yieldsS (on_transactions P) (create_consumptions R E tx1 mvs)
      (\<lambda>(cons, tx2). metered tx2 \<and> list_all (\<lambda>c. c_cumulatedConsumptionWh c = currentTotalConsumptionWh tx2) cons)"
    if "metered tx1" for tx1
    by (rule create_consumptions_energy) (use complete_consumptions [OF _ assms(1) that assms(2)] in blast)
  moreover have "metered tx1" if "updateTransactionWithMeterValues R cs tx mvs = Inr tx1" for tx1
    using readings_energy [OF that] metered_core assms(3) by blast
  ultimately show ?thesis
    unfolding meter_transaction_def
    by (auto intro!: thenS_yields effect_rules returnS_yields bindS_yields [OF liftS_yields [where K = metered]]
        bindS_yields [where K = "\<lambda>(cons, tx2). metered tx2
          \<and> list_all (\<lambda>c. c_cumulatedConsumptionWh c = currentTotalConsumptionWh tx2) cons"]
        bindS_yields [OF apply_all_energy] dest: metered_core)
qed

section \<open>The energy of a stop\<close>

text \<open>A stop that is neither older nor below the last register reading; after the end values it adds nothing.\<close>

definition stop_in_order :: "tx_transaction \<Rightarrow> 'a stop_request_scheme \<Rightarrow> bool" where
  "stop_in_order tx so \<longleftrightarrow>
     (case lastConsumption tx of None \<Rightarrow> True
      | Some lc \<Rightarrow>
          if transactionEndReceived tx then so_meterStop so = lc_value lc
          else lc_value lc \<le> so_meterStop so \<and> lc_timestamp lc \<le> so_timestamp so)"

lemma complete_Cons: "complete (mv # mvs) \<longleftrightarrow>
    list_all (\<lambda>v. mv_timestamp v = mv_timestamp mv) mvs \<and> (energy_value mv \<or> list_ex energy_value mvs)"
  by (auto simp: complete_def)

lemma stop_values_complete: "complete (createTransactionStopMeterValues R cs tx so)"
proof -
  let ?mvs = "createTransactionStopMeterValues R cs tx so"
  let ?mv = "stop_value tx so ENERGY_ACTIVE_IMPORT_REGISTER WATT_HOUR OUTLET None (so_meterStop so)"
  have mvs: "?mvs = ?mv # tl ?mvs" by (simp add: createTransactionStopMeterValues_def Let_def)
  have "energy_value ?mv"
    by (simp add: energy_value_def isEnergyActiveImportMeterValue_def stop_value_def sample_attribute_def)
  moreover have "mv_timestamp v = mv_timestamp ?mv" if "v \<in> set (tl ?mvs)" for v
  proof -
    from that mvs have "v \<in> set ?mvs" by (metis list.set_intros(2))
    with stop_values show ?thesis by (simp add: stop_value_def)
  qed
  ultimately have "complete (?mv # tl ?mvs)" by (simp add: complete_Cons list_all_iff)
  with mvs show ?thesis by simp
qed

lemma in_order_total:
  assumes "metered tx" "stop_in_order tx so" "transactionEndReceived tx"
  shows "total_wh tx = so_meterStop so - tx_meterStart tx"
  using assms by (auto simp: metered_def stop_in_order_def register_balanced_def register_value_def)

lemma last_consumption_energy:
  assumes "exact R" "metered tx" "stop_in_order tx msg"
  shows "yieldsS (on_transactions P) (checkAndApplyLastConsumptionInStopTransaction R E tx msg)
    (\<lambda>tx'. total_wh tx' = so_meterStop msg - tx_meterStart tx)"
proof (cases "transactionEndReceived tx")
  case True
  have "total_wh (add_end_inactivity R msg tx) = total_wh tx"
    using small_steps_energy(2) [of R msg tx] by (simp add: energy_core_def total_wh_def)
  with in_order_total [OF assms(2,3) True] show ?thesis
    by (simp add: checkAndApplyLastConsumptionInStopTransaction_def True returnS_yields)
next
  case False
  let ?so = "stop_request.truncate msg"
  have so: "so_meterStop ?so = so_meterStop msg" "so_timestamp ?so = so_timestamp msg"
    by (simp_all add: stop_request.truncate_def)
  have "yieldsS (on_transactions P) (create_consumptions R E tx (createTransactionStopMeterValues R cs tx ?so))
      (\<lambda>(cons, tx1). metered tx1 \<and> list_all (\<lambda>c. c_cumulatedConsumptionWh c = currentTotalConsumptionWh tx1) cons
         \<and> total_wh tx1 = so_meterStop msg - tx_meterStart tx)" for cs
  proof (rule create_consumptions_energy)
    fix cs' sa cons sa' tx1
    assume c: "createConsumptionsFromMeterValues R (se_meter E) cs' (sa, tx) (createTransactionStopMeterValues R cs tx ?so)
        = Inr (cons, sa', tx1)"
    have "register_value tx \<le> so_meterStop ?so"
        "case lastConsumption tx of None \<Rightarrow> True | Some lc \<Rightarrow> lc_timestamp lc \<le> so_timestamp ?so"
      using assms(2,3) False so by (auto simp: metered_def stop_in_order_def register_value_def)
    with stop_register [OF c _ this assms(1)] complete_consumptions [OF c stop_values_complete assms(2,1)] assms(2) so
    show "case (cons, tx1) of (cons, tx1) \<Rightarrow> metered tx1
        \<and> list_all (\<lambda>c. c_cumulatedConsumptionWh c = currentTotalConsumptionWh tx1) cons
        \<and> total_wh tx1 = so_meterStop msg - tx_meterStart tx"
      by (simp add: metered_def)
  qed
  then have "yieldsS (on_transactions P)
      (bindS (create_consumptions R E tx (createTransactionStopMeterValues R cs tx ?so))
        (\<lambda>(cons, tx1). foldS (apply_consumption R E processStopTransaction) tx1 cons))
      (\<lambda>tx'. total_wh tx' = so_meterStop msg - tx_meterStart tx)" for cs
    by (rule bindS_yields) (auto intro: holdsS_mono [OF apply_all_energy] simp: energy_core_def total_wh_def)
  then show ?thesis
    unfolding checkAndApplyLastConsumptionInStopTransaction_def using False
    by (simp add: bindS_yields [OF getS_yields [where K = "\<lambda>_. True"]])
qed

end
