(* ===== verification/SessionBills.thy ===== *)
theory SessionBills
  imports SessionEnergy
begin

text \<open>
  What every stored session is billed for, whatever messages came: a running session has the energy of its last
  register reading, a session that is over the energy between its start and its stop.
\<close>

section \<open>Billed sessions\<close>

definition billed :: "tx_transaction \<Rightarrow> bool" where
  "billed tx \<longleftrightarrow>
     (case tx_stop tx of
        None \<Rightarrow> metered tx
      | Some st \<Rightarrow> num0 (ts_totalConsumptionWh st) = ts_meterStop st - tx_meterStart tx)"

lemma stored_running_billed: "metered tx \<Longrightarrow> tx_stop tx = None \<Longrightarrow> billed (stored_transaction tx)"
  by (auto simp: billed_def stored_transaction_def stored_fields_def metered_def register_balanced_def total_wh_def
      register_value_def cong: option.case_cong)

lemma stop_request_billed:
  assumes "total_wh tx = so_meterStop so - tx_meterStart tx"
  shows "billed (stored_transaction (updateTransactionWithStopTransaction tx cs so u alt tagID soft))"
proof -
  let ?tx = "updateTransactionWithStopTransaction tx cs so u alt tagID soft"
  obtain st where st: "tx_stop ?tx = Some st" "ts_totalConsumptionWh st = currentTotalConsumptionWh tx"
      "ts_meterStop st = so_meterStop so"
    by (simp add: updateTransactionWithStopTransaction_def)
  then show ?thesis
    using assms by (simp add: billed_def stored_core stop_core) (simp add: stored_stop_def total_wh_def)
qed

lemma same_end_billed: "same_end tx tx' \<Longrightarrow> tx_stop tx \<noteq> None \<Longrightarrow> billed tx \<Longrightarrow> billed tx'"
  by (auto simp: same_end_def phase_of_def billed_def split: option.splits)

lemma upsert_billed: "list_all billed ts \<Longrightarrow> billed tx \<Longrightarrow> list_all billed (upsert key tx ts)"
  by (induction ts) auto

lemma delete_billed: "list_all billed ts \<Longrightarrow> list_all billed (delete_by key k ts)"
  by (auto simp: delete_by_def list_all_iff)

lemma lookup_billed: "list_all billed ts \<Longrightarrow> lookup_by key k ts = Some tx \<Longrightarrow> billed tx"
  by (auto simp: list_all_iff dest: lookup_key)

lemma rewritten_billed:
  assumes "list_all billed ts" "rewrites_end ts ts'"
  shows "list_all billed ts'"
proof -
  have "list_all billed (upsert tx_id tx' ts)"
    if "lookup_by tx_id (tx_id tx) ts = Some tx" "tx_stop tx \<noteq> None" "same_end tx tx'" for tx tx'
    using upsert_billed [OF assms(1) same_end_billed [OF that(3,2) lookup_billed [OF assms(1) that(1)]]] .
  with assms show ?thesis by (auto simp: rewrites_end_def)
qed

lemma running_metered: "billed tx \<Longrightarrow> tx_stop tx = None \<Longrightarrow> metered tx"
  by (simp add: billed_def)

section \<open>Each message\<close>

lemma process_billed:
  "list_all billed (db_transactions s) \<Longrightarrow> list_all billed (db_transactions (processExistingTransaction R E i seen s))"
proof (induction R E i seen s rule: processExistingTransaction.induct)
  case (1 R E i seen s)
  then show ?case
    by (auto simp: processExistingTransaction.simps [of R E i seen s] end_pending_transactions delete_billed
        split: option.split)
qed

text \<open>The first meter value is the register at the start: it adds nothing.\<close>

lemma first_metered:
  assumes "createFirstConsumption R E cs (sa, tx) = Inr (c, sa', tx')"
    and "currentTotalConsumptionWh tx = Some 0"
  shows "metered tx'"
  using assms
  by (auto simp: createFirstConsumption_def createConsumptionFromMeterValue_def isValidMeterValue_def isSocMeterValue_def
      isPowerActiveImportMeterValue_def isVoltageMeterValue_def isCurrentImportMeterValue_def
      isEnergyActiveImportMeterValue_def energy_register_def metered_def register_balanced_def total_wh_def
      register_value_def Let_def res_simps split: prod.splits if_splits)

lemma first_priced_metered:
  assumes "currentTotalConsumptionWh tx = Some 0"
  shows "yieldsS (on_transactions P) (first_priced R E tx) metered"
  unfolding first_priced_def
  by (auto intro!: bindS_yields [OF getS_yields [where K = "\<lambda>_. True"]] thenS_yields returnS_yields updateS_rule
      throwS_rule bindS_yields [OF liftS_yields [where K = "\<lambda>(c, sa, tx'). metered tx'"]]
      bindS_yields [where K = "\<lambda>(tx2, c). metered tx2"] liftS_yields
      dest!: first_metered [OF _ assms] price_start_energy dest: metered_core split: option.split)

lemma start_billed:
  assumes "list_all billed (db_transactions s)"
  shows "list_all billed (db_transactions (snd (handleStartTransaction R E i so s)))"
proof (cases "start_body R E i so s")
  case (Pair q t)
  have h: "snd (handleStartTransaction R E i so s) = t"
    using Pair by (cases q) (simp_all add: handleStartTransaction_def tryS_def)
  from Pair show ?thesis
  proof (cases rule: start_body_cases)
    case early
    with assms h show ?thesis by simp
  next
    case (started so tx)
    show ?thesis
    proof (rule start_transaction_writes [OF _ started(1)])
      show "yieldsS (on_transactions P) (first_priced R E tx) (\<lambda>tx'. session_core tx' = session_core tx \<and> metered tx')" for P
        by (rule yieldsS_conj [OF first_priced_yields first_priced_metered [OF started(4)]])
    next
      fix ts
      assume "ts = db_transactions (processExistingTransaction R E (sr_connectorId so) None s)"
      then have ts: "list_all billed ts" using process_billed [OF assms] by simp
      assume "db_transactions t = ts \<or> (\<exists>tx'. (session_core tx' = session_core tx \<and> metered tx')
          \<and> db_transactions t = upsert tx_id (stored_transaction tx') ts)"
      with ts started(3) show ?thesis
        by (auto simp: h upsert_billed stored_running_billed session_core_def)
    qed
  qed
qed

lemma meter_values_billed:
  assumes "list_all billed (db_transactions s)" "complete (values_of (ss_station s) r)" "exact R"
  shows "list_all billed (db_transactions (handleMeterValues R E r s))"
proof -
  let ?K = "\<lambda>tx tx'. session_core tx' = session_core tx \<and> (metered tx \<longrightarrow> metered tx')"
  have "yieldsS (on_transactions P) (meter_transaction R E (ss_station s) (values_of (ss_station s) r) tx) (?K tx)" for P tx
    using meter_transaction_energy [OF assms(2,3), of tx P E "ss_station s"]
    by (cases "metered tx") (auto intro: holdsS_mono [OF meter_transaction_yields] yieldsS_conj [OF meter_transaction_yields])
  from handle_meter_values_writes [where K = ?K and s = s and R = R and E = E and r = r, OF this] assms(1)
  show ?thesis
  proof (elim disjE)
    assume "metered_by E ?K (db_transactions s) (db_transactions (handleMeterValues R E r s))"
    then obtain tx tx' where tx: "lookup_by tx_id (tx_id tx) (db_transactions s) = Some tx" "tx_stop tx = None"
      "?K (with_tag (se_tags E) tx) tx'"
      and db: "db_transactions (handleMeterValues R E r s) = upsert tx_id (stored_transaction tx') (db_transactions s)"
      by (auto simp: metered_by_def)
    have "metered tx" using lookup_billed [OF assms(1) tx(1)] tx(2) by (rule running_metered)
    with tx have "metered tx'" "tx_stop tx' = None" by (simp_all add: session_core_def)
    with assms(1) show ?thesis by (simp add: db upsert_billed stored_running_billed)
  qed simp
qed

lemma stop_order_simps [simp]:
  "stop_in_order tx (stop_request.truncate so) = stop_in_order tx so"
  "stop_in_order (with_tag T tx) so = stop_in_order tx so"
  by (auto simp: stop_in_order_def stop_request.truncate_def with_tag_def split: option.split)

text \<open>What is known of a stopped transaction after its last consumption.\<close>

definition closed_by :: "stop_message \<Rightarrow> bool \<Rightarrow> tx_transaction \<Rightarrow> tx_transaction \<Rightarrow> bool" where
  "closed_by msg soft tx tx1 \<longleftrightarrow> session_core tx1 = session_core tx
     \<and> (metered tx \<longrightarrow> stop_in_order tx (checkSoftStopTransaction tx msg soft)
          \<longrightarrow> total_wh tx1 = so_meterStop (checkSoftStopTransaction tx msg soft) - tx_meterStart tx)"

lemma last_consumption_closes:
  assumes "exact R"
  shows "yieldsS (on_transactions P)
    (checkAndApplyLastConsumptionInStopTransaction R E tx (checkSoftStopTransaction tx msg soft)) (closed_by msg soft tx)"
proof (cases "metered tx \<and> stop_in_order tx (checkSoftStopTransaction tx msg soft)")
  case True
  then have "yieldsS (on_transactions P)
      (checkAndApplyLastConsumptionInStopTransaction R E tx (checkSoftStopTransaction tx msg soft))
      (\<lambda>tx1. session_core tx1 = session_core tx
         \<and> total_wh tx1 = so_meterStop (checkSoftStopTransaction tx msg soft) - tx_meterStart tx)"
    by (intro yieldsS_conj last_consumption_yields last_consumption_energy assms) simp_all
  then show ?thesis by (rule holdsS_mono) (simp_all add: closed_by_def)
next
  case False
  then show ?thesis by (auto simp: closed_by_def intro: holdsS_mono [OF last_consumption_yields])
qed

lemma stopped_billed:
  assumes "list_all billed ts" "stopped_by R E msg soft (closed_by msg soft) ts ts'"
    and order: "\<And>tx. lookup_by tx_id (sm_transactionId msg) ts = Some tx \<Longrightarrow> metered tx
      \<Longrightarrow> stop_in_order tx (checkSoftStopTransaction tx msg soft)"
  shows "list_all billed ts'"
proof -
  from assms(2) obtain tx tx1 cs u alt tagID where
    tx: "lookup_by tx_id (sm_transactionId msg) ts = Some tx" "tx_stop tx = None"
    and k: "closed_by msg soft (with_tag (se_tags E) tx) tx1"
    and ts': "ts' = upsert tx_id (stored_transaction (updateTransactionWithStopTransaction
              (checkAndUpdateTransactionWithSignedDataInStopTransaction tx1 msg) cs
              (stop_request.truncate (checkSoftStopTransaction tx msg soft)) u alt tagID soft)) ts"
    by (auto simp: stopped_by_def)
  let ?tx2 = "checkAndUpdateTransactionWithSignedDataInStopTransaction tx1 msg"
  have m: "metered tx" using lookup_billed [OF assms(1) tx(1)] tx(2) by (rule running_metered)
  have "total_wh tx1 = so_meterStop (checkSoftStopTransaction tx msg soft) - tx_meterStart tx"
    using k m order [OF tx(1) m] by (simp add: closed_by_def) (simp add: with_tag_def)
  moreover have "total_wh ?tx2 = total_wh tx1"
    using signed_energy [of tx1 msg] by (simp add: energy_core_def total_wh_def)
  moreover have "tx_meterStart ?tx2 = tx_meterStart tx"
    using k signed_core [of tx1 msg] small_steps_core(1) [of "se_tags E" tx] by (simp add: closed_by_def session_core_def)
  ultimately show ?thesis
    unfolding ts'
    by (intro upsert_billed [OF assms(1)] stop_request_billed) (simp add: stop_request.truncate_def)
qed

lemma stop_billed:
  assumes "list_all billed (db_transactions s)" "exact R"
    and "handleStopTransaction R E True msg soft central s = (a, s')"
    and order: "\<And>tx. getTransaction (sm_transactionId msg) s = Some tx \<Longrightarrow> metered tx
      \<Longrightarrow> stop_in_order tx (checkSoftStopTransaction tx msg soft)"
  shows "list_all billed (db_transactions s')"
proof (rule handle_stop_writes [where K = "\<lambda>msg. closed_by msg soft", OF last_consumption_closes [OF assms(2)] assms(3)])
  fix msg1
  assume m: "sm_transactionId msg1 = sm_transactionId msg" "stop_request.truncate msg1 = stop_request.truncate msg"
    and st: "stopped_by R E msg1 soft (closed_by msg1 soft) (db_transactions s) (db_transactions s')"
  have same: "stop_in_order tx (checkSoftStopTransaction tx msg1 soft) = stop_in_order tx (checkSoftStopTransaction tx msg soft)"
    for tx
    using m(2) by (auto simp: stop_in_order_def checkSoftStopTransaction_def stop_request.truncate_def split: option.split)
  show ?thesis
  proof (rule stopped_billed [OF assms(1) st])
    fix tx
    assume "lookup_by tx_id (sm_transactionId msg1) (db_transactions s) = Some tx" "metered tx"
    with order [of tx] show "stop_in_order tx (checkSoftStopTransaction tx msg1 soft)"
      unfolding same by (simp add: m(1) getTransaction_def)
  qed
qed (use assms(1) in simp_all)

text \<open>The values a soft stop is made of are the last ones.\<close>

lemma soft_stop_order:
  "metered tx \<Longrightarrow> stop_in_order tx (checkSoftStopTransaction tx (soft_stop tx) soft)"
  by (auto simp: metered_def stop_in_order_def checkSoftStopTransaction_def soft_stop_def pending_stop_def split: option.split)

lemma soft_stop_billed:
  assumes "list_all billed (db_transactions s)" "exact R" "getTransaction (tx_id tx) s = Some tx" "tx_stop tx = None"
  shows "list_all billed (db_transactions (snd (softStopTransaction R E tx s)))"
proof (cases "handleStopTransaction R E True (soft_stop tx) True False s")
  case (Pair a t)
  have m: "metered tx"
    using lookup_billed [OF assms(1) assms(3) [unfolded getTransaction_def]] assms(4) by (rule running_metered)
  have i: "sm_transactionId (soft_stop tx) = tx_id tx" by (simp add: soft_stop_def pending_stop_def)
  have t: "list_all billed (db_transactions t)"
  proof (rule stop_billed [OF assms(1,2) Pair])
    fix tx'
    assume "getTransaction (sm_transactionId (soft_stop tx)) s = Some tx'"
    with assms(3) have "tx' = tx" by (simp add: i)
    with soft_stop_order [OF m] show "stop_in_order tx' (checkSoftStopTransaction tx' (soft_stop tx) True)" by simp
  qed
  have "total_wh tx = so_meterStop (stop_request.truncate (soft_stop tx)) - tx_meterStart tx"
    using m by (auto simp: metered_def register_balanced_def register_value_def soft_stop_def pending_stop_def
        stop_request.truncate_def split: option.split)
  then have "billed (stored_transaction (force_stop (ss_station t) tx))"
    unfolding force_stop_def by (rule stop_request_billed)
  with t assms(1) Pair show ?thesis
    by (auto simp: softStopTransaction_def saveTransaction_def effect_simps upsert_billed)
qed

lemma handle_soft_stop_billed:
  assumes "list_all billed (db_transactions s)" "exact R"
  shows "list_all billed (db_transactions (handleSoftStop R E i s))"
proof (cases "getTransaction i s")
  case None
  with assms show ?thesis by (simp add: handleSoftStop_def)
next
  case (Some tx)
  then have "tx_id tx = i" by (auto simp: getTransaction_def dest: lookup_key)
  then have soft: "list_all billed (db_transactions (snd (softStopTransaction R E tx s)))" if "tx_stop tx = None"
    using soft_stop_billed [OF assms] Some that by simp
  have "list_all billed (db_transactions (snd (transactionSoftStop R E tx cn s)))" for cn
    using assms(1) soft
    by (simp add: transactionSoftStop_def effect_simps thenS_def whenS_def change_station_def saveChargingStationConnectors_def)
  with Some assms(1) show ?thesis by (simp add: handleSoftStop_def split: option.split)
qed

section \<open>Runs\<close>

text \<open>
  A message of a well-behaved station: the meter values it sends have one date and a register reading among them,
  and its stop is in order.
\<close>

definition orderly :: "ocpp_message \<Rightarrow> ocpp_store \<Rightarrow> bool" where
  "orderly m db \<longleftrightarrow>
     (case m of
        MeterValues r \<Rightarrow> complete (values_of (db_station db) r)
      | StopTransaction msg \<Rightarrow>
          (case getTransaction (sm_transactionId msg) db of None \<Rightarrow> True | Some tx \<Rightarrow> stop_in_order tx msg)
      | _ \<Rightarrow> True)"

lemma load_station [simp]: "ss_station (load E db) = db_station db"
  by (simp add: load_def ocpp_store.defs session_state.defs)

lemma load_getTransaction [simp]: "getTransaction i (load E db) = getTransaction i db"
  by (simp add: getTransaction_def)

lemma hard_stop [simp]: "checkSoftStopTransaction tx msg False = msg"
  by (simp add: checkSoftStopTransaction_def)

lemma serve_billed:
  assumes "list_all billed (db_transactions db)" "distinct (map tx_id (db_transactions db))" "exact R" "orderly m db"
  shows "list_all billed (db_transactions (serve R E m db))"
proof (cases m)
  case (StartTransaction i so)
  with start_billed [of "load E db" R E i so] assms show ?thesis by (simp add: serve_transactions)
next
  case (MeterValues r)
  with meter_values_billed [of "load E db" r R E] assms show ?thesis by (simp add: serve_transactions orderly_def)
next
  case (StopTransaction msg)
  obtain a s where h: "handleStopTransaction R E True msg False False (load E db) = (a, s)" by (metis surj_pair)
  have "list_all billed (db_transactions s)"
    by (rule stop_billed [OF _ assms(3) h]) (use assms StopTransaction in \<open>auto simp: orderly_def\<close>)
  with h StopTransaction show ?thesis by (simp add: serve_transactions)
next
  case (StatusNotification given sn)
  have "rewrites_end (db_transactions db) (db_transactions (handleStatusNotification R E given sn (load E db)))"
    using status_writes [of "load E db" R E given sn] assms(2) by simp
  with rewritten_billed [OF assms(1)] StatusNotification show ?thesis by (simp add: serve_transactions)
next
  case (SoftStop i)
  with handle_soft_stop_billed [of "load E db" R E i] assms show ?thesis by (simp add: serve_transactions)
qed

inductive orderly_step :: "runtime \<Rightarrow> ocpp_store \<Rightarrow> ocpp_store \<Rightarrow> bool" for R :: runtime where
  served: "ready m db \<Longrightarrow> orderly m db \<Longrightarrow> orderly_step R db (serve R E m db)"


end
