(* ===== verification/SessionAnswers.thy ===== *)
theory SessionAnswers
  imports SessionBills
begin

text \<open>
  What the messages leave behind when they are repeated, refused or accepted.
\<close>

section \<open>Repeated meter values\<close>

definition known_values :: "meter_value \<Rightarrow> session_state \<Rightarrow> bool" where
  "known_values mv s \<longleftrightarrow> lookup_by meter_key (meter_key mv) (db_meterValues s) \<noteq> None"

definition kind_of_station :: "charging_station \<Rightarrow> ocpp_version \<times> string" where
  "kind_of_station cs = (cs_ocppVersion cs, cs_chargePointVendor cs)"

text \<open>The values of a message depend on the station in the number of the session only.\<close>

lemma values_keys:
  assumes "kind_of_station cs' = kind_of_station cs"
  shows "map meter_key (values_of cs' r) = map meter_key (values_of cs r)"
proof -
  have f: "filterMeterValuesOnSpecificChargingStations cs mvs = mvs" for cs mvs
    by (simp add: filterMeterValuesOnSpecificChargingStations_def async_callback_def)
  have v: "mr_connectorId (validateMeterValues cs r) = (if mr_connectorId r = 0 then 1 else mr_connectorId r)"
      "mr_meterValue (validateMeterValues cs r) = mr_meterValue r" for cs
    by (simp_all add: validateMeterValues_def Let_def split: option.split)
  have n: "map meter_key (normalizeMeterValues cs1 r1) = map meter_key (normalizeMeterValues cs2 r2)"
    if that: "cs_ocppVersion cs1 = cs_ocppVersion cs2" "mr_connectorId r1 = mr_connectorId r2" "mr_meterValue r1 = mr_meterValue r2"
    for cs1 cs2 r1 r2
  proof -
    have "map meter_key (normalize_sample cs1 r1 s) = map meter_key (normalize_sample cs2 r2 s)" for s
      using that(1,2) by (auto simp: normalize_sample_def normalized_def meter_key_def split: option.split)
    then show ?thesis using that(3) by (simp add: normalizeMeterValues_def map_concat o_def)
  qed
  show ?thesis
    unfolding values_of_def f by (rule n) (use assms in \<open>simp_all add: v kind_of_station_def\<close>)
qed

lemma kinds [simp]:
  "kind_of_station (stored_station g cs) = kind_of_station cs"
  "kind_of_station (updateChargingStationConnectorRuntimeDataWithTransaction tx cs) = kind_of_station cs"
  "kind_of_station (clearChargingStationConnectorRuntimeData i cs) = kind_of_station cs"
  by (simp_all add: kind_of_station_def stored_station_def updateChargingStationConnectorRuntimeDataWithTransaction_def
      clearChargingStationConnectorRuntimeData_def change_connector_def)

text \<open>What a message that was not refused at once keeps true until its end.\<close>

definition remembered :: "meter_value \<Rightarrow> ocpp_version \<times> string \<Rightarrow> session_state \<Rightarrow> bool" where
  "remembered mv k s \<longleftrightarrow> known_values mv s \<and> kind_of_station (ss_station s) = k \<and> kind_of_station (db_station s) = k"

lemma lookup_append: "lookup_by key k (xs @ ys) = (case lookup_by key k xs of None \<Rightarrow> lookup_by key k ys | Some d \<Rightarrow> Some d)"
  by (induction xs) (auto simp: lookup_by_def)

lemma insert_remembers [effect_rules]: "preservesS (remembered mv k) (insertMeterValue v)"
  by (auto simp: insertMeterValue_def bindS_def effect_simps holdsS_def remembered_def known_values_def lookup_append
      split: option.splits)

lemma updates_remember [effect_rules]:
  "preservesS (remembered mv k) (saveConsumption c)" "preservesS (remembered mv k) (saveTransaction tx)"
  "preservesS (remembered mv k) (saveChargingStation E)"
  "preservesS (remembered mv k) (change_station (updateChargingStationConnectorRuntimeDataWithTransaction tx))"
  by (auto simp: saveConsumption_def saveTransaction_def saveChargingStation_def change_station_def effect_simps
      holdsS_def remembered_def known_values_def)

lemma apply_remembers: "preservesS (remembered mv k) (apply_consumption R E priced tx c)"
  unfolding apply_consumption_def by (auto simp: Let_def intro!: effect_rules split: prod.split)

lemma create_remembers: "preservesS (remembered mv k) (create_consumptions R E tx mvs)"
  unfolding create_consumptions_def
  by (auto intro!: effect_rules split: prod.split simp: remembered_def known_values_def)

lemma after_insert_remembers:
  "preservesS (remembered mv k)
     (bindS (liftS (updateTransactionWithMeterValues R cs tx mvs)) (\<lambda>tx1.
      bindS (create_consumptions R E tx1 mvs) (\<lambda>(cons, tx2).
      bindS (foldS (apply_consumption R E processUpdateTransaction) tx2 cons) (\<lambda>tx3.
        returnS (with_phases_used cs tx3)))))"
  by (auto intro!: effect_rules create_remembers apply_remembers split: prod.split)

text \<open>Whether a message is refused before it has changed anything does not depend on the badges, tariffs or clock.\<close>

definition refused_at_once :: "charging_station \<Rightarrow> meter_request \<Rightarrow> session_state \<Rightarrow> bool" where
  "refused_at_once cs r s \<longleftrightarrow>
     (let i = mr_transactionId (validateMeterValues cs r) in
      values_of cs r = [] \<or> i = 0 \<or> getTransaction i s = None
      \<or> (case getTransaction i s of None \<Rightarrow> False | Some tx \<Rightarrow> tx_stop tx \<noteq> None)
      \<or> mv_attribute (hd (values_of cs r)) = None \<or> known_values (hd (values_of cs r)) s)"

lemma refused_changes_nothing:
  assumes "refused_at_once (ss_station s) r s"
  shows "handleMeterValues R E r s = s"
proof (cases "values_of (ss_station s) r")
  case Nil
  then show ?thesis by (simp add: handleMeterValues_def meter_values_body_def meter_values_of_def tryS_def effect_simps)
next
  case (Cons mv mvs)
  have ins: "insertMeterValue mv s = (Inl (if mv_attribute mv = None then TypeError else DuplicateKey), s)"
    if "mv_attribute mv = None \<or> known_values mv s"
    using that by (auto simp: insertMeterValue_def known_values_def effect_simps)
  from assms Cons ins show ?thesis
    by (auto simp: handleMeterValues_def meter_values_body_def meter_values_of_def tryS_def refused_at_once_def Let_def
        getTransactionFromMeterValues_def meter_transaction_def saveMeterValues_def thenS_def bindS_def effect_simps
        split: option.splits)
qed

lemma handled_remembers:
  assumes "\<not> refused_at_once cs r s" "ss_station s = cs" "kind_of_station cs = k" "kind_of_station (db_station s) = k"
  shows "remembered (hd (values_of cs r)) k (handleMeterValues R E r s)"
proof -
  let ?i = "mr_transactionId (validateMeterValues cs r)"
  obtain mv mvs where mvs: "values_of cs r = mv # mvs"
    using assms(1) by (cases "values_of cs r") (auto simp: refused_at_once_def)
  obtain tx where tx: "getTransaction ?i s = Some tx" "tx_stop tx = None" "?i \<noteq> 0"
    using assms(1) by (auto simp: refused_at_once_def Let_def)
  have new: "mv_attribute mv \<noteq> None" "\<not> known_values mv s"
    using assms(1) mvs by (auto simp: refused_at_once_def Let_def)
  let ?I = "remembered mv k"
  have get: "holdsS (\<lambda>x. x = s) (getTransactionFromMeterValues E (validateMeterValues cs r)) (\<lambda>_ x. x = s) ?I"
    using tx by (simp add: holdsS_def getTransactionFromMeterValues_def effect_simps)
  have ins: "holdsS (\<lambda>x. x = s) (insertMeterValue mv) (\<lambda>_. ?I) ?I"
    using new assms(2-4)
    by (auto simp: holdsS_def insertMeterValue_def bindS_def effect_simps remembered_def known_values_def lookup_append
        split: option.split) (simp_all add: lookup_by_def)
  have "holdsS (\<lambda>x. x = s) (saveMeterValues (mv # mvs)) (\<lambda>_. ?I) ?I"
    by (simp add: saveMeterValues_def) (rule bindS_rule [OF ins], intro effect_rules)
  then have "holdsS (\<lambda>x. x = s) (meter_transaction R E cs (mv # mvs) tx1) (\<lambda>_. ?I) ?I" for tx1
    unfolding meter_transaction_def thenS_def by (rule bindS_rule) (rule after_insert_remembers)
  then have "holdsS (\<lambda>x. x = s) (bindS (meter_transaction R E cs (mv # mvs) tx1) (\<lambda>tx4.
       thenS (saveTransaction tx4)
       (thenS (change_station (updateChargingStationConnectorRuntimeDataWithTransaction tx4)) (saveChargingStation E))))
       (\<lambda>_. ?I) ?I" for tx1
    by (rule bindS_rule) (intro effect_rules)
  then have "holdsS (\<lambda>x. x = s) (meter_values_of R E r cs) (\<lambda>_. ?I) ?I"
    unfolding meter_values_of_def by (simp add: mvs bindS_rule [OF get])
  note w = holdsS_returns [OF this, of s] holdsS_raises [OF this, of s]
  obtain q t where "meter_values_of R E r cs s = (q, t)" by (metis surj_pair)
  with w show ?thesis
    using assms(2) by (cases q) (auto simp: mvs handleMeterValues_def meter_values_body_def tryS_def effect_simps)
qed

lemma truncate_load [simp]: "ocpp_store.truncate (load E db) = db"
  by (simp add: load_def ocpp_store.defs session_state.defs)

lemma serve_state:
  "db_meterValues (load E db) = db_meterValues db" "db_station (load E db) = db_station db"
  "db_meterValues (serve R E m db) = db_meterValues (handle_message R E m (load E db))"
  "db_station (serve R E m db) = db_station (handle_message R E m (load E db))"
  by (simp_all add: serve_def load_def ocpp_store.defs session_state.defs)

text \<open>
  C5: Meter values that are sent again change nothing: when a station repeats a message of meter values, because
  the answer got lost or after any failure of the first one, the second message leaves the database as it is,
  whatever the clock, the tariffs and the badges are then.
\<close>

theorem a_repeated_message_changes_nothing:
  "serve R' E' (MeterValues r) (serve R E (MeterValues r) db) = serve R E (MeterValues r) db"
proof (cases "refused_at_once (db_station db) r (load E db)")
  case True
  then have "serve R E (MeterValues r) db = db"
    using refused_changes_nothing [of "load E db" r R E] by (simp add: serve_def)
  moreover have "refused_at_once (db_station db) r (load E' db)"
    using True by (simp add: refused_at_once_def known_values_def serve_state Let_def cong: option.case_cong)
  ultimately show ?thesis
    using refused_changes_nothing [of "load E' db" r R' E'] by (simp add: serve_def)
next
  case False
  let ?cs = "db_station db"
  let ?db = "serve R E (MeterValues r) db"
  have "remembered (hd (values_of ?cs r)) (kind_of_station ?cs) (handleMeterValues R E r (load E db))"
    by (rule handled_remembers) (use False in \<open>simp_all add: serve_state\<close>)
  then have known: "lookup_by meter_key (meter_key (hd (values_of ?cs r))) (db_meterValues ?db) \<noteq> None"
    and kind: "kind_of_station (db_station ?db) = kind_of_station ?cs"
    by (simp_all add: remembered_def known_values_def serve_state)
  have "values_of ?cs r \<noteq> []" using False by (simp add: refused_at_once_def Let_def)
  with values_keys [OF kind, of r]
  have "meter_key (hd (values_of (db_station ?db) r)) = meter_key (hd (values_of ?cs r))"
    by (metis list.map_disc_iff list.map_sel(1))
  with known have "refused_at_once (db_station ?db) r (load E' ?db)"
    by (simp add: refused_at_once_def known_values_def serve_state)
  then show ?thesis
    using refused_changes_nothing [of "load E' ?db" r R' E'] by (simp add: serve_def [of R' E'])
qed

end
