(* ===== verification/SessionStations.thy ===== *)
theory SessionStations
  imports SessionAnswers
begin

text \<open>
  Who may start a session, what the connector of the station shows of it, and the sessions a start finds
  unfinished.
\<close>

section \<open>Accepted starts\<close>

lemma created [simp]:
  "tx_id (createTransaction R E cs i so) = i" "tx_stop (createTransaction R E cs i so) = None"
  "tx_chargeBoxID (createTransaction R E cs i so) = cs_id cs"
  "tx_connectorId (createTransaction R E cs i so) = sr_connectorId so"
  "tx_userID (createTransaction R E cs i so) = None" "tx_tagID (createTransaction R E cs i so) = Some (sr_idTag so)"
  "tx_timestamp (createTransaction R E cs i so) = sr_timestamp so"
  by (simp_all add: createTransaction_def Let_def)

lemma start_accepted:
  assumes "handleStartTransaction R E i so0 s = ((n, AUTH_ACCEPTED), s')"
  obtains so tx u b where
    "isAuthorizedToStartTransaction (se_tags E) (ss_station s) (ss_siteArea s) (badge_text (sr_idTag so0)) = Inr (u, b)"
    "tx_id tx = i" "tx_stop tx = None" "tx_chargeBoxID tx = cs_id (ss_station s)" "tx_connectorId tx = sr_connectorId so0"
    "tx_userID tx = map_option us_id u" "tx_tagID tx = Some (badge_text (sr_idTag so0))"
    "sr_connectorId so = sr_connectorId so0" "getConnectorFromID (ss_station s) (sr_connectorId so0) \<noteq> None"
    "start_transaction R E so tx s = (Inr (n, AUTH_ACCEPTED), s')"
proof -
  from assms have "start_body R E i so0 s = (Inr (n, AUTH_ACCEPTED), s')"
    by (auto simp: handleStartTransaction_def tryS_def split: prod.splits sum.splits)
  then obtain so u b where so: "validateStartTransaction (ss_station s) so0 = Inr so"
    and u: "isAuthorizedToStartTransaction (se_tags E) (ss_station s) (ss_siteArea s) (sr_idTag so) = Inr (u, b)"
    and st: "start_transaction R E so ((createTransaction R E (ss_station s) i so)
        \<lparr>tx_userID := case u of None \<Rightarrow> tx_userID (createTransaction R E (ss_station s) i so) | Some v \<Rightarrow> Some (us_id v), tx_tag := map_option tag.truncate b\<rparr>) s
          = (Inr (n, AUTH_ACCEPTED), s')"
    by (auto simp: start_body_def bindS_def effect_simps Let_def split: prod.splits sum.splits if_splits)
  from so have "so = so0\<lparr>sr_idTag := badge_text (sr_idTag so0)\<rparr>" "getConnectorFromID (ss_station s) (sr_connectorId so0) \<noteq> None"
    by (auto simp: validateStartTransaction_def split: if_splits)
  with u st show thesis
    by (intro that [of u b "(createTransaction R E (ss_station s) i so)
        \<lparr>tx_userID := case u of None \<Rightarrow> tx_userID (createTransaction R E (ss_station s) i so) | Some v \<Rightarrow> Some (us_id v), tx_tag := map_option tag.truncate b\<rparr>" so])
      (simp_all split: option.split)
qed


section \<open>The connector of a session\<close>

lemma find_update_first:
  "List.find (\<lambda>cn. cn_connectorId cn = i) (update_first (\<lambda>cn. cn_connectorId cn = i) f cns)
     = map_option f (List.find (\<lambda>cn. cn_connectorId cn = i) cns)"
  if "\<And>cn. cn_connectorId (f cn) = cn_connectorId cn"
  using that by (induction cns) auto

lemma find_map: "List.find p (map f xs) = map_option f (List.find (p \<circ> f) xs)"
  by (induction xs) auto

lemma changed_connector:
  "(\<And>cn. cn_connectorId (f cn) = cn_connectorId cn)
     \<Longrightarrow> getConnectorFromID (change_connector i f cs) i = map_option f (getConnectorFromID cs i)"
  by (simp add: getConnectorFromID_def change_connector_def find_update_first split: option.split)

lemma stored_connector:
  "getConnectorFromID (stored_station g cs) i = map_option filterConnectorMDB (getConnectorFromID cs i)"
  by (auto simp: getConnectorFromID_def stored_station_def find_map o_def filterConnectorMDB_def split: option.split)

text \<open>What the connector shows of a running session, and of none.\<close>

definition shows_session :: "charging_station \<Rightarrow> tx_transaction \<Rightarrow> bool" where
  "shows_session cs tx \<longleftrightarrow>
     (case getConnectorFromID cs (tx_connectorId tx) of
        None \<Rightarrow> False
      | Some cn \<Rightarrow> cn_currentTransactionID cn = Some (tx_id tx) \<and> cn_currentUserID cn = tx_userID tx
          \<and> cn_currentTagID cn = tx_tagID tx \<and> cn_currentTransactionDate cn = Some (tx_timestamp tx))"

definition shows_none :: "charging_station \<Rightarrow> int \<Rightarrow> bool" where
  "shows_none cs i \<longleftrightarrow>
     (case getConnectorFromID cs i of
        None \<Rightarrow> True
      | Some cn \<Rightarrow> cn_currentTransactionID cn = Some 0 \<and> cn_currentUserID cn = None \<and> cn_currentTagID cn = None
          \<and> cn_currentTransactionDate cn = None)"

lemma cleared_connector: "shows_none (clearChargingStationConnectorRuntimeData i cs) i"
  by (simp add: shows_none_def clearChargingStationConnectorRuntimeData_def changed_connector split: option.split)

lemma stored_none: "shows_none cs i \<Longrightarrow> shows_none (stored_station g cs) i"
  by (auto simp: shows_none_def stored_connector filterConnectorMDB_def split: option.splits)

lemma updated_connector:
  "tx_stop tx = None \<Longrightarrow> getConnectorFromID cs (tx_connectorId tx) \<noteq> None
     \<Longrightarrow> shows_session (stored_station g (updateChargingStationConnectorRuntimeDataWithTransaction tx cs)) tx"
  by (auto simp: shows_session_def updateChargingStationConnectorRuntimeDataWithTransaction_def changed_connector
      stored_connector filterConnectorMDB_def)

abbreviation on_stations :: "(charging_station \<Rightarrow> bool) \<Rightarrow> (charging_station \<Rightarrow> bool) \<Rightarrow> session_state \<Rightarrow> bool" where
  "on_stations P Q \<equiv> \<lambda>s. P (ss_station s) \<and> Q (db_station s)"

lemma station_steps [effect_rules]:
  "preservesS (on_stations P Q) (saveConsumption c)" "preservesS (on_stations P Q) (saveTransaction tx)"
  by (auto simp: saveConsumption_def saveTransaction_def effect_simps holdsS_def)

lemma apply_keeps_stations [effect_rules]: "preservesS (on_stations P Q) (apply_consumption R E priced tx c)"
  unfolding apply_consumption_def by (auto simp: Let_def intro!: effect_rules split: prod.split)

lemma create_keeps_stations [effect_rules]: "preservesS (on_stations P Q) (create_consumptions R E tx mvs)"
  unfolding create_consumptions_def by (auto intro!: effect_rules split: prod.split)

lemma last_keeps_stations [effect_rules]:
  "preservesS (on_stations P Q) (checkAndApplyLastConsumptionInStopTransaction R E tx msg)"
  unfolding checkAndApplyLastConsumptionInStopTransaction_def by (auto intro!: effect_rules split: prod.split)

lemma first_priced_keeps_stations: "preservesS (on_stations P Q) (first_priced R E tx)"
  unfolding first_priced_def by (auto intro!: effect_rules split: prod.split option.split)

lemma stop_frees_connector:
  "holdsS (\<lambda>_. True) (stop_transaction R E msg soft central tx)
     (\<lambda>_ s. shows_none (db_station s) (tx_connectorId tx)) (\<lambda>_. True)"
proof -
  let ?I = "on_stations (\<lambda>_. True) (\<lambda>cs. shows_none cs (tx_connectorId tx))"
  let ?clear = "change_station (clearChargingStationConnectorRuntimeData (tx_connectorId tx))"
  have "holdsS (\<lambda>_. True) (thenS ?clear (thenS (saveChargingStation E) m)) (\<lambda>_. ?I) (\<lambda>_. True)"
    if "preservesS ?I m" for m :: "authorization_status session"
  proof -
    have "holdsS (\<lambda>_. True) ?clear (\<lambda>_ s. shows_none (ss_station s) (tx_connectorId tx)) (\<lambda>_. True)"
      unfolding change_station_def by (rule updateS_rule) (simp add: cleared_connector)
    moreover have "holdsS (\<lambda>s. shows_none (ss_station s) (tx_connectorId tx)) (saveChargingStation E) (\<lambda>_. ?I) (\<lambda>_. True)"
      unfolding saveChargingStation_def by (rule updateS_rule) (simp add: stored_none)
    moreover have "holdsS ?I m (\<lambda>_. ?I) (\<lambda>_. True)" by (rule holdsS_mono [OF that]) simp_all
    ultimately show ?thesis unfolding thenS_def by (intro bindS_rule) assumption+
  qed
  note freed = holdsS_mono [OF this]
  show ?thesis
    unfolding stop_transaction_def Let_def
    apply (rule bindS_rule [where R = "\<lambda>_ _. True"], rule getS_rule, simp)
    apply (simp split: prod.split, intro allI impI)
    apply (rule bindS_rule [where R = "\<lambda>_ _. True"], rule liftS_rule, simp, simp)
    apply (simp split: prod.split, intro allI impI)
    apply (rule freed)
       apply (intro effect_rules)
      apply simp_all
    done
qed

lemma stop_accepted:
  assumes "handleStopTransaction R E True msg soft central s = (AUTH_ACCEPTED, s')" "sm_transactionId msg \<noteq> 0"
  obtains msg1 tx where "getTransaction (sm_transactionId msg) s = Some tx"
    "stop_transaction R E msg1 soft central (with_tag (se_tags E) tx) s = (Inr AUTH_ACCEPTED, s')"
proof -
  let ?msg = "msg\<lparr>sm_idTag := map_option badge_text (sm_idTag msg)\<rparr>"
  from assms(1) have "stop_body R E ?msg soft central s = (Inr AUTH_ACCEPTED, s')"
    by (auto simp: handleStopTransaction_def validateStopTransaction_def tryS_def effect_simps split: prod.splits sum.splits)
  with assms(2) that show thesis
    by (auto simp: stop_body_def bypassStopTransaction_def getTransactionFromStopTransaction_def bindS_def effect_simps
        split: option.splits)
qed


lemma ended_stop_raises:
  assumes "tx_stop tx \<noteq> None"
  obtains e where "stop_transaction R E msg soft central tx s = (Inl e, s)"
proof -
  let ?check = "checkAuthorizeStopTransactionAndGetUsers (se_tags E) (ss_station s) (ss_siteArea s) tx
      (getStopTransactionTagId R msg tx) central"
  obtain e where "?check = Inl e"
    using stop_users_running [of "se_tags E" "ss_station s" "ss_siteArea s" tx "getStopTransactionTagId R msg tx" central]
      assms by (cases ?check) auto
  then have "stop_transaction R E msg soft central tx s = (Inl e, s)"
    by (simp add: stop_transaction_def effect_simps Let_def)
  then show thesis by (rule that)
qed

lemma ended_stop_refused:
  assumes "getTransaction (sm_transactionId msg) s = Some tx" "tx_stop tx \<noteq> None" "sm_transactionId msg \<noteq> 0"
  shows "handleStopTransaction R E True msg soft central s = (AUTH_INVALID, s)"
proof -
  let ?msg = "msg\<lparr>sm_idTag := map_option badge_text (sm_idTag msg)\<rparr>"
  from assms(2) have "tx_stop (with_tag (se_tags E) tx) \<noteq> None" by simp
  then obtain e where "stop_transaction R E ?msg soft central (with_tag (se_tags E) tx) s = (Inl e, s)"
    by (rule ended_stop_raises)
  then have "stop_body R E ?msg soft central s = (Inl e, s)"
    using assms(1,3)
    by (simp add: stop_body_def bypassStopTransaction_def getTransactionFromStopTransaction_def bindS_def effect_simps)
  then show ?thesis
    by (simp add: handleStopTransaction_def validateStopTransaction_def tryS_def effect_simps)
qed

text \<open>
  A session that is over takes no messages: a stop is answered as invalid, and neither it nor meter values for
  the session change anything that is stored.
\<close>

lemma an_ended_session_takes_no_messages:
  assumes "getTransaction i db = Some tx" "tx_stop tx \<noteq> None" "i \<noteq> 0"
    and "sm_transactionId msg = i" "mr_transactionId r = i"
  shows "fst (handleStopTransaction R E True msg soft central (load E db)) = AUTH_INVALID
    \<and> serve R E (StopTransaction msg) db = db \<and> serve R E (MeterValues r) db = db"
proof -
  have "handleStopTransaction R E True msg soft central (load E db) = (AUTH_INVALID, load E db)" for soft central
    by (rule ended_stop_refused) (use assms in simp_all)
  moreover have "mr_transactionId (validateMeterValues (db_station db) r) = i"
    using assms(3,5) by (simp add: validateMeterValues_def Let_def split: option.split)
  then have "refused_at_once (db_station db) r (load E db)"
    using assms(1,2) by (simp add: refused_at_once_def Let_def)
  ultimately show ?thesis
    using refused_changes_nothing [of "load E db" r R E] by (simp add: serve_def)
qed

section \<open>What a start finds unfinished\<close>

lemma cleared_has [simp]:
  "getConnectorFromID (clearChargingStationConnectorRuntimeData i cs) j = None \<longleftrightarrow> getConnectorFromID cs j = None"
proof -
  have "List.find (\<lambda>cn. cn_connectorId cn = j) (update_first p f cns) = None
      \<longleftrightarrow> List.find (\<lambda>cn. cn_connectorId cn = j) cns = None"
    if "\<And>cn. cn_connectorId (f cn) = cn_connectorId cn" for p f and cns :: "connector list"
    using that by (induction cns) auto
  then show ?thesis
    by (auto simp: clearChargingStationConnectorRuntimeData_def change_connector_def getConnectorFromID_def split: option.split)
qed

lemma cleared_id [simp]: "cs_id (clearChargingStationConnectorRuntimeData i cs) = cs_id cs"
  by (simp add: clearChargingStationConnectorRuntimeData_def change_connector_def)

lemma end_pending_station:
  "cs_id (ss_station (end_pending R E tx s)) = cs_id (ss_station s)"
  "getConnectorFromID (ss_station (end_pending R E tx s)) j = None \<longleftrightarrow> getConnectorFromID (ss_station s) j = None"
  "db_station (end_pending R E tx s) = db_station s"
  by (auto simp: end_pending_def deleteTransaction_def stop_without_station Let_def)

lemma process_station:
  "cs_id (ss_station (processExistingTransaction R E i seen s)) = cs_id (ss_station s)
    \<and> (getConnectorFromID (ss_station (processExistingTransaction R E i seen s)) j = None
        \<longleftrightarrow> getConnectorFromID (ss_station s) j = None)"
proof (induction R E i seen s rule: processExistingTransaction.induct)
  case (1 R E i seen s)
  then show ?case
    by (auto simp: processExistingTransaction.simps [of R E i seen s] end_pending_station split: option.split)
qed

text \<open>
  The pending session the loop meets last is one that has used energy: it is not ended, because the message made up
  to stop it lacks the station.
\<close>

lemma process_keeps_used:
  assumes "tx \<in> set (db_transactions s)" "\<not> no_consumption tx"
    and "distinct (map tx_id (db_transactions s))"
  shows "tx \<in> set (db_transactions (processExistingTransaction R E i seen s))"
  using assms
proof (induction R E i seen s rule: processExistingTransaction.induct)
  case (1 R E i seen s)
  show ?case
  proof (cases "getActiveTransaction (cs_id (ss_station s)) i s")
    case None
    with 1(2) show ?thesis by (simp add: processExistingTransaction.simps [of R E i seen s])
  next
    case (Some a)
    have d: "distinct (map tx_id (db_transactions (end_pending R E a s)))"
      using 1(4) by (simp add: end_pending_transactions delete_distinct)
    have "tx \<in> set (db_transactions (end_pending R E a s))"
    proof (cases "no_consumption a")
      case True
      with 1(2-4) active_is_stored [OF Some] have "tx_id tx \<noteq> tx_id a"
        by (metis distinct_map inj_onD)
      with 1(2) True show ?thesis by (simp add: end_pending_transactions delete_by_def)
    qed (use 1(2) in \<open>simp add: end_pending_transactions\<close>)
    with 1(1) [OF Some] 1(2,3) d show ?thesis
      by (simp add: processExistingTransaction.simps [of R E i seen s] Some)
  qed
qed

text \<open>What is left of the pending sessions: none that is alone and has used nothing.\<close>

lemma process_result:
  assumes "seen = None \<or> (\<forall>tx. getActiveTransaction (cs_id (ss_station s)) i s = Some tx \<longrightarrow> seen = Some (tx_id tx) \<longrightarrow> \<not> no_consumption tx)"
    and "distinct (map tx_id (db_transactions s))"
  shows "case getActiveTransaction (cs_id (ss_station s)) i (processExistingTransaction R E i seen s) of
      None \<Rightarrow> True | Some tx \<Rightarrow> \<not> no_consumption tx"
  using assms
proof (induction R E i seen s rule: processExistingTransaction.induct)
  case (1 R E i seen s)
  show ?case
  proof (cases "getActiveTransaction (cs_id (ss_station s)) i s")
    case None
    then show ?thesis by (simp add: processExistingTransaction.simps [of R E i seen s])
  next
    case (Some a)
    show ?thesis
    proof (cases "seen = Some (tx_id a)")
      case True
      with 1(2) Some show ?thesis by (simp add: processExistingTransaction.simps [of R E i "Some (tx_id a)" s])
    next
      case False
      let ?s = "end_pending R E a s"
      have d: "distinct (map tx_id (db_transactions ?s))"
        using 1(3) by (simp add: end_pending_transactions delete_distinct)
      have "\<not> no_consumption tx"
        if "getActiveTransaction (cs_id (ss_station s)) i ?s = Some tx" "tx_id tx = tx_id a" for tx
      proof
        assume n: "no_consumption tx"
        from active_is_stored [OF that(1)] have m: "tx \<in> set (db_transactions ?s)" by simp
        show False
        proof (cases "no_consumption a")
          case True
          with m that(2) show False by (auto simp: end_pending_transactions delete_by_def)
        next
          case u: False
          with that Some have "tx = a" by (simp add: getActiveTransaction_def end_pending_transactions)
          with n u show False by simp
        qed
      qed
      with 1(1) [OF Some False] d show ?thesis
        by (simp add: processExistingTransaction.simps [of R E i seen s] Some False end_pending_station)
    qed
  qed
qed

lemma start_transaction_stores:
  assumes "start_transaction R E so tx s = (Inr (n, a), s')"
  obtains tx2 where "session_core tx2 = session_core tx" "n = tx_id tx"
    "db_transactions s' = upsert tx_id (stored_transaction tx2)
       (db_transactions (processExistingTransaction R E (sr_connectorId so) None s))"
    "db_station s' = stored_station (se_lat_long E) (updateChargingStationConnectorRuntimeDataWithTransaction tx2
       (ss_station (processExistingTransaction R E (sr_connectorId so) None s)))"
proof -
  let ?s = "processExistingTransaction R E (sr_connectorId so) None s"
  from assms obtain tx2 s2 where p: "first_priced R E tx ?s = (Inr tx2, s2)"
    and r: "(thenS (saveTransaction tx2)
      (thenS (change_station (updateChargingStationConnectorRuntimeDataWithTransaction tx2))
      (thenS (saveChargingStation E) (returnS (tx_id tx2, AUTH_ACCEPTED))))) s2 = (Inr (n, a), s')"
    by (auto simp: start_transaction_def thenS_def effect_simps bindS_returns)
  have "db_transactions s2 = db_transactions ?s" "session_core tx2 = session_core tx"
    using holdsS_returns [OF first_priced_yields [of "\<lambda>x. x = db_transactions ?s"] _ p] by simp_all
  moreover have "ss_station s2 = ss_station ?s"
    using holdsS_returns [OF first_priced_keeps_stations [of "\<lambda>x. x = ss_station ?s" "\<lambda>_. True"] _ p] by simp
  ultimately show thesis
    using r by (intro that [of tx2])
      (auto simp: thenS_def saveTransaction_def change_station_def saveChargingStation_def effect_simps session_core_def)
qed

lemma stored_session:
  "session_core tx2 = session_core tx \<Longrightarrow> tx_stop tx = None \<Longrightarrow> session_core (stored_transaction tx2) = session_core tx"
  by (simp add: session_core_def stored_transaction_def stored_fields_def)

text \<open>
  C6: An accepted start shows: the answer is the number of the session, the session is stored running on its station
  and connector for the user and the badge it was authorized for, and the stored connector shows exactly this session.
\<close>

theorem an_accepted_start_shows:
  assumes "handleStartTransaction R E i so s = ((n, AUTH_ACCEPTED), s')"
  shows "n = i \<and> (\<exists>tx. getTransaction i s' = Some tx \<and> tx_stop tx = None
    \<and> on_connector (cs_id (ss_station s)) (sr_connectorId so) tx
    \<and> tx_tagID tx = Some (badge_text (sr_idTag so)) \<and> shows_session (db_station s') tx)"
proof -
  from assms obtain so1 tx u b where tx: "tx_id tx = i" "tx_stop tx = None" "tx_chargeBoxID tx = cs_id (ss_station s)"
      "tx_connectorId tx = sr_connectorId so" "tx_tagID tx = Some (badge_text (sr_idTag so))"
    and c: "sr_connectorId so1 = sr_connectorId so" "getConnectorFromID (ss_station s) (sr_connectorId so) \<noteq> None"
    and st: "start_transaction R E so1 tx s = (Inr (n, AUTH_ACCEPTED), s')"
    by (rule start_accepted)
  let ?s = "processExistingTransaction R E (sr_connectorId so1) None s"
  from st obtain tx2 where n: "session_core tx2 = session_core tx" "n = tx_id tx"
    and db: "db_transactions s' = upsert tx_id (stored_transaction tx2) (db_transactions ?s)"
    and cs: "db_station s' = stored_station (se_lat_long E)
        (updateChargingStationConnectorRuntimeDataWithTransaction tx2 (ss_station ?s))"
    by (rule start_transaction_stores)
  let ?tx = "stored_transaction tx2"
  note core = stored_session [OF n(1) tx(2)]
  have "getTransaction i s' = Some ?tx"
    using core tx(1) by (simp add: getTransaction_def db lookup_upsert session_core_def)
  moreover have "tx_stop tx2 = None" "getConnectorFromID (ss_station ?s) (tx_connectorId tx2) \<noteq> None"
    using n(1) tx(2,4) c process_station [of R E "sr_connectorId so1" None s "sr_connectorId so"]
    by (simp_all add: session_core_def)
  with updated_connector [of tx2 "ss_station ?s" "se_lat_long E"] have "shows_session (db_station s') tx2" by (simp add: cs)
  then have "shows_session (db_station s') ?tx"
    using core n(1) by (simp add: shows_session_def session_core_def cong: option.case_cong)
  ultimately show ?thesis
    using core tx n(2) by (auto simp: session_core_def on_connector_def)
qed

lemma upsert_member: "d \<in> set (upsert key d ds)" "x \<in> set ds \<Longrightarrow> key x \<noteq> key d \<Longrightarrow> x \<in> set (upsert key d ds)"
  by (induction ds) auto

lemma two_active:
  assumes "tx \<in> set (db_transactions db)" "tx' \<in> set (db_transactions db)" "tx \<noteq> tx'"
    and "on_connector cid i tx" "on_connector cid i tx'" "tx_stop tx = None" "tx_stop tx' = None"
  shows "getActiveTransaction cid i db = None"
proof -
  let ?active = "filter (\<lambda>tx. on_connector cid i tx \<and> tx_stop tx = None) (db_transactions db)"
  have m: "tx \<in> set ?active" "tx' \<in> set ?active" using assms by simp_all
  have "?active \<noteq> [t]" for t
  proof
    assume "?active = [t]"
    with m have "tx = t" "tx' = t" by simp_all
    with assms(3) show False by simp
  qed
  then show ?thesis by (simp add: getActiveTransaction_def split: list.split)
qed

text \<open>
  C40: A session that has used energy is never ended by the next start: it stays stored as it was, so that after the
  start two sessions run on the connector and none of them counts as its active session any more.
\<close>

theorem a_start_leaves_used_sessions_running:
  assumes "handleStartTransaction R E i so s = ((n, AUTH_ACCEPTED), s')"
    and "distinct (map tx_id (db_transactions s))" "getTransaction i s = None"
    and "tx \<in> set (db_transactions s)" "tx_stop tx = None" "\<not> no_consumption tx"
    and "on_connector (cs_id (ss_station s)) (sr_connectorId so) tx"
  shows "tx \<in> set (db_transactions s') \<and> getActiveTransaction (cs_id (ss_station s)) (sr_connectorId so) s' = None"
proof -
  from assms(1) obtain so1 tx0 u b where tx0: "tx_id tx0 = i" "tx_stop tx0 = None" "tx_chargeBoxID tx0 = cs_id (ss_station s)"
      "tx_connectorId tx0 = sr_connectorId so"
    and st: "start_transaction R E so1 tx0 s = (Inr (n, AUTH_ACCEPTED), s')"
    by (rule start_accepted)
  let ?s = "processExistingTransaction R E (sr_connectorId so1) None s"
  from st obtain tx2 where n: "session_core tx2 = session_core tx0"
    and db: "db_transactions s' = upsert tx_id (stored_transaction tx2) (db_transactions ?s)"
    by (rule start_transaction_stores)
  let ?tx = "stored_transaction tx2"
  have new: "tx_id ?tx = i" "tx_stop ?tx = None" "on_connector (cs_id (ss_station s)) (sr_connectorId so) ?tx"
    using stored_session [OF n tx0(2)] tx0 by (simp_all add: session_core_def on_connector_def)
  have i: "tx_id tx \<noteq> i"
    using assms(2-4) lookup_distinct [OF assms(2,4)] by (auto simp: getTransaction_def)
  have old: "tx \<in> set (db_transactions s')"
    unfolding db by (rule upsert_member(2) [OF process_keeps_used [OF assms(4,6,2)]]) (simp add: new i)
  moreover have "?tx \<in> set (db_transactions s')" unfolding db by (rule upsert_member(1))
  with old have "getActiveTransaction (cs_id (ss_station s)) (sr_connectorId so) s' = None"
    by (rule two_active) (use i new assms(5,7) in auto)
  ultimately show ?thesis by simp
qed

end
