(* ===== verification/SessionDocuments.thy ===== *)
theory SessionDocuments
  imports SessionStations
begin

text \<open>
  The documents the handlers store, whatever message comes: they have the form their collection requires, and the
  indexes of the collections stay unique.
\<close>

section \<open>Typed documents\<close>

text \<open>A running session has its runtime values, one that is over has none left and has all values of its stop.\<close>

definition runtime_values :: "tx_transaction \<Rightarrow> rat option list" where
  "runtime_values tx =
     [currentInstantWatts tx, currentInstantWattsL1 tx, currentInstantWattsL2 tx, currentInstantWattsL3 tx,
      currentInstantWattsDC tx, currentInstantVolts tx, currentInstantVoltsL1 tx, currentInstantVoltsL2 tx,
      currentInstantVoltsL3 tx, currentInstantVoltsDC tx, currentInstantAmps tx, currentInstantAmpsL1 tx,
      currentInstantAmpsL2 tx, currentInstantAmpsL3 tx, currentInstantAmpsDC tx, currentCumulatedPrice tx,
      currentCumulatedRoundedPrice tx, currentStateOfCharge tx, currentTotalConsumptionWh tx,
      currentTotalInactivitySecs tx, currentTotalDurationSecs tx]"

definition stop_numbers :: "transaction_stop \<Rightarrow> rat option list" where
  "stop_numbers st = [ts_stateOfCharge st, ts_totalConsumptionWh st, ts_totalInactivitySecs st,
     ts_extraInactivitySecs st, ts_totalDurationSecs st, ts_price st, ts_roundedPrice st]"

definition typed_transaction :: "tx_transaction \<Rightarrow> bool" where
  "typed_transaction tx \<longleftrightarrow> tx_tag tx = None \<and> tx_price tx \<noteq> None \<and> tx_roundedPrice tx \<noteq> None \<and> tx_stateOfCharge tx \<noteq> None
     \<and> (case tx_stop tx of
          None \<Rightarrow> list_all (\<lambda>v. v \<noteq> None) (runtime_values tx)
        | Some st \<Rightarrow> list_all (\<lambda>v. v = None) (runtime_values tx) \<and> lastConsumption tx = None
            \<and> list_all (\<lambda>v. v \<noteq> None) (stop_numbers st) \<and> ts_priceUnit st = tx_priceUnit tx)"

lemma stored_typed: "typed_transaction (stored_transaction tx)"
  by (simp add: typed_transaction_def stored_transaction_def stored_fields_def without_runtime_def stored_stop_def
      runtime_values_def stop_numbers_def split: option.split)

definition documents_ok :: "'a ocpp_store_scheme \<Rightarrow> bool" where
  "documents_ok db \<longleftrightarrow>
     list_all typed_transaction (db_transactions db) \<and> distinct (map tx_id (db_transactions db))
     \<and> list_all (\<lambda>c. truthy_num (c_transactionId c) \<and> c_consumptionWh c \<noteq> None \<and> c_cumulatedConsumptionWh c \<noteq> None
          \<and> c_amount c \<noteq> None \<and> c_roundedAmount c \<noteq> None) (db_consumptions db)
     \<and> distinct (map consumption_key (db_consumptions db))
     \<and> list_all (\<lambda>mv. mv_attribute mv \<noteq> None) (db_meterValues db) \<and> distinct (map meter_key (db_meterValues db))
     \<and> distinct (map status_key (db_statusNotifications db))"

lemma upsert_all: "list_all P ds \<Longrightarrow> P d \<Longrightarrow> list_all P (upsert key d ds)"
  by (induction ds) auto

lemma delete_all: "list_all P ds \<Longrightarrow> list_all P (delete_by key k ds)"
  by (auto simp: delete_by_def list_all_iff)

lemma lookup_none: "lookup_by key k ds = None \<longleftrightarrow> k \<notin> key ` set ds"
  by (induction ds) (auto simp: lookup_by_def)

lemma distinct_deleted: "distinct (map key ds) \<Longrightarrow> distinct (map key (delete_by key' k ds))"
  by (simp add: delete_by_def distinct_map_filter)

lemma consumption_key_stored [simp]: "consumption_key (stored_consumption c) = consumption_key c"
  by (simp add: consumption_key_def stored_consumption_def)

lemma save_consumption_ok [effect_rules]: "preservesS documents_ok (saveConsumption c)"
  by (auto simp: saveConsumption_def effect_simps holdsS_def documents_ok_def upsert_distinct intro!: upsert_all)
    (simp_all add: stored_consumption_def)

lemma writes_ok [effect_rules]:
  "preservesS documents_ok (saveTransaction tx)"
  "preservesS documents_ok (insertMeterValue mv)" "preservesS documents_ok (saveStatusNotification sn)"
  "preservesS documents_ok (saveChargingStation E)" "preservesS documents_ok (change_station f)"
  "preservesS documents_ok saveChargingStationConnectors"
  by (auto simp: saveTransaction_def insertMeterValue_def saveStatusNotification_def saveChargingStation_def
      change_station_def saveChargingStationConnectors_def bindS_def effect_simps holdsS_def documents_ok_def
      upsert_distinct stored_typed lookup_none intro!: upsert_all split: if_splits)

lemma delete_ok: "documents_ok s \<Longrightarrow> documents_ok (deleteTransaction i s)"
  by (simp add: documents_ok_def deleteTransaction_def delete_all distinct_deleted)

section \<open>The handlers\<close>

lemma site_ok [effect_rules]: "preservesS documents_ok (updateS (\<lambda>s. s\<lparr>ss_siteArea := sa\<rparr>))"
  by (simp add: effect_simps holdsS_def documents_ok_def)

lemma applied_ok [effect_rules]: "preservesS documents_ok (apply_consumption R E priced tx c)"
  unfolding apply_consumption_def by (auto simp: Let_def intro!: effect_rules split: prod.split)

lemma created_ok [effect_rules]: "preservesS documents_ok (create_consumptions R E tx mvs)"
  unfolding create_consumptions_def by (auto intro!: effect_rules split: prod.split)

lemma last_ok [effect_rules]: "preservesS documents_ok (checkAndApplyLastConsumptionInStopTransaction R E tx msg)"
  unfolding checkAndApplyLastConsumptionInStopTransaction_def by (auto intro!: effect_rules split: prod.split)

lemma stop_ok: "documents_ok s \<Longrightarrow> documents_ok (snd (handleStopTransaction R E b msg soft central s))"
  unfolding handleStopTransaction_def stop_body_def getTransactionFromStopTransaction_def stop_transaction_def Let_def
  by (rule tryS_preserves) (auto intro!: effect_rules split: prod.split option.split)

lemma end_pending_ok: "documents_ok s \<Longrightarrow> documents_ok (end_pending R E tx s)"
  using delete_ok stop_ok by (simp add: end_pending_def Let_def) (simp add: documents_ok_def)

lemma process_ok: "documents_ok s \<Longrightarrow> documents_ok (processExistingTransaction R E i seen s)"
proof (induction R E i seen s rule: processExistingTransaction.induct)
  case (1 R E i seen s)
  then show ?case
    by (auto simp: processExistingTransaction.simps [of R E i seen s] end_pending_ok split: option.split)
qed

lemma start_ok: "documents_ok s \<Longrightarrow> documents_ok (snd (handleStartTransaction R E i so s))"
  unfolding handleStartTransaction_def start_body_def start_transaction_def first_priced_def Let_def
  by (rule tryS_preserves) (auto intro!: effect_rules process_ok split: prod.split option.split)

lemma meter_values_ok: "documents_ok s \<Longrightarrow> documents_ok (handleMeterValues R E r s)"
  unfolding handleMeterValues_def meter_values_body_def meter_values_of_def getTransactionFromMeterValues_def
    meter_transaction_def saveMeterValues_def
  by (rule tryS_preserves) (auto intro!: effect_rules split: prod.split option.split)

lemma extra_consumption_ok [effect_rules]: "preservesS documents_ok (buildAndPriceExtraConsumptionInactivity R E tx)"
  unfolding buildAndPriceExtraConsumptionInactivity_def by (auto intro!: effect_rules split: prod.split option.split)

lemma extra_inactivity_ok [effect_rules]:
  "preservesS documents_ok (checkAndComputeTransactionExtraInactivityFromStatusNotification R E tx st previous sn)"
  unfolding checkAndComputeTransactionExtraInactivityFromStatusNotification_def Let_def
  by (cases "ts_extraInactivityComputed st") (simp_all add: returnS_rule effect_rules)

lemma completed_ok [effect_rules]: "preservesS documents_ok (update_completed R E tx previous sn)"
  unfolding update_completed_def by (intro effect_rules) (cases "tx_stop tx", simp_all add: effect_rules)

lemma last_completed_ok [effect_rules]:
  "preservesS documents_ok (checkAndUpdateLastCompletedTransactionFromStatusNotification R E sn previous)"
proof -
  have "preservesS documents_ok (case tx of None \<Rightarrow> returnS ()
      | Some tx \<Rightarrow> attemptS (update_completed R E tx previous sn) (\<lambda>_. ()))" for tx
    by (cases tx) (simp_all add: effect_rules)
  then show ?thesis
    unfolding checkAndUpdateLastCompletedTransactionFromStatusNotification_def
    by (simp add: bindS_preserves getS_rule returnS_rule)
qed

lemma process_connector_ok: "preservesS documents_ok (processConnectorFromStatusNotification R E sn)"
  unfolding processConnectorFromStatusNotification_def
  by (intro bindS_preserves) (auto intro!: effect_rules split: prod.split)

lemma status_ok: "documents_ok s \<Longrightarrow> documents_ok (handleStatusNotification R E given sn s)"
  by (simp add: handleStatusNotification_def Let_def tryS_preserves process_connector_ok)

lemma soft_stop_ok: "documents_ok s \<Longrightarrow> documents_ok (snd (softStopTransaction R E tx s))"
  using stop_ok [of s R E True "soft_stop tx" True False]
  by (auto simp: softStopTransaction_def split: prod.split)
    (auto simp: saveTransaction_def effect_simps documents_ok_def upsert_distinct stored_typed intro!: upsert_all)

lemma handle_soft_stop_ok: "documents_ok s \<Longrightarrow> documents_ok (handleSoftStop R E i s)"
  using soft_stop_ok
  by (auto simp: handleSoftStop_def transactionSoftStop_def effect_simps whenS_def thenS_def change_station_def
      saveChargingStationConnectors_def split: option.split) (simp_all add: documents_ok_def)

lemma serve_ok:
  assumes "documents_ok db"
  shows "documents_ok (serve R E m db)"
proof -
  have "documents_ok (load E db)" using assms by (simp add: documents_ok_def load_def ocpp_store.defs session_state.defs)
  then have "documents_ok (handle_message R E m (load E db))"
    by (cases m) (simp_all add: start_ok meter_values_ok stop_ok status_ok handle_soft_stop_ok)
  then show ?thesis by (simp add: serve_def documents_ok_def ocpp_store.defs)
qed

text \<open>
  C4: Every document that is stored is well formed, whatever messages the server gets: a running session has all its
  runtime values and one that is over has none of them and all values of its stop, a consumption belongs to a session
  and has its energy and amounts, and the keys of the sessions, consumptions, meter values and status notifications
  are unique.
\<close>

theorem stored_documents_are_well_formed:
  assumes "session_step\<^sup>*\<^sup>* db db'" "documents_ok db"
  shows "documents_ok db'"
  using assms by (induction rule: rtranclp_induct) (auto elim!: session_stepE simp: serve_ok)

end
