(* ===== verification/SessionSamples.thy ===== *)
theory SessionSamples
  imports SessionDocuments Samples
begin

text \<open>A station with a session, on which the properties of the sessions are evaluated.\<close>

definition alice :: user where
  "alice = \<lparr>us_id = ''alice'', us_issuer = True, us_status = USER_ACTIVE, us_role = BASIC\<rparr>"

definition alices_badge :: badge where
  "alices_badge = \<lparr>tag_id = ''BADGE'', tag_issuer = True, bd_active = True, bd_user = Some alice\<rparr>"

definition one_badge :: tag_env where
  "one_badge = \<lparr>te_organizationActive = False,
     te_tags = (\<lambda>t. if t = ''BADGE'' then Some alices_badge else None), te_emaids = (\<lambda>_. None),
     te_users = (\<lambda>u. if u = ''alice'' then Some alice else None), te_access = (\<lambda>_ _ _ _. Inr ())\<rparr>"

definition plain_server :: session_env where
  "plain_server = \<lparr>se_meter = \<lparr>me_organizationActive = False, me_stationsOfSiteArea = (\<lambda>_. []),
       me_vendorLimit = (\<lambda>_ _. None)\<rparr>,
     se_pricing = \<lparr>pe_componentActive = False, pe_simpleCurrency = None, pe_db = (\<lambda>_ _. []), pe_tenantID = ''t''\<rparr>,
     se_tags = one_badge, se_borneVip = False, se_siteArea = None, se_year = (\<lambda>t. t div 31536000000),
     se_lat_long = (\<lambda>_ _. True), se_template = (\<lambda>_ cs _. Inr cs)\<rparr>"

definition idle_store :: ocpp_store where
  "idle_store = \<lparr>db_transactions = [], db_consumptions = [], db_meterValues = [], db_statusNotifications = [],
     db_station = two_connectors\<rparr>"

definition alices_request :: start_request where
  "alices_request = \<lparr>sr_connectorId = 1, sr_idTag = ''badge'', sr_meterStart = 1000, sr_timestamp = 60000\<rparr>"

definition sample_of :: "int \<Rightarrow> sampled_value \<Rightarrow> ocpp_message" where
  "sample_of t v = MeterValues \<lparr>mr_connectorId = 1, mr_transactionId = 7,
     mr_meterValue = [\<lparr>ms_timestamp = t, ms_sampledValue = [v], ms_value = None\<rparr>]\<rparr>"

definition reading_at :: "int \<Rightarrow> rat \<Rightarrow> ocpp_message" where
  "reading_at t wh = sample_of t \<lparr>sv_value = wh, sv_context = None, sv_format = None,
       sv_measurand = None, sv_phase = None, sv_location = None, sv_unit = None\<rparr>"

definition charge_at :: "int \<Rightarrow> rat \<Rightarrow> ocpp_message" where
  "charge_at t percent = sample_of t \<lparr>sv_value = percent, sv_context = None, sv_format = None,
       sv_measurand = Some STATE_OF_CHARGE, sv_phase = None, sv_location = None, sv_unit = Some PERCENT\<rparr>"

definition alices_stop :: stop_message where
  "alices_stop = \<lparr>so_meterStop = 2500, so_timestamp = 240000, so_reason = None, sm_transactionId = 7,
     sm_idTag = Some ''badge'', sm_transactionData = []\<rparr>"

text \<open>The session has started, has sent a reading, and is over.\<close>

definition running_store :: ocpp_store where
  "running_store = serve utc plain_server (StartTransaction 7 alices_request) idle_store"

definition charged_store :: ocpp_store where
  "charged_store = serve utc plain_server (reading_at 120000 1800) running_store"

definition stopped_store :: ocpp_store where
  "stopped_store = serve utc plain_server (StopTransaction alices_stop) charged_store"

section \<open>Evaluations\<close>

definition when_stored :: "int \<Rightarrow> ocpp_store \<Rightarrow> (tx_transaction \<Rightarrow> bool) \<Rightarrow> bool" where
  "when_stored i db P \<longleftrightarrow> (case getTransaction i db of None \<Rightarrow> False | Some tx \<Rightarrow> P tx)"

lemma charged_session:
  "when_stored 7 charged_store (\<lambda>tx. tx_stop tx = None \<and> \<not> no_consumption tx
     \<and> on_connector (cs_id (db_station charged_store)) 1 tx \<and> stop_in_order tx alices_stop)"
  by code_simp

lemma stopped_session:
  "when_stored 7 stopped_store (\<lambda>tx. tx_stop tx \<noteq> None)"
  by code_simp

lemma start_answers:
  "fst (handleStartTransaction utc plain_server 7 alices_request (load plain_server idle_store)) = (7, AUTH_ACCEPTED)"
  "fst (handleStartTransaction utc plain_server 8 alices_request (load plain_server charged_store)) = (8, AUTH_ACCEPTED)"
  by code_simp+

lemma stop_answers:
  "fst (handleStopTransaction utc plain_server True alices_stop False False (load plain_server charged_store)) = AUTH_ACCEPTED"
  by code_simp

lemma free_number: "getTransaction 8 charged_store = None"
  by code_simp

lemma readings_complete:
  "complete (values_of (db_station running_store) (case reading_at 120000 1800 of MeterValues r \<Rightarrow> r))"
  by code_simp

text \<open>
  A message of meter values without a register reading loses energy: the state of charge alone sets the total of
  the session back to zero, and a session from 1000 to 2500 Wh is then billed for 700 Wh only.
\<close>

lemma readings_without_register_lose_energy:
  "map total_wh (db_transactions charged_store) = [800]
    \<and> map total_wh (db_transactions (serve utc plain_server (charge_at 150000 50) charged_store)) = [0]
    \<and> map (map_option (\<lambda>st. (ts_meterStop st, ts_totalConsumptionWh st)) \<circ> tx_stop)
        (db_transactions (serve utc plain_server (StopTransaction alices_stop)
          (serve utc plain_server (charge_at 150000 50) charged_store))) = [Some (2500, Some 700)]"
  by code_simp

section \<open>Witnesses\<close>

lemma ready_start: "ready (StartTransaction 7 alices_request) idle_store"
  by (simp add: ready_def getTransaction_def idle_store_def lookup_by_def)

lemma ready_other [simp]: "ready (StopTransaction msg) db" "ready (reading_at t wh) db"
  by (simp_all add: ready_def reading_at_def sample_of_def)

lemma stored_by_steps:
  "session_step\<^sup>*\<^sup>* idle_store charged_store" "session_step\<^sup>*\<^sup>* charged_store stopped_store"
  "session_step\<^sup>*\<^sup>* idle_store stopped_store"
proof -
  have s: "session_step idle_store running_store" "session_step running_store charged_store"
      "session_step charged_store stopped_store"
    unfolding running_store_def charged_store_def stopped_store_def
    by (auto intro: session_step.served ready_start)
  then show "session_step\<^sup>*\<^sup>* idle_store charged_store" "session_step\<^sup>*\<^sup>* charged_store stopped_store"
    "session_step\<^sup>*\<^sup>* idle_store stopped_store"
    by (meson r_into_rtranclp rtranclp_trans)+
qed

lemma idle_distinct: "distinct (map tx_id (db_transactions idle_store))"
  by (simp add: idle_store_def)

lemma charged_distinct: "distinct (map tx_id (db_transactions charged_store))"
  using steps_refine [OF stored_by_steps(1)] idle_distinct by (simp add: refines_def)

lemma stopped_distinct: "distinct (map tx_id (db_transactions stopped_store))"
  using steps_refine [OF stored_by_steps(3)] idle_distinct by (simp add: refines_def)

lemma stored_elim:
  assumes "when_stored i db P"
  obtains tx where "getTransaction i db = Some tx" "P tx"
  using assms by (auto simp: when_stored_def split: option.splits)

lemma sessions_follow_their_life_witness:
  "life_step\<^sup>*\<^sup>* (phases []) (phases (db_transactions stopped_store)) \<and> getTransaction 7 stopped_store \<noteq> None"
proof -
  have "getTransaction 7 stopped_store \<noteq> None" using stopped_session by (auto elim: stored_elim)
  with sessions_follow_their_life [OF stored_by_steps(3) idle_distinct] show ?thesis by (simp add: idle_store_def)
qed

lemma a_session_ends_once_witness:
  "\<exists>tx' st'. getTransaction 7 (serve utc plain_server (StopTransaction alices_stop) stopped_store) = Some tx'
     \<and> tx_stop tx' = Some st'"
proof -
  obtain tx st where tx: "getTransaction 7 stopped_store = Some tx" "tx_stop tx = Some st"
    using stopped_session by (auto elim: stored_elim)
  have "session_step\<^sup>*\<^sup>* stopped_store (serve utc plain_server (StopTransaction alices_stop) stopped_store)"
    by (intro r_into_rtranclp session_step.served) simp
  from a_session_ends_once [OF this stopped_distinct tx] show ?thesis by blast
qed

lemma orderly_steps: "(orderly_step utc)\<^sup>*\<^sup>* idle_store stopped_store"
proof -
  obtain tx where "getTransaction 7 charged_store = Some tx" "stop_in_order tx alices_stop"
    using charged_session by (auto elim: stored_elim)
  then have "orderly (StopTransaction alices_stop) charged_store" by (simp add: orderly_def alices_stop_def)
  moreover have "orderly (reading_at 120000 1800) running_store"
    using readings_complete by (simp add: orderly_def reading_at_def sample_of_def)
  moreover have "orderly (StartTransaction 7 alices_request) idle_store" by (simp add: orderly_def)
  ultimately have "orderly_step utc idle_store running_store" "orderly_step utc running_store charged_store"
      "orderly_step utc charged_store stopped_store"
    unfolding running_store_def charged_store_def stopped_store_def
    by (auto intro: orderly_step.served ready_start)
  then show ?thesis by (meson r_into_rtranclp rtranclp_trans)
qed

lemma utc_exact: "exact utc"
  by (simp add: utc_def)



lemma an_accepted_start_shows_witness:
  "\<exists>tx. getTransaction 7 running_store = Some tx \<and> tx_stop tx = None \<and> tx_tagID tx = Some ''BADGE''
     \<and> shows_session (db_station running_store) tx"
proof -
  obtain s' where h: "handleStartTransaction utc plain_server 7 alices_request (load plain_server idle_store) = ((7, AUTH_ACCEPTED), s')"
    using start_answers(1) by (metis prod.collapse)
  have r: "getTransaction 7 running_store = getTransaction 7 s'" "db_station running_store = db_station s'"
    using h by (simp_all add: running_store_def getTransaction_def serve_transactions serve_state)
  have "badge_text (sr_idTag alices_request) = ''BADGE''" by code_simp
  with an_accepted_start_shows [OF h] show ?thesis unfolding r by auto
qed


lemma an_ended_session_takes_no_messages_witness:
  "serve utc plain_server (StopTransaction alices_stop) stopped_store = stopped_store"
proof -
  obtain tx where tx: "getTransaction 7 stopped_store = Some tx" "tx_stop tx \<noteq> None"
    using stopped_session by (auto elim: stored_elim)
  have i: "(7::int) \<noteq> 0" "sm_transactionId alices_stop = 7" by (simp_all add: alices_stop_def)
  have "mr_transactionId \<lparr>mr_connectorId = 1, mr_transactionId = 7, mr_meterValue = []\<rparr> = 7" by simp
  from an_ended_session_takes_no_messages [OF tx i this] show ?thesis by blast
qed

lemma a_start_leaves_used_sessions_running_witness:
  "getActiveTransaction (cs_id (db_station charged_store)) 1
     (serve utc plain_server (StartTransaction 8 alices_request) charged_store) = None"
proof -
  obtain s' where h: "handleStartTransaction utc plain_server 8 alices_request (load plain_server charged_store)
      = ((8, AUTH_ACCEPTED), s')"
    using start_answers(2) by (metis prod.collapse)
  obtain tx where tx: "getTransaction 7 charged_store = Some tx" "tx_stop tx = None" "\<not> no_consumption tx"
      "on_connector (cs_id (db_station charged_store)) 1 tx"
    using charged_session by (auto elim: stored_elim)
  from tx(1) have "tx \<in> set (db_transactions (load plain_server charged_store))"
    by (auto simp: getTransaction_def dest: lookup_key)
  with a_start_leaves_used_sessions_running [OF h _ _ this tx(2,3)] tx(4) free_number charged_distinct
  have "getActiveTransaction (cs_id (db_station charged_store)) 1 s' = None"
    by (simp add: alices_request_def)
  moreover have "db_transactions (serve utc plain_server (StartTransaction 8 alices_request) charged_store) = db_transactions s'"
    using h by (simp add: serve_transactions)
  ultimately show ?thesis by (simp add: getActiveTransaction_def)
qed

lemma stored_documents_are_well_formed_witness:
  "documents_ok stopped_store"
proof -
  have "documents_ok idle_store" by (simp add: documents_ok_def idle_store_def)
  from stored_documents_are_well_formed [OF stored_by_steps(3) this] show ?thesis .
qed

end
