(* ===== verification/EntityFlags.thy ===== *)
theory EntityFlags
  imports AuthorizationService
begin

text \<open>
  The flags a response carries for its readers (\<open>can...\<close> properties of an entity), as
  \<open>server/rest/v1/service/AuthorizationService.ts\<close> computes them: a method for each kind of entity asks the
  authorization check for one action after the other, all with one and the same authorization filter, which
  every check changes.  A method is a list of steps; the lemmas show that neither the order nor the filter
  handed from check to check matters: an entity gets a flag exactly when the action it stands for is permitted
  on the entity as it was loaded.
\<close>

section \<open>The environment of a request\<close>

record auth_env =
  ae_control :: access_control
  ae_storage :: auth_storage
  ae_user :: string
  ae_roles :: "string list"
  ae_tokenUser :: json
  ae_tenant :: string
  ae_borneVIP :: bool
  ae_jsonUrl :: string
  ae_wsdlUrl :: string
  ae_text :: "json \<Rightarrow> string"

definition can_perform ::
    "auth_env \<Rightarrow> entity \<Rightarrow> action \<Rightarrow> fields \<Rightarrow> authorization_filter \<times> fields option \<Rightarrow>
     (bool \<times> authorization_filter \<times> fields option) res" where
  "can_perform E ent act rq p =
     canPerformAuthorizationAction (ae_control E) (ae_storage E) (ae_user E) (ae_roles E) ent act rq False p"

section \<open>Steps\<close>

text \<open>
  \<open>Compute f h\<close> sets the flag \<open>f\<close> to a condition on the entity.  \<open>Check f g ent act rq d h\<close> sets it to
  \<open>g && check && h\<close>, where the check sees the request \<open>rq\<close>, and the entity if \<open>d\<close>.  \<open>Sensible\<close> is a check whose
  verdict is thrown away: it is made for what its filters remove from the entity.
\<close>

datatype auth_step =
    Compute string "fields \<Rightarrow> bool"
  | Check string "fields \<Rightarrow> bool" entity action "fields \<Rightarrow> fields" bool "fields \<Rightarrow> bool"
  | Sensible entity action "fields \<Rightarrow> fields"

type_synonym flag_state = "authorization_filter \<times> fields"

fun run_step :: "auth_env \<Rightarrow> flag_state \<Rightarrow> auth_step \<Rightarrow> flag_state res" where
  "run_step E p (Compute f h) = Inr (fst p, (snd p)(f \<mapsto> JBool (h (snd p))))"
| "run_step E p (Check f g ent act rq d h) =
     (if \<not> g (snd p) then Inr (fst p, (snd p)(f \<mapsto> JBool False))
      else bindE (can_perform E ent act (rq (snd p)) (fst p, if d then Some (snd p) else None)) (\<lambda>(b, af, ed).
        let e = (case ed of None \<Rightarrow> snd p | Some e \<Rightarrow> e) in Inr (af, e(f \<mapsto> JBool (b \<and> h e)))))"
| "run_step E p (Sensible ent act rq) =
     bindE (can_perform E ent act (rq (snd p)) (fst p, Some (snd p))) (\<lambda>(b, af, ed).
        Inr (af, case ed of None \<Rightarrow> snd p | Some e \<Rightarrow> e))"

definition run_steps :: "auth_env \<Rightarrow> auth_step list \<Rightarrow> flag_state \<Rightarrow> flag_state res" where
  "run_steps E ss p = foldE (run_step E) p ss"

definition can_key :: "string \<Rightarrow> bool" where
  "can_key k = (take 3 k = ''can'')"

definition removeCanPropertiesWithFalseValue :: "fields \<Rightarrow> fields" where
  "removeCanPropertiesWithFalseValue e = (\<lambda>k. if can_key k \<and> \<not> flag_set e k then None else e k)"

definition add_flags :: "auth_env \<Rightarrow> auth_step list \<Rightarrow> flag_state \<Rightarrow> flag_state res" where
  "add_flags E ss p = map_sum id (map_prod id removeCanPropertiesWithFalseValue) (run_steps E ss p)"

text \<open>The steps most methods are made of, and the requests they make.\<close>

definition flag :: "string \<Rightarrow> entity \<Rightarrow> action \<Rightarrow> (fields \<Rightarrow> fields) \<Rightarrow> auth_step" where
  "flag f ent act rq = Check f (\<lambda>_. True) ent act rq True (\<lambda>_. True)"

definition unconditional :: "string \<Rightarrow> entity \<Rightarrow> action \<Rightarrow> auth_step" where
  "unconditional f ent act = Check f (\<lambda>_. True) ent act (\<lambda>_. Map.empty) False (\<lambda>_. True)"

definition can_read :: auth_step where
  "can_read = Compute ''canRead'' (\<lambda>_. True)"

definition field :: "fields \<Rightarrow> string \<Rightarrow> json" where
  "field e k = (case e k of None \<Rightarrow> JNull | Some v \<Rightarrow> v)"

definition by_id :: "string \<Rightarrow> fields \<Rightarrow> fields" where
  "by_id k e = [k \<mapsto> field e ''id'']"

definition no_request :: "fields \<Rightarrow> fields" where
  "no_request e = Map.empty"

section \<open>Lists of entities\<close>

record 'e listing =
  li_object :: fields
  li_metadata :: "(string \<times> field_metadata) list option"
  li_result :: "'e list"

fun enrich_items ::
    "(authorization_filter \<times> 'e \<Rightarrow> (authorization_filter \<times> 'e) res) \<Rightarrow> authorization_filter \<Rightarrow> 'e list \<Rightarrow>
     (authorization_filter \<times> 'e list) res" where
  "enrich_items f af [] = Inr (af, [])"
| "enrich_items f af (x # xs) =
     bindE (f (af, x)) (\<lambda>(af1, y). bindE (enrich_items f af1 xs) (\<lambda>(af2, ys). Inr (af2, y # ys)))"

definition enrich_listing ::
    "auth_env \<Rightarrow> auth_step list \<Rightarrow> (authorization_filter \<times> 'e \<Rightarrow> (authorization_filter \<times> 'e) res) \<Rightarrow>
     authorization_filter \<times> 'e listing \<Rightarrow> (authorization_filter \<times> 'e listing) res" where
  "enrich_listing E ss f p =
     (let L = (snd p)\<lparr>li_metadata := af_metadata (fst p)\<rparr>
      in bindE (run_steps E ss (fst p, li_object L)) (\<lambda>(af1, o').
         bindE (enrich_items f af1 (li_result L)) (\<lambda>(af2, ys).
           Inr (af2, L\<lparr>li_object := o', li_result := ys\<rparr>))))"

section \<open>A check leaves the entity alone unless it is asked to remove data\<close>

definition removal_keys :: "string list" where
  "removal_keys = [''UserData'', ''TagData'', ''CarCatalogData'', ''CarData'', ''BillingData'']"

definition keeps_data :: "fields \<Rightarrow> bool" where
  "keeps_data rq \<longleftrightarrow> (\<forall>k \<in> set removal_keys. \<not> flag_set rq k)"

lemma removal_keeps [simp]: "keeps_data rq \<Longrightarrow> removeSensibeDataFromEntity rq ed = ed"
  by (simp add: keeps_data_def removal_keys_def removeSensibeDataFromEntity_def remove_when_def)

lemma removed_keeps [simp]: "keeps_data rq \<Longrightarrow> snd (removed_unless_authorized rq p) = snd p"
  by (simp add: removed_unless_authorized_def)

lemma own_result_keeps [simp]: "keeps_data rq \<Longrightarrow> snd (own_result rq ed p) = ed"
  by (simp add: own_result_def)

lemma site_ids_filter_keeps: "site_ids_filter ids rq p = Inr p' \<Longrightarrow> snd p' = snd p"
  by (auto simp: site_ids_filter_def res_simps Let_def)

lemma localIssuer_keeps [simp]: "snd (localIssuer_filter p) = snd p"
  by (auto simp: localIssuer_filter_def Let_def split: option.splits)

lemma processFilter_keeps: "keeps_data rq \<Longrightarrow> processFilter S u rq f p = Inr p' \<Longrightarrow> snd p' = snd p"
  by (cases f)
    (auto simp: assignedSitesCompanies_filter_def sitesAdmin_filter_def sitesOwner_filter_def assignedSites_filter_def
      sitesAdminOrOwner_filter_def ownUser_filter_def sitesAdminUsers_filter_def sitesOwnerUsers_filter_def
      excludeAction_filter_def res_simps map_sum_Inr_iff Let_def dest!: site_ids_filter_keeps split: if_splits prod.splits)

lemma apply_filter_keeps: "keeps_data rq \<Longrightarrow> apply_filter S u rq p n = Inr p' \<Longrightarrow> snd (fst p') = snd (fst p)"
  by (fastforce simp: apply_filter_def res_simps Let_def dest: processFilter_keeps split: option.splits prod.splits)

lemma filter_group_keeps:
  "keeps_data rq \<Longrightarrow> foldE (apply_filter S u rq) p g = Inr p' \<Longrightarrow> snd (fst p') = snd (fst p)"
  by (induction g arbitrary: p) (auto simp: res_simps dest: apply_filter_keeps)

lemma processDynamicFilters_keeps:
  "keeps_data rq \<Longrightarrow> processDynamicFilters S u rq gs p = Inr p' \<Longrightarrow> snd p' = snd p"
proof (induction gs arbitrary: p)
  case (Cons g gs)
  from Cons.prems(2) obtain s ed a where g: "foldE (apply_filter S u rq) (((fst p)\<lparr>au_authorized := False\<rparr>, snd p), False) g
      = Inr ((s, ed), a)"
    and r: "(if a then processDynamicFilters S u rq gs (s\<lparr>au_authorized := True\<rparr>, ed)
      else Inr (s\<lparr>au_authorized := False\<rparr>, ed)) = Inr p'"
    by (auto simp: res_simps)
  from filter_group_keeps [OF Cons.prems(1) g] have "ed = snd p" by simp
  with r Cons show ?case by (auto split: if_splits)
qed simp

lemma can_perform_keeps:
  assumes "keeps_data rq" "can_perform E ent act rq (af, ed) = Inr (b, af', ed')"
  shows "ed' = ed"
proof (cases "ac_matching (ae_control E) (ae_roles E) ent act = []")
  case True
  with assms(2) show ?thesis by (simp add: can_perform_def canPerformAuthorizationAction_def)
next
  case False
  from canPerform_run [OF assms(2) [unfolded can_perform_def] False] obtain s ed1 where
    f: "processDynamicFilters (ae_storage E) (ae_user E) rq (granted_filters (ac_matching (ae_control E) (ae_roles E) ent act))
        ((af_state af)\<lparr>au_authorized := True\<rparr>, ed) = Inr (s, ed1)"
    and a: "(if au_authorized s then processDynamicAsserts (ae_user E)
        (granted_asserts (ac_matching (ae_control E) (ae_roles E) ent act)) (s, ed1) else Inr (s, ed1)) = Inr (af_state af', ed')"
    by blast
  from processDynamicFilters_keeps [OF assms(1) f] have "ed1 = ed" by simp
  with a show ?thesis by (auto split: if_splits dest: processDynamicAsserts_spec)
qed

section \<open>Flags are permissions\<close>

text \<open>What a check decides, with nothing of the filter it is handed.\<close>

definition permitted :: "auth_env \<Rightarrow> entity \<Rightarrow> action \<Rightarrow> fields \<Rightarrow> fields option \<Rightarrow> bool" where
  "permitted E ent act rq ed \<longleftrightarrow>
     ac_matching (ae_control E) (ae_roles E) ent act \<noteq> []
     \<and> filters_allow (ae_storage E) (ae_user E) rq
         (granted_filters (ac_matching (ae_control E) (ae_roles E) ent act)) (issuer_of ed)
     \<and> asserts_allow (ae_user E) (granted_asserts (ac_matching (ae_control E) (ae_roles E) ent act)) ed"

lemma can_perform_decides:
  assumes "keeps_data rq" "can_perform E ent act rq (af, ed) = Inr (b, af', ed')"
  shows "b \<longleftrightarrow> permitted E ent act rq ed"
  using check_decides [OF assms(2) [unfolded can_perform_def]] can_perform_keeps [OF assms]
  by (simp add: permitted_def)

text \<open>The entity up to its flags.\<close>

definition same_data :: "fields \<Rightarrow> fields \<Rightarrow> bool" where
  "same_data e e' \<longleftrightarrow> (\<forall>k. \<not> can_key k \<longrightarrow> e' k = e k)"

lemma same_data_field: "same_data e e' \<Longrightarrow> \<not> can_key k \<Longrightarrow> e' k = e k"
  by (simp add: same_data_def)

lemma same_data_refl [simp]: "same_data e e"
  by (simp add: same_data_def)

lemma same_data_trans: "same_data e e' \<Longrightarrow> same_data e' e'' \<Longrightarrow> same_data e e''"
  by (simp add: same_data_def)

lemma same_data_upd: "can_key f \<Longrightarrow> same_data e (e(f := v))"
  by (auto simp: same_data_def)

lemma same_data_asserts: "same_data e e' \<Longrightarrow> assert_allows u e' n = assert_allows u e n"
proof -
  assume "same_data e e'"
  then have "e' k = e k" if "k \<in> {''role'', ''userID'', ''user'', ''type'', ''siteAreaID''}" for k
    using that by (auto simp: same_data_def can_key_def)
  then have "processAssert u a e' = processAssert u a e" for a
    by (cases a) (simp_all add: poolCar_assert_def ownUser_assert_def basicUser_assert_def userMandatory_assert_def
        siteAreaMandatory_assert_def truthy_field_def user_object_id_def)
  then show ?thesis by (simp add: assert_allows_def split: option.splits)
qed

lemma same_data_permitted: "same_data e e' \<Longrightarrow> permitted E ent act rq (Some e') = permitted E ent act rq (Some e)"
  by (simp add: permitted_def asserts_allow_def issuer_of_def same_data_asserts same_data_field can_key_def)

text \<open>
  Which value a step gives its flag, and what a step must be for the value to be independent of the flags set
  before: its conditions and its request read no flag.
\<close>

fun step_flag :: "auth_step \<Rightarrow> string" where
  "step_flag (Compute f h) = f"
| "step_flag (Check f g ent act rq d h) = f"
| "step_flag (Sensible ent act rq) = []"

fun step_value :: "auth_env \<Rightarrow> fields \<Rightarrow> auth_step \<Rightarrow> bool" where
  "step_value E e (Compute f h) = h e"
| "step_value E e (Check f g ent act rq d h) =
     (g e \<and> permitted E ent act (rq e) (if d then Some e else None) \<and> h e)"
| "step_value E e (Sensible ent act rq) = False"

definition blind :: "(fields \<Rightarrow> 'a) \<Rightarrow> bool" where
  "blind f \<longleftrightarrow> (\<forall>e e'. same_data e e' \<longrightarrow> f e' = f e)"

fun plain_step :: "auth_step \<Rightarrow> bool" where
  "plain_step (Compute f h) = (can_key f \<and> blind h)"
| "plain_step (Check f g ent act rq d h) =
     (can_key f \<and> blind g \<and> blind rq \<and> blind h \<and> (\<forall>e. keeps_data (rq e)))"
| "plain_step (Sensible ent act rq) = False"

lemma blindD: "blind f \<Longrightarrow> same_data e e' \<Longrightarrow> f e' = f e"
  by (simp add: blind_def)

lemma step_value_same: "plain_step st \<Longrightarrow> same_data e e' \<Longrightarrow> step_value E e' st = step_value E e st"
  by (cases st) (auto simp: blindD same_data_permitted)

lemma can_perform_run:
  assumes "keeps_data rq" "can_perform E ent act rq (af, ed) = Inr (b, af', ed')"
  shows "b = permitted E ent act rq ed" "ed' = ed"
  using can_perform_decides [OF assms] can_perform_keeps [OF assms] by simp_all

lemma run_step_flag:
  assumes "plain_step st" "run_step E (af, e) st = Inr (af', e')"
  shows "e' = e(step_flag st \<mapsto> JBool (step_value E e st))"
proof (cases st)
  case (Compute f h)
  with assms show ?thesis by auto
next
  case (Check f g ent act rq d h)
  show ?thesis
  proof (cases "g e")
    case True
    from assms(1) Check have rq: "keeps_data (rq e)" by simp
    from assms(2) Check True obtain b ed where
      c: "can_perform E ent act (rq e) (af, if d then Some e else None) = Inr (b, af', ed)"
      and e': "e' = (case ed of None \<Rightarrow> e | Some x \<Rightarrow> x)(f \<mapsto> JBool (b \<and> h (case ed of None \<Rightarrow> e | Some x \<Rightarrow> x)))"
      by (auto simp: res_simps Let_def cong: option.case_cong if_cong)
    from can_perform_run [OF rq c] e' True Check show ?thesis by simp
  next
    case False
    with assms(2) Check show ?thesis by auto
  qed
qed (use assms in simp)

lemma run_steps_flags:
  assumes "list_all plain_step ss" "run_steps E ss (af, e) = Inr (af', e')"
  shows "same_data e e' \<and>
    (\<forall>f. e' f = (case List.find (\<lambda>st. step_flag st = f) (rev ss) of
        None \<Rightarrow> e f | Some st \<Rightarrow> Some (JBool (step_value E e st))))"
  using assms
proof (induction ss arbitrary: af' e' rule: rev_induct)
  case Nil
  then show ?case by (simp add: run_steps_def)
next
  case (snoc st ss)
  from snoc.prems(2) obtain af1 e1 where r: "run_steps E ss (af, e) = Inr (af1, e1)"
    and s: "run_step E (af1, e1) st = Inr (af', e')"
    by (auto simp: run_steps_def foldE_append res_simps)
  from snoc.prems(1) have ss: "list_all plain_step ss" and st: "plain_step st" by simp_all
  from snoc.IH [OF ss r] have e1: "same_data e e1"
    and fl: "\<And>f. e1 f = (case List.find (\<lambda>st. step_flag st = f) (rev ss) of
        None \<Rightarrow> e f | Some st \<Rightarrow> Some (JBool (step_value E e st)))" by blast+
  from run_step_flag [OF st s] step_value_same [OF st e1]
  have e': "e' = e1(step_flag st \<mapsto> JBool (step_value E e st))" by simp
  from st have "can_key (step_flag st)" by (cases st) simp_all
  then have "same_data e e'" unfolding e' by (rule same_data_trans [OF e1 same_data_upd])
  moreover have "e' f = (case List.find (\<lambda>st. step_flag st = f) (rev (ss @ [st])) of
      None \<Rightarrow> e f | Some st \<Rightarrow> Some (JBool (step_value E e st)))" for f
    using fl [of f] by (simp add: e')
  ultimately show ?case by blast
qed

text \<open>
  After the flags that are false have been removed, an entity has the flag of a step exactly when the step's
  action is permitted; its other data are those it was loaded with.
\<close>

definition agreeing :: "auth_step list \<Rightarrow> bool" where
  "agreeing ss \<longleftrightarrow> list_all plain_step ss \<and> distinct (map step_flag ss)"

lemma find_flag:
  assumes "distinct (map step_flag ss)" "st \<in> set ss"
  shows "List.find (\<lambda>s. step_flag s = step_flag st) (rev ss) = Some st"
  using assms
proof (induction ss rule: rev_induct)
  case (snoc s ss)
  then show ?case by (cases "st = s") (auto simp: inj_on_def)
qed simp

lemma added_flags:
  assumes "agreeing ss" "add_flags E ss (af, e) = Inr (af', e')"
  shows "same_data e e'" "st \<in> set ss \<Longrightarrow> flag_set e' (step_flag st) \<longleftrightarrow> step_value E e st"
proof -
  from assms(2) obtain x where r: "run_steps E ss (af, e) = Inr (af', x)"
    and e': "e' = removeCanPropertiesWithFalseValue x"
    by (auto simp: add_flags_def map_sum_Inr_iff)
  from assms(1) have ss: "list_all plain_step ss" "distinct (map step_flag ss)" by (auto simp: agreeing_def)
  note x = run_steps_flags [OF ss(1) r]
  show "same_data e e'"
    using x by (auto simp: e' same_data_def removeCanPropertiesWithFalseValue_def)
  assume st: "st \<in> set ss"
  from x have "x (step_flag st) = Some (JBool (step_value E e st))" by (simp add: find_flag [OF ss(2) st])
  moreover from st ss(1) have "plain_step st" by (simp add: list_all_iff)
  then have "can_key (step_flag st)" by (cases st) simp_all
  ultimately show "flag_set e' (step_flag st) \<longleftrightarrow> step_value E e st"
    by (auto simp: e' removeCanPropertiesWithFalseValue_def flag_set_def)
qed

text \<open>The requests of the methods read no flag and ask for no removal.\<close>

named_theorems flag_simps \<open>the steps of the methods are plain\<close>

lemma blind_const [flag_simps]: "blind (\<lambda>_. c)"
  by (simp add: blind_def)

lemma blind_field: "\<not> can_key k \<Longrightarrow> blind (\<lambda>e. field e k)"
  by (auto simp: blind_def field_def same_data_field)

lemma by_id_plain [flag_simps]: "blind (by_id k)"
  by (auto simp: blind_def by_id_def field_def same_data_field can_key_def)

lemma field_flag: "flag_set (by_id k e) r \<longleftrightarrow> r = k \<and> truthy_json (field e ''id'')"
  by (auto simp: flag_set_def by_id_def)

lemma by_id_keeps [flag_simps]: "k \<notin> set removal_keys \<Longrightarrow> keeps_data (by_id k e)"
  by (auto simp: keeps_data_def field_flag)

lemma no_request_plain [flag_simps]: "blind no_request" "keeps_data (no_request e)" "keeps_data Map.empty"
  by (simp_all add: blind_def no_request_def keeps_data_def flag_set_def)

lemma flag_plain [flag_simps]:
  "plain_step (flag f ent act rq) = (can_key f \<and> blind rq \<and> (\<forall>e. keeps_data (rq e)))"
  "plain_step (unconditional f ent act) = can_key f"
  "plain_step can_read"
  "step_flag (flag f ent act rq) = f" "step_flag (unconditional f ent act) = f" "step_flag can_read = ''canRead''"
  by (auto simp: flag_def unconditional_def can_read_def flag_simps can_key_def)

lemma step_values [simp]:
  "step_value E e (flag f ent act rq) = permitted E ent act (rq e) (Some e)"
  "step_value E e (unconditional f ent act) = permitted E ent act Map.empty None"
  "step_value E e can_read"
  by (simp_all add: flag_def unconditional_def can_read_def)

end
