(* ===== verification/EntityMethods.thy ===== *)
theory EntityMethods
  imports EntityFlags
begin

text \<open>
  The methods of \<open>server/rest/v1/service/AuthorizationService.ts\<close> that add the flags to the entities of a response,
  in a table for each kind of entity: \<open>addXAuthorizations\<close> for one entity, and for a list of them.  A method is
  its list of steps, run by \<open>add_flags\<close>, which removes the flags that are false; a log entry and a billing account
  only get a flag that is true and are not cleaned.  A list method runs its own steps on the list and the method
  of the entity on every member.  Stations come with their connectors, sessions with their stop.
\<close>

section \<open>Requests\<close>

fun prop_of :: "json \<Rightarrow> string \<Rightarrow> json" where
  "prop_of (JObj kvs) k = (case map_of kvs k of None \<Rightarrow> JNull | Some v \<Rightarrow> v)"
| "prop_of v k = JNull"

definition site_area_request :: "fields \<Rightarrow> fields" where
  "site_area_request e = [''SiteAreaID'' \<mapsto> field e ''id'', ''SiteID'' \<mapsto> field e ''siteID'']"

definition site_area_issuer_request :: "fields \<Rightarrow> fields" where
  "site_area_issuer_request e =
     [''SiteAreaID'' \<mapsto> field e ''id'', ''SiteID'' \<mapsto> field e ''siteID'', ''Issuer'' \<mapsto> field e ''issuer'']"

definition profile_site_request :: "fields \<Rightarrow> fields" where
  "profile_site_request e =
     [''SiteAreaID'' \<mapsto> prop_of (field e ''chargingStation'') ''siteAreaID'',
      ''SiteID'' \<mapsto> prop_of (field e ''chargingStation'') ''siteID'']"

definition profile_request :: "fields \<Rightarrow> fields" where
  "profile_request e = (profile_site_request e)(''chargingStationID'' \<mapsto> field e ''id'')"

definition station_request :: "fields \<Rightarrow> fields" where
  "station_request e = [''chargingStationID'' \<mapsto> field e ''id'', ''SiteID'' \<mapsto> field e ''siteID'']"

definition invoice_request :: "fields \<Rightarrow> fields" where
  "invoice_request e = (if flag_set e ''userID'' then [''UserID'' \<mapsto> field e ''userID''] else Map.empty)"

definition transfer_request :: "fields \<Rightarrow> fields" where
  "transfer_request e =
     (if flag_set e ''invoice'' then [''UserID'' \<mapsto> prop_of (field e ''invoice'') ''userID''] else Map.empty)"

text \<open>A step of a list whose request is made of the one the client sent.\<close>

definition plain_for :: "fields \<Rightarrow> string \<Rightarrow> entity \<Rightarrow> action \<Rightarrow> auth_step" where
  "plain_for rq f ent act = Check f (\<lambda>_. True) ent act (\<lambda>_. rq) False (\<lambda>_. True)"

definition identifier_request :: "fields \<Rightarrow> fields" where
  "identifier_request r = (if flag_set r ''Identifier'' then [''ID'' \<mapsto> field r ''Identifier''] else Map.empty)"

definition user_request :: "fields \<Rightarrow> fields" where
  "user_request r = (if flag_set r ''userID'' then [''UserID'' \<mapsto> field r ''userID''] else Map.empty)"

text \<open>A condition before the check: the check is not made when it fails.\<close>

definition guarded :: "string \<Rightarrow> (fields \<Rightarrow> bool) \<Rightarrow> entity \<Rightarrow> action \<Rightarrow> (fields \<Rightarrow> fields) \<Rightarrow> auth_step" where
  "guarded f g ent act rq = Check f g ent act rq True (\<lambda>_. True)"

section \<open>One method for each kind of entity\<close>

definition addSiteAuthorizations :: "auth_step list" where
  "addSiteAuthorizations =
    [can_read,
     flag ''canDelete'' E_SITE A_DELETE (by_id ''SiteID''),
     flag ''canUpdate'' E_SITE A_UPDATE (by_id ''SiteID''),
     flag ''canMaintainPricingDefinitions'' E_SITE A_MAINTAIN_PRICING_DEFINITIONS (by_id ''SiteID''),
     flag ''canExportOCPPParams'' E_SITE_AREA A_EXPORT_OCPP_PARAMS (by_id ''SiteID''),
     flag ''canGenerateQrCode'' E_SITE_AREA A_GENERATE_QR (by_id ''SiteID''),
     flag ''canAssignUnassignUsers'' E_SITE A_ASSIGN_UNASSIGN_USERS (by_id ''SiteID''),
     flag ''canListSiteUsers'' E_SITE_USER A_LIST (by_id ''SiteID'')]"

definition addSitesAuthorizations ::
    "auth_env \<Rightarrow> authorization_filter \<times> fields listing \<Rightarrow> (authorization_filter \<times> fields listing) res" where
  "addSitesAuthorizations E = enrich_listing E
    [unconditional ''canCreate'' E_SITE A_CREATE,
     unconditional ''canListCompanies'' E_COMPANY A_LIST]
    (add_flags E addSiteAuthorizations)"

definition addUserAuthorizations :: "auth_step list" where
  "addUserAuthorizations =
    [can_read,
     flag ''canUpdate'' E_USER A_UPDATE (by_id ''UserID''),
     flag ''canDelete'' E_USER A_DELETE (by_id ''UserID''),
     flag ''canAssignUnassignSites'' E_USER A_ASSIGN_UNASSIGN_SITES (by_id ''UserID''),
     flag ''canListUserSites'' E_USER_SITE A_LIST (by_id ''UserID''),
     flag ''canListTags'' E_TAG A_LIST (by_id ''UserID''),
     flag ''canListCompletedTransactions'' E_TRANSACTION A_GET_COMPLETED_TRANSACTION (by_id ''UserID''),
     flag ''canSynchronizeBillingUser'' E_USER A_SYNCHRONIZE_BILLING_USER (by_id ''UserID'')]"

definition addUsersAuthorizations ::
    "auth_env \<Rightarrow> authorization_filter \<times> fields listing \<Rightarrow> (authorization_filter \<times> fields listing) res" where
  "addUsersAuthorizations E = enrich_listing E
    [unconditional ''canCreate'' E_USER A_CREATE,
     unconditional ''canExport'' E_USER A_EXPORT,
     unconditional ''canImport'' E_USER A_IMPORT,
     unconditional ''canListTags'' E_TAG A_LIST,
     unconditional ''canListSites'' E_SITE A_LIST]
    (add_flags E addUserAuthorizations)"

definition addTagAuthorizations :: "auth_step list" where
  "addTagAuthorizations =
    [can_read,
     flag ''canDelete'' E_TAG A_DELETE (by_id ''TagID''),
     flag ''canUpdate'' E_TAG A_UPDATE (by_id ''TagID''),
     flag ''canUpdateByVisualID'' E_TAG A_UPDATE_BY_VISUAL_ID (by_id ''TagID''),
     flag ''canUnassign'' E_TAG A_UNASSIGN (by_id ''TagID''),
     flag ''canAssign'' E_TAG A_ASSIGN (by_id ''TagID''),
     unconditional ''canListUsers'' E_USER A_LIST]"

definition addTagsAuthorizations ::
    "auth_env \<Rightarrow> authorization_filter \<times> fields listing \<Rightarrow> (authorization_filter \<times> fields listing) res" where
  "addTagsAuthorizations E = enrich_listing E
    [unconditional ''canCreate'' E_TAG A_CREATE,
     unconditional ''canAssign'' E_TAG A_ASSIGN,
     unconditional ''canDelete'' E_TAG A_DELETE,
     unconditional ''canImport'' E_TAG A_IMPORT,
     unconditional ''canExport'' E_TAG A_EXPORT,
     unconditional ''canUnassign'' E_TAG A_UNASSIGN,
     unconditional ''canListUsers'' E_USER A_LIST,
     unconditional ''canListSources'' E_SOURCE A_LIST]
    (add_flags E addTagAuthorizations)"

definition addEmaidAuthorizations :: "auth_step list" where
  "addEmaidAuthorizations =
    [can_read,
     flag ''canDelete'' E_EMAID A_DELETE (by_id ''EmaidID''),
     flag ''canUpdate'' E_EMAID A_UPDATE (by_id ''EmaidID''),
     flag ''canUpdateByVisualID'' E_EMAID A_UPDATE_BY_VISUAL_ID (by_id ''EmaidID''),
     flag ''canUnassign'' E_EMAID A_UNASSIGN (by_id ''EmaidID''),
     flag ''canAssign'' E_EMAID A_ASSIGN (by_id ''EmaidID''),
     unconditional ''canListUsers'' E_USER A_LIST]"

definition addEmaidsAuthorizations ::
    "auth_env \<Rightarrow> authorization_filter \<times> fields listing \<Rightarrow> (authorization_filter \<times> fields listing) res" where
  "addEmaidsAuthorizations E = enrich_listing E
    [unconditional ''canCreate'' E_EMAID A_CREATE,
     unconditional ''canAssign'' E_EMAID A_ASSIGN,
     unconditional ''canDelete'' E_EMAID A_DELETE,
     unconditional ''canImport'' E_EMAID A_IMPORT,
     unconditional ''canExport'' E_EMAID A_EXPORT,
     unconditional ''canUnassign'' E_EMAID A_UNASSIGN,
     unconditional ''canListUsers'' E_USER A_LIST,
     unconditional ''canListSources'' E_SOURCE A_LIST]
    (add_flags E addEmaidAuthorizations)"

definition addCertificateAuthorizations :: "auth_step list" where
  "addCertificateAuthorizations =
    [can_read,
     flag ''canDelete'' E_CERTIFICATE A_DELETE (by_id ''CertificateID''),
     flag ''canUnassign'' E_CERTIFICATE A_UNASSIGN (by_id ''CertificateID''),
     flag ''canAssign'' E_CERTIFICATE A_ASSIGN (by_id ''CertificateID''),
     unconditional ''canListUsers'' E_USER A_LIST,
     flag ''canRevoke'' E_CERTIFICATE A_REVOKE (by_id ''CertificateID'')]"

definition addCertificatesAuthorizations ::
    "auth_env \<Rightarrow> authorization_filter \<times> fields listing \<Rightarrow> (authorization_filter \<times> fields listing) res" where
  "addCertificatesAuthorizations E = enrich_listing E
    [unconditional ''canAssign'' E_CERTIFICATE A_ASSIGN,
     unconditional ''canDelete'' E_CERTIFICATE A_DELETE,
     unconditional ''canUnassign'' E_CERTIFICATE A_UNASSIGN,
     unconditional ''canListUsers'' E_USER A_LIST,
     unconditional ''canListSources'' E_SOURCE A_LIST]
    (add_flags E addCertificateAuthorizations)"

definition addCompanyAuthorizations :: "auth_step list" where
  "addCompanyAuthorizations =
    [can_read,
     flag ''canDelete'' E_COMPANY A_DELETE (by_id ''CompanyID''),
     flag ''canUpdate'' E_COMPANY A_UPDATE (by_id ''CompanyID'')]"

definition addCompaniesAuthorizations ::
    "auth_env \<Rightarrow> authorization_filter \<times> fields listing \<Rightarrow> (authorization_filter \<times> fields listing) res" where
  "addCompaniesAuthorizations E = enrich_listing E
    [unconditional ''canCreate'' E_COMPANY A_CREATE]
    (add_flags E addCompanyAuthorizations)"

definition addChargingStationTemplateAuthorizations :: "auth_step list" where
  "addChargingStationTemplateAuthorizations =
    [can_read,
     flag ''canDelete'' E_CHARGING_STATION_TEMPLATE A_DELETE (by_id ''chargingStationTemplateID''),
     flag ''canUpdate'' E_CHARGING_STATION_TEMPLATE A_UPDATE (by_id ''chargingStationTemplateID'')]"

definition addChargingStationTemplatesAuthorizations ::
    "auth_env \<Rightarrow> authorization_filter \<times> fields listing \<Rightarrow> (authorization_filter \<times> fields listing) res" where
  "addChargingStationTemplatesAuthorizations E = enrich_listing E
    [unconditional ''canCreate'' E_CHARGING_STATION_TEMPLATE A_CREATE]
    (add_flags E addChargingStationTemplateAuthorizations)"

definition addPricingDefinitionAuthorizations :: "auth_step list" where
  "addPricingDefinitionAuthorizations =
    [flag ''canRead'' E_PRICING_DEFINITION A_READ (by_id ''CompanyID''),
     flag ''canDelete'' E_PRICING_DEFINITION A_DELETE (by_id ''CompanyID''),
     flag ''canUpdate'' E_PRICING_DEFINITION A_UPDATE (by_id ''CompanyID'')]"

definition addPricingDefinitionsAuthorizations ::
    "auth_env \<Rightarrow> authorization_filter \<times> fields listing \<Rightarrow> (authorization_filter \<times> fields listing) res" where
  "addPricingDefinitionsAuthorizations E = enrich_listing E
    [unconditional ''canCreate'' E_PRICING_DEFINITION A_CREATE]
    (add_flags E addPricingDefinitionAuthorizations)"

definition addCarAuthorizations :: "auth_step list" where
  "addCarAuthorizations =
    [can_read,
     flag ''canDelete'' E_CAR A_DELETE (by_id ''CarID''),
     flag ''canUpdate'' E_CAR A_UPDATE (by_id ''CarID''),
     unconditional ''canListUsers'' E_USER A_LIST]"

definition addCarsAuthorizations ::
    "auth_env \<Rightarrow> authorization_filter \<times> fields listing \<Rightarrow> (authorization_filter \<times> fields listing) res" where
  "addCarsAuthorizations E = enrich_listing E
    [unconditional ''canCreate'' E_CAR A_CREATE,
     unconditional ''canListUsers'' E_USER A_LIST,
     unconditional ''canListCarCatalog'' E_CAR_CATALOG A_LIST]
    (add_flags E addCarAuthorizations)"

definition addCarCatalogAuthorizations :: "auth_step list" where
  "addCarCatalogAuthorizations =
    [can_read,
     flag ''canDelete'' E_CAR_CATALOG A_DELETE (by_id ''CarCatalogID''),
     flag ''canUpdate'' E_CAR_CATALOG A_UPDATE (by_id ''CarCatalogID'')]"

definition addCarCatalogsAuthorizationActions ::
    "auth_env \<Rightarrow> authorization_filter \<times> fields listing \<Rightarrow> (authorization_filter \<times> fields listing) res" where
  "addCarCatalogsAuthorizationActions E = enrich_listing E
    [unconditional ''canSync'' E_CAR_CATALOG A_SYNCHRONIZE]
    (add_flags E addCarCatalogAuthorizations)"

definition addSiteAreaAuthorizations :: "auth_step list" where
  "addSiteAreaAuthorizations =
    [can_read,
     flag ''canUpdate'' E_SITE_AREA A_DELETE site_area_request,
     flag ''canDelete'' E_SITE_AREA A_UPDATE site_area_request,
     flag ''canAssignAssets'' E_SITE_AREA A_ASSIGN_ASSETS_TO_SITE_AREA site_area_request,
     flag ''canUnassignAssets'' E_SITE_AREA A_UNASSIGN_ASSETS_FROM_SITE_AREA site_area_request,
     flag ''canReadAssets'' E_SITE_AREA A_READ_ASSETS_FROM_SITE_AREA site_area_request,
     flag ''canAssignChargingStations'' E_SITE_AREA A_ASSIGN_CHARGING_STATIONS_TO_SITE_AREA site_area_request,
     flag ''canUnassignChargingStations'' E_SITE_AREA A_UNASSIGN_CHARGING_STATIONS_FROM_SITE_AREA site_area_request,
     flag ''canReadChargingStations'' E_SITE_AREA A_READ_CHARGING_STATIONS_FROM_SITE_AREA site_area_issuer_request,
     flag ''canExportOCPPParams'' E_SITE_AREA A_EXPORT_OCPP_PARAMS site_area_request,
     flag ''canGenerateQrCode'' E_SITE_AREA A_GENERATE_QR site_area_request]"

definition addSiteAreasAuthorizations ::
    "auth_env \<Rightarrow> authorization_filter \<times> fields listing \<Rightarrow> (authorization_filter \<times> fields listing) res" where
  "addSiteAreasAuthorizations E = enrich_listing E
    [unconditional ''canCreate'' E_SITE_AREA A_CREATE]
    (add_flags E addSiteAreaAuthorizations)"

definition addOCPIEndpointAuthorizations :: "auth_step list" where
  "addOCPIEndpointAuthorizations =
    [can_read,
     unconditional ''canUpdate'' E_OCPI_ENDPOINT A_UPDATE,
     unconditional ''canDelete'' E_OCPI_ENDPOINT A_DELETE,
     unconditional ''canGenerateLocalToken'' E_OCPI_ENDPOINT A_GENERATE_LOCAL_TOKEN,
     unconditional ''canPing'' E_OCPI_ENDPOINT A_PING,
     unconditional ''canRegister'' E_OCPI_ENDPOINT A_REGISTER,
     unconditional ''canTriggerJob'' E_OCPI_ENDPOINT A_TRIGGER_JOB]"

definition addOCPIEndpointsAuthorizations ::
    "auth_env \<Rightarrow> fields \<Rightarrow> authorization_filter \<times> fields listing \<Rightarrow> (authorization_filter \<times> fields listing) res" where
  "addOCPIEndpointsAuthorizations E r = enrich_listing E
    [plain_for (identifier_request r) ''canCreate'' E_OCPI_ENDPOINT A_CREATE,
     plain_for (identifier_request r) ''canGenerateLocalToken'' E_OCPI_ENDPOINT A_GENERATE_LOCAL_TOKEN,
     plain_for (identifier_request r) ''canPing'' E_OCPI_ENDPOINT A_PING]
    (add_flags E addOCPIEndpointAuthorizations)"

definition addSettingAuthorizations :: "auth_step list" where
  "addSettingAuthorizations =
    [can_read,
     unconditional ''canUpdate'' E_SETTING A_UPDATE,
     unconditional ''canDelete'' E_SETTING A_DELETE,
     unconditional ''canSyncRefund'' E_TRANSACTION A_SYNCHRONIZE_REFUNDED_TRANSACTION,
     unconditional ''canCheckBillingConnection'' E_BILLING A_CHECK_CONNECTION,
     unconditional ''canCheckSmartChargingConnection'' E_SMART_CHARGING A_CHECK_CONNECTION,
     unconditional ''canCheckAssetConnection'' E_ASSET A_CHECK_CONNECTION]"

definition addSettingsAuthorizations ::
    "auth_env \<Rightarrow> fields \<Rightarrow> authorization_filter \<times> fields listing \<Rightarrow> (authorization_filter \<times> fields listing) res" where
  "addSettingsAuthorizations E r = enrich_listing E
    [plain_for (identifier_request r) ''canCreate'' E_SETTING A_CREATE]
    (add_flags E addSettingAuthorizations)"

definition addAssetAuthorizations :: "auth_step list" where
  "addAssetAuthorizations =
    [can_read,
     flag ''canDelete'' E_ASSET A_DELETE no_request,
     flag ''canUpdate'' E_ASSET A_UPDATE no_request,
     flag ''canCheckConnection'' E_ASSET A_CHECK_CONNECTION no_request,
     guarded ''canRetrieveConsumption'' (\<lambda>e. flag_set e ''dynamicAsset'' \<and> \<not> flag_set e ''usesPushAPI'')
       E_ASSET A_RETRIEVE_CONSUMPTION no_request,
     guarded ''canReadConsumption'' (\<lambda>e. flag_set e ''dynamicAsset'') E_ASSET A_READ_CONSUMPTION no_request,
     guarded ''canCreateConsumption'' (\<lambda>e. flag_set e ''dynamicAsset'' \<and> flag_set e ''usesPushAPI'')
       E_ASSET A_CREATE_CONSUMPTION no_request]"

definition addAssetsAuthorizations ::
    "auth_env \<Rightarrow> authorization_filter \<times> fields listing \<Rightarrow> (authorization_filter \<times> fields listing) res" where
  "addAssetsAuthorizations E = enrich_listing E
    [unconditional ''canCreate'' E_ASSET A_CREATE,
     unconditional ''canListSites'' E_SITE A_LIST,
     unconditional ''canListSiteAreas'' E_SITE_AREA A_LIST]
    (add_flags E addAssetAuthorizations)"

definition addLogAuthorizations :: "auth_step list" where
  "addLogAuthorizations =
    [can_read]"

definition addLogsAuthorizations ::
    "auth_env \<Rightarrow> authorization_filter \<times> fields listing \<Rightarrow> (authorization_filter \<times> fields listing) res" where
  "addLogsAuthorizations E = enrich_listing E
    [unconditional ''canExport'' E_LOGGING A_EXPORT]
    (run_steps E addLogAuthorizations)"

definition addChargingProfileAuthorizations :: "auth_step list" where
  "addChargingProfileAuthorizations =
    [can_read,
     flag ''canUpdate'' E_CHARGING_PROFILE A_UPDATE profile_request,
     flag ''canDelete'' E_CHARGING_PROFILE A_DELETE profile_request,
     flag ''canReadSiteArea'' E_SITE_AREA A_READ profile_site_request]"

definition addChargingProfilesAuthorizations ::
    "auth_env \<Rightarrow> authorization_filter \<times> fields listing \<Rightarrow> (authorization_filter \<times> fields listing) res" where
  "addChargingProfilesAuthorizations E = enrich_listing E
    [unconditional ''canListChargingStations'' E_CHARGING_STATION A_LIST]
    (add_flags E addChargingProfileAuthorizations)"

definition addTaxAuthorizations :: "auth_step list" where
  "addTaxAuthorizations =
    [can_read]"

definition addTaxesAuthorizations ::
    "auth_env \<Rightarrow> authorization_filter \<times> fields listing \<Rightarrow> (authorization_filter \<times> fields listing) res" where
  "addTaxesAuthorizations E = enrich_listing E
    []
    (add_flags E addTaxAuthorizations)"

definition addInvoiceAuthorizations :: "auth_step list" where
  "addInvoiceAuthorizations =
    [can_read,
     flag ''canDownload'' E_INVOICE A_DOWNLOAD invoice_request]"

definition addInvoicesAuthorizations ::
    "auth_env \<Rightarrow> authorization_filter \<times> fields listing \<Rightarrow> (authorization_filter \<times> fields listing) res" where
  "addInvoicesAuthorizations E = enrich_listing E
    [unconditional ''canListUsers'' E_USER A_LIST]
    (add_flags E addInvoiceAuthorizations)"

definition addTransferAuthorizations :: "auth_step list" where
  "addTransferAuthorizations =
    [can_read,
     flag ''canDownload'' E_BILLING_TRANSFER A_DOWNLOAD transfer_request]"

definition addTransfersAuthorizations ::
    "auth_env \<Rightarrow> authorization_filter \<times> fields listing \<Rightarrow> (authorization_filter \<times> fields listing) res" where
  "addTransfersAuthorizations E = enrich_listing E
    [unconditional ''canListAccounts'' E_BILLING_ACCOUNT A_LIST]
    (add_flags E addTransferAuthorizations)"

definition addPaymentMethodAuthorizations :: "auth_step list" where
  "addPaymentMethodAuthorizations =
    [can_read,
     guarded ''canDelete'' (\<lambda>e. \<not> flag_set e ''isDefault'') E_PAYMENT_METHOD A_DELETE (by_id ''billingPaymentMethodID'')]"

definition addPaymentMethodsAuthorizations ::
    "auth_env \<Rightarrow> fields \<Rightarrow> authorization_filter \<times> fields listing \<Rightarrow> (authorization_filter \<times> fields listing) res" where
  "addPaymentMethodsAuthorizations E r = enrich_listing E
    [plain_for (user_request r) ''canCreate'' E_PAYMENT_METHOD A_CREATE]
    (add_flags E addPaymentMethodAuthorizations)"

definition addAccountAuthorizations :: "auth_step list" where
  "addAccountAuthorizations =
    [can_read]"

definition addAccountsAuthorizations ::
    "auth_env \<Rightarrow> authorization_filter \<times> fields listing \<Rightarrow> (authorization_filter \<times> fields listing) res" where
  "addAccountsAuthorizations E = enrich_listing E
    [unconditional ''canCreate'' E_BILLING_ACCOUNT A_CREATE,
     unconditional ''canListUsers'' E_USER A_LIST]
    Inr"

definition addUserSitesAuthorizations ::
    "auth_env \<Rightarrow> authorization_filter \<times> fields listing \<Rightarrow> (authorization_filter \<times> fields listing) res" where
  "addUserSitesAuthorizations E = enrich_listing E
    [unconditional ''canUpdateUserSites'' E_USER_SITE A_UPDATE]
    Inr"

definition addSiteUsersAuthorizations ::
    "auth_env \<Rightarrow> authorization_filter \<times> fields listing \<Rightarrow> (authorization_filter \<times> fields listing) res" where
  "addSiteUsersAuthorizations E = enrich_listing E
    [unconditional ''canUpdateSiteUsers'' E_SITE_USER A_UPDATE]
    Inr"

definition addStatisticsAuthorizations :: "auth_step list" where
  "addStatisticsAuthorizations =
    [unconditional ''canListUsers'' E_USER A_LIST,
     unconditional ''canListChargingStations'' E_CHARGING_STATION A_LIST,
     unconditional ''canListSites'' E_SITE A_LIST,
     unconditional ''canListSiteAreas'' E_SITE_AREA A_LIST,
     unconditional ''canExport'' E_STATISTIC A_EXPORT]"

text \<open>The flags of the sites of a user and of the users of a site.\<close>

definition user_site_steps :: "fields \<Rightarrow> auth_step list" where
  "user_site_steps user =
    [flag ''canAssignSitesToUser'' E_USER_SITE A_ASSIGN_SITES_TO_USER (\<lambda>_. [''UserID'' \<mapsto> field user ''id'']),
     flag ''canUnassignSitesFromUser'' E_USER_SITE A_UNASSIGN_SITES_FROM_USER (\<lambda>_. [''UserID'' \<mapsto> field user ''id''])]"

definition addUserSiteAuthToSitesAuthorizations ::
    "auth_env \<Rightarrow> fields \<Rightarrow> authorization_filter \<Rightarrow> fields list \<Rightarrow> (authorization_filter \<times> fields list) res" where
  "addUserSiteAuthToSitesAuthorizations E user = enrich_items (add_flags E (user_site_steps user))"

text \<open>The entity of the check on the users of a site is the site.\<close>

definition site_user_steps :: "auth_env \<Rightarrow> fields \<Rightarrow> flag_state \<Rightarrow> flag_state res" where
  "site_user_steps E site p =
     bindE (can_perform E E_SITE_USER A_ASSIGN_USERS_TO_SITE [''UserID'' \<mapsto> field (snd p) ''id''] (fst p, Some site))
       (\<lambda>(b1, af1, _).
     bindE (can_perform E E_SITE_USER A_UNASSIGN_USERS_FROM_SITE [''UserID'' \<mapsto> field (snd p) ''id''] (af1, Some site))
       (\<lambda>(b2, af2, _).
     Inr (af2, removeCanPropertiesWithFalseValue
       ((snd p)(''canAssignUsersToSite'' \<mapsto> JBool b1, ''canUnassignUsersFromSite'' \<mapsto> JBool b2)))))"

definition addSiteUserAuthToUsersAuthorizations ::
    "auth_env \<Rightarrow> fields \<Rightarrow> authorization_filter \<Rightarrow> fields list \<Rightarrow> (authorization_filter \<times> fields list) res" where
  "addSiteUserAuthToUsersAuthorizations E site = enrich_items (site_user_steps E site)"

section \<open>Registration tokens\<close>

definition getOCPPServerVersionURLPath :: "string \<Rightarrow> string" where
  "getOCPPServerVersionURLPath v =
     (if v = ''1.5'' then ''OCPP15'' else if v = ''1.6'' then ''OCPP16'' else if v = ''2.0'' then ''OCPP20''
      else ''UNKNOWN'')"

definition json_url :: "auth_env \<Rightarrow> string \<Rightarrow> json \<Rightarrow> json" where
  "json_url E v token =
     JStr (ae_jsonUrl E @ ''/'' @ getOCPPServerVersionURLPath v @ ''/'' @ ae_tenant E @ ''/'' @ ae_text E token)"

definition soap_url :: "auth_env \<Rightarrow> string \<Rightarrow> json \<Rightarrow> json" where
  "soap_url E v token =
     JStr (ae_wsdlUrl E @ ''/'' @ getOCPPServerVersionURLPath v @ ''?TenantID='' @ ae_tenant E @ ''%26Token='' @ ae_text E token)"

definition registration_token_steps :: "auth_step list" where
  "registration_token_steps =
    [can_read,
     flag ''canDelete'' E_REGISTRATION_TOKEN A_DELETE (by_id ''RegistrationTokenID''),
     flag ''canUpdate'' E_REGISTRATION_TOKEN A_UPDATE (by_id ''RegistrationTokenID''),
     flag ''canRevoke'' E_REGISTRATION_TOKEN A_REVOKE (by_id ''RegistrationTokenID'')]"

definition addRegistrationTokenAuthorizations :: "auth_env \<Rightarrow> flag_state \<Rightarrow> flag_state res" where
  "addRegistrationTokenAuthorizations E p =
     map_sum id (\<lambda>(af, e). (af, e(''ocpp15SOAPSecureUrl'' \<mapsto> soap_url E ''1.5'' (field e ''id''),
         ''ocpp16SOAPSecureUrl'' \<mapsto> soap_url E ''1.6'' (field e ''id''),
         ''ocpp16JSONSecureUrl'' \<mapsto> json_url E ''1.6'' (field e ''id''))))
       (add_flags E registration_token_steps p)"

definition addRegistrationTokensAuthorizations ::
    "auth_env \<Rightarrow> authorization_filter \<times> fields listing \<Rightarrow> (authorization_filter \<times> fields listing) res" where
  "addRegistrationTokensAuthorizations E = enrich_listing E
    [unconditional ''canCreate'' E_REGISTRATION_TOKEN A_CREATE]
    (addRegistrationTokenAuthorizations E)"

section \<open>Stations and connectors\<close>

record station_entity =
  se_station :: fields
  se_connectors :: "fields list"

definition station_steps :: "auth_step list" where
  "station_steps =
    [can_read,
     flag ''canListUsers'' E_USER A_LIST station_request,
     flag ''canAuthorize'' E_CHARGING_STATION A_AUTHORIZE station_request,
     flag ''canUpdate'' E_CHARGING_STATION A_UPDATE station_request,
     flag ''canUpdateOCPPParams'' E_CHARGING_STATION A_UPDATE_OCPP_PARAMS station_request,
     flag ''canLimitPower'' E_CHARGING_STATION A_LIMIT_POWER station_request,
     flag ''canDeleteChargingProfile'' E_CHARGING_STATION A_DELETE_CHARGING_PROFILE station_request,
     flag ''canGetOCPPParams'' E_CHARGING_STATION A_GET_OCPP_PARAMS station_request,
     flag ''canUpdateChargingProfile'' E_CHARGING_STATION A_UPDATE_CHARGING_PROFILE station_request,
     flag ''canGetConnectorQRCode'' E_CHARGING_STATION A_GET_CONNECTOR_QR_CODE station_request,
     flag ''canDelete'' E_CHARGING_STATION A_DELETE station_request,
     flag ''canReserveNow'' E_CHARGING_STATION A_RESERVE_NOW station_request,
     flag ''canReset'' E_CHARGING_STATION A_RESET station_request,
     flag ''canClearCache'' E_CHARGING_STATION A_CLEAR_CACHE station_request,
     flag ''canGetConfiguration'' E_CHARGING_STATION A_GET_CONFIGURATION station_request,
     flag ''canChangeConfiguration'' E_CHARGING_STATION A_CHANGE_CONFIGURATION station_request,
     flag ''canSetChargingProfile'' E_CHARGING_STATION A_SET_CHARGING_PROFILE station_request,
     flag ''canGetCompositeSchedule'' E_CHARGING_STATION A_GET_COMPOSITE_SCHEDULE station_request,
     flag ''canClearChargingProfile'' E_CHARGING_STATION A_CLEAR_CHARGING_PROFILE station_request,
     flag ''canGetDiagnostics'' E_CHARGING_STATION A_GET_DIAGNOSTICS station_request,
     flag ''canUpdateFirmware'' E_CHARGING_STATION A_UPDATE_FIRMWARE station_request,
     flag ''canRemoteStopTransaction'' E_CHARGING_STATION A_REMOTE_STOP_TRANSACTION station_request,
     flag ''canStopTransaction'' E_CHARGING_STATION A_STOP_TRANSACTION station_request,
     flag ''canStartTransaction'' E_CHARGING_STATION A_START_TRANSACTION station_request,
     flag ''canChangeAvailability'' E_CHARGING_STATION A_CHANGE_AVAILABILITY station_request,
     flag ''canRemoteStartTransaction'' E_CHARGING_STATION A_REMOTE_START_TRANSACTION station_request,
     flag ''canUnlockConnector'' E_CHARGING_STATION A_UNLOCK_CONNECTOR station_request,
     flag ''canDataTransfer'' E_CHARGING_STATION A_TRIGGER_DATA_TRANSFER station_request,
     flag ''canGenerateQrCode'' E_CHARGING_STATION A_GENERATE_QR station_request,
     flag ''canMaintainPricingDefinitions'' E_CHARGING_STATION A_MAINTAIN_PRICING_DEFINITIONS station_request,
     flag ''canPushTransactionCDR'' E_CHARGING_STATION A_PUSH_TRANSACTION_CDR station_request,
     flag ''canListCompletedTransactions'' E_TRANSACTION A_GET_COMPLETED_TRANSACTION station_request]"

fun items_of :: "json \<Rightarrow> json list res" where
  "items_of (JArr vs) = Inr vs"
| "items_of (JStr s) = Inr (map (\<lambda>c. JStr [c]) s)"
| "items_of v = Inl TypeError"

text \<open>A station of another operator can be started remotely when one of its evses has the capability.\<close>

definition evse_capable :: "bool \<Rightarrow> json \<Rightarrow> bool res" where
  "evse_capable b evse =
     (if evse = JNull then Inl TypeError
      else bindE (items_of (prop_of evse ''capabilities'')) (\<lambda>cs. Inr (b \<or> JStr ''REMOTE_START_STOP_CAPABLE'' \<in> set cs)))"

definition hasRemoteStartStopCapability :: "fields \<Rightarrow> bool res" where
  "hasRemoteStartStopCapability st =
     (if flag_set st ''issuer'' then Inr True
      else let evses = prop_of (field st ''ocpiData'') ''evses''
        in if evses = JNull then Inr False else bindE (items_of evses) (foldE evse_capable False))"

definition connector_user :: "fields \<Rightarrow> json" where
  "connector_user c = prop_of (field c ''user'') ''id''"

definition connector_request :: "fields \<Rightarrow> fields \<Rightarrow> fields" where
  "connector_request st c =
     [''chargingStationID'' \<mapsto> field st ''id'', ''UserID'' \<mapsto> connector_user c, ''SiteID'' \<mapsto> field st ''siteID'']"

definition or_empty :: "json \<Rightarrow> json" where
  "or_empty v = (if truthy_json v then v else JStr [])"

definition status_in :: "string list \<Rightarrow> fields \<Rightarrow> bool" where
  "status_in ss c \<longleftrightarrow> field c ''status'' \<in> JStr ` set ss"

definition connector_steps :: "auth_env \<Rightarrow> fields \<Rightarrow> bool \<Rightarrow> auth_step list" where
  "connector_steps E st remote =
    [Check ''canRemoteStopTransaction'' (\<lambda>_. True) E_CONNECTOR A_REMOTE_STOP_TRANSACTION (connector_request st) True
       (\<lambda>c. remote \<and> \<not> flag_set st ''inactive''
          \<and> status_in [''Charging'', ''Occupied'', ''SuspendedEV'', ''SuspendedEVSE''] c
          \<and> flag_set c ''currentTransactionID''),
     Check ''canRemoteStartTransaction'' (\<lambda>_. True) E_CONNECTOR A_REMOTE_START_TRANSACTION (connector_request st) True
       (\<lambda>c. remote \<and> \<not> flag_set st ''inactive'' \<and> \<not> flag_set c ''canRemoteStopTransaction''
          \<and> status_in [''Available'', ''Preparing'', ''Reserved'', ''Finishing''] c
          \<and> \<not> flag_set c ''currentTransactionID''),
     Compute ''canUnlockConnector'' (\<lambda>c. \<not> flag_set st ''inactive'' \<and> flag_set st ''canUnlockConnector''
          \<and> \<not> status_in [''Available'', ''Unavailable''] c),
     Check ''canReadTransaction'' (\<lambda>_. True) E_TRANSACTION A_READ
       (\<lambda>c. [''chargingStationID'' \<mapsto> field st ''id'', ''UserID'' \<mapsto> or_empty (connector_user c),
          ''TagIDs'' \<mapsto> or_empty (field c ''currentTagID''), ''SiteID'' \<mapsto> field st ''siteID'']) False (\<lambda>_. True)]
    @ (if ae_borneVIP E
       then [flag ''canAssignUnassignUsersToConnector'' E_CONNECTOR A_ASSIGN_UNASSIGN_USERS_TO_CONNECTOR (connector_request st)]
       else [])
    @ [Sensible E_CONNECTOR A_VIEW_USER_DATA
         (\<lambda>c. (connector_request st c)(''UserData'' \<mapsto> JBool True, ''TagData'' \<mapsto> JBool True))]"

definition station_sensible :: "auth_env \<Rightarrow> auth_step" where
  "station_sensible E = Sensible E_CHARGING_STATION A_VIEW_USER_DATA
     (\<lambda>e. [''chargingStationID'' \<mapsto> field e ''id'', ''UserID'' \<mapsto> prop_of (ae_tokenUser E) ''id'',
        ''SiteID'' \<mapsto> field e ''siteID'', ''UserData'' \<mapsto> JBool True, ''TagData'' \<mapsto> JBool True])"

definition addChargingStationAuthorizations ::
    "auth_env \<Rightarrow> authorization_filter \<times> station_entity \<Rightarrow> (authorization_filter \<times> station_entity) res" where
  "addChargingStationAuthorizations E p =
     bindE (run_steps E station_steps (fst p, se_station (snd p))) (\<lambda>(af1, st).
     bindE (hasRemoteStartStopCapability st) (\<lambda>remote.
     bindE (enrich_items (add_flags E (connector_steps E st remote)) af1 (se_connectors (snd p))) (\<lambda>(af2, cs).
     bindE (add_flags E [station_sensible E] (af2, st)) (\<lambda>(af3, st').
       Inr (af3, \<lparr>se_station = st', se_connectors = cs\<rparr>)))))"

definition addChargingStationsAuthorizations ::
    "auth_env \<Rightarrow> authorization_filter \<times> station_entity listing \<Rightarrow> (authorization_filter \<times> station_entity listing) res" where
  "addChargingStationsAuthorizations E = enrich_listing E
    [unconditional ''canListCompanies'' E_COMPANY A_LIST,
     unconditional ''canListSites'' E_SITE A_LIST,
     unconditional ''canListSiteAreas'' E_SITE_AREA A_LIST,
     unconditional ''canListUsers'' E_USER A_LIST,
     unconditional ''canExport'' E_CHARGING_STATION A_EXPORT]
    (addChargingStationAuthorizations E)"

section \<open>Sessions\<close>

record transaction_entity =
  te_fields :: fields
  te_stop :: "fields option"

definition transaction_filter :: "fields \<Rightarrow> fields" where
  "transaction_filter e =
     [''CompanyID'' \<mapsto> field e ''companyID'', ''SiteID'' \<mapsto> field e ''siteID'', ''UserID'' \<mapsto> field e ''userID'']"

definition transaction_request :: "fields \<Rightarrow> fields \<Rightarrow> fields" where
  "transaction_request d e = [''TransactionID'' \<mapsto> field e ''id''] ++ d"

definition sensible_request :: "fields \<Rightarrow> fields \<Rightarrow> fields" where
  "sensible_request d e =
     transaction_request d e ++ [''UserData'' \<mapsto> JBool True, ''TagData'' \<mapsto> JBool True,
       ''CarCatalogData'' \<mapsto> JBool True, ''CarData'' \<mapsto> JBool True, ''BillingData'' \<mapsto> JBool True]"

definition not_refunded :: "fields \<Rightarrow> bool" where
  "not_refunded e =
     (let r = field e ''refundData''
      in \<not> (truthy_json r \<and> truthy_json (prop_of r ''refundId'') \<and> prop_of r ''status'' \<noteq> JStr ''cancelled''))"

definition transaction_steps :: "fields \<Rightarrow> auth_step list" where
  "transaction_steps d =
    [can_read,
     flag ''canDelete'' E_TRANSACTION A_DELETE (transaction_request d),
     flag ''canUpdate'' E_TRANSACTION A_UPDATE (transaction_request d),
     flag ''canSynchronizeRefundedTransaction'' E_TRANSACTION A_SYNCHRONIZE_REFUNDED_TRANSACTION (transaction_request d),
     flag ''canGetAdvenirConsumption'' E_TRANSACTION A_GET_ADVENIR_CONSUMPTION (transaction_request d),
     flag ''canRemoteStopTransaction'' E_TRANSACTION A_REMOTE_STOP_TRANSACTION (transaction_request d),
     flag ''canListLogs'' E_LOGGING A_LIST (transaction_request d),
     flag ''canListLogs'' E_LOGGING A_LIST (transaction_request d),
     flag ''canReadChargingStation'' E_CHARGING_STATION A_READ (transaction_request d),
     Check ''canRefundTransaction'' (\<lambda>_. True) E_TRANSACTION A_REFUND_TRANSACTION (transaction_request d) True not_refunded,
     guarded ''canPushTransactionCDR'' (\<lambda>e. flag_set e ''ocpi'' \<and> \<not> flag_set e ''ocpiWithCdr'')
       E_TRANSACTION A_PUSH_TRANSACTION_CDR (transaction_request d),
     guarded ''canExportOcpiCdr'' (\<lambda>e. flag_set e ''ocpi'' \<and> flag_set e ''ocpiWithCdr'')
       E_TRANSACTION A_EXPORT_OCPI_CDR (transaction_request d)]"

text \<open>The data of a user are removed from the session and from its stop.\<close>

definition add_to_transaction ::
    "auth_env \<Rightarrow> (fields \<Rightarrow> auth_step list) \<Rightarrow> authorization_filter \<times> transaction_entity \<Rightarrow>
     (authorization_filter \<times> transaction_entity) res" where
  "add_to_transaction E steps p =
     (let d = transaction_filter (te_fields (snd p))
      in bindE (run_steps E (steps d @ [Sensible E_TRANSACTION A_VIEW_USER_DATA (sensible_request d)])
              (fst p, te_fields (snd p))) (\<lambda>(af1, e).
         bindE (can_perform E E_TRANSACTION A_VIEW_USER_DATA (sensible_request d e) (af1, te_stop (snd p)))
              (\<lambda>(_, af2, stop).
           Inr (af2, \<lparr>te_fields = removeCanPropertiesWithFalseValue e, te_stop = stop\<rparr>))))"

definition addTransactionAuthorizations ::
    "auth_env \<Rightarrow> authorization_filter \<times> transaction_entity \<Rightarrow> (authorization_filter \<times> transaction_entity) res" where
  "addTransactionAuthorizations E = add_to_transaction E transaction_steps"

definition addTransactionsAuthorizations ::
    "auth_env \<Rightarrow> authorization_filter \<times> transaction_entity listing \<Rightarrow> (authorization_filter \<times> transaction_entity listing) res" where
  "addTransactionsAuthorizations E = enrich_listing E
    [unconditional ''canListUsers'' E_USER A_LIST,
     unconditional ''canListSites'' E_SITE A_LIST,
     unconditional ''canListSiteAreas'' E_SITE_AREA A_LIST,
     unconditional ''canListChargingStations'' E_CHARGING_STATION A_LIST,
     unconditional ''canListTags'' E_TAG A_LIST,
     unconditional ''canExport'' E_TRANSACTION A_EXPORT,
     unconditional ''canDelete'' E_TRANSACTION A_DELETE,
     unconditional ''canSyncRefund'' E_TRANSACTION A_SYNCHRONIZE_REFUNDED_TRANSACTION,
     unconditional ''canRefund'' E_TRANSACTION A_REFUND_TRANSACTION,
     unconditional ''canReadSetting'' E_SETTING A_READ,
     unconditional ''canListEmsp'' E_TAG A_LIST_BAGDES_EMSPS]
    (addTransactionAuthorizations E)"

definition transaction_in_error_steps :: "fields \<Rightarrow> auth_step list" where
  "transaction_in_error_steps d =
    [can_read,
     flag ''canListLogs'' E_LOGGING A_LIST (transaction_request d)]"

definition addTransactionInErrorAuthorizations ::
    "auth_env \<Rightarrow> authorization_filter \<times> transaction_entity \<Rightarrow> (authorization_filter \<times> transaction_entity) res" where
  "addTransactionInErrorAuthorizations E = add_to_transaction E transaction_in_error_steps"

definition addTransactionsInErrorAuthorizations ::
    "auth_env \<Rightarrow> authorization_filter \<times> transaction_entity listing \<Rightarrow> (authorization_filter \<times> transaction_entity listing) res" where
  "addTransactionsInErrorAuthorizations E = enrich_listing E
    [unconditional ''canListUsers'' E_USER A_LIST,
     unconditional ''canListSites'' E_SITE A_LIST,
     unconditional ''canListSiteAreas'' E_SITE_AREA A_LIST,
     unconditional ''canListChargingStations'' E_CHARGING_STATION A_LIST,
     unconditional ''canListTags'' E_TAG A_LIST,
     unconditional ''canListEmaids'' E_EMAID A_LIST,
     unconditional ''canExport'' E_TRANSACTION A_EXPORT,
     unconditional ''canDelete'' E_TRANSACTION A_DELETE]
    (addTransactionInErrorAuthorizations E)"

definition refund_report_steps :: "auth_step list" where
  "refund_report_steps =
     [Sensible E_TRANSACTION A_VIEW_USER_DATA (\<lambda>_. [''UserData'' \<mapsto> JBool True, ''TagData'' \<mapsto> JBool True])]"

definition addRefundReportAuthorizations :: "auth_env \<Rightarrow> flag_state \<Rightarrow> flag_state res" where
  "addRefundReportAuthorizations E = add_flags E refund_report_steps"

definition addRefundReportsAuthorizations ::
    "auth_env \<Rightarrow> authorization_filter \<Rightarrow> fields list \<Rightarrow> (authorization_filter \<times> fields list) res" where
  "addRefundReportsAuthorizations E = enrich_items (addRefundReportAuthorizations E)"

end
