(* ===== verification/EntityChecks.thy ===== *)
theory EntityChecks
  imports EntityMethods AuthorizationCache
begin

text \<open>
  The checks a REST service makes before it reads (\<open>server/rest/v1/service/AuthorizationService.ts\<close>): for a list
  of entities, the filters of the action; for one entity, named by its identifier, the verdict as well.
\<close>

section \<open>The flag of an action\<close>

definition canPerformAction_flag :: "fields \<Rightarrow> action \<Rightarrow> bool" where
  "canPerformAction_flag authActions a = flag_set authActions (''can'' @ action_text a)"

section \<open>Checks on lists\<close>

definition fresh_filter :: authorization_filter where
  "fresh_filter = \<lparr>af_state = \<lparr>au_filters = no_query_filters, au_authorized = False\<rparr>, af_projectFields = [], af_metadata = None\<rparr>"

text \<open>The check only throws when the roles have no grant: a filter that refuses leaves its verdict in the result.\<close>

definition check_list ::
    "auth_env \<Rightarrow> entity \<Rightarrow> action \<Rightarrow> fields \<Rightarrow> bool \<Rightarrow> authorization_filter \<Rightarrow> authorization_filter res" where
  "check_list E ent act rq failsWithException af =
     map_sum id (\<lambda>(_, af', _). af')
       (canPerformAuthorizationAction (ae_control E) (ae_storage E) (ae_user E) (ae_roles E) ent act rq failsWithException
         (af, None))"

definition projecting :: "fields \<Rightarrow> authorization_filter" where
  "projecting rq = fresh_filter\<lparr>af_projectFields := filterProjectFields [] (requested_fields rq)\<rparr>"

definition checkAndGetStatisticsAuthorizations :: "auth_env \<Rightarrow> action \<Rightarrow> fields \<Rightarrow> bool \<Rightarrow> authorization_filter res" where
  "checkAndGetStatisticsAuthorizations E act rq fails =
     check_list E E_STATISTIC act rq fails fresh_filter"

definition checkAndGetOCPIEndpointsAuthorizations :: "auth_env \<Rightarrow> action \<Rightarrow> fields \<Rightarrow> bool \<Rightarrow> authorization_filter res" where
  "checkAndGetOCPIEndpointsAuthorizations E act rq fails =
     check_list E E_OCPI_ENDPOINT act rq fails fresh_filter"

definition checkAndGetSitesAuthorizations :: "auth_env \<Rightarrow> fields \<Rightarrow> bool \<Rightarrow> authorization_filter res" where
  "checkAndGetSitesAuthorizations E rq fails =
     check_list E E_SITE A_LIST rq fails fresh_filter"

definition checkAndGetLoggingsAuthorizations :: "auth_env \<Rightarrow> fields \<Rightarrow> bool \<Rightarrow> authorization_filter res" where
  "checkAndGetLoggingsAuthorizations E rq fails =
     check_list E E_LOGGING A_LIST rq fails fresh_filter"

definition checkAndGetSiteUsersAuthorizations :: "auth_env \<Rightarrow> fields \<Rightarrow> bool \<Rightarrow> authorization_filter res" where
  "checkAndGetSiteUsersAuthorizations E rq fails =
     check_list E E_SITE_USER A_LIST rq fails (projecting rq)"

definition checkAndGetUserSitesAuthorizations :: "auth_env \<Rightarrow> fields \<Rightarrow> bool \<Rightarrow> authorization_filter res" where
  "checkAndGetUserSitesAuthorizations E rq fails =
     check_list E E_USER_SITE A_LIST rq fails (projecting rq)"

definition checkAssignSiteUsersAuthorizations :: "auth_env \<Rightarrow> string \<Rightarrow> fields \<Rightarrow> authorization_filter res" where
  "checkAssignSiteUsersAuthorizations E action rq =
     check_list E E_SITE_USER (if action = ''AddUsersToSite'' then A_ASSIGN_USERS_TO_SITE else A_UNASSIGN_USERS_FROM_SITE) rq True fresh_filter"

definition checkAssignUserSitesAuthorizations :: "auth_env \<Rightarrow> string \<Rightarrow> fields \<Rightarrow> authorization_filter res" where
  "checkAssignUserSitesAuthorizations E action rq =
     check_list E E_USER_SITE (if action = ''AddSitesToUser'' then A_ASSIGN_SITES_TO_USER else A_UNASSIGN_SITES_FROM_USER) rq True fresh_filter"

definition checkAndGetUsersInErrorAuthorizations :: "auth_env \<Rightarrow> fields \<Rightarrow> authorization_filter res" where
  "checkAndGetUsersInErrorAuthorizations E rq =
     check_list E E_USER A_IN_ERROR rq True fresh_filter"

definition checkAndGetUsersAuthorizations :: "auth_env \<Rightarrow> action \<Rightarrow> fields \<Rightarrow> bool \<Rightarrow> authorization_filter res" where
  "checkAndGetUsersAuthorizations E act rq fails =
     check_list E E_USER act rq fails fresh_filter"

definition checkAndGetAssetsAuthorizations :: "auth_env \<Rightarrow> action \<Rightarrow> fields \<Rightarrow> bool \<Rightarrow> authorization_filter res" where
  "checkAndGetAssetsAuthorizations E act rq fails =
     check_list E E_ASSET act rq fails fresh_filter"

definition checkAndGetTagsAuthorizations :: "auth_env \<Rightarrow> fields \<Rightarrow> bool \<Rightarrow> authorization_filter res" where
  "checkAndGetTagsAuthorizations E rq fails =
     check_list E E_TAG A_LIST rq fails fresh_filter"

definition checkAndGetEmaidsAuthorizations :: "auth_env \<Rightarrow> fields \<Rightarrow> bool \<Rightarrow> authorization_filter res" where
  "checkAndGetEmaidsAuthorizations E rq fails =
     check_list E E_EMAID A_LIST rq fails fresh_filter"

definition checkAndGetCertificatesAuthorizations :: "auth_env \<Rightarrow> fields \<Rightarrow> bool \<Rightarrow> authorization_filter res" where
  "checkAndGetCertificatesAuthorizations E rq fails =
     check_list E E_CERTIFICATE A_LIST rq fails fresh_filter"

definition checkAndGetEmspsAuthorizations :: "auth_env \<Rightarrow> fields \<Rightarrow> bool \<Rightarrow> authorization_filter res" where
  "checkAndGetEmspsAuthorizations E rq fails =
     check_list E E_TAG A_LIST_BAGDES_EMSPS rq fails fresh_filter"

definition checkAndGetRegistrationTokensAuthorizations :: "auth_env \<Rightarrow> fields \<Rightarrow> bool \<Rightarrow> authorization_filter res" where
  "checkAndGetRegistrationTokensAuthorizations E rq fails =
     check_list E E_REGISTRATION_TOKEN A_LIST rq fails fresh_filter"

definition checkAndGetChargingStationTemplatesAuthorizations :: "auth_env \<Rightarrow> action \<Rightarrow> fields \<Rightarrow> authorization_filter res" where
  "checkAndGetChargingStationTemplatesAuthorizations E act rq =
     check_list E E_CHARGING_STATION_TEMPLATE act rq False fresh_filter"

definition checkAndGetCompaniesAuthorizations :: "auth_env \<Rightarrow> fields \<Rightarrow> bool \<Rightarrow> authorization_filter res" where
  "checkAndGetCompaniesAuthorizations E rq fails =
     check_list E E_COMPANY A_LIST rq fails fresh_filter"

definition checkAndGetPricingDefinitionsAuthorizations :: "auth_env \<Rightarrow> fields \<Rightarrow> bool \<Rightarrow> authorization_filter res" where
  "checkAndGetPricingDefinitionsAuthorizations E rq fails =
     check_list E E_PRICING_DEFINITION A_LIST rq fails fresh_filter"

definition checkAndGetSiteAreasAuthorizations :: "auth_env \<Rightarrow> fields \<Rightarrow> bool \<Rightarrow> authorization_filter res" where
  "checkAndGetSiteAreasAuthorizations E rq fails =
     check_list E E_SITE_AREA A_LIST rq fails fresh_filter"

definition checkAndGetChargingProfilesAuthorizations :: "auth_env \<Rightarrow> action \<Rightarrow> fields \<Rightarrow> bool \<Rightarrow> authorization_filter res" where
  "checkAndGetChargingProfilesAuthorizations E act rq fails =
     check_list E E_CHARGING_PROFILE act rq fails fresh_filter"

definition checkAndGetChargingStationsAuthorizations :: "auth_env \<Rightarrow> action \<Rightarrow> fields \<Rightarrow> bool \<Rightarrow> authorization_filter res" where
  "checkAndGetChargingStationsAuthorizations E act rq fails =
     check_list E E_CHARGING_STATION act rq fails fresh_filter"

definition checkAndGetBillingAccountsAuthorizations :: "auth_env \<Rightarrow> fields \<Rightarrow> bool \<Rightarrow> authorization_filter res" where
  "checkAndGetBillingAccountsAuthorizations E rq fails =
     check_list E E_BILLING_ACCOUNT A_LIST rq fails fresh_filter"

definition checkAndGetTransfersAuthorizations :: "auth_env \<Rightarrow> action \<Rightarrow> fields \<Rightarrow> bool \<Rightarrow> authorization_filter res" where
  "checkAndGetTransfersAuthorizations E act rq fails =
     check_list E E_BILLING_TRANSFER act rq fails fresh_filter"

definition checkAndGetTaxesAuthorizations :: "auth_env \<Rightarrow> bool \<Rightarrow> authorization_filter res" where
  "checkAndGetTaxesAuthorizations E fails =
     check_list E E_TAX A_LIST Map.empty fails fresh_filter"

definition checkAndGetInvoicesAuthorizations :: "auth_env \<Rightarrow> fields \<Rightarrow> bool \<Rightarrow> authorization_filter res" where
  "checkAndGetInvoicesAuthorizations E rq fails =
     check_list E E_INVOICE A_LIST rq fails fresh_filter"

definition checkAndGetPaymentMethodsAuthorizations :: "auth_env \<Rightarrow> fields \<Rightarrow> bool \<Rightarrow> authorization_filter res" where
  "checkAndGetPaymentMethodsAuthorizations E rq fails =
     check_list E E_PAYMENT_METHOD A_LIST (user_request rq) fails fresh_filter"

definition checkAndGetSettingsAuthorizations :: "auth_env \<Rightarrow> fields \<Rightarrow> bool \<Rightarrow> authorization_filter res" where
  "checkAndGetSettingsAuthorizations E rq fails =
     check_list E E_SETTING A_LIST rq fails fresh_filter"

definition checkAndGetCarsAuthorizations :: "auth_env \<Rightarrow> fields \<Rightarrow> bool \<Rightarrow> authorization_filter res" where
  "checkAndGetCarsAuthorizations E rq fails =
     check_list E E_CAR A_LIST rq fails fresh_filter"

definition checkAndGetCarCatalogsAuthorizations :: "auth_env \<Rightarrow> action \<Rightarrow> fields \<Rightarrow> bool \<Rightarrow> authorization_filter res" where
  "checkAndGetCarCatalogsAuthorizations E act rq fails =
     check_list E E_CAR_CATALOG act rq fails fresh_filter"

definition checkAndGetTransactionsAuthorizations :: "auth_env \<Rightarrow> action \<Rightarrow> fields \<Rightarrow> bool \<Rightarrow> authorization_filter res" where
  "checkAndGetTransactionsAuthorizations E act rq fails =
     check_list E E_TRANSACTION act rq fails fresh_filter"

definition checkAndGetConsumptionsAuthorizations :: "auth_env \<Rightarrow> action \<Rightarrow> fields \<Rightarrow> bool \<Rightarrow> authorization_filter res" where
  "checkAndGetConsumptionsAuthorizations E act rq fails =
     check_list E E_CONSUMPTION act rq fails fresh_filter"

definition checkAndGetSmartChargingAuthorizations :: "auth_env \<Rightarrow> action \<Rightarrow> bool \<Rightarrow> authorization_filter res" where
  "checkAndGetSmartChargingAuthorizations E act fails =
     check_list E E_SMART_CHARGING act Map.empty fails fresh_filter"

section \<open>Checks on one entity\<close>

definition check_entity ::
    "auth_env \<Rightarrow> entity \<Rightarrow> fields \<Rightarrow> fields \<Rightarrow> action \<Rightarrow> fields option \<Rightarrow> authorization_filter res" where
  "check_entity E ent rq entityID act ed =
     map_sum id fst
       (checkAndGetEntityAuthorizations (ae_control E) (ae_storage E) (ae_user E) (ae_roles E) ent act rq entityID ed)"

text \<open>The identifier of the request under the name the filters know it by.\<close>

definition id_request :: "fields \<Rightarrow> string \<Rightarrow> string \<Rightarrow> fields" where
  "id_request rq k k' = (if flag_set rq k then [k' \<mapsto> field rq k] else Map.empty)"

definition checkAndGetSiteAuthorizations ::
    "auth_env \<Rightarrow> fields \<Rightarrow> action \<Rightarrow> fields option \<Rightarrow> authorization_filter res" where
  "checkAndGetSiteAuthorizations E rq act ed =
     check_entity E E_SITE rq (id_request rq ''ID'' ''SiteID'') act ed"

definition checkAndGetOCPIEndpointAuthorizations ::
    "auth_env \<Rightarrow> fields \<Rightarrow> action \<Rightarrow> fields option \<Rightarrow> authorization_filter res" where
  "checkAndGetOCPIEndpointAuthorizations E rq act ed =
     check_entity E E_OCPI_ENDPOINT rq (id_request rq ''ID'' ''OcpiEndpointID'') act ed"

definition checkAndGetLoggingAuthorizations ::
    "auth_env \<Rightarrow> fields \<Rightarrow> action \<Rightarrow> fields option \<Rightarrow> authorization_filter res" where
  "checkAndGetLoggingAuthorizations E rq act ed =
     check_entity E E_LOGGING rq (id_request rq ''ID'' ''LogID'') act ed"

definition checkAndGetAssetAuthorizations ::
    "auth_env \<Rightarrow> fields \<Rightarrow> action \<Rightarrow> fields option \<Rightarrow> authorization_filter res" where
  "checkAndGetAssetAuthorizations E rq act ed =
     check_entity E E_ASSET rq (id_request rq ''ID'' ''AssetID'') act ed"

definition checkAndGetUserAuthorizations ::
    "auth_env \<Rightarrow> fields \<Rightarrow> action \<Rightarrow> fields option \<Rightarrow> authorization_filter res" where
  "checkAndGetUserAuthorizations E rq act ed =
     check_entity E E_USER rq (id_request rq ''ID'' ''UserID'') act ed"

definition checkAndGetTagAuthorizations ::
    "auth_env \<Rightarrow> fields \<Rightarrow> action \<Rightarrow> fields option \<Rightarrow> authorization_filter res" where
  "checkAndGetTagAuthorizations E rq act ed =
     check_entity E E_TAG rq (id_request rq ''ID'' ''TagID'') act ed"

definition checkAndGetEmaidAuthorizations ::
    "auth_env \<Rightarrow> fields \<Rightarrow> action \<Rightarrow> fields option \<Rightarrow> authorization_filter res" where
  "checkAndGetEmaidAuthorizations E rq act ed =
     check_entity E E_EMAID rq (id_request rq ''ID'' ''EmaidID'') act ed"

definition checkAndGetCertificateAuthorizations ::
    "auth_env \<Rightarrow> fields \<Rightarrow> action \<Rightarrow> fields option \<Rightarrow> authorization_filter res" where
  "checkAndGetCertificateAuthorizations E rq act ed =
     check_entity E E_CERTIFICATE rq (id_request rq ''ID'' ''CertificateID'') act ed"

definition checkAndGetRegistrationTokenAuthorizations ::
    "auth_env \<Rightarrow> fields \<Rightarrow> action \<Rightarrow> fields option \<Rightarrow> authorization_filter res" where
  "checkAndGetRegistrationTokenAuthorizations E rq act ed =
     check_entity E E_REGISTRATION_TOKEN rq (id_request rq ''ID'' ''registrationTokenID'') act ed"

definition checkAndGetChargingStationTemplateAuthorizations ::
    "auth_env \<Rightarrow> fields \<Rightarrow> action \<Rightarrow> fields option \<Rightarrow> authorization_filter res" where
  "checkAndGetChargingStationTemplateAuthorizations E rq act ed =
     check_entity E E_CHARGING_STATION_TEMPLATE rq (id_request rq ''ID'' ''chargingStationTemplateID'') act ed"

definition checkAndGetCompanyAuthorizations ::
    "auth_env \<Rightarrow> fields \<Rightarrow> action \<Rightarrow> fields option \<Rightarrow> authorization_filter res" where
  "checkAndGetCompanyAuthorizations E rq act ed =
     check_entity E E_COMPANY rq (id_request rq ''ID'' ''CompanyID'') act ed"

definition checkAndGetPricingDefinitionAuthorizations ::
    "auth_env \<Rightarrow> fields \<Rightarrow> action \<Rightarrow> fields option \<Rightarrow> authorization_filter res" where
  "checkAndGetPricingDefinitionAuthorizations E rq act ed =
     check_entity E E_PRICING_DEFINITION rq (id_request rq ''ID'' ''PricingID'') act ed"

definition checkAndGetSiteAreaAuthorizations ::
    "auth_env \<Rightarrow> fields \<Rightarrow> action \<Rightarrow> fields option \<Rightarrow> authorization_filter res" where
  "checkAndGetSiteAreaAuthorizations E rq act ed =
     check_entity E E_SITE_AREA rq (id_request rq ''ID'' ''SiteAreaID'') act ed"

definition checkAndGetChargingProfileAuthorizations ::
    "auth_env \<Rightarrow> action \<Rightarrow> fields option \<Rightarrow> authorization_filter res" where
  "checkAndGetChargingProfileAuthorizations E act ed = check_entity E E_CHARGING_PROFILE Map.empty Map.empty act ed"

definition checkAndGetChargingStationAuthorizations ::
    "auth_env \<Rightarrow> action \<Rightarrow> fields option \<Rightarrow> authorization_filter res" where
  "checkAndGetChargingStationAuthorizations E act ed = check_entity E E_CHARGING_STATION Map.empty Map.empty act ed"

definition checkAndGetBillingAuthorizations ::
    "auth_env \<Rightarrow> action \<Rightarrow> fields option \<Rightarrow> authorization_filter res" where
  "checkAndGetBillingAuthorizations E act ed = check_entity E E_BILLING Map.empty Map.empty act ed"

definition checkAndGetBillingPlatformAuthorizations ::
    "auth_env \<Rightarrow> action \<Rightarrow> fields option \<Rightarrow> authorization_filter res" where
  "checkAndGetBillingPlatformAuthorizations E act ed = check_entity E E_BILLING_PLATFORM Map.empty Map.empty act ed"

definition checkAndGetBillingAccountAuthorizations ::
    "auth_env \<Rightarrow> fields \<Rightarrow> action \<Rightarrow> fields option \<Rightarrow> authorization_filter res" where
  "checkAndGetBillingAccountAuthorizations E rq act ed =
     check_entity E E_BILLING_ACCOUNT rq (id_request rq ''ID'' ''id'') act ed"

definition checkAndGetTransferAuthorizations ::
    "auth_env \<Rightarrow> fields \<Rightarrow> action \<Rightarrow> fields option \<Rightarrow> authorization_filter res" where
  "checkAndGetTransferAuthorizations E rq act ed =
     check_entity E E_BILLING_TRANSFER rq (id_request rq ''ID'' ''TransferID'') act ed"

definition checkAndGetInvoiceAuthorizations ::
    "auth_env \<Rightarrow> fields \<Rightarrow> action \<Rightarrow> fields option \<Rightarrow> authorization_filter res" where
  "checkAndGetInvoiceAuthorizations E rq act ed =
     check_entity E E_INVOICE rq (id_request rq ''ID'' ''invoiceID'') act ed"

definition checkAndGetPaymentMethodAuthorizations ::
    "auth_env \<Rightarrow> fields \<Rightarrow> action \<Rightarrow> fields option \<Rightarrow> authorization_filter res" where
  "checkAndGetPaymentMethodAuthorizations E rq act ed =
     check_entity E E_PAYMENT_METHOD rq (id_request rq ''userID'' ''UserID'') act ed"

definition checkAndGetSettingAuthorizations ::
    "auth_env \<Rightarrow> fields \<Rightarrow> action \<Rightarrow> fields option \<Rightarrow> authorization_filter res" where
  "checkAndGetSettingAuthorizations E rq act ed =
     check_entity E E_SETTING rq (id_request rq ''ID'' ''SettingID'') act ed"

definition checkAndGetCarAuthorizations ::
    "auth_env \<Rightarrow> fields \<Rightarrow> action \<Rightarrow> fields option \<Rightarrow> authorization_filter res" where
  "checkAndGetCarAuthorizations E rq act ed =
     check_entity E E_CAR rq (id_request rq ''ID'' ''CarID'') act ed"

definition checkAndGetCarCatalogAuthorizations ::
    "auth_env \<Rightarrow> fields \<Rightarrow> action \<Rightarrow> fields option \<Rightarrow> authorization_filter res" where
  "checkAndGetCarCatalogAuthorizations E rq act ed =
     check_entity E E_CAR_CATALOG rq (id_request rq ''ID'' ''CarCatalogID'') act ed"

definition checkAndGetTransactionAuthorizations ::
    "auth_env \<Rightarrow> fields \<Rightarrow> action \<Rightarrow> fields option \<Rightarrow> authorization_filter res" where
  "checkAndGetTransactionAuthorizations E rq act ed =
     check_entity E E_TRANSACTION rq (id_request rq ''ID'' ''TransactionID'') act ed"

end
