(* ===== verification/EntityAccess.thy ===== *)
theory EntityAccess
  imports EntityChecks
begin

text \<open>
  How the REST services get hold of an entity (\<open>server/rest/v1/service/UtilsService.ts\<close>): the identifier must be
  there, the action be authorized for it, the entity be found by a query with the filters of the check, and the
  flag of the action be set on the entity that was found.  The query is a parameter: it gets the identifier,
  the filters of the caller, those of the check, and the projected fields.
\<close>

section \<open>Parts\<close>

type_synonym 'e getter = "json \<Rightarrow> fields \<Rightarrow> query_filters option \<Rightarrow> string list option \<Rightarrow> 'e option"

definition assertIdIsProvided :: "json \<Rightarrow> unit res" where
  "assertIdIsProvided i = (if truthy_json i then Inr () else Inl (AppError 500 ''The ID must be provided''))"

definition assertObjectExists :: "string \<Rightarrow> 'e option \<Rightarrow> 'e res" where
  "assertObjectExists message found = (case found of None \<Rightarrow> Inl (AppError 404 message) | Some e \<Rightarrow> Inr e)"

definition not_found :: "auth_env \<Rightarrow> string \<Rightarrow> json \<Rightarrow> string \<Rightarrow> string" where
  "not_found E label i rest = label @ '' '' @ [CHR 0x27] @ ae_text E i @ [CHR 0x27] @ rest"

definition projection :: "bool \<Rightarrow> authorization_filter \<Rightarrow> string list option" where
  "projection applyProjectFields af = (if applyProjectFields then Some (af_projectFields af) else None)"

text \<open>The projected fields and the metadata of the check become properties of the entity.\<close>

definition flag_json :: "string \<Rightarrow> bool option \<Rightarrow> (string \<times> json) list" where
  "flag_json k b = (case b of None \<Rightarrow> [] | Some x \<Rightarrow> [(k, JBool x)])"

definition metadata_json :: "(string \<times> field_metadata) list \<Rightarrow> json" where
  "metadata_json ms = JObj (map (\<lambda>(k, m). (k, JObj (flag_json ''visible'' (fm_visible m)
      @ flag_json ''enabled'' (fm_enabled m) @ flag_json ''mandatory'' (fm_mandatory m)))) ms)"

definition assign_projection :: "authorization_filter \<Rightarrow> fields \<Rightarrow> fields" where
  "assign_projection af e = e(''projectFields'' \<mapsto> JArr (map JStr (af_projectFields af)))"

definition assign_metadata :: "authorization_filter \<Rightarrow> fields \<Rightarrow> fields" where
  "assign_metadata af e = (case af_metadata af of None \<Rightarrow> e | Some ms \<Rightarrow> e(''metadata'' \<mapsto> metadata_json ms))"

definition assign_result :: "authorization_filter \<Rightarrow> fields \<Rightarrow> fields" where
  "assign_result af e = assign_metadata af (assign_projection af e)"

text \<open>The flags are added, and the one of the action decides; \<open>main\<close> finds the entity the flags are in.\<close>

definition with_flags ::
    "('e \<Rightarrow> fields) \<Rightarrow> (authorization_filter \<times> 'e \<Rightarrow> (authorization_filter \<times> 'e) res) \<Rightarrow> action \<Rightarrow>
     authorization_filter \<Rightarrow> 'e \<Rightarrow> 'e res" where
  "with_flags main add act af e =
     bindE (add (af, e)) (\<lambda>(_, e'). if canPerformAction_flag (main e') act then Inr e' else Inl AppAuthError)"

section \<open>One entity\<close>

definition checkAndGetRegistrationTokenAuthorization ::
    "auth_env \<Rightarrow> fields getter \<Rightarrow> json \<Rightarrow> action \<Rightarrow> fields option \<Rightarrow> fields \<Rightarrow> bool \<Rightarrow> fields res" where
  "checkAndGetRegistrationTokenAuthorization E get i act ed additional project =
     bindE (assertIdIsProvided i) (\<lambda>_.
     bindE (checkAndGetRegistrationTokenAuthorizations E [''ID'' \<mapsto> i] act ed) (\<lambda>af.
     bindE (assertObjectExists (not_found E ''Registration Token ID'' i '' does not exist'')
              (get i additional (Some (au_filters (af_state af))) (projection project af))) (\<lambda>e.
     with_flags (\<lambda>x. x) (addRegistrationTokenAuthorizations E) act af (assign_result af e))))"

definition checkAndGetCompanyAuthorization ::
    "auth_env \<Rightarrow> fields getter \<Rightarrow> json \<Rightarrow> action \<Rightarrow> fields option \<Rightarrow> fields \<Rightarrow> bool \<Rightarrow> fields res" where
  "checkAndGetCompanyAuthorization E get i act ed additional project =
     bindE (assertIdIsProvided i) (\<lambda>_.
     bindE (checkAndGetCompanyAuthorizations E [''ID'' \<mapsto> i] act ed) (\<lambda>af.
     bindE (assertObjectExists (not_found E ''Company ID'' i '' does not exist'')
              (get i additional (Some (au_filters (af_state af))) (projection project af))) (\<lambda>e.
     with_flags (\<lambda>x. x) (add_flags E addCompanyAuthorizations) act af (assign_result af e))))"

definition checkAndGetUserAuthorization ::
    "auth_env \<Rightarrow> fields getter \<Rightarrow> json \<Rightarrow> action \<Rightarrow> fields option \<Rightarrow> fields \<Rightarrow> bool \<Rightarrow> fields res" where
  "checkAndGetUserAuthorization E get i act ed additional project =
     bindE (assertIdIsProvided i) (\<lambda>_.
     bindE (checkAndGetUserAuthorizations E [''ID'' \<mapsto> i] act ed) (\<lambda>af.
     bindE (assertObjectExists (not_found E ''User ID'' i '' does not exist'')
              (get i additional (Some (au_filters (af_state af))) (projection project af))) (\<lambda>e.
     with_flags (\<lambda>x. x) (add_flags E addUserAuthorizations) act af (assign_result af e))))"

definition checkAndGetSiteAuthorization ::
    "auth_env \<Rightarrow> fields getter \<Rightarrow> json \<Rightarrow> action \<Rightarrow> fields option \<Rightarrow> fields \<Rightarrow> bool \<Rightarrow> fields res" where
  "checkAndGetSiteAuthorization E get i act ed additional project =
     bindE (assertIdIsProvided i) (\<lambda>_.
     bindE (checkAndGetSiteAuthorizations E [''ID'' \<mapsto> i] act ed) (\<lambda>af.
     bindE (assertObjectExists (not_found E ''Site ID'' i '' does not exist'')
              (get i additional (Some (au_filters (af_state af))) (projection project af))) (\<lambda>e.
     with_flags (\<lambda>x. x) (add_flags E addSiteAuthorizations) act af (assign_result af e))))"

definition checkAndGetAssetAuthorization ::
    "auth_env \<Rightarrow> fields getter \<Rightarrow> json \<Rightarrow> action \<Rightarrow> fields option \<Rightarrow> fields \<Rightarrow> bool \<Rightarrow> fields res" where
  "checkAndGetAssetAuthorization E get i act ed additional project =
     bindE (assertIdIsProvided i) (\<lambda>_.
     bindE (checkAndGetAssetAuthorizations E [''ID'' \<mapsto> i] act ed) (\<lambda>af.
     bindE (assertObjectExists (not_found E ''Asset ID'' i '' cannot be retrieved'')
              (get i additional (Some (au_filters (af_state af))) (projection project af))) (\<lambda>e.
     with_flags (\<lambda>x. x) (add_flags E addAssetAuthorizations) act af (assign_result af e))))"

definition checkAndGetLogAuthorization ::
    "auth_env \<Rightarrow> fields getter \<Rightarrow> json \<Rightarrow> action \<Rightarrow> fields option \<Rightarrow> fields \<Rightarrow> bool \<Rightarrow> fields res" where
  "checkAndGetLogAuthorization E get i act ed additional project =
     bindE (assertIdIsProvided i) (\<lambda>_.
     bindE (checkAndGetLoggingAuthorizations E [''ID'' \<mapsto> i] act ed) (\<lambda>af.
     bindE (assertObjectExists (not_found E ''Log ID'' i '' does not exist'')
              (get i additional (Some (au_filters (af_state af))) (projection project af))) (\<lambda>e.
     with_flags (\<lambda>x. x) (run_steps E addLogAuthorizations) act af (assign_result af e))))"

definition checkAndGetSiteAreaAuthorization ::
    "auth_env \<Rightarrow> fields getter \<Rightarrow> json \<Rightarrow> action \<Rightarrow> fields option \<Rightarrow> fields \<Rightarrow> bool \<Rightarrow> fields res" where
  "checkAndGetSiteAreaAuthorization E get i act ed additional project =
     bindE (assertIdIsProvided i) (\<lambda>_.
     bindE (checkAndGetSiteAreaAuthorizations E [''ID'' \<mapsto> i] act ed) (\<lambda>af.
     bindE (assertObjectExists (not_found E ''Site Area ID'' i '' does not exist'')
              (get i additional (Some (au_filters (af_state af))) (projection project af))) (\<lambda>e.
     with_flags (\<lambda>x. x) (add_flags E addSiteAreaAuthorizations) act af (assign_result af e))))"

definition checkAndGetCarAuthorization ::
    "auth_env \<Rightarrow> fields getter \<Rightarrow> json \<Rightarrow> action \<Rightarrow> fields option \<Rightarrow> fields \<Rightarrow> bool \<Rightarrow> fields res" where
  "checkAndGetCarAuthorization E get i act ed additional project =
     bindE (assertIdIsProvided i) (\<lambda>_.
     bindE (checkAndGetCarAuthorizations E [''ID'' \<mapsto> i] act ed) (\<lambda>af.
     bindE (assertObjectExists (not_found E ''Car ID'' i '' does not exist'')
              (get i additional (Some (au_filters (af_state af))) (projection project af))) (\<lambda>e.
     with_flags (\<lambda>x. x) (add_flags E addCarAuthorizations) act af (assign_result af e))))"

definition checkAndGetCarCatalogAuthorization ::
    "auth_env \<Rightarrow> fields getter \<Rightarrow> json \<Rightarrow> action \<Rightarrow> fields option \<Rightarrow> fields \<Rightarrow> bool \<Rightarrow> fields res" where
  "checkAndGetCarCatalogAuthorization E get i act ed additional project =
     bindE (assertIdIsProvided i) (\<lambda>_.
     bindE (checkAndGetCarCatalogAuthorizations E [''ID'' \<mapsto> i] act ed) (\<lambda>af.
     bindE (assertObjectExists (not_found E ''Car Catalog ID'' i '' does not exist'')
              (get i additional (Some (au_filters (af_state af))) (projection project af))) (\<lambda>e.
     with_flags (\<lambda>x. x) (add_flags E addCarCatalogAuthorizations) act af (assign_result af e))))"

definition checkAndGetTagByXXXAuthorization ::
    "auth_env \<Rightarrow> fields getter \<Rightarrow> json \<Rightarrow> action \<Rightarrow> fields option \<Rightarrow> fields \<Rightarrow> bool \<Rightarrow> fields res" where
  "checkAndGetTagByXXXAuthorization E get i act ed additional project =
     bindE (assertIdIsProvided i) (\<lambda>_.
     bindE (checkAndGetTagAuthorizations E [''ID'' \<mapsto> i] act ed) (\<lambda>af.
     bindE (assertObjectExists (not_found E ''Tag ID'' i '' does not exist'')
              (get i additional (Some (au_filters (af_state af))) (projection project af))) (\<lambda>e.
     with_flags (\<lambda>x. x) (add_flags E addTagAuthorizations) act af (assign_result af e))))"

definition checkAndGetCertificateByXXXAuthorization ::
    "auth_env \<Rightarrow> fields getter \<Rightarrow> json \<Rightarrow> action \<Rightarrow> fields option \<Rightarrow> fields \<Rightarrow> bool \<Rightarrow> fields res" where
  "checkAndGetCertificateByXXXAuthorization E get i act ed additional project =
     bindE (assertIdIsProvided i) (\<lambda>_.
     bindE (checkAndGetCertificateAuthorizations E [''ID'' \<mapsto> i] act ed) (\<lambda>af.
     bindE (assertObjectExists (not_found E ''Certificate ID'' i '' does not exist'')
              (get i additional (Some (au_filters (af_state af))) (projection project af))) (\<lambda>e.
     with_flags (\<lambda>x. x) (add_flags E addCertificateAuthorizations) act af (assign_result af e))))"

definition checkAndGetEmaidByXXXAuthorization ::
    "auth_env \<Rightarrow> fields getter \<Rightarrow> json \<Rightarrow> action \<Rightarrow> fields option \<Rightarrow> fields \<Rightarrow> bool \<Rightarrow> fields res" where
  "checkAndGetEmaidByXXXAuthorization E get i act ed additional project =
     bindE (assertIdIsProvided i) (\<lambda>_.
     bindE (checkAndGetEmaidAuthorizations E [''ID'' \<mapsto> i] act ed) (\<lambda>af.
     bindE (assertObjectExists (not_found E ''Emaid ID'' i '' does not exist'')
              (get i additional (Some (au_filters (af_state af))) (projection project af))) (\<lambda>e.
     with_flags (\<lambda>x. x) (add_flags E addEmaidAuthorizations) act af (assign_result af e))))"

text \<open>Tags, contracts and certificates are found by identifier or by visual identifier.\<close>

definition checkAndGetTagAuthorization ::
    "auth_env \<Rightarrow> fields getter \<Rightarrow> json \<Rightarrow> action \<Rightarrow> fields option \<Rightarrow> fields \<Rightarrow> bool \<Rightarrow> fields res" where
  "checkAndGetTagAuthorization E getTag i act ed additional project = checkAndGetTagByXXXAuthorization E getTag i act ed additional project"

definition checkAndGetTagByVisualIDAuthorization ::
    "auth_env \<Rightarrow> fields getter \<Rightarrow> json \<Rightarrow> action \<Rightarrow> fields option \<Rightarrow> fields \<Rightarrow> bool \<Rightarrow> fields res" where
  "checkAndGetTagByVisualIDAuthorization E getTagByVisualID i act ed additional project = checkAndGetTagByXXXAuthorization E getTagByVisualID i act ed additional project"

definition checkAndGetCertificateAuthorization ::
    "auth_env \<Rightarrow> fields getter \<Rightarrow> json \<Rightarrow> action \<Rightarrow> fields option \<Rightarrow> fields \<Rightarrow> bool \<Rightarrow> fields res" where
  "checkAndGetCertificateAuthorization E getCertificate i act ed additional project = checkAndGetCertificateByXXXAuthorization E getCertificate i act ed additional project"

definition checkAndGetEmaidAuthorization ::
    "auth_env \<Rightarrow> fields getter \<Rightarrow> json \<Rightarrow> action \<Rightarrow> fields option \<Rightarrow> fields \<Rightarrow> bool \<Rightarrow> fields res" where
  "checkAndGetEmaidAuthorization E getEmaid i act ed additional project = checkAndGetEmaidByXXXAuthorization E getEmaid i act ed additional project"

definition checkAndGetEmaidByVisualIDAuthorization ::
    "auth_env \<Rightarrow> fields getter \<Rightarrow> json \<Rightarrow> action \<Rightarrow> fields option \<Rightarrow> fields \<Rightarrow> bool \<Rightarrow> fields res" where
  "checkAndGetEmaidByVisualIDAuthorization E getEmaidByVisualID i act ed additional project = checkAndGetEmaidByXXXAuthorization E getEmaidByVisualID i act ed additional project"

text \<open>The identifier of these two is not handed to the filters.\<close>

definition checkAndGetChargingProfileAuthorization ::
    "auth_env \<Rightarrow> fields getter \<Rightarrow> json \<Rightarrow> action \<Rightarrow> fields option \<Rightarrow> fields \<Rightarrow> bool \<Rightarrow> fields res" where
  "checkAndGetChargingProfileAuthorization E get i act ed additional project =
     bindE (assertIdIsProvided i) (\<lambda>_.
     bindE (checkAndGetChargingProfileAuthorizations E act ed) (\<lambda>af.
     bindE (assertObjectExists (not_found E ''Charging Profile ID'' i '' does not exist.'')
              (get i additional (Some (au_filters (af_state af))) (projection project af))) (\<lambda>e.
     with_flags (\<lambda>x. x) (add_flags E addChargingProfileAuthorizations) act af (assign_result af e))))"

definition check_not_deleted :: "auth_env \<Rightarrow> station_entity \<Rightarrow> unit res" where
  "check_not_deleted E s =
     (if flag_set (se_station s) ''deleted''
      then Inl (AppError 404 (not_found E ''ChargingStation with ID'' (field (se_station s) ''id'') '' is logically deleted''))
      else Inr ())"

definition checkAndGetChargingStationAuthorization ::
    "auth_env \<Rightarrow> station_entity getter \<Rightarrow> json \<Rightarrow> action \<Rightarrow> fields option \<Rightarrow> fields \<Rightarrow> bool \<Rightarrow> station_entity res" where
  "checkAndGetChargingStationAuthorization E get i act ed additional project =
     bindE (assertIdIsProvided i) (\<lambda>_.
     bindE (checkAndGetChargingStationAuthorizations E act ed) (\<lambda>af.
     bindE (assertObjectExists (not_found E ''ChargingStation ID'' i '' does not exist'')
              (get i additional (Some (au_filters (af_state af))) (projection project af))) (\<lambda>s.
     bindE (check_not_deleted E s) (\<lambda>_.
     with_flags se_station (addChargingStationAuthorizations E) act af
       (s\<lparr>se_station := assign_result af (se_station s)\<rparr>)))))"

text \<open>The variant for QR codes makes no check.\<close>

definition checkAndGetChargingStationAuthorizationQr ::
    "auth_env \<Rightarrow> station_entity getter \<Rightarrow> json \<Rightarrow> action \<Rightarrow> fields option \<Rightarrow> fields \<Rightarrow> bool \<Rightarrow> station_entity res" where
  "checkAndGetChargingStationAuthorizationQr E get i act ed additional project =
     bindE (assertIdIsProvided i) (\<lambda>_.
     bindE (assertObjectExists (not_found E ''ChargingStation ID'' i '' does not exist'') (get i additional None None)) (\<lambda>s.
     bindE (check_not_deleted E s) (\<lambda>_. Inr s)))"

definition checkAndGetTransactionAuthorization ::
    "auth_env \<Rightarrow> transaction_entity getter \<Rightarrow> json \<Rightarrow> action \<Rightarrow> fields option \<Rightarrow> fields \<Rightarrow> bool \<Rightarrow>
     transaction_entity res" where
  "checkAndGetTransactionAuthorization E get i act ed additional project =
     bindE (assertIdIsProvided i) (\<lambda>_.
     bindE (checkAndGetTransactionAuthorizations E [''ID'' \<mapsto> i] act ed) (\<lambda>af.
     bindE (assertObjectExists (not_found E ''Transaction ID'' i '' does not exist'')
              (get i additional (Some (au_filters (af_state af))) (projection project af))) (\<lambda>t.
     with_flags te_fields (addTransactionAuthorizations E) act af
       (t\<lparr>te_fields := assign_result af (te_fields t)\<rparr>))))"

text \<open>Templates carry no flags; a tariff gets its flags before the projection.\<close>

definition checkAndGetChargingStationTemplateAuthorization ::
    "auth_env \<Rightarrow> fields getter \<Rightarrow> json \<Rightarrow> action \<Rightarrow> fields option \<Rightarrow> fields \<Rightarrow> bool \<Rightarrow> fields res" where
  "checkAndGetChargingStationTemplateAuthorization E get i act ed additional project =
     bindE (assertIdIsProvided i) (\<lambda>_.
     bindE (checkAndGetChargingStationTemplateAuthorizations E [''ID'' \<mapsto> i] act ed) (\<lambda>af.
     assertObjectExists (not_found E ''ChargingStationTemplate ID'' i '' does not exist'')
       (get i additional (Some (au_filters (af_state af))) (projection project af))))"

definition checkAndGetPricingDefinitionAuthorization ::
    "auth_env \<Rightarrow> fields getter \<Rightarrow> json \<Rightarrow> action \<Rightarrow> fields option \<Rightarrow> fields \<Rightarrow> bool \<Rightarrow> fields res" where
  "checkAndGetPricingDefinitionAuthorization E get i act ed additional project =
     bindE (assertIdIsProvided i) (\<lambda>_.
     bindE (checkAndGetPricingDefinitionAuthorizations E [''ID'' \<mapsto> i] act ed) (\<lambda>af.
     bindE (assertObjectExists (not_found E ''Pricing Model ID'' i '' does not exist'')
              (get i additional (Some (au_filters (af_state af))) (projection project af))) (\<lambda>e.
     with_flags (\<lambda>x. x)
       (\<lambda>p. map_sum id (\<lambda>(af', e'). (af', assign_result af' e')) (add_flags E addPricingDefinitionAuthorizations p))
       act af e)))"

section \<open>Entities whose query takes no filter of the check\<close>

definition checkAndGetSettingAuthorization ::
    "auth_env \<Rightarrow> fields getter \<Rightarrow> json \<Rightarrow> action \<Rightarrow> fields option \<Rightarrow> fields \<Rightarrow> bool \<Rightarrow> fields res" where
  "checkAndGetSettingAuthorization E get i act ed additional project =
     bindE (assertIdIsProvided i) (\<lambda>_.
     bindE (checkAndGetSettingAuthorizations E [''ID'' \<mapsto> i] act ed) (\<lambda>af.
     bindE (assertObjectExists (not_found E ''Setting'' i '' does not exist'') (get i additional None (projection project af))) (\<lambda>e.
     with_flags (\<lambda>x. x) (add_flags E addSettingAuthorizations) act af (assign_result af e))))"

definition checkAndGetOCPIEndpointAuthorization ::
    "auth_env \<Rightarrow> fields getter \<Rightarrow> json \<Rightarrow> action \<Rightarrow> fields option \<Rightarrow> fields \<Rightarrow> bool \<Rightarrow> fields res" where
  "checkAndGetOCPIEndpointAuthorization E get i act ed additional project =
     bindE (assertIdIsProvided i) (\<lambda>_.
     bindE (checkAndGetOCPIEndpointAuthorizations E [''ID'' \<mapsto> i] act ed) (\<lambda>af.
     bindE (assertObjectExists (not_found E ''OCPIEndpoint'' i '' does not exist'') (get i additional None (projection project af))) (\<lambda>e.
     with_flags (\<lambda>x. x) (add_flags E addOCPIEndpointAuthorizations) act af (assign_result af e))))"

definition checkAndGetTransferAuthorization ::
    "auth_env \<Rightarrow> fields getter \<Rightarrow> json \<Rightarrow> action \<Rightarrow> fields option \<Rightarrow> fields \<Rightarrow> bool \<Rightarrow> fields res" where
  "checkAndGetTransferAuthorization E get i act ed additional project =
     bindE (assertIdIsProvided i) (\<lambda>_.
     bindE (checkAndGetTransferAuthorizations E [''ID'' \<mapsto> i] act ed) (\<lambda>af.
     bindE (assertObjectExists (not_found E ''Transfer ID'' i '' does not exist'') (get i additional None (projection project af))) (\<lambda>e.
     with_flags (\<lambda>x. x) (add_flags E addTransferAuthorizations) act af (assign_metadata af (if project then assign_projection af e else e)))))"

definition checkAndGetBillingAccountAuthorization ::
    "auth_env \<Rightarrow> fields getter \<Rightarrow> json \<Rightarrow> action \<Rightarrow> fields option \<Rightarrow> fields \<Rightarrow> bool \<Rightarrow> fields res" where
  "checkAndGetBillingAccountAuthorization E get i act ed additional project =
     bindE (assertIdIsProvided i) (\<lambda>_.
     bindE (checkAndGetBillingAccountAuthorizations E [''ID'' \<mapsto> i] act ed) (\<lambda>af.
     bindE (assertObjectExists (not_found E ''Billing account ID'' i '' does not exist'') (get i additional None (projection project af))) (\<lambda>e.
     with_flags (\<lambda>x. x) (run_steps E addAccountAuthorizations) act af (assign_metadata af (if project then assign_projection af e else e)))))"

definition checkAndGetBillingSettingAuthorization ::
    "auth_env \<Rightarrow> fields getter \<Rightarrow> json \<Rightarrow> action \<Rightarrow> fields option \<Rightarrow> fields \<Rightarrow> bool \<Rightarrow> fields res" where
  "checkAndGetBillingSettingAuthorization E get i act ed additional project =
     bindE (checkAndGetSettingAuthorizations E [''ID'' \<mapsto> i] act ed) (\<lambda>af.
     bindE (assertObjectExists (''Billing setting for tenantID '' @ [CHR 0x27] @ ae_tenant E @ [CHR 0x27] @ '' does not exist'')
              (get JNull additional None (projection project af))) (\<lambda>e.
     with_flags (\<lambda>x. x) (add_flags E addSettingAuthorizations) act af
       (assign_metadata af (if project then assign_projection af e else e))))"

text \<open>An invoice is found with the filters of the check.\<close>

definition checkAndGetInvoiceAuthorization ::
    "auth_env \<Rightarrow> fields getter \<Rightarrow> json \<Rightarrow> action \<Rightarrow> fields option \<Rightarrow> fields \<Rightarrow> bool \<Rightarrow> fields res" where
  "checkAndGetInvoiceAuthorization E get i act ed additional project =
     bindE (assertIdIsProvided i) (\<lambda>_.
     bindE (checkAndGetInvoiceAuthorizations E [''ID'' \<mapsto> i] act ed) (\<lambda>af.
     bindE (assertObjectExists (not_found E ''Invoice ID'' i '' does not exist'') 
              (get i additional (Some (au_filters (af_state af))) (projection project af))) (\<lambda>e.
     with_flags (\<lambda>x. x) (add_flags E addInvoiceAuthorizations) act af (assign_metadata af (if project then assign_projection af e else e)))))"

end
