(* ===== verification/EntityGuards.thy ===== *)
theory EntityGuards
  imports EntityAccess Grants
begin

text \<open>
  What the flags of \<open>EntityMethods\<close> and the accesses of \<open>EntityAccess\<close> guarantee: a flag is the permission of its
  action, and an entity is only handed out to a user who is authorized for the action, twice: for the
  identifier of the request, and for the entity that was found.
\<close>

section \<open>The steps of every method are plain\<close>

lemma field_blind [simp]: "same_data e e' \<Longrightarrow> \<not> can_key k \<Longrightarrow> field e' k = field e k"
  by (simp add: field_def same_data_field)

lemma flag_set_blind [simp]: "same_data e e' \<Longrightarrow> \<not> can_key k \<Longrightarrow> flag_set e' k = flag_set e k"
  by (simp add: flag_set_def same_data_field)

lemma request_flag: "flag_set [k \<mapsto> v] r \<longleftrightarrow> r = k \<and> truthy_json v"
  by (simp add: flag_set_def)

lemma request_keys:
  "flag_set (m(k \<mapsto> v)) r \<longleftrightarrow> (if r = k then truthy_json v else flag_set m r)" "flag_set Map.empty r \<longleftrightarrow> False"
  by (auto simp: flag_set_def)

lemmas request_defs = site_area_request_def site_area_issuer_request_def profile_site_request_def profile_request_def
  station_request_def invoice_request_def transfer_request_def keeps_data_def removal_keys_def request_keys

lemma requests_blind [flag_simps]:
  "blind site_area_request" "blind site_area_issuer_request" "blind profile_site_request" "blind profile_request"
  "blind station_request" "blind invoice_request" "blind transfer_request"
  by (auto simp: blind_def request_defs can_key_def)

lemma requests_keep [flag_simps]:
  "keeps_data (site_area_request e)" "keeps_data (site_area_issuer_request e)" "keeps_data (profile_site_request e)"
  "keeps_data (profile_request e)" "keeps_data (station_request e)" "keeps_data (invoice_request e)"
  "keeps_data (transfer_request e)"
  by (auto simp: request_defs)

lemma guarded_plain [flag_simps]:
  "plain_step (guarded f g ent act rq) = (can_key f \<and> blind g \<and> blind rq \<and> (\<forall>e. keeps_data (rq e)))"
  "step_flag (guarded f g ent act rq) = f"
  by (auto simp: guarded_def flag_simps)

lemma guards_blind [flag_simps]:
  "blind (\<lambda>e. flag_set e ''dynamicAsset'')" "blind (\<lambda>e. flag_set e ''dynamicAsset'' \<and> flag_set e ''usesPushAPI'')"
  "blind (\<lambda>e. flag_set e ''dynamicAsset'' \<and> \<not> flag_set e ''usesPushAPI'')" "blind (\<lambda>e. \<not> flag_set e ''isDefault'')"
  by (auto simp: blind_def can_key_def)

definition entity_methods :: "auth_step list list" where
  "entity_methods =
    [addSiteAuthorizations, addUserAuthorizations, addTagAuthorizations, addEmaidAuthorizations,
     addCertificateAuthorizations, addCompanyAuthorizations, addChargingStationTemplateAuthorizations,
     addPricingDefinitionAuthorizations, addCarAuthorizations, addCarCatalogAuthorizations, addSiteAreaAuthorizations,
     addOCPIEndpointAuthorizations, addSettingAuthorizations, addAssetAuthorizations, addLogAuthorizations,
     addChargingProfileAuthorizations, addTaxAuthorizations, addInvoiceAuthorizations, addTransferAuthorizations,
     addPaymentMethodAuthorizations, addAccountAuthorizations, registration_token_steps, station_steps]"

lemmas method_defs = addSiteAuthorizations_def addUserAuthorizations_def addTagAuthorizations_def
  addEmaidAuthorizations_def addCertificateAuthorizations_def addCompanyAuthorizations_def
  addChargingStationTemplateAuthorizations_def addPricingDefinitionAuthorizations_def addCarAuthorizations_def
  addCarCatalogAuthorizations_def addSiteAreaAuthorizations_def addOCPIEndpointAuthorizations_def
  addSettingAuthorizations_def addAssetAuthorizations_def addLogAuthorizations_def addChargingProfileAuthorizations_def
  addTaxAuthorizations_def addInvoiceAuthorizations_def addTransferAuthorizations_def
  addPaymentMethodAuthorizations_def addAccountAuthorizations_def registration_token_steps_def station_steps_def

lemma methods_agree: "ss \<in> set entity_methods \<Longrightarrow> agreeing ss"
  by (auto simp: entity_methods_def agreeing_def method_defs flag_simps can_key_def removal_keys_def)

text \<open>
  C18: Whatever the authorization filter handed from check to check holds, and whatever flags were set before,
  an entity gets a flag exactly when its condition holds and the check of its action allows it on the entity as
  it was loaded; nothing but flags changes.
\<close>

theorem flags_are_permissions:
  assumes "ss \<in> set entity_methods" "add_flags E ss (af, e) = Inr (af', e')"
  shows "same_data e e' \<and> (\<forall>st \<in> set ss. flag_set e' (step_flag st) \<longleftrightarrow> step_value E e st)"
  using added_flags [OF methods_agree [OF assms(1)] assms(2)] by blast

section \<open>An entity that is handed out\<close>

text \<open>What is stored carries no flags: the flags of an entity are those of the response.\<close>

definition no_flags :: "fields \<Rightarrow> bool" where
  "no_flags e \<longleftrightarrow> (\<forall>k. can_key k \<longrightarrow> e k = None)"

definition stores_no_flags :: "fields getter \<Rightarrow> bool" where
  "stores_no_flags get \<longleftrightarrow> (\<forall>i m q p e. get i m q p = Some e \<longrightarrow> no_flags e)"

lemma assign_result_no_flags: "no_flags e \<Longrightarrow> no_flags (assign_result af e)"
  by (auto simp: no_flags_def assign_result_def assign_metadata_def assign_projection_def can_key_def split: option.split)

lemma action_key: "can_key (''can'' @ action_text a)"
  by (simp add: can_key_def)

lemma find_in: "List.find P xs = Some x \<Longrightarrow> x \<in> set xs \<and> P x"
  by (induction xs) (auto split: if_splits)

lemma enriched_flag:
  assumes "agreeing ss" "add_flags E ss (af, e) = Inr (af', e')" "no_flags e" "flag_set e' k" "can_key k"
  shows "\<exists>st \<in> set ss. step_flag st = k \<and> step_value E e st"
proof -
  from assms(2) obtain x where r: "run_steps E ss (af, e) = Inr (af', x)"
    and e': "e' = removeCanPropertiesWithFalseValue x"
    by (auto simp: add_flags_def map_sum_Inr_iff)
  from assms(1) have ss: "list_all plain_step ss" by (simp add: agreeing_def)
  from run_steps_flags [OF ss r] have x: "x k = (case List.find (\<lambda>st. step_flag st = k) (rev ss) of
      None \<Rightarrow> e k | Some st \<Rightarrow> Some (JBool (step_value E e st)))" by blast
  from assms(4) have fx: "flag_set x k" by (auto simp: e' removeCanPropertiesWithFalseValue_def flag_set_def split: if_splits)
  show ?thesis
  proof (cases "List.find (\<lambda>st. step_flag st = k) (rev ss)")
    case None
    with x fx assms(3,5) show ?thesis by (simp add: flag_set_def no_flags_def)
  next
    case (Some st)
    with find_in have "st \<in> set ss" "step_flag st = k" by force+
    moreover from x fx Some have "step_value E e st" by (simp add: flag_set_def)
    ultimately show ?thesis by blast
  qed
qed

text \<open>
  The way the services get hold of an entity, as an interface: \<open>access\<close> asks \<open>check\<close> for the identifier of the
  request, queries, adds the flags of \<open>steps\<close> and looks at the one of the action.
\<close>

locale entity_access =
  fixes access :: "auth_env \<Rightarrow> fields getter \<Rightarrow> json \<Rightarrow> action \<Rightarrow> fields option \<Rightarrow> fields \<Rightarrow> bool \<Rightarrow> fields res"
    and check :: "auth_env \<Rightarrow> fields \<Rightarrow> action \<Rightarrow> fields option \<Rightarrow> authorization_filter res"
    and steps :: "auth_step list"
    and label rest :: string
  assumes access: "access E get i act ed additional project =
      bindE (assertIdIsProvided i) (\<lambda>_.
      bindE (check E [''ID'' \<mapsto> i] act ed) (\<lambda>af.
      bindE (assertObjectExists (not_found E label i rest)
               (get i additional (Some (au_filters (af_state af))) (projection project af))) (\<lambda>e.
      with_flags (\<lambda>x. x) (add_flags E steps) act af (assign_result af e))))"
    and steps: "steps \<in> set entity_methods"
begin

lemma handed_out:
  assumes "access E get i act ed additional project = Inr x" "stores_no_flags get"
  shows "\<exists>af e. truthy_json i \<and> check E [''ID'' \<mapsto> i] act ed = Inr af
    \<and> get i additional (Some (au_filters (af_state af))) (projection project af) = Some e
    \<and> same_data (assign_result af e) x
    \<and> (\<exists>st \<in> set steps. step_flag st = ''can'' @ action_text act \<and> step_value E (assign_result af e) st)"
proof -
  from assms(1) obtain af e af' where i: "truthy_json i" and c: "check E [''ID'' \<mapsto> i] act ed = Inr af"
    and g: "get i additional (Some (au_filters (af_state af))) (projection project af) = Some e"
    and w: "add_flags E steps (af, assign_result af e) = Inr (af', x)" and f: "canPerformAction_flag x act"
    by (auto simp: access res_simps assertIdIsProvided_def assertObjectExists_def with_flags_def
        split: if_splits option.splits)
  from g assms(2) have "no_flags (assign_result af e)"
    by (auto simp: stores_no_flags_def intro: assign_result_no_flags)
  from enriched_flag [OF methods_agree [OF steps] w this _ action_key] f
    have "\<exists>st \<in> set steps. step_flag st = ''can'' @ action_text act \<and> step_value E (assign_result af e) st"
    by (simp add: canPerformAction_flag_def)
  with i c g added_flags(1) [OF methods_agree [OF steps] w] show ?thesis by blast
qed

end

lemmas access_defs = assertObjectExists_def with_flags_def

interpretation company: entity_access checkAndGetCompanyAuthorization checkAndGetCompanyAuthorizations
  addCompanyAuthorizations "''Company ID''" "'' does not exist''"
  by unfold_locales (simp_all add: checkAndGetCompanyAuthorization_def entity_methods_def)

interpretation user: entity_access checkAndGetUserAuthorization checkAndGetUserAuthorizations
  addUserAuthorizations "''User ID''" "'' does not exist''"
  by unfold_locales (simp_all add: checkAndGetUserAuthorization_def entity_methods_def)

interpretation site: entity_access checkAndGetSiteAuthorization checkAndGetSiteAuthorizations
  addSiteAuthorizations "''Site ID''" "'' does not exist''"
  by unfold_locales (simp_all add: checkAndGetSiteAuthorization_def entity_methods_def)

interpretation asset: entity_access checkAndGetAssetAuthorization checkAndGetAssetAuthorizations
  addAssetAuthorizations "''Asset ID''" "'' cannot be retrieved''"
  by unfold_locales (simp_all add: checkAndGetAssetAuthorization_def entity_methods_def)

interpretation site_area: entity_access checkAndGetSiteAreaAuthorization checkAndGetSiteAreaAuthorizations
  addSiteAreaAuthorizations "''Site Area ID''" "'' does not exist''"
  by unfold_locales (simp_all add: checkAndGetSiteAreaAuthorization_def entity_methods_def)

interpretation car: entity_access checkAndGetCarAuthorization checkAndGetCarAuthorizations
  addCarAuthorizations "''Car ID''" "'' does not exist''"
  by unfold_locales (simp_all add: checkAndGetCarAuthorization_def entity_methods_def)

interpretation car_catalog: entity_access checkAndGetCarCatalogAuthorization checkAndGetCarCatalogAuthorizations
  addCarCatalogAuthorizations "''Car Catalog ID''" "'' does not exist''"
  by unfold_locales (simp_all add: checkAndGetCarCatalogAuthorization_def entity_methods_def)

interpretation tag: entity_access checkAndGetTagAuthorization checkAndGetTagAuthorizations
  addTagAuthorizations "''Tag ID''" "'' does not exist''"
  by unfold_locales (simp_all add: checkAndGetTagAuthorization_def checkAndGetTagByXXXAuthorization_def entity_methods_def)

interpretation emaid: entity_access checkAndGetEmaidAuthorization checkAndGetEmaidAuthorizations
  addEmaidAuthorizations "''Emaid ID''" "'' does not exist''"
  by unfold_locales (simp_all add: checkAndGetEmaidAuthorization_def checkAndGetEmaidByXXXAuthorization_def entity_methods_def)

interpretation certificate: entity_access checkAndGetCertificateAuthorization checkAndGetCertificateAuthorizations
  addCertificateAuthorizations "''Certificate ID''" "'' does not exist''"
  by unfold_locales
    (simp_all add: checkAndGetCertificateAuthorization_def checkAndGetCertificateByXXXAuthorization_def entity_methods_def)

definition entity_services where
  "entity_services =
    [(checkAndGetCompanyAuthorization, checkAndGetCompanyAuthorizations, addCompanyAuthorizations),
     (checkAndGetUserAuthorization, checkAndGetUserAuthorizations, addUserAuthorizations),
     (checkAndGetSiteAuthorization, checkAndGetSiteAuthorizations, addSiteAuthorizations),
     (checkAndGetAssetAuthorization, checkAndGetAssetAuthorizations, addAssetAuthorizations),
     (checkAndGetSiteAreaAuthorization, checkAndGetSiteAreaAuthorizations, addSiteAreaAuthorizations),
     (checkAndGetCarAuthorization, checkAndGetCarAuthorizations, addCarAuthorizations),
     (checkAndGetCarCatalogAuthorization, checkAndGetCarCatalogAuthorizations, addCarCatalogAuthorizations),
     (checkAndGetTagAuthorization, checkAndGetTagAuthorizations, addTagAuthorizations),
     (checkAndGetEmaidAuthorization, checkAndGetEmaidAuthorizations, addEmaidAuthorizations),
     (checkAndGetCertificateAuthorization, checkAndGetCertificateAuthorizations, addCertificateAuthorizations)]"

text \<open>
  C19: A service hands out an entity only if the identifier was given and the action is authorized for it, the
  entity is what the query with the filters of that check found, changed in nothing but its projection, its
  metadata and its flags, and the step that sets the flag of the action allowed it on the entity that was found.
\<close>

theorem entities_are_handed_out_when_authorized:
  assumes "(access, check, steps) \<in> set entity_services" "stores_no_flags get"
    "access E get i act ed additional project = Inr x"
  shows "\<exists>af e. truthy_json i \<and> check E [''ID'' \<mapsto> i] act ed = Inr af
    \<and> get i additional (Some (au_filters (af_state af))) (projection project af) = Some e
    \<and> same_data (assign_result af e) x
    \<and> (\<exists>st \<in> set steps. step_flag st = ''can'' @ action_text act \<and> step_value E (assign_result af e) st)"
  using assms(1) company.handed_out [OF _ assms(2)] user.handed_out [OF _ assms(2)] site.handed_out [OF _ assms(2)]
    asset.handed_out [OF _ assms(2)] site_area.handed_out [OF _ assms(2)] car.handed_out [OF _ assms(2)]
    car_catalog.handed_out [OF _ assms(2)] tag.handed_out [OF _ assms(2)] emaid.handed_out [OF _ assms(2)]
    certificate.handed_out [OF _ assms(2)] assms(3)
  unfolding entity_services_def by auto

section \<open>Site areas\<close>

text \<open>Site owners and QR code users may update a site area, but not delete it.\<close>

definition keeps_areas :: "grant \<Rightarrow> bool" where
  "keeps_areas g \<longleftrightarrow> \<not> grants_action E_SITE_AREA A_DELETE g"

lemma area_code:
  "keeps_areas \<lparr>g_resource = e, g_action = as, g_attributes = fs, g_condition = c\<rparr> =
     (e \<noteq> E_SITE_AREA \<or> A_DELETE \<notin> set as)"
  by (auto simp: keeps_areas_def grants_action_def)

lemma basic_keeps_areas:
  "list_all keeps_areas basic_grants_1"
  "list_all keeps_areas basic_grants_2"
  "list_all keeps_areas basic_grants_3"
  "list_all keeps_areas basic_grants_4"
  "list_all keeps_areas basic_grants_5"
  "list_all keeps_areas basic_grants_6"
  by (simp_all add: basic_grants_1_def basic_grants_2_def basic_grants_3_def basic_grants_4_def basic_grants_5_def basic_grants_6_def area_code)

lemma siteOwner_keeps_areas:
  "list_all keeps_areas siteOwner_grants_1"
  "list_all keeps_areas siteOwner_grants_2"
  "list_all keeps_areas siteOwner_grants_3"
  by (simp_all add: siteOwner_grants_1_def siteOwner_grants_2_def siteOwner_grants_3_def area_code)

lemma qrcode_keeps_areas:
  "list_all keeps_areas qrcode_grants_1"
  "list_all keeps_areas qrcode_grants_2"
  "list_all keeps_areas qrcode_grants_3"
  "list_all keeps_areas qrcode_grants_4"
  "list_all keeps_areas qrcode_grants_5"
  "list_all keeps_areas qrcode_grants_6"
  by (simp_all add: qrcode_grants_1_def qrcode_grants_2_def qrcode_grants_3_def qrcode_grants_4_def qrcode_grants_5_def qrcode_grants_6_def area_code)

lemma area_own_grants:
  "list_all keeps_areas (own_grants ''basic'')" "list_all keeps_areas (own_grants ''siteOwner'')"
  "list_all keeps_areas (own_grants ''qrcode'')"
  by (simp_all add: own_grants_cases role_defs basic_keeps_areas siteOwner_keeps_areas qrcode_keeps_areas)

lemma area_roles_keep:
  assumes "r = ''siteOwner'' \<or> r = ''qrcode''" "g \<in> set (role_grants r)"
  shows "keeps_areas g"
proof -
  have "list_all keeps_areas (role_grants r)"
    using assms(1) area_own_grants by (auto simp: role_grants_cases)
  with assms(2) show ?thesis by (simp add: list_all_iff)
qed

lemma area_updates_granted:
  "list_ex (grants_action E_SITE_AREA A_UPDATE) siteOwner_grants_3"
  "list_ex (grants_action E_SITE_AREA A_UPDATE) qrcode_grants_2"
  by (simp_all add: siteOwner_grants_3_def qrcode_grants_2_def grants_action_def)

lemma area_roles_update:
  assumes "r = ''siteOwner'' \<or> r = ''qrcode''"
  shows "\<exists>g \<in> set (role_grants r). grants_action E_SITE_AREA A_UPDATE g"
proof -
  have "list_ex (grants_action E_SITE_AREA A_UPDATE) (own_grants r)"
    using assms area_updates_granted by (elim disjE) (simp_all add: own_grants_cases role_defs)
  then show ?thesis by (auto simp: role_grants_cases list_ex_iff)
qed

text \<open>
  The flag of an update is computed from the permission to delete: site owners and QR code users, who may
  update site areas but not delete them, never get hold of a site area to update it.
\<close>

lemma granted_site_area_updates_are_refused:
  assumes "honours_definition (ae_control E)" "ae_roles E = [r]" "r = ''siteOwner'' \<or> r = ''qrcode''"
    "stores_no_flags get"
  shows "ac_matching (ae_control E) (ae_roles E) E_SITE_AREA A_UPDATE \<noteq> []
    \<and> checkAndGetSiteAreaAuthorization E get i A_UPDATE ed additional project \<noteq> Inr x"
proof
  from area_roles_update [OF assms(3)] assms(1,2)
  have "set (ac_matching (ae_control E) (ae_roles E) E_SITE_AREA A_UPDATE) \<noteq> {}" by (auto simp: honours_definition_def)
  then show "ac_matching (ae_control E) (ae_roles E) E_SITE_AREA A_UPDATE \<noteq> []" by simp
  have "set (ac_matching (ae_control E) (ae_roles E) E_SITE_AREA A_DELETE) = {}"
    using assms(1,2) area_roles_keep [OF assms(3)] by (auto simp: honours_definition_def keeps_areas_def)
  then have none: "ac_matching (ae_control E) (ae_roles E) E_SITE_AREA A_DELETE = []" by simp
  show "checkAndGetSiteAreaAuthorization E get i A_UPDATE ed additional project \<noteq> Inr x"
  proof
    assume "checkAndGetSiteAreaAuthorization E get i A_UPDATE ed additional project = Inr x"
    from site_area.handed_out [OF this assms(4)] none show False
      by (auto simp: addSiteAreaAuthorizations_def permitted_def flag_def can_read_def)
  qed
qed

end
