(* ===== verification/EntitySamples.thy ===== *)
theory EntitySamples
  imports EntityGuards
begin

text \<open>
  Concrete requests on which the properties of \<open>EntityGuards\<close> are applied: a role that may do anything but
  delete, on a site and a car catalog, and a QR code user with the table of grants as it is.
\<close>

definition keeper_control :: access_control where
  "keeper_control =
     \<lparr>ac_matching = (\<lambda>_ e a. if a = A_DELETE then []
        else [\<lparr>g_resource = e, g_action = [a], g_attributes = None, g_condition = None\<rparr>]),
      ac_attributes = (\<lambda>_. [''*''])\<rparr>"

definition sample_env :: "access_control \<Rightarrow> string list \<Rightarrow> auth_env" where
  "sample_env M roles = \<lparr>ae_control = M, ae_storage = site_admin_storage, ae_user = ''u1'', ae_roles = roles,
     ae_tokenUser = JNull, ae_tenant = ''t'', ae_borneVIP = False, ae_jsonUrl = ''wss://x'', ae_wsdlUrl = ''https://x'',
     ae_text = (\<lambda>_. ''x'')\<rparr>"

definition sample_getter :: "fields getter" where
  "sample_getter i additional q p = Some [''id'' \<mapsto> i, ''issuer'' \<mapsto> JBool True]"

lemma sample_stores_no_flags: "stores_no_flags sample_getter"
  by (auto simp: stores_no_flags_def sample_getter_def no_flags_def can_key_def)

lemma keeper_performs:
  "map_sum id (\<lambda>(b, af', ed'). (b, ed')) (can_perform (sample_env keeper_control roles) ent act rq (af, ed)) =
     Inr (act \<noteq> A_DELETE, ed)"
  by (cases ed) (simp_all add: can_perform_def canPerformAuthorizationAction_def sample_env_def keeper_control_def
      permission_def evaluate_condition_def empty_context_def processDynamicAsserts_def Let_def)

lemma keeper_runs:
  "\<exists>af'. can_perform (sample_env keeper_control roles) ent act rq (af, ed) = Inr (act \<noteq> A_DELETE, af', ed)"
  using keeper_performs [of roles ent act rq af ed] by (auto simp: map_sum_Inr_iff)

lemma keeper_step: "\<exists>p'. run_step (sample_env keeper_control roles) p st = Inr p'"
proof (cases st)
  case (Check f g ent act rq d h)
  obtain af' where "can_perform (sample_env keeper_control roles) ent act (rq (snd p)) (fst p, if d then Some (snd p) else None)
      = Inr (act \<noteq> A_DELETE, af', if d then Some (snd p) else None)"
    using keeper_runs by blast
  with Check show ?thesis by (simp add: Let_def)
next
  case (Sensible ent act rq)
  obtain af' where "can_perform (sample_env keeper_control roles) ent act (rq (snd p)) (fst p, Some (snd p))
      = Inr (act \<noteq> A_DELETE, af', Some (snd p))"
    using keeper_runs by blast
  with Sensible show ?thesis by simp
qed simp

lemma keeper_enriches: "\<exists>af' e'. add_flags (sample_env keeper_control roles) ss (af, e) = Inr (af', e')"
proof -
  have "\<exists>p'. run_steps (sample_env keeper_control roles) ss p = Inr p'" for p
    unfolding run_steps_def
  proof (induction ss arbitrary: p)
    case (Cons st ss)
    with keeper_step [of roles p st] show ?case by auto
  qed simp
  from this [of "(af, e)"] show ?thesis by (auto simp: add_flags_def)
qed

text \<open>The car catalog can be updated, and not deleted.\<close>

lemma flags_are_permissions_witness:
  "\<exists>af' e'. add_flags (sample_env keeper_control []) addCarCatalogAuthorizations (no_authorization, [''id'' \<mapsto> JStr ''c''])
      = Inr (af', e') \<and> flag_set e' ''canUpdate'' \<and> \<not> flag_set e' ''canDelete''"
proof -
  let ?E = "sample_env keeper_control []" and ?e = "[''id'' \<mapsto> JStr ''c'']"
  obtain af' e' where r: "add_flags ?E addCarCatalogAuthorizations (no_authorization, ?e) = Inr (af', e')"
    using keeper_enriches by blast
  have m: "addCarCatalogAuthorizations \<in> set entity_methods" by (simp add: entity_methods_def)
  have "permitted ?E E_CAR_CATALOG A_UPDATE rq ed" "\<not> permitted ?E E_CAR_CATALOG A_DELETE rq ed" for rq ed
    by (auto simp: permitted_def sample_env_def keeper_control_def filters_allow_def asserts_allow_def granted_filters_def
        granted_asserts_def split: option.split)
  with flags_are_permissions [OF m r] r show ?thesis by (auto simp: addCarCatalogAuthorizations_def flag_plain)
qed

lemma keeper_catalog_access:
  "\<exists>x. checkAndGetCarCatalogAuthorization (sample_env keeper_control []) sample_getter (JNum 7) A_READ None Map.empty False = Inr x"
proof -
  let ?E = "sample_env keeper_control []"
  obtain af where c: "checkAndGetCarCatalogAuthorizations ?E [''ID'' \<mapsto> JNum 7] A_READ None = Inr af"
    by (simp add: checkAndGetCarCatalogAuthorizations_def check_entity_def checkAndGetEntityAuthorizations_def sample_env_def
        keeper_control_def permission_def evaluate_condition_def empty_context_def processDynamicAsserts_def Let_def)
  let ?e = "assign_result af [''id'' \<mapsto> JNum 7, ''issuer'' \<mapsto> JBool True]"
  obtain af' e' where r: "add_flags ?E addCarCatalogAuthorizations (af, ?e) = Inr (af', e')" using keeper_enriches by blast
  have "flag_set e' ''canRead''"
    using added_flags(2) [OF methods_agree r, of can_read]
    by (simp add: entity_methods_def addCarCatalogAuthorizations_def flag_plain)
  with c r show ?thesis
    by (simp add: checkAndGetCarCatalogAuthorization_def assertIdIsProvided_def assertObjectExists_def sample_getter_def
        with_flags_def canPerformAction_flag_def)
qed

lemma entities_are_handed_out_when_authorized_witness:
  "\<exists>x af e. checkAndGetCarCatalogAuthorization (sample_env keeper_control []) sample_getter (JNum 7) A_READ None Map.empty False
      = Inr x \<and> sample_getter (JNum 7) Map.empty (Some (au_filters (af_state af))) None = Some e \<and> same_data (assign_result af e) x"
proof -
  obtain x where x: "checkAndGetCarCatalogAuthorization (sample_env keeper_control []) sample_getter (JNum 7) A_READ None
      Map.empty False = Inr x" using keeper_catalog_access by blast
  have s: "(checkAndGetCarCatalogAuthorization, checkAndGetCarCatalogAuthorizations, addCarCatalogAuthorizations)
      \<in> set entity_services" by (simp add: entity_services_def)
  from entities_are_handed_out_when_authorized [OF s sample_stores_no_flags x] x show ?thesis
    by (auto simp: projection_def)
qed

end
