(* ===== verification/OptimizerCars.thy ===== *)
theory OptimizerCars
  imports MeterRequests LockRequests
begin

text \<open>
  The cars the optimizer plans for (\<open>integration/smart-charging/sap-smart-charging/SapSmartChargingIntegration.ts\<close>):
  a safe car, what is known of the driver's car, what the session has shown so far, and the limit of the profile
  the car is charging with.  A number that may come out as \<open>NaN\<close> or infinite is an option, \<open>None\<close> what the
  request then carries, \<open>null\<close>.
\<close>

section \<open>Data\<close>

record car_converter =
  amperagePerPhase :: "rat option"

record car =
  converter :: "car_converter option"

record car_catalog =
  fastChargePowerMax :: "rat option"
  batteryCapacityFull :: "rat option"

text \<open>A session read from the database with its car.\<close>

record car_transaction = tx_transaction +
  tx_car :: "car option"
  tx_carCatalog :: "car_catalog option"

record sap_smart_charging_setting =
  stickyLimitation :: bool
  limitBufferDC :: "rat option"
  limitBufferAC :: "rat option"

record optimizer_car =
  oc_id :: nat
  oc_name :: string
  canLoadPhase1 :: nat
  canLoadPhase2 :: nat
  canLoadPhase3 :: nat
  timestampArrival :: nat
  maxCapacity :: rat
  minLoadingState :: rat
  startCapacity :: "rat option"
  minCurrent :: rat
  minCurrentPerPhase :: rat
  maxCurrent :: "rat option"
  maxCurrentPerPhase :: "rat option"
  suspendable :: bool
  immediateStart :: bool
  canUseVariablePower :: bool

record charging_schedule_period =
  startPeriod :: int
  limit :: rat

record charging_schedule =
  duration :: int
  startSchedule :: "int option"
  chargingSchedulePeriod :: "charging_schedule_period list"

record profile =
  chargingProfileId :: "int option"
  transactionId :: "int option"
  stackLevel :: nat
  chargingSchedule :: charging_schedule

record charging_profile =
  pr_chargingStationID :: string
  pr_chargePointID :: int
  pr_connectorID :: "int option"
  pr_profile :: profile

record optimizer_env =
  oe_runtime :: runtime
  oe_now :: int
  oe_secondsOfHour :: int
  oe_assetActive :: bool
  oe_setting :: sap_smart_charging_setting
  oe_profiles :: "charging_profile list"
  oe_transactions :: "car_transaction list"

definition MIN_LIMIT_PER_PHASE :: rat where
  "MIN_LIMIT_PER_PHASE = 6"

definition DC_CHARGING_STATION_DEFAULT_EFFICIENCY_PERCENT :: rat where
  "DC_CHARGING_STATION_DEFAULT_EFFICIENCY_PERCENT = 80"

section \<open>The name of a car\<close>

definition int_text :: "int \<Rightarrow> string" where
  "int_text i = (if i < 0 then CHR ''-'' # decimal_text (nat (- i)) else decimal_text (nat i))"

definition car_name :: "tx_transaction \<Rightarrow> string" where
  "car_name tx = tx_chargeBoxID tx @ ''~'' @ int_text (tx_connectorId tx)"

section \<open>The limit a session is charging with\<close>

text \<open>The difference of two moments in minutes, cut towards zero; a missing date is the current time.\<close>

definition diff_minutes :: "int \<Rightarrow> int option \<Rightarrow> rat" where
  "diff_minutes now t = rtrunc (of_int (now - (case t of None \<Rightarrow> now | Some x \<Rightarrow> x)) / 60000)"

definition getCurrentSapSmartChargingProfileLimit :: "optimizer_env \<Rightarrow> charging_profile \<Rightarrow> rat option" where
  "getCurrentSapSmartChargingProfileLimit E p =
     (let schedule = chargingSchedule (pr_profile p);
          periods = chargingSchedulePeriod schedule;
          currentSlot = \<lfloor>fl (oe_runtime E) Divide (diff_minutes (oe_now E) (startSchedule schedule)) 15\<rfloor>
      in if currentSlot < int (length periods)
         then (if currentSlot < 0 then None else Some (limit (periods ! nat currentSlot)))
         else Some (-1))"

text \<open>
  The threshold a car has to exceed to be taken for one that wants more: what it used when the profile was made,
  plus a fifth of the buffer.
\<close>

definition increase_threshold :: "runtime \<Rightarrow> rat option \<Rightarrow> rat \<Rightarrow> rat option" where
  "increase_threshold R buffer l =
     map_option (\<lambda>b.
       let threshold = fl R Divide l (fl R Plus 1 (fl R Divide b 100))
       in fl R Plus threshold (fl R Times (fl R Minus l threshold) (2 / 10))) buffer"

text \<open>A quotient that is infinite or no number when the divisor is zero, compared with a number.\<close>

fun below_quotient :: "runtime \<Rightarrow> rat option \<Rightarrow> rat option \<Rightarrow> int \<Rightarrow> bool" where
  "below_quotient R (Some x) (Some y) n = (if n = 0 then 0 < y else x < fl R Divide y (of_int n))"
| "below_quotient R x y n = False"

definition checkIfCarIsIncreasingConsumption ::
    "optimizer_env \<Rightarrow> charging_station \<Rightarrow> tx_transaction \<Rightarrow> current_type \<Rightarrow> int \<Rightarrow> bool" where
  "checkIfCarIsIncreasingConsumption E cs tx currentType numberOfPhasesInProgress =
     (let R = oe_runtime E in
      case filter (\<lambda>p. transactionId (pr_profile p) = Some (tx_id tx) \<and> pr_chargingStationID p = tx_chargeBoxID tx
                       \<and> pr_connectorID p = Some (tx_connectorId tx)) (oe_profiles E) of
        [p] \<Rightarrow>
          (case getCurrentSapSmartChargingProfileLimit E p of
             None \<Rightarrow> False
           | Some currentLimit \<Rightarrow>
               if currentLimit < 1 then True
               else if currentType = AC then
                 (let currentLimitPerPhase =
                        fl R Divide currentLimit (of_nat (getNumberOfConnectedPhases cs None (tx_connectorId tx)))
                  in below_quotient R (increase_threshold R (limitBufferAC (oe_setting E)) currentLimitPerPhase)
                       (currentInstantAmps tx) numberOfPhasesInProgress)
               else
                 (case (increase_threshold R (limitBufferDC (oe_setting E)) currentLimit, currentInstantWattsDC tx) of
                    (Some threshold, Some watts) \<Rightarrow> threshold < convertWattToAmp R cs None (tx_connectorId tx) watts
                  | _ \<Rightarrow> False))
      | _ \<Rightarrow> False)"

section \<open>Cars\<close>

definition buildSafeCar :: "optimizer_env \<Rightarrow> nat \<Rightarrow> charging_station \<Rightarrow> tx_transaction \<Rightarrow> optimizer_car" where
  "buildSafeCar E fuseID cs tx =
     (let R = oe_runtime E;
          voltage = getChargingStationVoltage cs None 0;
          maxConnectorAmpsPerPhase = getChargingStationAmperagePerPhase R cs None (tx_connectorId tx);
          capacity = fl R Divide (fl R Times 100 1000) voltage
      in \<lparr>oc_id = fuseID, oc_name = car_name tx, canLoadPhase1 = 1, canLoadPhase2 = 1, canLoadPhase3 = 1,
          timestampArrival = 0, maxCapacity = capacity, minLoadingState = fl R Times capacity (1 / 2),
          startCapacity = map_option (\<lambda>x. fl R Divide x voltage) (currentTotalConsumptionWh tx),
          minCurrent = MIN_LIMIT_PER_PHASE * 3, minCurrentPerPhase = MIN_LIMIT_PER_PHASE,
          maxCurrent = Some (fl R Times maxConnectorAmpsPerPhase 3),
          maxCurrentPerPhase = Some maxConnectorAmpsPerPhase,
          suspendable = True, immediateStart = False, canUseVariablePower = True\<rparr>)"

definition scaled :: "runtime \<Rightarrow> rat option \<Rightarrow> rat \<Rightarrow> rat option" where
  "scaled R v n = map_option (\<lambda>x. fl R Times x n) v"

text \<open>The buffer in a limit: \<open>1 + buffer / 100\<close>, without a buffer 1.\<close>

definition buffer_factor :: "runtime \<Rightarrow> rat option \<Rightarrow> rat" where
  "buffer_factor R buffer = fl R Plus 1 (fl R Divide (num0 buffer) 100)"

definition sticky_limit_ac :: "optimizer_env \<Rightarrow> tx_transaction \<Rightarrow> int \<Rightarrow> optimizer_car \<Rightarrow> rat option" where
  "sticky_limit_ac E tx phases car =
     (let R = oe_runtime E in
      if gt (currentInstantAmps tx) 0 then
        (if phases = 0 then None
         else Some (roundTo R (fl R Times (fl R Divide (the (currentInstantAmps tx)) (of_int phases))
                      (buffer_factor R (limitBufferAC (oe_setting E)))) 3))
      else Some (minCurrentPerPhase car))"

definition overrideCarWithRuntimeData ::
    "optimizer_env \<Rightarrow> charging_station \<Rightarrow> tx_transaction \<Rightarrow> optimizer_car \<Rightarrow> optimizer_car" where
  "overrideCarWithRuntimeData E cs tx car =
     (let R = oe_runtime E; setting = oe_setting E in
      case tx_phasesUsed tx of
        Some used \<Rightarrow>
          (let phases = getNumberOfUsedPhasesInTransactionInProgress cs tx in
           if phases \<noteq> -1 then
             (let amps_limit = (if stickyLimitation setting \<and> \<not> checkIfCarIsIncreasingConsumption E cs tx AC phases
                            then sticky_limit_ac E tx phases car else maxCurrentPerPhase car)
              in car\<lparr>canLoadPhase1 := (if csPhase1 used then 1 else 0), canLoadPhase2 := (if csPhase2 used then 1 else 0),
                     canLoadPhase3 := (if csPhase3 used then 1 else 0),
                     minCurrent := fl R Times (minCurrentPerPhase car) (of_int phases),
                     maxCurrentPerPhase := amps_limit, maxCurrent := scaled R amps_limit (of_int phases)\<rparr>)
           else car)
      | None \<Rightarrow>
          if getChargingStationCurrentType cs None (tx_connectorId tx) = Some DC
             \<and> gt (currentInstantWattsDC tx) 0 \<and> stickyLimitation setting
             \<and> \<not> checkIfCarIsIncreasingConsumption E cs tx DC 0 then
            (let amps = convertWattToAmp R cs None (tx_connectorId tx) (the (currentInstantWattsDC tx));
                 amps_limit = roundTo R (fl R Times (fl R Divide amps 3) (buffer_factor R (limitBufferDC setting))) 3
             in car\<lparr>maxCurrentPerPhase := Some amps_limit, maxCurrent := Some (fl R Times amps_limit 3)\<rparr>)
          else car)"

text \<open>What the driver's car can take.\<close>

definition provided_car :: "optimizer_env \<Rightarrow> charging_station \<Rightarrow> car_transaction \<Rightarrow> optimizer_car \<Rightarrow> optimizer_car" where
  "provided_car E cs ct car =
     (let R = oe_runtime E; voltage = getChargingStationVoltage cs None 0;
          currentType = getChargingStationCurrentType cs None (tx_connectorId ct);
          catalog = (\<lambda>f. case tx_carCatalog ct of None \<Rightarrow> None | Some c \<Rightarrow> f c) in
      case tx_car ct of None \<Rightarrow> car
      | Some c \<Rightarrow>
          (let perPhase = (case converter c of None \<Rightarrow> None | Some v \<Rightarrow> amperagePerPhase v);
               car1 =
                 (if currentType = Some AC \<and> getNumberOfConnectedPhases cs None (tx_connectorId ct) = 3 then
                    (if gt perPhase 0 then
                       car\<lparr>maxCurrentPerPhase := perPhase, maxCurrent := scaled R perPhase 3\<rparr> else car)
                  else if currentType = Some DC then
                    (if gt (catalog fastChargePowerMax) 0 then
                       (let maxDCCurrent = convertWattToAmp R cs None (tx_connectorId ct)
                              (fl R Times (the (catalog fastChargePowerMax)) 1000);
                            amps = roundTo R (fl R Divide maxDCCurrent 3) 3
                        in car\<lparr>maxCurrentPerPhase := Some amps, maxCurrent := Some (fl R Times amps 3)\<rparr>)
                     else car)
                  else car)
           in if gt (catalog batteryCapacityFull) 0 then
                (let capacity = fl R Divide (fl R Times (the (catalog batteryCapacityFull)) 1000) voltage
                 in car1\<lparr>maxCapacity := capacity, minLoadingState := fl R Times capacity (1 / 2)\<rparr>)
              else car1))"

text \<open>Amperes at the grid of a station with losses: an amperage divided by the efficiency in per cent.\<close>

definition at_the_grid :: "runtime \<Rightarrow> charge_point option \<Rightarrow> rat \<Rightarrow> rat" where
  "at_the_grid R cp amps =
     (let efficiency = (case cp of None \<Rightarrow> None | Some p \<Rightarrow> cp_efficiency p)
      in num R (d_mul R (d_div R amps
           (if gt efficiency 0 then the efficiency else DC_CHARGING_STATION_DEFAULT_EFFICIENCY_PERCENT)) 100))"

definition connector_charge_point :: "charging_station \<Rightarrow> connector option \<Rightarrow> charge_point option" where
  "connector_charge_point cs cn =
     (case cn of None \<Rightarrow> None
      | Some c \<Rightarrow> (case cn_chargePointID c of None \<Rightarrow> None | Some i \<Rightarrow> getChargePointFromID cs i))"

definition buildCar :: "optimizer_env \<Rightarrow> nat \<Rightarrow> charging_station \<Rightarrow> car_transaction \<Rightarrow> optimizer_car" where
  "buildCar E fuseID cs ct =
     (let R = oe_runtime E; tx = tx_transaction.truncate ct;
          car = overrideCarWithRuntimeData E cs tx (provided_car E cs ct (buildSafeCar E fuseID cs tx))
      in if getChargingStationCurrentType cs None (tx_connectorId ct) = Some DC then
           (let cp = connector_charge_point cs (getConnectorFromID cs (tx_connectorId ct));
                amps = map_option (at_the_grid R cp) (maxCurrentPerPhase car)
            in car\<lparr>maxCurrentPerPhase := amps, maxCurrent := scaled R amps 3\<rparr>)
         else car)"

end
