(* ===== verification/SiteAreaTree.thy ===== *)
theory SiteAreaTree
  imports SessionTypes "HOL-Library.Multiset"
begin

text \<open>
  The tree of the site areas of a site (\<open>utils/Utils.ts\<close>): built from the flat list the database returns, with
  the searches in it.  The lemmas show when a list is a forest, and that the tree then holds every site area
  exactly once, under its parent.
\<close>

section \<open>Site areas\<close>

text \<open>
  The arrays of the charging stations and of the assets of a site area are in the state of the components that
  work on them: the copies of a site area share them.
\<close>

record smart_area = site_area +
  sa_name :: string
  sa_siteID :: string
  sa_numberOfPhases :: nat
  sa_parentSiteAreaID :: "string option"

datatype area_tree = Area (area_of: smart_area) (childSiteAreas: "area_tree list")

section \<open>Building the tree\<close>

text \<open>
  The hash table holds the last site area of an identifier.  What the second loop pushes into the children of an
  entry are the entries of the site areas that name it as their parent, in the order of the list.
\<close>

definition siteAreaHashTable :: "smart_area list \<Rightarrow> string \<Rightarrow> smart_area option" where
  "siteAreaHashTable all = foldl (\<lambda>t a. t(sa_id a \<mapsto> a)) Map.empty all"

definition children_of :: "smart_area list \<Rightarrow> smart_area \<Rightarrow> smart_area list" where
  "children_of all a =
     List.map_filter (\<lambda>c. siteAreaHashTable all (sa_id c))
       (filter (\<lambda>c. sa_parentSiteAreaID c = Some (sa_id a)) all)"

text \<open>
  The objects refer to each other; following the references from a root unfolds the tree.  A path longer than the
  list meets an entry twice and has no end: counting the children then exhausts the stack.
\<close>

fun area_node :: "smart_area list \<Rightarrow> nat \<Rightarrow> smart_area \<Rightarrow> area_tree option" where
  "area_node all 0 a = None"
| "area_node all (Suc n) a = map_option (Area a) (those (map (area_node all n) (children_of all a)))"

fun numberOfChildrenOfSiteAreaTree :: "area_tree \<Rightarrow> nat" where
  "numberOfChildrenOfSiteAreaTree (Area a ts) =
     sum_list (map (\<lambda>t. 1 + numberOfChildrenOfSiteAreaTree t) ts)"

definition buildSiteAreasTree :: "smart_area list \<Rightarrow> area_tree list res" where
  "buildSiteAreasTree all =
     (if all = [] then Inr []
      else if list_ex (\<lambda>a. case sa_parentSiteAreaID a of None \<Rightarrow> False
                           | Some p \<Rightarrow> siteAreaHashTable all p = None) all
      then Inl (BackendError ''Cannot find parent Site Area'')
      else
        (let roots = List.map_filter (\<lambda>a. siteAreaHashTable all (sa_id a))
                       (filter (\<lambda>a. sa_parentSiteAreaID a = None) all)
         in case those (map (area_node all (Suc (length all))) roots) of
              None \<Rightarrow> Inl (PlainError ''Maximum call stack size exceeded'')
            | Some trees \<Rightarrow>
                if sum_list (map (\<lambda>t. 1 + numberOfChildrenOfSiteAreaTree t) trees) \<noteq> length all
                then Inl (BackendError ''Circular dependency found in Site Area tree'')
                else Inr trees))"

section \<open>Searching the tree\<close>

fun getSiteAreaFromSiteAreasTree :: "string \<Rightarrow> area_tree list \<Rightarrow> area_tree option" where
  "getSiteAreaFromSiteAreasTree i [] = None"
| "getSiteAreaFromSiteAreasTree i (Area a ts # rest) =
     (if sa_id a = i then Some (Area a ts)
      else case getSiteAreaFromSiteAreasTree i ts of
             Some t \<Rightarrow> Some t
           | None \<Rightarrow> getSiteAreaFromSiteAreasTree i rest)"

fun getRootSiteAreaFromSiteAreasTree :: "string \<Rightarrow> area_tree list \<Rightarrow> area_tree option" where
  "getRootSiteAreaFromSiteAreasTree i [] = None"
| "getRootSiteAreaFromSiteAreasTree i (Area a ts # rest) =
     (if sa_id a = i then Some (Area a ts)
      else if getSiteAreaFromSiteAreasTree i ts \<noteq> None then Some (Area a ts)
      else getRootSiteAreaFromSiteAreasTree i rest)"

fun getSiteAreaIDsFromSiteAreasTree :: "area_tree \<Rightarrow> string list" where
  "getSiteAreaIDsFromSiteAreasTree (Area a ts) = sa_id a # concat (map getSiteAreaIDsFromSiteAreasTree ts)"

section \<open>The site areas of a tree\<close>

fun areas :: "area_tree \<Rightarrow> smart_area list" where
  "areas (Area a ts) = a # concat (map areas ts)"

fun under_parent :: "area_tree \<Rightarrow> bool" where
  "under_parent (Area a ts) \<longleftrightarrow>
     list_all (\<lambda>t. sa_parentSiteAreaID (area_of t) = Some (sa_id a) \<and> under_parent t) ts"

lemma size_areas: "1 + numberOfChildrenOfSiteAreaTree t = length (areas t)"
proof (induction t)
  case (Area a ts)
  then have "map (\<lambda>t. 1 + numberOfChildrenOfSiteAreaTree t) ts = map (\<lambda>t. length (areas t)) ts"
    by simp
  then show ?case
    by (simp only: numberOfChildrenOfSiteAreaTree.simps areas.simps length_Cons length_concat map_map o_def)
qed

lemma ids_of_areas: "getSiteAreaIDsFromSiteAreasTree t = map sa_id (areas t)"
  by (induction t) (simp add: map_concat o_def cong: map_cong)

lemma search_finds:
  "getSiteAreaFromSiteAreasTree i ts = None \<longleftrightarrow> (\<forall>t \<in> set ts. \<forall>x \<in> set (areas t). sa_id x \<noteq> i)"
proof (induction i ts rule: getSiteAreaFromSiteAreasTree.induct)
  case (2 i a ts rest)
  then show ?case by (cases "sa_id a = i"; cases "getSiteAreaFromSiteAreasTree i ts") auto
qed simp

lemma root_search_finds:
  "getRootSiteAreaFromSiteAreasTree i ts = Some t \<Longrightarrow> t \<in> set ts \<and> (\<exists>x \<in> set (areas t). sa_id x = i)"
proof (induction i ts rule: getRootSiteAreaFromSiteAreasTree.induct)
  case (2 i a ts rest)
  then show ?case using search_finds [of i ts] by (auto split: if_splits)
qed simp

lemma root_search_none:
  "getRootSiteAreaFromSiteAreasTree i ts = None \<longleftrightarrow> (\<forall>t \<in> set ts. \<forall>x \<in> set (areas t). sa_id x \<noteq> i)"
proof (induction i ts rule: getRootSiteAreaFromSiteAreasTree.induct)
  case (2 i a ts rest)
  then show ?case
    using search_finds [of i ts] by (cases "sa_id a = i"; cases "getSiteAreaFromSiteAreasTree i ts") auto
qed simp

section \<open>Site areas that hang from a root\<close>

fun up :: "smart_area list \<Rightarrow> nat \<Rightarrow> smart_area \<Rightarrow> smart_area option" where
  "up all 0 a = Some a"
| "up all (Suc n) a =
     (case sa_parentSiteAreaID a of None \<Rightarrow> None
      | Some p \<Rightarrow> (case List.find (\<lambda>b. sa_id b = p) all of None \<Rightarrow> None | Some b \<Rightarrow> up all n b))"

definition rooted :: "smart_area list \<Rightarrow> nat \<Rightarrow> smart_area \<Rightarrow> bool" where
  "rooted all d a \<longleftrightarrow> (\<exists>r. up all d a = Some r \<and> sa_parentSiteAreaID r = None)"

lemma hash_fold:
  assumes "distinct (map sa_id all)"
  shows "foldl (\<lambda>t a. t(sa_id a \<mapsto> a)) m all i =
      (case List.find (\<lambda>b. sa_id b = i) all of None \<Rightarrow> m i | Some b \<Rightarrow> Some b)"
  using assms
proof (induction all arbitrary: m)
  case (Cons a all)
  then have "sa_id a = i \<Longrightarrow> List.find (\<lambda>b. sa_id b = i) all = None"
    by (auto simp: find_None_iff) (metis imageI)
  with Cons show ?case by (simp split: option.split)
qed simp

lemma hash_find: "distinct (map sa_id all) \<Longrightarrow> siteAreaHashTable all i = List.find (\<lambda>b. sa_id b = i) all"
  by (simp add: siteAreaHashTable_def hash_fold split: option.split)

lemma find_distinct:
  "distinct (map sa_id all) \<Longrightarrow> a \<in> set all \<Longrightarrow> List.find (\<lambda>b. sa_id b = sa_id a) all = Some a"
  by (induction all) (auto simp: image_iff)

lemma hash_self:
  "distinct (map sa_id all) \<Longrightarrow> a \<in> set all \<Longrightarrow> siteAreaHashTable all (sa_id a) = Some a"
  by (simp add: hash_find find_distinct)

lemma map_filter_ident: "(\<And>x. x \<in> set xs \<Longrightarrow> f x = Some x) \<Longrightarrow> List.map_filter f xs = xs"
  by (induction xs) (simp_all add: map_filter_simps)

lemma children_distinct:
  assumes "distinct (map sa_id all)"
  shows "children_of all a = filter (\<lambda>c. sa_parentSiteAreaID c = Some (sa_id a)) all"
  unfolding children_of_def using assms by (intro map_filter_ident) (auto simp: hash_self)

lemma those_total: "(\<And>x. x \<in> set xs \<Longrightarrow> f x \<noteq> None) \<Longrightarrow> \<exists>ys. those (map f xs) = Some ys"
  by (induction xs) (auto split: option.splits)

lemma up_add: "up all (m + n) x = Option.bind (up all m x) (up all n)"
  by (induction m arbitrary: x) (simp_all split: option.splits)

lemma find_member: "List.find p xs = Some y \<Longrightarrow> y \<in> set xs"
  by (auto simp: find_Some_iff)

lemma up_in: "x \<in> set all \<Longrightarrow> up all n x = Some y \<Longrightarrow> y \<in> set all"
  by (induction n arbitrary: x) (auto split: option.splits dest!: find_member)

lemma up_root: "sa_parentSiteAreaID r = None \<Longrightarrow> up all (Suc n) r = None"
  by simp

lemma up_child:
  "distinct (map sa_id all) \<Longrightarrow> a \<in> set all \<Longrightarrow> sa_parentSiteAreaID c = Some (sa_id a) \<Longrightarrow>
     up all (Suc n) c = up all n a"
  by (simp add: find_distinct)

lemma rooted_unique:
  assumes "rooted all d x" "rooted all e x"
  shows "d = e"
proof -
  have False if "up all m x = Some r" "sa_parentSiteAreaID r = None" "up all (m + Suc n) x \<noteq> None" for m n r
    using that up_add [of all m "Suc n" x] by simp
  then show ?thesis using assms less_imp_Suc_add [of d e] less_imp_Suc_add [of e d]
    by (cases d e rule: linorder_cases) (fastforce simp: rooted_def)+
qed

lemma rooted_up: "rooted all d x \<Longrightarrow> j \<le> d \<Longrightarrow> \<exists>y. up all j x = Some y \<and> rooted all (d - j) y"
  using up_add [of all j "d - j" x] by (auto simp: rooted_def bind_eq_Some_conv)

lemma rooted_bound:
  assumes "rooted all d x" "x \<in> set all"
  shows "d < length all"
proof -
  have "inj_on (\<lambda>j. up all j x) {..d}"
  proof (rule inj_onI)
    fix i j assume "i \<in> {..d}" "j \<in> {..d}" "up all i x = up all j x"
    then show "i = j" using rooted_up [OF assms(1), of i] rooted_up [OF assms(1), of j]
      by (auto dest: rooted_unique)
  qed
  moreover have "(\<lambda>j. up all j x) ` {..d} \<subseteq> Some ` set all"
    using rooted_up [OF assms(1)] up_in [OF assms(2)] by fastforce
  ultimately have "card {..d} \<le> card (Some ` set all)" by (rule card_inj_on_le) simp
  also have "\<dots> \<le> length all" by (simp add: card_image card_length)
  finally show ?thesis by simp
qed

text \<open>Lists whose members belong to different owners have no common members.\<close>

lemma distinct_concat_owned:
  assumes "list_all2 (\<lambda>c l. distinct l \<and> (\<forall>x \<in> set l. R x c)) cs ls" "distinct cs"
    and "\<And>x c e. R x c \<Longrightarrow> R x e \<Longrightarrow> c = e"
  shows "distinct (concat ls)"
  using assms(1,2)
proof (induction rule: list_all2_induct)
  case (Cons c cs l ls)
  have other: "\<exists>e \<in> set cs. R x e" if "x \<in> set (concat ls)" for x
    using Cons.hyps(2) that by (induction rule: list_all2_induct) auto
  have "set l \<inter> set (concat ls) = {}"
  proof (rule equals0I)
    fix x assume "x \<in> set l \<inter> set (concat ls)"
    with other Cons.hyps(1) obtain e where "e \<in> set cs" "R x e" "R x c" by blast
    with assms(3) Cons.prems show False by auto
  qed
  with Cons show ?case by simp
qed simp

lemma list_all2_owner: "list_all2 R xs ys \<Longrightarrow> y \<in> set ys \<Longrightarrow> \<exists>x \<in> set xs. R x y"
  by (induction rule: list_all2_induct) auto

lemma list_all2_owned: "list_all2 R xs ys \<Longrightarrow> x \<in> set xs \<Longrightarrow> \<exists>y \<in> set ys. R x y"
  by (induction rule: list_all2_induct) auto

definition hangs :: "smart_area list \<Rightarrow> nat \<Rightarrow> smart_area \<Rightarrow> smart_area \<Rightarrow> bool" where
  "hangs all k x a \<longleftrightarrow> x \<in> set all \<and> (\<exists>j. rooted all (k + j) x \<and> up all j x = Some a)"

lemma hangs_unique:
  assumes "hangs all k x a" "hangs all k x b"
  shows "a = b"
proof -
  from assms obtain i j where i: "rooted all (k + i) x" "up all i x = Some a"
    and j: "rooted all (k + j) x" "up all j x = Some b" by (auto simp: hangs_def)
  with rooted_unique [OF i(1) j(1)] show ?thesis by simp
qed

lemma hangs_below:
  assumes "distinct (map sa_id all)" "a \<in> set all" "rooted all k a" "sa_parentSiteAreaID c = Some (sa_id a)"
    "hangs all (Suc k) x c"
  shows "hangs all k x a \<and> x \<noteq> a"
proof -
  from assms(5) obtain j where x: "x \<in> set all" and j: "rooted all (Suc k + j) x" "up all j x = Some c"
    by (auto simp: hangs_def)
  have "up all (j + 1) x = Some a"
    unfolding up_add using j(2) up_child [OF assms(1,2,4), of 0] by simp
  with x j(1) have "hangs all k x a" unfolding hangs_def by (metis add_Suc add_Suc_right Suc_eq_plus1)
  moreover have "x \<noteq> a" using rooted_unique [OF assms(3)] j(1) by fastforce
  ultimately show ?thesis ..
qed

definition well_built :: "smart_area list \<Rightarrow> nat \<Rightarrow> smart_area \<Rightarrow> area_tree \<Rightarrow> bool" where
  "well_built all k a t \<longleftrightarrow>
     distinct (areas t) \<and> (\<forall>x \<in> set (areas t). hangs all k x a) \<and> area_of t = a \<and> under_parent t"

lemma those_list_all2: "those (map f xs) = Some ys \<longleftrightarrow> list_all2 (\<lambda>x y. f x = Some y) xs ys"
proof (induction xs arbitrary: ys)
  case (Cons x xs)
  then show ?case by (cases ys; cases "f x") (auto split: option.splits)
qed auto

lemma built_distinct:
  assumes "list_all2 (well_built all k) cs ts" "distinct cs"
  shows "distinct (concat (map areas ts))"
proof (rule distinct_concat_owned [where R = "hangs all k" and cs = cs])
  show "list_all2 (\<lambda>c l. distinct l \<and> (\<forall>x \<in> set l. hangs all k x c)) cs (map areas ts)"
    unfolding list_all2_map2 by (rule list.rel_mono_strong [OF assms(1)]) (simp add: well_built_def)
qed (use assms(2) hangs_unique in blast)+

lemma well_built_node:
  assumes "distinct (map sa_id all)" "a \<in> set all" "rooted all k a"
    and "list_all2 (well_built all (Suc k)) cs ts" "distinct cs"
    and "\<forall>c \<in> set cs. sa_parentSiteAreaID c = Some (sa_id a)"
  shows "well_built all k a (Area a ts)"
proof -
  have part: "\<exists>c \<in> set cs. well_built all (Suc k) c t" if "t \<in> set ts" for t
    using list_all2_owner [OF assms(4) that] .
  have below: "hangs all k x a \<and> x \<noteq> a" if "t \<in> set ts" "x \<in> set (areas t)" for t x
    using part [OF that(1)] that(2) assms(6) hangs_below [OF assms(1-3)] unfolding well_built_def by blast
  have "hangs all k a a"
    unfolding hangs_def using assms(2,3) by (intro conjI exI [of _ 0]) simp_all
  moreover have "under_parent (Area a ts)"
    using part assms(6) by (auto simp: list_all_iff well_built_def)
  ultimately show ?thesis
    using built_distinct [OF assms(4,5)] below by (auto simp: well_built_def)
qed

lemma node_well_built:
  assumes "distinct (map sa_id all)"
  shows "area_node all n a = Some t \<Longrightarrow> a \<in> set all \<Longrightarrow> rooted all k a \<Longrightarrow> well_built all k a t"
proof (induction n arbitrary: a t k)
  case (Suc n)
  let ?cs = "filter (\<lambda>c. sa_parentSiteAreaID c = Some (sa_id a)) all"
  from Suc.prems obtain ts where t: "t = Area a ts" and ts: "list_all2 (\<lambda>c u. area_node all n c = Some u) ?cs ts"
    by (auto simp: children_distinct [OF assms] those_list_all2)
  have "well_built all (Suc k) c u" if "area_node all n c = Some u" "c \<in> set ?cs" for c u
    using that Suc.prems up_child [OF assms Suc.prems(2), of c] by (intro Suc.IH) (auto simp: rooted_def)
  then have "list_all2 (well_built all (Suc k)) ?cs ts"
    by (intro list.rel_mono_strong [OF ts]) simp
  with Suc.prems assms show ?case unfolding t by (intro well_built_node) (auto simp: distinct_map)
qed simp

section \<open>Forests\<close>

text \<open>The list is a forest: the parents of every site area lead to one that has no parent.\<close>

definition forest :: "smart_area list \<Rightarrow> bool" where
  "forest all \<longleftrightarrow> (\<forall>a \<in> set all. \<exists>d. rooted all d a)"

lemma node_total:
  assumes "distinct (map sa_id all)"
  shows "a \<in> set all \<Longrightarrow> rooted all k a \<Longrightarrow> length all \<le> n + k \<Longrightarrow> area_node all n a \<noteq> None"
proof (induction n arbitrary: a k)
  case 0
  then show ?case using rooted_bound by fastforce
next
  case (Suc n)
  have "area_node all n c \<noteq> None" if "c \<in> set (children_of all a)" for c
    using that Suc.prems up_child [OF assms Suc.prems(1), of c]
    by (intro Suc.IH [of _ "Suc k"]) (auto simp: children_distinct [OF assms] rooted_def)
  from those_total [of "children_of all a" "area_node all n", OF this] show ?case by auto
qed

lemma node_covers:
  assumes "distinct (map sa_id all)" "x \<in> set all"
  shows "up all j x = Some a \<Longrightarrow> area_node all n a = Some t \<Longrightarrow> x \<in> set (areas t)"
proof (induction j arbitrary: a n t)
  case 0
  then show ?case by (cases n) auto
next
  case (Suc j)
  have "Option.bind (up all j x) (up all 1) = Some a"
    using Suc.prems(1) by (metis Suc_eq_plus1 up_add)
  then obtain y where y: "up all j x = Some y" "up all 1 y = Some a"
    unfolding bind_eq_Some_conv by blast
  then have "sa_parentSiteAreaID y = Some (sa_id a)" "y \<in> set all"
    using up_in [OF assms(2)] by (auto split: option.splits simp: find_Some_iff)
  moreover from Suc.prems(2) obtain m ts where "n = Suc m" "t = Area a ts"
    "list_all2 (\<lambda>c u. area_node all m c = Some u) (children_of all a) ts"
    by (cases n) (auto simp: those_list_all2)
  ultimately obtain u where "u \<in> set ts" "area_node all m y = Some u"
    using list_all2_owned [of "\<lambda>c u. area_node all m c = Some u" "children_of all a" ts y]
    by (auto simp: children_distinct [OF assms(1)])
  with Suc.IH [OF y(1)] \<open>t = Area a ts\<close> show ?case by auto
qed

text \<open>The trees of the roots are always found, whatever cycles there are elsewhere.\<close>

lemma forest_of_roots:
  assumes "distinct (map sa_id all)"
  obtains trees where "those (map (area_node all (Suc (length all)))
      (filter (\<lambda>a. sa_parentSiteAreaID a = None) all)) = Some trees"
    "distinct (concat (map areas trees))" "set (concat (map areas trees)) = {a \<in> set all. \<exists>d. rooted all d a}"
    "\<forall>t \<in> set trees. sa_parentSiteAreaID (area_of t) = None \<and> under_parent t"
proof -
  let ?n = "Suc (length all)" and ?roots = "filter (\<lambda>a. sa_parentSiteAreaID a = None) all"
  have root: "rooted all 0 a" "a \<in> set all" if "a \<in> set ?roots" for a
    using that by (auto simp: rooted_def)
  have "area_node all ?n a \<noteq> None" if "a \<in> set ?roots" for a
    by (rule node_total [OF assms root(2) [OF that] root(1) [OF that]]) simp
  then obtain trees where trees: "those (map (area_node all ?n) ?roots) = Some trees"
    using those_total by blast
  then have ts: "list_all2 (\<lambda>c u. area_node all ?n c = Some u) ?roots trees"
    by (simp only: those_list_all2)
  have built: "list_all2 (well_built all 0) ?roots trees"
    by (rule list.rel_mono_strong [OF ts]) (use root node_well_built [OF assms] in blast)
  from built have "distinct (concat (map areas trees))"
    by (rule built_distinct) (use assms in \<open>simp add: distinct_map\<close>)
  moreover have "\<forall>t \<in> set trees. \<exists>r \<in> set ?roots. well_built all 0 r t"
    using list_all2_owner [OF built] by blast
  moreover have "x \<in> set (concat (map areas trees))" if "x \<in> set all" "rooted all d x" for x d
  proof -
    from that obtain r where r: "up all d x = Some r" "r \<in> set ?roots"
      using up_in by (auto simp: rooted_def)
    obtain u where "u \<in> set trees" "area_node all ?n r = Some u"
      using list_all2_owned [OF ts r(2)] by blast
    then have "x \<in> set (areas u)" by (intro node_covers [OF assms that(1) r(1)])
    with \<open>u \<in> set trees\<close> show ?thesis by auto
  qed
  ultimately show thesis using trees that by (fastforce simp: well_built_def hangs_def)
qed

lemma orphan_no_forest:
  assumes "distinct (map sa_id all)" "a \<in> set all" "sa_parentSiteAreaID a = Some p" "siteAreaHashTable all p = None"
  shows "\<not> forest all"
proof -
  have "\<not> rooted all d a" for d
    using assms by (cases d) (simp_all add: rooted_def hash_find)
  with assms(2) show ?thesis by (auto simp: forest_def)
qed

lemma count_areas: "sum_list (map (\<lambda>t. 1 + numberOfChildrenOfSiteAreaTree t) ts) = length (concat (map areas ts))"
  by (simp only: size_areas length_concat map_map o_def)

lemma rooted_count:
  assumes "distinct (map sa_id all)" "distinct xs" "set xs = {a \<in> set all. \<exists>d. rooted all d a}"
  shows "length xs = length all \<longleftrightarrow> forest all"
proof -
  have "distinct all" using assms(1) by (simp add: distinct_map)
  then have "length all = card (set all)" "length xs = card (set xs)"
    using assms(2) by (simp_all add: distinct_card)
  moreover have "set xs \<subseteq> set all" using assms(3) by auto
  ultimately have "length xs = length all \<longleftrightarrow> set xs = set all"
    using card_subset_eq [of "set all" "set xs"] by auto
  with assms(3) show ?thesis by (auto simp: forest_def)
qed

text \<open>
  C26: A list of site areas with different identifiers is turned into a tree exactly when it is a forest.  The tree
  then holds every site area once, a root for each that has no parent and every other one below its parent.
  Otherwise the error is raised, and it is one of the two the code raises itself: the recursion always ends.
\<close>

theorem site_areas_form_a_tree:
  assumes "distinct (map sa_id all)"
  shows "case buildSiteAreasTree all of
      Inr trees \<Rightarrow> forest all \<and> mset (concat (map areas trees)) = mset all
        \<and> (\<forall>t \<in> set trees. sa_parentSiteAreaID (area_of t) = None \<and> under_parent t)
    | Inl e \<Rightarrow> \<not> forest all \<and> (\<exists>m. e = BackendError m)"
proof -
  let ?orphan = "\<lambda>a. case sa_parentSiteAreaID a of None \<Rightarrow> False | Some p \<Rightarrow> siteAreaHashTable all p = None"
  consider "all = []" | "all \<noteq> []" "list_ex ?orphan all" | "all \<noteq> []" "\<not> list_ex ?orphan all" by blast
  then show ?thesis
  proof cases
    case 1
    then show ?thesis by (simp add: buildSiteAreasTree_def forest_def)
  next
    case 2
    then obtain a p where "a \<in> set all" "sa_parentSiteAreaID a = Some p" "siteAreaHashTable all p = None"
      by (auto simp: list_ex_iff split: option.splits)
    with 2 orphan_no_forest [OF assms] show ?thesis by (simp add: buildSiteAreasTree_def)
  next
    case 3
    let ?roots = "filter (\<lambda>a. sa_parentSiteAreaID a = None) all"
    obtain trees where trees: "those (map (area_node all (Suc (length all))) ?roots) = Some trees"
      and d: "distinct (concat (map areas trees))"
      and s: "set (concat (map areas trees)) = {a \<in> set all. \<exists>d. rooted all d a}"
      and p: "\<forall>t \<in> set trees. sa_parentSiteAreaID (area_of t) = None \<and> under_parent t"
      by (rule forest_of_roots [OF assms])
    have roots: "List.map_filter (\<lambda>a. siteAreaHashTable all (sa_id a)) ?roots = ?roots"
      using assms by (intro map_filter_ident) (simp add: hash_self)
    have result: "buildSiteAreasTree all =
        (if length (concat (map areas trees)) \<noteq> length all
         then Inl (BackendError ''Circular dependency found in Site Area tree'') else Inr trees)"
      unfolding buildSiteAreasTree_def Let_def roots trees count_areas using 3 by simp
    show ?thesis
    proof (cases "forest all")
      case True
      then have "set (concat (map areas trees)) = set all" using s by (auto simp: forest_def)
      with d assms have "mset (concat (map areas trees)) = mset all"
        by (subst set_eq_iff_mset_eq_distinct [symmetric]) (simp_all add: distinct_map)
      with True p result rooted_count [OF assms d s] show ?thesis by simp
    next
      case False
      with result rooted_count [OF assms d s] show ?thesis by simp
    qed
  qed
qed

end
