(* ===== verification/OptimizerFuses.thy ===== *)
theory OptimizerFuses
  imports OptimizerCars SiteAreaTree
begin

text \<open>
  The request of the optimizer (\<open>integration/smart-charging/sap-smart-charging/SapSmartChargingIntegration.ts\<close>,
  with the checks of \<open>SmartChargingIntegration.ts\<close>): a tree of fuses for the tree of the site areas, in which a
  site area holds the fuses of its stations, and a station those of its connectors.  What is not planned for, assets
  and stations that cannot be controlled, is deducted from the fuses of its site area and of those above it.
  The objects of the site areas are read from the database once; the connectors and stations that are not planned
  for are removed from them, which is why the arrays are in the state.
\<close>

section \<open>Data\<close>

datatype asset_type = CONSUMPTION | PRODUCTION | CONSUMPTION_AND_PRODUCTION

record asset =
  as_id :: string
  as_assetType :: asset_type
  as_fluctuationPercent :: rat
  as_staticValueWatt :: rat
  as_dynamicAsset :: bool
  as_excludeFromSmartCharging :: bool
  as_currentInstantWatts :: "rat option"
  as_lastConsumptionTimestamp :: "int option"
  as_powerWattsLastSmartChargingRun :: "rat option"

record excluded_amperage =
  phase1 :: rat
  phase2 :: rat
  phase3 :: rat

record fuse =
  fu_id :: nat
  fusePhase1 :: rat
  fusePhase2 :: rat
  fusePhase3 :: rat
  phase1Connected :: bool
  phase2Connected :: bool
  phase3Connected :: bool

text \<open>A connector is what the optimizer calls a charging station.\<close>

datatype fuse_node = Fuse fuse "fuse_node list" | ConnectorFuse fuse

record car_assignment =
  carID :: nat
  chargingStationID :: nat

record optimizer_state =
  os_fuseID :: nat
  os_cars :: "optimizer_car list"
  os_carAssignments :: "car_assignment list"
  os_excludedChargingStations :: "string list"
  os_chargingStationsInError :: bool
  os_stations :: "string \<Rightarrow> charging_station list"
  os_assets :: "string \<Rightarrow> asset list"
  os_savedAssets :: "asset list"

section \<open>Validity of a site area\<close>

definition checkIfSiteAreaIsValid :: "smart_area \<Rightarrow> unit res" where
  "checkIfSiteAreaIsValid a =
     (if \<not> truthy_num (sa_maximumPower a) then Inl (BackendError ''Maximum Power is not set in Site Area'')
      else if sa_voltage a \<noteq> 230 \<and> sa_voltage a \<noteq> 110 then
        Inl (BackendError ''Voltage must be either 110V or 230V in Site Area'')
      else if sa_numberOfPhases a \<noteq> 1 \<and> sa_numberOfPhases a \<noteq> 3 then
        Inl (BackendError ''Number of phases must be either 1 or 3 in Site Area'')
      else Inr ())"

section \<open>Consumption of the assets\<close>

definition consumes :: "asset \<Rightarrow> bool" where
  "consumes a \<longleftrightarrow> as_assetType a = CONSUMPTION \<or> as_assetType a = CONSUMPTION_AND_PRODUCTION"

definition dynamic_consumption :: "runtime \<Rightarrow> int \<Rightarrow> asset \<Rightarrow> rat" where
  "dynamic_consumption R now a =
     (let fluctuation = fl R Times (as_staticValueWatt a) (fl R Divide (as_fluctuationPercent a) 100);
          raised = (\<lambda>w. fl R Plus w fluctuation)
      in if diff_minutes now (as_lastConsumptionTimestamp a) < 2 then
           (case as_currentInstantWatts a of
              None \<Rightarrow> 0
            | Some w \<Rightarrow>
                if 0 < w then (if raised w < as_staticValueWatt a then raised w else as_staticValueWatt a)
                else if w < 0 then (if raised w < 0 then raised w else 0)
                else 0)
         else if consumes a then as_staticValueWatt a else 0)"

definition asset_consumption :: "runtime \<Rightarrow> int \<Rightarrow> asset \<Rightarrow> rat" where
  "asset_consumption R now a =
     (if as_dynamicAsset a then dynamic_consumption R now a
      else if consumes a then as_staticValueWatt a else 0)"

definition update_last_run :: "asset \<Rightarrow> asset" where
  "update_last_run a =
     (if \<not> as_excludeFromSmartCharging a \<and> as_dynamicAsset a
      then a\<lparr>as_powerWattsLastSmartChargingRun := as_currentInstantWatts a\<rparr> else a)"

text \<open>The consumption, the assets as they are left, and those that are saved.\<close>

definition getAssetConsumptionInWatts :: "optimizer_env \<Rightarrow> asset list \<Rightarrow> rat \<times> asset list \<times> asset list" where
  "getAssetConsumptionInWatts E assets =
     (if oe_assetActive E then
        (foldl (\<lambda>w a. if as_excludeFromSmartCharging a then w
                      else if as_dynamicAsset a \<or> consumes a
                      then fl (oe_runtime E) Plus w (asset_consumption (oe_runtime E) (oe_now E) a) else w) 0 assets,
         map update_last_run assets,
         map update_last_run (filter (\<lambda>a. update_last_run a \<noteq> a) assets))
      else (0, assets, []))"

section \<open>The fuse of a site area\<close>

definition add_excluded :: "runtime \<Rightarrow> excluded_amperage \<Rightarrow> excluded_amperage \<Rightarrow> excluded_amperage" where
  "add_excluded R x y =
     \<lparr>phase1 = fl R Plus (phase1 x) (phase1 y), phase2 = fl R Plus (phase2 x) (phase2 y),
      phase3 = fl R Plus (phase3 x) (phase3 y)\<rparr>"

text \<open>\<open>-=\<close> on a fuse and \<open>+=\<close> on what is excluded, for the phases a connector uses.\<close>

definition exclude1 :: "runtime \<Rightarrow> rat \<Rightarrow> fuse \<times> excluded_amperage \<Rightarrow> fuse \<times> excluded_amperage" where
  "exclude1 R amps = (\<lambda>(f, x). (f\<lparr>fusePhase1 := fl R Minus (fusePhase1 f) amps\<rparr>, x\<lparr>phase1 := fl R Plus (phase1 x) amps\<rparr>))"

definition exclude2 :: "runtime \<Rightarrow> rat \<Rightarrow> fuse \<times> excluded_amperage \<Rightarrow> fuse \<times> excluded_amperage" where
  "exclude2 R amps = (\<lambda>(f, x). (f\<lparr>fusePhase2 := fl R Minus (fusePhase2 f) amps\<rparr>, x\<lparr>phase2 := fl R Plus (phase2 x) amps\<rparr>))"

definition exclude3 :: "runtime \<Rightarrow> rat \<Rightarrow> fuse \<times> excluded_amperage \<Rightarrow> fuse \<times> excluded_amperage" where
  "exclude3 R amps = (\<lambda>(f, x). (f\<lparr>fusePhase3 := fl R Minus (fusePhase3 f) amps\<rparr>, x\<lparr>phase3 := fl R Plus (phase3 x) amps\<rparr>))"

definition amps_per_phase :: "runtime \<Rightarrow> charging_station \<Rightarrow> charge_point option \<Rightarrow> int \<Rightarrow> rat \<Rightarrow> rat" where
  "amps_per_phase R cs cp cid amperage =
     (let third = num R (d_div R amperage 3);
          efficiency = (case cp of None \<Rightarrow> None | Some p \<Rightarrow> cp_efficiency p)
      in if getChargingStationCurrentType cs None cid = Some DC then
           num R (d_div R (d_mul R third 100)
             (if gt efficiency 0 then the efficiency else DC_CHARGING_STATION_DEFAULT_EFFICIENCY_PERCENT))
         else third)"

definition exclude_connector ::
    "runtime \<Rightarrow> smart_area \<Rightarrow> charging_station \<Rightarrow> charge_point option \<Rightarrow> connector \<Rightarrow>
     fuse \<times> excluded_amperage \<Rightarrow> fuse \<times> excluded_amperage" where
  "exclude_connector R a cs cp c =
     (let amperage = getChargingStationAmperage R cs cp (cn_connectorId c) in
      if sa_numberOfPhases a = 1 then exclude1 R amperage
      else if getNumberOfConnectedPhases cs None 0 = 1 then
        (case cn_phaseAssignmentToGrid c of
           None \<Rightarrow> exclude1 R amperage
         | Some g \<Rightarrow>
             (case csPhaseL1 g of
                None \<Rightarrow> exclude1 R amperage
              | Some L1 \<Rightarrow> exclude1 R amperage
              | Some L2 \<Rightarrow> exclude2 R amperage
              | Some L3 \<Rightarrow> exclude3 R amperage
              | _ \<Rightarrow> id))
      else
        (let perPhase = amps_per_phase R cs cp (cn_connectorId c) amperage
         in exclude3 R perPhase \<circ> exclude2 R perPhase \<circ> exclude1 R perPhase))"

definition not_planned :: "charging_station \<Rightarrow> string list \<Rightarrow> charge_point option \<Rightarrow> bool" where
  "not_planned cs excludedStations cp \<longleftrightarrow>
     cp = None \<or> cp_excludeFromPowerLimitation (the cp) \<or> cs_excludeFromSmartCharging cs
     \<or> \<not> cs_supportChargingProfiles cs \<or> cs_id cs \<in> set excludedStations"

definition charge_point_of :: "charging_station \<Rightarrow> connector \<Rightarrow> charge_point option" where
  "charge_point_of cs c =
     (if truthy_num (cn_chargePointID c) then getChargePointFromID cs (the (cn_chargePointID c)) else None)"

definition shares_power :: "charge_point option \<Rightarrow> bool" where
  "shares_power cp \<longleftrightarrow>
     (case cp of None \<Rightarrow> False | Some p \<Rightarrow> cp_sharePowerToAllConnectors p \<or> cp_cannotChargeInParallel p)"

text \<open>
  From the last connector to the first: \<open>before\<close> are those still to come, in this order, \<open>kept\<close> those that have stayed.
\<close>

fun exclude_connectors ::
    "runtime \<Rightarrow> smart_area \<Rightarrow> string list \<Rightarrow> charging_station \<Rightarrow> connector list \<Rightarrow> connector list \<Rightarrow> int list \<Rightarrow>
     fuse \<times> excluded_amperage \<Rightarrow> connector list \<times> (fuse \<times> excluded_amperage)" where
  "exclude_connectors R a ex cs [] kept seen fx = (kept, fx)"
| "exclude_connectors R a ex cs (c # before) kept seen fx =
     (let now = cs\<lparr>cs_connectors := Some (rev before @ c # kept)\<rparr>; cp = charge_point_of now c in
      if not_planned now ex cp \<and> (case cp of None \<Rightarrow> True | Some p \<Rightarrow> cp_chargePointID p \<notin> set seen)
      then exclude_connectors R a ex cs before kept
             (if shares_power cp then cp_chargePointID (the cp) # seen else seen)
             (exclude_connector R a now cp c fx)
      else exclude_connectors R a ex cs before (c # kept) seen fx)"

text \<open>From the last station to the first; a station without connectors goes.\<close>

fun exclude_stations ::
    "runtime \<Rightarrow> smart_area \<Rightarrow> string list \<Rightarrow> charging_station list \<Rightarrow> charging_station list \<Rightarrow>
     fuse \<times> excluded_amperage \<Rightarrow> (charging_station list \<times> (fuse \<times> excluded_amperage)) res" where
  "exclude_stations R a ex [] kept fx = Inr (kept, fx)"
| "exclude_stations R a ex (cs # before) kept fx =
     (case cs_connectors cs of
        None \<Rightarrow> Inl TypeError
      | Some cns \<Rightarrow>
          (let (left, fx') = exclude_connectors R a ex cs (rev cns) [] [] fx
           in exclude_stations R a ex before
                (if left = [] then kept else cs\<lparr>cs_connectors := Some left\<rparr> # kept) fx'))"

text \<open>\<open>Ensure always positive\<close>\<close>

definition positive_fuse :: "fuse \<Rightarrow> fuse" where
  "positive_fuse f =
     f\<lparr>fusePhase1 := max 0 (fusePhase1 f), fusePhase2 := max 0 (fusePhase2 f), fusePhase3 := max 0 (fusePhase3 f)\<rparr>"

definition deductAmperageFromFuse :: "runtime \<Rightarrow> fuse \<Rightarrow> excluded_amperage \<Rightarrow> fuse" where
  "deductAmperageFromFuse R f x =
     positive_fuse (f\<lparr>fusePhase1 := fl R Minus (fusePhase1 f) (phase1 x),
                      fusePhase2 := fl R Minus (fusePhase2 f) (phase2 x),
                      fusePhase3 := fl R Minus (fusePhase3 f) (phase3 x)\<rparr>)"

definition asset_amperage :: "runtime \<Rightarrow> smart_area \<Rightarrow> rat \<Rightarrow> excluded_amperage" where
  "asset_amperage R a watts =
     (let power = the (sa_maximumPower a);
          perPhase = (if power \<noteq> fl R Minus power watts \<and> 0 < watts
                      then num R (d_div R (d_div R watts (sa_voltage a)) (of_nat (sa_numberOfPhases a))) else 0)
      in \<lparr>phase1 = perPhase, phase2 = perPhase, phase3 = perPhase\<rparr>)"

definition initial_fuse :: "runtime \<Rightarrow> smart_area \<Rightarrow> rat \<Rightarrow> nat \<Rightarrow> fuse" where
  "initial_fuse R a watts i =
     (let siteMaxAmps = num R (d_div R (d_sub R (the (sa_maximumPower a)) watts) (sa_voltage a));
          siteMaxAmpsPerPhase = num R (d_div R siteMaxAmps (of_nat (sa_numberOfPhases a)));
          threePhases = sa_numberOfPhases a > 1
      in \<lparr>fu_id = i, fusePhase1 = siteMaxAmpsPerPhase,
          fusePhase2 = (if threePhases then siteMaxAmpsPerPhase else 0),
          fusePhase3 = (if threePhases then siteMaxAmpsPerPhase else 0),
          phase1Connected = True, phase2Connected = threePhases, phase3Connected = threePhases\<rparr>)"

definition buildRootFuse ::
    "optimizer_env \<Rightarrow> smart_area \<Rightarrow> optimizer_state \<Rightarrow> (optimizer_state \<times> fuse \<times> excluded_amperage) res" where
  "buildRootFuse E a s =
     (let R = oe_runtime E; i = sa_id a;
          (watts, assets, saved) = getAssetConsumptionInWatts E (os_assets s i)
      in bindE (exclude_stations R a (os_excludedChargingStations s) (rev (os_stations s i)) []
                 (initial_fuse R a watts (os_fuseID s), asset_amperage R a watts))
           (\<lambda>(stations, f, x).
             Inr (s\<lparr>os_fuseID := os_fuseID s + 1, os_stations := (os_stations s)(i := stations),
                    os_assets := (os_assets s)(i := assets), os_savedAssets := os_savedAssets s @ saved\<rparr>,
                  positive_fuse f, x)))"

section \<open>The fuses of the stations and connectors\<close>

definition getTransactionFromChargingConnector :: "optimizer_env \<Rightarrow> connector \<Rightarrow> car_transaction option" where
  "getTransactionFromChargingConnector E c =
     (if truthy_num (cn_currentTransactionID c)
      then List.find (\<lambda>t. tx_id t = the (cn_currentTransactionID c)) (oe_transactions E) else None)"

definition connectorIsCharging :: "connector \<Rightarrow> bool" where
  "connectorIsCharging c \<longleftrightarrow> cn_status c \<in> {CHARGING, SUSPENDED_EV, SUSPENDED_EVSE, OCCUPIED}"

record connector_amps =
  ca_numberOfConnectedPhase :: nat
  ca_totalAmps :: rat

definition getConnectorNbrOfPhasesAndAmps :: "runtime \<Rightarrow> charging_station \<Rightarrow> connector \<Rightarrow> connector_amps res" where
  "getConnectorNbrOfPhasesAndAmps R cs c =
     bindE
       (if truthy_num (cn_chargePointID c) then
          (let cp = getChargePointFromID cs (the (cn_chargePointID c));
               phases = getNumberOfConnectedPhases cs cp (cn_connectorId c);
               amps = getChargingStationAmperage R cs cp (cn_connectorId c)
           in case cp of
                None \<Rightarrow> Inl TypeError
              | Some p \<Rightarrow>
                  (let charging = length (filter (\<lambda>i. case getConnectorFromID cs i of
                                            None \<Rightarrow> False | Some x \<Rightarrow> connectorIsCharging x) (cp_connectorIDs p));
                       shared = (if 1 \<le> charging \<and> cp_sharePowerToAllConnectors p
                                 then fl R Divide amps (of_nat charging) else amps)
                   in Inr (Some phases, Some (if 1 < charging \<and> cp_cannotChargeInParallel p then 0 else shared))))
        else Inr (cn_numberOfConnectedPhase c, cn_amperage c))
       (\<lambda>(phases, amps).
         if \<not> truthy_num phases then Inl (BackendError ''Cannot get the number of phases of connector'')
         else if \<not> truthy_num amps then Inl (BackendError ''Cannot get the amperage of connector'')
         else Inr \<lparr>ca_numberOfConnectedPhase = the phases, ca_totalAmps = the amps\<rparr>)"

definition buildChargingStationConnectorFuse ::
    "runtime \<Rightarrow> nat \<Rightarrow> charging_station \<Rightarrow> connector \<Rightarrow> fuse res" where
  "buildChargingStationConnectorFuse R fuseID cs c =
     bindE (getConnectorNbrOfPhasesAndAmps R cs c) (\<lambda>ca.
       let share = fl R Divide (ca_totalAmps ca) (of_nat (ca_numberOfConnectedPhase ca));
           perPhase = (if getChargingStationCurrentType cs None (cn_connectorId c) = Some DC
                       then at_the_grid R (connector_charge_point cs (Some c)) share else share);
           threePhases = ca_numberOfConnectedPhase ca > 1
       in Inr \<lparr>fu_id = fuseID, fusePhase1 = perPhase, fusePhase2 = (if threePhases then perPhase else 0),
               fusePhase3 = (if threePhases then perPhase else 0), phase1Connected = True,
               phase2Connected = threePhases, phase3Connected = threePhases\<rparr>)"

definition buildChargingStationFuse :: "nat \<Rightarrow> rat \<Rightarrow> rat \<Rightarrow> rat \<Rightarrow> fuse list \<Rightarrow> fuse_node" where
  "buildChargingStationFuse fuseID sum1 sum2 sum3 connectors =
     Fuse \<lparr>fu_id = fuseID, fusePhase1 = sum1, fusePhase2 = sum2, fusePhase3 = sum3, phase1Connected = True,
           phase2Connected = 0 < sum2, phase3Connected = 0 < sum3\<rparr> (map ConnectorFuse connectors)"

text \<open>One connector of a station: its fuse, its car and their assignment have the same number.\<close>

definition connector_node ::
    "optimizer_env \<Rightarrow> charging_station \<Rightarrow> optimizer_state \<times> fuse list \<Rightarrow> connector \<Rightarrow> (optimizer_state \<times> fuse list) res" where
  "connector_node E cs = (\<lambda>(s, fuses) c.
     case getTransactionFromChargingConnector E c of
       None \<Rightarrow> Inr (s\<lparr>os_chargingStationsInError := True,
                     os_excludedChargingStations := os_excludedChargingStations s @ [cs_id cs]\<rparr>, fuses)
     | Some t \<Rightarrow>
         bindE (buildChargingStationConnectorFuse (oe_runtime E) (os_fuseID s) cs c) (\<lambda>f.
           Inr (s\<lparr>os_cars := os_cars s @ [buildCar E (os_fuseID s) cs t],
                  os_carAssignments := os_carAssignments s @ [\<lparr>carID = os_fuseID s, chargingStationID = os_fuseID s\<rparr>],
                  os_fuseID := os_fuseID s + 1\<rparr>, fuses @ [f])))"

definition sum_phase :: "runtime \<Rightarrow> (fuse \<Rightarrow> rat) \<Rightarrow> fuse list \<Rightarrow> rat" where
  "sum_phase R phase fuses = foldl (\<lambda>t f. fl R Plus t (phase f)) 0 fuses"

definition station_node ::
    "optimizer_env \<Rightarrow> optimizer_state \<times> fuse_node list \<Rightarrow> charging_station \<Rightarrow> (optimizer_state \<times> fuse_node list) res" where
  "station_node E = (\<lambda>(s, nodes) cs.
     let R = oe_runtime E in
     case cs_connectors cs of
       None \<Rightarrow> Inl TypeError
     | Some cns \<Rightarrow>
         bindE (foldE (connector_node E cs) (s, []) cns) (\<lambda>(s', fuses).
           Inr (s'\<lparr>os_fuseID := os_fuseID s' + 1\<rparr>,
                if fuses = [] then nodes
                else nodes @ [buildChargingStationFuse (os_fuseID s') (sum_phase R fusePhase1 fuses)
                                (sum_phase R fusePhase2 fuses) (sum_phase R fusePhase3 fuses) fuses])))"

definition buildFuseChargingStationNodes ::
    "optimizer_env \<Rightarrow> smart_area \<Rightarrow> optimizer_state \<Rightarrow> (optimizer_state \<times> fuse_node list) res" where
  "buildFuseChargingStationNodes E a s = foldE (station_node E) (s, []) (os_stations s (sa_id a))"

section \<open>The fuses of a tree of site areas\<close>

fun buildFuseNodes ::
    "optimizer_env \<Rightarrow> area_tree \<Rightarrow> optimizer_state \<Rightarrow> (optimizer_state \<times> fuse_node \<times> excluded_amperage) res"
and buildChildNodes ::
    "optimizer_env \<Rightarrow> area_tree list \<Rightarrow> optimizer_state \<Rightarrow> fuse \<Rightarrow> excluded_amperage \<Rightarrow> fuse_node list \<Rightarrow>
     (optimizer_state \<times> fuse_node \<times> excluded_amperage) res" where
  "buildFuseNodes E (Area a ts) s =
     bindE (checkIfSiteAreaIsValid a) (\<lambda>_.
     bindE (buildRootFuse E a s) (\<lambda>(s1, area_fuse, x).
     bindE (buildFuseChargingStationNodes E a s1) (\<lambda>(s2, stations).
     buildChildNodes E ts s2 area_fuse x stations)))"
| "buildChildNodes E [] s area_fuse x nodes = Inr (s, Fuse area_fuse nodes, x)"
| "buildChildNodes E (t # ts) s area_fuse x nodes =
     bindE (buildFuseNodes E t s) (\<lambda>(s', node, sub).
     buildChildNodes E ts s' (deductAmperageFromFuse (oe_runtime E) area_fuse sub) (add_excluded (oe_runtime E) x sub)
       (nodes @ [node]))"

section \<open>The request\<close>

record optimizer_request =
  or_rootFuse :: fuse_node
  or_cars :: "optimizer_car list"
  or_carAssignments :: "car_assignment list"
  or_currentTimeSeconds :: rat

definition fresh_request :: "optimizer_state \<Rightarrow> optimizer_state" where
  "fresh_request s = s\<lparr>os_fuseID := 0, os_cars := [], os_carAssignments := [], os_chargingStationsInError := False\<rparr>"

definition currentTimeSeconds :: "optimizer_env \<Rightarrow> rat" where
  "currentTimeSeconds E =
     (let R = oe_runtime E
      in num R (d_mul R (dec R (exact_op Remainder (d_div R (of_int (oe_secondsOfHour E)) 900) 1)) 900))"

definition request_of :: "optimizer_env \<Rightarrow> optimizer_state \<Rightarrow> fuse_node \<Rightarrow> optimizer_request" where
  "request_of E s node =
     \<lparr>or_rootFuse = node, or_cars = os_cars s, or_carAssignments = os_carAssignments s,
      or_currentTimeSeconds = currentTimeSeconds E\<rparr>"

text \<open>
  When a connector has no session, its station is excluded and the request is built once more.  The site area that
  is kept for this is the object the first attempt has changed.  The argument tells whether it is the second attempt.
\<close>

function buildOptimizerRequest ::
    "optimizer_env \<Rightarrow> area_tree \<Rightarrow> bool \<Rightarrow> optimizer_state \<Rightarrow> (optimizer_state \<times> optimizer_request) res" where
  "buildOptimizerRequest E t True s =
     bindE (buildFuseNodes E t (fresh_request s)) (\<lambda>(s', node, x). Inr (s', request_of E s' node))"
| "buildOptimizerRequest E t False s =
     bindE (buildFuseNodes E t (fresh_request s)) (\<lambda>(s', node, x).
       if os_chargingStationsInError s' then buildOptimizerRequest E t True s' else Inr (s', request_of E s' node))"
  by pat_completeness auto

termination
  by (relation "measure (\<lambda>(E, t, retry, s). if retry then 0 else 1)") auto

end
