(* ===== verification/FuseNumbers.thy ===== *)
theory FuseNumbers
  imports OptimizerFuses
begin

text \<open>
  The numbers of a request: every fuse has its own, a connector, its car and their assignment share one.
\<close>

section \<open>Operations that append what they make\<close>

text \<open>
  \<open>made s s' new\<close> relates the states before and after with what was appended in between.
\<close>

locale producing_run =
  fixes step :: "'s \<times> 'b list \<Rightarrow> 'x \<Rightarrow> ('s \<times> 'b list) res"
    and made :: "'s \<Rightarrow> 's \<Rightarrow> 'b list \<Rightarrow> bool"
  assumes made_refl: "made s s []"
    and made_trans: "made s s1 xs \<Longrightarrow> made s1 s2 ys \<Longrightarrow> made s s2 (xs @ ys)"
    and step_made: "step (s, xs) x = Inr (s', xs') \<Longrightarrow> \<exists>new. xs' = xs @ new \<and> made s s' new"
begin

lemma run_made: "foldE step (s, xs) ys = Inr (s', xs') \<Longrightarrow> \<exists>new. xs' = xs @ new \<and> made s s' new"
proof (induction ys arbitrary: s xs)
  case Nil
  then show ?case by (auto intro: made_refl)
next
  case (Cons y ys)
  then obtain s1 xs1 where 1: "step (s, xs) y = Inr (s1, xs1)" and 2: "foldE step (s1, xs1) ys = Inr (s', xs')"
    by (auto simp: res_simps)
  from step_made [OF 1] Cons.IH [OF 2] obtain m n where "xs1 = xs @ m" "made s s1 m" "xs' = xs1 @ n" "made s1 s' n"
    by blast
  then show ?case using made_trans by auto
qed

end

section \<open>Numbers\<close>

fun fuse_ids :: "fuse_node \<Rightarrow> nat list" where
  "fuse_ids (ConnectorFuse f) = [fu_id f]"
| "fuse_ids (Fuse f nodes) = fu_id f # concat (map fuse_ids nodes)"

fun connector_ids :: "fuse_node \<Rightarrow> nat list" where
  "connector_ids (ConnectorFuse f) = [fu_id f]"
| "connector_ids (Fuse f nodes) = concat (map connector_ids nodes)"

lemma overridden_id [simp]: "oc_id (overrideCarWithRuntimeData E cs tx car) = oc_id car"
  by (simp add: overrideCarWithRuntimeData_def Let_def split: option.split)

lemma provided_id [simp]: "oc_id (provided_car E cs ct car) = oc_id car"
  by (simp add: provided_car_def Let_def split: option.split)

lemma car_id [simp]: "oc_id (buildCar E i cs ct) = i"
  by (simp add: buildCar_def buildSafeCar_def Let_def)

text \<open>
  From one state to the next nodes are made: their numbers are new, and the cars and assignments added are those
  of their connectors.
\<close>

definition numbered :: "optimizer_state \<Rightarrow> optimizer_state \<Rightarrow> nat list \<Rightarrow> nat list \<Rightarrow> bool" where
  "numbered s s' ids cids \<longleftrightarrow>
     os_fuseID s \<le> os_fuseID s' \<and> distinct ids \<and> set ids \<subseteq> {os_fuseID s ..< os_fuseID s'}
     \<and> map oc_id (os_cars s') = map oc_id (os_cars s) @ cids
     \<and> os_carAssignments s' = os_carAssignments s @ map (\<lambda>i. \<lparr>carID = i, chargingStationID = i\<rparr>) cids"

lemma numbered_refl: "numbered s s [] []"
  by (simp add: numbered_def)

lemma numbered_trans:
  "numbered s s1 xs cs \<Longrightarrow> numbered s1 s2 ys ds \<Longrightarrow> numbered s s2 (xs @ ys) (cs @ ds)"
  unfolding numbered_def by (auto simp: subset_iff) (meson less_le_not_le order_trans)

lemma numbered_perm:
  "numbered s s' xs cs \<Longrightarrow> mset xs = mset ys \<Longrightarrow> numbered s s' ys cs"
  unfolding numbered_def by (metis mset_eq_imp_distinct_iff set_mset_mset)

lemma connector_fuse_id:
  "buildChargingStationConnectorFuse R i cs c = Inr f \<Longrightarrow> fu_id f = i"
  by (auto simp: buildChargingStationConnectorFuse_def res_simps Let_def)

lemma connector_numbered:
  assumes "connector_node E cs (s, fs) c = Inr (s', fs')"
  shows "\<exists>new. fs' = fs @ new \<and> numbered s s' (map fu_id new) (map fu_id new)"
proof (cases "getTransactionFromChargingConnector E c")
  case None
  with assms show ?thesis by (auto simp: connector_node_def numbered_def)
next
  case (Some t)
  with assms show ?thesis by (auto simp: connector_node_def numbered_def res_simps connector_fuse_id)
qed

interpretation numbered_connectors:
  producing_run "connector_node E cs" "\<lambda>s s' new. numbered s s' (map fu_id new) (map fu_id new)" for E cs
proof
  fix s s1 s2 :: optimizer_state and xs ys :: "fuse list"
  assume "numbered s s1 (map fu_id xs) (map fu_id xs)" "numbered s1 s2 (map fu_id ys) (map fu_id ys)"
  then show "numbered s s2 (map fu_id (xs @ ys)) (map fu_id (xs @ ys))" using numbered_trans by fastforce
qed (simp_all add: numbered_refl connector_numbered)

lemma map_id_concat [simp]: "concat (map (\<lambda>f. [g f]) xs) = map g xs"
  by (induction xs) simp_all

lemma station_ids [simp]:
  "fuse_ids (buildChargingStationFuse i a b c fs) = i # map fu_id fs"
  "connector_ids (buildChargingStationFuse i a b c fs) = map fu_id fs"
  by (simp_all add: buildChargingStationFuse_def o_def)

lemma next_number:
  "numbered s s' xs cs \<Longrightarrow> numbered s (s'\<lparr>os_fuseID := os_fuseID s' + 1\<rparr>) (os_fuseID s' # xs) cs"
  by (auto simp: numbered_def less_Suc_eq_le subset_iff)

lemma forget_number: "numbered s s' (x # xs) cs \<Longrightarrow> numbered s s' xs cs"
  by (auto simp: numbered_def)

lemma station_numbered:
  assumes "station_node E (s, nodes) cs = Inr (s', nodes')"
  shows "\<exists>new. nodes' = nodes @ new \<and> numbered s s' (concat (map fuse_ids new)) (concat (map connector_ids new))"
proof -
  from assms obtain cns s1 fs where fs: "foldE (connector_node E cs) (s, []) cns = Inr (s1, fs)"
    and s': "s' = s1\<lparr>os_fuseID := os_fuseID s1 + 1\<rparr>"
    and n: "nodes' = (if fs = [] then nodes else nodes @ [buildChargingStationFuse (os_fuseID s1)
        (sum_phase (oe_runtime E) fusePhase1 fs) (sum_phase (oe_runtime E) fusePhase2 fs)
        (sum_phase (oe_runtime E) fusePhase3 fs) fs])"
    by (auto simp: station_node_def Let_def res_simps split: option.splits)
  from numbered_connectors.run_made [OF fs] have "numbered s s1 (map fu_id fs) (map fu_id fs)" by simp
  from next_number [OF this] have "numbered s s' (os_fuseID s1 # map fu_id fs) (map fu_id fs)"
    unfolding s' .
  then show ?thesis
    using forget_number unfolding n by (cases "fs = []") fastforce+
qed

interpretation numbered_stations:
  producing_run "station_node E" "\<lambda>s s' new. numbered s s' (concat (map fuse_ids new)) (concat (map connector_ids new))" for E
proof
  fix s s1 s2 :: optimizer_state and xs ys :: "fuse_node list"
  assume "numbered s s1 (concat (map fuse_ids xs)) (concat (map connector_ids xs))"
    "numbered s1 s2 (concat (map fuse_ids ys)) (concat (map connector_ids ys))"
  then show "numbered s s2 (concat (map fuse_ids (xs @ ys))) (concat (map connector_ids (xs @ ys)))"
    using numbered_trans by fastforce
qed (simp_all add: numbered_refl station_numbered)

section \<open>What excluding a connector keeps\<close>

text \<open>
  A property of the fuse and of what is excluded that one connector keeps is kept by all of them; \<open>ok\<close> is what
  is known of the stations, with any part of their connectors.
\<close>

lemma exclude_connectors_kept:
  "set (fst (exclude_connectors R a ex cs before kept seen fx)) \<subseteq> set before \<union> set kept"
proof (induction before arbitrary: kept seen fx)
  case (Cons c before)
  have "set (fst (exclude_connectors R a ex cs before kept seen fx)) \<subseteq> insert c (set before \<union> set kept)" for seen fx
    by (rule subset_trans [OF Cons.IH]) auto
  moreover have "set (fst (exclude_connectors R a ex cs before (c # kept) seen fx)) \<subseteq> insert c (set before \<union> set kept)"
    by (rule subset_trans [OF Cons.IH]) auto
  ultimately show ?case by (simp add: Let_def)
qed simp

locale exclusion_law =
  fixes R :: runtime and a :: smart_area
    and ok :: "charging_station \<Rightarrow> bool" and Q :: "fuse \<times> excluded_amperage \<Rightarrow> bool"
  assumes ok_fewer: "ok cs \<Longrightarrow> cs_connectors cs = Some cns \<Longrightarrow> set cns' \<subseteq> set cns \<Longrightarrow> ok (cs\<lparr>cs_connectors := Some cns'\<rparr>)"
    and keeps: "ok cs \<Longrightarrow> Q fx \<Longrightarrow> Q (exclude_connector R a cs cp c fx)"
begin

lemma connectors_keep:
  "ok cs \<Longrightarrow> cs_connectors cs = Some cns \<Longrightarrow> set before \<union> set kept \<subseteq> set cns \<Longrightarrow> Q fx \<Longrightarrow>
     Q (snd (exclude_connectors R a ex cs before kept seen fx))"
proof (induction before arbitrary: kept seen fx)
  case (Cons c before)
  then have "ok (cs\<lparr>cs_connectors := Some (rev before @ c # kept)\<rparr>)" by (intro ok_fewer) auto
  with Cons show ?case by (simp add: Let_def keeps)
qed simp

lemma stations_keep:
  "exclude_stations R a ex css kept fx = Inr (left, fx') \<Longrightarrow> \<forall>cs \<in> set css \<union> set kept. ok cs \<Longrightarrow> Q fx \<Longrightarrow>
     Q fx' \<and> (\<forall>cs \<in> set left. ok cs)"
proof (induction css arbitrary: kept fx)
  case (Cons cs css)
  then obtain cns where cns: "cs_connectors cs = Some cns" by (auto split: option.splits)
  let ?r = "exclude_connectors R a ex cs (rev cns) [] [] fx"
  let ?kept = "if fst ?r = [] then kept else cs\<lparr>cs_connectors := Some (fst ?r)\<rparr> # kept"
  from Cons.prems(1) cns have "exclude_stations R a ex css ?kept (snd ?r) = Inr (left, fx')"
    by (auto split: prod.splits if_splits)
  moreover have "ok (cs\<lparr>cs_connectors := Some (fst ?r)\<rparr>)"
    using Cons.prems(2) exclude_connectors_kept [of R a ex cs "rev cns" "[]" "[]" fx] cns
    by (intro ok_fewer) auto
  moreover have "Q (snd ?r)" using Cons.prems(2,3) cns by (intro connectors_keep [OF _ cns]) auto
  ultimately show ?case using Cons.prems(2)
    by (intro Cons.IH [of ?kept]) (simp_all split: if_split)
qed auto

end

lemmas exclude_phases = exclude1_def exclude2_def exclude3_def

lemma exclude_id: "fu_id (fst (exclude_connector R a cs cp c fx)) = fu_id (fst fx)"
  by (cases fx) (simp add: exclude_connector_def exclude_phases Let_def split: option.split ocpp_phase.split)

text \<open>What the site area is left with before the fuse is made positive.\<close>

definition asset_watts :: "optimizer_env \<Rightarrow> optimizer_state \<Rightarrow> smart_area \<Rightarrow> rat" where
  "asset_watts E s a = fst (getAssetConsumptionInWatts E (os_assets s (sa_id a)))"

lemma buildRootFuse_Inr:
  assumes "buildRootFuse E a s = Inr (s', f, x)"
  obtains css f' assets saved where
    "exclude_stations (oe_runtime E) a (os_excludedChargingStations s) (rev (os_stations s (sa_id a))) []
       (initial_fuse (oe_runtime E) a (asset_watts E s a) (os_fuseID s),
        asset_amperage (oe_runtime E) a (asset_watts E s a)) = Inr (css, f', x)"
    "f = positive_fuse f'"
    "s' = s\<lparr>os_fuseID := os_fuseID s + 1, os_stations := (os_stations s)(sa_id a := css),
            os_assets := (os_assets s)(sa_id a := assets), os_savedAssets := os_savedAssets s @ saved\<rparr>"
  using assms by (auto simp: buildRootFuse_def asset_watts_def Let_def res_simps split: prod.splits)

interpretation exclusion_id: exclusion_law R a "\<lambda>_. True" "\<lambda>fx. fu_id (fst fx) = n" for R a n
  by standard (simp_all add: exclude_id)

lemma area_numbered:
  assumes "buildRootFuse E a s = Inr (s', f, x)"
  shows "numbered s s' [fu_id f] []"
proof -
  obtain css f' assets saved where ex: "exclude_stations (oe_runtime E) a (os_excludedChargingStations s)
      (rev (os_stations s (sa_id a))) [] (initial_fuse (oe_runtime E) a (asset_watts E s a) (os_fuseID s),
        asset_amperage (oe_runtime E) a (asset_watts E s a)) = Inr (css, f', x)"
    and f: "f = positive_fuse f'"
    and s': "s' = s\<lparr>os_fuseID := os_fuseID s + 1, os_stations := (os_stations s)(sa_id a := css),
            os_assets := (os_assets s)(sa_id a := assets), os_savedAssets := os_savedAssets s @ saved\<rparr>"
    by (rule buildRootFuse_Inr [OF assms])
  have "fu_id (fst (f', x)) = os_fuseID s"
    using exclusion_id.stations_keep [OF ex, of "os_fuseID s"] by (simp add: initial_fuse_def Let_def)
  then show ?thesis by (simp add: s' f positive_fuse_def numbered_def)
qed

lemma buildChildNodes_id:
  "buildChildNodes E ts s f x nodes = Inr (s', node, y) \<Longrightarrow>
     \<exists>g new. node = Fuse g (nodes @ new) \<and> fu_id g = fu_id f"
proof (induction ts arbitrary: s f x nodes)
  case (Cons t ts)
  then obtain s1 n sub where "buildChildNodes E ts s1 (deductAmperageFromFuse (oe_runtime E) f sub)
      (add_excluded (oe_runtime E) x sub) (nodes @ [n]) = Inr (s', node, y)"
    by (auto simp: res_simps)
  from Cons.IH [OF this] show ?case by (auto simp: deductAmperageFromFuse_def positive_fuse_def)
qed auto

lemma nodes_numbered:
  "buildFuseNodes E t s = Inr (s', node, x) \<Longrightarrow> numbered s s' (fuse_ids node) (connector_ids node)"
  "buildChildNodes E ts s f x nodes = Inr (s', node, y) \<Longrightarrow>
     \<exists>g new. node = Fuse g (nodes @ new) \<and> fu_id g = fu_id f
       \<and> numbered s s' (concat (map fuse_ids new)) (concat (map connector_ids new))"
proof (induction E t s and E ts s f x nodes arbitrary: s' node x and s' node y
    rule: buildFuseNodes_buildChildNodes.induct)
  case (1 E a ts s)
  from "1.prems" obtain s1 f y s2 stations where
    v: "checkIfSiteAreaIsValid a = Inr ()" and r: "buildRootFuse E a s = Inr (s1, f, y)"
    and st: "buildFuseChargingStationNodes E a s1 = Inr (s2, stations)"
    and ch: "buildChildNodes E ts s2 f y stations = Inr (s', node, x)"
    by (auto simp: res_simps)
  from "1.IH" [OF ch] obtain g new where n: "node = Fuse g (stations @ new)" "fu_id g = fu_id f"
    "numbered s2 s' (concat (map fuse_ids new)) (concat (map connector_ids new))" by blast
  from numbered_stations.run_made [OF st [unfolded buildFuseChargingStationNodes_def]]
  have "numbered s1 s2 (concat (map fuse_ids stations)) (concat (map connector_ids stations))" by simp
  from numbered_trans [OF numbered_trans [OF area_numbered [OF r] this] n(3)] n show ?case by simp
next
  case (2 E s f x nodes)
  then show ?case by (auto intro: numbered_refl)
next
  case (3 E t ts s f x nodes)
  from "3.prems" obtain s1 n sub where n: "buildFuseNodes E t s = Inr (s1, n, sub)"
    and r: "buildChildNodes E ts s1 (deductAmperageFromFuse (oe_runtime E) f sub)
      (add_excluded (oe_runtime E) x sub) (nodes @ [n]) = Inr (s', node, y)"
    by (auto simp: res_simps)
  from "3.IH"(2) [OF r] obtain g new where g: "node = Fuse g (nodes @ n # new)" "fu_id g = fu_id f"
    "numbered s1 s' (concat (map fuse_ids new)) (concat (map connector_ids new))"
    by (auto simp: deductAmperageFromFuse_def positive_fuse_def)
  from numbered_trans [OF "3.IH"(1) [OF n] g(3)] g show ?case by fastforce
qed

text \<open>
  C33: In a request every fuse has a number of its own.  The cars are numbered as the connectors are, in the order of
  the tree, and the assignments give every connector its car.
\<close>

theorem request_is_well_numbered:
  assumes "buildOptimizerRequest E t retry s = Inr (s', req)"
  shows "distinct (fuse_ids (or_rootFuse req))
    \<and> map oc_id (or_cars req) = connector_ids (or_rootFuse req)
    \<and> or_carAssignments req = map (\<lambda>i. \<lparr>carID = i, chargingStationID = i\<rparr>) (connector_ids (or_rootFuse req))"
proof -
  obtain s0 node x where n: "buildFuseNodes E t (fresh_request s0) = Inr (s', node, x)" "req = request_of E s' node"
    using assms by (induction E t retry s rule: buildOptimizerRequest.induct) (auto simp: res_simps split: if_splits)
  from nodes_numbered(1) [OF n(1)] show ?thesis by (simp add: n(2) numbered_def fresh_request_def request_of_def)
qed

end
