(* ===== verification/FuseBudget.thy ===== *)
theory FuseBudget
  imports FuseNumbers
begin

text \<open>
  What a fuse holds: in exact arithmetic the power of the site area, less everything that is not planned for in it
  and below it, per phase, and nothing when that is negative.
\<close>

section \<open>Amperages are not negative\<close>

definition amps_ok :: "charging_station \<Rightarrow> bool" where
  "amps_ok cs \<longleftrightarrow>
     (\<forall>p \<in> set (case cs_chargePoints cs of None \<Rightarrow> [] | Some ps \<Rightarrow> ps). 0 \<le> num0 (cp_amperage p))
     \<and> (\<forall>c \<in> set (case cs_connectors cs of None \<Rightarrow> [] | Some cns \<Rightarrow> cns). 0 \<le> num0 (cn_amperage c))"

lemma exact_sel: "exact R \<Longrightarrow> dec R x = x" "exact R \<Longrightarrow> num R x = x" "exact R \<Longrightarrow> fl R p x y = exact_op p x y"
  by (simp_all add: exact_def)

lemma num0_the: "truthy_num v \<Longrightarrow> the v = num0 v"
  by (cases v) simp_all

lemma connector_amps_ok: "amps_ok cs \<Longrightarrow> getConnectorFromID cs i = Some c \<Longrightarrow> 0 \<le> num0 (cn_amperage c)"
  by (auto simp: amps_ok_def getConnectorFromID_def find_Some_iff split: option.splits)

fun either :: "'a + 'a \<Rightarrow> 'a" where
  "either (Inl v) = v"
| "either (Inr v) = v"

lemma charge_points_total_nonneg:
  assumes "exact R" "amps_ok cs"
  shows "\<forall>p \<in> set ps. 0 \<le> num0 (cp_amperage p) \<Longrightarrow> 0 \<le> tot \<Longrightarrow>
     0 \<le> either (charge_points_total R cp_amperage cn_amperage cs cp cid ps tot)"
  using connector_amps_ok [OF assms(2)]
  by (induction ps arbitrary: tot) (auto simp: exact_sel [OF assms(1)] num0_the split: option.split)

lemma connectors_total_nonneg:
  assumes "exact R"
  shows "\<forall>c \<in> set cns. 0 \<le> num0 (cn_amperage c) \<Longrightarrow> 0 \<le> tot \<Longrightarrow>
     0 \<le> either (connectors_total R cn_amperage cid cns tot)"
  by (induction cns arbitrary: tot) (auto simp: exact_sel [OF assms(1)] num0_the Let_def)

lemma amperage_nonneg:
  assumes "exact R" "amps_ok cs"
  shows "0 \<le> getChargingStationAmperage R cs cp cid"
proof -
  let ?t = "case cs_chargePoints cs of None \<Rightarrow> Inr 0
      | Some ps \<Rightarrow> charge_points_total R cp_amperage cn_amperage cs cp cid ps 0"
  have t: "0 \<le> either ?t"
    using charge_points_total_nonneg [OF assms, of _ 0] assms(2) by (auto simp: amps_ok_def split: option.split)
  have "getChargingStationAmperage R cs cp cid = either (station_total R cp_amperage cn_amperage cs cp cid)"
    by (simp add: getChargingStationAmperage_def split: sum.split)
  moreover have "0 \<le> either (station_total R cp_amperage cn_amperage cs cp cid)"
  proof (cases ?t)
    case (Inl v)
    with t show ?thesis by (simp add: station_total_def)
  next
    case (Inr v)
    with t connectors_total_nonneg [OF assms(1), of _ v cid] assms(2) show ?thesis
      by (auto simp: station_total_def amps_ok_def split: option.split)
  qed
  ultimately show ?thesis by simp
qed

section \<open>What is deducted is recorded\<close>

lemma amps_per_phase_nonneg: "exact R \<Longrightarrow> 0 \<le> x \<Longrightarrow> 0 \<le> amps_per_phase R cs cp cid x"
  by (auto simp: amps_per_phase_def Let_def d_ops exact_sel gt_iff DC_CHARGING_STATION_DEFAULT_EFFICIENCY_PERCENT_def
      split: option.splits)

text \<open>
  The amperage of a phase and what was deducted from it add up to the same amount; the other two phases of an area of
  one phase are not used.
\<close>

definition balanced :: "nat \<Rightarrow> rat \<Rightarrow> rat \<Rightarrow> rat \<Rightarrow> fuse \<times> excluded_amperage \<Rightarrow> bool" where
  "balanced phases l1 l2 l3 = (\<lambda>(f, x).
     0 \<le> phase1 x \<and> 0 \<le> phase2 x \<and> 0 \<le> phase3 x \<and> fusePhase1 f + phase1 x = l1
     \<and> fusePhase2 f + phase2 x = l2 \<and> fusePhase3 f + phase3 x = l3
     \<and> (phases = 1 \<longrightarrow> fusePhase2 f = 0 \<and> fusePhase3 f = 0))"

lemma exclude_balanced:
  assumes "exact R" "amps_ok cs" "balanced (sa_numberOfPhases a) l1 l2 l3 fx"
  shows "balanced (sa_numberOfPhases a) l1 l2 l3 (exclude_connector R a cs cp c fx)"
proof -
  note n = amperage_nonneg [OF assms(1,2), of cp "cn_connectorId c"]
  note p = amps_per_phase_nonneg [OF assms(1) n, of cs cp "cn_connectorId c"]
  obtain f x where fx: "fx = (f, x)" by (cases fx)
  show ?thesis
    using assms(3) n p unfolding fx
    by (auto simp: exclude_connector_def exclude_phases balanced_def Let_def exact_sel [OF assms(1)]
        split: option.split ocpp_phase.split)
qed

lemma amps_ok_fewer:
  "amps_ok cs \<Longrightarrow> cs_connectors cs = Some cns \<Longrightarrow> set cns' \<subseteq> set cns \<Longrightarrow> amps_ok (cs\<lparr>cs_connectors := Some cns'\<rparr>)"
  by (auto simp: amps_ok_def)

interpretation exclusion_balance:
  exclusion_law R a "\<lambda>cs. exact R \<and> amps_ok cs" "balanced (sa_numberOfPhases a) l1 l2 l3" for R a l1 l2 l3
  by standard (auto intro: amps_ok_fewer exclude_balanced)

section \<open>The fuse of a site area\<close>

text \<open>
  The amperes of a phase of a site area, its own net production included.
\<close>

definition phase_limit :: "smart_area \<Rightarrow> rat \<Rightarrow> rat" where
  "phase_limit a watts = (the (sa_maximumPower a) + max 0 (- watts)) / sa_voltage a / of_nat (sa_numberOfPhases a)"

definition leaves :: "nat \<Rightarrow> rat \<Rightarrow> fuse \<Rightarrow> excluded_amperage \<Rightarrow> bool" where
  "leaves phases l f x \<longleftrightarrow>
     0 \<le> phase1 x \<and> 0 \<le> phase2 x \<and> 0 \<le> phase3 x \<and> fusePhase1 f = max 0 (l - phase1 x)
     \<and> fusePhase2 f = (if phases = 1 then 0 else max 0 (l - phase2 x))
     \<and> fusePhase3 f = (if phases = 1 then 0 else max 0 (l - phase3 x))"

definition stations_ok :: "optimizer_state \<Rightarrow> bool" where
  "stations_ok s \<longleftrightarrow> (\<forall>i. \<forall>cs \<in> set (os_stations s i). amps_ok cs)"

lemma deduct_leaves:
  assumes "exact R" "leaves n l f x" "0 \<le> phase1 y" "0 \<le> phase2 y" "0 \<le> phase3 y"
  shows "leaves n l (deductAmperageFromFuse R f y) (add_excluded R x y)"
  using assms(2-) unfolding leaves_def deductAmperageFromFuse_def positive_fuse_def add_excluded_def
  by (auto simp: exact_sel [OF assms(1)])

lemma positive_leaves:
  assumes "balanced n l1 l2 l3 (f, x)" "n = 1 \<or> l2 = l \<and> l3 = l" "l1 = l"
  shows "leaves n l (positive_fuse f) x"
  using assms by (auto simp: balanced_def leaves_def positive_fuse_def)

lemma buildRootFuse_leaves:
  assumes "exact (oe_runtime E)" "stations_ok s" "checkIfSiteAreaIsValid a = Inr ()" "buildRootFuse E a s = Inr (s', f, x)"
  shows "leaves (sa_numberOfPhases a) (phase_limit a (asset_watts E s a)) f x \<and> stations_ok s'"
proof -
  let ?R = "oe_runtime E" and ?w = "asset_watts E s a" and ?n = "sa_numberOfPhases a"
  let ?f0 = "initial_fuse ?R a ?w (os_fuseID s)" and ?x0 = "asset_amperage ?R a ?w"
  obtain css f' assets saved where ex: "exclude_stations ?R a (os_excludedChargingStations s)
      (rev (os_stations s (sa_id a))) [] (?f0, ?x0) = Inr (css, f', x)"
    and f: "f = positive_fuse f'"
    and s': "s' = s\<lparr>os_fuseID := os_fuseID s + 1, os_stations := (os_stations s)(sa_id a := css),
            os_assets := (os_assets s)(sa_id a := assets), os_savedAssets := os_savedAssets s @ saved\<rparr>"
    by (rule buildRootFuse_Inr [OF assms(4)])
  let ?l = "phase_limit a ?w"
  have n: "?n = 1 \<or> ?n = 3" and v: "0 < sa_voltage a" "the (sa_maximumPower a) \<noteq> 0"
    using assms(3) by (auto simp: checkIfSiteAreaIsValid_def num0_the truthy_num_iff split: if_splits)
  have l: "fusePhase1 ?f0 + phase1 ?x0 = ?l" "0 \<le> phase1 ?x0"
    using v n unfolding phase_limit_def initial_fuse_def asset_amperage_def Let_def
    by (auto simp: exact_sel [OF assms(1)] d_ops max_def field_simps)
  have "balanced ?n ?l (fusePhase2 ?f0 + phase2 ?x0) (fusePhase3 ?f0 + phase3 ?x0) (?f0, ?x0)"
    using l by (auto simp: balanced_def initial_fuse_def asset_amperage_def Let_def)
  with exclusion_balance.stations_keep [OF ex] assms(1,2)
  have "balanced ?n ?l (fusePhase2 ?f0 + phase2 ?x0) (fusePhase3 ?f0 + phase3 ?x0) (f', x)" "\<forall>cs \<in> set css. amps_ok cs"
    by (auto simp: stations_ok_def)
  moreover have "?n = 1 \<or> fusePhase2 ?f0 + phase2 ?x0 = ?l \<and> fusePhase3 ?f0 + phase3 ?x0 = ?l"
    using n l(1) by (auto simp: initial_fuse_def asset_amperage_def Let_def)
  ultimately show ?thesis using positive_leaves assms(2) f s' by (auto simp: stations_ok_def)
qed

section \<open>The fuses of a tree\<close>

text \<open>A station holds what its connectors hold.\<close>

definition station_sum :: "fuse_node \<Rightarrow> bool" where
  "station_sum n \<longleftrightarrow>
     (\<exists>g fs. n = Fuse g (map ConnectorFuse fs) \<and> fs \<noteq> [] \<and> fusePhase1 g = sum_list (map fusePhase1 fs)
        \<and> fusePhase2 g = sum_list (map fusePhase2 fs) \<and> fusePhase3 g = sum_list (map fusePhase3 fs))"

lemma sum_phase_exact: "exact R \<Longrightarrow> sum_phase R phase fs = sum_list (map phase fs)"
proof -
  assume R: "exact R"
  have "foldl (\<lambda>t f. t + phase f) t0 fs = t0 + sum_list (map phase fs)" for t0
    by (induction fs arbitrary: t0) (simp_all add: add.assoc)
  then show ?thesis by (simp add: sum_phase_def exact_sel [OF R])
qed

interpretation connector_stations:
  invariant_run "connector_node E cs" "\<lambda>_. True" "\<lambda>(s, fs). os_stations s = S" for E cs S
  by standard (auto simp: connector_node_def res_simps split: option.splits)

lemma station_node_made:
  assumes "station_node E (s, nodes) cs = Inr (s', nodes')"
  shows "os_stations s' = os_stations s"
    and "exact (oe_runtime E) \<Longrightarrow> \<exists>new. nodes' = nodes @ new \<and> list_all station_sum new"
proof -
  from assms obtain cns s1 fs where fs: "foldE (connector_node E cs) (s, []) cns = Inr (s1, fs)"
    and s': "s' = s1\<lparr>os_fuseID := os_fuseID s1 + 1\<rparr>"
    and n: "nodes' = (if fs = [] then nodes else nodes @ [buildChargingStationFuse (os_fuseID s1)
        (sum_phase (oe_runtime E) fusePhase1 fs) (sum_phase (oe_runtime E) fusePhase2 fs)
        (sum_phase (oe_runtime E) fusePhase3 fs) fs])"
    by (auto simp: station_node_def Let_def res_simps split: option.splits)
  show "os_stations s' = os_stations s"
    using connector_stations.run_inv [of "os_stations s" "(s, [])" cns E cs "(s1, fs)"] fs
    by (simp add: s' list_all_iff)
  show "\<exists>new. nodes' = nodes @ new \<and> list_all station_sum new" if "exact (oe_runtime E)"
    unfolding n by (auto simp: station_sum_def buildChargingStationFuse_def sum_phase_exact [OF that])
qed

interpretation made_stations:
  producing_run "station_node E" "\<lambda>s s' new. os_stations s' = os_stations s \<and> (exact (oe_runtime E) \<longrightarrow> list_all station_sum new)"
  for E
proof
  fix s s' nodes cs nodes'
  assume "station_node E (s, nodes) cs = Inr (s', nodes')"
  from station_node_made [OF this] numbered_stations.step_made [OF this]
  show "\<exists>new. nodes' = nodes @ new \<and> os_stations s' = os_stations s
      \<and> (exact (oe_runtime E) \<longrightarrow> list_all station_sum new)" by auto
qed auto

lemma station_nodes_made:
  assumes "buildFuseChargingStationNodes E a s = Inr (s', nodes)"
  shows "os_stations s' = os_stations s \<and> (exact (oe_runtime E) \<longrightarrow> list_all station_sum nodes)"
  using made_stations.run_made [OF assms [unfolded buildFuseChargingStationNodes_def]] by simp

text \<open>
  What the nodes of the children add: \<open>kids\<close> holds the node of each and what is excluded in it.
\<close>

definition built_by :: "optimizer_env \<Rightarrow> area_tree \<Rightarrow> fuse_node \<times> excluded_amperage \<Rightarrow> bool" where
  "built_by E t k \<longleftrightarrow> (\<exists>s s'. buildFuseNodes E t s = Inr (s', fst k, snd k))"

definition adds_up :: "excluded_amperage \<Rightarrow> excluded_amperage \<Rightarrow> (fuse_node \<times> excluded_amperage) list \<Rightarrow> bool" where
  "adds_up y x kids \<longleftrightarrow>
     phase1 y = phase1 x + (\<Sum>k\<leftarrow>kids. phase1 (snd k)) \<and> phase2 y = phase2 x + (\<Sum>k\<leftarrow>kids. phase2 (snd k))
     \<and> phase3 y = phase3 x + (\<Sum>k\<leftarrow>kids. phase3 (snd k))"

definition node_leaves :: "optimizer_env \<Rightarrow> area_tree \<Rightarrow> optimizer_state \<Rightarrow> fuse_node \<Rightarrow> excluded_amperage \<Rightarrow> bool" where
  "node_leaves E t s node x \<longleftrightarrow>
     (\<exists>s1 f0 own f stations kids. buildRootFuse E (area_of t) s = Inr (s1, f0, own)
        \<and> list_all2 (built_by E) (childSiteAreas t) kids \<and> list_all station_sum stations
        \<and> node = Fuse f (stations @ map fst kids) \<and> adds_up x own kids
        \<and> leaves (sa_numberOfPhases (area_of t)) (phase_limit (area_of t) (asset_watts E s (area_of t))) f x)"

lemma leaves_nonneg: "leaves n l f x \<Longrightarrow> 0 \<le> phase1 x \<and> 0 \<le> phase2 x \<and> 0 \<le> phase3 x"
  by (simp add: leaves_def)

lemma nodes_leave:
  assumes "exact (oe_runtime E)"
  shows "buildFuseNodes E t s = Inr (s', node, x) \<Longrightarrow> stations_ok s \<Longrightarrow> node_leaves E t s node x \<and> stations_ok s'"
    and "buildChildNodes E ts s f x nodes = Inr (s', node, y) \<Longrightarrow> stations_ok s \<Longrightarrow>
      \<exists>kids g. node = Fuse g (nodes @ map fst kids) \<and> list_all2 (built_by E) ts kids \<and> adds_up y x kids
        \<and> (\<forall>n l. leaves n l f x \<longrightarrow> leaves n l g y) \<and> stations_ok s'"
  using assms
proof (induction E t s and E ts s f x nodes arbitrary: s' node x and s' node y
    rule: buildFuseNodes_buildChildNodes.induct)
  case (1 E a ts s)
  from "1.prems" obtain s1 f own s2 stations where
    v: "checkIfSiteAreaIsValid a = Inr ()" and r: "buildRootFuse E a s = Inr (s1, f, own)"
    and st: "buildFuseChargingStationNodes E a s1 = Inr (s2, stations)"
    and ch: "buildChildNodes E ts s2 f own stations = Inr (s', node, x)"
    by (auto simp: res_simps)
  from buildRootFuse_leaves [OF "1.prems"(3,2) v r] station_nodes_made [OF st] "1.prems"(3)
  have l: "leaves (sa_numberOfPhases a) (phase_limit a (asset_watts E s a)) f own" "stations_ok s2"
    "list_all station_sum stations" by (auto simp: stations_ok_def)
  from "1.IH" [OF ch l(2) "1.prems"(3)] obtain kids g where "node = Fuse g (stations @ map fst kids)"
    "list_all2 (built_by E) ts kids" "adds_up x own kids" "stations_ok s'"
    "leaves (sa_numberOfPhases a) (phase_limit a (asset_watts E s a)) g x" using l(1) by blast
  with l(3) r show ?case unfolding node_leaves_def by (simp del: append_eq_append_conv) blast
next
  case (2 E s f x nodes)
  then show ?case by (auto simp: adds_up_def intro!: exI [of _ "[]"])
next
  case (3 E t ts s f x nodes)
  from "3.prems" obtain s1 n sub where n: "buildFuseNodes E t s = Inr (s1, n, sub)"
    and r: "buildChildNodes E ts s1 (deductAmperageFromFuse (oe_runtime E) f sub)
      (add_excluded (oe_runtime E) x sub) (nodes @ [n]) = Inr (s', node, y)"
    by (auto simp: res_simps)
  from "3.IH"(1) [OF n "3.prems"(2,3)] have sub: "node_leaves E t s n sub" "stations_ok s1" by auto
  from "3.IH"(2) [OF r sub(2) "3.prems"(3)] obtain kids g where
    g: "node = Fuse g (nodes @ n # map fst kids)" "list_all2 (built_by E) ts kids"
    "adds_up y (add_excluded (oe_runtime E) x sub) kids" "stations_ok s'"
    "\<forall>m l. leaves m l (deductAmperageFromFuse (oe_runtime E) f sub) (add_excluded (oe_runtime E) x sub) \<longrightarrow> leaves m l g y"
    by auto
  have "\<forall>m l. leaves m l f x \<longrightarrow> leaves m l g y"
    using g(5) deduct_leaves [OF "3.prems"(3)] sub(1) leaves_nonneg unfolding node_leaves_def by blast
  moreover have "adds_up y x ((n, sub) # kids)"
    using g(3) by (simp add: adds_up_def add_excluded_def exact_sel [OF "3.prems"(3)])
  moreover have "built_by E t (n, sub)" using n by (auto simp: built_by_def)
  ultimately show ?case using g by (intro exI [of _ "(n, sub) # kids"] exI [of _ g]) simp
qed


end
