(* ===== verification/ChargingProfiles.thy ===== *)
theory ChargingProfiles
  imports OptimizerFuses
begin

text \<open>
  Charging profiles from the plan of the optimizer
  (\<open>integration/smart-charging/sap-smart-charging/SapSmartChargingIntegration.ts\<close>) and their way to the stations
  (\<open>SmartChargingIntegration.ts\<close>).  The answer of the optimizer, the parameters stored of a station and the
  outcome of sending a profile to a station are parameters.
\<close>

section \<open>The plan of a car\<close>

record planned_car =
  pl_name :: string
  currentPlan :: "rat list"

text \<open>\<open>name.split('~')\<close>, of which the code uses the first two parts.\<close>

fun split_tilde :: "string \<Rightarrow> string list" where
  "split_tilde [] = [[]]"
| "split_tilde (c # s) =
     (if c = CHR ''~'' then [] # split_tilde s
      else case split_tilde s of [] \<Rightarrow> [[c]] | p # ps \<Rightarrow> (c # p) # ps)"

definition station_of_name :: "string \<Rightarrow> string" where
  "station_of_name name = hd (split_tilde name)"

definition connector_of_name :: "string \<Rightarrow> int option" where
  "connector_of_name name =
     (case split_tilde name of _ # d # _ \<Rightarrow> PricingTimeLimits.convertToInt d | _ \<Rightarrow> Some 0)"

text \<open>The station is searched in every site area; the last one that holds it counts.\<close>

definition find_station :: "smart_area list \<Rightarrow> (string \<Rightarrow> charging_station list) \<Rightarrow> string \<Rightarrow> charging_station option" where
  "find_station siteAreas stations i =
     foldl (\<lambda>found a. case List.find (\<lambda>cs. cs_id cs = i) (stations (sa_id a)) of None \<Rightarrow> found | Some cs \<Rightarrow> Some cs)
       None siteAreas"

definition calculateCarConsumption :: "runtime \<Rightarrow> charging_station \<Rightarrow> connector \<Rightarrow> nat \<Rightarrow> rat \<Rightarrow> rat" where
  "calculateCarConsumption R cs c phases currentLimit =
     (if getChargingStationCurrentType cs None (cn_connectorId c) = Some DC then
        (let efficiency = (case connector_charge_point cs (Some c) of None \<Rightarrow> None | Some p \<Rightarrow> cp_efficiency p)
         in if gt efficiency 0 then
              roundTo R (fl R Times (fl R Divide (fl R Times currentLimit (the efficiency)) 100) (of_nat phases)) 1
            else roundTo R (fl R Times (fl R Times currentLimit DC_CHARGING_STATION_DEFAULT_EFFICIENCY_PERCENT)
                   (of_nat phases)) 1)
      else roundTo R (fl R Times currentLimit (of_nat phases)) 1)"

text \<open>Slots are taken while the plan has power, and at least three of them if there are as many.\<close>

fun plan_periods :: "(rat \<Rightarrow> rat) \<Rightarrow> int \<Rightarrow> nat \<Rightarrow> rat list \<Rightarrow> charging_schedule_period list" where
  "plan_periods f maxPeriods i [] = []"
| "plan_periods f maxPeriods i (x # plan) =
     (if int i < maxPeriods \<and> (0 < x \<or> i < 3)
      then \<lparr>startPeriod = int i * 15 * 60, limit = f x\<rparr> # plan_periods f maxPeriods (i + 1) plan
      else [])"

definition maxScheduleLength :: "string option \<Rightarrow> int" where
  "maxScheduleLength param =
     (case (case param of None \<Rightarrow> None | Some v \<Rightarrow> parseInt v) of None \<Rightarrow> 20 | Some n \<Rightarrow> n)"

definition car_profile ::
    "runtime \<Rightarrow> int \<Rightarrow> (string \<Rightarrow> string option) \<Rightarrow> smart_area list \<Rightarrow> (string \<Rightarrow> charging_station list) \<Rightarrow>
     planned_car \<Rightarrow> charging_profile res" where
  "car_profile R now param siteAreas stations car =
     (let station = station_of_name (pl_name car); connectorID = connector_of_name (pl_name car) in
      case find_station siteAreas stations station of
        None \<Rightarrow> Inl (BackendError ''Charging Station not found'')
      | Some cs \<Rightarrow>
          (case Option.bind connectorID (getConnectorFromID cs) of
             None \<Rightarrow> Inl TypeError
           | Some c \<Rightarrow>
               (case (if truthy_num (cn_chargePointID c) then getChargePointFromID cs (the (cn_chargePointID c)) else None) of
                  None \<Rightarrow> Inl TypeError
                | Some cp \<Rightarrow>
                    (let phases = getNumberOfConnectedPhases cs (Some cp) (cn_connectorId c);
                         periods = plan_periods (calculateCarConsumption R cs c phases)
                                     (maxScheduleLength (param station)) 0 (currentPlan car)
                     in Inr \<lparr>pr_chargingStationID = station, pr_chargePointID = cp_chargePointID cp,
                             pr_connectorID = connectorID,
                             pr_profile = \<lparr>chargingProfileId = connectorID, transactionId = cn_currentTransactionID c,
                               stackLevel = 2,
                               chargingSchedule = \<lparr>duration = int (length periods) * 15 * 60,
                                 startSchedule = Some (now - now mod 900000), chargingSchedulePeriod = periods\<rparr>\<rparr>\<rparr>))))"

definition buildChargingProfilesFromOptimizerResponse ::
    "runtime \<Rightarrow> int \<Rightarrow> (string \<Rightarrow> string option) \<Rightarrow> smart_area list \<Rightarrow> (string \<Rightarrow> charging_station list) \<Rightarrow>
     planned_car list \<Rightarrow> charging_profile list res" where
  "buildChargingProfilesFromOptimizerResponse R now param siteAreas stations cars =
     foldE (\<lambda>ps car. bindE (car_profile R now param siteAreas stations car) (\<lambda>p. Inr (ps @ [p]))) [] cars"

section \<open>Profiles that are in place already\<close>

fun remove_first :: "('a \<Rightarrow> bool) \<Rightarrow> 'a list \<Rightarrow> 'a list" where
  "remove_first p [] = []"
| "remove_first p (x # xs) = (if p x then xs else x # remove_first p xs)"

text \<open>\<open>json\<close> is \<open>JSON.stringify\<close> on a profile.\<close>

definition checkIfChargingProfileAlreadyApplied ::
    "(profile \<Rightarrow> string) \<Rightarrow> charging_profile list \<Rightarrow> charging_profile list \<Rightarrow> charging_profile list" where
  "checkIfChargingProfileAlreadyApplied json current profiles =
     foldl (\<lambda>ps cur.
       let same = (\<lambda>p. transactionId (pr_profile p) = transactionId (pr_profile cur)) in
       case List.find same ps of
         None \<Rightarrow> ps
       | Some p \<Rightarrow> if json (pr_profile p) = json (pr_profile cur) then remove_first same ps else ps) profiles current"

section \<open>Building the profiles of a site\<close>

record optimizer_service =
  sv_now :: int
  sv_config_ok :: bool
  sv_answer :: "optimizer_request \<Rightarrow> planned_car list res"
  sv_parameter :: "string \<Rightarrow> string option"
  sv_json :: "profile \<Rightarrow> string"

text \<open>
  What is read for a site: its site areas with their assets, the stations with their connectors that charge, the
  profiles and the sessions of these stations.
\<close>

record site_data =
  sd_siteAreas :: "smart_area list"
  sd_assets :: "string \<Rightarrow> asset list"
  sd_chargingStations :: "charging_station list"
  sd_env :: optimizer_env

definition attached_stations :: "site_data \<Rightarrow> string \<Rightarrow> charging_station list" where
  "attached_stations D i = filter (\<lambda>cs. cs_siteAreaID cs = Some i) (sd_chargingStations D)"

text \<open>The result \<open>None\<close> is \<open>undefined\<close>: nothing to plan; the list of excluded stations comes with it.\<close>

definition buildChargingProfiles ::
    "optimizer_service \<Rightarrow> site_data \<Rightarrow> string \<Rightarrow> string list \<Rightarrow> (string list \<times> charging_profile list option) res" where
  "buildChargingProfiles V D sourceID ex =
     (if sd_siteAreas D \<noteq> [] \<and> sd_chargingStations D = [] then Inr (ex, None)
      else if sd_siteAreas D \<noteq> [] \<and> list_ex (\<lambda>cs. cs_connectors cs = None) (sd_chargingStations D) then Inl TypeError
      else
        bindE (buildSiteAreasTree (sd_siteAreas D)) (\<lambda>trees.
          case getRootSiteAreaFromSiteAreasTree sourceID trees of
            None \<Rightarrow> Inl TypeError
          | Some t \<Rightarrow>
              bindE (buildOptimizerRequest (sd_env D) t False
                \<lparr>os_fuseID = 0, os_cars = [], os_carAssignments = [], os_excludedChargingStations = ex,
                 os_chargingStationsInError = False, os_stations = attached_stations D,
                 os_assets = sd_assets D, os_savedAssets = []\<rparr>) (\<lambda>(s, req).
              if \<not> sv_config_ok V then Inl (BackendError ''Smart Charging service configuration is incorrect'')
              else if or_cars req = [] then Inr (os_excludedChargingStations s, None)
              else
                bindE (sv_answer V req) (\<lambda>cars.
                bindE (buildChargingProfilesFromOptimizerResponse (oe_runtime (sd_env D)) (sv_now V) (sv_parameter V)
                         (sd_siteAreas D) (os_stations s) cars) (\<lambda>profiles.
                Inr (os_excludedChargingStations s,
                     Some (checkIfChargingProfileAlreadyApplied (sv_json V) (oe_profiles (sd_env D)) profiles)))))))"

section \<open>Applying the profiles\<close>

text \<open>
  The world outside: what a building of profiles returns, whether a station takes a profile, and the station read
  again when it does not.  \<open>ap_sent\<close> are the profiles sent, in order.
\<close>

record 'w apply_world =
  aw_build :: "'w \<Rightarrow> string list \<Rightarrow> 'w \<times> (string list \<times> charging_profile list option) res"
  aw_set :: "'w \<Rightarrow> charging_profile \<Rightarrow> 'w \<times> bool"
  aw_station :: "'w \<Rightarrow> string \<Rightarrow> string option"

record 'w apply_state =
  ap_world :: 'w
  ap_excluded :: "string list"
  ap_sent :: "charging_profile list"

record actions_response =
  inSuccess :: nat
  inError :: nat

definition send_profile :: "'w apply_world \<Rightarrow> 'w apply_state \<Rightarrow> charging_profile \<Rightarrow> 'w apply_state \<times> bool" where
  "send_profile W s p =
     (let (w, ok) = aw_set W (ap_world s) p
      in (s\<lparr>ap_world := w, ap_sent := ap_sent s @ [p]\<rparr>, ok))"

fun send_again :: "'w apply_world \<Rightarrow> nat \<Rightarrow> 'w apply_state \<Rightarrow> charging_profile \<Rightarrow> 'w apply_state \<times> bool" where
  "send_again W 0 s p = (s, False)"
| "send_again W (Suc n) s p =
     (let (s', ok) = send_profile W s p in if ok then (s', True) else send_again W n s' p)"

definition handleRefusedChargingProfile ::
    "'w apply_world \<Rightarrow> 'w apply_state \<Rightarrow> charging_profile \<Rightarrow> ('w apply_state \<times> bool) res" where
  "handleRefusedChargingProfile W s p =
     (let (s', ok) = send_again W 2 s p in
      if ok then Inr (s', True)
      else case aw_station W (ap_world s') (pr_chargingStationID p) of
             None \<Rightarrow> Inl TypeError
           | Some i \<Rightarrow> Inr (s'\<lparr>ap_excluded := ap_excluded s' @ [i]\<rparr>, False))"

definition apply_profile ::
    "'w apply_world \<Rightarrow> 'w apply_state \<times> actions_response \<Rightarrow> charging_profile \<Rightarrow> ('w apply_state \<times> actions_response) res" where
  "apply_profile W = (\<lambda>(s, r) p.
     let (s', ok) = send_profile W s p in
     if ok then Inr (s', r\<lparr>inSuccess := inSuccess r + 1\<rparr>)
     else bindE (handleRefusedChargingProfile W s' p) (\<lambda>(s'', ok).
            if ok then Inr (s'', r\<lparr>inSuccess := inSuccess r + 1\<rparr>) else Inr (s'', r\<lparr>inError := inError r + 1\<rparr>)))"

definition first_limit :: "charging_profile \<Rightarrow> rat" where
  "first_limit p = limit (hd (chargingSchedulePeriod (chargingSchedule (pr_profile p))))"

text \<open>Comparing two profiles reads their first periods; a single profile is not compared.\<close>

definition sort_profiles :: "charging_profile list \<Rightarrow> charging_profile list res" where
  "sort_profiles ps =
     (if 1 < length ps \<and> list_ex (\<lambda>p. chargingSchedulePeriod (chargingSchedule (pr_profile p)) = []) ps
      then Inl TypeError else Inr (sort_key first_limit ps))"

definition apply_run ::
    "'w apply_world \<Rightarrow> 'w apply_state \<Rightarrow> ('w apply_state \<times> actions_response option) res" where
  "apply_run W s =
     (case aw_build W (ap_world s) (ap_excluded s) of
        (w, Inl e) \<Rightarrow> Inl e
      | (w, Inr (ex, None)) \<Rightarrow> Inr (s\<lparr>ap_world := w, ap_excluded := ex\<rparr>, None)
      | (w, Inr (ex, Some ps)) \<Rightarrow>
          bindE (sort_profiles ps) (\<lambda>ps'.
          bindE (foldE (apply_profile W) (s\<lparr>ap_world := w, ap_excluded := ex\<rparr>, \<lparr>inSuccess = 0, inError = 0\<rparr>) ps')
            (\<lambda>(s', r). Inr (s', Some r))))"

text \<open>A run with a failure is followed by a second one; the response is that of the first.\<close>

definition computeAndApplyChargingProfiles ::
    "'w apply_world \<Rightarrow> 'w apply_state \<Rightarrow> ('w apply_state \<times> actions_response option) res" where
  "computeAndApplyChargingProfiles W s =
     bindE (apply_run W s) (\<lambda>(s', r).
       case r of
         None \<Rightarrow> Inr (s', None)
       | Some response \<Rightarrow>
           if 0 < inError response
           then bindE (apply_run W s') (\<lambda>(s'', _). Inr (s'', r)) else Inr (s', r))"

end
