(* ===== verification/ProfileFacts.thy ===== *)
theory ProfileFacts
  imports ChargingProfiles
begin

text \<open>
  Facts about the charging profiles: the name of a car is read back, the plan becomes the schedule, every profile
  is sent in the order of the limits and accounted for.
\<close>

section \<open>Names\<close>

lemma of_char_digit: "m < 10 \<Longrightarrow> (of_char (char_of (m + 48) :: char) :: nat) = m + 48"
  by (simp add: of_char_of)

lemma digit_val_digit: "m < 10 \<Longrightarrow> digit_val (char_of (m + 48)) = Some m" for m :: nat
  by (simp add: digit_val_def of_char_digit Let_def)

lemma read_digits_append_digit:
  assumes "m < 10" "\<forall>c \<in> set xs. \<exists>d. digit_val c = Some d \<and> d < 10"
  shows "read_digits 10 (xs @ [char_of (m + 48)]) acc = Some (num0 (read_digits 10 xs acc) * 10 + int m)"
  using assms by (induction xs arbitrary: acc) (auto simp: digit_val_digit [OF assms(1)])

lemma decimal_text_digits: "\<forall>c \<in> set (decimal_text n). \<exists>d. digit_val c = Some d \<and> d < 10"
proof (induction n rule: decimal_text.induct)
  case (1 n)
  then show ?case by (subst decimal_text.simps) (auto simp: digit_val_digit)
qed

lemma read_decimal_text: "read_digits 10 (decimal_text n) None = Some (int n)"
proof (induction n rule: decimal_text.induct)
  case (1 n)
  show ?case
  proof (cases "n < 10")
    case True
    then show ?thesis by (subst decimal_text.simps) (simp add: digit_val_digit)
  next
    case False
    with 1 read_digits_append_digit [of "n mod 10" "decimal_text (n div 10)" None] decimal_text_digits [of "n div 10"]
    show ?thesis by (subst decimal_text.simps) (simp add: zdiv_int zmod_int)
  qed
qed

lemma digit_plain:
  assumes "digit_val c = Some d" "d < 10"
  shows "\<not> is_ws c" "c \<noteq> CHR ''-''" "c \<noteq> CHR ''+''" "c \<noteq> CHR ''x''" "c \<noteq> CHR ''X''" "c \<noteq> CHR ''~''"
  using assms by (auto simp: digit_val_def is_ws_def Let_def split: if_splits)

lemma parse_decimal_text: "parse_radix (decimal_text n) = Some (int n)"
proof -
  have "parse_radix s = read_digits 10 s None" if "\<forall>c \<in> set s. \<exists>d. digit_val c = Some d \<and> d < 10" for s
    using that digit_plain(4,5) by (cases s rule: parse_radix.cases) auto
  then show ?thesis using decimal_text_digits read_decimal_text by simp
qed

lemma decimal_text_Cons: "\<exists>c cs d. decimal_text n = c # cs \<and> digit_val c = Some d \<and> d < 10"
  using decimal_text_digits [of n] by (cases "decimal_text n") auto

lemma parseInt_decimal_text: "parseInt (decimal_text n) = Some (int n)"
proof -
  obtain c cs d where c: "decimal_text n = c # cs" "digit_val c = Some d" "d < 10" using decimal_text_Cons by blast
  from digit_plain [OF c(2,3)] parse_decimal_text [of n] c(1) show ?thesis by (simp add: parseInt_def)
qed

lemma parseInt_int_text: "PricingTimeLimits.convertToInt (int_text i) = Some i"
proof (cases "i < 0")
  case True
  then have "parseInt (int_text i) = Some i"
    by (simp add: int_text_def parseInt_def parse_decimal_text is_ws_def)
  with True show ?thesis by (simp add: PricingTimeLimits.convertToInt_def int_text_def)
next
  case False
  then show ?thesis by (simp add: PricingTimeLimits.convertToInt_def int_text_def parseInt_decimal_text)
qed

lemma int_text_plain: "CHR ''~'' \<notin> set (int_text i)"
proof -
  have "CHR ''~'' \<notin> set (decimal_text n)" for n
    using decimal_text_digits [of n] digit_plain(6) by blast
  then show ?thesis by (simp add: int_text_def)
qed

lemma split_tilde_plain: "CHR ''~'' \<notin> set s \<Longrightarrow> split_tilde s = [s]"
  by (induction s) auto

lemma split_tilde_first: "CHR ''~'' \<notin> set s \<Longrightarrow> split_tilde (s @ CHR ''~'' # t) = s # split_tilde t"
  by (induction s) auto

text \<open>
  The name given to a car is read back from the answer of the optimizer as the station and the connector of the
  session, whatever they are, as long as the identifier of the station has no tilde.
\<close>

lemma car_names_are_read_back:
  assumes "CHR ''~'' \<notin> set (tx_chargeBoxID tx)"
  shows "station_of_name (car_name tx) = tx_chargeBoxID tx \<and> connector_of_name (car_name tx) = Some (tx_connectorId tx)"
  using split_tilde_first [OF assms, of "int_text (tx_connectorId tx)"] split_tilde_plain [OF int_text_plain]
  by (simp add: station_of_name_def connector_of_name_def car_name_def parseInt_int_text)

section \<open>Plans\<close>

lemma plan_periods_shape:
  "\<exists>n \<le> length plan. plan_periods f m i plan =
      map (\<lambda>k. \<lparr>startPeriod = int (i + k) * 15 * 60, limit = f (plan ! k)\<rparr>) [0..<n]
     \<and> (\<forall>k < n. int (i + k) < m \<and> (0 < plan ! k \<or> i + k < 3))
     \<and> (n < length plan \<longrightarrow> \<not> (int (i + n) < m \<and> (0 < plan ! n \<or> i + n < 3)))"
proof (induction plan arbitrary: i)
  case Nil
  then show ?case by simp
next
  case (Cons x plan)
  show ?case
  proof (cases "int i < m \<and> (0 < x \<or> i < 3)")
    case False
    then show ?thesis by (intro exI [of _ 0]) auto
  next
    case True
    from Cons.IH [of "i + 1"] obtain n where n: "n \<le> length plan"
      "plan_periods f m (i + 1) plan = map (\<lambda>k. \<lparr>startPeriod = int (i + 1 + k) * 15 * 60, limit = f (plan ! k)\<rparr>) [0..<n]"
      "\<forall>k < n. int (i + 1 + k) < m \<and> (0 < plan ! k \<or> i + 1 + k < 3)"
      "n < length plan \<longrightarrow> \<not> (int (i + 1 + n) < m \<and> (0 < plan ! n \<or> i + 1 + n < 3))" by auto
    have "[0..<Suc n] = 0 # map Suc [0..<n]" by (simp add: map_Suc_upt upt_conv_Cons)
    with True n show ?thesis
      by (intro exI [of _ "Suc n"]) (auto simp: o_def less_Suc_eq_0_disj simp del: upt_Suc)
  qed
qed

text \<open>
  C34: The profile made of a plan has a period for each quarter of an hour, in order and without gaps, with the limit
  computed for it.  It ends with the plan, at the number of periods the station can take, or at the first slot
  without power after the third; no slot that it has lies beyond such an end.
\<close>

theorem a_profile_follows_its_plan:
  assumes "car_profile R now param siteAreas stations car = Inr p"
  shows "\<exists>n cs c phases. n \<le> length (currentPlan car)
    \<and> find_station siteAreas stations (station_of_name (pl_name car)) = Some cs \<and> c \<in> set (the (cs_connectors cs))
    \<and> transactionId (pr_profile p) = cn_currentTransactionID c
    \<and> chargingSchedulePeriod (chargingSchedule (pr_profile p)) =
        map (\<lambda>k. \<lparr>startPeriod = int k * 900, limit = calculateCarConsumption R cs c phases (currentPlan car ! k)\<rparr>) [0..<n]
    \<and> duration (chargingSchedule (pr_profile p)) = int n * 900
    \<and> (\<forall>k < n. int k < maxScheduleLength (param (pr_chargingStationID p)) \<and> (0 < currentPlan car ! k \<or> k < 3))
    \<and> (n < length (currentPlan car) \<longrightarrow>
        maxScheduleLength (param (pr_chargingStationID p)) \<le> int n \<or> (currentPlan car ! n \<le> 0 \<and> 3 \<le> n))"
proof -
  let ?i = "station_of_name (pl_name car)" and ?m = "maxScheduleLength (param (station_of_name (pl_name car)))"
  from assms obtain cs c cp where cs: "find_station siteAreas stations ?i = Some cs"
    and c: "Option.bind (connector_of_name (pl_name car)) (getConnectorFromID cs) = Some c"
    and p: "p = \<lparr>pr_chargingStationID = ?i, pr_chargePointID = cp_chargePointID cp,
        pr_connectorID = connector_of_name (pl_name car),
        pr_profile = \<lparr>chargingProfileId = connector_of_name (pl_name car), transactionId = cn_currentTransactionID c,
          stackLevel = 2, chargingSchedule =
            (let periods = plan_periods (calculateCarConsumption R cs c
                   (getNumberOfConnectedPhases cs (Some cp) (cn_connectorId c))) ?m 0 (currentPlan car)
             in \<lparr>duration = int (length periods) * 15 * 60, startSchedule = Some (now - now mod 900000),
                 chargingSchedulePeriod = periods\<rparr>)\<rparr>\<rparr>"
    by (auto simp: car_profile_def Let_def split: option.splits if_splits)
  let ?phases = "getNumberOfConnectedPhases cs (Some cp) (cn_connectorId c)"
  obtain n where "n \<le> length (currentPlan car)"
    "plan_periods (calculateCarConsumption R cs c ?phases) ?m 0 (currentPlan car) =
      map (\<lambda>k. \<lparr>startPeriod = int (0 + k) * 15 * 60, limit = calculateCarConsumption R cs c ?phases (currentPlan car ! k)\<rparr>) [0..<n]"
    "\<forall>k < n. int (0 + k) < ?m \<and> (0 < currentPlan car ! k \<or> 0 + k < 3)"
    "n < length (currentPlan car) \<longrightarrow> \<not> (int (0 + n) < ?m \<and> (0 < currentPlan car ! n \<or> 0 + n < 3))"
    using plan_periods_shape by blast
  moreover have "c \<in> set (the (cs_connectors cs))"
    using c getConnectorFromID_Some by (auto simp: bind_eq_Some_conv)
  ultimately show ?thesis
    unfolding p using cs by (intro exI [of _ n] exI [of _ cs] exI [of _ c] exI [of _ ?phases]) (auto simp: Let_def not_less)
qed

section \<open>Sending\<close>

lemma send_again_sent:
  "send_again W n s p = (s', ok) \<Longrightarrow>
     \<exists>k \<le> n. (ok \<longrightarrow> 0 < k) \<and> (\<not> ok \<longrightarrow> k = n) \<and> ap_sent s' = ap_sent s @ replicate k p \<and> ap_excluded s' = ap_excluded s"
proof (induction n arbitrary: s)
  case 0
  then show ?case by simp
next
  case (Suc n)
  obtain s1 ok1 where 1: "send_profile W s p = (s1, ok1)" by (cases "send_profile W s p")
  then have s1: "ap_sent s1 = ap_sent s @ [p]" "ap_excluded s1 = ap_excluded s"
    by (auto simp: send_profile_def split: prod.splits)
  show ?case
  proof (cases ok1)
    case True
    with Suc.prems 1 s1 show ?thesis by (intro exI [of _ 1]) auto
  next
    case False
    with Suc.prems 1 have "send_again W n s1 p = (s', ok)" by simp
    from Suc.IH [OF this] obtain k where "k \<le> n" "ok \<longrightarrow> 0 < k" "\<not> ok \<longrightarrow> k = n"
      "ap_sent s' = ap_sent s1 @ replicate k p" "ap_excluded s' = ap_excluded s1" by blast
    with s1 show ?thesis by (intro exI [of _ "Suc k"]) simp
  qed
qed

text \<open>
  One profile: it is sent one to three times and counted once; a failure has been refused three times, and the
  station is excluded from then on.
\<close>

lemma apply_profile_accounts:
  assumes "apply_profile W (s, r) p = Inr (s', r')"
  shows "\<exists>k. 1 \<le> k \<and> k \<le> 3 \<and> ap_sent s' = ap_sent s @ replicate k p
    \<and> inSuccess r' + inError r' = inSuccess r + inError r + 1
    \<and> length (ap_excluded s') + inError r = length (ap_excluded s) + inError r'"
proof -
  obtain s1 ok1 where 1: "send_profile W s p = (s1, ok1)" by (cases "send_profile W s p")
  then have s1: "ap_sent s1 = ap_sent s @ [p]" "ap_excluded s1 = ap_excluded s"
    by (auto simp: send_profile_def split: prod.splits)
  show ?thesis
  proof (cases ok1)
    case True
    with assms 1 s1 show ?thesis by (intro exI [of _ 1]) (auto simp: apply_profile_def)
  next
    case False
    obtain s2 ok2 where 2: "send_again W 2 s1 p = (s2, ok2)" by (cases "send_again W 2 s1 p")
    from send_again_sent [OF this] obtain k where k: "k \<le> 2" "ap_sent s2 = ap_sent s1 @ replicate k p"
      "ap_excluded s2 = ap_excluded s1" by blast
    with assms 1 2 False s1 show ?thesis
      by (intro exI [of _ "Suc k"], cases ok2)
        (auto simp: apply_profile_def handleRefusedChargingProfile_def res_simps split: option.splits)
  qed
qed

lemma apply_profiles_account:
  "foldE (apply_profile W) (s, r) ps = Inr (s', r') \<Longrightarrow>
     \<exists>ks. length ks = length ps \<and> (\<forall>k \<in> set ks. 1 \<le> k \<and> k \<le> 3)
       \<and> ap_sent s' = ap_sent s @ concat (map2 replicate ks ps)
       \<and> inSuccess r' + inError r' = inSuccess r + inError r + length ps
       \<and> length (ap_excluded s') + inError r = length (ap_excluded s) + inError r'"
proof (induction ps arbitrary: s r)
  case Nil
  then show ?case by simp
next
  case (Cons p ps)
  then obtain s1 r1 where 1: "apply_profile W (s, r) p = Inr (s1, r1)"
    and 2: "foldE (apply_profile W) (s1, r1) ps = Inr (s', r')" by (auto simp: res_simps)
  from apply_profile_accounts [OF 1] obtain k where k: "1 \<le> k \<and> k \<le> 3" "ap_sent s1 = ap_sent s @ replicate k p"
    "inSuccess r1 + inError r1 = inSuccess r + inError r + 1"
    "length (ap_excluded s1) + inError r = length (ap_excluded s) + inError r1" by blast
  from Cons.IH [OF 2] obtain ks where "length ks = length ps" "\<forall>k \<in> set ks. 1 \<le> k \<and> k \<le> 3"
    "ap_sent s' = ap_sent s1 @ concat (map2 replicate ks ps)"
    "inSuccess r' + inError r' = inSuccess r1 + inError r1 + length ps"
    "length (ap_excluded s') + inError r1 = length (ap_excluded s1) + inError r'" by blast
  with k show ?case by (intro exI [of _ "k # ks"]) auto
qed

text \<open>
  C27: A run that sends profiles sends all that were built, those with the lowest first limit first, each one to three
  times.  Each is counted once, as applied or as failed, and for every failure a station is excluded.
\<close>

theorem every_profile_is_accounted_for:
  assumes "apply_run W s = Inr (s', Some r)"
  shows "\<exists>w ex ps ks. aw_build W (ap_world s) (ap_excluded s) = (w, Inr (ex, Some ps))
    \<and> length ks = length ps \<and> (\<forall>k \<in> set ks. 1 \<le> k \<and> k \<le> 3)
    \<and> ap_sent s' = ap_sent s @ concat (map2 replicate ks (sort_key first_limit ps))
    \<and> inSuccess r + inError r = length ps
    \<and> length (ap_excluded s') = length ex + inError r"
proof -
  from assms obtain w ex ps where b: "aw_build W (ap_world s) (ap_excluded s) = (w, Inr (ex, Some ps))"
    by (auto simp: apply_run_def res_simps split: prod.splits sum.splits option.splits)
  with assms have "foldE (apply_profile W) (s\<lparr>ap_world := w, ap_excluded := ex\<rparr>, \<lparr>inSuccess = 0, inError = 0\<rparr>)
      (sort_key first_limit ps) = Inr (s', r)"
    by (auto simp: apply_run_def res_simps sort_profiles_def split: if_splits)
  from apply_profiles_account [OF this] b show ?thesis by auto
qed

end
