(* ===== verification/SmartChargingSamples.thy ===== *)
theory SmartChargingSamples
  imports FuseBudget ProfileFacts Samples
begin

text \<open>
  A site of two site areas on which the properties of the smart charging are applied, and two runs in which more power
  is given to the optimizer than there is.
\<close>

section \<open>A site\<close>

definition main_area :: smart_area where
  "main_area = \<lparr>sa_id = ''a'', sa_maximumPower = Some 44160, sa_voltage = 230, sa_smartCharging = True,
     sa_accessControl = True, sa_name = ''Main'', sa_siteID = ''si'', sa_numberOfPhases = 3, sa_parentSiteAreaID = None\<rparr>"

definition sub_area :: smart_area where
  "sub_area = main_area\<lparr>sa_id := ''b'', sa_maximumPower := Some 22080, sa_parentSiteAreaID := Some ''a''\<rparr>"

definition site_tree :: area_tree where
  "site_tree = Area main_area [Area sub_area []]"

text \<open>A station of which the first connectors are charging, each with its session.\<close>

definition busy_station :: "string \<Rightarrow> int list \<Rightarrow> charging_station" where
  "busy_station i sessions =
     two_connectors\<lparr>cs_id := i, cs_connectors :=
       Some (map2 (\<lambda>c t. c\<lparr>cn_status := CHARGING, cn_currentTransactionID := Some t\<rparr>)
               (the (cs_connectors two_connectors)) sessions)\<rparr>"

definition session :: "int \<Rightarrow> string \<Rightarrow> int \<Rightarrow> car_transaction" where
  "session n station connectorID =
     tx_transaction.extend (blank_transaction\<lparr>tx_id := n, tx_chargeBoxID := station, tx_connectorId := connectorID\<rparr>)
       \<lparr>tx_car = None, tx_carCatalog = None\<rparr>"

definition site_env :: "car_transaction list \<Rightarrow> optimizer_env" where
  "site_env sessions =
     \<lparr>oe_runtime = utc, oe_now = 0, oe_secondsOfHour = 0, oe_assetActive = False,
      oe_setting = \<lparr>stickyLimitation = False, limitBufferDC = None, limitBufferAC = None\<rparr>,
      oe_profiles = [], oe_transactions = sessions\<rparr>"

definition site_state :: "string list \<Rightarrow> (string \<Rightarrow> charging_station list) \<Rightarrow> optimizer_state" where
  "site_state ex stations =
     \<lparr>os_fuseID = 0, os_cars = [], os_carAssignments = [], os_excludedChargingStations = ex,
      os_chargingStationsInError = False, os_stations = stations, os_assets = (\<lambda>_. []), os_savedAssets = []\<rparr>"

fun node_amps :: "fuse_node \<Rightarrow> rat \<times> rat \<times> rat" where
  "node_amps (Fuse f ns) = (fusePhase1 f, fusePhase2 f, fusePhase3 f)"
| "node_amps (ConnectorFuse f) = (fusePhase1 f, fusePhase2 f, fusePhase3 f)"

definition root_amps :: "(optimizer_state \<times> optimizer_request) res \<Rightarrow> (rat \<times> rat \<times> rat) option" where
  "root_amps r = (case r of Inl e \<Rightarrow> None | Inr (s, req) \<Rightarrow> Some (node_amps (or_rootFuse req)))"

definition planned_cars :: "(optimizer_state \<times> optimizer_request) res \<Rightarrow> nat" where
  "planned_cars r = (case r of Inl e \<Rightarrow> 0 | Inr (s, req) \<Rightarrow> length (or_cars req))"

definition uncontrolled :: charging_station where
  "uncontrolled = (busy_station ''x'' [1])\<lparr>cs_excludeFromSmartCharging := True\<rparr>"

definition site_stations :: "string \<Rightarrow> charging_station list" where
  "site_stations i = (if i = ''a'' then [uncontrolled] else if i = ''b'' then [busy_station ''y'' [2, 3]] else [])"

section \<open>What the request does not know\<close>

text \<open>
  A site area of 64 A on each phase has two stations of 32 A on three phases; one cannot be controlled, the session
  of the other is not found.  The request that is built the second time is for 53 A, as if only the second station
  were there: the first one was removed from the site area by the first attempt.  A request that starts with the
  second station excluded is for 43 A.
\<close>

lemma a_second_attempt_forgets:
  "root_amps (buildOptimizerRequest (site_env []) (Area main_area []) False
      (site_state [] (\<lambda>_. [uncontrolled, busy_station ''y'' [2]]))) = Some (160 / 3, 160 / 3, 160 / 3)
   \<and> root_amps (buildOptimizerRequest (site_env []) (Area main_area []) False
      (site_state [''y''] (\<lambda>_. [uncontrolled, busy_station ''y'' [2]]))) = Some (128 / 3, 128 / 3, 128 / 3)"
  by (intro conjI; code_simp)

text \<open>
  The power of a shared charge point is deducted once; the second connector stays in the site area and is planned for,
  although its station cannot be controlled.
\<close>

definition shared_point :: charging_station where
  "shared_point =
     (busy_station ''x'' [1, 2])\<lparr>cs_excludeFromSmartCharging := True,
       cs_chargePoints := Some (map (\<lambda>p. p\<lparr>cp_sharePowerToAllConnectors := True\<rparr>) (the (cs_chargePoints two_connectors)))\<rparr>"

lemma an_uncontrolled_station_is_planned:
  "planned_cars (buildOptimizerRequest (site_env [session 1 ''x'' 1, session 2 ''x'' 2]) (Area main_area []) False
      (site_state [] (\<lambda>_. [shared_point]))) = 1"
  by code_simp

section \<open>The properties at this site\<close>

lemma site_areas_form_a_tree_witness:
  "buildSiteAreasTree [main_area, sub_area] = Inr [site_tree] \<and> mset (concat (map areas [site_tree])) = mset [main_area, sub_area]"
proof -
  have "buildSiteAreasTree [main_area, sub_area] = Inr [site_tree]" by code_simp
  with site_areas_form_a_tree [of "[main_area, sub_area]"] show ?thesis by (simp add: main_area_def sub_area_def)
qed

definition sample_sessions :: "car_transaction list" where
  "sample_sessions = [session 2 ''y'' 1, session 3 ''y'' 2]"

lemma request_is_well_numbered_witness:
  "\<exists>s' req. buildOptimizerRequest (site_env sample_sessions) site_tree False (site_state [] site_stations) = Inr (s', req)
     \<and> length (or_cars req) = 2 \<and> distinct (fuse_ids (or_rootFuse req))"
proof -
  let ?r = "buildOptimizerRequest (site_env sample_sessions) site_tree False (site_state [] site_stations)"
  have "planned_cars ?r = 2" by code_simp
  then obtain s' req where "?r = Inr (s', req)" "length (or_cars req) = 2"
    by (auto simp: planned_cars_def split: sum.splits)
  with request_is_well_numbered [of "site_env sample_sessions" site_tree False "site_state [] site_stations" s' req]
  show ?thesis by blast
qed


definition sample_profile :: charging_profile where
  "sample_profile =
     \<lparr>pr_chargingStationID = ''y'', pr_chargePointID = 1, pr_connectorID = Some 1,
      pr_profile = \<lparr>chargingProfileId = Some 1, transactionId = Some 2, stackLevel = 2,
        chargingSchedule = \<lparr>duration = 2700, startSchedule = Some 900000, chargingSchedulePeriod =
          [\<lparr>startPeriod = 0, limit = 30\<rparr>, \<lparr>startPeriod = 900, limit = 0\<rparr>, \<lparr>startPeriod = 1800, limit = 0\<rparr>]\<rparr>\<rparr>\<rparr>"

lemma a_profile_follows_its_plan_witness:
  "car_profile utc 1000000 (\<lambda>_. None) [sub_area] site_stations \<lparr>pl_name = ''y~1'', currentPlan = [10, 0, 0, 0, 8]\<rparr> = Inr sample_profile
   \<and> (\<exists>n \<le> 5. duration (chargingSchedule (pr_profile sample_profile)) = int n * 900)"
proof -
  have r: "car_profile utc 1000000 (\<lambda>_. None) [sub_area] site_stations
      \<lparr>pl_name = ''y~1'', currentPlan = [10, 0, 0, 0, 8]\<rparr> = Inr sample_profile" by code_simp
  from a_profile_follows_its_plan [OF r] r show ?thesis by auto
qed

text \<open>A world in which a station takes a profile when it is sent for the third time.\<close>

definition slow_world :: "nat apply_world" where
  "slow_world = \<lparr>aw_build = (\<lambda>w ex. (w, Inr (ex, Some [sample_profile]))), aw_set = (\<lambda>w p. (w + 1, w = 2)),
     aw_station = (\<lambda>w i. Some i)\<rparr>"

lemma every_profile_is_accounted_for_witness:
  "\<exists>s' r. apply_run slow_world \<lparr>ap_world = 0, ap_excluded = [], ap_sent = []\<rparr> = Inr (s', Some r)
     \<and> inSuccess r + inError r = 1 \<and> length (ap_sent s') = 3"
proof -
  have r: "apply_run slow_world \<lparr>ap_world = 0, ap_excluded = [], ap_sent = []\<rparr> =
      Inr (\<lparr>ap_world = 3, ap_excluded = [], ap_sent = [sample_profile, sample_profile, sample_profile]\<rparr>,
           Some \<lparr>inSuccess = 1, inError = 0\<rparr>)"
    by code_simp
  from every_profile_is_accounted_for [OF r] have "inSuccess \<lparr>inSuccess = 1, inError = 0\<rparr> + inError \<lparr>inSuccess = 1, inError = 0\<rparr> = 1"
    by (auto simp: slow_world_def)
  with r show ?thesis by simp
qed

end
