(* ===== verification/TariffProfiles.thy ===== *)
theory TariffProfiles
  imports OptimizerCars
begin

text \<open>
  Charging profiles from tariffs (\<open>integration/smart-charging/SmartChargingIntegration.ts\<close>,
  \<open>convertPricingDefnitionRestriction2ChargingProfle\<close>): the amperage of the connector, the limit for a price, and
  the periods made of the time restrictions.  Of the start of the schedule only the second of the day it is compared
  by is used; it is an argument, as are the tariffs in their order.
\<close>

section \<open>Times of day\<close>

text \<open>\<open>Number\<close> on the digits of a time, as the schema of the tariffs has them.\<close>

definition digits_number :: "string \<Rightarrow> int option" where
  "digits_number s =
     (if s = [] then Some 0
      else if list_all (\<lambda>c. case digit_val c of None \<Rightarrow> False | Some d \<Rightarrow> d < 10) s then read_digits 10 s None
      else None)"

fun split_colon :: "string \<Rightarrow> string list" where
  "split_colon [] = [[]]"
| "split_colon (c # s) =
     (if c = CHR '':'' then [] # split_colon s
      else case split_colon s of [] \<Rightarrow> [[c]] | p # ps \<Rightarrow> (c # p) # ps)"

definition convertString2TimeFromMidnight :: "string \<Rightarrow> int option" where
  "convertString2TimeFromMidnight time =
     (case split_colon time of
        h # m # _ \<Rightarrow>
          (case (digits_number h, digits_number m) of (Some x, Some y) \<Rightarrow> Some (x * 3600 + y * 60) | _ \<Rightarrow> None)
      | _ \<Rightarrow> None)"

section \<open>The amperage of the connector\<close>

text \<open>
  For the whole station the lowest limit of its connectors, otherwise the limit of the connector at the position of
  the identifier.
\<close>

definition lowest_limit :: "connector list \<Rightarrow> rat option" where
  "lowest_limit cns =
     foldl (\<lambda>m c. case (cn_amperageLimit c, m) of (Some x, Some y) \<Rightarrow> if x < y then Some x else m | _ \<Rightarrow> m)
       (cn_amperageLimit (hd cns)) cns"

definition maxamperage :: "charging_station \<Rightarrow> int \<Rightarrow> rat option res" where
  "maxamperage cs connectorID =
     (case cs_connectors cs of
        None \<Rightarrow> Inl TypeError
      | Some cns \<Rightarrow>
          if connectorID \<le> 0 then (if cns = [] then Inl TypeError else Inr (lowest_limit cns))
          else if nat (connectorID - 1) < length cns then Inr (cn_amperageLimit (cns ! nat (connectorID - 1)))
          else Inl TypeError)"

section \<open>The limit for a price\<close>

definition price_share :: "runtime \<Rightarrow> rat \<Rightarrow> rat \<Rightarrow> rat" where
  "price_share R cost amps =
     (if 9 / 10 < cost then 0
      else if 7 / 10 \<le> cost \<and> cost < 9 / 10 then fl R Times (12 / 100) amps
      else if 6 / 10 \<le> cost \<and> cost < 7 / 10 then fl R Times (30 / 100) amps
      else if 5 / 10 \<le> cost \<and> cost < 6 / 10 then fl R Times (40 / 100) amps
      else if 4 / 10 \<le> cost \<and> cost < 5 / 10 then fl R Times (60 / 100) amps
      else if cost \<le> 4 / 10 \<and> 2 / 10 < cost then fl R Times (9 / 10) amps
      else if cost \<le> 2 / 10 then amps
      else 0)"

definition price_limit :: "runtime \<Rightarrow> rat \<Rightarrow> rat \<Rightarrow> rat" where
  "price_limit R cost amps =
     (let share = price_share R cost amps;
          raised = (if 10 \<le> share \<and> share < 24 then 24 else share)
      in if raised < 10 then 0 else raised)"

section \<open>The periods\<close>

record price_period =
  pp_from :: int
  pp_to :: int
  pp_price :: rat

text \<open>\<open>start\<close> is the second of the day at which the schedule starts.\<close>

definition add_price_period ::
    "runtime \<Rightarrow> rat \<Rightarrow> int \<Rightarrow> charging_schedule_period list \<times> int \<Rightarrow> price_period \<Rightarrow> charging_schedule_period list \<times> int" where
  "add_price_period R amps start = (\<lambda>(periods, tot) p.
     let l = price_limit R (pp_price p) amps in
     if 0 \<le> pp_from p - start then
       (periods @ [\<lparr>startPeriod = pp_from p - start, limit = l\<rparr>], tot + (pp_to p - pp_from p))
     else if 0 < pp_to p - start then
       (periods @ [\<lparr>startPeriod = 0, limit = l\<rparr>], tot + (pp_to p - start))
     else (periods, tot))"

definition price_schedule :: "runtime \<Rightarrow> rat \<Rightarrow> int \<Rightarrow> price_period list \<Rightarrow> charging_schedule_period list \<times> int" where
  "price_schedule R amps start tariffs = foldl (add_price_period R amps start) ([], 0) tariffs"

section \<open>Facts\<close>

text \<open>A limit is zero, or at least 24 A: a connector that takes less than 24 A is given more than it takes.\<close>

lemma price_limit_values: "price_limit R u amps = 0 \<or> 24 \<le> price_limit R u amps"
  by (auto simp: price_limit_def Let_def)

lemma cheap_limit_exceeds: "10 \<le> amps \<Longrightarrow> amps < 24 \<Longrightarrow> u \<le> 2 / 10 \<Longrightarrow> amps < price_limit R u amps"
  by (simp add: price_limit_def price_share_def Let_def)

text \<open>
  Tariffs that follow each other from a time before the start: the schedule starts at once and its periods fill it
  without gaps.
\<close>

fun consecutive :: "int \<Rightarrow> price_period list \<Rightarrow> int \<Rightarrow> bool" where
  "consecutive a [] b \<longleftrightarrow> a = b"
| "consecutive a (p # ps) b \<longleftrightarrow> pp_from p = a \<and> a < pp_to p \<and> consecutive (pp_to p) ps b"

lemma consecutive_le: "consecutive a ps b \<Longrightarrow> a \<le> b"
  by (induction a ps b rule: consecutive.induct) auto

lemma price_schedule_later:
  "consecutive a ps b \<Longrightarrow> start \<le> a \<Longrightarrow>
     foldl (add_price_period R amps start) (qs, tot) ps =
       (qs @ map (\<lambda>p. \<lparr>startPeriod = pp_from p - start, limit = price_limit R (pp_price p) amps\<rparr>) ps, tot + (b - a))"
proof (induction a ps b arbitrary: qs tot rule: consecutive.induct)
  case (2 a p ps b)
  then show ?case by (simp add: add_price_period_def Let_def)
qed simp

lemma price_schedule_total:
  "consecutive a ps b \<Longrightarrow> a \<le> start \<Longrightarrow> start \<le> b \<Longrightarrow>
     snd (foldl (add_price_period R amps start) (qs, tot) ps) = tot + (b - start)"
proof (induction a ps b arbitrary: qs tot rule: consecutive.induct)
  case (2 a p ps b)
  show ?case
  proof (cases "pp_from p = start \<or> start < pp_to p")
    case True
    then have "pp_from p = start \<or> pp_from p < start \<and> start < pp_to p" using 2 by auto
    then show ?thesis
    proof
      assume e: "pp_from p = start"
      with 2 price_schedule_later [of "pp_from p" "p # ps" b start R amps qs tot] show ?thesis by simp
    next
      assume "pp_from p < start \<and> start < pp_to p"
      with 2 price_schedule_later [of "pp_to p" ps b start R amps] show ?thesis
        by (simp add: add_price_period_def Let_def)
    qed
  next
    case False
    with 2 show ?thesis by (simp add: add_price_period_def Let_def)
  qed
qed simp

end
