(* ===== verification/StationTemplates.thy ===== *)
theory StationTemplates
  imports SessionState
begin

text \<open>
  The templates of the vendors (\<open>server/ocpp/utils/OCPPUtils.ts\<close>): which template a station gets, and what it sets
  in the station and in a new connector.  A pattern of a template is a regular expression, whose test is the
  parameter \<open>tv_regex\<close>; the site areas of the tenant are the parameter \<open>tv_phases\<close>, their number of phases.
\<close>

section \<open>The stored station\<close>

text \<open>
  The fields of a station that the messages about a session do not touch (\<open>types/ChargingStation.ts\<close>).  A text of
  a boot notification is an own property of the station even when the message does not have it; the store turns
  what is missing into null.  \<open>cs_supportChargingProfiles\<close> is the truth value of that field of the capabilities.
\<close>

datatype text_property = Absent | Undefined | Null | Text string

datatype charging_rate_unit = WATT | AMPERE

datatype ocpp_protocol = SOAP | JSON

record capabilities =
  supportStaticLimitation :: "bool option"
  supportChargingProfiles :: "bool option"
  supportCreditCard :: "bool option"
  supportRemoteStartStopTransaction :: "bool option"

record station_document = charging_station +
  sd_chargePointModel :: string
  sd_chargePointSerialNumber :: text_property
  sd_chargeBoxSerialNumber :: text_property
  sd_firmwareVersion :: text_property
  sd_firmwareUpdateStatus :: "string option"
  sd_templateHash :: "string option"
  sd_templateHashTechnical :: "string option"
  sd_templateHashCapabilities :: "string option"
  sd_templateHashOcppStandard :: "string option"
  sd_templateHashOcppVendor :: "string option"
  sd_manualConfiguration :: bool
  sd_masterSlave :: bool
  sd_powerLimitUnit :: "charging_rate_unit option"
  sd_capabilities :: "capabilities option"
  sd_ocppStandardParameters :: "(string \<times> string) list option"
  sd_ocppVendorParameters :: "(string \<times> string) list option"
  sd_ocppProtocol :: ocpp_protocol
  sd_tokenID :: "string option"
  sd_forceInactive :: bool
  sd_createdOn :: "int option"
  sd_lastReboot :: "int option"
  sd_lastSeen :: "int option"
  sd_currentIPAddress :: "string option"
  sd_cloudHostIP :: "string option"
  sd_cloudHostName :: "string option"
  sd_chargingStationURL :: "string option"

section \<open>Templates\<close>

text \<open>The hashes are computed when a template is saved.\<close>

record template_connector =
  tc_connectorId :: int
  tc_type :: "connector_type option"
  tc_power :: "rat option"
  tc_amperage :: "rat option"
  tc_voltage :: "rat option"
  tc_chargePointID :: "int option"
  tc_currentType :: "current_type option"
  tc_numberOfConnectedPhase :: "nat option"

record template_technical =
  tt_masterSlave :: bool
  tt_maximumPower :: "rat option"
  tt_voltage :: "rat option"
  tt_powerLimitUnit :: "charging_rate_unit option"
  tt_chargePoints :: "charge_point list option"
  tt_connectors :: "template_connector list option"

text \<open>A section of a template is for certain firmwares (patterns) and OCPP versions; missing lists are undefined.\<close>

record 'a template_section =
  sx_supportedFirmwareVersions :: "string list option"
  sx_supportedOcppVersions :: "string list option"
  sx_content :: 'a

text \<open>The parameters of a section are an object: pairs in the order in which its keys are enumerated.\<close>

record station_template =
  tp_id :: string
  tp_hash :: string
  tp_hashTechnical :: string
  tp_hashCapabilities :: string
  tp_hashOcppStandard :: string
  tp_hashOcppVendor :: string
  tp_chargePointVendor :: string
  tp_extraFilters :: "(string \<times> string) list"
  tp_technical :: "template_technical option"
  tp_capabilities :: "capabilities option template_section list option"
  tp_ocppStandardParameters :: "(string \<times> string) list template_section list option"
  tp_ocppVendorParameters :: "(string \<times> string) list template_section list option"

record template_env =
  tv_templates :: "station_template list"
  tv_regex :: "string \<Rightarrow> string \<Rightarrow> bool"
  tv_phases :: "string \<Rightarrow> nat option"

section \<open>Which template\<close>

definition undefined_text :: string where "undefined_text = ''undefined''"

fun tested_text :: "text_property \<Rightarrow> string" where
  "tested_text (Text s) = s"
| "tested_text Null = ''null''"
| "tested_text _ = undefined_text"

text \<open>The filters of the templates are about texts of the station.\<close>

definition station_property :: "'a station_document_scheme \<Rightarrow> string \<Rightarrow> text_property" where
  "station_property cs name =
     (if name = ''chargePointModel'' then Text (sd_chargePointModel cs)
      else if name = ''chargeBoxSerialNumber'' then sd_chargeBoxSerialNumber cs
      else if name = ''chargePointSerialNumber'' then sd_chargePointSerialNumber cs
      else if name = ''chargePointVendor'' then Text (cs_chargePointVendor cs)
      else Absent)"

definition getChargingStationTemplates :: "template_env \<Rightarrow> string \<Rightarrow> station_template list" where
  "getChargingStationTemplates E vendor = filter (\<lambda>t. tv_regex E (tp_chargePointVendor t) vendor) (tv_templates E)"

definition extra_filters_match :: "template_env \<Rightarrow> 'a station_document_scheme \<Rightarrow> station_template \<Rightarrow> bool" where
  "extra_filters_match E cs t =
     list_all (\<lambda>(name, pattern). station_property cs name = Absent
                 \<or> tv_regex E pattern (tested_text (station_property cs name))) (tp_extraFilters t)"

definition getChargingStationTemplate :: "template_env \<Rightarrow> 'a station_document_scheme \<Rightarrow> station_template option" where
  "getChargingStationTemplate E cs =
     List.find (extra_filters_match E cs) (getChargingStationTemplates E (cs_chargePointVendor cs))"

section \<open>A connector\<close>

definition find_template_connector :: "template_technical \<Rightarrow> int \<Rightarrow> template_connector list \<Rightarrow> template_connector option" where
  "find_template_connector tt i tcs =
     (if tt_masterSlave tt then (case tcs of [] \<Rightarrow> None | tc # _ \<Rightarrow> Some tc)
      else List.find (\<lambda>tc. tc_connectorId tc = i) tcs)"

definition set_template_connector :: "template_connector \<Rightarrow> connector \<Rightarrow> connector" where
  "set_template_connector tc cn =
     cn\<lparr>cn_type := tc_type tc, cn_power := tc_power tc, cn_amperage := tc_amperage tc,
        cn_chargePointID := tc_chargePointID tc, cn_voltage := tc_voltage tc, cn_currentType := tc_currentType tc,
        cn_numberOfConnectedPhase := tc_numberOfConnectedPhase tc\<rparr>"

definition add_master_slave :: "runtime \<Rightarrow> charge_point \<Rightarrow> connector \<Rightarrow> charge_point" where
  "add_master_slave R p cn =
     p\<lparr>cp_amperage := nan_add R (cp_amperage p) (cn_amperage cn), cp_power := nan_add R (cp_power p) (cn_power cn),
       cp_connectorIDs := cp_connectorIDs p @ [cn_connectorId cn]\<rparr>"

definition adjustChargingStationChargePointForMasterSlave :: "runtime \<Rightarrow> charging_station \<Rightarrow> charging_station res" where
  "adjustChargingStationChargePointForMasterSlave R cs =
     (case (cs_chargePoints cs, cs_connectors cs) of
        (Some (p # ps), Some cns) \<Rightarrow>
          Inr (cs\<lparr>cs_chargePoints := Some
            (foldl (add_master_slave R) (p\<lparr>cp_amperage := Some 0, cp_power := Some 0, cp_connectorIDs := []\<rparr>) cns # ps)\<rparr>)
      | _ \<Rightarrow> Inl TypeError)"

text \<open>\<open>StaticLimitAmps.MIN_LIMIT_PER_PHASE\<close> is six.\<close>

definition checkAndGetConnectorAmperageLimit :: "runtime \<Rightarrow> charging_station \<Rightarrow> connector \<Rightarrow> nat \<Rightarrow> rat" where
  "checkAndGetConnectorAmperageLimit R cs cn phases =
     (let least = fl R Times 6 (of_nat phases) in
      if truthy_num (cn_amperageLimit cn) \<and> the (cn_amperageLimit cn) < least then least
      else getChargingStationAmperage R cs None (cn_connectorId cn))"

definition checkAndSetConnectorAmperageLimit :: "runtime \<Rightarrow> charging_station \<Rightarrow> nat \<Rightarrow> connector \<Rightarrow> connector" where
  "checkAndSetConnectorAmperageLimit R cs phases cn =
     (let limit = checkAndGetConnectorAmperageLimit R cs cn phases in
      if limit \<noteq> 0 then cn\<lparr>cn_amperageLimit := Some limit\<rparr> else cn)"

definition phase_assignment :: "nat \<Rightarrow> phase_assignment_to_grid option" where
  "phase_assignment phases =
     (if phases = 3 then Some \<lparr>csPhaseL1 = Some L1, csPhaseL2 = Some L2, csPhaseL3 = Some L3\<rparr>
      else if phases = 1 then Some \<lparr>csPhaseL1 = Some L1, csPhaseL2 = None, csPhaseL3 = None\<rparr>
      else None)"

definition setConnectorPhaseAssignment ::
    "template_env \<Rightarrow> charging_station \<Rightarrow> nat \<Rightarrow> connector \<Rightarrow> connector res" where
  "setConnectorPhaseAssignment E cs phases cn =
     (if truthy_str (cs_siteAreaID cs) then
        (case tv_phases E (the (cs_siteAreaID cs)) of
           None \<Rightarrow> Inl TypeError
         | Some n \<Rightarrow> Inr (cn\<lparr>cn_phaseAssignmentToGrid := if n = 3 then phase_assignment phases else None\<rparr>))
      else Inr (cn\<lparr>cn_phaseAssignmentToGrid := phase_assignment phases\<rparr>))"

text \<open>
  The limit and the phases, once the connector has the values of the template and the charge point of a
  master/slave station those of its connectors; \<open>present\<close>: the connector has the property of its phases.
\<close>

definition limit_and_phases ::
    "runtime \<Rightarrow> template_env \<Rightarrow> bool \<Rightarrow> int \<Rightarrow> charging_station \<Rightarrow> charging_station res" where
  "limit_and_phases R E present i cs =
     (case getConnectorFromID cs i of
        None \<Rightarrow> Inr cs
      | Some cn \<Rightarrow>
          (let phases = getNumberOfConnectedPhases cs None i;
               cn1 = checkAndSetConnectorAmperageLimit R cs phases cn
           in bindE (if present then Inr cn1 else setConnectorPhaseAssignment E cs phases cn1)
                (\<lambda>cn2. Inr (change_connector i (\<lambda>_. cn2) cs))))"

text \<open>An unknown connector of a station that is configured by hand is added to its first charge point.\<close>

definition add_unknown_connector :: "int \<Rightarrow> charging_station \<Rightarrow> charging_station" where
  "add_unknown_connector i cs =
     (case cs_chargePoints cs of
        Some (p # ps) \<Rightarrow>
          if i \<in> set (cp_connectorIDs p) then cs
          else cs\<lparr>cs_chargePoints := Some (p\<lparr>cp_connectorIDs := cp_connectorIDs p @ [i]\<rparr> # ps)\<rparr>
      | _ \<Rightarrow> cs)"

definition enrich_connector ::
    "runtime \<Rightarrow> template_env \<Rightarrow> bool \<Rightarrow> int \<Rightarrow> template_technical \<Rightarrow> template_connector list \<Rightarrow> charging_station \<Rightarrow>
       (charging_station \<times> bool) res" where
  "enrich_connector R E present i tt tcs cs =
     (case find_template_connector tt i tcs of
        None \<Rightarrow> Inr (cs, False)
      | Some tc \<Rightarrow>
          bindE
            (let cs1 = change_connector i (set_template_connector tc) cs in
             if tt_masterSlave tt then adjustChargingStationChargePointForMasterSlave R cs1 else Inr cs1)
            (\<lambda>cs2. bindE (limit_and_phases R E present i cs2) (\<lambda>cs3. Inr (cs3, True))))"

definition enrichChargingStationConnectorWithTemplate ::
    "runtime \<Rightarrow> template_env \<Rightarrow> bool \<Rightarrow> int \<Rightarrow> station_document \<Rightarrow> (charging_station \<times> bool) res" where
  "enrichChargingStationConnectorWithTemplate R E present i d =
     (let cs = charging_station.truncate d in
      if sd_manualConfiguration d then Inr (add_unknown_connector i cs, False)
      else
        (case Option.bind (Option.bind (getChargingStationTemplate E d) tp_technical)
                (\<lambda>tt. map_option (Pair tt) (tt_connectors tt)) of
           None \<Rightarrow> Inr (cs, False)
         | Some (tt, tcs) \<Rightarrow> enrich_connector R E present i tt tcs cs))"

end
