(* ===== verification/TemplateSections.thy ===== *)
theory TemplateSections
  imports StationTemplates "HOL-Library.Sublist"
begin

text \<open>
  A template applied to a station (\<open>server/ocpp/utils/OCPPUtils.ts\<close>): its technical values, capabilities and OCPP
  parameters, each of which has a hash so that it is applied only when it has changed.  The lemmas show that
  what was applied is not applied again.
\<close>

section \<open>The section for a firmware and an OCPP version\<close>

fun ocpp_version_text :: "ocpp_version \<Rightarrow> string" where
  "ocpp_version_text VERSION_15 = ''1.5''"
| "ocpp_version_text VERSION_16 = ''1.6''"
| "ocpp_version_text VERSION_20 = ''2.0''"

text \<open>Both marks are set before the loop and are not reset between the sections.\<close>

fun matching_section ::
    "(string \<Rightarrow> bool) \<Rightarrow> string \<Rightarrow> bool \<Rightarrow> bool \<Rightarrow> 'a template_section list \<Rightarrow> 'a template_section option" where
  "matching_section firmware version matchFirmware matchOcpp [] = None"
| "matching_section firmware version matchFirmware matchOcpp (s # ss) =
     (let mf = matchFirmware \<or> (case sx_supportedFirmwareVersions s of None \<Rightarrow> False | Some ps \<Rightarrow> list_ex firmware ps);
          mo = (case sx_supportedOcppVersions s of None \<Rightarrow> matchOcpp | Some vs \<Rightarrow> version \<in> set vs)
      in if mf \<and> mo then Some s else matching_section firmware version mf mo ss)"

definition section_for :: "template_env \<Rightarrow> station_document \<Rightarrow> 'a template_section list \<Rightarrow> 'a template_section option" where
  "section_for E d ss =
     matching_section (\<lambda>p. tv_regex E p (tested_text (sd_firmwareVersion d))) (ocpp_version_text (cs_ocppVersion d)) False False ss"

section \<open>Technical values\<close>

definition or_kept :: "('a option \<Rightarrow> bool) \<Rightarrow> 'a option \<Rightarrow> 'a option \<Rightarrow> 'a option" where
  "or_kept present new old = (if present new then new else old)"

definition enrichChargingStationWithTemplateTechnicalParams ::
    "station_template \<Rightarrow> station_document \<Rightarrow> station_document \<times> bool" where
  "enrichChargingStationWithTemplateTechnicalParams t d =
     (if sd_templateHashTechnical d = Some (tp_hashTechnical t) then (d, False)
      else
        ((case tp_technical t of
            None \<Rightarrow> d
          | Some tt \<Rightarrow>
              d\<lparr>cs_maximumPower := or_kept truthy_num (tt_maximumPower tt) (cs_maximumPower d),
                sd_masterSlave := tt_masterSlave tt \<or> sd_masterSlave d,
                cs_chargePoints := or_kept (\<lambda>v. v \<noteq> None) (tt_chargePoints tt) (cs_chargePoints d),
                sd_powerLimitUnit := or_kept (\<lambda>v. v \<noteq> None) (tt_powerLimitUnit tt) (sd_powerLimitUnit d),
                cs_voltage := or_kept truthy_num (tt_voltage tt) (cs_voltage d)\<rparr>)
          \<lparr>sd_templateHashTechnical := Some (tp_hashTechnical t)\<rparr>, True))"

section \<open>Capabilities\<close>

definition set_capabilities :: "capabilities option \<Rightarrow> station_document \<Rightarrow> station_document" where
  "set_capabilities c d =
     d\<lparr>sd_capabilities := c, cs_supportChargingProfiles := (Option.bind c supportChargingProfiles = Some True)\<rparr>"

definition no_capabilities :: capabilities where
  "no_capabilities = \<lparr>supportStaticLimitation = None, supportChargingProfiles = None, supportCreditCard = None,
     supportRemoteStartStopTransaction = None\<rparr>"

definition enrichChargingStationWithTemplateCapabilities ::
    "template_env \<Rightarrow> station_template \<Rightarrow> station_document \<Rightarrow> station_document \<times> bool" where
  "enrichChargingStationWithTemplateCapabilities E t d =
     (if sd_templateHashCapabilities d = Some (tp_hashCapabilities t) then (d, False)
      else
        (let d1 = set_capabilities (Some no_capabilities) d in
         case Option.bind (tp_capabilities t) (section_for E d1) of
           None \<Rightarrow> (d1, False)
         | Some s \<Rightarrow>
             ((set_capabilities (sx_content s)
                 (if Option.bind (sx_content s) supportChargingProfiles = Some False
                  then d1\<lparr>cs_excludeFromSmartCharging := True\<rparr> else d1))
               \<lparr>sd_templateHashCapabilities := Some (tp_hashCapabilities t)\<rparr>, True)))"

section \<open>OCPP parameters\<close>

definition OCPP_HEARTBEAT_KEYS :: "string list" where
  "OCPP_HEARTBEAT_KEYS = [''HeartbeatInterval'', ''HeartBeatInterval'']"

definition isOcppParamForPowerLimitationKey :: "string \<Rightarrow> station_document \<Rightarrow> bool res" where
  "isOcppParamForPowerLimitationKey key d =
     (case cs_chargePoints d of
        None \<Rightarrow> Inl TypeError
      | Some ps \<Rightarrow> Inr (list_ex (\<lambda>p. truthy_str (cp_ocppParamForPowerLimitation p)
                              \<and> sublist (the (cp_ocppParamForPowerLimitation p)) key) ps))"

definition kept_parameters :: "station_document \<Rightarrow> (string \<times> string) list \<Rightarrow> (string \<times> string) list res" where
  "kept_parameters d ps =
     foldE (\<lambda>kept p. bindE (isOcppParamForPowerLimitationKey (fst p) d) (\<lambda>limits.
              Inr (if limits \<or> fst p \<in> set OCPP_HEARTBEAT_KEYS then kept else kept @ [p]))) [] ps"

text \<open>The parameters of a station from the sections of its template, and whether a section was found.\<close>

definition enrichChargingStationWithTemplateOcppParams ::
    "template_env \<Rightarrow> (string \<times> string) list template_section list option \<Rightarrow> station_document \<Rightarrow>
       ((string \<times> string) list \<times> bool) res" where
  "enrichChargingStationWithTemplateOcppParams E ss d =
     (case Option.bind ss (section_for E d) of
        None \<Rightarrow> Inr ([], False)
      | Some s \<Rightarrow> bindE (kept_parameters d (sx_content s)) (\<lambda>ps. Inr (ps, True)))"

definition enrichChargingStationWithTemplateOcppStandardParams ::
    "template_env \<Rightarrow> station_template \<Rightarrow> station_document \<Rightarrow> (station_document \<times> bool) res" where
  "enrichChargingStationWithTemplateOcppStandardParams E t d =
     (if sd_templateHashOcppStandard d = Some (tp_hashOcppStandard t) then Inr (d, False)
      else
        bindE (enrichChargingStationWithTemplateOcppParams E (tp_ocppStandardParameters t) d) (\<lambda>(ps, found).
          Inr (d\<lparr>sd_templateHashOcppStandard := Some (tp_hashOcppStandard t), sd_ocppStandardParameters := Some ps\<rparr>, found)))"

definition enrichChargingStationWithTemplateOcppVendorParams ::
    "template_env \<Rightarrow> station_template \<Rightarrow> station_document \<Rightarrow> (station_document \<times> bool) res" where
  "enrichChargingStationWithTemplateOcppVendorParams E t d =
     (if sd_templateHashOcppVendor d = Some (tp_hashOcppVendor t) then Inr (d, False)
      else
        bindE (enrichChargingStationWithTemplateOcppParams E (tp_ocppVendorParameters t) d) (\<lambda>(ps, found).
          Inr (d\<lparr>sd_templateHashOcppVendor := Some (tp_hashOcppVendor t), sd_ocppVendorParameters := Some ps\<rparr>, found)))"

section \<open>The whole template\<close>

record template_update_result =
  chargingStationUpdated :: bool
  technicalUpdated :: bool
  capabilitiesUpdated :: bool
  ocppStandardUpdated :: bool
  ocppVendorUpdated :: bool

definition nothing_updated :: template_update_result where
  "nothing_updated = \<lparr>chargingStationUpdated = False, technicalUpdated = False, capabilitiesUpdated = False,
     ocppStandardUpdated = False, ocppVendorUpdated = False\<rparr>"

definition apply_template ::
    "template_env \<Rightarrow> station_template \<Rightarrow> station_document \<Rightarrow> (station_document \<times> template_update_result) res" where
  "apply_template E t d =
     (if sd_templateHash d = Some (tp_hash t) then Inr (d, nothing_updated)
      else
        (let (d1, technical) = enrichChargingStationWithTemplateTechnicalParams t d;
             (d2, capable) = enrichChargingStationWithTemplateCapabilities E t d1 in
         bindE (enrichChargingStationWithTemplateOcppStandardParams E t d2) (\<lambda>(d3, standard).
         bindE (enrichChargingStationWithTemplateOcppVendorParams E t d3) (\<lambda>(d4, vendor).
           Inr (d4\<lparr>sd_templateHash := Some (tp_hash t)\<rparr>,
             \<lparr>chargingStationUpdated = True, technicalUpdated = technical, capabilitiesUpdated = capable,
              ocppStandardUpdated = standard, ocppVendorUpdated = vendor\<rparr>)))))"

definition override_charge_points :: "station_template \<Rightarrow> station_document \<Rightarrow> station_document res" where
  "override_charge_points t d =
     (case tp_technical t of
        None \<Rightarrow> Inl TypeError
      | Some tt \<Rightarrow> Inr (if tt_masterSlave tt \<and> tt_chargePoints tt \<noteq> None
                        then d\<lparr>cs_chargePoints := tt_chargePoints tt\<rparr> else d))"

definition enrichChargingStationWithTemplate ::
    "template_env \<Rightarrow> station_document \<Rightarrow> (station_document \<times> template_update_result) res" where
  "enrichChargingStationWithTemplate E d =
     (if sd_manualConfiguration d then Inr (d, nothing_updated)
      else
        (case getChargingStationTemplate E d of
           None \<Rightarrow> Inr (d\<lparr>sd_manualConfiguration := True\<rparr>, nothing_updated)
         | Some t \<Rightarrow>
             bindE (apply_template E t d) (\<lambda>(d1, r). bindE (override_charge_points t d1) (\<lambda>d2. Inr (d2, r)))))"

section \<open>A template is applied once\<close>

text \<open>What the choice of the template reads of a station.\<close>

definition same_model :: "station_document \<Rightarrow> station_document \<Rightarrow> bool" where
  "same_model d d' \<longleftrightarrow> cs_chargePointVendor d' = cs_chargePointVendor d \<and> sd_chargePointModel d' = sd_chargePointModel d
     \<and> sd_chargeBoxSerialNumber d' = sd_chargeBoxSerialNumber d
     \<and> sd_chargePointSerialNumber d' = sd_chargePointSerialNumber d
     \<and> sd_manualConfiguration d' = sd_manualConfiguration d"

lemma same_model_template:
  assumes "same_model d d'"
  shows "getChargingStationTemplate E d' = getChargingStationTemplate E d"
proof -
  from assms have "station_property d' = station_property d"
    by (simp add: same_model_def station_property_def fun_eq_iff)
  then have "extra_filters_match E d' = extra_filters_match E d"
    by (simp add: extra_filters_match_def fun_eq_iff)
  with assms show ?thesis by (simp add: same_model_def getChargingStationTemplate_def)
qed

lemma template_steps_keep_the_model:
  "same_model d (fst (enrichChargingStationWithTemplateTechnicalParams t d))"
  "same_model d (fst (enrichChargingStationWithTemplateCapabilities E t d))"
  "enrichChargingStationWithTemplateOcppStandardParams E t d = Inr x \<Longrightarrow> same_model d (fst x)"
  "enrichChargingStationWithTemplateOcppVendorParams E t d = Inr x \<Longrightarrow> same_model d (fst x)"
  by (auto simp: same_model_def enrichChargingStationWithTemplateTechnicalParams_def
      enrichChargingStationWithTemplateCapabilities_def enrichChargingStationWithTemplateOcppStandardParams_def
      enrichChargingStationWithTemplateOcppVendorParams_def set_capabilities_def Let_def res_simps
      split: option.splits if_splits prod.splits)

lemma same_model_trans: "same_model a b \<Longrightarrow> same_model b c \<Longrightarrow> same_model a c"
  by (simp add: same_model_def)

lemma applied_template:
  assumes "apply_template E t d = Inr (d', r)"
  shows "same_model d d' \<and> sd_templateHash d' = Some (tp_hash t)"
proof (cases "sd_templateHash d = Some (tp_hash t)")
  case True
  with assms show ?thesis by (simp add: apply_template_def same_model_def)
next
  case False
  define d1 d2 where "d1 = fst (enrichChargingStationWithTemplateTechnicalParams t d)"
    and "d2 = fst (enrichChargingStationWithTemplateCapabilities E t d1)"
  from assms False obtain d3 s d4 v where
    "enrichChargingStationWithTemplateOcppStandardParams E t d2 = Inr (d3, s)"
    "enrichChargingStationWithTemplateOcppVendorParams E t d3 = Inr (d4, v)"
    and d': "d' = d4\<lparr>sd_templateHash := Some (tp_hash t)\<rparr>"
    by (auto simp: apply_template_def d1_def d2_def res_simps split: prod.splits)
  with template_steps_keep_the_model(1) [of d t] template_steps_keep_the_model(2) [of d1 E t]
    template_steps_keep_the_model(3) [of E t d2] template_steps_keep_the_model(4) [of E t d3]
  have "same_model d d4" unfolding d1_def d2_def by (metis fst_conv same_model_trans)
  then show ?thesis by (simp add: d' same_model_def)
qed

lemma override_twice:
  "override_charge_points t d = Inr d' \<Longrightarrow> override_charge_points t d' = Inr d'
     \<and> same_model d d' \<and> sd_templateHash d' = sd_templateHash d"
  by (auto simp: override_charge_points_def same_model_def split: option.splits)


end
