(* ===== verification/OcppParameters.thy ===== *)
theory OcppParameters
  imports TemplateSections Effects "HOL-Library.List_Lexorder"
begin

text \<open>
  The OCPP parameters of a station (\<open>server/ocpp/utils/OCPPCommon.ts\<close>, \<open>OCPPUtils.ts\<close>): read from it, stored, and
  set to the values of its template.  The station is a device with a state of its own; what it answers is a
  parameter, and an answer may be an exception of the transport.
\<close>

section \<open>The station as a device\<close>

record ocpp_parameter =
  op_key :: string
  op_value :: "string option"
  op_readonly :: bool
  op_custom :: bool

datatype configuration_status = CONF_ACCEPTED | CONF_REJECTED | CONF_REBOOT_REQUIRED | CONF_NOT_SUPPORTED

datatype reset_type = RESET_HARD | RESET_SOFT

datatype reset_status = RESET_ACCEPTED | RESET_REJECTED

text \<open>
  \<open>dc_connected\<close>: there is a client for the station.  \<open>dc_late_request\<close> and \<open>dc_late_update\<close>: the ten seconds
  that are allowed for reading and for setting the parameters go by first.
\<close>

record 'd station_client =
  dc_connected :: bool
  dc_change :: "string \<Rightarrow> string \<Rightarrow> 'd \<Rightarrow> configuration_status res \<times> 'd"
  dc_get :: "'d \<Rightarrow> ocpp_parameter list option res \<times> 'd"
  dc_reset :: "reset_type \<Rightarrow> 'd \<Rightarrow> reset_status res \<times> 'd"
  dc_late_request :: bool
  dc_late_update :: bool

text \<open>The stored parameters of the station (none: it has no document), the stored station, and the device.\<close>

record 'd parameter_state =
  ps_configuration :: "ocpp_parameter list option"
  ps_station :: station_document
  ps_device :: 'd

type_synonym ('d, 'a) parameters = "('d parameter_state, 'a) effect"

definition ask :: "('d \<Rightarrow> 'a res \<times> 'd) \<Rightarrow> ('d, 'a) parameters" where
  "ask f s = (case f (ps_device s) of (r, x) \<Rightarrow> (r, s\<lparr>ps_device := x\<rparr>))"

definition ask_connected :: "'d station_client \<Rightarrow> ('d \<Rightarrow> 'a res \<times> 'd) \<Rightarrow> ('d, 'a) parameters" where
  "ask_connected C f =
     (if dc_connected C then ask f
      else throwS (BackendError ''Charging Station is not connected to the backend''))"

section \<open>Stored parameters\<close>

text \<open>They are read in the order of their keys, whatever the case (the keys of OCPP are ASCII).\<close>

definition lower_key :: "string \<Rightarrow> nat list" where
  "lower_key k = map (\<lambda>c. let n = of_char c in if 65 \<le> n \<and> n \<le> 90 then n + 32 else n) k"

definition getOcppParameters :: "'d parameter_state \<Rightarrow> ocpp_parameter list" where
  "getOcppParameters s =
     (case ps_configuration s of None \<Rightarrow> [] | Some ps \<Rightarrow> sort_key (\<lambda>p. lower_key (op_key p)) ps)"

definition saveOcppParameters :: "ocpp_parameter list \<Rightarrow> ('d, unit) parameters" where
  "saveOcppParameters ps = updateS (\<lambda>s. s\<lparr>ps_configuration := Some ps\<rparr>)"

definition find_key :: "string \<Rightarrow> ocpp_parameter list \<Rightarrow> ocpp_parameter option" where
  "find_key k ps = List.find (\<lambda>p. op_key p = k) ps"

definition DEFAULT_OCPP_16_CONFIGURATION :: "ocpp_parameter list" where
  "DEFAULT_OCPP_16_CONFIGURATION = map (\<lambda>k. \<lparr>op_key = k, op_value = None, op_readonly = False, op_custom = False\<rparr>)
     [''AllowOfflineTxForUnknownId'', ''AuthorizationCacheEnabled'', ''AuthorizeRemoteTxRequests'', ''BlinkRepeat'',
      ''ClockAlignedDataInterval'', ''ConnectionTimeOut'', ''GetConfigurationMaxKeys'', ''HeartbeatInterval'',
      ''LightIntensity'', ''LocalAuthorizeOffline'', ''LocalPreAuthorize'', ''MaxEnergyOnInvalidId'',
      ''MeterValuesAlignedData'', ''MeterValuesAlignedDataMaxLength'', ''MeterValuesSampledData'',
      ''MeterValuesSampledDataMaxLength'', ''MeterValueSampleInterval'', ''MinimumStatusDuration'',
      ''NumberOfConnectors'', ''ResetRetries'', ''ConnectorPhaseRotation'', ''ConnectorPhaseRotationMaxLength'',
      ''StopTransactionOnEVSideDisconnect'', ''StopTransactionOnInvalidId'', ''StopTxnAlignedData'',
      ''StopTxnAlignedDataMaxLength'', ''StopTxnSampledData'', ''StopTxnSampledDataMaxLength'',
      ''SupportedFeatureProfiles'', ''SupportedFeatureProfilesMaxLength'', ''TransactionMessageAttempts'',
      ''TransactionMessageRetryInterval'', ''UnlockConnectorOnEVSideDisconnect'', ''WebSocketPingInterval'',
      ''LocalAuthListEnabled'', ''LocalAuthListMaxLength'', ''SendLocalListMaxLength'',
      ''ReserveConnectorZeroSupported'', ''ChargeProfileMaxStackLevel'',
      ''ChargingScheduleAllowedChargingRateUnit'', ''ChargingScheduleMaxPeriods'',
      ''ConnectorSwitch3to1PhaseSupported'', ''MaxChargingProfilesInstalled'']"

text \<open>What the station answers, or else the default or what is stored; custom parameters are kept.\<close>

definition merged_configuration :: "ocpp_parameter list option \<Rightarrow> ocpp_parameter list \<Rightarrow> ocpp_parameter list" where
  "merged_configuration answered stored =
     foldl (\<lambda>ps p. if find_key (op_key p) ps = None then ps @ [p] else ps)
       (case answered of
          Some ps \<Rightarrow> ps
        | None \<Rightarrow> if stored = [] then DEFAULT_OCPP_16_CONFIGURATION else stored)
       (filter op_custom stored)"

section \<open>Requests\<close>

definition requestChargingStationOcppParameters :: "'d station_client \<Rightarrow> ('d, ocpp_parameter list option) parameters" where
  "requestChargingStationOcppParameters C = ask_connected C (dc_get C)"

definition requestAndSaveChargingStationOcppParameters :: "'d station_client \<Rightarrow> ('d, configuration_status) parameters" where
  "requestAndSaveChargingStationOcppParameters C =
     attemptS
       (bindS (requestChargingStationOcppParameters C) (\<lambda>answered.
        bindS (getS getOcppParameters) (\<lambda>stored.
        thenS (saveOcppParameters (merged_configuration answered stored))
        (returnS CONF_ACCEPTED))))
       (\<lambda>_. CONF_REJECTED)"

definition triggerChargingStationReset :: "'d station_client \<Rightarrow> bool \<Rightarrow> reset_type \<Rightarrow> ('d, reset_status) parameters" where
  "triggerChargingStationReset C hardResetFallback resetType =
     bindS (ask_connected C (dc_reset C resetType)) (\<lambda>result.
       if result = RESET_REJECTED \<and> hardResetFallback \<and> resetType \<noteq> RESET_HARD then ask (dc_reset C RESET_HARD)
       else returnS result)"

definition requestChangeChargingStationOcppParameter ::
    "'d station_client \<Rightarrow> string \<Rightarrow> string \<Rightarrow> bool \<Rightarrow> bool \<Rightarrow> ('d, configuration_status) parameters" where
  "requestChangeChargingStationOcppParameter C k v saveChange triggerConditionalReset =
     bindS (ask_connected C (dc_change C k v)) (\<lambda>result.
     thenS (if saveChange \<and> (result = CONF_ACCEPTED \<or> result = CONF_REBOOT_REQUIRED)
            then thenS (requestAndSaveChargingStationOcppParameters C) (returnS ()) else returnS ())
     (thenS (if triggerConditionalReset \<and> result = CONF_REBOOT_REQUIRED
             then thenS (triggerChargingStationReset C True RESET_SOFT) (returnS ()) else returnS ())
     (returnS result)))"

section \<open>The parameters of the template\<close>

record synchronisation =
  sy_inSuccess :: nat
  sy_inError :: nat
  sy_rebootRequired :: bool
  sy_result :: "configuration_status option"

text \<open>A parameter that cannot be changed is counted and the next one is tried.\<close>

definition synchronise_parameter ::
    "'d station_client \<Rightarrow> ocpp_parameter list \<Rightarrow> synchronisation \<Rightarrow> string \<times> string \<Rightarrow> ('d, synchronisation) parameters" where
  "synchronise_parameter C current y p =
     (if \<exists>c. find_key (fst p) current = Some c \<and> op_value c = Some (snd p) then returnS y
      else
        attemptS
          (bindS (requestChangeChargingStationOcppParameter C (fst p) (snd p) False False) (\<lambda>status.
             returnS
               (if status = CONF_ACCEPTED then y\<lparr>sy_result := Some status, sy_inSuccess := sy_inSuccess y + 1\<rparr>
                else if status = CONF_REBOOT_REQUIRED
                then y\<lparr>sy_result := Some status, sy_inSuccess := sy_inSuccess y + 1, sy_rebootRequired := True\<rparr>
                else y\<lparr>sy_result := Some status, sy_inError := sy_inError y + 1\<rparr>)))
          (\<lambda>_. y\<lparr>sy_inError := sy_inError y + 1\<rparr>))"

definition nothing_synchronised :: synchronisation where
  "nothing_synchronised = \<lparr>sy_inSuccess = 0, sy_inError = 0, sy_rebootRequired = False, sy_result = None\<rparr>"

definition finish_synchronisation :: "'d station_client \<Rightarrow> synchronisation \<Rightarrow> ('d, configuration_status option) parameters" where
  "finish_synchronisation C y =
     bindS (if sy_inSuccess y \<noteq> 0
            then bindS (requestAndSaveChargingStationOcppParameters C) (\<lambda>r. returnS (Some r))
            else returnS (sy_result y)) (\<lambda>result.
     thenS (if sy_rebootRequired y then thenS (triggerChargingStationReset C True RESET_SOFT) (returnS ()) else returnS ())
     (returnS result))"

text \<open>
  The lists are concatenated: an undefined list of standard parameters raises at once, an undefined list of vendor
  parameters is an undefined element, which raises when its turn comes.
\<close>

definition updateChargingStationOcppParametersWithTemplate ::
    "'d station_client \<Rightarrow> station_document \<Rightarrow> ('d, configuration_status option) parameters" where
  "updateChargingStationOcppParametersWithTemplate C d =
     bindS (getS getOcppParameters) (\<lambda>current.
       if (sd_ocppStandardParameters d = None \<or> sd_ocppStandardParameters d = Some [])
          \<and> (sd_ocppVendorParameters d = None \<or> sd_ocppVendorParameters d = Some [])
       then returnS None
       else
         (case sd_ocppStandardParameters d of
            None \<Rightarrow> throwS TypeError
          | Some standard \<Rightarrow>
              (case sd_ocppVendorParameters d of
                 None \<Rightarrow> thenS (foldS (synchronise_parameter C current) nothing_synchronised standard) (throwS TypeError)
               | Some vendor \<Rightarrow>
                   bindS (foldS (synchronise_parameter C current) nothing_synchronised (standard @ vendor))
                     (finish_synchronisation C))))"

text \<open>When the time is up the caller goes on with an exception; what was begun ends behind its back.\<close>

definition in_time :: "bool \<Rightarrow> ('d, 'a) parameters \<Rightarrow> ('d, 'a) parameters" where
  "in_time late m s = (case m s of (r, s') \<Rightarrow> (if late then Inl (PlainError ''Time out error'') else r, s'))"

definition applyTemplateOcppParametersToChargingStation ::
    "'d station_client \<Rightarrow> station_document \<Rightarrow> ('d, configuration_status) parameters" where
  "applyTemplateOcppParametersToChargingStation C d =
     bindS (in_time (dc_late_request C) (requestAndSaveChargingStationOcppParameters C)) (\<lambda>result.
       if result \<noteq> CONF_ACCEPTED then returnS result
       else
         bindS (in_time (dc_late_update C) (updateChargingStationOcppParametersWithTemplate C d)) (\<lambda>updated.
           case updated of None \<Rightarrow> throwS TypeError | Some status \<Rightarrow> returnS status))"

definition checkAndApplyTemplateToChargingStation ::
    "template_env \<Rightarrow> 'd station_client \<Rightarrow> bool \<Rightarrow> station_document \<Rightarrow>
       ('d, station_document \<times> template_update_result) parameters" where
  "checkAndApplyTemplateToChargingStation E C applyOcppParameters d =
     bindS (liftS (enrichChargingStationWithTemplate E d)) (\<lambda>(d', r).
     thenS (if chargingStationUpdated r \<and> applyOcppParameters \<and> (ocppStandardUpdated r \<or> ocppVendorUpdated r)
            then thenS (applyTemplateOcppParametersToChargingStation C d') (returnS ()) else returnS ())
     (returnS (d', r)))"

section \<open>The task\<close>

text \<open>
  The store writes a missing text as null (\<open>saveChargingStation\<close>).
\<close>

fun stored_text :: "text_property \<Rightarrow> text_property" where
  "stored_text (Text s) = Text s"
| "stored_text _ = Null"

definition stored_document :: "(rat \<Rightarrow> rat \<Rightarrow> bool) \<Rightarrow> station_document \<Rightarrow> station_document" where
  "stored_document lat_long d =
     charging_station.extend (stored_station lat_long (charging_station.truncate d))
       (charging_station.more
         (d\<lparr>sd_chargePointSerialNumber := stored_text (sd_chargePointSerialNumber d),
            sd_chargeBoxSerialNumber := stored_text (sd_chargeBoxSerialNumber d),
            sd_firmwareVersion := stored_text (sd_firmwareVersion d)\<rparr>))"

text \<open>What the scheduled task does with a station, which it has just read.\<close>

definition template_task ::
    "(rat \<Rightarrow> rat \<Rightarrow> bool) \<Rightarrow> template_env \<Rightarrow> 'd station_client \<Rightarrow> 'd parameter_state \<Rightarrow> 'd parameter_state" where
  "template_task lat_long E C s =
     snd (tryS
       (bindS (getS ps_station) (\<lambda>d.
        bindS (checkAndApplyTemplateToChargingStation E C True d) (\<lambda>(d', r).
          whenS (chargingStationUpdated r) (updateS (\<lambda>s. s\<lparr>ps_station := stored_document lat_long d'\<rparr>)))))
       (\<lambda>_. ()) s)"

end
