(* ===== verification/StationConnections.thy ===== *)
theory StationConnections
  imports OcppParameters
begin

text \<open>
  How stations connect (\<open>server/ocpp/utils/OCPPUtils.ts\<close>, \<open>server/ocpp/json/web-socket\<close>) and register
  (\<open>handleBootNotification\<close>, \<open>handleHeartbeat\<close> and the status of the firmware and of the diagnostics in
  \<open>server/ocpp/services/OCPPService.ts\<close>), with the writes of \<open>storage/mongodb/ChargingStationStorage.ts\<close> and
  \<open>OCPPStorage.ts\<close>.  The tenant, its tokens and site areas, the host and the clock are parameters.
\<close>

section \<open>Data\<close>

record registration_token =
  rt_id :: string
  rt_siteAreaID :: "string option"
  rt_expirationDate :: "int option"
  rt_revocationDate :: "int option"

text \<open>What a new station takes from its site area: the company and coordinates of the site, those of the area.\<close>

record area_location =
  al_companyID :: "string option"
  al_siteID :: "string option"
  al_coordinates :: "rat list option"
  al_siteCoordinates :: "rat list option"

record connection_env =
  ne_now :: int
  ne_tenants :: "string list"
  ne_tenantName :: string
  ne_isObjectID :: "string \<Rightarrow> bool"
  ne_tokens :: "registration_token list"
  ne_areas :: "string \<Rightarrow> area_location option"
  ne_hostIP :: "string option"
  ne_hostName :: "string option"
  ne_lat_long :: "rat \<Rightarrow> rat \<Rightarrow> bool"
  ne_templates :: template_env
  ne_heartbeatSOAP :: int
  ne_heartbeatJSON :: int
  ne_pingInterval :: int

record boot_request =
  bn_chargePointVendor :: string
  bn_chargePointModel :: string
  bn_chargePointSerialNumber :: "string option"
  bn_chargeBoxSerialNumber :: "string option"
  bn_firmwareVersion :: "string option"

record ocpp_header =
  oh_chargeBoxIdentity :: string
  oh_currentIPAddress :: "string option"
  oh_ocppProtocol :: ocpp_protocol
  oh_ocppVersion :: ocpp_version
  oh_tokenID :: string
  oh_token :: "registration_token option"
  oh_chargingStationURL :: "string option"
  oh_station :: "station_document option"

datatype registration_status = REGISTRATION_ACCEPTED | REGISTRATION_REJECTED

record boot_response =
  br_currentTime :: int
  br_status :: registration_status
  br_interval :: int

text \<open>What the server asks a station ten seconds after its boot.\<close>

datatype delayed_request = ParametersRequested string | CertificateIdsRequested string | RootCertificateInstalled string

record connection_state =
  cd_stations :: "station_document list"
  cd_boots :: "(string \<times> int) list"
  cd_heartbeats :: "(string \<times> int) list"
  cd_diagnostics :: "(string \<times> int \<times> string) list"
  cd_firmwares :: "(string \<times> int \<times> string) list"
  cd_delayed :: "delayed_request list"

type_synonym 'a connection = "(connection_state, 'a) effect"

section \<open>Reading and writing stations\<close>

text \<open>
  A station that is installing a firmware or has not been seen for two pings is inactive, and its connectors are read
  as unavailable, without their power and the values of their session.
\<close>

definition unavailable_connector :: "connector \<Rightarrow> connector" where
  "unavailable_connector cn =
     cn\<lparr>cn_status := UNAVAILABLE, cn_currentInstantWatts := Some 0, cn_currentStateOfCharge := Some 0,
        cn_currentTotalConsumptionWh := Some 0, cn_currentTotalInactivitySecs := Some 0\<rparr>"

definition pushChargingStationInactiveFlagInAggregation :: "connection_env \<Rightarrow> station_document \<Rightarrow> station_document" where
  "pushChargingStationInactiveFlagInAggregation E d =
     (let inactive = (sd_firmwareUpdateStatus d = Some ''Installing''
            \<or> (case sd_lastSeen d of None \<Rightarrow> False | Some t \<Rightarrow> ne_pingInterval E * 2 * 1000 \<le> ne_now E - t)) in
      d\<lparr>cs_inactive := inactive,
        cs_connectors := (if inactive then map_option (map unavailable_connector) (cs_connectors d) else cs_connectors d)\<rparr>)"

text \<open>The messages read the stations of the tenant itself, without those that were deleted.\<close>

definition getChargingStation :: "connection_env \<Rightarrow> string \<Rightarrow> connection_state \<Rightarrow> station_document option" where
  "getChargingStation E i s =
     (case lookup_by cs_id i (cd_stations s) of
        None \<Rightarrow> None
      | Some d \<Rightarrow> if cs_deleted d \<or> \<not> cs_issuer d then None
                  else Some (pushChargingStationInactiveFlagInAggregation E d))"

definition change_stored :: "string \<Rightarrow> (station_document \<Rightarrow> station_document) \<Rightarrow> unit connection" where
  "change_stored i f = updateS (\<lambda>s. s\<lparr>cd_stations := update_first (\<lambda>d. cs_id d = i) f (cd_stations s)\<rparr>)"

text \<open>What is there and not empty is written; the host is written with both its parts when there is one of them.\<close>

record runtime_data =
  rd_lastSeen :: "int option"
  rd_tokenID :: "string option"
  rd_cloudHostIP :: "string option"
  rd_cloudHostName :: "string option"

definition set_runtime_data :: "runtime_data \<Rightarrow> station_document \<Rightarrow> station_document" where
  "set_runtime_data r d =
     d\<lparr>sd_lastSeen := (if rd_lastSeen r \<noteq> None then rd_lastSeen r else sd_lastSeen d),
       sd_tokenID := (if truthy_str (rd_tokenID r) then rd_tokenID r else sd_tokenID d),
       sd_cloudHostIP := (if truthy_str (rd_cloudHostIP r) \<or> truthy_str (rd_cloudHostName r) then rd_cloudHostIP r else sd_cloudHostIP d),
       sd_cloudHostName :=
         (if truthy_str (rd_cloudHostIP r) \<or> truthy_str (rd_cloudHostName r) then rd_cloudHostName r else sd_cloudHostName d)\<rparr>"

definition saveChargingStationRuntimeData :: "string \<Rightarrow> runtime_data \<Rightarrow> unit connection" where
  "saveChargingStationRuntimeData i r = change_stored i (set_runtime_data r)"

text \<open>The status of the firmware has its own write; a station that is not there is not made up here.\<close>

definition saveChargingStationFirmwareStatus :: "string \<Rightarrow> string option \<Rightarrow> unit connection" where
  "saveChargingStationFirmwareStatus i status = change_stored i (\<lambda>d. d\<lparr>sd_firmwareUpdateStatus := status\<rparr>)"

definition stored_firmware_status :: "string \<Rightarrow> connection_state \<Rightarrow> string option" where
  "stored_firmware_status i s = Option.bind (lookup_by cs_id i (cd_stations s)) sd_firmwareUpdateStatus"

definition saveStation :: "connection_env \<Rightarrow> station_document \<Rightarrow> unit connection" where
  "saveStation E d =
     updateS (\<lambda>s. s\<lparr>cd_stations := upsert cs_id
       ((stored_document (ne_lat_long E) d)\<lparr>sd_firmwareUpdateStatus := stored_firmware_status (cs_id d) s\<rparr>) (cd_stations s)\<rparr>)"

section \<open>Connections\<close>

definition buildTenantName :: "connection_env \<Rightarrow> string" where
  "buildTenantName E = ne_tenantName E"

definition getRegistrationToken :: "connection_env \<Rightarrow> string \<Rightarrow> registration_token option" where
  "getRegistrationToken E i = List.find (\<lambda>t. rt_id t = i) (ne_tokens E)"

definition ensureChargingStationHasValidConnectionToken :: "connection_env \<Rightarrow> string \<Rightarrow> registration_token res" where
  "ensureChargingStationHasValidConnectionToken E tokenID =
     (if tokenID = [] then Inl (BackendError (''Token ID is required in '' @ buildTenantName E @ ''!''))
      else if \<not> ne_isObjectID E tokenID
      then Inl (BackendError (''The Token ID '' @ quoted tokenID @ '' is invalid in '' @ buildTenantName E @ ''!''))
      else
        (case getRegistrationToken E tokenID of
           None \<Rightarrow> Inl (BackendError (''Token ID '' @ quoted tokenID @ '' has not been found in '' @ buildTenantName E @ ''!''))
         | Some t \<Rightarrow>
             if rt_expirationDate t = None \<or> the (rt_expirationDate t) < ne_now E
             then Inl (BackendError (''Token ID '' @ quoted tokenID @ '' has expired in '' @ buildTenantName E @ ''!''))
             else if rt_revocationDate t \<noteq> None \<and> the (rt_revocationDate t) < ne_now E
             then Inl (BackendError (''Token ID '' @ quoted tokenID @ '' has been revoked in '' @ buildTenantName E @ ''!''))
             else Inr t))"

definition isChargingStationIDValid :: "string \<Rightarrow> bool" where
  "isChargingStationIDValid name =
     list_all (\<lambda>c. let n = of_char c :: nat in (65 \<le> n \<and> n \<le> 90) \<or> (97 \<le> n \<and> n \<le> 122) \<or> (48 \<le> n \<and> n \<le> 57)
        \<or> c \<in> {CHR ''_'', CHR ''.'', CHR ''-'', CHR ''~''}) name"

definition checkChargingStationConnectionData :: "connection_env \<Rightarrow> string \<Rightarrow> string \<Rightarrow> string \<Rightarrow> unit res" where
  "checkChargingStationConnectionData E tenantID tokenID i =
     (if i = [] then Inl (BackendError ''The Charging Station ID is mandatory!'')
      else if \<not> isChargingStationIDValid i then Inl (BackendError (''The Charging Station ID '' @ quoted i @ '' is invalid!''))
      else if tenantID = [] then Inl (BackendError ''The Tenant ID is mandatory!'')
      else if \<not> ne_isObjectID E tenantID then Inl (BackendError (''The Tenant ID '' @ quoted tenantID @ '' is invalid!''))
      else if tokenID = [] then Inl (BackendError ''The Token ID is mandatory!'')
      else Inr ())"

datatype server_action = WS_SERVER_CONNECTION | OcppCommand string | UNKNOWN_ACTION

definition buildServerActionFromOcppCommand :: "string option \<Rightarrow> server_action" where
  "buildServerActionFromOcppCommand command = (if truthy_str command then OcppCommand (the command) else UNKNOWN_ACTION)"

definition check_station_token :: "connection_env \<Rightarrow> string \<Rightarrow> station_document \<Rightarrow> registration_token option res" where
  "check_station_token E tokenID d =
     (if sd_tokenID d \<noteq> Some tokenID
      then bindE (ensureChargingStationHasValidConnectionToken E tokenID) (\<lambda>t. Inr (Some t)) else Inr None)"

definition admit_station :: "connection_env \<Rightarrow> string \<Rightarrow> string \<Rightarrow> bool \<Rightarrow> station_document \<Rightarrow> station_document connection" where
  "admit_station E i tokenID update d =
     (let d1 = d\<lparr>sd_tokenID := Some tokenID\<rparr> in
      if cs_deleted d1 then throwS (BackendError ''Charging Station has been deleted!'')
      else if sd_forceInactive d1 then throwS (BackendError ''Charging Station has been forced as inactive!'')
      else if update then
        (let d2 = d1\<lparr>sd_lastSeen := Some (ne_now E), sd_cloudHostIP := ne_hostIP E, sd_cloudHostName := ne_hostName E\<rparr> in
         thenS (saveChargingStationRuntimeData i \<lparr>rd_lastSeen = sd_lastSeen d2, rd_tokenID = sd_tokenID d2,
                  rd_cloudHostIP = sd_cloudHostIP d2, rd_cloudHostName = sd_cloudHostName d2\<rparr>)
           (returnS d2))
      else returnS d1)"

text \<open>The station, if it is known, and the token, if it had to be looked at.\<close>

definition checkAndGetChargingStationConnectionData ::
    "connection_env \<Rightarrow> server_action \<Rightarrow> string \<Rightarrow> string \<Rightarrow> string \<Rightarrow> bool \<Rightarrow>
       (station_document option \<times> registration_token option) connection" where
  "checkAndGetChargingStationConnectionData E action tenantID i tokenID update =
     thenS (liftS (checkChargingStationConnectionData E tenantID tokenID i))
     (if tenantID \<notin> set (ne_tenants E)
      then throwS (BackendError (''Tenant ID '' @ quoted tenantID @ '' does not exist!''))
      else
        bindS (getS (getChargingStation E i)) (\<lambda>found.
          case found of
            None \<Rightarrow>
              bindS (liftS (ensureChargingStationHasValidConnectionToken E tokenID)) (\<lambda>token.
                if action \<noteq> WS_SERVER_CONNECTION \<and> action \<noteq> OcppCommand ''BootNotification''
                then throwS (BackendError ''Charging Station does not exist!'')
                else returnS (None, Some token))
          | Some d \<Rightarrow>
              bindS (liftS (check_station_token E tokenID d)) (\<lambda>token.
              bindS (admit_station E i tokenID update d) (\<lambda>d1. returnS (Some d1, token)))))"

section \<open>Boot notifications\<close>

fun between :: "nat \<Rightarrow> nat \<Rightarrow> string \<Rightarrow> bool" where
  "between lo hi s \<longleftrightarrow> lo \<le> length s \<and> length s \<le> hi"

fun at_most :: "nat \<Rightarrow> string option \<Rightarrow> bool" where
  "at_most n None \<longleftrightarrow> True"
| "at_most n (Some s) \<longleftrightarrow> length s \<le> n"

definition validateBootNotification :: "ocpp_header \<Rightarrow> boot_request \<Rightarrow> unit res" where
  "validateBootNotification h b =
     (if \<not> (between 1 25 (bn_chargePointVendor b) \<and> between 1 20 (bn_chargePointModel b)
            \<and> at_most 50 (bn_chargePointSerialNumber b) \<and> at_most 50 (bn_chargeBoxSerialNumber b) \<and> at_most 50 (bn_firmwareVersion b))
      then Inl (PlainError ''Validation'')
      else if oh_chargeBoxIdentity h = [] then Inl (BackendError ''Should have the required property chargeBoxIdentity!'')
      else Inr ())"

definition getHeartbeatInterval :: "connection_env \<Rightarrow> ocpp_protocol \<Rightarrow> int" where
  "getHeartbeatInterval E p = (case p of SOAP \<Rightarrow> ne_heartbeatSOAP E | JSON \<Rightarrow> ne_heartbeatJSON E)"

text \<open>A property that is copied from the message is there with the value undefined when the message lacks it.\<close>

definition copied_text :: "string option \<Rightarrow> text_property" where
  "copied_text v = (case v of None \<Rightarrow> Undefined | Some s \<Rightarrow> Text s)"

definition blank_station :: "ocpp_header \<Rightarrow> boot_request \<Rightarrow> station_document" where
  "blank_station h b = charging_station.extend
     \<lparr>cs_id = oh_chargeBoxIdentity h, cs_companyID = None, cs_siteID = None, cs_siteAreaID = None, cs_issuer = True,
      cs_inactive = False, cs_deleted = False, cs_maximumPower = None, cs_voltage = None, cs_coordinates = None,
      cs_chargePoints = None, cs_connectors = None, cs_backupConnectors = None, cs_ocppVersion = oh_ocppVersion h,
      cs_chargePointVendor = bn_chargePointVendor b, cs_excludeFromSmartCharging = False,
      cs_supportChargingProfiles = False, cs_tariffID = None, cs_tariffIDs = None\<rparr>
     (station_document.fields (bn_chargePointModel b) (copied_text (bn_chargePointSerialNumber b))
        (copied_text (bn_chargeBoxSerialNumber b)) (copied_text (bn_firmwareVersion b)) None None None None None None
        False False (Some AMPERE) None None None (oh_ocppProtocol h) (Some (oh_tokenID h)) False None None None
        (oh_currentIPAddress h) None None None)"

definition two_coordinates :: "rat list option \<Rightarrow> bool" where
  "two_coordinates c \<longleftrightarrow> (case c of None \<Rightarrow> False | Some xs \<Rightarrow> length xs = 2)"

definition createChargingStationFromBootNotification ::
    "connection_env \<Rightarrow> ocpp_header \<Rightarrow> boot_request \<Rightarrow> station_document res" where
  "createChargingStationFromBootNotification E h b =
     (let d = (blank_station h b)\<lparr>sd_createdOn := Some (ne_now E)\<rparr> in
      case oh_token h of
        None \<Rightarrow> Inl TypeError
      | Some t \<Rightarrow>
          Inr (if \<not> truthy_str (rt_siteAreaID t) then d
               else (case ne_areas E (the (rt_siteAreaID t)) of
                  None \<Rightarrow> d
                | Some a \<Rightarrow>
                    d\<lparr>cs_companyID := al_companyID a, cs_siteID := al_siteID a, cs_siteAreaID := rt_siteAreaID t,
                      cs_coordinates := (if two_coordinates (al_coordinates a) then al_coordinates a
                        else if two_coordinates (al_siteCoordinates a) then al_siteCoordinates a else None)\<rparr>)))"

definition mismatch :: js_error where
  "mismatch = BackendError ''Boot Notification Rejected: Attribute mismatch''"

fun text_value :: "text_property \<Rightarrow> string option" where
  "text_value (Text s) = Some s"
| "text_value _ = None"

text \<open>The message of the exception lists what is different.\<close>

definition checkChargingStationIsIdenticalFromBootNotification :: "station_document \<Rightarrow> boot_request \<Rightarrow> unit res" where
  "checkChargingStationIsIdenticalFromBootNotification d b =
     (if cs_chargePointVendor d \<noteq> bn_chargePointVendor b \<or> sd_chargePointModel d \<noteq> bn_chargePointModel b
         \<or> (truthy_str (text_value (sd_chargePointSerialNumber d)) \<and> truthy_str (bn_chargePointSerialNumber b)
            \<and> text_value (sd_chargePointSerialNumber d) \<noteq> bn_chargePointSerialNumber b)
      then Inl mismatch else Inr ())"

definition forget_template :: "station_document \<Rightarrow> station_document" where
  "forget_template d =
     d\<lparr>sd_templateHash := None, sd_templateHashCapabilities := None, sd_templateHashOcppStandard := None,
       sd_templateHashOcppVendor := None, sd_templateHashTechnical := None\<rparr>"

text \<open>The connectors are kept aside until the station tells their status; those that were kept aside stay.\<close>

definition backed_up :: "connector list \<Rightarrow> connector list \<Rightarrow> connector list" where
  "backed_up = foldl (\<lambda>bs cn. if \<exists>b \<in> set bs. cn_connectorId b = cn_connectorId cn then bs else bs @ [cn])"

definition backup_connectors :: "station_document \<Rightarrow> station_document" where
  "backup_connectors d =
     (case cs_connectors d of
        None \<Rightarrow> d
      | Some [] \<Rightarrow> d
      | Some cns \<Rightarrow> d\<lparr>cs_backupConnectors := Some (backed_up (case cs_backupConnectors d of None \<Rightarrow> [] | Some bs \<Rightarrow> bs) cns)\<rparr>)
     \<lparr>cs_connectors := Some []\<rparr>"

definition enrichChargingStationFromBootNotification ::
    "connection_env \<Rightarrow> ocpp_header \<Rightarrow> boot_request \<Rightarrow> station_document \<Rightarrow> station_document connection" where
  "enrichChargingStationFromBootNotification E h b d =
     (let d1 = d\<lparr>sd_ocppProtocol := oh_ocppProtocol h, cs_ocppVersion := oh_ocppVersion h,
            sd_currentIPAddress := oh_currentIPAddress h, sd_cloudHostIP := ne_hostIP E, sd_cloudHostName := ne_hostName E,
            sd_lastReboot := Some (ne_now E), sd_lastSeen := Some (ne_now E),
            sd_chargePointSerialNumber := copied_text (bn_chargePointSerialNumber b),
            sd_chargeBoxSerialNumber := copied_text (bn_chargeBoxSerialNumber b),
            sd_firmwareVersion := copied_text (bn_firmwareVersion b), cs_deleted := False,
            sd_chargingStationURL := (if truthy_str (oh_chargingStationURL h) then oh_chargingStationURL h else sd_chargingStationURL d)\<rparr> in
      if truthy_str (sd_firmwareUpdateStatus d1)
      then thenS (saveChargingStationFirmwareStatus (cs_id d1) None) (returnS (backup_connectors (forget_template d1)))
      else returnS (backup_connectors d1))"

text \<open>A notification is identified by its station and its date.\<close>

definition saveBootNotification :: "connection_env \<Rightarrow> ocpp_header \<Rightarrow> unit connection" where
  "saveBootNotification E h =
     bindS (getS cd_boots) (\<lambda>bs.
       if (oh_chargeBoxIdentity h, ne_now E) \<in> set bs then throwS DuplicateKey
       else updateS (\<lambda>s. s\<lparr>cd_boots := bs @ [(oh_chargeBoxIdentity h, ne_now E)]\<rparr>))"

definition BOOT_NOTIFICATION_WAIT_TIME :: int where "BOOT_NOTIFICATION_WAIT_TIME = 60"

text \<open>The template is applied without sending its parameters, and the station is saved before the notification.\<close>

definition handleBootNotification :: "connection_env \<Rightarrow> ocpp_header \<Rightarrow> boot_request \<Rightarrow> boot_response connection" where
  "handleBootNotification E h b =
     attemptS
       (thenS (liftS (validateBootNotification h b))
       (bindS (case oh_station h of
                 None \<Rightarrow> liftS (createChargingStationFromBootNotification E h b)
               | Some d \<Rightarrow> thenS (liftS (checkChargingStationIsIdenticalFromBootNotification d b)) (returnS d)) (\<lambda>d.
        bindS (enrichChargingStationFromBootNotification E h b d) (\<lambda>d1.
        bindS (liftS (enrichChargingStationWithTemplate (ne_templates E) d1)) (\<lambda>(d2, _).
        thenS (saveStation E d2)
        (thenS (saveBootNotification E h)
        (thenS (updateS (\<lambda>s. s\<lparr>cd_delayed := cd_delayed s @
             [ParametersRequested (cs_id d2), CertificateIdsRequested (cs_id d2), RootCertificateInstalled (cs_id d2)]\<rparr>))
        (returnS \<lparr>br_currentTime = ne_now E, br_status = REGISTRATION_ACCEPTED,
                  br_interval = getHeartbeatInterval E (oh_ocppProtocol h)\<rparr>))))))))
       (\<lambda>_. \<lparr>br_currentTime = ne_now E, br_status = REGISTRATION_REJECTED, br_interval = BOOT_NOTIFICATION_WAIT_TIME\<rparr>)"

section \<open>Heartbeats and statuses\<close>

definition saveHeartbeat :: "connection_env \<Rightarrow> string \<Rightarrow> unit connection" where
  "saveHeartbeat E i =
     bindS (getS cd_heartbeats) (\<lambda>hs.
       if (i, ne_now E) \<in> set hs then throwS DuplicateKey else updateS (\<lambda>s. s\<lparr>cd_heartbeats := hs @ [(i, ne_now E)]\<rparr>))"

text \<open>The answer is the time, whether the heartbeat could be saved or not.\<close>

definition handleHeartbeat :: "connection_env \<Rightarrow> ocpp_header \<Rightarrow> int connection" where
  "handleHeartbeat E h =
     attemptS
       (case oh_station h of None \<Rightarrow> throwS TypeError
        | Some d \<Rightarrow> thenS (saveHeartbeat E (cs_id d)) (returnS (ne_now E)))
       (\<lambda>_. ne_now E)"

definition saveDiagnosticsStatusNotification :: "connection_env \<Rightarrow> string \<Rightarrow> string \<Rightarrow> unit connection" where
  "saveDiagnosticsStatusNotification E i status =
     bindS (getS cd_diagnostics) (\<lambda>ns.
       if list_ex (\<lambda>(j, t, _). j = i \<and> t = ne_now E) ns then throwS DuplicateKey
       else updateS (\<lambda>s. s\<lparr>cd_diagnostics := ns @ [(i, ne_now E, status)]\<rparr>))"

definition handleDiagnosticsStatusNotification :: "connection_env \<Rightarrow> ocpp_header \<Rightarrow> string \<Rightarrow> unit connection" where
  "handleDiagnosticsStatusNotification E h status =
     attemptS
       (if status \<notin> set [''Idle'', ''Uploaded'', ''UploadFailed'', ''Uploading''] then throwS (PlainError ''Validation'')
        else (case oh_station h of None \<Rightarrow> throwS TypeError
              | Some d \<Rightarrow> saveDiagnosticsStatusNotification E (cs_id d) status))
       (\<lambda>_. ())"

definition saveFirmwareStatusNotification :: "connection_env \<Rightarrow> string \<Rightarrow> string \<Rightarrow> unit connection" where
  "saveFirmwareStatusNotification E i status =
     bindS (getS cd_firmwares) (\<lambda>ns.
       if list_ex (\<lambda>(j, t, _). j = i \<and> t = ne_now E) ns then throwS DuplicateKey
       else updateS (\<lambda>s. s\<lparr>cd_firmwares := ns @ [(i, ne_now E, status)]\<rparr>))"

definition firmware_statuses :: "string list" where
  "firmware_statuses = [''Downloaded'', ''DownloadFailed'', ''Downloading'', ''Idle'', ''InstallationFailed'',
     ''Installing'', ''Installed'']"

definition handleFirmwareStatusNotification :: "connection_env \<Rightarrow> ocpp_header \<Rightarrow> string \<Rightarrow> unit connection" where
  "handleFirmwareStatusNotification E h status =
     attemptS
       (if status \<notin> set firmware_statuses then throwS (PlainError ''Validation'')
        else (case oh_station h of None \<Rightarrow> throwS TypeError
              | Some d \<Rightarrow>
                  thenS (saveChargingStationFirmwareStatus (cs_id d) (Some status))
                    (saveFirmwareStatusNotification E (cs_id d) status)))
       (\<lambda>_. ())"

section \<open>Requests on a web socket\<close>

text \<open>
  The parameters at the end of the address are cut off where a word ends with a question mark or an ampersand (the
  address is one line).  A slash is removed at each end, and the address has four parts.
\<close>

definition word_char :: "char \<Rightarrow> bool" where
  "word_char c \<longleftrightarrow> (let n = of_char c :: nat in
     (65 \<le> n \<and> n \<le> 90) \<or> (97 \<le> n \<and> n \<le> 122) \<or> (48 \<le> n \<and> n \<le> 57) \<or> c = CHR ''_'')"

fun cut_parameters :: "string \<Rightarrow> string" where
  "cut_parameters (c # d # s) =
     (if word_char c \<and> (d = CHR ''?'' \<or> d = CHR ''&'') then [c] else c # cut_parameters (d # s))"
| "cut_parameters s = s"

fun split_text :: "char \<Rightarrow> string \<Rightarrow> string list" where
  "split_text sep [] = [[]]"
| "split_text sep (c # s) =
     (if c = sep then [] # split_text sep s
      else (case split_text sep s of [] \<Rightarrow> [[c]] | p # ps \<Rightarrow> (c # p) # ps))"

definition without_slashes :: "string \<Rightarrow> string" where
  "without_slashes u =
     (let v = (if u \<noteq> [] \<and> last u = CHR ''/'' then butlast u else u) in
      if v \<noteq> [] \<and> hd v = CHR ''/'' then tl v else v)"

record ws_connection =
  wc_tenantID :: string
  wc_tokenID :: string
  wc_chargingStationID :: string
  wc_clientIP :: "string option"
  wc_ocppVersion :: ocpp_version
  wc_url :: "string option"

definition checkMandatoryFieldsInRequest ::
    "connection_env \<Rightarrow> string \<Rightarrow> string option \<Rightarrow> ocpp_version \<Rightarrow> string option \<Rightarrow> ws_connection res" where
  "checkMandatoryFieldsInRequest E url ip version base =
     (let u = without_slashes (cut_parameters url) in
      case split_text (CHR ''/'') u of
        [_, tenantID, tokenID, i] \<Rightarrow>
          bindE (checkChargingStationConnectionData E tenantID tokenID i) (\<lambda>_.
            Inr \<lparr>wc_tenantID = tenantID, wc_tokenID = tokenID, wc_chargingStationID = i, wc_clientIP = ip,
                 wc_ocppVersion = version, wc_url = base\<rparr>)
      | _ \<Rightarrow> Inl (BackendError (''Wrong number of arguments in URL '' @ quoted (CHR ''/'' # u))))"

definition initialize :: "connection_env \<Rightarrow> ws_connection \<Rightarrow> bool \<Rightarrow> unit connection" where
  "initialize E c rest =
     thenS (checkAndGetChargingStationConnectionData E WS_SERVER_CONNECTION (wc_tenantID c) (wc_chargingStationID c)
       (wc_tokenID c) (\<not> rest)) (returnS ())"

datatype station_message =
    BootNotification boot_request
  | Heartbeat
  | DiagnosticsStatusNotification string
  | FirmwareStatusNotification string

fun command_of :: "station_message \<Rightarrow> string" where
  "command_of (BootNotification b) = ''BootNotification''"
| "command_of Heartbeat = ''Heartbeat''"
| "command_of (DiagnosticsStatusNotification st) = ''DiagnosticsStatusNotification''"
| "command_of (FirmwareStatusNotification st) = ''FirmwareStatusNotification''"

datatype station_response = BootResponse boot_response | HeartbeatResponse int | EmptyResponse

definition call_service :: "connection_env \<Rightarrow> ocpp_header \<Rightarrow> station_message \<Rightarrow> station_response connection" where
  "call_service E h m =
     (case m of
        BootNotification b \<Rightarrow> bindS (handleBootNotification E h b) (\<lambda>r. returnS (BootResponse r))
      | Heartbeat \<Rightarrow> bindS (handleHeartbeat E h) (\<lambda>t. returnS (HeartbeatResponse t))
      | DiagnosticsStatusNotification st \<Rightarrow> thenS (handleDiagnosticsStatusNotification E h st) (returnS EmptyResponse)
      | FirmwareStatusNotification st \<Rightarrow> thenS (handleFirmwareStatusNotification E h st) (returnS EmptyResponse))"

definition header_of :: "ws_connection \<Rightarrow> station_document option \<Rightarrow> registration_token option \<Rightarrow> ocpp_header" where
  "header_of c d t =
     \<lparr>oh_chargeBoxIdentity = wc_chargingStationID c, oh_currentIPAddress = wc_clientIP c, oh_ocppProtocol = JSON,
      oh_ocppVersion = wc_ocppVersion c, oh_tokenID = wc_tokenID c, oh_token = t, oh_chargingStationURL = wc_url c,
      oh_station = d\<rparr>"

text \<open>The commands of this theory are among those a station may send, and their handlers exist.\<close>

definition handleRequest :: "connection_env \<Rightarrow> ws_connection \<Rightarrow> station_message \<Rightarrow> station_response connection" where
  "handleRequest E c m =
     bindS (checkAndGetChargingStationConnectionData E (buildServerActionFromOcppCommand (Some (command_of m)))
              (wc_tenantID c) (wc_chargingStationID c) (wc_tokenID c) True) (\<lambda>(d, t).
       call_service E (header_of c d t) m)"

text \<open>A ping or a pong of the station is recorded when the last one is half an interval ago; \<open>seen\<close> is when that was.\<close>

definition updateChargingStationLastSeen :: "connection_env \<Rightarrow> ws_connection \<Rightarrow> int option \<Rightarrow> int option connection" where
  "updateChargingStationLastSeen E c seen =
     (if (case seen of None \<Rightarrow> True | Some t \<Rightarrow> ne_pingInterval E * 1000 < 2 * (ne_now E - t)) then
        bindS (getS (getChargingStation E (wc_chargingStationID c))) (\<lambda>found.
        thenS (whenS (found \<noteq> None)
                 (saveChargingStationRuntimeData (wc_chargingStationID c)
                    \<lparr>rd_lastSeen = Some (ne_now E), rd_tokenID = None, rd_cloudHostIP = None, rd_cloudHostName = None\<rparr>))
          (returnS (Some (ne_now E))))
      else returnS seen)"

end
