(* ===== verification/StationRegistration.thy ===== *)
theory StationRegistration
  imports StationConnections SessionStations SessionMessages
begin

text \<open>
  What connecting and registering guarantee: only a valid token lets a station in, and a station that restarts finds
  the sessions of its connectors again.
\<close>

section \<open>Who gets in\<close>

lemma lookup_update_first:
  "(\<And>d. key (f d) = key d) \<Longrightarrow>
   lookup_by key j (update_first (\<lambda>d. key d = i) f ds) = (if j = i then map_option f (lookup_by key i ds) else lookup_by key j ds)"
  by (induction ds) (auto simp: lookup_by_def)

text \<open>Every station is the one that was there, with its token, or the one of the connection with the token of the connection.\<close>

definition only_station :: "string \<Rightarrow> string \<Rightarrow> connection_state \<Rightarrow> connection_state \<Rightarrow> bool" where
  "only_station i token s0 s \<longleftrightarrow>
     (\<forall>j d'. lookup_by cs_id j (cd_stations s) = Some d' \<longrightarrow>
        (\<exists>d. lookup_by cs_id j (cd_stations s0) = Some d \<and> sd_tokenID d = sd_tokenID d') \<or> (j = i \<and> sd_tokenID d' = Some token))"

lemma only_station_refl: "only_station i token s s"
  by (simp add: only_station_def)

lemma only_station_kept [simp]:
  "only_station i k s0 (s\<lparr>cd_boots := a\<rparr>) = only_station i k s0 s"
  "only_station i k s0 (s\<lparr>cd_heartbeats := b\<rparr>) = only_station i k s0 s"
  "only_station i k s0 (s\<lparr>cd_diagnostics := c\<rparr>) = only_station i k s0 s"
  "only_station i k s0 (s\<lparr>cd_firmwares := e\<rparr>) = only_station i k s0 s"
  "only_station i k s0 (s\<lparr>cd_delayed := f\<rparr>) = only_station i k s0 s"
  by (simp_all add: only_station_def)

lemma change_keeps_stations:
  assumes "\<And>d. cs_id (f d) = cs_id d" "\<And>d. sd_tokenID (f d) = sd_tokenID d \<or> sd_tokenID (f d) = Some k" "j = i \<or> (\<forall>d. sd_tokenID (f d) = sd_tokenID d)"
  shows "preservesS (only_station i k s0) (change_stored j f)"
  unfolding change_stored_def
proof (rule updateS_rule)
  fix s assume s: "only_station i k s0 s"
  show "only_station i k s0 (s\<lparr>cd_stations := update_first (\<lambda>d. cs_id d = j) f (cd_stations s)\<rparr>)"
    unfolding only_station_def
  proof (intro allI impI)
    fix l d'
    assume "lookup_by cs_id l (cd_stations (s\<lparr>cd_stations := update_first (\<lambda>d. cs_id d = j) f (cd_stations s)\<rparr>)) = Some d'"
    then obtain d where d: "lookup_by cs_id l (cd_stations s) = Some d" "d' = d \<or> (l = j \<and> d' = f d)"
      by (auto simp: lookup_update_first assms(1) split: if_splits)
    with s have "(\<exists>d0. lookup_by cs_id l (cd_stations s0) = Some d0 \<and> sd_tokenID d0 = sd_tokenID d) \<or> (l = i \<and> sd_tokenID d = Some k)"
      unfolding only_station_def by blast
    with d(2) assms(2) [of d] assms(3)
    show "(\<exists>d0. lookup_by cs_id l (cd_stations s0) = Some d0 \<and> sd_tokenID d0 = sd_tokenID d') \<or> (l = i \<and> sd_tokenID d' = Some k)"
      by auto
  qed
qed

lemma firmware_status_keeps_stations [effect_rules]:
  "preservesS (only_station i k s0) (saveChargingStationFirmwareStatus j st)"
  unfolding saveChargingStationFirmwareStatus_def by (rule change_keeps_stations) simp_all

lemma stored_document_fields [simp]:
  "cs_id (stored_document l d) = cs_id d" "sd_tokenID (stored_document l d) = sd_tokenID d"
  by (cases d; simp add: stored_document_def stored_station_def charging_station.defs)+

lemma save_keeps_stations:
  assumes "cs_id d = i" "sd_tokenID d = Some k"
  shows "preservesS (only_station i k s0) (saveStation E d)"
  unfolding saveStation_def
  by (rule updateS_rule) (use assms in \<open>auto simp: only_station_def lookup_upsert split: if_splits\<close>)

text \<open>What a template and a boot do to a station keeps its identifier and its token.\<close>

lemma template_keeps:
  assumes "enrichChargingStationWithTemplate T d = Inr (d', r)"
  shows "cs_id d' = cs_id d \<and> sd_tokenID d' = sd_tokenID d \<and> cs_connectors d' = cs_connectors d
    \<and> cs_backupConnectors d' = cs_backupConnectors d"
proof -
  define kept where "kept d = (cs_id d, sd_tokenID d, cs_connectors d, cs_backupConnectors d)" for d :: station_document
  have technical: "kept (fst (enrichChargingStationWithTemplateTechnicalParams t d)) = kept d" for t d
    by (auto simp: kept_def enrichChargingStationWithTemplateTechnicalParams_def split: option.split)
  have capable: "kept (fst (enrichChargingStationWithTemplateCapabilities T t d)) = kept d" for t d
    by (auto simp: kept_def enrichChargingStationWithTemplateCapabilities_def set_capabilities_def Let_def split: option.split)
  have standard: "enrichChargingStationWithTemplateOcppStandardParams T t d = Inr x \<Longrightarrow> kept (fst x) = kept d" for t d x
    by (auto simp: kept_def enrichChargingStationWithTemplateOcppStandardParams_def res_simps split: if_splits)
  have vendor: "enrichChargingStationWithTemplateOcppVendorParams T t d = Inr x \<Longrightarrow> kept (fst x) = kept d" for t d x
    by (auto simp: kept_def enrichChargingStationWithTemplateOcppVendorParams_def res_simps split: if_splits)
  have applied: "apply_template T t d = Inr (d1, r1) \<Longrightarrow> kept d1 = kept d" for t d d1 r1
    using technical [of t d] capable [of t "fst (enrichChargingStationWithTemplateTechnicalParams t d)"]
    by (auto simp: apply_template_def res_simps split: if_splits prod.splits dest!: standard vendor) (simp add: kept_def)
  have "override_charge_points t d = Inr d1 \<Longrightarrow> kept d1 = kept d" for t d d1
    by (auto simp: kept_def override_charge_points_def split: option.splits if_splits)
  with applied assms have "kept d' = kept d"
    by (auto simp: enrichChargingStationWithTemplate_def res_simps split: if_splits option.splits) (simp_all add: kept_def)
  then show ?thesis by (simp add: kept_def)
qed

definition boot_station :: "connection_env \<Rightarrow> ocpp_header \<Rightarrow> boot_request \<Rightarrow> station_document \<Rightarrow> station_document" where
  "boot_station E h b d =
     (let d1 = d\<lparr>sd_ocppProtocol := oh_ocppProtocol h, cs_ocppVersion := oh_ocppVersion h,
            sd_currentIPAddress := oh_currentIPAddress h, sd_cloudHostIP := ne_hostIP E, sd_cloudHostName := ne_hostName E,
            sd_lastReboot := Some (ne_now E), sd_lastSeen := Some (ne_now E),
            sd_chargePointSerialNumber := copied_text (bn_chargePointSerialNumber b),
            sd_chargeBoxSerialNumber := copied_text (bn_chargeBoxSerialNumber b),
            sd_firmwareVersion := copied_text (bn_firmwareVersion b), cs_deleted := False,
            sd_chargingStationURL := (if truthy_str (oh_chargingStationURL h) then oh_chargingStationURL h else sd_chargingStationURL d)\<rparr> in
      backup_connectors (if truthy_str (sd_firmwareUpdateStatus d) then forget_template d1 else d1))"

lemma boot_run:
  "enrichChargingStationFromBootNotification E h b d =
     thenS (if truthy_str (sd_firmwareUpdateStatus d) then saveChargingStationFirmwareStatus (cs_id d) None else returnS ())
       (returnS (boot_station E h b d))"
  by (simp add: enrichChargingStationFromBootNotification_def boot_station_def Let_def thenS_def bindS_def returnS_def fun_eq_iff)

lemma backup_fields [simp]: "cs_id (backup_connectors d) = cs_id d" "sd_tokenID (backup_connectors d) = sd_tokenID d"
  by (simp_all add: backup_connectors_def split: option.split list.split)

lemma boot_station_fields [simp]: "cs_id (boot_station E h b d) = cs_id d" "sd_tokenID (boot_station E h b d) = sd_tokenID d"
  by (simp_all add: boot_station_def Let_def forget_template_def)

lemma blank_fields [simp]: "cs_id (blank_station h b) = oh_chargeBoxIdentity h" "sd_tokenID (blank_station h b) = Some (oh_tokenID h)"
  by (simp_all add: blank_station_def charging_station.defs station_document.defs)

lemma created_fields:
  "createChargingStationFromBootNotification E h b = Inr d \<Longrightarrow> cs_id d = oh_chargeBoxIdentity h \<and> sd_tokenID d = Some (oh_tokenID h)"
  by (auto simp: createChargingStationFromBootNotification_def Let_def split: option.splits if_splits)

lemma boot_keeps_stations:
  assumes "oh_chargeBoxIdentity h = i" "oh_tokenID h = k"
    and "\<And>d. oh_station h = Some d \<Longrightarrow> cs_id d = i \<and> sd_tokenID d = Some k"
  shows "preservesS (only_station i k s0) (handleBootNotification E h b)"
proof -
  let ?K = "\<lambda>d. cs_id d = i \<and> sd_tokenID d = Some k"
  have station: "yieldsS (only_station i k s0) (case oh_station h of
      None \<Rightarrow> liftS (createChargingStationFromBootNotification E h b)
    | Some d \<Rightarrow> thenS (liftS (checkChargingStationIsIdenticalFromBootNotification d b)) (returnS d)) ?K"
  proof (cases "oh_station h")
    case None
    with assms(1,2) created_fields show ?thesis by (auto intro!: liftS_yields)
  next
    case (Some d)
    with assms(3) show ?thesis by (auto intro!: thenS_yields liftS_rule returnS_yields)
  qed
  have enriched: "yieldsS (only_station i k s0) (enrichChargingStationFromBootNotification E h b d) ?K" if "?K d" for d
    using that unfolding boot_run by (auto intro!: thenS_yields returnS_yields effect_rules)
  have templated: "yieldsS (only_station i k s0) (liftS (enrichChargingStationWithTemplate T d)) (\<lambda>x. ?K (fst x))"
    if "?K d" for T d
    using that template_keeps [of T d] by (auto intro!: liftS_yields)
  show ?thesis
    unfolding handleBootNotification_def saveBootNotification_def
    by (intro attemptS_preserves thenS_preserves liftS_rule bindS_yields [OF station] bindS_yields [OF enriched]
        bindS_yields [OF templated] case_prod_holds save_keeps_stations bindS_preserves getS_rule if_holds
        throwS_rule updateS_rule returnS_rule; simp?)
qed

lemma messages_keep_stations:
  "preservesS (only_station i k s0) (handleHeartbeat E h)"
  "preservesS (only_station i k s0) (handleDiagnosticsStatusNotification E h st)"
  "preservesS (only_station i k s0) (handleFirmwareStatusNotification E h st)"
  unfolding handleHeartbeat_def saveHeartbeat_def handleDiagnosticsStatusNotification_def
    saveDiagnosticsStatusNotification_def handleFirmwareStatusNotification_def saveFirmwareStatusNotification_def
  by (intro effect_rules effect_cases; simp)+

lemma service_keeps_stations:
  assumes "oh_chargeBoxIdentity h = i" "oh_tokenID h = k"
    and "\<And>d. oh_station h = Some d \<Longrightarrow> cs_id d = i \<and> sd_tokenID d = Some k"
  shows "preservesS (only_station i k s0) (call_service E h m)"
  by (cases m) (simp_all add: call_service_def bindS_preserves thenS_preserves returnS_rule messages_keep_stations
      boot_keeps_stations [OF assms])

definition valid_token :: "connection_env \<Rightarrow> string \<Rightarrow> bool" where
  "valid_token E k \<longleftrightarrow> (\<exists>t \<in> set (ne_tokens E). rt_id t = k \<and> rt_expirationDate t \<noteq> None
     \<and> ne_now E \<le> the (rt_expirationDate t)
     \<and> (rt_revocationDate t = None \<or> ne_now E \<le> the (rt_revocationDate t)))"

lemma ensured_token: "ensureChargingStationHasValidConnectionToken E k = Inr t \<Longrightarrow> valid_token E k"
  by (auto simp: ensureChargingStationHasValidConnectionToken_def getRegistrationToken_def find_Some_iff valid_token_def
      split: if_splits option.splits)

lemma found_station:
  assumes "getChargingStation E i s = Some d"
  shows "cs_id d = i \<and> (\<exists>d0. lookup_by cs_id i (cd_stations s) = Some d0 \<and> sd_tokenID d0 = sd_tokenID d)"
proof -
  from assms obtain d0 where "lookup_by cs_id i (cd_stations s) = Some d0" "d = pushChargingStationInactiveFlagInAggregation E d0"
    by (auto simp: getChargingStation_def split: option.splits if_splits)
  moreover then have "cs_id d0 = i" using lookup_key [of cs_id i "cd_stations s" d0] by simp
  ultimately show ?thesis by (simp add: pushChargingStationInactiveFlagInAggregation_def Let_def)
qed

text \<open>What the check of a connection leaves: the state, the station it found, and whether the token was looked at.\<close>

lemma admitted_station:
  assumes "admit_station E i k update d0 s = (Inr d, s1)" "k \<noteq> []"
  shows "only_station i k s s1 \<and> cs_id d = cs_id d0 \<and> sd_tokenID d = Some k"
proof -
  have "preservesS (only_station i k s) (saveChargingStationRuntimeData i
      \<lparr>rd_lastSeen = l, rd_tokenID = Some k, rd_cloudHostIP = ip, rd_cloudHostName = n\<rparr>)" for l ip n
    unfolding saveChargingStationRuntimeData_def
    by (rule change_keeps_stations) (simp_all add: set_runtime_data_def assms(2))
  from after_run [OF this only_station_refl] have "saveChargingStationRuntimeData i
      \<lparr>rd_lastSeen = l, rd_tokenID = Some k, rd_cloudHostIP = ip, rd_cloudHostName = n\<rparr> s = (r, s2) \<Longrightarrow> only_station i k s s2"
    for l ip n r s2 .
  with assms(1) show ?thesis
    by (auto simp: admit_station_def effect_apply thenS_returns Let_def only_station_refl split: if_splits)
qed

lemma refused_station: "admit_station E i k update d0 s = (Inl e, s1) \<Longrightarrow> s1 = s"
  by (auto simp: admit_station_def effect_apply thenS_def bindS_raises Let_def saveChargingStationRuntimeData_def
      change_stored_def split: if_splits)

lemma checked_connection:
  assumes "checkAndGetChargingStationConnectionData E action tenant i k update s = (Inr (d, t), s1)"
  shows "only_station i k s s1 \<and> (\<forall>x. d = Some x \<longrightarrow> cs_id x = i \<and> sd_tokenID x = Some k)
    \<and> (valid_token E k \<or> (\<exists>d0. lookup_by cs_id i (cd_stations s) = Some d0 \<and> sd_tokenID d0 = Some k))"
proof -
  from assms have "k \<noteq> []"
    by (auto simp: checkAndGetChargingStationConnectionData_def thenS_returns effect_apply checkChargingStationConnectionData_def
        split: if_splits)
  show ?thesis
  proof (cases "getChargingStation E i s")
    case None
    with assms show ?thesis
      by (auto simp: checkAndGetChargingStationConnectionData_def thenS_returns effect_apply bindS_returns only_station_refl
          dest: ensured_token split: if_splits)
  next
    case (Some d0)
    from found_station [OF Some] obtain d1 where d0: "cs_id d0 = i" "lookup_by cs_id i (cd_stations s) = Some d1"
      "sd_tokenID d1 = sd_tokenID d0" by blast
    from assms Some obtain x where "check_station_token E k d0 = Inr t" "admit_station E i k update d0 s = (Inr x, s1)" "d = Some x"
      by (auto simp: checkAndGetChargingStationConnectionData_def thenS_returns effect_apply bindS_returns split: if_splits)
    with d0 admitted_station [OF _ \<open>k \<noteq> []\<close>, of E i update d0 s x s1] show ?thesis
      by (auto simp: check_station_token_def res_simps dest: ensured_token split: if_splits)
  qed
qed

lemma refused_connection:
  assumes "checkAndGetChargingStationConnectionData E action tenant i k update s = (Inl e, s1)"
  shows "s1 = s"
  using assms
  by (auto simp: checkAndGetChargingStationConnectionData_def thenS_def bindS_raises effect_apply dest: refused_station
      split: if_splits option.splits)

text \<open>
  C10: Only a valid token lets a station in: when a request on a web socket adds a station to the database or gives one
  another token, that station is the one of the connection, the token is the one of the connection, and it is a
  token of the tenant that has not expired and has not been revoked.
\<close>

theorem stations_register_with_a_valid_token:
  assumes "handleRequest E c m s = (r, s')" "lookup_by cs_id j (cd_stations s') = Some d'"
    and "\<nexists>d. lookup_by cs_id j (cd_stations s) = Some d \<and> sd_tokenID d = sd_tokenID d'"
  shows "j = wc_chargingStationID c \<and> sd_tokenID d' = Some (wc_tokenID c) \<and> valid_token E (wc_tokenID c)"
proof -
  let ?i = "wc_chargingStationID c" and ?k = "wc_tokenID c"
  let ?check = "checkAndGetChargingStationConnectionData E (buildServerActionFromOcppCommand (Some (command_of m)))
              (wc_tenantID c) ?i ?k True"
  obtain r1 s1 where check: "?check s = (r1, s1)" by (cases "?check s")
  show ?thesis
  proof (cases r1)
    case (Inl e)
    with check assms(1) refused_connection have "s' = s" by (fastforce simp: handleRequest_def bindS_def)
    with assms(2,3) show ?thesis by blast
  next
    case (Inr x)
    obtain d t where x: "x = (d, t)" by (cases x)
    with Inr check have "?check s = (Inr (d, t), s1)" by simp
    from checked_connection [OF this] have only: "only_station ?i ?k s s1"
      and d: "\<forall>x. d = Some x \<longrightarrow> cs_id x = ?i \<and> sd_tokenID x = Some ?k"
      and valid: "valid_token E ?k \<or> (\<exists>d0. lookup_by cs_id ?i (cd_stations s) = Some d0 \<and> sd_tokenID d0 = Some ?k)"
      by blast+
    from check Inr x assms(1) have "call_service E (header_of c d t) m s1 = (r, s')"
      by (simp add: handleRequest_def bindS_def)
    with service_keeps_stations [of "header_of c d t" ?i ?k s E m] d only have "only_station ?i ?k s s'"
      by (auto simp: header_of_def intro: after_run)
    with assms(2,3) valid show ?thesis unfolding only_station_def by metis
  qed
qed

section \<open>A restart\<close>

text \<open>What a connector says of its session, as the store writes it.\<close>

definition session_of :: "connector \<Rightarrow> int \<times> string option \<times> string option \<times> int option" where
  "session_of cn = (num0 (cn_currentTransactionID cn), cn_currentUserID cn, cn_currentTagID cn, cn_currentTransactionDate cn)"

definition session_on :: "charging_station \<Rightarrow> int \<Rightarrow> (int \<times> string option \<times> string option \<times> int option) option" where
  "session_on cs i = map_option session_of (getConnectorFromID cs i)"

lemma session_stored [simp]: "session_of (filterConnectorMDB cn) = session_of cn"
  by (simp add: session_of_def filterConnectorMDB_def)

lemma session_changed:
  assumes "\<And>cn. cn_connectorId (f cn) = cn_connectorId cn" "\<And>cn. session_of (f cn) = session_of cn"
  shows "session_on (change_connector i f cs) j = session_on cs j"
proof -
  have "map_option session_of (List.find (\<lambda>c. cn_connectorId c = j) (update_first (\<lambda>c. cn_connectorId c = i) f cns))
      = map_option session_of (List.find (\<lambda>c. cn_connectorId c = j) cns)" for cns
    by (induction cns) (auto simp: assms)
  then show ?thesis
    by (simp add: session_on_def getConnectorFromID_def change_connector_def split: option.split)
qed

lemma session_replaced:
  assumes "getConnectorFromID cs i = Some cn" "cn_connectorId cn' = i" "session_of cn' = session_of cn"
  shows "session_on (change_connector i (\<lambda>_. cn') cs) j = session_on cs j"
proof -
  have "map_option session_of (List.find (\<lambda>c. cn_connectorId c = j) (update_first (\<lambda>c. cn_connectorId c = i) (\<lambda>_. cn') cns))
      = map_option session_of (List.find (\<lambda>c. cn_connectorId c = j) cns)"
    if "List.find (\<lambda>c. cn_connectorId c = i) cns = Some cn" for cns
    using that by (induction cns) (auto simp: assms split: if_splits)
  with assms(1) show ?thesis
    by (auto simp: session_on_def getConnectorFromID_def change_connector_def split: option.splits)
qed

lemma limit_keeps_sessions:
  assumes "limit_and_phases R T present i cs = Inr cs'"
  shows "session_on cs' j = session_on cs j"
proof (cases "getConnectorFromID cs i")
  case None
  with assms show ?thesis by (simp add: limit_and_phases_def)
next
  case (Some cn)
  with assms obtain cn2 where cn2: "cs' = change_connector i (\<lambda>_. cn2) cs"
    "(if present then Inr (checkAndSetConnectorAmperageLimit R cs (getNumberOfConnectedPhases cs None i) cn)
      else setConnectorPhaseAssignment T cs (getNumberOfConnectedPhases cs None i)
        (checkAndSetConnectorAmperageLimit R cs (getNumberOfConnectedPhases cs None i) cn)) = Inr cn2"
    by (auto simp: limit_and_phases_def Let_def res_simps)
  then have "cn_connectorId cn2 = cn_connectorId cn \<and> session_of cn2 = session_of cn"
    by (auto simp: checkAndSetConnectorAmperageLimit_def setConnectorPhaseAssignment_def session_of_def Let_def
        split: if_splits option.splits)
  with getConnectorFromID_Some [OF Some] session_replaced [OF Some] cn2(1) show ?thesis by simp
qed

definition vendor_template ::
    "runtime \<Rightarrow> template_env \<Rightarrow> station_document \<Rightarrow> bool \<Rightarrow> charging_station \<Rightarrow> int \<Rightarrow> charging_station res" where
  "vendor_template R T d present cs i =
     bindE (enrichChargingStationConnectorWithTemplate R T present i (charging_station.extend cs (charging_station.more d)))
       (\<lambda>(cs', _). Inr cs')"

lemma truncate_extend: "charging_station.truncate (charging_station.extend cs m) = cs"
  by (cases cs) (simp add: charging_station.defs)

lemma adjusted_sessions: "adjustChargingStationChargePointForMasterSlave R cs = Inr cs' \<Longrightarrow> session_on cs' j = session_on cs j"
  by (auto simp: adjustChargingStationChargePointForMasterSlave_def session_on_def getConnectorFromID_def
      split: option.splits list.splits)

lemma template_keeps_sessions:
  assumes "vendor_template R T d present cs i = Inr cs'"
  shows "session_on cs' j = session_on cs j"
proof -
  have template: "session_on (change_connector i (set_template_connector tc) cs) j = session_on cs j" for tc
    by (rule session_changed) (simp_all add: set_template_connector_def session_of_def)
  have enriched: "enrich_connector R T present i tt tcs cs = Inr (cs', u) \<Longrightarrow> session_on cs' j = session_on cs j" for tt tcs u
    by (auto simp: enrich_connector_def res_simps Let_def template split: option.splits if_splits
        dest!: limit_keeps_sessions [where j = j] adjusted_sessions [where j = j])
  have "session_on (add_unknown_connector i cs) j = session_on cs j"
    by (simp add: add_unknown_connector_def session_on_def getConnectorFromID_def split: option.split list.split)
  with assms enriched show ?thesis
    by (auto simp: vendor_template_def enrichChargingStationConnectorWithTemplate_def res_simps truncate_extend Let_def
        split: if_splits option.splits)
qed

lemma find_backed_up:
  "List.find (\<lambda>c. cn_connectorId c = i) (backed_up bs cns) =
     (case List.find (\<lambda>c. cn_connectorId c = i) bs of Some b \<Rightarrow> Some b | None \<Rightarrow> List.find (\<lambda>c. cn_connectorId c = i) cns)"
proof (induction cns arbitrary: bs)
  case Nil
  then show ?case by (simp add: backed_up_def split: option.split)
next
  case (Cons cn cns)
  have append: "List.find p (xs @ ys) = (case List.find p xs of Some x \<Rightarrow> Some x | None \<Rightarrow> List.find p ys)" for p :: "connector \<Rightarrow> bool" and xs ys
    by (induction xs) auto
  show ?case
  proof (cases "\<exists>b \<in> set bs. cn_connectorId b = cn_connectorId cn")
    case True
    then have "backed_up bs (cn # cns) = backed_up bs cns" by (simp add: backed_up_def)
    moreover have "cn_connectorId cn = i \<Longrightarrow> List.find (\<lambda>c. cn_connectorId c = i) bs \<noteq> None"
      using True by (auto simp: find_None_iff)
    ultimately show ?thesis using Cons.IH [of bs] by (auto split: option.splits)
  next
    case False
    then have "backed_up bs (cn # cns) = backed_up (bs @ [cn]) cns" by (auto simp: backed_up_def)
    with Cons.IH [of "bs @ [cn]"] show ?thesis by (auto simp: append split: option.splits)
  qed
qed

lemma attemptS_accepted:
  assumes "attemptS m h s = (Inr a, s')" "\<And>e. h e \<noteq> a"
  shows "m s = (Inr a, s')"
  using assms by (auto simp: attemptS_def tryS_def split: prod.splits sum.splits)

lemma saved_station:
  assumes "saveStation E d s = (Inr (), s')"
  shows "lookup_by cs_id (cs_id d) (cd_stations s')
    = Some ((stored_document (ne_lat_long E) d)\<lparr>sd_firmwareUpdateStatus := stored_firmware_status (cs_id d) s\<rparr>)"
proof -
  have "s' = s\<lparr>cd_stations := upsert cs_id ((stored_document (ne_lat_long E) d)
      \<lparr>sd_firmwareUpdateStatus := stored_firmware_status (cs_id d) s\<rparr>) (cd_stations s)\<rparr>"
    using assms by (simp add: saveStation_def updateS_def)
  then show ?thesis by (simp add: lookup_upsert)
qed

lemma accepted_boot:
  assumes "handleBootNotification E h b s = (Inr r, s')" "br_status r = REGISTRATION_ACCEPTED" "oh_station h = Some d"
  obtains d2 u f where "enrichChargingStationWithTemplate (ne_templates E) (boot_station E h b d) = Inr (d2, u)"
    "lookup_by cs_id (cs_id d) (cd_stations s') = Some ((stored_document (ne_lat_long E) d2)\<lparr>sd_firmwareUpdateStatus := f\<rparr>)"
proof -
  have status: "\<lparr>br_currentTime = ne_now E, br_status = REGISTRATION_REJECTED, br_interval = BOOT_NOTIFICATION_WAIT_TIME\<rparr> \<noteq> r"
    using assms(2) by auto
  note run = attemptS_accepted [OF assms(1) [unfolded handleBootNotification_def] status]
  from run assms(3) obtain s1 d2 u s2 s3 where template: "enrichChargingStationWithTemplate (ne_templates E) (boot_station E h b d) = Inr (d2, u)"
    and saved: "saveStation E d2 s1 = (Inr (), s2)" and boot: "saveBootNotification E h s2 = (Inr (), s3)"
    and s': "s' = s3\<lparr>cd_delayed := cd_delayed s3 @
       [ParametersRequested (cs_id d2), CertificateIdsRequested (cs_id d2), RootCertificateInstalled (cs_id d2)]\<rparr>"
    unfolding thenS_returns bindS_returns boot_run by (auto simp: effect_apply thenS_returns)
  from boot have "cd_stations s3 = cd_stations s2"
    by (auto simp: saveBootNotification_def bindS_returns effect_apply split: if_splits)
  with s' have same: "cd_stations s' = cd_stations s2" by simp
  from template_keeps [OF template] have "cs_id d2 = cs_id d" by simp
  with that template saved_station [OF saved] same show thesis by metis
qed


end
