(* ===== verification/OcppSynchronisation.thy ===== *)
theory OcppSynchronisation
  imports OcppParameters
begin

text \<open>
  What becomes of the parameters of a template when the station does as it is told, and what becomes of a station
  that had them already.
\<close>

section \<open>Parameters found by their key\<close>

definition value_of :: "string \<Rightarrow> ocpp_parameter list \<Rightarrow> string option" where
  "value_of k ps = Option.bind (find_key k ps) op_value"

lemma find_key_filter: "find_key k ps = (case filter (\<lambda>p. op_key p = k) ps of [] \<Rightarrow> None | p # _ \<Rightarrow> Some p)"
  by (induction ps) (simp_all add: find_key_def)

lemma find_key_sorted: "find_key k (sort_key (\<lambda>p. lower_key (op_key p)) ps) = find_key k ps"
proof -
  have "filter (\<lambda>p. op_key p = k) qs
      = filter (\<lambda>p. op_key p = k) (filter (\<lambda>p. lower_key (op_key p) = lower_key k) qs)" for qs
    by (induction qs) auto
  then show ?thesis by (metis find_key_filter sort_key_stable)
qed

lemma find_key_append: "find_key k (ps @ qs) = (case find_key k ps of None \<Rightarrow> find_key k qs | Some p \<Rightarrow> Some p)"
  by (induction ps) (simp_all add: find_key_def)

lemma merged_answer_first:
  "find_key k ps = Some p \<Longrightarrow> find_key k (merged_configuration (Some ps) stored) = Some p"
proof -
  have "find_key k qs = Some p \<Longrightarrow>
      find_key k (foldl (\<lambda>ps p. if find_key (op_key p) ps = None then ps @ [p] else ps) qs customs) = Some p" for qs customs
    by (induction customs arbitrary: qs) (simp_all add: find_key_append)
  then show "find_key k ps = Some p \<Longrightarrow> find_key k (merged_configuration (Some ps) stored) = Some p"
    by (simp add: merged_configuration_def)
qed

lemma merged_without_customs:
  "\<forall>p \<in> set stored. \<not> op_custom p \<Longrightarrow> merged_configuration (Some ps) stored = ps"
  by (simp add: merged_configuration_def filter_False)

lemma getOcppParameters_set: "set (getOcppParameters s) = set (case ps_configuration s of None \<Rightarrow> [] | Some ps \<Rightarrow> ps)"
  by (simp add: getOcppParameters_def split: option.split)

section \<open>A station that does as it is told\<close>

text \<open>
  What OCPP says of the two requests: a change that is accepted is seen when the configuration is read, and nothing
  else changes; a station has no parameters of its own making (\<open>custom\<close> marks those added on the server).
\<close>

definition honours_configuration :: "'d station_client \<Rightarrow> ('d \<Rightarrow> ocpp_parameter list) \<Rightarrow> bool" where
  "honours_configuration C conf \<longleftrightarrow>
     (\<forall>x. dc_get C x = (Inr (Some (conf x)), x) \<and> (\<forall>p \<in> set (conf x). \<not> op_custom p)) \<and>
     (\<forall>k v x. \<exists>x'. dc_change C k v x = (Inr CONF_ACCEPTED, x')
        \<and> (\<forall>j. value_of j (conf x') = (if j = k then Some v else value_of j (conf x))))"

definition nothing_custom :: "'d parameter_state \<Rightarrow> bool" where
  "nothing_custom s \<longleftrightarrow> (\<forall>p \<in> set (getOcppParameters s). \<not> op_custom p)"

lemma read_and_stored:
  assumes "honours_configuration C conf" "dc_connected C" "nothing_custom s"
  shows "requestAndSaveChargingStationOcppParameters C s
    = (Inr CONF_ACCEPTED, s\<lparr>ps_configuration := Some (conf (ps_device s))\<rparr>)"
proof -
  have "dc_get C (ps_device s) = (Inr (Some (conf (ps_device s))), ps_device s)"
    using assms(1) by (simp add: honours_configuration_def)
  moreover have "s\<lparr>ps_device := ps_device s\<rparr> = s" by simp
  ultimately show ?thesis
    using assms(2,3)
    by (simp add: requestAndSaveChargingStationOcppParameters_def requestChargingStationOcppParameters_def
        ask_connected_def attemptS_def tryS_def bindS_def thenS_def ask_def getS_def saveOcppParameters_def updateS_def
        returnS_def nothing_custom_def merged_without_customs)
qed

lemma stored_is_not_custom:
  "honours_configuration C conf \<Longrightarrow> nothing_custom (s\<lparr>ps_configuration := Some (conf x)\<rparr>)"
  by (simp add: nothing_custom_def getOcppParameters_set honours_configuration_def)

definition in_order :: "ocpp_parameter list \<Rightarrow> (string \<times> string) list \<Rightarrow> bool" where
  "in_order current ps \<longleftrightarrow> (\<forall>(k, v) \<in> set ps. value_of k current = Some v)"

lemma value_found:
  "(\<exists>c. find_key k ps = Some c \<and> op_value c = Some v) \<longleftrightarrow> value_of k ps = Some v"
  by (cases "find_key k ps") (auto simp: value_of_def)

lemma one_parameter:
  assumes "honours_configuration C conf" "dc_connected C"
  obtains x where
    "synchronise_parameter C current y p s =
       (Inr (if value_of (fst p) current = Some (snd p) then y
             else y\<lparr>sy_result := Some CONF_ACCEPTED, sy_inSuccess := sy_inSuccess y + 1\<rparr>), s\<lparr>ps_device := x\<rparr>)"
    "\<forall>j. value_of j (conf x) = (if j = fst p \<and> value_of (fst p) current \<noteq> Some (snd p) then Some (snd p)
                                else value_of j (conf (ps_device s)))"
proof (cases "value_of (fst p) current = Some (snd p)")
  case True
  then show thesis by (intro that [of "ps_device s"]) (simp_all add: synchronise_parameter_def value_found returnS_def)
next
  case False
  from assms(1) obtain x where x: "dc_change C (fst p) (snd p) (ps_device s) = (Inr CONF_ACCEPTED, x)"
    "\<forall>j. value_of j (conf x) = (if j = fst p then Some (snd p) else value_of j (conf (ps_device s)))"
    unfolding honours_configuration_def by blast
  show thesis
    by (intro that [of x]) (use False assms(2) x in \<open>simp_all add: synchronise_parameter_def value_found
        requestChangeChargingStationOcppParameter_def ask_connected_def attemptS_def tryS_def bindS_def thenS_def ask_def
        returnS_def\<close>)
qed

lemma all_parameters:
  assumes "honours_configuration C conf" "dc_connected C" "distinct (map fst ps)"
  obtains x y' where "foldS (synchronise_parameter C current) y ps s = (Inr y', s\<lparr>ps_device := x\<rparr>)"
    "sy_rebootRequired y' = sy_rebootRequired y" "sy_inSuccess y \<le> sy_inSuccess y'"
    "sy_inSuccess y' = sy_inSuccess y \<longleftrightarrow> in_order current ps"
    "sy_inSuccess y' = sy_inSuccess y \<longrightarrow> sy_result y' = sy_result y"
    "\<forall>j. value_of j (conf x) =
       (case map_of ps j of Some v \<Rightarrow> (if value_of j current = Some v then value_of j (conf (ps_device s)) else Some v)
        | None \<Rightarrow> value_of j (conf (ps_device s)))"
  using assms(3)
proof (induction ps arbitrary: y s thesis)
  case Nil
  show thesis by (rule Nil(1) [of y "ps_device s"]) (simp_all add: returnS_def in_order_def)
next
  case (Cons p ps)
  obtain x1 where x1: "synchronise_parameter C current y p s =
       (Inr (if value_of (fst p) current = Some (snd p) then y
             else y\<lparr>sy_result := Some CONF_ACCEPTED, sy_inSuccess := sy_inSuccess y + 1\<rparr>), s\<lparr>ps_device := x1\<rparr>)"
    "\<forall>j. value_of j (conf x1) = (if j = fst p \<and> value_of (fst p) current \<noteq> Some (snd p) then Some (snd p)
                                else value_of j (conf (ps_device s)))"
    by (rule one_parameter [OF assms(1,2)])
  let ?y = "if value_of (fst p) current = Some (snd p) then y
            else y\<lparr>sy_result := Some CONF_ACCEPTED, sy_inSuccess := sy_inSuccess y + 1\<rparr>"
  from Cons.prems(2) have "distinct (map fst ps)" by simp
  let ?s = "s\<lparr>ps_device := x1\<rparr>"
  from \<open>distinct (map fst ps)\<close> obtain x y' where rest: "foldS (synchronise_parameter C current) ?y ps ?s = (Inr y', ?s\<lparr>ps_device := x\<rparr>)"
    "sy_rebootRequired y' = sy_rebootRequired ?y" "sy_inSuccess ?y \<le> sy_inSuccess y'"
    "sy_inSuccess y' = sy_inSuccess ?y \<longleftrightarrow> in_order current ps"
    "sy_inSuccess y' = sy_inSuccess ?y \<longrightarrow> sy_result y' = sy_result ?y"
    "\<forall>j. value_of j (conf x) =
       (case map_of ps j of Some v \<Rightarrow> (if value_of j current = Some v then value_of j (conf (ps_device ?s)) else Some v)
        | None \<Rightarrow> value_of j (conf (ps_device ?s)))"
    by (rule Cons.IH [rotated])
  have fresh: "map_of ps (fst p) = None"
    using Cons.prems(2) by (simp add: map_of_eq_None_iff)
  show thesis
  proof (rule Cons.prems(1) [of y' x])
    show "foldS (synchronise_parameter C current) y (p # ps) s = (Inr y', s\<lparr>ps_device := x\<rparr>)"
      using x1(1) rest(1) by (simp add: bindS_def)
    show "\<forall>j. value_of j (conf x) =
       (case map_of (p # ps) j of Some v \<Rightarrow> (if value_of j current = Some v then value_of j (conf (ps_device s)) else Some v)
        | None \<Rightarrow> value_of j (conf (ps_device s)))"
      using rest(6) x1(2) fresh by (cases p) (auto split: option.split)
  qed (use rest(2-5) in \<open>auto simp: in_order_def split: if_splits prod.splits\<close>)
qed

section \<open>The parameters of the template\<close>

definition template_parameters :: "station_document \<Rightarrow> (string \<times> string) list" where
  "template_parameters d = the (sd_ocppStandardParameters d) @ the (sd_ocppVendorParameters d)"

definition has_parameter_lists :: "station_document \<Rightarrow> bool" where
  "has_parameter_lists d \<longleftrightarrow> sd_ocppStandardParameters d \<noteq> None \<and> sd_ocppVendorParameters d \<noteq> None
     \<and> distinct (map fst (template_parameters d))"

lemma stored_value: "value_of k (getOcppParameters (s\<lparr>ps_configuration := Some ps\<rparr>)) = value_of k ps"
  by (simp add: value_of_def getOcppParameters_def find_key_sorted)

lemma values_in_order:
  "in_order current ps \<Longrightarrow> map_of ps j = Some v \<Longrightarrow> value_of j current = Some v"
  by (auto simp: in_order_def dest!: map_of_SomeD)

definition honest_client :: "'d station_client \<Rightarrow> ('d \<Rightarrow> ocpp_parameter list) \<Rightarrow> bool" where
  "honest_client C conf \<longleftrightarrow> honours_configuration C conf \<and> dc_connected C \<and> \<not> dc_late_request C \<and> \<not> dc_late_update C"

lemma update_run:
  assumes "honest_client C conf" "nothing_custom s" "has_parameter_lists d"
    and stored: "\<And>j. value_of j (getOcppParameters s) = value_of j (conf (ps_device s))"
  obtains x c where "updateChargingStationOcppParametersWithTemplate C d s =
      (Inr (if in_order (conf (ps_device s)) (template_parameters d) then None else Some CONF_ACCEPTED),
       s\<lparr>ps_device := x, ps_configuration := c\<rparr>)"
    "c = (if in_order (conf (ps_device s)) (template_parameters d) then ps_configuration s else Some (conf x))"
    "\<forall>j. value_of j (conf x) = (case map_of (template_parameters d) j of Some v \<Rightarrow> Some v | None \<Rightarrow> value_of j (conf (ps_device s)))"
proof -
  let ?ps = "template_parameters d" and ?current = "getOcppParameters s"
  have order: "in_order ?current ps \<longleftrightarrow> in_order (conf (ps_device s)) ps" for ps
    by (simp add: in_order_def stored)
  from assms(1,3) obtain x y where run: "foldS (synchronise_parameter C ?current) nothing_synchronised ?ps s = (Inr y, s\<lparr>ps_device := x\<rparr>)"
    and y: "\<not> sy_rebootRequired y" "sy_inSuccess y = 0 \<longleftrightarrow> in_order (conf (ps_device s)) ?ps"
      "sy_inSuccess y = 0 \<longrightarrow> sy_result y = None"
    and x: "\<forall>j. value_of j (conf x) =
       (case map_of ?ps j of Some v \<Rightarrow> (if value_of j ?current = Some v then value_of j (conf (ps_device s)) else Some v)
        | None \<Rightarrow> value_of j (conf (ps_device s)))"
    by (auto simp: honest_client_def has_parameter_lists_def nothing_synchronised_def order
        elim!: all_parameters [of C conf ?ps ?current nothing_synchronised s])
  let ?s = "s\<lparr>ps_device := x\<rparr>"
  have "requestAndSaveChargingStationOcppParameters C ?s = (Inr CONF_ACCEPTED, ?s\<lparr>ps_configuration := Some (conf x)\<rparr>)"
    using read_and_stored [of C conf ?s] assms(1,2) by (simp add: honest_client_def nothing_custom_def getOcppParameters_def)
  then have finish: "finish_synchronisation C y ?s =
      (Inr (if in_order (conf (ps_device s)) ?ps then None else Some CONF_ACCEPTED),
       ?s\<lparr>ps_configuration := if in_order (conf (ps_device s)) ?ps then ps_configuration s else Some (conf x)\<rparr>)"
    using y by (simp add: finish_synchronisation_def bindS_def thenS_def returnS_def)
  show thesis
  proof (rule that)
    show "updateChargingStationOcppParametersWithTemplate C d s =
      (Inr (if in_order (conf (ps_device s)) ?ps then None else Some CONF_ACCEPTED),
       s\<lparr>ps_device := x, ps_configuration := if in_order (conf (ps_device s)) ?ps then ps_configuration s else Some (conf x)\<rparr>)"
    proof -
      from assms(3) obtain ya yb where lists: "sd_ocppStandardParameters d = Some ya" "sd_ocppVendorParameters d = Some yb"
        and ps: "?ps = ya @ yb" by (auto simp: has_parameter_lists_def template_parameters_def)
      show ?thesis
      proof (cases "ya @ yb = []")
        case True
        with run ps have "s\<lparr>ps_device := x\<rparr> = s" by (simp add: returnS_def)
        moreover have "s\<lparr>ps_device := x, ps_configuration := ps_configuration s\<rparr> = s\<lparr>ps_device := x\<rparr>" by simp
        ultimately show ?thesis
          using True ps lists
          by (simp add: updateChargingStationOcppParametersWithTemplate_def bindS_def getS_def returnS_def in_order_def)
      next
        case False
        with lists run finish show ?thesis
          unfolding ps by (auto simp: updateChargingStationOcppParametersWithTemplate_def bindS_def getS_def)
      qed
    qed
  qed (use x in \<open>simp_all add: stored split: option.splits\<close>)
qed

lemma applied_parameters:
  assumes "honest_client C conf" "nothing_custom s" "has_parameter_lists d"
  obtains x z where "applyTemplateOcppParametersToChargingStation C d s =
      ((if in_order (conf (ps_device s)) (template_parameters d) then Inl TypeError else Inr CONF_ACCEPTED),
       s\<lparr>ps_device := x, ps_configuration := Some (conf z)\<rparr>)"
    "\<forall>j. value_of j (conf z) = value_of j (conf x)"
    "\<forall>j. value_of j (conf x) = (case map_of (template_parameters d) j of Some v \<Rightarrow> Some v | None \<Rightarrow> value_of j (conf (ps_device s)))"
proof -
  let ?s = "s\<lparr>ps_configuration := Some (conf (ps_device s))\<rparr>" and ?ps = "template_parameters d"
  have read: "requestAndSaveChargingStationOcppParameters C s = (Inr CONF_ACCEPTED, ?s)"
    using assms(1,2) by (simp add: honest_client_def read_and_stored)
  have "nothing_custom ?s" using assms(1) unfolding honest_client_def by (blast intro: stored_is_not_custom)
  moreover have "value_of j (getOcppParameters ?s) = value_of j (conf (ps_device ?s))" for j by (simp add: stored_value)
  ultimately obtain x c where update0: "updateChargingStationOcppParametersWithTemplate C d ?s =
      (Inr (if in_order (conf (ps_device ?s)) ?ps then None else Some CONF_ACCEPTED), ?s\<lparr>ps_device := x, ps_configuration := c\<rparr>)"
    and c0: "c = (if in_order (conf (ps_device ?s)) ?ps then ps_configuration ?s else Some (conf x))"
    and x0: "\<forall>j. value_of j (conf x) = (case map_of ?ps j of Some v \<Rightarrow> Some v | None \<Rightarrow> value_of j (conf (ps_device ?s)))"
    by (rule update_run [OF assms(1) _ assms(3)])
  from update0 have update: "updateChargingStationOcppParametersWithTemplate C d ?s =
      (Inr (if in_order (conf (ps_device s)) ?ps then None else Some CONF_ACCEPTED), s\<lparr>ps_device := x, ps_configuration := c\<rparr>)"
    by simp
  from c0 have c: "c = (if in_order (conf (ps_device s)) ?ps then Some (conf (ps_device s)) else Some (conf x))" by simp
  from x0 have x: "\<forall>j. value_of j (conf x) = (case map_of ?ps j of Some v \<Rightarrow> Some v | None \<Rightarrow> value_of j (conf (ps_device s)))"
    by (simp cong: option.case_cong)
  have "in_order (conf (ps_device s)) ?ps \<Longrightarrow> value_of j (conf (ps_device s)) = value_of j (conf x)" for j
    using x by (auto simp: values_in_order split: option.split)
  with c obtain z where "c = Some (conf z)" "\<forall>j. value_of j (conf z) = value_of j (conf x)" by (cases "in_order (conf (ps_device s)) ?ps") auto
  then show thesis
    using x assms(1) read update
    by (intro that [of z x]) (simp_all add: applyTemplateOcppParametersToChargingStation_def in_time_def bindS_def
        honest_client_def throwS_def returnS_def)
qed


section \<open>A station that was in order\<close>

text \<open>The station has a new template whose parameters it already has.\<close>

definition already_in_order :: "template_env \<Rightarrow> ('d \<Rightarrow> ocpp_parameter list) \<Rightarrow> 'd parameter_state \<Rightarrow> bool" where
  "already_in_order E conf s \<longleftrightarrow>
     (\<exists>d r. enrichChargingStationWithTemplate E (ps_station s) = Inr (d, r) \<and> chargingStationUpdated r
        \<and> (ocppStandardUpdated r \<or> ocppVendorUpdated r) \<and> has_parameter_lists d
        \<and> in_order (conf (ps_device s)) (template_parameters d))"

lemma task_of_an_orderly_station:
  assumes "honest_client C conf" "nothing_custom s" "already_in_order E conf s"
  shows "ps_station (template_task lat_long E C s) = ps_station s
    \<and> nothing_custom (template_task lat_long E C s) \<and> already_in_order E conf (template_task lat_long E C s)"
proof -
  from assms(3) obtain d r where d: "enrichChargingStationWithTemplate E (ps_station s) = Inr (d, r)" "chargingStationUpdated r"
    "ocppStandardUpdated r \<or> ocppVendorUpdated r" "has_parameter_lists d" "in_order (conf (ps_device s)) (template_parameters d)"
    unfolding already_in_order_def by blast
  obtain x z where
    run: "applyTemplateOcppParametersToChargingStation C d s =
      ((if in_order (conf (ps_device s)) (template_parameters d) then Inl TypeError else Inr CONF_ACCEPTED),
       s\<lparr>ps_device := x, ps_configuration := Some (conf z)\<rparr>)"
    and x: "\<forall>j. value_of j (conf x) = (case map_of (template_parameters d) j of Some v \<Rightarrow> Some v | None \<Rightarrow> value_of j (conf (ps_device s)))"
    by (rule applied_parameters [OF assms(1,2) d(4)])
  have task: "template_task lat_long E C s = s\<lparr>ps_device := x, ps_configuration := Some (conf z)\<rparr>"
    using d run by (simp add: template_task_def checkAndApplyTemplateToChargingStation_def tryS_def bindS_def thenS_def
        getS_def liftS_def)
  have "in_order (conf x) (template_parameters d)"
    using x d(4) by (auto simp: in_order_def has_parameter_lists_def)
  with d have "already_in_order E conf (template_task lat_long E C s)"
    unfolding task already_in_order_def by (intro exI [of _ d] exI [of _ r]) simp
  moreover have "nothing_custom (template_task lat_long E C s)"
    using assms(1) unfolding task honest_client_def
    by (simp add: nothing_custom_def getOcppParameters_set honours_configuration_def)
  ultimately show ?thesis by (simp add: task)
qed


end
