(* ===== verification/RegistrationSamples.thy ===== *)
theory RegistrationSamples
  imports StationRegistration OcppSynchronisation SessionSamples
begin

text \<open>
  A station, its template and a device that does as it is told; a station that registers with a token, and one that
  restarts while a session is running on its connector.  The properties of templates and registration are evaluated
  on them.
\<close>

section \<open>Templates\<close>

definition small_station :: station_document where
  "small_station = charging_station.extend two_connectors
     (station_document.fields ''Model'' (Text ''S1'') Null (Text ''1.2'') None None None None None None False False None None
        None None JSON (Some ''token'') False (Some 0) (Some 0) (Some 0) None None None None)"

definition small_template :: station_template where
  "small_template = \<lparr>tp_id = ''t'', tp_hash = ''h'', tp_hashTechnical = ''ht'', tp_hashCapabilities = ''hc'',
     tp_hashOcppStandard = ''hs'', tp_hashOcppVendor = ''hv'', tp_chargePointVendor = ''Vendor'',
     tp_extraFilters = [(''chargePointModel'', ''Model'')],
     tp_technical = Some \<lparr>tt_masterSlave = False, tt_maximumPower = Some 22000, tt_voltage = Some 230,
        tt_powerLimitUnit = Some AMPERE, tt_chargePoints = Some [], tt_connectors = Some []\<rparr>,
     tp_capabilities = None,
     tp_ocppStandardParameters = Some [\<lparr>sx_supportedFirmwareVersions = Some [''1.2''], sx_supportedOcppVersions = Some [''1.6''],
        sx_content = [(''MeterValueSampleInterval'', ''60'')]\<rparr>],
     tp_ocppVendorParameters = None\<rparr>"

text \<open>Patterns are compared as texts, but for the vendor.\<close>

definition one_template :: template_env where
  "one_template = \<lparr>tv_templates = [small_template],
     tv_regex = (\<lambda>p s. p = ''Vendor'' \<or> p = s), tv_phases = (\<lambda>_. Some 3)\<rparr>"

text \<open>The device is its configuration.\<close>

definition configuration :: "(string \<times> string) list \<Rightarrow> ocpp_parameter list" where
  "configuration x = map (\<lambda>(k, v). \<lparr>op_key = k, op_value = Some v, op_readonly = False, op_custom = False\<rparr>) x"

definition docile :: "(string \<times> string) list station_client" where
  "docile = \<lparr>dc_connected = True, dc_change = (\<lambda>k v x. (Inr CONF_ACCEPTED, (k, v) # x)),
     dc_get = (\<lambda>x. (Inr (Some (configuration x)), x)), dc_reset = (\<lambda>_ x. (Inr RESET_ACCEPTED, x)),
     dc_late_request = False, dc_late_update = False\<rparr>"

definition sixty_seconds :: "(string \<times> string) list parameter_state" where
  "sixty_seconds = \<lparr>ps_configuration = None, ps_station = small_station, ps_device = [(''MeterValueSampleInterval'', ''60'')]\<rparr>"

definition templated :: station_document where
  "templated = fst (projr (enrichChargingStationWithTemplate one_template small_station))"

lemma docile_is_honest: "honest_client docile configuration"
  by (auto simp: honest_client_def honours_configuration_def docile_def configuration_def value_of_def find_key_def)

definition all_but_capabilities :: template_update_result where
  "all_but_capabilities = \<lparr>chargingStationUpdated = True, technicalUpdated = True, capabilitiesUpdated = False,
     ocppStandardUpdated = True, ocppVendorUpdated = False\<rparr>"

lemma small_station_run:
  "case enrichChargingStationWithTemplate one_template small_station of Inl e \<Rightarrow> False
   | Inr (d, r) \<Rightarrow> r = all_but_capabilities
      \<and> sd_ocppStandardParameters d = Some [(''MeterValueSampleInterval'', ''60'')] \<and> sd_ocppVendorParameters d = Some []"
  by code_simp

lemma small_station_templated:
  "enrichChargingStationWithTemplate one_template small_station = Inr (templated, all_but_capabilities)
   \<and> sd_ocppStandardParameters templated = Some [(''MeterValueSampleInterval'', ''60'')]
   \<and> sd_ocppVendorParameters templated = Some []"
  using small_station_run unfolding templated_def
  by (cases "enrichChargingStationWithTemplate one_template small_station") auto

lemma templated_has_lists: "has_parameter_lists templated"
  using small_station_templated by (simp add: has_parameter_lists_def template_parameters_def)




section \<open>Registration\<close>

definition garage :: connection_env where
  "garage = \<lparr>ne_now = 1000, ne_tenants = [''te''], ne_tenantName = ''Garage'', ne_isObjectID = (\<lambda>i. i \<noteq> []),
     ne_tokens = [\<lparr>rt_id = ''to'', rt_siteAreaID = Some ''sa'', rt_expirationDate = Some 2000, rt_revocationDate = None\<rparr>],
     ne_areas = (\<lambda>_. Some \<lparr>al_companyID = Some ''co'', al_siteID = Some ''si'', al_coordinates = None, al_siteCoordinates = None\<rparr>),
     ne_hostIP = Some ''10.0.0.1'', ne_hostName = Some ''host'', ne_lat_long = (\<lambda>_ _. True), ne_templates = one_template,
     ne_heartbeatSOAP = 180, ne_heartbeatJSON = 3600, ne_pingInterval = 60\<rparr>"

definition garage_socket :: ws_connection where
  "garage_socket = \<lparr>wc_tenantID = ''te'', wc_tokenID = ''to'', wc_chargingStationID = ''cs'', wc_clientIP = Some ''1.2.3.4'',
     wc_ocppVersion = VERSION_16, wc_url = None\<rparr>"

definition nothing_stored :: connection_state where
  "nothing_stored = \<lparr>cd_stations = [], cd_boots = [], cd_heartbeats = [], cd_diagnostics = [], cd_firmwares = [], cd_delayed = []\<rparr>"

definition first_boot :: boot_request where
  "first_boot = \<lparr>bn_chargePointVendor = ''Schneider'', bn_chargePointModel = ''Model'', bn_chargePointSerialNumber = Some ''S1'',
     bn_chargeBoxSerialNumber = None, bn_firmwareVersion = Some ''1.2''\<rparr>"

lemma registers:
  "case lookup_by cs_id ''cs'' (cd_stations (snd (handleRequest garage garage_socket (BootNotification first_boot) nothing_stored))) of
     None \<Rightarrow> False | Some d \<Rightarrow> sd_tokenID d = Some ''to''"
  by code_simp

lemma stations_register_with_a_valid_token_witness:
  "valid_token garage ''to''"
proof -
  obtain d where d: "lookup_by cs_id ''cs'' (cd_stations (snd (handleRequest garage garage_socket (BootNotification first_boot) nothing_stored))) = Some d"
    using registers by (auto split: option.splits)
  have "wc_tokenID garage_socket = ''to''" by (simp add: garage_socket_def)
  with stations_register_with_a_valid_token [OF prod.collapse [symmetric] d] show ?thesis
    by (simp add: nothing_stored_def lookup_by_def)
qed

text \<open>The station has a session with the number seven on its first connector.\<close>

definition charging_station_document :: station_document where
  "charging_station_document = small_station\<lparr>cs_connectors := map_option (map (\<lambda>cn. cn\<lparr>cn_currentTransactionID := Some 7,
     cn_currentTagID := Some ''tag''\<rparr>)) (cs_connectors small_station)\<rparr>"

definition restarting :: ocpp_header where
  "restarting = header_of garage_socket (Some charging_station_document) None"

definition restarted :: station_document where
  "restarted = the (lookup_by cs_id ''cs'' (cd_stations (snd (handleBootNotification garage restarting first_boot nothing_stored))))"

definition after_restart :: session_env where
  "after_restart = plain_server\<lparr>se_template := vendor_template utc one_template restarted\<rparr>"

lemma restart_run:
  "case handleBootNotification garage restarting first_boot nothing_stored of
     (Inl e, s') \<Rightarrow> False
   | (Inr r, s') \<Rightarrow> br_status r = REGISTRATION_ACCEPTED
       \<and> (case lookup_by cs_id ''cs'' (cd_stations s') of None \<Rightarrow> False
          | Some d \<Rightarrow> (case add_connector after_restart 1 (charging_station.truncate d) of Inl e \<Rightarrow> False
              | Inr cs \<Rightarrow> session_on cs 1 = Some (7, None, Some ''tag'', None)))"
  by code_simp

lemma charging_connector:
  "case getConnectorFromID (charging_station.truncate charging_station_document) 1 of None \<Rightarrow> False
   | Some cn \<Rightarrow> session_of cn = (7, None, Some ''tag'', None)"
  by code_simp

lemma not_kept_aside:
  "getLastSeenConnectorFromID (charging_station.truncate charging_station_document) 1 = None"
  by code_simp


end
