(* ===== verification/CertificateText.thy ===== *)
theory CertificateText
  imports Prelude
begin

text \<open>
  The texts of certificates (PEM), as \<open>server/ocpp/services/OCPPService.ts\<close>, \<open>CertificateService.ts\<close> and
  \<open>storage/mongodb/CertificateStorage.ts\<close> clean them: escaped and foreign ends of lines, the first certificate
  between its marks, its Base64 characters in lines of 64.  The regular expressions are written out as functions
  on texts.
\<close>

section \<open>Regular expressions on texts\<close>

abbreviation backslash :: char where "backslash \<equiv> CHR 0x5C"
abbreviation newline :: char where "newline \<equiv> CHR 0x0A"
abbreviation carriage_return :: char where "carriage_return \<equiv> CHR 0x0D"

text \<open>The class \<open>\s\<close>, which is also what \<open>trim\<close> removes, among the characters of Latin-1.\<close>

definition white_space :: "char \<Rightarrow> bool" where
  "white_space c \<longleftrightarrow> c \<in> {CHR 0x09, CHR 0x0A, CHR 0x0B, CHR 0x0C, CHR 0x0D, CHR '' '', CHR 0xA0}"

definition trim :: "string \<Rightarrow> string" where
  "trim s = rev (dropWhile white_space (rev (dropWhile white_space s)))"

text \<open>\<open>replace(/\\n/g, '\n')\<close>: a backslash before an n.\<close>

fun unescape_newlines :: "string \<Rightarrow> string" where
  "unescape_newlines (c # d # s) =
     (if c = backslash \<and> d = CHR ''n'' then newline # unescape_newlines s else c # unescape_newlines (d # s))"
| "unescape_newlines s = s"

text \<open>\<open>replace(/\\+n/g, '\n')\<close>: one or more backslashes before an n; \<open>k\<close> of them are waiting.\<close>

fun unescape_from :: "nat \<Rightarrow> string \<Rightarrow> string" where
  "unescape_from k [] = replicate k backslash"
| "unescape_from k (c # s) =
     (if c = backslash then unescape_from (Suc k) s
      else if 0 < k \<and> c = CHR ''n'' then newline # unescape_from 0 s
      else replicate k backslash @ c # unescape_from 0 s)"

definition unescape_all_newlines :: "string \<Rightarrow> string" where
  "unescape_all_newlines = unescape_from 0"

text \<open>\<open>replace(/\r\n|\r/g, '\n')\<close>; the variant \<open>/\r\n|\r|\n/g\<close> gives the same text.\<close>

fun unix_newlines :: "string \<Rightarrow> string" where
  "unix_newlines (c # d # s) =
     (if c = carriage_return
      then newline # (if d = newline then unix_newlines s else unix_newlines (d # s))
      else c # unix_newlines (d # s))"
| "unix_newlines [c] = [if c = carriage_return then newline else c]"
| "unix_newlines [] = []"

section \<open>Marks\<close>

definition dashes :: string where "dashes = ''-----''"

definition pemHeader :: string where "pemHeader = ''-----BEGIN CERTIFICATE-----''"

definition pemFooter :: string where "pemFooter = ''-----END CERTIFICATE-----''"

text \<open>What is left of a text after a literal; \<open>\s*\<close> takes all the white space there is.\<close>

fun after :: "string \<Rightarrow> string \<Rightarrow> string option" where
  "after [] s = Some s"
| "after (p # ps) (c # s) = (if p = c then after ps s else None)"
| "after (p # ps) [] = None"

definition after_space :: "string \<Rightarrow> string option" where
  "after_space s = Some (dropWhile white_space s)"

text \<open>\<open>-----[\s]*word[\s]*CERTIFICATE[\s]*-----\<close> at the beginning of a text, and what follows it.\<close>

definition mark_here :: "string \<Rightarrow> string \<Rightarrow> string option" where
  "mark_here word s =
     Option.bind (after dashes s) (\<lambda>s. Option.bind (after_space s) (\<lambda>s. Option.bind (after word s) (\<lambda>s.
     Option.bind (after_space s) (\<lambda>s. Option.bind (after ''CERTIFICATE'' s) (\<lambda>s. Option.bind (after_space s) (after dashes))))))"

text \<open>The first match: where it begins and how long it is.\<close>

fun find_mark :: "string \<Rightarrow> string \<Rightarrow> (nat \<times> nat) option" where
  "find_mark word s =
     (case mark_here word s of
        Some r \<Rightarrow> Some (0, length s - length r)
      | None \<Rightarrow> (case s of [] \<Rightarrow> None | _ # s' \<Rightarrow> map_option (apfst Suc) (find_mark word s')))"

declare find_mark.simps [simp del]

text \<open>\<open>substring\<close> exchanges its bounds when they are in the wrong order.\<close>

definition substring :: "nat \<Rightarrow> nat \<Rightarrow> string \<Rightarrow> string" where
  "substring i j s = take (max i j - min i j) (drop (min i j) s)"

definition base64_char :: "char \<Rightarrow> bool" where
  "base64_char c \<longleftrightarrow> (let n = of_char c :: nat in
     (65 \<le> n \<and> n \<le> 90) \<or> (97 \<le> n \<and> n \<le> 122) \<or> (48 \<le> n \<and> n \<le> 57)) \<or> c = CHR ''+'' \<or> c = CHR ''/'' \<or> c = CHR ''=''"

text \<open>\<open>match(/.{1,64}/g)?.join('\n') || base64Content\<close>, for a text without ends of lines.\<close>

function lines_of_64 :: "string \<Rightarrow> string" where
  "lines_of_64 s = (if length s \<le> 64 then s else take 64 s @ newline # lines_of_64 (drop 64 s))"
  by auto
termination by (relation "measure length") auto

declare lines_of_64.simps [simp del]

section \<open>A certificate\<close>

text \<open>The certificate between the first marks, in its own lines; none when a mark is missing.\<close>

definition certificate_between :: "string \<Rightarrow> string option" where
  "certificate_between s =
     (case (find_mark ''BEGIN'' s, find_mark ''END'' s) of
        (Some (i, n), Some (j, _)) \<Rightarrow>
          Some (pemHeader @ newline # lines_of_64 (filter base64_char (filter (\<lambda>c. \<not> white_space c)
             (trim (substring (i + n) j s)))) @ newline # pemFooter)
      | _ \<Rightarrow> None)"

definition clean_chain :: "string \<Rightarrow> string option" where
  "clean_chain s = certificate_between (trim (unix_newlines (unescape_all_newlines s)))"

text \<open>The shorter cleaning of the other messages.\<close>

definition clean_lines :: "string \<Rightarrow> string" where
  "clean_lines s = trim (unix_newlines (unescape_newlines s))"

lemma after_length: "after p s = Some r \<Longrightarrow> length s = length p + length r"
  by (induction p s rule: after.induct) (auto split: if_splits)

text \<open>
  \<open>split('-----END CERTIFICATE-----').filter(cert => cert.trim()).map(cert => cert + '-----END CERTIFICATE-----')\<close>;
  \<open>p\<close> is what was read since the last mark.
\<close>

function split_from :: "string \<Rightarrow> string \<Rightarrow> string list" where
  "split_from p s =
     (case after pemFooter s of
        Some r \<Rightarrow> rev p # split_from [] r
      | None \<Rightarrow> (case s of [] \<Rightarrow> [rev p] | c # s' \<Rightarrow> split_from (c # p) s'))"
  by auto

termination by (relation "measure (length \<circ> snd)") (auto dest: after_length simp: pemFooter_def)

declare split_from.simps [simp del]

definition certificates_of :: "string \<Rightarrow> string list" where
  "certificates_of s = map (\<lambda>c. c @ pemFooter) (filter (\<lambda>c. trim c \<noteq> []) (split_from [] s))"

section \<open>Cleaning twice\<close>

lemma unescape_without: "backslash \<notin> set s \<Longrightarrow> unescape_from 0 s = s"
  by (induction s) auto

lemma unix_without: "carriage_return \<notin> set s \<Longrightarrow> unix_newlines s = s"
  by (induction s rule: unix_newlines.induct) auto

lemma dropWhile_head: "s = [] \<or> \<not> p (hd s) \<Longrightarrow> dropWhile p s = s"
  by (cases s) auto

lemma trim_trimmed: "s \<noteq> [] \<Longrightarrow> \<not> white_space (hd s) \<Longrightarrow> \<not> white_space (last s) \<Longrightarrow> trim s = s"
  by (simp add: trim_def dropWhile_head hd_rev)

lemma lines_of_64_chars: "set (lines_of_64 s) \<subseteq> set s \<union> {newline}"
proof (induction s rule: lines_of_64.induct)
  case (1 s)
  show ?case
  proof (cases "length s \<le> 64")
    case True
    then show ?thesis by (auto simp: lines_of_64.simps [of s])
  next
    case False
    with 1 show ?thesis by (subst lines_of_64.simps) (auto dest: in_set_takeD in_set_dropD)
  qed
qed

lemma lines_of_64_filter:
  "\<forall>c \<in> set s. p c \<Longrightarrow> \<not> p newline \<Longrightarrow> filter p (lines_of_64 s) = s"
proof (induction s rule: lines_of_64.induct)
  case (1 s)
  show ?case
  proof (cases "length s \<le> 64")
    case True
    with 1 show ?thesis by (simp add: lines_of_64.simps [of s])
  next
    case False
    have "\<forall>c \<in> set (take 64 s). p c" "\<forall>c \<in> set (drop 64 s). p c"
      using 1(2) by (auto dest: in_set_takeD in_set_dropD)
    with 1(1) [OF False] 1(3) False show ?thesis by (subst lines_of_64.simps) simp
  qed
qed

lemma base64_not_white: "base64_char c \<Longrightarrow> \<not> white_space c"
  by (auto simp: white_space_def base64_char_def Let_def)

lemma not_base64: "\<not> base64_char (CHR ''-'')" "\<not> base64_char backslash" "\<not> base64_char newline"
  "\<not> base64_char carriage_return"
  by (auto simp: base64_char_def Let_def)

lemma white_newline: "white_space newline"
  by (simp add: white_space_def)

lemma lines_safe: "list_all base64_char b \<Longrightarrow> c \<in> set (lines_of_64 b) \<Longrightarrow> base64_char c \<or> c = newline"
  using lines_of_64_chars [of b] by (auto simp: list_all_iff)

lemma lines_visible: "list_all base64_char b \<Longrightarrow> filter (\<lambda>c. \<not> white_space c) (lines_of_64 b) = b"
  by (rule lines_of_64_filter) (auto simp: list_all_iff base64_not_white white_newline)

lemma mark_not_dash: "c \<noteq> CHR ''-'' \<Longrightarrow> mark_here w (c # s) = None"
  by (simp add: mark_here_def dashes_def)

lemma find_mark_skip:
  "mark_here w (c # s) = None \<Longrightarrow> find_mark w (c # s) = map_option (apfst Suc) (find_mark w s)"
  by (simp add: find_mark.simps [of w "c # s"])

lemma find_mark_found: "mark_here w s = Some r \<Longrightarrow> find_mark w s = Some (0, length s - length r)"
  by (simp add: find_mark.simps [of w s])

lemma find_mark_text:
  "CHR ''-'' \<notin> set u \<Longrightarrow> find_mark w (u @ s) = map_option (apfst ((+) (length u))) (find_mark w s)"
proof (induction u)
  case Nil
  then show ?case by (cases "find_mark w s") auto
next
  case (Cons c u)
  then show ?case by (cases "find_mark w s") (auto simp: find_mark_skip mark_not_dash)
qed

abbreviation visible :: "string \<Rightarrow> string" where "visible \<equiv> filter (\<lambda>c. \<not> white_space c)"

lemma after_append: "after p s = Some r \<Longrightarrow> s = p @ r"
  by (induction p s rule: after.induct) (auto split: if_splits)

lemma visible_dropWhile: "visible (dropWhile white_space s) = visible s"
  by (induction s) auto

lemma visible_mark:
  assumes "mark_here w s = Some r"
  shows "visible s = visible (dashes @ w @ ''CERTIFICATE'' @ dashes) @ visible r"
proof -
  from assms obtain s1 s2 s3 where "after dashes s = Some s1" "after w (dropWhile white_space s1) = Some s2"
    "after ''CERTIFICATE'' (dropWhile white_space s2) = Some s3" "after dashes (dropWhile white_space s3) = Some r"
    by (auto simp: mark_here_def after_space_def bind_eq_Some_conv)
  then have "s = dashes @ s1" "dropWhile white_space s1 = w @ s2" "dropWhile white_space s2 = ''CERTIFICATE'' @ s3"
    "dropWhile white_space s3 = dashes @ r" by (auto dest: after_append)
  then have "visible s = visible dashes @ visible s1" "visible s1 = visible w @ visible s2"
    "visible s2 = visible ''CERTIFICATE'' @ visible s3" "visible s3 = visible dashes @ visible r"
    using visible_dropWhile [of s1] visible_dropWhile [of s2] visible_dropWhile [of s3] by auto
  then show ?thesis by simp
qed

lemma visible_dashes: "visible dashes = dashes"
  by (simp add: dashes_def white_space_def)

definition pem :: "string \<Rightarrow> string" where
  "pem b = pemHeader @ newline # lines_of_64 b @ newline # pemFooter"

lemma find_header: "find_mark ''BEGIN'' (pem b) = Some (0, length pemHeader)"
proof -
  have "mark_here ''BEGIN'' (pem b) = Some (newline # lines_of_64 b @ newline # pemFooter)"
    by (simp add: pem_def mark_here_def pemHeader_def dashes_def after_space_def white_space_def)
  from find_mark_found [OF this] show ?thesis by (simp add: pem_def)
qed

lemma no_footer_in_header:
  assumes "list_all base64_char b" "b \<noteq> ''ENDCERTIFICATE''"
  shows "mark_here ''END'' (dashes @ newline # lines_of_64 b @ newline # pemFooter) = None"
proof (rule ccontr)
  assume "mark_here ''END'' (dashes @ newline # lines_of_64 b @ newline # pemFooter) \<noteq> None"
  then obtain r where "mark_here ''END'' (dashes @ newline # lines_of_64 b @ newline # pemFooter) = Some r" by blast
  from visible_mark [OF this] assms(1)
  have "b @ visible (newline # pemFooter) = ''ENDCERTIFICATE'' @ dashes @ visible r"
    by (simp add: visible_dashes lines_visible white_newline) (simp add: white_space_def)
  moreover have "visible (newline # pemFooter) = CHR ''-'' # ''----ENDCERTIFICATE-----''"
    by (simp add: pemFooter_def white_space_def)
  moreover have "dashes = CHR ''-'' # ''----''" by (simp add: dashes_def)
  ultimately have eq: "b @ CHR ''-'' # ''----ENDCERTIFICATE-----'' = ''ENDCERTIFICATE'' @ CHR ''-'' # (''----'' @ visible r)"
    by simp
  have "CHR ''-'' \<notin> set b" using assms(1) not_base64(1) by (auto simp: list_all_iff)
  from split_at_separator [OF eq this] assms(2) show False by simp
qed

lemma dashes_skipped:
  assumes "mark_here w (dashes @ c # s) = None" "c \<noteq> CHR ''-''"
  shows "find_mark w (dashes @ c # s) = map_option (apfst ((+) 5)) (find_mark w (c # s))"
proof -
  have few: "mark_here w (CHR ''-'' # c # s) = None" "mark_here w (CHR ''-'' # CHR ''-'' # c # s) = None"
    "mark_here w (CHR ''-'' # CHR ''-'' # CHR ''-'' # c # s) = None"
    "mark_here w (CHR ''-'' # CHR ''-'' # CHR ''-'' # CHR ''-'' # c # s) = None"
    using assms(2) by (simp_all add: mark_here_def dashes_def)
  show ?thesis
    using assms(1) unfolding dashes_def
    by (cases "find_mark w (c # s)") (auto simp: few find_mark_skip)
qed

lemma header_skipped:
  "find_mark ''END'' (pemHeader @ s) = map_option (apfst ((+) 22)) (find_mark ''END'' (dashes @ s))"
proof -
  have "mark_here ''END'' (dashes @ ''BEGIN CERTIFICATE'' @ dashes @ s) = None"
    by (simp add: mark_here_def dashes_def after_space_def white_space_def)
  then have 1: "find_mark ''END'' (dashes @ ''BEGIN CERTIFICATE'' @ dashes @ s)
      = map_option (apfst ((+) 5)) (find_mark ''END'' (''BEGIN CERTIFICATE'' @ dashes @ s))"
    using dashes_skipped [of "''END''" "CHR ''B''" "''EGIN CERTIFICATE'' @ dashes @ s"] by simp
  have 2: "find_mark ''END'' (''BEGIN CERTIFICATE'' @ dashes @ s) = map_option (apfst ((+) 17)) (find_mark ''END'' (dashes @ s))"
    using find_mark_text [of "''BEGIN CERTIFICATE''" "''END''" "dashes @ s"]
    by (cases "find_mark ''END'' (dashes @ s)") auto
  have 3: "pemHeader @ s = dashes @ ''BEGIN CERTIFICATE'' @ dashes @ s"
    by (simp add: pemHeader_def dashes_def)
  show ?thesis unfolding 1 2 3 by (cases "find_mark ''END'' (dashes @ s)") (simp_all add: apfst_def map_prod_def split: prod.split)
qed

lemma find_footer:
  assumes "list_all base64_char b" "b \<noteq> ''ENDCERTIFICATE''"
  shows "find_mark ''END'' (pem b) = Some (29 + length (lines_of_64 b), length pemFooter)"
proof -
  let ?t = "newline # lines_of_64 b @ [newline]"
  have chars: "CHR ''-'' \<notin> set ?t"
    using lines_safe [OF assms(1), of "CHR ''-''"] not_base64(1) by auto
  have "mark_here ''END'' pemFooter = Some []"
    by (simp add: pemFooter_def mark_here_def dashes_def after_space_def white_space_def)
  then have "find_mark ''END'' pemFooter = Some (0, length pemFooter)" by (simp add: find_mark_found)
  with find_mark_text [OF chars, of "''END''" pemFooter]
  have "find_mark ''END'' (newline # lines_of_64 b @ newline # pemFooter) = Some (2 + length (lines_of_64 b), length pemFooter)"
    by simp
  with dashes_skipped [OF no_footer_in_header [OF assms]] header_skipped [of "newline # lines_of_64 b @ newline # pemFooter"]
  show ?thesis by (simp add: pem_def)
qed

lemma clean_pem:
  assumes "list_all base64_char b" "b \<noteq> ''ENDCERTIFICATE''"
  shows "clean_chain (pem b) = Some (pem b)"
proof -
  have "backslash \<notin> set (pem b)" "carriage_return \<notin> set (pem b)"
    using lines_safe [OF assms(1)] not_base64 by (auto simp: pem_def pemHeader_def pemFooter_def)
  moreover have "trim (pem b) = pem b"
    by (rule trim_trimmed) (simp_all add: pem_def pemHeader_def pemFooter_def white_space_def)
  ultimately have "trim (unix_newlines (unescape_all_newlines (pem b))) = pem b"
    by (simp add: unescape_all_newlines_def unescape_without unix_without)
  moreover have "substring (0 + length pemHeader) (29 + length (lines_of_64 b)) (pem b) = newline # lines_of_64 b @ [newline]"
    by (simp add: substring_def pem_def pemHeader_def)
  moreover have "filter base64_char (visible (trim (newline # lines_of_64 b @ [newline]))) = b"
  proof -
    have "visible (trim s) = visible s" for s
      by (simp add: trim_def visible_dropWhile flip: rev_filter)
    then have "visible (trim (newline # lines_of_64 b @ [newline])) = b"
      using assms(1) by (simp add: lines_visible white_newline)
    with assms(1) show ?thesis by (simp add: list_all_iff filter_id_conv)
  qed
  ultimately show ?thesis
    by (simp only: clean_chain_def certificate_between_def find_header find_footer [OF assms] prod.case option.case)
      (simp add: pem_def)
qed

text \<open>What cleaning gives is clean, but for one text: the letters of the last mark in place of a certificate.\<close>

lemma cleaned_is_pem: "clean_chain s = Some c \<Longrightarrow> \<exists>b. list_all base64_char b \<and> c = pem b"
proof -
  assume "clean_chain s = Some c"
  then obtain u where "c = pem (filter base64_char u)"
    by (auto simp: clean_chain_def certificate_between_def pem_def split: option.splits simp del: filter_filter)
  moreover have "list_all base64_char (filter base64_char u)" by (simp add: list_all_iff)
  ultimately show ?thesis by blast
qed

text \<open>
  C35: Cleaning a certificate a second time changes nothing: what is cut out of a text between the marks and written in
  lines of 64 characters is found again as it is, so the handler and the store clean to the same text.  The only
  exception is a certificate whose characters are ENDCERTIFICATE, which together with the dashes of the first mark
  reads as the last one.
\<close>

theorem a_clean_certificate_stays:
  assumes "clean_chain s = Some c" "c \<noteq> pem ''ENDCERTIFICATE''"
  shows "clean_chain c = Some c"
  using cleaned_is_pem [OF assms(1)] assms(2) clean_pem by blast

end
