(* ===== verification/Certificates.thy ===== *)
theory Certificates
  imports CertificateText SessionHandlers
begin

text \<open>
  The certificates of Plug & Charge: \<open>server/ocpp/services/CertificateService.ts\<close> and
  \<open>storage/mongodb/CertificateStorage.ts\<close>.  What the libraries say of a certificate (Node's \<open>X509Certificate\<close>,
  node-forge), the hash function, the OCSP responder and the clock are parameters.
\<close>

section \<open>Data\<close>

record hash_data =
  hd_issuerNameHash :: "string option"
  hd_issuerKeyHash :: "string option"
  hd_serialNumber :: "string option"
  hd_certificateChain :: "string option"
  hd_responderURL :: "string option"

record x509 =
  x_issuer :: string
  x_subject :: string
  x_publicKey :: string
  x_serialNumber :: string
  x_validFrom :: int
  x_validTo :: int

datatype certificate_status = CERTIFICATE_ACTIVE | CERTIFICATE_REVOKED | CERTIFICATE_EXPIRED | CERTIFICATE_VALIDE

record certificate =
  ce_id :: string
  ce_certificateChain :: string
  ce_hashData :: hash_data
  ce_certificateType :: string
  ce_createdAt :: int
  ce_expiresAt :: int
  ce_status :: certificate_status
  ce_chargingStationID :: string
  ce_companyID :: "string option"
  ce_organization :: string

text \<open>What \<open>createCertificate\<close> is told before the certificate is signed; a certificate of an authority may sign others.\<close>

record certificate_request =
  cq_publicKey :: string
  cq_serialNumber :: string
  cq_notBefore :: int
  cq_notAfter :: int
  cq_subject :: string
  cq_issuer :: string
  cq_cA :: bool

record ca_config =
  rootCertPem :: string
  rootKeyPem :: string
  subCaCertPem :: string
  subCaKeyPem :: string

record signing_request =
  csr_verifies :: bool
  csr_publicKey :: string
  csr_subject :: string

text \<open>
  \<open>pk_x509\<close>: what Node reads of a text; \<open>pk_organization\<close>, \<open>pk_isIssuer\<close>, \<open>pk_verify\<close>: what forge says of the
  certificates it reads; \<open>pk_ocsp\<close>: the status a responder gives for a certificate and a serial number, if any;
  \<open>pk_draw\<close>: the key pairs and serial numbers drawn at random; \<open>pk_sign\<close>: the text of a signed certificate;
  \<open>pk_subject\<close>: the subject of a certificate.  All of them may raise, when a text cannot be read.
\<close>

record pki =
  pk_x509 :: "string \<Rightarrow> x509 res"
  pk_organization :: "string \<Rightarrow> string option res"
  pk_isIssuer :: "string \<Rightarrow> string \<Rightarrow> bool res"
  pk_verify :: "string \<Rightarrow> string \<Rightarrow> bool res"
  pk_ocsp :: "string \<Rightarrow> string \<Rightarrow> string \<Rightarrow> string option res"
  pk_sha256 :: "string \<Rightarrow> string"
  pk_csr :: "string \<Rightarrow> signing_request res"
  pk_draw :: "nat \<Rightarrow> string \<times> string \<times> string"
  pk_sign :: "certificate_request \<Rightarrow> string \<Rightarrow> string"
  pk_subject :: "string \<Rightarrow> string res"
  pk_now :: int

section \<open>Verification\<close>

text \<open>
  The result of an \<open>async\<close> function that is called without \<open>await\<close> is a promise, and a promise is true in a
  condition whatever it becomes.
\<close>

datatype 'a promise = Promise (awaited: 'a)

definition truthy_promise :: "'a promise \<Rightarrow> bool" where
  "truthy_promise p = (case p of Promise _ \<Rightarrow> True)"

definition or_unknown :: "string res \<Rightarrow> string" where
  "or_unknown r = (case r of Inl _ \<Rightarrow> ''unknown'' | Inr s \<Rightarrow> s)"

definition checkOCSPStatus :: "pki \<Rightarrow> hash_data \<Rightarrow> string" where
  "checkOCSPStatus K h =
     (if \<not> truthy_str (hd_responderURL h) \<or> \<not> truthy_str (hd_serialNumber h) \<or> \<not> truthy_str (hd_issuerNameHash h)
         \<or> \<not> truthy_str (hd_issuerKeyHash h) \<or> \<not> truthy_str (hd_certificateChain h) then ''unknown''
      else or_unknown
        (bindE (pk_ocsp K (the (hd_responderURL h)) (the (hd_certificateChain h)) (the (hd_serialNumber h))) (\<lambda>status.
           Inr (if status = Some ''good'' \<or> status = Some ''revoked'' then the status else ''unknown''))))"

text \<open>Every certificate of a chain is issued and signed by the next one.\<close>

fun verify_links :: "pki \<Rightarrow> string list \<Rightarrow> bool res" where
  "verify_links K (c # i # cs) =
     bindE (pk_isIssuer K c i) (\<lambda>issuer. bindE (if issuer then pk_verify K i c else Inr False) (\<lambda>good.
       if good then verify_links K (i # cs) else Inr False))"
| "verify_links K _ = Inr True"

definition verified :: "pki \<Rightarrow> string \<Rightarrow> hash_data option \<Rightarrow> bool res" where
  "verified K chain h =
     (case certificates_of (clean_lines chain) of
        [] \<Rightarrow> Inl (PlainError ''Invalid certificate chain'')
      | c # cs \<Rightarrow>
          bindE (pk_x509 K c) (\<lambda>x.
            if pk_now K < x_validFrom x \<or> x_validTo x < pk_now K then Inr False
            else bindE (verify_links K (c # cs)) (\<lambda>links.
              Inr (links \<and> (case h of None \<Rightarrow> True
                            | Some d \<Rightarrow> truthy_str (hd_responderURL d) \<longrightarrow> checkOCSPStatus K d = ''good'')))))"

definition verifyCertificate :: "pki \<Rightarrow> string \<Rightarrow> hash_data option \<Rightarrow> bool promise" where
  "verifyCertificate K chain h = Promise (case verified K chain h of Inl _ \<Rightarrow> False | Inr b \<Rightarrow> b)"

text \<open>The key whose hash is called that of the issuer is the certificate's own.\<close>

definition extractCertificateHashData :: "pki \<Rightarrow> string \<Rightarrow> hash_data res" where
  "extractCertificateHashData K chain =
     bindE (pk_x509 K (trim chain)) (\<lambda>x.
       Inr \<lparr>hd_issuerNameHash = Some (pk_sha256 K (x_issuer x)), hd_issuerKeyHash = Some (pk_sha256 K (x_publicKey x)),
            hd_serialNumber = Some (x_serialNumber x), hd_certificateChain = Some chain, hd_responderURL = None\<rparr>)"

section \<open>Signing\<close>

definition years :: "int \<Rightarrow> int" where "years n = n * 365 * 24 * 60 * 60 * 1000"

definition root_certificate :: "pki \<Rightarrow> certificate_request" where
  "root_certificate K = (case pk_draw K 0 of (public, private, serial) \<Rightarrow>
     \<lparr>cq_publicKey = public, cq_serialNumber = serial, cq_notBefore = pk_now K, cq_notAfter = pk_now K + years 5,
      cq_subject = ''CN=CPO_A_Root'', cq_issuer = ''CN=CPO_A_Root'', cq_cA = True\<rparr>)"

definition subCa_certificate :: "pki \<Rightarrow> certificate_request" where
  "subCa_certificate K = (case pk_draw K 1 of (public, private, serial) \<Rightarrow>
     \<lparr>cq_publicKey = public, cq_serialNumber = serial, cq_notBefore = pk_now K, cq_notAfter = pk_now K + years 2,
      cq_subject = ''CN=CPO_A_SubCA2'', cq_issuer = ''CN=CPO_A_Root'', cq_cA = True\<rparr>)"

definition new_authority :: "pki \<Rightarrow> ca_config" where
  "new_authority K = (case (pk_draw K 0, pk_draw K 1) of ((_, rootKey, _), (_, subCaKey, _)) \<Rightarrow>
     \<lparr>rootCertPem = pk_sign K (root_certificate K) rootKey, rootKeyPem = rootKey,
      subCaCertPem = pk_sign K (subCa_certificate K) rootKey, subCaKeyPem = subCaKey\<rparr>)"

definition leaf_certificate :: "pki \<Rightarrow> signing_request \<Rightarrow> string \<Rightarrow> certificate_request" where
  "leaf_certificate K csr issuer = (case pk_draw K 2 of (_, _, serial) \<Rightarrow>
     \<lparr>cq_publicKey = csr_publicKey csr, cq_serialNumber = serial, cq_notBefore = pk_now K,
      cq_notAfter = pk_now K + years 1, cq_subject = csr_subject csr, cq_issuer = issuer, cq_cA = False\<rparr>)"

text \<open>
  The authority is made up when the first certificate is signed, and kept in a static field: the second component
  is what that field holds afterwards, which is set even when the signing then fails.
\<close>

definition signCertificate :: "pki \<Rightarrow> ca_config option \<Rightarrow> string \<Rightarrow> string res \<times> ca_config option" where
  "signCertificate K ca csr =
     (case pk_csr K csr of
        Inl e \<Rightarrow> (Inl e, ca)
      | Inr r \<Rightarrow>
          if \<not> csr_verifies r then (Inl (PlainError ''Invalid CSR: signature verification failed''), ca)
          else
            (let config = (case ca of None \<Rightarrow> new_authority K | Some c \<Rightarrow> c) in
             (bindE (pk_subject K (rootCertPem config)) (\<lambda>_.
              bindE (pk_subject K (subCaCertPem config)) (\<lambda>issuer.
                Inr (pk_sign K (leaf_certificate K r issuer) (subCaKeyPem config) @ subCaCertPem config @ rootCertPem config))),
              Some config)))"

section \<open>Storage\<close>

text \<open>\<open>subject.match(/O=([^,]+)/)\<close>: the text after the first O= that something follows.\<close>

fun organization_of_subject :: "string \<Rightarrow> string option" where
  "organization_of_subject (c # d # s) =
     (if c = CHR ''O'' \<and> d = CHR ''='' \<and> takeWhile (\<lambda>x. x \<noteq> CHR '','') s \<noteq> []
      then Some (takeWhile (\<lambda>x. x \<noteq> CHR '','') s) else organization_of_subject (d # s))"
| "organization_of_subject _ = None"

definition or_dash :: "string option \<Rightarrow> string" where
  "or_dash o' = (case o' of None \<Rightarrow> ''-'' | Some s \<Rightarrow> s)"

text \<open>Of the first certificate: as forge sees it, or else as Node does; a dash when there is none or nothing can be read.\<close>

definition organization_of :: "pki \<Rightarrow> string \<Rightarrow> string" where
  "organization_of K chain =
     str_or (Some
       (if chain = [] then []
        else (case certificates_of (trim (unescape_newlines chain)) of
           [] \<Rightarrow> []
         | c # _ \<Rightarrow>
             (case pk_organization K c of
                Inr o' \<Rightarrow> or_dash o'
              | Inl _ \<Rightarrow> (case pk_x509 K c of Inl _ \<Rightarrow> ''-'' | Inr x \<Rightarrow> or_dash (organization_of_subject (x_subject x))))))) ''-''"

definition saveCertificate :: "pki \<Rightarrow> certificate \<Rightarrow> certificate list \<Rightarrow> certificate list" where
  "saveCertificate K c = upsert ce_id (c\<lparr>ce_organization := organization_of K (ce_certificateChain c)\<rparr>)"

text \<open>
  The certificate that is looked for has the issuer and the key of the text, and is active.  A text without marks
  is of no certificate; one that cannot be read raises.
\<close>

definition same_hashes :: "hash_data \<Rightarrow> hash_data \<Rightarrow> bool" where
  "same_hashes h h' \<longleftrightarrow> hd_issuerNameHash h' = hd_issuerNameHash h \<and> hd_issuerKeyHash h' = hd_issuerKeyHash h"

definition getCertificateByChain :: "pki \<Rightarrow> string \<Rightarrow> certificate list \<Rightarrow> certificate option res" where
  "getCertificateByChain K chain db =
     (case clean_chain chain of
        None \<Rightarrow> Inr None
      | Some cleaned \<Rightarrow>
          bindE (extractCertificateHashData K cleaned) (\<lambda>h.
            Inr (List.find (\<lambda>c. same_hashes h (ce_hashData c) \<and> ce_status c = CERTIFICATE_ACTIVE) db)))"

definition findCertificateIdBySerialNumber :: "string \<Rightarrow> certificate list \<Rightarrow> string option" where
  "findCertificateIdBySerialNumber serial db =
     (case List.find (\<lambda>c. hd_serialNumber (ce_hashData c) = Some serial) db of
        None \<Rightarrow> None
      | Some c \<Rightarrow> if ce_id c = [] then None else Some (ce_id c))"

definition no_certificate :: "string \<Rightarrow> string \<Rightarrow> js_error" where
  "no_certificate i rest = AppError 534 (''Certificate with ID '' @ quoted i @ '' not found'' @ rest)"

definition deleteCertificate :: "string \<Rightarrow> certificate list \<Rightarrow> certificate list res" where
  "deleteCertificate i db =
     (if lookup_by ce_id i db = None then Inl (no_certificate i '' or could not be deleted'') else Inr (delete_by ce_id i db))"

definition revokeCertificate :: "string \<Rightarrow> certificate list \<Rightarrow> certificate list res" where
  "revokeCertificate i db =
     (if lookup_by ce_id i db = None then Inl (no_certificate i [])
      else Inr (update_first (\<lambda>c. ce_id c = i) (\<lambda>c. c\<lparr>ce_status := CERTIFICATE_REVOKED\<rparr>) db))"

definition getCertificate :: "string \<Rightarrow> certificate list \<Rightarrow> certificate res" where
  "getCertificate i db = (case lookup_by ce_id i db of None \<Rightarrow> Inl (no_certificate i []) | Some c \<Rightarrow> Inr c)"

fun join_texts :: "string \<Rightarrow> string list \<Rightarrow> string" where
  "join_texts sep [] = []"
| "join_texts sep [s] = s"
| "join_texts sep (s # ss) = s @ sep @ join_texts sep ss"

definition deleteCertificates :: "string list \<Rightarrow> certificate list \<Rightarrow> certificate list res" where
  "deleteCertificates is db =
     (if list_all (\<lambda>c. ce_id c \<notin> set is) db
      then Inl (AppError 534 (''No certificates found for IDs '' @ quoted (join_texts '', '' is)))
      else Inr (filter (\<lambda>c. ce_id c \<notin> set is) db))"

definition getActiveCertificates :: "certificate list \<Rightarrow> certificate list" where
  "getActiveCertificates db = filter (\<lambda>c. ce_status c = CERTIFICATE_ACTIVE) db"

definition getActiveCertificateCount :: "certificate list \<Rightarrow> nat" where
  "getActiveCertificateCount db = length (getActiveCertificates db)"

end
