(* ===== verification/PlugAndCharge.thy ===== *)
theory PlugAndCharge
  imports Certificates "HOL-Library.Sublist"
begin

text \<open>
  Plug & Charge over data transfers (\<open>handleDataTransfer\<close> of \<open>server/ocpp/services/OCPPService.ts\<close>): a station asks
  for the authorization of a contract, and certificates are installed, signed, listed and deleted, in the station or
  in the server.
\<close>

section \<open>Messages\<close>

datatype transfer_status = TRANSFER_ACCEPTED | TRANSFER_REJECTED | UNKNOWN_MESSAGE_ID | UNKNOWN_VENDOR_ID

text \<open>The object in the data of a message: the fields the handlers read; a missing one is undefined.\<close>

record transfer_data =
  td_certificateChain :: "string option"
  td_iso15118CertificateHashData :: "hash_data list"
  td_idToken :: "string option"
  td_connectorId :: "int option"
  td_certificate :: "string option"
  td_certificateType :: "string option"
  td_certificateHashData :: "hash_data option"
  td_csr :: "string option"
  td_requestedMessage :: "string option"
  td_ocspRequestData :: bool

text \<open>The data is a text: what \<open>JSON.parse\<close> makes of it is \<open>tm_parsed\<close>, none when it raises.\<close>

record transfer_message =
  tm_vendorId :: string
  tm_messageId :: "string option"
  tm_data :: "string option"
  tm_parsed :: "transfer_data option"

text \<open>What is written into the data of an answer.\<close>

datatype answer_data =
    IdTokenInfo authorization_status "string option"
  | StatusMessage string "string option"
  | SignedChain string
  | InstalledCertificates string "hash_data list"
  | OcspResult string
  | StationData string

record transfer_answer =
  ta_status :: transfer_status
  ta_data :: "answer_data option"

text \<open>What is sent to the station, and its answers: a text, and what it says when it is parsed.\<close>

datatype request_to_station =
    RemoteStart int string
  | AskCertificateIds string
  | InstallCertificate string string
  | DeleteCertificate hash_data
  | CertificateSigned string
  | TriggerMessage string

record station_answer =
  sa_status :: transfer_status
  sa_data :: "string option"
  sa_parsed :: "(string option \<times> hash_data list) option"

section \<open>State\<close>

record emaid =
  em_id :: string
  em_active :: bool

record pnc_state =
  pn_certificates :: "certificate list"
  pn_emaids :: "emaid list"
  pn_transfers :: "(string \<times> string option \<times> int) list"
  pn_authority :: "ca_config option"
  pn_sent :: "request_to_station list"

text \<open>
  \<open>pe_connected\<close>: there is a client for the station when the message comes, \<open>pe_still_connected\<close>: when it is
  asked for again.  What the station answers may depend on all it was sent.  \<open>pe_id\<close> is the identifier drawn for
  a new certificate.
\<close>

record pnc_env =
  pe_pki :: pki
  pe_station :: charging_station
  pe_connected :: bool
  pe_still_connected :: bool
  pe_answer :: "request_to_station list \<Rightarrow> station_answer res"
  pe_start :: "request_to_station list \<Rightarrow> unit res"
  pe_id :: string

type_synonym 'a pnc = "(pnc_state, 'a) effect"

definition transfer_to :: "pnc_env \<Rightarrow> request_to_station \<Rightarrow> station_answer pnc" where
  "transfer_to E r =
     thenS (updateS (\<lambda>s. s\<lparr>pn_sent := pn_sent s @ [r]\<rparr>)) (bindS (getS pn_sent) (\<lambda>sent. liftS (pe_answer E sent)))"

definition start_remotely :: "pnc_env \<Rightarrow> int \<Rightarrow> string \<Rightarrow> unit pnc" where
  "start_remotely E connector idTag =
     thenS (updateS (\<lambda>s. s\<lparr>pn_sent := pn_sent s @ [RemoteStart connector idTag]\<rparr>))
       (bindS (getS pn_sent) (\<lambda>sent. liftS (pe_start E sent)))"

definition getEmaid :: "string \<Rightarrow> pnc_state \<Rightarrow> emaid option" where
  "getEmaid i s = (case filter (\<lambda>e. em_id e = i) (pn_emaids s) of [e] \<Rightarrow> Some e | _ \<Rightarrow> None)"

definition certificateByChain :: "pnc_env \<Rightarrow> string \<Rightarrow> certificate option pnc" where
  "certificateByChain E chain = bindS (getS pn_certificates) (\<lambda>db. liftS (getCertificateByChain (pe_pki E) chain db))"

definition accepted_with :: "answer_data \<Rightarrow> transfer_answer" where
  "accepted_with d = \<lparr>ta_status = TRANSFER_ACCEPTED, ta_data = Some d\<rparr>"

definition rejected_with :: "answer_data \<Rightarrow> transfer_answer" where
  "rejected_with d = \<lparr>ta_status = TRANSFER_REJECTED, ta_data = Some d\<rparr>"

definition rejected :: transfer_answer where
  "rejected = \<lparr>ta_status = TRANSFER_REJECTED, ta_data = None\<rparr>"

definition refusal :: "string \<Rightarrow> transfer_answer" where
  "refusal message = rejected_with (StatusMessage ''Rejected'' (Some message))"

definition internal_error :: transfer_answer where
  "internal_error = refusal ''Internal server error''"

definition text_of :: "js_error \<Rightarrow> string" where
  "text_of e = (case e of PlainError m \<Rightarrow> m | BackendError m \<Rightarrow> m | AppError _ m \<Rightarrow> m | _ \<Rightarrow> ''error'')"

section \<open>Authorization of a contract\<close>

definition invalid_token :: transfer_answer where
  "invalid_token = rejected_with (IdTokenInfo AUTH_INVALID None)"

definition handleISO15118Authorize :: "pnc_env \<Rightarrow> transfer_data \<Rightarrow> transfer_answer pnc" where
  "handleISO15118Authorize E d =
     attemptS
       (case td_certificateChain d of
          None \<Rightarrow> throwS TypeError
        | Some chain \<Rightarrow>
            (case clean_chain chain of
               None \<Rightarrow> returnS invalid_token
             | Some cleaned \<Rightarrow>
                 (case td_iso15118CertificateHashData d of
                    [] \<Rightarrow> returnS invalid_token
                  | h # _ \<Rightarrow>
                      if \<not> truthy_promise (verifyCertificate (pe_pki E) cleaned (Some h)) then returnS invalid_token
                      else
                        bindS (certificateByChain E cleaned) (\<lambda>installed.
                          if installed = None then returnS invalid_token
                          else if \<not> truthy_str (td_idToken d) then returnS invalid_token
                          else
                            bindS (getS (getEmaid (the (td_idToken d)))) (\<lambda>found.
                              case found of
                                None \<Rightarrow> returnS invalid_token
                              | Some e \<Rightarrow>
                                  if \<not> em_active e then returnS invalid_token
                                  else
                                    thenS (whenS (pe_still_connected E)
                                             (start_remotely E (if truthy_num (td_connectorId d) then the (td_connectorId d) else 1)
                                               (the (td_idToken d))))
                                      (returnS (accepted_with (IdTokenInfo AUTH_ACCEPTED (Some ''Accepted'')))))))))
       (\<lambda>_. rejected)"

section \<open>The certificates of the station\<close>

definition or_status :: "station_answer \<Rightarrow> string \<Rightarrow> string \<Rightarrow> transfer_answer" where
  "or_status a yes no =
     \<lparr>ta_status = sa_status a,
      ta_data = Some (if truthy_str (sa_data a) then StationData (the (sa_data a))
                      else StatusMessage (if sa_status a = TRANSFER_ACCEPTED then yes else no) None)\<rparr>"

definition handleGetInstalledCertificateIds :: "pnc_env \<Rightarrow> transfer_data \<Rightarrow> transfer_answer pnc" where
  "handleGetInstalledCertificateIds E d =
     attemptS
       (bindS (transfer_to E (AskCertificateIds (str_or (td_certificateType d) ''V2GRootCertificate''))) (\<lambda>a.
          if sa_status a = TRANSFER_ACCEPTED \<and> truthy_str (sa_data a) then
            (case sa_parsed a of
               None \<Rightarrow> throwS (PlainError ''SyntaxError'')
             | Some (status, hashes) \<Rightarrow>
                 returnS \<lparr>ta_status = sa_status a, ta_data = Some (InstalledCertificates (str_or status ''Accepted'') hashes)\<rparr>)
          else returnS \<lparr>ta_status = sa_status a, ta_data = Some (InstalledCertificates ''Rejected'' [])\<rparr>))
       (\<lambda>e. refusal (text_of e))"

definition requestInstallCertificate :: "pnc_env \<Rightarrow> transfer_data \<Rightarrow> transfer_answer pnc" where
  "requestInstallCertificate E d =
     attemptS
       (if \<not> truthy_str (td_certificate d) \<or> \<not> truthy_str (td_certificateType d)
        then returnS (refusal ''Missing certificate or certificateType'')
        else
          (let cleaned = clean_lines (the (td_certificate d)) in
           if \<not> truthy_promise (verifyCertificate (pe_pki E) cleaned None) then returnS (refusal ''Invalid certificate'')
           else
             bindS (transfer_to E (InstallCertificate (the (td_certificateType d)) cleaned)) (\<lambda>a.
               returnS \<lparr>ta_status = sa_status a,
                 ta_data = Some (if truthy_str (sa_data a) then StationData (the (sa_data a))
                   else if sa_status a = TRANSFER_ACCEPTED
                   then StatusMessage ''Accepted'' (Some ''Certificate installed on charging station'')
                   else StatusMessage ''Rejected'' (Some ''Failed to install certificate''))\<rparr>)))
       (\<lambda>_. internal_error)"

definition delete_by_serial :: "string \<Rightarrow> unit pnc" where
  "delete_by_serial serial =
     bindS (getS pn_certificates) (\<lambda>db.
       case findCertificateIdBySerialNumber serial db of
         None \<Rightarrow> returnS ()
       | Some i \<Rightarrow> bindS (liftS (deleteCertificate i db)) (\<lambda>db'. updateS (\<lambda>s. s\<lparr>pn_certificates := db'\<rparr>)))"

text \<open>The two handlers, for a request of the server's own and for one of the station, do the same.\<close>

definition delete_certificate :: "pnc_env \<Rightarrow> transfer_data \<Rightarrow> transfer_answer pnc" where
  "delete_certificate E d =
     attemptS
       (case td_certificateHashData d of
          None \<Rightarrow> returnS (refusal ''Invalid certificate hash data'')
        | Some h \<Rightarrow>
            if \<not> truthy_str (hd_serialNumber h) then returnS (refusal ''Invalid certificate hash data'')
            else
              bindS (transfer_to E (DeleteCertificate h)) (\<lambda>a.
              thenS (whenS (sa_status a = TRANSFER_ACCEPTED) (delete_by_serial (the (hd_serialNumber h))))
                (returnS (or_status a ''Accepted'' ''Not Found''))))
       (\<lambda>_. internal_error)"

definition requestDeleteCertificate :: "pnc_env \<Rightarrow> transfer_data \<Rightarrow> transfer_answer pnc" where
  "requestDeleteCertificate E d = delete_certificate E d"

definition handleDeleteCertificate :: "pnc_env \<Rightarrow> transfer_data \<Rightarrow> transfer_answer pnc" where
  "handleDeleteCertificate E d = delete_certificate E d"

section \<open>The certificates of the server\<close>

text \<open>The document made of a text that can be read.\<close>

definition certificate_document :: "pnc_env \<Rightarrow> string \<Rightarrow> string \<Rightarrow> certificate res" where
  "certificate_document E chain type =
     bindE (pk_x509 (pe_pki E) chain) (\<lambda>x. bindE (extractCertificateHashData (pe_pki E) chain) (\<lambda>h.
       Inr \<lparr>ce_id = pe_id E, ce_certificateChain = chain, ce_hashData = h, ce_certificateType = type,
            ce_createdAt = pk_now (pe_pki E), ce_expiresAt = x_validTo x, ce_status = CERTIFICATE_ACTIVE,
            ce_chargingStationID = cs_id (pe_station E), ce_companyID = cs_companyID (pe_station E), ce_organization = []\<rparr>))"

definition store_certificate :: "pnc_env \<Rightarrow> string \<Rightarrow> string \<Rightarrow> unit pnc" where
  "store_certificate E chain type =
     bindS (liftS (certificate_document E chain type)) (\<lambda>c.
       updateS (\<lambda>s. s\<lparr>pn_certificates := saveCertificate (pe_pki E) c (pn_certificates s)\<rparr>))"

definition handleInstallCertificate :: "pnc_env \<Rightarrow> transfer_data \<Rightarrow> transfer_answer pnc" where
  "handleInstallCertificate E d =
     attemptS
       (if \<not> truthy_str (td_certificate d) \<or> \<not> truthy_str (td_certificateType d)
        then returnS (refusal ''Missing certificate or certificateType'')
        else
          (let cleaned = clean_lines (the (td_certificate d)) in
           bindS (certificateByChain E cleaned) (\<lambda>existing.
             if existing \<noteq> None then returnS (refusal ''Certificate already exists'')
             else if \<not> truthy_promise (verifyCertificate (pe_pki E) cleaned None) then returnS (refusal ''Invalid certificate'')
             else thenS (store_certificate E cleaned (the (td_certificateType d)))
                    (returnS (accepted_with (StatusMessage ''Accepted'' (Some (''Certificat install'' @ [CHR 0xE9] @ '' avec succ'' @ [CHR 0xE8] @ ''s'')))))) ))
       (\<lambda>_. internal_error)"

definition BEGIN_REQUEST :: string where "BEGIN_REQUEST = ''-----BEGIN CERTIFICATE REQUEST-----''"

definition END_REQUEST :: string where "END_REQUEST = ''-----END CERTIFICATE REQUEST-----''"

definition sign :: "pnc_env \<Rightarrow> string \<Rightarrow> string pnc" where
  "sign E csr =
     bindS (getS pn_authority) (\<lambda>ca.
       case signCertificate (pe_pki E) ca csr of
         (r, ca') \<Rightarrow> thenS (updateS (\<lambda>s. s\<lparr>pn_authority := ca'\<rparr>)) (liftS r))"

definition handleSignCertificate :: "pnc_env \<Rightarrow> transfer_data \<Rightarrow> transfer_answer pnc" where
  "handleSignCertificate E d =
     attemptS
       (if \<not> truthy_str (td_csr d) then returnS (refusal ''Missing or invalid CSR'')
        else
          (let csr = unescape_newlines (the (td_csr d)) in
           if \<not> sublist BEGIN_REQUEST csr \<or> \<not> sublist END_REQUEST csr then returnS (refusal ''Invalid CSR format'')
           else
             bindS (sign E csr) (\<lambda>chain.
             bindS (transfer_to E (CertificateSigned chain)) (\<lambda>a.
             thenS (whenS (sa_status a = TRANSFER_ACCEPTED)
                      (store_certificate E chain (str_or (td_certificateType d) ''ChargingStationCertificate'')))
               (returnS (accepted_with (SignedChain chain)))))))
       (\<lambda>e. refusal (''Error signing certificate: '' @ text_of e))"

definition requestCertificateSigned :: "pnc_env \<Rightarrow> transfer_data \<Rightarrow> transfer_answer pnc" where
  "requestCertificateSigned E d =
     attemptS
       (if \<not> truthy_str (td_certificateChain d) then returnS (refusal ''Invalid certificate chain'')
        else
          (let cleaned = clean_lines (the (td_certificateChain d)) in
           if \<not> truthy_promise (verifyCertificate (pe_pki E) cleaned None) then returnS (refusal ''Invalid certificate chain'')
           else
             bindS (transfer_to E (CertificateSigned cleaned)) (\<lambda>a.
             thenS (whenS (sa_status a = TRANSFER_ACCEPTED)
                      (store_certificate E cleaned (str_or (td_certificateType d) ''ChargingStationCertificate'')))
               (returnS (or_status a ''Accepted'' ''Rejected'')))))
       (\<lambda>_. internal_error)"

definition requestTriggerMessage :: "pnc_env \<Rightarrow> transfer_data \<Rightarrow> transfer_answer pnc" where
  "requestTriggerMessage E d =
     attemptS
       (bindS (transfer_to E (TriggerMessage (str_or (td_requestedMessage d) ''CertificateUpdate''))) (\<lambda>a.
          returnS (or_status a ''Accepted'' ''Rejected'')))
       (\<lambda>_. internal_error)"

text \<open>The status of a certificate is not looked up: it is always good.\<close>

definition handleGetCertificateStatus :: "pnc_env \<Rightarrow> transfer_data \<Rightarrow> transfer_answer pnc" where
  "handleGetCertificateStatus E d =
     attemptS
       (if \<not> td_ocspRequestData d then throwS (PlainError ''Missing ocspRequestData'')
        else returnS (accepted_with (OcspResult ''Good'')))
       (\<lambda>_. rejected)"

section \<open>A data transfer\<close>

definition iso15118_vendor :: string where
  "iso15118_vendor = ''org.openchargealliance.iso15118pnc''"

text \<open>The lengths are those of the schema.\<close>

definition validateDataTransfer :: "transfer_message \<Rightarrow> bool" where
  "validateDataTransfer m \<longleftrightarrow> length (tm_vendorId m) \<le> 255
     \<and> (case tm_messageId m of None \<Rightarrow> True | Some i \<Rightarrow> length i \<le> 50)"

definition no_data :: transfer_data where
  "no_data = \<lparr>td_certificateChain = None, td_iso15118CertificateHashData = [], td_idToken = None, td_connectorId = None,
     td_certificate = None, td_certificateType = None, td_certificateHashData = None, td_csr = None,
     td_requestedMessage = None, td_ocspRequestData = False\<rparr>"

definition iso15118_message :: "pnc_env \<Rightarrow> string option \<Rightarrow> transfer_data \<Rightarrow> transfer_answer pnc" where
  "iso15118_message E i d =
     (if i = Some ''Authorize'' then handleISO15118Authorize E d
      else if i = Some ''GetInstalledCertificateIds'' then handleGetInstalledCertificateIds E d
      else if i = Some ''InstallCertificate'' then requestInstallCertificate E d
      else if i = Some ''InstallCertificateToBackend'' then handleInstallCertificate E d
      else if i = Some ''DeleteCertificate'' then requestDeleteCertificate E d
      else if i = Some ''DeleteCertificateToBackend'' then handleDeleteCertificate E d
      else if i = Some ''SignCertificate'' then handleSignCertificate E d
      else if i = Some ''CertificateSigned'' then requestCertificateSigned E d
      else if i = Some ''TriggerMessage'' then requestTriggerMessage E d
      else if i = Some ''GetCertificateStatus'' then handleGetCertificateStatus E d
      else returnS rejected)"

text \<open>A transfer is identified by its station, its data and its date.\<close>

definition transfer_key :: "pnc_env \<Rightarrow> transfer_message \<Rightarrow> string \<times> string option \<times> int" where
  "transfer_key E m = (cs_id (pe_station E), tm_data m, pk_now (pe_pki E))"

definition saveDataTransfer :: "pnc_env \<Rightarrow> transfer_message \<Rightarrow> unit pnc" where
  "saveDataTransfer E m =
     bindS (getS pn_transfers) (\<lambda>ts.
       if transfer_key E m \<in> set ts then throwS DuplicateKey
       else updateS (\<lambda>s. s\<lparr>pn_transfers := ts @ [transfer_key E m]\<rparr>))"

definition handleDataTransfer :: "pnc_env \<Rightarrow> transfer_message \<Rightarrow> transfer_answer pnc" where
  "handleDataTransfer E m =
     attemptS
       (if \<not> validateDataTransfer m then throwS (PlainError ''Validation'')
        else if tm_vendorId m = iso15118_vendor then
          bindS (if truthy_str (tm_data m)
                 then (case tm_parsed m of None \<Rightarrow> throwS (PlainError ''SyntaxError'') | Some d \<Rightarrow> returnS d)
                 else returnS no_data) (\<lambda>d.
            if \<not> pe_connected E then throwS (PlainError ''Charging Station client not available'')
            else
              bindS (iso15118_message E (tm_messageId m) d) (\<lambda>answer.
              thenS (whenS (ta_status answer = TRANSFER_ACCEPTED) (saveDataTransfer E m))
                (returnS answer)))
        else returnS \<lparr>ta_status = TRANSFER_ACCEPTED, ta_data = None\<rparr>)
       (\<lambda>_. rejected)"

end
