(* ===== verification/PlugAndChargeFacts.thy ===== *)
theory PlugAndChargeFacts
  imports PlugAndCharge
begin

text \<open>
  What the data transfers about certificates guarantee: the documents of the certificates stay true to their texts,
  a contract is authorized with the key of an active certificate and an active contract, and the verification of
  certificates decides nothing.
\<close>

section \<open>The verification\<close>

text \<open>Another opinion on chains, revocation and the date.\<close>

definition other_opinion ::
    "(string \<Rightarrow> string \<Rightarrow> bool res) \<Rightarrow> (string \<Rightarrow> string \<Rightarrow> bool res) \<Rightarrow>
     (string \<Rightarrow> string \<Rightarrow> string \<Rightarrow> string option res) \<Rightarrow> pki \<Rightarrow> pki" where
  "other_opinion i v ocsp K = K\<lparr>pk_isIssuer := i, pk_verify := v, pk_ocsp := ocsp\<rparr>"

definition with_pki :: "(pki \<Rightarrow> pki) \<Rightarrow> pnc_env \<Rightarrow> pnc_env" where
  "with_pki f E = E\<lparr>pe_pki := f (pe_pki E)\<rparr>"

lemma promise_is_true [simp]: "truthy_promise p"
  by (cases p) (simp add: truthy_promise_def)

lemmas deep = option.case_cong list.case_cong sum.case_cong prod.case_cong if_cong

lemma opinion_fields [simp]:
  "pk_now (other_opinion i v ocsp K) = pk_now K" "pk_x509 (other_opinion i v ocsp K) = pk_x509 K"
  "pk_organization (other_opinion i v ocsp K) = pk_organization K" "pk_sha256 (other_opinion i v ocsp K) = pk_sha256 K"
  "pk_csr (other_opinion i v ocsp K) = pk_csr K" "pk_draw (other_opinion i v ocsp K) = pk_draw K"
  "pk_sign (other_opinion i v ocsp K) = pk_sign K" "pk_subject (other_opinion i v ocsp K) = pk_subject K"
  by (simp_all add: other_opinion_def)

lemma opinion_free [simp]:
  "extractCertificateHashData (other_opinion i v ocsp K) = extractCertificateHashData K"
  "getCertificateByChain (other_opinion i v ocsp K) = getCertificateByChain K"
  "organization_of (other_opinion i v ocsp K) = organization_of K"
  "saveCertificate (other_opinion i v ocsp K) = saveCertificate K"
  "signCertificate (other_opinion i v ocsp K) = signCertificate K"
  by (simp_all add: extractCertificateHashData_def getCertificateByChain_def organization_of_def
      saveCertificate_def signCertificate_def new_authority_def root_certificate_def subCa_certificate_def
      leaf_certificate_def fun_eq_iff cong: deep)

lemma date_free [simp]:
  "extractCertificateHashData (K\<lparr>pk_now := n\<rparr>) = extractCertificateHashData K"
  "getCertificateByChain (K\<lparr>pk_now := n\<rparr>) = getCertificateByChain K"
  by (simp_all add: extractCertificateHashData_def getCertificateByChain_def fun_eq_iff cong: deep)

lemma with_pki_fields [simp]:
  "pe_pki (with_pki f E) = f (pe_pki E)" "pe_station (with_pki f E) = pe_station E"
  "pe_connected (with_pki f E) = pe_connected E" "pe_still_connected (with_pki f E) = pe_still_connected E"
  "pe_answer (with_pki f E) = pe_answer E" "pe_start (with_pki f E) = pe_start E" "pe_id (with_pki f E) = pe_id E"
  by (simp_all add: with_pki_def)

lemma helpers_free [simp]:
  "transfer_to (with_pki f E) = transfer_to E" "start_remotely (with_pki f E) = start_remotely E"
  "certificateByChain (with_pki (other_opinion i v ocsp) E) = certificateByChain E"
  "certificateByChain (with_pki (\<lambda>K. K\<lparr>pk_now := n\<rparr>) E) = certificateByChain E"
  "certificate_document (with_pki (other_opinion i v ocsp) E) = certificate_document E"
  "sign (with_pki (other_opinion i v ocsp) E) = sign E"
  by (simp_all add: transfer_to_def start_remotely_def certificateByChain_def certificate_document_def sign_def fun_eq_iff
      cong: deep)

lemma store_free [simp]:
  "store_certificate (with_pki (other_opinion i v ocsp) E) = store_certificate E"
  "saveDataTransfer (with_pki (other_opinion i v ocsp) E) = saveDataTransfer E"
  by (simp_all add: store_certificate_def saveDataTransfer_def transfer_key_def fun_eq_iff cong: deep)

lemma messages_free [simp]:
  "iso15118_message (with_pki (other_opinion i v ocsp) E) = iso15118_message E"
  by (simp add: iso15118_message_def handleISO15118Authorize_def handleGetInstalledCertificateIds_def
      requestInstallCertificate_def handleInstallCertificate_def requestDeleteCertificate_def handleDeleteCertificate_def
      delete_certificate_def handleSignCertificate_def requestCertificateSigned_def requestTriggerMessage_def
      handleGetCertificateStatus_def fun_eq_iff cong: deep)

text \<open>
  C13: The verification of certificates decides nothing: whatever is said of the issuers and signatures of a chain and
  whatever the OCSP responder says, every data transfer has the same answer and the same effects; and a contract is
  authorized or refused whatever the date is.  (The handlers test the promise of the verification, not its result.)
\<close>

theorem the_verification_decides_nothing:
  "handleDataTransfer (with_pki (other_opinion i v ocsp) E) m s = handleDataTransfer E m s
   \<and> handleISO15118Authorize (with_pki (\<lambda>K. K\<lparr>pk_now := now\<rparr>) E) d s = handleISO15118Authorize E d s"
proof
  show "handleDataTransfer (with_pki (other_opinion i v ocsp) E) m s = handleDataTransfer E m s"
    by (simp add: handleDataTransfer_def cong: deep)
  show "handleISO15118Authorize (with_pki (\<lambda>K. K\<lparr>pk_now := now\<rparr>) E) d s = handleISO15118Authorize E d s"
    by (simp add: handleISO15118Authorize_def cong: deep)
qed

section \<open>The authorization of a contract\<close>

text \<open>The connector that is started: the one of the message, or the first.\<close>

definition started_connector :: "transfer_data \<Rightarrow> int" where
  "started_connector d = (if truthy_num (td_connectorId d) then the (td_connectorId d) else 1)"

definition active_contract :: "transfer_data \<Rightarrow> pnc_state \<Rightarrow> bool" where
  "active_contract d s \<longleftrightarrow> truthy_str (td_idToken d)
     \<and> (\<exists>e. getEmaid (the (td_idToken d)) s = Some e \<and> em_active e)"

definition known_certificate :: "pki \<Rightarrow> transfer_data \<Rightarrow> pnc_state \<Rightarrow> bool" where
  "known_certificate K d s \<longleftrightarrow> td_iso15118CertificateHashData d \<noteq> []
     \<and> (\<exists>chain cleaned c. td_certificateChain d = Some chain \<and> clean_chain chain = Some cleaned
          \<and> getCertificateByChain K cleaned (pn_certificates s) = Inr (Some c))"

definition started :: "pnc_env \<Rightarrow> transfer_data \<Rightarrow> request_to_station list" where
  "started E d = (if pe_still_connected E then [RemoteStart (started_connector d) (the (td_idToken d))] else [])"

definition start_goes_well :: "pnc_env \<Rightarrow> transfer_data \<Rightarrow> pnc_state \<Rightarrow> bool" where
  "start_goes_well E d s \<longleftrightarrow> (pe_still_connected E \<longrightarrow> pe_start E (pn_sent s @ started E d) = Inr ())"

lemma start_run:
  "thenS (whenS (pe_still_connected E) (start_remotely E (if truthy_num (td_connectorId d) then the (td_connectorId d) else 1)
       (the (td_idToken d)))) (returnS r) s =
   ((if start_goes_well E d s then Inr r
     else (case pe_start E (pn_sent s @ started E d) of Inl e \<Rightarrow> Inl e | Inr _ \<Rightarrow> Inr r)),
    s\<lparr>pn_sent := pn_sent s @ started E d\<rparr>)"
  by (auto simp: start_goes_well_def started_def whenS_def thenS_def bindS_def start_remotely_def updateS_def getS_def
      liftS_def returnS_def started_connector_def split: sum.split)

text \<open>Every branch of the handler, by the certificate and the contract.\<close>

lemma contract_authorization:
  "case handleISO15118Authorize E d s of
     (Inl _, _) \<Rightarrow> False
   | (Inr r, s') \<Rightarrow>
       (ta_status r = TRANSFER_ACCEPTED \<longleftrightarrow> known_certificate (pe_pki E) d s \<and> active_contract d s \<and> start_goes_well E d s)
       \<and> s' = (if known_certificate (pe_pki E) d s \<and> active_contract d s
               then s\<lparr>pn_sent := pn_sent s @ started E d\<rparr> else s)"
proof (cases "known_certificate (pe_pki E) d s")
  case False
  then show ?thesis
    by (auto simp: handleISO15118Authorize_def known_certificate_def attemptS_def tryS_def bindS_def throwS_def returnS_def
        certificateByChain_def getS_def liftS_def rejected_def invalid_token_def rejected_with_def
        split: option.split list.split sum.split prod.split if_splits)
next
  case True
  then obtain chain cleaned c h hs where known: "td_certificateChain d = Some chain" "clean_chain chain = Some cleaned"
    "getCertificateByChain (pe_pki E) cleaned (pn_certificates s) = Inr (Some c)"
    and hashes: "td_iso15118CertificateHashData d = h # hs"
    unfolding known_certificate_def by (metis list.exhaust)
  show ?thesis
  proof (cases "active_contract d s")
    case False
    with True known hashes show ?thesis
      by (auto simp: handleISO15118Authorize_def active_contract_def attemptS_def tryS_def bindS_def returnS_def
          certificateByChain_def getS_def liftS_def invalid_token_def rejected_with_def split: option.split)
  next
    case contract: True
    then obtain e where "truthy_str (td_idToken d)" "getEmaid (the (td_idToken d)) s = Some e" "em_active e"
      unfolding active_contract_def by blast
    with known hashes have "handleISO15118Authorize E d s = attemptS
        (thenS (whenS (pe_still_connected E) (start_remotely E (if truthy_num (td_connectorId d) then the (td_connectorId d) else 1)
           (the (td_idToken d)))) (returnS (accepted_with (IdTokenInfo AUTH_ACCEPTED (Some ''Accepted''))))) (\<lambda>_. rejected) s"
      by (simp add: handleISO15118Authorize_def attemptS_def tryS_def bindS_def certificateByChain_def getS_def liftS_def)
    also have "\<dots> = (Inr (if start_goes_well E d s then accepted_with (IdTokenInfo AUTH_ACCEPTED (Some ''Accepted'')) else rejected),
        s\<lparr>pn_sent := pn_sent s @ started E d\<rparr>)"
      by (auto simp: attemptS_def tryS_def start_run start_goes_well_def split: sum.split)
    finally show ?thesis using True contract by (simp add: accepted_with_def rejected_def)
  qed
qed


section \<open>The certificates of the server\<close>

text \<open>What a document says is what its text says; no two have the same identifier.\<close>

definition true_document :: "pki \<Rightarrow> certificate \<Rightarrow> bool" where
  "true_document K c \<longleftrightarrow> extractCertificateHashData K (ce_certificateChain c) = Inr (ce_hashData c)
     \<and> (\<exists>x. pk_x509 K (ce_certificateChain c) = Inr x \<and> ce_expiresAt c = x_validTo x)
     \<and> ce_organization c = organization_of K (ce_certificateChain c)"

definition certificates_ok :: "pki \<Rightarrow> pnc_state \<Rightarrow> bool" where
  "certificates_ok K s \<longleftrightarrow> distinct (map ce_id (pn_certificates s)) \<and> list_all (true_document K) (pn_certificates s)"

lemma certificates_ok_kept [simp]:
  "certificates_ok K (s\<lparr>pn_sent := a\<rparr>) = certificates_ok K s" "certificates_ok K (s\<lparr>pn_transfers := b\<rparr>) = certificates_ok K s"
  "certificates_ok K (s\<lparr>pn_authority := c\<rparr>) = certificates_ok K s"
  by (simp_all add: certificates_ok_def)

lemma upsert_each: "list_all P es \<Longrightarrow> P d \<Longrightarrow> list_all P (upsert key d es)"
  by (induction es) auto

lemma saved_ok:
  assumes "certificates_ok K s" "certificate_document E chain type = Inr c" "pe_pki E = K"
  shows "certificates_ok K (s\<lparr>pn_certificates := saveCertificate K c (pn_certificates s)\<rparr>)"
proof -
  from assms(2,3) have "true_document K (c\<lparr>ce_organization := organization_of K (ce_certificateChain c)\<rparr>)"
    by (auto simp: certificate_document_def true_document_def res_simps)
  with assms(1) show ?thesis
    by (simp add: certificates_ok_def saveCertificate_def upsert_each upsert_distinct)
qed

lemma store_preserves [effect_rules]:
  "pe_pki E = K \<Longrightarrow> preservesS (certificates_ok K) (store_certificate E chain type)"
  unfolding store_certificate_def
  by (rule bindS_yields [where K = "\<lambda>c. certificate_document E chain type = Inr c"])
    (auto intro!: liftS_yields updateS_rule dest: saved_ok)

lemma deletes_preserve [effect_rules]: "preservesS (certificates_ok K) (delete_by_serial serial)"
proof (rule holdsS_I)
  fix s a s' assume "certificates_ok K s" "delete_by_serial serial s = (Inr a, s')"
  then show "certificates_ok K s'"
    by (auto simp: delete_by_serial_def bindS_def getS_def liftS_def updateS_def returnS_def deleteCertificate_def
        certificates_ok_def delete_distinct list_all_iff delete_by_def distinct_map_filter split: option.splits if_splits)
next
  fix s e s' assume "certificates_ok K s" "delete_by_serial serial s = (Inl e, s')"
  then show "certificates_ok K s'"
    by (auto simp: delete_by_serial_def bindS_def getS_def liftS_def updateS_def returnS_def split: option.splits sum.splits)
qed

lemma transfers_preserve [effect_rules]:
  "preservesS (certificates_ok K) (transfer_to E r)" "preservesS (certificates_ok K) (start_remotely E i t)"
  "preservesS (certificates_ok K) (certificateByChain E chain)" "preservesS (certificates_ok K) (sign E csr)"
  "preservesS (certificates_ok K) (saveDataTransfer E m)"
  unfolding transfer_to_def start_remotely_def certificateByChain_def sign_def saveDataTransfer_def
  by (auto intro!: effect_rules split: prod.split if_splits)

lemma handlers_preserve:
  assumes "pe_pki E = K"
  shows "preservesS (certificates_ok K) (handleISO15118Authorize E d)"
    "preservesS (certificates_ok K) (handleGetInstalledCertificateIds E d)"
    "preservesS (certificates_ok K) (requestInstallCertificate E d)"
    "preservesS (certificates_ok K) (handleInstallCertificate E d)"
    "preservesS (certificates_ok K) (delete_certificate E d)"
    "preservesS (certificates_ok K) (handleSignCertificate E d)"
    "preservesS (certificates_ok K) (requestCertificateSigned E d)"
    "preservesS (certificates_ok K) (requestTriggerMessage E d)"
    "preservesS (certificates_ok K) (handleGetCertificateStatus E d)"
  unfolding handleISO15118Authorize_def handleGetInstalledCertificateIds_def requestInstallCertificate_def
    handleInstallCertificate_def delete_certificate_def handleSignCertificate_def requestCertificateSigned_def
    requestTriggerMessage_def handleGetCertificateStatus_def Let_def
  by (intro effect_rules effect_cases assms; assumption)+

lemma messages_preserve [effect_rules]:
  assumes "pe_pki E = K"
  shows "preservesS (certificates_ok K) (iso15118_message E i d)"
  unfolding iso15118_message_def requestDeleteCertificate_def handleDeleteCertificate_def
  by (intro if_holds handlers_preserve [OF assms] returnS_rule; assumption)

section \<open>Runs\<close>

text \<open>What happens to the certificates of a server: data transfers, and deletions and revocations by a person.\<close>

datatype pnc_event = Transfer pnc_env transfer_message | Delete string | Revoke string

definition changed_certificates :: "certificate list res \<Rightarrow> pnc_state \<Rightarrow> pnc_state" where
  "changed_certificates r s = (case r of Inl _ \<Rightarrow> s | Inr db \<Rightarrow> s\<lparr>pn_certificates := db\<rparr>)"

fun pnc_step :: "pnc_state \<Rightarrow> pnc_event \<Rightarrow> pnc_state" where
  "pnc_step s (Transfer E m) = snd (handleDataTransfer E m s)"
| "pnc_step s (Delete i) = changed_certificates (deleteCertificate i (pn_certificates s)) s"
| "pnc_step s (Revoke i) = changed_certificates (revokeCertificate i (pn_certificates s)) s"

text \<open>Certificates are read in the same way all the time; dates, random numbers and stations change.\<close>

definition reads_alike :: "pki \<Rightarrow> pki \<Rightarrow> bool" where
  "reads_alike K K' \<longleftrightarrow> pk_x509 K' = pk_x509 K \<and> pk_organization K' = pk_organization K \<and> pk_sha256 K' = pk_sha256 K"

fun event_ok :: "pki \<Rightarrow> pnc_event \<Rightarrow> bool" where
  "event_ok K (Transfer E m) \<longleftrightarrow> reads_alike K (pe_pki E)"
| "event_ok K _ \<longleftrightarrow> True"

lemma alike_extract: "reads_alike K K' \<Longrightarrow> extractCertificateHashData K' = extractCertificateHashData K"
  by (simp add: reads_alike_def extractCertificateHashData_def fun_eq_iff)

lemma alike_ok:
  assumes "reads_alike K K'"
  shows "certificates_ok K' = certificates_ok K"
proof -
  from assms have x: "pk_x509 K' = pk_x509 K" and o': "pk_organization K' = pk_organization K"
    by (simp_all add: reads_alike_def)
  have "organization_of K' = organization_of K" unfolding organization_of_def x o' by (rule refl)
  then have "true_document K' = true_document K"
    unfolding true_document_def x alike_extract [OF assms] by simp
  then show ?thesis unfolding certificates_ok_def by simp
qed

lemma transfer_preserves: "preservesS (certificates_ok (pe_pki E)) (handleDataTransfer E m)"
  unfolding handleDataTransfer_def by (intro effect_rules effect_cases refl; assumption?)

lemma after_transfer: "certificates_ok (pe_pki E) s \<Longrightarrow> certificates_ok (pe_pki E) (snd (handleDataTransfer E m s))"
  by (rule after_run [OF transfer_preserves]) (auto intro: prod.collapse [symmetric])

lemma revoked_ok: "list_all (true_document K) db \<Longrightarrow>
    list_all (true_document K) (update_first p (\<lambda>c. c\<lparr>ce_status := st\<rparr>) db)"
  by (induction db) (auto simp: true_document_def)

lemma revoked_ids: "map ce_id (update_first p (\<lambda>c. c\<lparr>ce_status := st\<rparr>) db) = map ce_id db"
  by (induction db) auto

lemma pnc_step_ok:
  assumes "certificates_ok K s" "event_ok K e"
  shows "certificates_ok K (pnc_step s e)"
proof (cases e)
  case (Transfer E m)
  with assms have "certificates_ok (pe_pki E) s" using alike_ok [of K "pe_pki E"] by simp
  then have "certificates_ok (pe_pki E) (snd (handleDataTransfer E m s))" by (rule after_transfer)
  with assms Transfer show ?thesis using alike_ok [of K "pe_pki E"] by simp
next
  case (Delete i)
  with assms show ?thesis
    by (auto simp: changed_certificates_def deleteCertificate_def certificates_ok_def delete_distinct list_all_iff
        delete_by_def distinct_map_filter)
next
  case (Revoke i)
  with assms show ?thesis
    by (auto simp: changed_certificates_def revokeCertificate_def certificates_ok_def revoked_ok revoked_ids)
qed

interpretation pnc: invariant_run "\<lambda>s e. Inr (pnc_step s e)" "event_ok K" "certificates_ok K" for K
  by unfold_locales (auto intro: pnc_step_ok)

definition pnc_run :: "pnc_state \<Rightarrow> pnc_event list \<Rightarrow> pnc_state" where
  "pnc_run s es = foldl pnc_step s es"

lemma pnc_run_fold: "foldE (\<lambda>s e. Inr (pnc_step s e)) s es = Inr (pnc_run s es)"
  by (induction es arbitrary: s) (simp_all add: pnc_run_def)

lemma pnc_run_ok: "certificates_ok K s \<Longrightarrow> list_all (event_ok K) es \<Longrightarrow> certificates_ok K (pnc_run s es)"
  using pnc.run_inv pnc_run_fold by blast

text \<open>The issuer and the key a text shows, hashed.\<close>

definition shown_key :: "pki \<Rightarrow> string \<Rightarrow> (string \<times> string) option" where
  "shown_key K t = (case pk_x509 K (trim t) of Inl _ \<Rightarrow> None
     | Inr x \<Rightarrow> Some (pk_sha256 K (x_issuer x), pk_sha256 K (x_publicKey x)))"

text \<open>
  C11: After any history of data transfers, deletions and revocations, a contract that is authorized shows the issuer and
  the key of a certificate the server holds as active, and the token is the one of an active contract.
\<close>

theorem authorized_contracts_show_a_registered_key:
  assumes "certificates_ok K s" "list_all (event_ok K) es" "reads_alike K (pe_pki E)"
    and "handleISO15118Authorize E d (pnc_run s es) = (Inr r, s')" "ta_status r = TRANSFER_ACCEPTED"
  shows "(\<exists>chain cleaned c. td_certificateChain d = Some chain \<and> clean_chain chain = Some cleaned
            \<and> c \<in> set (pn_certificates (pnc_run s es)) \<and> ce_status c = CERTIFICATE_ACTIVE
            \<and> shown_key K (the (clean_chain cleaned)) = shown_key K (ce_certificateChain c)
            \<and> shown_key K (ce_certificateChain c) \<noteq> None)
    \<and> active_contract d (pnc_run s es)"
proof -
  let ?s = "pnc_run s es"
  from contract_authorization [of E d ?s] assms(4,5)
  have "known_certificate (pe_pki E) d ?s" and contract: "active_contract d ?s" by auto
  then obtain chain cleaned c where c: "td_certificateChain d = Some chain" "clean_chain chain = Some cleaned"
    "getCertificateByChain (pe_pki E) cleaned (pn_certificates ?s) = Inr (Some c)"
    unfolding known_certificate_def by blast
  then obtain twice h where h: "clean_chain cleaned = Some twice" "extractCertificateHashData K twice = Inr h"
    and f: "c \<in> set (pn_certificates ?s)" "same_hashes h (ce_hashData c)" "ce_status c = CERTIFICATE_ACTIVE"
    using alike_extract [OF assms(3)]
    by (auto simp: getCertificateByChain_def res_simps find_Some_iff split: option.splits)
  from pnc_run_ok [OF assms(1,2)] f(1) have "extractCertificateHashData K (ce_certificateChain c) = Inr (ce_hashData c)"
    by (auto simp: certificates_ok_def list_all_iff true_document_def)
  then obtain y where "pk_x509 K (trim (ce_certificateChain c)) = Inr y"
    "hd_issuerNameHash (ce_hashData c) = Some (pk_sha256 K (x_issuer y))"
    "hd_issuerKeyHash (ce_hashData c) = Some (pk_sha256 K (x_publicKey y))"
    unfolding extractCertificateHashData_def by (auto simp: res_simps dest: sym)
  with h(2) f(2) have "shown_key K twice = shown_key K (ce_certificateChain c)" "shown_key K twice \<noteq> None"
    by (auto simp: shown_key_def extractCertificateHashData_def same_hashes_def res_simps)
  with c h(1) f contract show ?thesis by auto
qed

end
