(* ===== verification/PlugAndChargeSamples.thy ===== *)
theory PlugAndChargeSamples
  imports PlugAndChargeFacts
begin

text \<open>A station that installs a certificate, which has expired, and asks for the authorization of a contract with it.\<close>

definition expired_pki :: pki where
  "expired_pki = \<lparr>pk_x509 = (\<lambda>t. Inr \<lparr>x_issuer = ''CN=CA'', x_subject = ''CN=x,O=Org'', x_publicKey = t, x_serialNumber = ''1'',
       x_validFrom = 0, x_validTo = 10\<rparr>),
     pk_organization = (\<lambda>_. Inl TypeError), pk_isIssuer = (\<lambda>_ _. Inr False), pk_verify = (\<lambda>_ _. Inr False),
     pk_ocsp = (\<lambda>_ _ _. Inr (Some ''revoked'')), pk_sha256 = (\<lambda>s. s), pk_csr = (\<lambda>_. Inl TypeError),
     pk_draw = (\<lambda>_. ([], [], [])), pk_sign = (\<lambda>_ _. []), pk_subject = (\<lambda>_. Inl TypeError), pk_now = 100\<rparr>"

definition pnc_world :: pnc_env where
  "pnc_world = \<lparr>pe_pki = expired_pki, pe_station = two_connectors, pe_connected = True, pe_still_connected = True,
     pe_answer = (\<lambda>_. Inl TypeError), pe_start = (\<lambda>_. Inr ()), pe_id = ''c1''\<rparr>"

definition dirty_text :: string where
  "dirty_text = ''-----BEGIN CERTIFICATE-----'' @ [backslash, CHR ''n''] @ ''QUJD'' @ [carriage_return] @ ''-----END CERTIFICATE-----''"

definition one_contract :: pnc_state where
  "one_contract = \<lparr>pn_certificates = [], pn_emaids = [\<lparr>em_id = ''FR1'', em_active = True\<rparr>], pn_transfers = [],
     pn_authority = None, pn_sent = []\<rparr>"

definition installing :: transfer_message where
  "installing = \<lparr>tm_vendorId = iso15118_vendor, tm_messageId = Some ''InstallCertificateToBackend'', tm_data = Some ''{}'',
     tm_parsed = Some (no_data\<lparr>td_certificate := Some dirty_text, td_certificateType := Some ''V2GCertificateChain''\<rparr>)\<rparr>"

definition contract_shown :: transfer_data where
  "contract_shown = no_data\<lparr>td_certificateChain := Some dirty_text, td_idToken := Some ''FR1'',
     td_iso15118CertificateHashData := [\<lparr>hd_issuerNameHash = None, hd_issuerKeyHash = None, hd_serialNumber = None,
        hd_certificateChain = None, hd_responderURL = None\<rparr>]\<rparr>"

lemma a_clean_certificate_stays_witness:
  "clean_chain (pem ''QUJD'') = Some (pem ''QUJD'')"
proof (rule a_clean_certificate_stays)
  show "clean_chain dirty_text = Some (pem ''QUJD'')" by code_simp
  show "pem ''QUJD'' \<noteq> pem ''ENDCERTIFICATE''" by code_simp
qed

lemma expired_is_authorized:
  "case handleISO15118Authorize pnc_world contract_shown (pnc_run one_contract [Transfer pnc_world installing]) of
     (Inl _, _) \<Rightarrow> False
   | (Inr r, s') \<Rightarrow> ta_status r = TRANSFER_ACCEPTED \<and> pn_sent s' = [RemoteStart 1 ''FR1'']"
  by code_simp

lemma authorized_contracts_show_a_registered_key_witness:
  "active_contract contract_shown (pnc_run one_contract [Transfer pnc_world installing])
   \<and> (\<exists>c \<in> set (pn_certificates (pnc_run one_contract [Transfer pnc_world installing])). ce_status c = CERTIFICATE_ACTIVE)"
proof -
  let ?s = "pnc_run one_contract [Transfer pnc_world installing]"
  obtain r s' where r: "handleISO15118Authorize pnc_world contract_shown ?s = (Inr r, s')" "ta_status r = TRANSFER_ACCEPTED"
    using expired_is_authorized by (auto split: prod.splits sum.splits)
  have "certificates_ok expired_pki one_contract" by (simp add: certificates_ok_def one_contract_def)
  moreover have "list_all (event_ok expired_pki) [Transfer pnc_world installing]" "reads_alike expired_pki (pe_pki pnc_world)"
    by (simp_all add: reads_alike_def pnc_world_def)
  ultimately show ?thesis
    using authorized_contracts_show_a_registered_key [OF _ _ _ r] by blast
qed

end
