(* ===== verification/WebSocketMessages.thy ===== *)
theory WebSocketMessages
  imports Effects
begin

text \<open>
  The messages on the web socket of a station (\<open>server/ocpp/json/web-socket/WSConnection.ts\<close>): requests of the
  server, whose promises are settled by an answer, an error or a timeout, and requests of the station, which are
  answered when their handler has ended.  The contents are texts; whether the socket takes a message is part of the
  event.  The promises are numbered in the order in which they are made.
\<close>

section \<open>State\<close>

datatype wire_message =
    CallMessage string string string
  | CallResult string string
  | CallError string string string

datatype outcome = Resolved "string option" | RejectedWith string

text \<open>
  \<open>so_ocppRequests\<close>: under an identifier, the promise whose callbacks are stored and its command.
  \<open>so_timers\<close>: the timers that were started, with the identifier of their message.  \<open>so_handling\<close>: the requests of
  the station whose handlers run.
\<close>

record socket =
  so_ocppRequests :: "string \<Rightarrow> (nat \<times> string) option"
  so_promises :: nat
  so_settled :: "(nat \<times> outcome) list"
  so_timers :: "(nat \<times> string) list"
  so_handling :: "(string \<times> string) list"
  so_sent :: "wire_message list"
  so_errors :: nat

definition no_messages :: socket where
  "no_messages = \<lparr>so_ocppRequests = (\<lambda>_. None), so_promises = 0, so_settled = [], so_timers = [], so_handling = [],
     so_sent = [], so_errors = 0\<rparr>"

section \<open>Sending\<close>

text \<open>Both callbacks: the first call settles the promise and forgets what is stored under the identifier.\<close>

definition callback :: "nat \<Rightarrow> string \<Rightarrow> outcome \<Rightarrow> socket \<Rightarrow> socket" where
  "callback n i r s =
     (if n \<in> fst ` set (so_settled s) then s
      else s\<lparr>so_settled := so_settled s @ [(n, r)], so_ocppRequests := (so_ocppRequests s)(i := None)\<rparr>)"

definition put_on_wire :: "bool \<Rightarrow> wire_message \<Rightarrow> socket \<Rightarrow> socket" where
  "put_on_wire takes m s = (if takes then s\<lparr>so_sent := so_sent s @ [m]\<rparr> else s\<lparr>so_errors := so_errors s + 1\<rparr>)"

text \<open>A request is stored, sent and given a timer.\<close>

definition send_call :: "bool \<Rightarrow> string \<Rightarrow> string \<Rightarrow> string \<Rightarrow> socket \<Rightarrow> socket" where
  "send_call takes i command payload s =
     (let n = so_promises s;
          s1 = s\<lparr>so_promises := n + 1, so_ocppRequests := (so_ocppRequests s)(i \<mapsto> (n, command))\<rparr>;
          s2 = put_on_wire takes (CallMessage i command payload) s1
      in s2\<lparr>so_timers := so_timers s2 @ [(n, i)]\<rparr>)"

text \<open>An answer or an error is sent, and its promise is resolved at once - by the same callback.\<close>

definition send_answer :: "bool \<Rightarrow> string \<Rightarrow> wire_message \<Rightarrow> socket \<Rightarrow> socket" where
  "send_answer takes i m s =
     (let n = so_promises s in callback n i (Resolved None) (put_on_wire takes m (s\<lparr>so_promises := n + 1\<rparr>)))"

definition sendResponse :: "bool \<Rightarrow> string \<Rightarrow> string \<Rightarrow> socket \<Rightarrow> socket" where
  "sendResponse takes i payload = send_answer takes i (CallResult i payload)"

definition sendError :: "bool \<Rightarrow> string \<Rightarrow> string \<Rightarrow> string \<Rightarrow> socket \<Rightarrow> socket" where
  "sendError takes i code message = send_answer takes i (CallError i code message)"

section \<open>Receiving\<close>

text \<open>An answer to a request that is not stored is an error, which is logged.\<close>

definition received_result :: "string \<Rightarrow> string \<Rightarrow> socket \<Rightarrow> socket" where
  "received_result i payload s =
     (case so_ocppRequests s i of
        None \<Rightarrow> s\<lparr>so_errors := so_errors s + 1\<rparr>
      | Some (n, _) \<Rightarrow> callback n i (Resolved (Some payload)) s)"

definition received_error :: "string \<Rightarrow> string \<Rightarrow> socket \<Rightarrow> socket" where
  "received_error i message s =
     (case so_ocppRequests s i of
        None \<Rightarrow> s\<lparr>so_errors := so_errors s + 1\<rparr>
      | Some (n, _) \<Rightarrow> callback n i (RejectedWith message) s)"

definition handled :: "string \<times> string \<Rightarrow> socket \<Rightarrow> socket" where
  "handled c s = s\<lparr>so_handling := remove1 c (so_handling s)\<rparr>"

datatype socket_event =
    Requested bool string string string
  | ReceivedCall string string
  | HandlerReturned bool string string string
  | HandlerRaised bool string string string string
  | ReceivedResult string string
  | ReceivedError string string
  | ReceivedOther
  | TimedOut nat string

inductive socket_step :: "socket \<Rightarrow> socket_event \<Rightarrow> socket \<Rightarrow> bool" where
  request: "socket_step s (Requested takes i command payload) (send_call takes i command payload s)"
| call: "socket_step s (ReceivedCall i command) (s\<lparr>so_handling := so_handling s @ [(i, command)]\<rparr>)"
| returned: "(i, command) \<in> set (so_handling s) \<Longrightarrow>
    socket_step s (HandlerReturned takes i command payload) (sendResponse takes i payload (handled (i, command) s))"
| raised: "(i, command) \<in> set (so_handling s) \<Longrightarrow>
    socket_step s (HandlerRaised takes i command code message)
      ((sendError takes i code message (handled (i, command) s))\<lparr>so_errors := so_errors (sendError takes i code message s) + 1\<rparr>)"
| result: "socket_step s (ReceivedResult i payload) (received_result i payload s)"
| error: "socket_step s (ReceivedError i message) (received_error i message s)"
| other: "socket_step s ReceivedOther (s\<lparr>so_errors := so_errors s + 1\<rparr>)"
| timeout: "(n, i) \<in> set (so_timers s) \<Longrightarrow> socket_step s (TimedOut n i) (callback n i (RejectedWith ''Timeout'') s)"

inductive_cases socket_stepE: "socket_step s e s'"

inductive socket_run :: "socket_event list \<Rightarrow> socket \<Rightarrow> bool" where
  start: "socket_run [] no_messages"
| step: "socket_run es s \<Longrightarrow> socket_step s e s' \<Longrightarrow> socket_run (es @ [e]) s'"

section \<open>Every promise is settled once\<close>

text \<open>
  The settled promises are promises, settled once; what is stored under an identifier is a request that is not
  settled and has a timer; a request has one identifier.
\<close>

definition socket_ok :: "socket \<Rightarrow> bool" where
  "socket_ok s \<longleftrightarrow> distinct (map fst (so_settled s)) \<and> distinct (map fst (so_timers s))
     \<and> (\<forall>n \<in> fst ` set (so_settled s) \<union> fst ` set (so_timers s). n < so_promises s)
     \<and> (\<forall>i n c. so_ocppRequests s i = Some (n, c) \<longrightarrow> n \<notin> fst ` set (so_settled s) \<and> (n, i) \<in> set (so_timers s))"

lemma callback_ok:
  assumes "socket_ok s" "n < so_promises s" "\<And>j c. so_ocppRequests s j = Some (n, c) \<Longrightarrow> j = i"
  shows "socket_ok (callback n i r s)"
  using assms by (auto simp: socket_ok_def callback_def)

lemma timer_identifier:
  assumes "socket_ok s" "(n, i) \<in> set (so_timers s)" "so_ocppRequests s j = Some (n, c)"
  shows "j = i"
proof -
  from assms have "(n, j) \<in> set (so_timers s)" "distinct (map fst (so_timers s))" by (simp_all add: socket_ok_def)
  with assms(2) show ?thesis by (metis eq_key_imp_eq_value)
qed

lemma wire_ok: "socket_ok s \<Longrightarrow> socket_ok (put_on_wire takes m s)"
  by (simp add: socket_ok_def put_on_wire_def)

lemma new_promise:
  assumes "socket_ok s"
  shows "so_promises s \<notin> fst ` set (so_settled s)" "so_promises s \<notin> fst ` set (so_timers s)"
  using assms unfolding socket_ok_def by blast+

lemma timer_below: "socket_ok s \<Longrightarrow> (n, i) \<in> set (so_timers s) \<Longrightarrow> n < so_promises s"
  unfolding socket_ok_def by (metis UnI2 fst_conv image_eqI)

lemma answer_ok:
  assumes "socket_ok s"
  shows "socket_ok (send_answer takes i m s)"
proof -
  from assms have "socket_ok (put_on_wire takes m (s\<lparr>so_promises := so_promises s + 1\<rparr>))"
    by (intro wire_ok) (auto simp: socket_ok_def less_Suc_eq)
  moreover have "so_ocppRequests s j \<noteq> Some (so_promises s, c)" for j c
    using assms new_promise(2) [OF assms] unfolding socket_ok_def by (metis fst_conv image_eqI)
  ultimately show ?thesis
    unfolding send_answer_def Let_def by (intro callback_ok) (auto simp: put_on_wire_def split: if_splits)
qed

lemma call_ok:
  assumes "socket_ok s"
  shows "socket_ok (send_call takes i command payload s)"
proof -
  let ?s = "send_call takes i command payload s" and ?n = "so_promises s"
  have s: "so_settled ?s = so_settled s" "so_timers ?s = so_timers s @ [(?n, i)]" "so_promises ?s = ?n + 1"
    "so_ocppRequests ?s = (so_ocppRequests s)(i \<mapsto> (?n, command))"
    by (simp_all add: send_call_def Let_def put_on_wire_def)
  from assms have old: "distinct (map fst (so_settled s))" "distinct (map fst (so_timers s))"
    "\<forall>n \<in> fst ` set (so_settled s) \<union> fst ` set (so_timers s). n < ?n"
    "\<forall>i n c. so_ocppRequests s i = Some (n, c) \<longrightarrow> n \<notin> fst ` set (so_settled s) \<and> (n, i) \<in> set (so_timers s)"
    by (simp_all add: socket_ok_def)
  have "distinct (map fst (so_timers s @ [(?n, i)]))" using old(2) new_promise(2) [OF assms] by simp
  moreover have "n < ?n + 1" if "n \<in> fst ` set (so_settled s) \<union> fst ` set (so_timers s @ [(?n, i)])" for n
    using that old(3) less_Suc_eq by auto
  moreover have "n \<notin> fst ` set (so_settled s) \<and> (n, j) \<in> set (so_timers s @ [(?n, i)])"
    if "((so_ocppRequests s)(i \<mapsto> (?n, command))) j = Some (n, c)" for j n c
    using that old(4) new_promise(1) [OF assms] by (auto split: if_splits)
  ultimately show ?thesis unfolding socket_ok_def s using old(1) by blast
qed

lemma stored_request:
  assumes "socket_ok s" "so_ocppRequests s i = Some (n, c)"
  shows "socket_ok (callback n i r s)"
proof (rule callback_ok [OF assms(1)])
  from assms have timer: "(n, i) \<in> set (so_timers s)" by (simp add: socket_ok_def)
  with assms(1) show "n < so_promises s" by (rule timer_below)
  show "\<And>j d. so_ocppRequests s j = Some (n, d) \<Longrightarrow> j = i" using timer_identifier [OF assms(1) timer] .
qed

lemma handled_ok: "socket_ok s \<Longrightarrow> socket_ok (handled c s)"
  by (simp add: socket_ok_def handled_def)

lemma errors_ok [simp]: "socket_ok (s\<lparr>so_errors := e\<rparr>) = socket_ok s"
  by (simp add: socket_ok_def)

lemma handling_ok [simp]: "socket_ok (s\<lparr>so_handling := h\<rparr>) = socket_ok s"
  by (simp add: socket_ok_def)

lemma socket_step_ok:
  assumes "socket_step s e s'" "socket_ok s"
  shows "socket_ok s'"
  using assms
proof (induction rule: socket_step.induct)
  case (timeout n i s)
  then show ?case
    by (intro callback_ok timer_identifier [OF timeout.prems timeout.hyps]) (auto intro: timer_below)
next
  case (returned i command s takes payload)
  then show ?case by (simp add: sendResponse_def answer_ok handled_ok)
next
  case (raised i command s takes code message)
  then show ?case by (simp add: sendError_def answer_ok handled_ok)
next
  case (result s i payload)
  then show ?case by (simp add: received_result_def stored_request split: option.split)
next
  case (error s i message)
  then show ?case by (simp add: received_error_def stored_request split: option.split)
qed (simp_all add: call_ok)

lemma socket_run_ok: "socket_run es s \<Longrightarrow> socket_ok s"
proof (induction rule: socket_run.induct)
  case start
  show ?case by (simp add: socket_ok_def no_messages_def)
qed (rule socket_step_ok)

lemma callback_settles: "\<exists>more. so_settled (callback n i r s) = so_settled s @ more \<and> n \<in> fst ` set (so_settled (callback n i r s))"
  by (auto simp: callback_def)

lemma wire_fields [simp]:
  "so_settled (put_on_wire takes m s) = so_settled s" "so_timers (put_on_wire takes m s) = so_timers s"
  "so_handling (put_on_wire takes m s) = so_handling s" "so_ocppRequests (put_on_wire takes m s) = so_ocppRequests s"
  "so_promises (put_on_wire takes m s) = so_promises s"
  by (simp_all add: put_on_wire_def)

lemma settled_grows: "socket_step s e s' \<Longrightarrow> \<exists>more. so_settled s' = so_settled s @ more"
  by (induction rule: socket_step.induct)
    (auto simp: send_call_def sendResponse_def sendError_def send_answer_def Let_def handled_def received_result_def
      received_error_def callback_def split: option.split)

text \<open>
  C20: Every promise is settled once: whatever the station and the server send, and however late answers and timeouts
  come, no promise is settled twice, what a promise was settled with stays, and once its timer has fired it is
  settled.
\<close>

theorem every_promise_is_settled_once:
  assumes "socket_run es s" "socket_step s e s'"
  shows "distinct (map fst (so_settled s')) \<and> (\<exists>more. so_settled s' = so_settled s @ more)
    \<and> (\<forall>n i. e = TimedOut n i \<longrightarrow> n \<in> fst ` set (so_settled s'))"
proof -
  have "socket_ok s'" using assms socket_run_ok socket_step_ok by blast
  moreover have "n \<in> fst ` set (so_settled s')" if "e = TimedOut n i" for n i
    using assms(2) that callback_settles by (auto elim: socket_stepE)
  ultimately show ?thesis using settled_grows [OF assms(2)] by (simp add: socket_ok_def)
qed

section \<open>Answers reach their request\<close>

text \<open>The identifiers the server and the station choose.\<close>

fun own_identifiers :: "socket_event list \<Rightarrow> string list" where
  "own_identifiers [] = []"
| "own_identifiers (Requested _ i _ _ # es) = i # own_identifiers es"
| "own_identifiers (_ # es) = own_identifiers es"

fun their_identifiers :: "socket_event list \<Rightarrow> string list" where
  "their_identifiers [] = []"
| "their_identifiers (ReceivedCall i _ # es) = i # their_identifiers es"
| "their_identifiers (_ # es) = their_identifiers es"

definition identifiers_differ :: "socket_event list \<Rightarrow> bool" where
  "identifiers_differ es \<longleftrightarrow> distinct (own_identifiers es) \<and> set (own_identifiers es) \<inter> set (their_identifiers es) = {}"

lemma identifiers_append:
  "own_identifiers (es @ fs) = own_identifiers es @ own_identifiers fs"
  "their_identifiers (es @ fs) = their_identifiers es @ their_identifiers fs"
proof -
  show "own_identifiers (es @ fs) = own_identifiers es @ own_identifiers fs"
    by (induction es rule: own_identifiers.induct) simp_all
  show "their_identifiers (es @ fs) = their_identifiers es @ their_identifiers fs"
    by (induction es rule: their_identifiers.induct) simp_all
qed

text \<open>The timers have the identifiers of the server, in order; the handlers those of the station.\<close>

definition identifiers_ok :: "socket_event list \<Rightarrow> socket \<Rightarrow> bool" where
  "identifiers_ok es s \<longleftrightarrow> map snd (so_timers s) = own_identifiers es \<and> fst ` set (so_handling s) \<subseteq> set (their_identifiers es)"

lemma callback_fields [simp]:
  "so_timers (callback n i r s) = so_timers s" "so_handling (callback n i r s) = so_handling s"
  by (simp_all add: callback_def)

lemma identifiers_step:
  assumes "socket_step s e s'" "identifiers_ok es s"
  shows "identifiers_ok (es @ [e]) s'"
  using assms
  by (induction rule: socket_step.induct)
    (auto simp: identifiers_ok_def identifiers_append send_call_def sendResponse_def sendError_def send_answer_def Let_def
      handled_def received_result_def received_error_def split: option.split dest!: subsetD [OF set_remove1_subset])

lemma identifiers_run: "socket_run es s \<Longrightarrow> identifiers_ok es s"
proof (induction rule: socket_run.induct)
  case start
  show ?case by (simp add: identifiers_ok_def no_messages_def)
qed (rule identifiers_step)

text \<open>A request that is not settled is stored.\<close>

definition requests_stored :: "socket \<Rightarrow> bool" where
  "requests_stored s \<longleftrightarrow> (\<forall>(n, i) \<in> set (so_timers s). n \<in> fst ` set (so_settled s) \<or> (\<exists>c. so_ocppRequests s i = Some (n, c)))"

lemma callback_stored:
  assumes "requests_stored s" "\<And>m. (m, i) \<in> set (so_timers s) \<Longrightarrow> m = n"
  shows "requests_stored (callback n i r s)"
  using assms unfolding requests_stored_def callback_def by (auto split: prod.splits; fastforce)

lemma stored_fields [simp]:
  "requests_stored (s\<lparr>so_errors := e\<rparr>) = requests_stored s" "requests_stored (s\<lparr>so_handling := h\<rparr>) = requests_stored s"
  "requests_stored (put_on_wire takes m s) = requests_stored s" "requests_stored (s\<lparr>so_promises := n\<rparr>) = requests_stored s"
  by (simp_all add: requests_stored_def)

lemma one_timer:
  assumes "identifiers_ok es s" "distinct (own_identifiers es)" "(n, i) \<in> set (so_timers s)" "(m, i) \<in> set (so_timers s)"
  shows "m = n"
proof -
  from assms(1,2) have "distinct (map snd (so_timers s))" by (simp add: identifiers_ok_def)
  with assms(3,4) show ?thesis unfolding distinct_map inj_on_def by (metis snd_conv prod.inject)
qed

lemma stored_timer: "socket_ok s \<Longrightarrow> so_ocppRequests s i = Some (n, c) \<Longrightarrow> (n, i) \<in> set (so_timers s)"
  by (simp add: socket_ok_def)

lemma no_timer:
  assumes "identifiers_ok es s" "identifiers_differ es" "(i, command) \<in> set (so_handling s)"
  shows "(m, i) \<notin> set (so_timers s)"
proof
  assume "(m, i) \<in> set (so_timers s)"
  then have "i \<in> set (map snd (so_timers s))" by force
  with assms show False by (force simp: identifiers_ok_def identifiers_differ_def)
qed

lemma stored_callback:
  assumes "requests_stored s" "socket_ok s" "identifiers_ok es s" "distinct (own_identifiers es)" "so_ocppRequests s i = Some (n, c)"
  shows "requests_stored (callback n i r s)"
  using callback_stored [OF assms(1)] one_timer [OF assms(3,4) stored_timer [OF assms(2,5)]] by blast

lemma requests_stored_step:
  assumes "socket_step s e s'" "requests_stored s" "socket_ok s" "identifiers_ok es s" "identifiers_differ (es @ [e])"
  shows "requests_stored s'"
  using assms
proof (induction rule: socket_step.induct)
  case (request s takes i command payload)
  then have "i \<notin> set (map snd (so_timers s))"
    by (simp add: identifiers_ok_def identifiers_differ_def identifiers_append)
  with request(1) show ?case
    by (force simp: send_call_def Let_def requests_stored_def split: prod.splits)
next
  case (returned i command s takes payload)
  with no_timer [of es s i command] show ?case
    by (auto simp: sendResponse_def send_answer_def Let_def handled_def identifiers_differ_def identifiers_append
        intro!: callback_stored)
next
  case (raised i command s takes code message)
  with no_timer [of es s i command] show ?case
    by (auto simp: sendError_def send_answer_def Let_def handled_def identifiers_differ_def identifiers_append
        intro!: callback_stored)
next
  case (result s i payload)
  then have "distinct (own_identifiers es)" by (simp add: identifiers_differ_def identifiers_append)
  with result stored_callback [of s es i] show ?case
    by (auto simp: received_result_def split: option.split)
next
  case (error s i message)
  then have "distinct (own_identifiers es)" by (simp add: identifiers_differ_def identifiers_append)
  with error stored_callback [of s es i] show ?case
    by (auto simp: received_error_def split: option.split)
next
  case (timeout n i s)
  then have "distinct (own_identifiers es)" by (simp add: identifiers_differ_def identifiers_append)
  with timeout one_timer [of es s] show ?case by (blast intro: callback_stored)
qed simp_all

lemma requests_stored_run: "socket_run es s \<Longrightarrow> identifiers_differ es \<Longrightarrow> requests_stored s"
proof (induction rule: socket_run.induct)
  case start
  show ?case by (simp add: requests_stored_def no_messages_def)
next
  case (step es s e s')
  then have "identifiers_differ es" by (auto simp: identifiers_differ_def identifiers_append)
  with step show ?case by (blast intro: requests_stored_step socket_run_ok identifiers_run)
qed

text \<open>
  C21: An answer reaches its request: as long as the server uses no identifier twice and the station none of the
  server's, the answer to a request that is not settled settles its promise with the contents of the answer, and no
  other.  But when the station has sent a request under the identifier of one of the server's requests, answering
  it makes the server forget its own request: the answer that comes is an error, and the promise is left to its
  timer.
\<close>

theorem answers_reach_their_request:
  assumes "socket_run es s" "(n, i) \<in> set (so_timers s)" "n \<notin> fst ` set (so_settled s)"
  shows "(identifiers_differ es \<longrightarrow>
           so_settled (received_result i payload s) = so_settled s @ [(n, Resolved (Some payload))])
    \<and> (so_ocppRequests s i = Some (n, c) \<and> (i, command) \<in> set (so_handling s) \<longrightarrow>
         (let s' = sendResponse takes i answer (handled (i, command) s) in
          n \<notin> fst ` set (so_settled s') \<and> received_result i payload s' = s'\<lparr>so_errors := so_errors s' + 1\<rparr>))"
proof -
  have "so_settled (received_result i payload s) = so_settled s @ [(n, Resolved (Some payload))]" if "identifiers_differ es"
    using requests_stored_run [OF assms(1) that] assms(2,3)
    by (auto simp: requests_stored_def received_result_def callback_def)
  moreover have "n \<noteq> so_promises s" "so_promises s \<notin> fst ` set (so_settled s)"
    using timer_below [OF socket_run_ok [OF assms(1)] assms(2)] new_promise(1) [OF socket_run_ok [OF assms(1)]] by auto
  ultimately show ?thesis
    using assms(3)
    by (auto simp: Let_def sendResponse_def send_answer_def handled_def callback_def received_result_def put_on_wire_def)
qed

section \<open>Two requests\<close>

text \<open>A request of the server and one of the station, with different identifiers.\<close>

definition two_requests :: "socket_event list" where
  "two_requests = [Requested True ''a'' ''Reset'' ''{}'', ReceivedCall ''b'' ''Heartbeat'']"

definition both_waiting :: socket where
  "both_waiting = (send_call True ''a'' ''Reset'' ''{}'' no_messages)\<lparr>so_handling := [(''b'', ''Heartbeat'')]\<rparr>"

lemma both_waiting_run: "socket_run two_requests both_waiting"
proof -
  have "socket_run ([] @ [Requested True ''a'' ''Reset'' ''{}'']) (send_call True ''a'' ''Reset'' ''{}'' no_messages)"
    by (rule socket_run.step [OF socket_run.start]) (rule socket_step.request)
  from socket_run.step [OF this, of "ReceivedCall ''b'' ''Heartbeat''"] socket_step.call
  have "socket_run (([] @ [Requested True ''a'' ''Reset'' ''{}'']) @ [ReceivedCall ''b'' ''Heartbeat''])
      ((send_call True ''a'' ''Reset'' ''{}'' no_messages)\<lparr>so_handling := so_handling (send_call True ''a'' ''Reset'' ''{}'' no_messages)
         @ [(''b'', ''Heartbeat'')]\<rparr>)" by blast
  then show ?thesis
    by (simp add: two_requests_def both_waiting_def) (simp add: send_call_def Let_def put_on_wire_def no_messages_def)
qed

lemma both_waiting_facts: "(0, ''a'') \<in> set (so_timers both_waiting)" "0 \<notin> fst ` set (so_settled both_waiting)"
  by (simp_all add: both_waiting_def send_call_def Let_def put_on_wire_def no_messages_def)

lemma every_promise_is_settled_once_witness:
  "0 \<in> fst ` set (so_settled (callback 0 ''a'' (RejectedWith ''Timeout'') both_waiting))"
  using every_promise_is_settled_once [OF both_waiting_run socket_step.timeout [OF both_waiting_facts(1)]] by blast

lemma answers_reach_their_request_witness:
  "so_settled (received_result ''a'' ''ok'' both_waiting) = so_settled both_waiting @ [(0, Resolved (Some ''ok''))]"
proof -
  have "identifiers_differ two_requests" by (simp add: identifiers_differ_def two_requests_def)
  with answers_reach_their_request [OF both_waiting_run both_waiting_facts] show ?thesis by blast
qed

end
