(* ===== verification/BadgeAuthorize.thy ===== *)
theory BadgeAuthorize
  imports SessionHandlers
begin

text \<open>
  The authorization of a badge (\<open>handleAuthorize\<close> of \<open>server/ocpp/services/OCPPService.ts\<close>).  The branch for
  certificates is left out: the schema of the message does not have them and the validation removes what it does not
  have.  The checks of the billing are the parameter \<open>ae_errorCodes\<close>, none when the tenant has no billing; only users of
  other operators have the identifier of an authorization.
\<close>

record authorize_env =
  ae_tags :: tag_env
  ae_errorCodes :: "(user \<Rightarrow> string list option) option"
  ae_authorizationID :: "user \<Rightarrow> string option"
  ae_public :: bool
  ae_station :: charging_station
  ae_siteArea :: "site_area option"
  ae_now :: int

record authorize_document =
  ad_chargeBoxID :: string
  ad_timestamp :: int
  ad_tagID :: string
  ad_authorizationId :: "string option"
  ad_userID :: "string option"

type_synonym 'a authorizes = "(authorize_document list, 'a) effect"

definition validateAuthorize :: "string \<Rightarrow> string res" where
  "validateAuthorize t =
     (let tag = badge_text t in
      if 1 \<le> length tag \<and> length tag \<le> 20 then Inr tag else Inl (AppError 400 ''idTag''))"

definition isAuthorizedOnChargingStation ::
    "tag_env \<Rightarrow> charging_station \<Rightarrow> site_area option \<Rightarrow> string \<Rightarrow> (user option \<times> badge option) res" where
  "isAuthorizedOnChargingStation E cs sa tagID = isTagIDAuthorizedOnChargingStation E cs sa tagID A_AUTHORIZE"

text \<open>A user of another operator has no payment method to check.\<close>

definition checkBillingPrerequisites :: "authorize_env \<Rightarrow> user option \<Rightarrow> unit res" where
  "checkBillingPrerequisites E u =
     (case (u, ae_errorCodes E) of
        (Some v, Some check) \<Rightarrow>
          if us_issuer v \<and> check v \<noteq> None \<and> check v \<noteq> Some []
          then Inl (BackendError ''Billing prerequisites are not met'') else Inr ()
      | _ \<Rightarrow> Inr ())"

text \<open>The identifier of the authorization that is kept with the request.\<close>

definition enrichAuthorize :: "authorize_env \<Rightarrow> user option \<Rightarrow> string option res" where
  "enrichAuthorize E u =
     (case u of
        None \<Rightarrow> Inr None
      | Some v \<Rightarrow>
          if us_issuer v then Inr None
          else
            (case ae_siteArea E of
               None \<Rightarrow> Inl TypeError
             | Some a \<Rightarrow>
                 if \<not> sa_accessControl a then Inr None
                 else if \<not> truthy_str (ae_authorizationID E v)
                 then Inl (BackendError ''Authorization ID has not been supplied'')
                 else if ae_public E then Inr (ae_authorizationID E v)
                 else Inl (BackendError ''Cannot authorize a roaming user on a private charging station'')))"

text \<open>A request is identified by its station and its date.\<close>

definition authorize_key :: "authorize_document \<Rightarrow> string \<times> int" where
  "authorize_key d = (ad_chargeBoxID d, ad_timestamp d)"

definition saveAuthorize :: "authorize_document \<Rightarrow> unit authorizes" where
  "saveAuthorize d =
     bindS (getS (\<lambda>ds. authorize_key d \<in> authorize_key ` set ds)) (\<lambda>known.
       if known then throwS DuplicateKey else updateS (\<lambda>ds. ds @ [d]))"

definition handleAuthorize :: "authorize_env \<Rightarrow> string \<Rightarrow> authorize_document list \<Rightarrow> authorization_status \<times> authorize_document list" where
  "handleAuthorize E idTag =
     tryS
       (bindS (liftS (validateAuthorize idTag)) (\<lambda>tag.
        bindS (liftS (isAuthorizedOnChargingStation (ae_tags E) (ae_station E) (ae_siteArea E) tag)) (\<lambda>(u, _).
        bindS (liftS (checkBillingPrerequisites E u)) (\<lambda>_.
        bindS (liftS (enrichAuthorize E u)) (\<lambda>authorization.
        thenS (saveAuthorize \<lparr>ad_chargeBoxID = cs_id (ae_station E), ad_timestamp = ae_now E, ad_tagID = tag,
                 ad_authorizationId = authorization, ad_userID = map_option us_id u\<rparr>)
          (returnS AUTH_ACCEPTED))))))
       (\<lambda>_. AUTH_INVALID)"

section \<open>What an authorization leaves behind\<close>

lemma stored_authorize:
  "saveAuthorize d ds = (if authorize_key d \<in> authorize_key ` set ds then (Inl DuplicateKey, ds) else (Inr (), ds @ [d]))"
  by (simp add: saveAuthorize_def effect_simps)

text \<open>A user whose badge is checked: active, of the operator, with access and nothing wrong in the billing.\<close>

definition checked_user :: "authorize_env \<Rightarrow> string \<Rightarrow> user option \<Rightarrow> bool" where
  "checked_user E tag u \<longleftrightarrow>
     (\<exists>v b. u = Some v \<and> us_status v = USER_ACTIVE \<and> us_issuer v \<and> bd_active b
        \<and> (te_tags (ae_tags E) tag = Some b \<or> te_emaids (ae_tags E) tag = Some b)
        \<and> te_access (ae_tags E) v b (cs_id (ae_station E)) A_AUTHORIZE = Inr ()
        \<and> checkBillingPrerequisites E (Some v) = Inr ())"

text \<open>
  A request to authorize a badge is answered Accepted or Invalid.  When it is invalid nothing is stored; when it is accepted
  one document more is stored, of this station and this moment, for the badge in capital letters, and unless the site
  area is open to everybody its user is a checked one.
\<close>

lemma authorized_badges_are_recorded:
  assumes "handleAuthorize E idTag ds = (answer, ds')"
  shows "(answer = AUTH_INVALID \<and> ds' = ds)
    \<or> (answer = AUTH_ACCEPTED \<and> (\<exists>d u. ds' = ds @ [d] \<and> ad_tagID d = badge_text idTag \<and> ad_userID d = map_option us_id u
         \<and> authorize_key d = (cs_id (ae_station E), ae_now E) \<and> authorize_key d \<notin> authorize_key ` set ds
         \<and> ((te_organizationActive (ae_tags E) \<longrightarrow> sa_accessControl (the (ae_siteArea E))) \<longrightarrow>
              checked_user E (ad_tagID d) u)))"
proof (cases "answer = AUTH_ACCEPTED")
  case False
  with assms show ?thesis
    by (auto simp: handleAuthorize_def stored_authorize effect_simps liftS_def bindS_def thenS_def tryS_def
        split: sum.splits prod.splits if_splits)
next
  case True
  with assms obtain tag u b authorization where
    v: "validateAuthorize idTag = Inr tag" and u: "isAuthorizedOnChargingStation (ae_tags E) (ae_station E) (ae_siteArea E) tag = Inr (u, b)"
    and billing: "checkBillingPrerequisites E u = Inr ()"
    and saved: "saveAuthorize \<lparr>ad_chargeBoxID = cs_id (ae_station E), ad_timestamp = ae_now E, ad_tagID = tag,
                 ad_authorizationId = authorization, ad_userID = map_option us_id u\<rparr> ds = (Inr (), ds')"
    by (auto simp: handleAuthorize_def effect_simps liftS_def bindS_def thenS_def tryS_def
        split: sum.splits prod.splits)
  from v have tag: "tag = badge_text idTag" by (simp add: validateAuthorize_def Let_def split: if_splits)
  have "checked_user E tag u" if "te_organizationActive (ae_tags E) \<longrightarrow> sa_accessControl (the (ae_siteArea E))"
    using controlled_authorization [OF u [unfolded isAuthorizedOnChargingStation_def]] that billing
    unfolding checked_user_def by metis
  with saved tag True show ?thesis
    by (intro disjI2 conjI exI [of _ "\<lparr>ad_chargeBoxID = cs_id (ae_station E), ad_timestamp = ae_now E, ad_tagID = tag,
          ad_authorizationId = authorization, ad_userID = map_option us_id u\<rparr>"] exI [of _ u])
      (auto simp: stored_authorize authorize_key_def split: if_splits)
qed

end
