(* ===== verification/Spec2Isabelle.thy ===== *)
theory Spec2Isabelle
  imports TariffResolution StepBilling Chunks MeterLedger LockRuns LockRequests Grants AuthorizationCache SessionSamples
    EntitySamples SmartChargingSamples TariffProfiles RegistrationSamples PlugAndChargeSamples
    WebSocketMessages BadgeAuthorize
begin

text \<open>
  A verification development for the charging station management server of the repository
  (\<open>src/cpo-server/src\<close>; file names below are relative to it).  The server talks OCPP to charging stations, keeps
  what they report in MongoDB, prices and bills the sessions, and serves a REST interface whose every request is
  checked against a table of grants.  Modelled are the parts that decide something: which station is let in and how it is
  set up, what a session is and costs, who may charge and who may do what, who holds a lock, and how the power of a
  site is shared out.

  Conventions.  The code is TypeScript.  An optional property is an option; \<open>Prelude\<close> has the truth values and
  defaults of such values, the exceptions (\<open>js_error\<close>) and the result type \<open>'a res\<close>, in which every
  raise of the code, the engine's own \<open>TypeError\<close> included, is a branch; \<open>Effects\<close> has operations that change a
  state and may raise after having changed it.  Dates are milliseconds.  Numbers (\<open>Decimals\<close>) are rationals; the
  library decimal.js, its conversion back to a number and the engine's floating point operators are the functions
  of a record \<open>runtime\<close>.  Theorems hold for every runtime, under \<open>runtime_ok\<close> (what is documented of the rounding),
  or, where quantities are added up, in exact arithmetic (\<open>exact\<close>).  A log entry, a notification or a metric is left
  out everywhere.

  Pricing (\<open>integration/pricing\<close>, \<open>types/Pricing.ts\<close>).  Data: \<open>PricingTypes\<close>, \<open>SessionTypes\<close>.
  \<open>PricingTimeLimits\<close>: times of day.  \<open>ChunkPricer\<close>: the four dimensions of a tariff, applied to a chunk.
  \<open>ConsumptionPricer\<close>: cutting a consumption into chunks of a minute; the recursion ends because the seconds that
  remain decrease.  \<open>PricingHelper\<close>, \<open>PricingEngine\<close>: contexts, resolution of the tariffs, and the facade that writes
  the price into consumption and transaction; the stored tariffs and settings are parameters.  \<open>Chunks\<close>, \<open>Ledger\<close>,
  \<open>PricingRuns\<close>, \<open>TariffResolution\<close> and \<open>StepBilling\<close> show that chunks tile a consumption, that the price of a session
  is the sum of its consumptions, that a flat fee is billed once, that pricing never raises, and which tariffs apply.

  Stations (\<open>types/ChargingStation.ts\<close>, \<open>utils/Utils.ts\<close>).  \<open>Stations\<close>: lookups by identifier, power, voltage,
  amperage, phases, limits and the counters of connector states, charge points first, then connectors; the locale
  \<open>attribute_lookup\<close> states what all lookups share.

  Meter values (\<open>server/ocpp/utils/OCPPUtils.ts\<close>, \<open>server/ocpp/services/OCPPService.ts\<close>).  \<open>MeterValues\<close>, \<open>Consumptions\<close>,
  \<open>MeterRequests\<close>: from the values of a message to consumptions and to the running values of a transaction.
  \<open>MeterLedger\<close>: the total of a transaction is its last register reading less the first.

  Sessions (\<open>OCPPService.ts\<close> with the storage classes it uses).  \<open>SessionStore\<close> and \<open>SessionState\<close>: the collections as
  lists of documents, their queries and writes, and the station and site area a handler works on, which are read when
  a message comes; a stored meter value is kept as it was read.  \<open>TagAuthorization\<close>: who may start or stop.
  \<open>SessionHandlers\<close>, \<open>SessionMessages\<close>: start, stop, meter values, status notification and soft stop as whole handlers,
  composed into \<open>serve\<close>; messages are handled one after the other.  \<open>SessionSteps\<close> to \<open>SessionBills\<close> show what each
  message leaves alone and refine the handlers to a small machine in which a session begins, runs and ends
  (\<open>SessionLife\<close>, \<open>SessionRuns\<close>); \<open>SessionStations\<close>, \<open>SessionDocuments\<close>, \<open>SessionAnswers\<close> and \<open>SessionEnergy\<close> are about
  the connector, the form of the documents, the answers and the energy.  The tenant has no roaming, billing, car
  or smart-charging component here; a start gets a number no transaction has.  The badge of a message is in capital
  letters, as its schema makes it.  \<open>BadgeAuthorize\<close>: the request to authorize a badge.

  Connections and registration (\<open>server/ocpp/json/web-socket\<close>, \<open>OCPPUtils.ts\<close>, \<open>OCPPService.ts\<close>,
  \<open>storage/mongodb/ChargingStationStorage.ts\<close>).  \<open>WebSocketMessages\<close>: the pending requests of a socket, as a step
  relation over what is sent, received and timed out.  \<open>StationConnections\<close>: the check of every request of a station, its
  boot, heartbeat and status messages; an inactive station is read as the database query shows it.
  \<open>StationTemplates\<close>, \<open>TemplateSections\<close>: the template of the vendor, and what it sets in a station and in a connector.
  \<open>OcppParameters\<close>: the OCPP parameters of a station, which is a device with a state and answers of its own; time limits
  are flags of the client, and what was begun when the time is up still ends.  \<open>StationRegistration\<close> shows that only a
  valid token lets a station in and that a restart keeps the sessions (through \<open>SessionState\<close>, whose parameter
  \<open>se_template\<close> is there the enrichment of a connector by the template); \<open>OcppSynchronisation\<close> that the parameters of
  a template reach the station.

  Plug & Charge (\<open>OCPPService.ts\<close>, \<open>server/ocpp/services/CertificateService.ts\<close>, \<open>storage/mongodb/CertificateStorage.ts\<close>).
  \<open>CertificateText\<close>: the regular expressions that clean a text, written out.  \<open>Certificates\<close>: verification, hash data,
  signing and storage; what libraries and the OCSP responder say is the record \<open>pki\<close>.  \<open>PlugAndCharge\<close>: the ten
  messages of a data transfer.  A call without \<open>await\<close> gives a promise, which is true in a condition.
  \<open>PlugAndChargeFacts\<close> shows when a contract is authorized, and that the verification decides nothing.

  Locks (\<open>locking\<close>, \<open>storage/mongodb/LockingStorage.ts\<close>).  \<open>Locking\<close>: operations of one process, and a step relation in which each
  database operation of any number of processes is a step.  \<open>LockRequests\<close>: the locks the server asks for, and that
  different requests take different locks when SHA-256 (a parameter) does not collide.  \<open>LockRuns\<close>: mutual exclusion when
  holders are done before their locks expire, a race when they are not, and that an expired lock can be taken.

  Authorization (\<open>authorization\<close>, \<open>server/rest/v1/service/AuthorizationService.ts\<close>, \<open>UtilsService.ts\<close>).  \<open>DynamicFilters\<close>: the
  filters and assertions and what they read of a user.  \<open>AuthorizationTypes\<close>, \<open>AdminGrants\<close>, \<open>UserGrants\<close>, \<open>QrCodeGrants\<close>,
  \<open>Grants\<close>: the whole table of grants.  \<open>AuthorizationRules\<close>, \<open>AuthorizationService\<close>: how a grant is applied; the library
  that finds the grants of the roles is the parameter \<open>access_control\<close>, of which \<open>honours_definition\<close> states that it
  finds those of the table.  \<open>AuthorizationCache\<close>: the cache is transparent when \<open>JSON.stringify\<close> is injective.
  \<open>EntityFlags\<close>, \<open>EntityMethods\<close>, \<open>EntityChecks\<close>: the flags a response carries and the checks a service makes, method
  by method.  \<open>EntityAccess\<close>: how a service gets hold of an entity; the query of the database is a parameter, of
  which \<open>stores_no_flags\<close> states that it returns no flags.  \<open>GrantRules\<close>, \<open>Grants\<close> and \<open>EntityGuards\<close> show that checks decide, that
  site filters restrict the query, that a flag is the permission of its action, and that entities are handed out only to
  authorized users.

  Smart charging (\<open>integration/smart-charging\<close>).  \<open>SiteAreaTree\<close>: the tree of the site areas; the objects of the code
  refer to each other, following them is bounded by the number of site areas plus one, which a path can only exceed
  in a cycle, and the theorem shows that the bound is never reached when the identifiers differ.  \<open>OptimizerCars\<close>, \<open>OptimizerFuses\<close>:
  the request of the optimizer, with the arrays of stations and assets, which the code changes while it builds the
  request, in the state; the second attempt is a call of the same function.  \<open>ChargingProfiles\<close>: profiles from the
  answer, and their application with its repetitions; the optimizer and the stations are parameters.
  \<open>TariffProfiles\<close>: limits and periods from tariffs.  \<open>FuseNumbers\<close>, \<open>FuseBudget\<close> and \<open>ProfileFacts\<close> show that a request is
  consistent, that a fuse never holds more than what is left of the power of its site area, and that every
  profile is accounted for.

  \<open>Samples\<close>, \<open>SessionSamples\<close>, \<open>EntitySamples\<close>, \<open>SmartChargingSamples\<close>, \<open>RegistrationSamples\<close> and
  \<open>PlugAndChargeSamples\<close> hold the concrete runs to which the theorems are
  applied, and runs in which the code does not do what it means to.

  Recursion is structural or has a measure everywhere but in the tree of site areas (above).  Retries of locks and profiles
  are bounded in the code itself.

  Not modelled: the servers and clients of the transport (web sockets, SOAP, HTTP), the clients of external services (roaming,
  billing, assets, cars, refunds, station vendors, the signing of certificates by Gireve), the aggregations the
  database computes for statistics and lists, mail and push messages, the scheduler, migrations, configuration and
  logging: they call libraries and services whose behaviour is not in the repository, or only move data.  Nor are the
  validations and exports of the REST services.
\<close>

end
